(* ===== verification/Prelude.thy ===== *)
theory Prelude
  imports
    Complex_Main
    "HOL-Library.Word"
    "HOL-Library.AList"
    "HOL-Library.Multiset"
    "HOL-Library.Char_ord"
    "HOL-Library.List_Lexorder"
    "HOL-Library.Product_Lexorder"
begin

text \<open>
  Shared vocabulary of the development.

  \<^item> Machine integers. \<open>u64\<close> is a 64-bit word, so \<open>+\<close> and \<open>-\<close> wrap as they do in the release
    build the repository ships (no overflow checks are configured). An \<open>i64\<close> is an \<open>int\<close> read from a
    word (\<open>as_i64\<close>, Rust's \<open>x as i64\<close>); arithmetic on it goes through \<open>wrap_i64\<close>.
  \<^item> Failures. \<open>Panic m\<close> is a Rust panic (also \<open>unwrap\<close>, \<open>expect\<close>), \<open>Err m\<close> an \<open>Err\<close> value handed
    to the caller. A fallible function returns \<open>failure + 'a\<close>; \<open>and_then\<close> is the \<open>?\<close> operator.
  \<^item> Hash maps. An \<open>AHashMap\<close> is an association list with distinct keys; the locale \<open>hash_map\<close>
    states what the clients use of it, and the interpretation \<open>ahash\<close> discharges it.
\<close>

named_theorems res_simps \<open>rewriting of fallible computations\<close>
named_theorems row_defs \<open>definitions of the database rows and the queries built from them\<close>

section \<open>Machine integers\<close>

type_synonym u8 = "8 word"
type_synonym u32 = "32 word"
type_synonym u64 = "64 word"
type_synonym i64 = int

definition as_i64 :: "u64 \<Rightarrow> i64" where
  "as_i64 w = sint w"

definition as_u64 :: "i64 \<Rightarrow> u64" where
  "as_u64 i = word_of_int i"

definition wrap_i64 :: "int \<Rightarrow> i64" where
  "wrap_i64 i = as_i64 (as_u64 i)"

lemma as_u64_as_i64 [simp]: "as_u64 (as_i64 w) = w"
  by (simp add: as_u64_def as_i64_def)

lemma as_i64_inject [simp]: "as_i64 v = as_i64 w \<longleftrightarrow> v = w"
  by (metis as_u64_as_i64)

lemma as_i64_small:
  assumes "uint w < 2 ^ 63"
  shows "as_i64 w = uint w"
proof -
  have "- (2 ^ 63) \<le> uint w" by (rule order_trans [OF _ uint_ge_0]) simp
  with assms show ?thesis
    by (simp only: as_i64_def sint_uint signed_take_bit_int_eq_self) (simp add: signed_take_bit_int_eq_self)
qed

lemma as_i64_range: "- (2 ^ 63) \<le> as_i64 w" "as_i64 w < 2 ^ 63"
  using sint_range_size [of w] by (simp_all add: as_i64_def word_size)

lemma wrap_i64_id:
  assumes "- (2 ^ 63) \<le> i" and "i < 2 ^ 63"
  shows "wrap_i64 i = i"
  using assms
  by (simp add: wrap_i64_def as_i64_def as_u64_def sint_sbintrunc' signed_take_bit_int_eq_self)

lemma uint_as_u64:
  assumes "0 \<le> i" and "i < 2 ^ 64"
  shows "uint (as_u64 i) = i"
  using assms by (intro word_of_int_inverse) (simp_all add: as_u64_def)

lemma unat_Suc_u64:
  fixes w :: u64
  assumes "w \<noteq> - 1"
  shows "unat (w + 1) = Suc (unat w)"
proof -
  have "w + 1 \<noteq> 0" using assms by (simp add: eq_neg_iff_add_eq_0)
  then show ?thesis by (simp add: add.commute [of w] unatSuc)
qed

section \<open>Failures as values\<close>

datatype failure = Panic string | Err string

fun and_then :: "'e + 'a \<Rightarrow> ('a \<Rightarrow> 'e + 'b) \<Rightarrow> 'e + 'b" where
  "and_then (Inl e) f = Inl e"
| "and_then (Inr a) f = f a"

lemma and_then_eq_Inr [simp]: "and_then m f = Inr b \<longleftrightarrow> (\<exists>a. m = Inr a \<and> f a = Inr b)"
  by (cases m) auto

lemma and_then_eq_Inl: "and_then m f = Inl e \<longleftrightarrow> m = Inl e \<or> (\<exists>a. m = Inr a \<and> f a = Inl e)"
  by (cases m) auto

lemma and_then_assoc: "and_then (and_then m f) g = and_then m (\<lambda>a. and_then (f a) g)"
  by (cases m) auto

lemma case_sum_eq_Inr [simp]:
  "(case x of Inl e \<Rightarrow> Inl (f e) | Inr a \<Rightarrow> g a) = Inr b \<longleftrightarrow> (\<exists>a. x = Inr a \<and> g a = Inr b)"
  by (cases x) auto

text \<open>\<open>option.expect(m)\<close> and \<open>option.unwrap()\<close>; \<open>result.unwrap()\<close> turns an \<open>Err\<close> into a panic.\<close>

definition expect :: "string \<Rightarrow> 'a option \<Rightarrow> failure + 'a" where
  "expect m x = (case x of None \<Rightarrow> Inl (Panic m) | Some a \<Rightarrow> Inr a)"

lemma expect_simps [simp]:
  "expect m None = Inl (Panic m)"
  "expect m (Some a) = Inr a"
  by (simp_all add: expect_def)

lemma expect_eq_Inr [simp]: "expect m x = Inr a \<longleftrightarrow> x = Some a"
  by (cases x) simp_all

fun unwrap_result :: "failure + 'a \<Rightarrow> failure + 'a" where
  "unwrap_result (Inl (Err m)) = Inl (Panic m)"
| "unwrap_result (Inl (Panic m)) = Inl (Panic m)"
| "unwrap_result (Inr a) = Inr a"

lemma unwrap_result_eq_Inr [simp]: "unwrap_result r = Inr a \<longleftrightarrow> r = Inr a"
  by (cases r rule: unwrap_result.cases) auto

lemma unwrap_result_Inl: "unwrap_result r = Inl e \<Longrightarrow> \<exists>m. e = Panic m"
  by (cases r rule: unwrap_result.cases) auto

text \<open>Mapping a fallible function over a list, stopping at the first failure as a loop does.\<close>

fun map_result :: "('a \<Rightarrow> 'e + 'b) \<Rightarrow> 'a list \<Rightarrow> 'e + 'b list" where
  "map_result f [] = Inr []"
| "map_result f (x # xs) = and_then (f x) (\<lambda>y. and_then (map_result f xs) (\<lambda>ys. Inr (y # ys)))"

lemma map_result_Inr: "map_result f xs = Inr ys \<longleftrightarrow> list_all2 (\<lambda>x y. f x = Inr y) xs ys"
  by (induction xs arbitrary: ys) (auto simp: list_all2_Cons1)

lemma map_result_all: "map_result f xs = Inr ys \<Longrightarrow> (\<And>x y. f x = Inr y \<Longrightarrow> P y) \<Longrightarrow> list_all P ys"
  by (induction xs arbitrary: ys) auto

lemma map_result_length: "map_result f xs = Inr ys \<Longrightarrow> length ys = length xs"
  by (auto simp: map_result_Inr dest: list_all2_lengthD)

text \<open>The elements of an optional value, as \<open>Option::into_iter\<close> gives them.\<close>

definition opt_list :: "'a option \<Rightarrow> 'a list" where
  "opt_list x = (case x of Some a \<Rightarrow> [a] | None \<Rightarrow> [])"

lemma opt_list_simps [simp]: "opt_list None = []" "opt_list (Some a) = [a]"
  by (simp_all add: opt_list_def)

lemma opt_list_length: "length (opt_list x) \<le> 1"
  by (simp add: opt_list_def split: option.split)

text \<open>A loop over a list that threads a state and may fail.\<close>

fun fold_result :: "('a \<Rightarrow> 's \<Rightarrow> 'e + 's) \<Rightarrow> 'a list \<Rightarrow> 's \<Rightarrow> 'e + 's" where
  "fold_result f [] s = Inr s"
| "fold_result f (x # xs) s = and_then (f x s) (fold_result f xs)"

lemma fold_result_append:
  "fold_result f (xs @ ys) s = and_then (fold_result f xs s) (fold_result f ys)"
proof (induction xs arbitrary: s)
  case Nil
  show ?case by simp
next
  case (Cons x xs)
  then show ?case by (cases "f x s") auto
qed

lemma fold_result_invariant:
  assumes "fold_result f xs s = Inr s'" and "P s"
    and "\<And>x s s'. x \<in> set xs \<Longrightarrow> P s \<Longrightarrow> f x s = Inr s' \<Longrightarrow> P s'"
  shows "P s'"
  using assms by (induction xs arbitrary: s) auto

lemma fold_result_prefix:
  assumes "fold_result f xs s = Inr s'" and "\<And>x s s'. f x s = Inr s' \<Longrightarrow> \<exists>ys. s' = s @ ys"
  shows "\<exists>ys. s' = s @ ys"
  by (rule fold_result_invariant [OF assms(1), where P = "\<lambda>s'. \<exists>ys. s' = s @ ys"])
    (use assms(2) in \<open>fastforce+\<close>)

text \<open>A part \<open>h\<close> of the state to which every step appends.\<close>

lemma fold_result_appends:
  assumes "fold_result f xs s = Inr s'" and "\<And>x s s'. x \<in> set xs \<Longrightarrow> f x s = Inr s' \<Longrightarrow> h s' = h s @ g x"
  shows "h s' = h s @ concat (map g xs)"
  using assms
proof (induction xs arbitrary: s)
  case (Cons x xs)
  then obtain s1 where s1: "f x s = Inr s1" "fold_result f xs s1 = Inr s'" by auto
  have "h s1 = h s @ g x" by (rule Cons.prems(2) [OF _ s1(1)]) simp
  with Cons.IH [OF s1(2)] Cons.prems(2) show ?case by simp
qed simp

lemma fold_result_concat:
  assumes "fold_result f xs s = Inr s'" and "\<And>x s s'. x \<in> set xs \<Longrightarrow> f x s = Inr s' \<Longrightarrow> s' = s @ g x"
  shows "s' = s @ concat (map g xs)"
  using fold_result_appends [OF assms(1), where h = "\<lambda>s. s" and g = g] assms(2) by simp

lemma map_result_concat:
  assumes "map_result f xs = Inr ys" and "\<And>x y. x \<in> set xs \<Longrightarrow> f x = Inr y \<Longrightarrow> h y = g x"
  shows "concat (map h ys) = concat (map g xs)"
  using assms by (induction xs arbitrary: ys) auto

text \<open>A loop whose only failing part reads its item is a fallible map followed by a plain loop.\<close>

lemma fold_result_map:
  "fold_result (\<lambda>x s. and_then (f x) (\<lambda>y. Inr (g y s))) xs s = and_then (map_result f xs) (\<lambda>ys. Inr (fold g ys s))"
proof (induction xs arbitrary: s)
  case (Cons x xs)
  then show ?case by (cases "f x") (simp_all add: and_then_assoc)
qed simp

section \<open>Hash maps\<close>

locale hash_map =
  fixes empty :: 'm
    and insert :: "'k \<Rightarrow> 'v \<Rightarrow> 'm \<Rightarrow> 'm"
    and remove :: "'k \<Rightarrow> 'm \<Rightarrow> 'm"
    and get :: "'m \<Rightarrow> 'k \<Rightarrow> 'v option"
    and into_values :: "'m \<Rightarrow> 'v list"
    and len :: "'m \<Rightarrow> nat"
    and wf :: "'m \<Rightarrow> bool"
  assumes get_empty: "get empty k = None"
    and get_insert: "get (insert k v m) k' = (if k' = k then Some v else get m k')"
    and get_remove: "get (remove k m) k' = (if k' = k then None else get m k')"
    and wf_empty: "wf empty"
    and wf_insert: "wf m \<Longrightarrow> wf (insert k v m)"
    and wf_remove: "wf m \<Longrightarrow> wf (remove k m)"
    and set_into_values: "wf m \<Longrightarrow> set (into_values m) = ran (get m)"
    and len_get: "wf m \<Longrightarrow> len m = card (dom (get m))"
    and len_into_values: "wf m \<Longrightarrow> length (into_values m) = len m"
    and finite_get: "finite (dom (get m))"
begin

lemma wf_fold_insert: "wf m \<Longrightarrow> wf (fold (\<lambda>x. insert (key x) (val x)) xs m)"
  by (induction xs arbitrary: m) (auto simp: wf_insert)

text \<open>Collecting items under their key keeps the last item of every key.\<close>

lemma get_fold_insert:
  "get (fold (\<lambda>x. insert (key x) (val x)) xs m) k =
     (case filter (\<lambda>x. key x = k) xs of [] \<Rightarrow> get m k | ys \<Rightarrow> Some (val (last ys)))"
proof (induction xs arbitrary: m)
  case Nil
  then show ?case by simp
next
  case (Cons x xs)
  then show ?case by (auto simp: get_insert split: list.splits)
qed

lemma remove_shrinks:
  assumes "wf m" and "get m k = Some v"
  shows "len (remove k m) < len m"
proof -
  have "dom (get (remove k m)) = dom (get m) - {k}"
    by (auto simp: get_remove split: if_splits)
  moreover have "card (dom (get m) - {k}) < card (dom (get m))"
    using assms(2) by (intro card_Diff1_less finite_get domI)
  ultimately show ?thesis
    using assms(1) by (simp only: len_get wf_remove)
qed

lemma len_zero: "wf m \<Longrightarrow> len m = 0 \<longleftrightarrow> (\<forall>k. get m k = None)"
  using finite_get [of m] by (auto simp: len_get dom_def)

end

definition distinct_keys :: "('k \<times> 'v) list \<Rightarrow> bool" where
  "distinct_keys m \<longleftrightarrow> distinct (map fst m)"

interpretation ahash: hash_map "[]" AList.update AList.delete map_of "map snd" length distinct_keys
proof (unfold_locales, goal_cases)
  case (2 k v m k')
  show ?case by (simp add: update_conv')
next
  case (3 k m k')
  show ?case by (simp add: delete_conv')
next
  case (5 m k v)
  then show ?case by (simp add: distinct_keys_def distinct_update)
next
  case (6 m k)
  then show ?case by (simp add: distinct_keys_def distinct_delete)
next
  case (7 m)
  then show ?case by (simp add: distinct_keys_def ran_distinct)
next
  case (8 m)
  then show ?case
    by (metis distinct_keys_def distinct_card dom_map_of_conv_image_fst length_map set_map)
qed (simp_all add: distinct_keys_def finite_dom_map_of)

text \<open>\<open>entry(k).or_insert(v)\<close> keeps the value already present.\<close>

definition or_insert :: "'k \<Rightarrow> 'v \<Rightarrow> ('k \<times> 'v) list \<Rightarrow> ('k \<times> 'v) list" where
  "or_insert k v m = (case map_of m k of None \<Rightarrow> AList.update k v m | Some _ \<Rightarrow> m)"

lemma get_or_insert:
  "map_of (or_insert k v m) k' = (if k' = k \<and> map_of m k = None then Some v else map_of m k')"
  by (auto simp: or_insert_def update_conv' split: option.splits)

lemma distinct_keys_or_insert: "distinct_keys m \<Longrightarrow> distinct_keys (or_insert k v m)"
  by (auto simp: or_insert_def distinct_keys_def distinct_update split: option.splits)

definition hm_or_insert_all :: "('k \<times> 'v) list \<Rightarrow> ('k \<times> 'v) list \<Rightarrow> ('k \<times> 'v) list" where
  "hm_or_insert_all m n = fold (\<lambda>(k, v). or_insert k v) n m"

lemma hm_or_insert_all_map_of:
  "map_of (hm_or_insert_all m n) k = (case map_of m k of Some v \<Rightarrow> Some v | None \<Rightarrow> map_of n k)"
proof (induction n arbitrary: m)
  case (Cons x n)
  obtain k' v where "x = (k', v)" by (rule prod.exhaust)
  with Cons [of "or_insert k' v m"] show ?case
    by (auto simp: hm_or_insert_all_def get_or_insert split: option.splits)
qed (simp add: hm_or_insert_all_def split: option.splits)

lemma hm_or_insert_all_distinct: "distinct_keys m \<Longrightarrow> distinct_keys (hm_or_insert_all m n)"
  by (induction n arbitrary: m) (auto simp: hm_or_insert_all_def distinct_keys_or_insert)

lemma length_le_one:
  assumes "distinct (map f xs)" and "set xs \<subseteq> {a}"
  shows "length xs \<le> 1"
proof -
  have "length xs = card (set xs)" using assms(1) by (simp add: distinct_map distinct_card)
  also have "\<dots> \<le> card {a}" using assms(2) by (intro card_mono) simp_all
  finally show ?thesis by simp
qed

section \<open>Slices\<close>

text \<open>
  \<open>slice.chunks(n)\<close>: consecutive chunks of \<open>n\<close> elements, the last one possibly shorter.
  The size \<open>0\<close>, on which Rust panics, is excluded by the callers.
\<close>

function chunks :: "nat \<Rightarrow> 'a list \<Rightarrow> 'a list list" where
  "chunks n xs = (if n = 0 \<or> xs = [] then [] else take n xs # chunks n (drop n xs))"
  by pat_completeness auto
termination
  by (relation "measure (length \<circ> snd)") auto

declare chunks.simps [simp del]

lemma chunks_Nil [simp]: "chunks n [] = []"
  by (subst chunks.simps) simp

lemma concat_chunks: "0 < n \<Longrightarrow> concat (chunks n xs) = xs"
proof (induction n xs rule: chunks.induct)
  case (1 n xs)
  then show ?case by (cases "xs = []") (auto simp: chunks.simps [of n xs])
qed

lemma chunks_size: "c \<in> set (chunks n xs) \<Longrightarrow> c \<noteq> [] \<and> length c \<le> n"
proof (induction n xs rule: chunks.induct)
  case (1 n xs)
  then show ?case by (cases "n = 0 \<or> xs = []") (auto simp: chunks.simps [of n xs])
qed

section \<open>Sorting by a primary key\<close>

text \<open>
  Values taken out of a hash map come in an unspecified order; sorting them by an injective key
  makes the result independent of it.
\<close>

lemma filter_eq_count_mset: "filter (\<lambda>y. x = y) xs = replicate (count (mset xs) x) x"
  by (induction xs) auto

lemma sort_key_order_independent:
  assumes "mset xs = mset ys" and "inj_on k (set xs)"
  shows "sort_key k xs = sort_key k ys"
proof (rule properties_for_sort_key)
  show "mset (sort_key k ys) = mset xs" using assms by simp
  fix x
  have set_eq: "set xs = set ys" using assms(1) by (metis set_mset_mset)
  show "filter (\<lambda>y. k x = k y) (sort_key k ys) = filter (\<lambda>y. k x = k y) xs" if "x \<in> set (sort_key k ys)"
  proof -
    have same: "k x = k z \<longleftrightarrow> x = z" if "z \<in> set xs" for z
      using that \<open>x \<in> set (sort_key k ys)\<close> assms(2) set_eq by (auto dest: inj_onD)
    have "filter (\<lambda>y. k x = k y) xs = filter (\<lambda>y. x = y) xs"
      by (rule filter_cong) (simp_all add: same)
    moreover have "filter (\<lambda>y. k x = k y) (sort_key k ys) = filter (\<lambda>y. x = y) (sort_key k ys)"
      by (rule filter_cong) (simp_all add: same set_eq)
    moreover have "mset (sort_key k ys) = mset xs" using assms(1) by simp
    ultimately show ?thesis by (simp add: filter_eq_count_mset)
  qed
qed simp

section \<open>One row per key\<close>

text \<open>
  The processors insert every row of a batch into a map under its primary key, so the last row of
  every key is kept, and sort the values by that key.
\<close>

lemma option_eqI: "(\<And>a. x = Some a \<longleftrightarrow> y = Some a) \<Longrightarrow> x = y"
  by (cases x; cases y) auto

definition last_by :: "('a \<Rightarrow> 'k) \<Rightarrow> 'k \<Rightarrow> 'a list \<Rightarrow> 'a option" where
  "last_by key k xs =
     (let ys = filter (\<lambda>x. key x = k) xs in if ys = [] then None else Some (last ys))"

definition collect_by :: "('a \<Rightarrow> 'k) \<Rightarrow> 'a list \<Rightarrow> ('k \<times> 'a) list \<Rightarrow> ('k \<times> 'a) list" where
  "collect_by key xs m = fold (\<lambda>x. AList.update (key x) x) xs m"

lemma last_by_append:
  "last_by key k (xs @ ys) = (case last_by key k ys of Some c \<Rightarrow> Some c | None \<Rightarrow> last_by key k xs)"
  by (auto simp: last_by_def Let_def)

lemma last_by_Nil [simp]: "last_by key k [] = None"
  by (simp add: last_by_def)

lemma last_by_Some: "last_by key k xs = Some c \<Longrightarrow> c \<in> set xs \<and> key c = k"
  using last_in_set [of "filter (\<lambda>x. key x = k) xs"] by (auto simp: last_by_def Let_def split: if_splits)

lemma last_by_None: "last_by key k xs = None \<longleftrightarrow> (\<forall>x \<in> set xs. key x \<noteq> k)"
  by (auto simp: last_by_def Let_def filter_empty_conv)

lemma last_by_const:
  assumes "\<And>x. x \<in> set xs \<Longrightarrow> f x = c"
  shows "map_option f (last_by key k xs) = (if k \<in> key ` set xs then Some c else None)"
proof (cases "last_by key k xs")
  case None
  then show ?thesis by (auto simp: last_by_None)
next
  case (Some x)
  with last_by_Some [OF Some] assms show ?thesis by auto
qed

lemma last_by_filter: "(\<And>x. key x = k \<Longrightarrow> P x) \<Longrightarrow> last_by key k (filter P xs) = last_by key k xs"
  unfolding last_by_def filter_filter by (metis (mono_tags, lifting) filter_cong)

lemma last_by_map: "(\<And>x. key (g x) = k \<longleftrightarrow> key' x = k') \<Longrightarrow> last_by key k (map g xs) = map_option g (last_by key' k' xs)"
  by (simp add: last_by_def filter_map comp_def last_map Let_def)

lemma collect_by_get: "map_of (collect_by key xs []) k = last_by key k xs"
  unfolding collect_by_def ahash.get_fold_insert by (auto simp: last_by_def Let_def split: list.splits)

lemma collect_by_distinct: "distinct_keys (collect_by key xs [])"
  unfolding collect_by_def by (rule ahash.wf_fold_insert [OF ahash.wf_empty])

lemma collect_by_keyed: "(k, c) \<in> set (collect_by key xs []) \<Longrightarrow> k = key c"
  using collect_by_distinct [of key xs] collect_by_get [of key xs k] last_by_Some [of key k xs c]
  by (auto simp: distinct_keys_def)

lemma collect_by_values:
  "c \<in> snd ` set (collect_by key xs []) \<longleftrightarrow> last_by key (key c) xs = Some c"
proof -
  have "c \<in> snd ` set (collect_by key xs []) \<longleftrightarrow> (key c, c) \<in> set (collect_by key xs [])"
    using collect_by_keyed [of _ _ key xs] by force
  also have "\<dots> \<longleftrightarrow> map_of (collect_by key xs []) (key c) = Some c"
    using collect_by_distinct [of key xs] by (simp add: distinct_keys_def)
  finally show ?thesis by (simp add: collect_by_get)
qed

lemma collect_by_image: "snd ` set (collect_by key xs []) = {c. last_by key (key c) xs = Some c}"
  by (rule set_eqI) (simp only: collect_by_values mem_Collect_eq)

text \<open>Sorting by anything keeps one row per key.\<close>

lemma collect_by_sort_distinct: "distinct (map key (sort_key ord (map snd (collect_by key xs []))))"
proof -
  let ?m = "collect_by key xs []"
  have "map key (map snd ?m) = map fst ?m" using collect_by_keyed [of _ _ key xs] by force
  then have "distinct (map key (map snd ?m))"
    using collect_by_distinct [of key xs] by (simp only: distinct_keys_def)
  moreover have "mset (map key (sort_key ord (map snd ?m))) = mset (map key (map snd ?m))"
    by (simp add: multiset.map_comp)
  ultimately show ?thesis using mset_eq_imp_distinct_iff by blast
qed

lemma collect_by_sorted:
  fixes key :: "'a \<Rightarrow> 'k :: linorder" and xs :: "'a list"
  defines "rows \<equiv> sort_key key (map snd (collect_by key xs []))"
  shows "distinct (map key rows)" and "sorted (map key rows)"
    and "c \<in> set rows \<longleftrightarrow> last_by key (key c) xs = Some c"
proof -
  show "distinct (map key rows)" unfolding rows_def by (rule collect_by_sort_distinct)
  show "sorted (map key rows)" by (simp add: rows_def)
  show "c \<in> set rows \<longleftrightarrow> last_by key (key c) xs = Some c"
    using collect_by_values [of c key xs] by (simp add: rows_def)
qed

text \<open>
  A map that was built in steps: \<open>collects key xs m\<close> says that \<open>m\<close> holds, under its key, the last row
  of \<open>xs\<close> for every key. \<open>insert\<close> and \<open>extend\<close> keep it, whatever way the rows arrive in.
\<close>

definition hm_extend :: "('k \<times> 'v) list \<Rightarrow> ('k \<times> 'v) list \<Rightarrow> ('k \<times> 'v) list" where
  "hm_extend m n = fold (\<lambda>(k, v). AList.update k v) n m"

definition collects :: "('a \<Rightarrow> 'k) \<Rightarrow> 'a list \<Rightarrow> ('k \<times> 'a) list \<Rightarrow> bool" where
  "collects key xs m \<longleftrightarrow> distinct_keys m \<and> (\<forall>k. map_of m k = last_by key k xs)"

lemma collects_Nil [simp]: "collects key [] []"
  by (simp add: collects_def distinct_keys_def)

lemma last_by_snoc: "last_by key k (xs @ [x]) = (if key x = k then Some x else last_by key k xs)"
  by (simp add: last_by_def)

lemma collects_insert: "collects key xs m \<Longrightarrow> collects key (xs @ [x]) (AList.update (key x) x m)"
  by (auto simp: collects_def distinct_keys_def distinct_update update_conv' last_by_snoc)

lemma hm_extend_map_of: "distinct_keys n \<Longrightarrow> map_of (hm_extend m n) = map_of m ++ map_of n"
proof (induction n arbitrary: m)
  case (Cons x n)
  obtain k v where x: "x = (k, v)" by (rule prod.exhaust)
  have "map_of (hm_extend m (x # n)) = map_of (AList.update k v m) ++ map_of n"
    using Cons by (simp add: hm_extend_def x distinct_keys_def)
  also have "\<dots> = map_of m ++ map_of (x # n)"
    using Cons.prems by (force simp: update_conv' x distinct_keys_def map_add_def fun_eq_iff
        split: option.splits dest: map_of_SomeD)
  finally show ?case .
qed (simp add: hm_extend_def)

lemma hm_extend_distinct: "distinct_keys m \<Longrightarrow> distinct_keys (hm_extend m n)"
  by (induction n arbitrary: m) (auto simp: hm_extend_def distinct_keys_def distinct_update)

lemma collects_extend: "collects key xs m \<Longrightarrow> collects key ys n \<Longrightarrow> collects key (xs @ ys) (hm_extend m n)"
  by (auto simp: collects_def hm_extend_distinct hm_extend_map_of map_add_def last_by_append split: option.splits)

text \<open>The values of a map whose keys are the keys of its rows, taken out and sorted by their key.\<close>

lemma keyed_map_values:
  fixes key :: "'a \<Rightarrow> 'k :: linorder"
  assumes "distinct_keys m" and keyed: "\<And>k c. map_of m k = Some c \<Longrightarrow> key c = k"
  shows "distinct (map key (sort_key key (map snd m)))" and "sorted (map key (sort_key key (map snd m)))"
    and "set (sort_key key (map snd m)) = {c. map_of m (key c) = Some c}"
proof -
  have get: "map_of m k = Some c \<longleftrightarrow> (k, c) \<in> set m" for k c
    using assms(1) by (simp add: distinct_keys_def)
  have "map key (map snd m) = map fst m" using keyed get by auto
  then have "distinct (map key (map snd m))" using assms(1) by (simp only: distinct_keys_def)
  moreover have "mset (map key (sort_key key (map snd m))) = mset (map key (map snd m))"
    by (simp add: multiset.map_comp)
  ultimately show "distinct (map key (sort_key key (map snd m)))" using mset_eq_imp_distinct_iff by blast
  have "c \<in> snd ` set m \<longleftrightarrow> (key c, c) \<in> set m" for c using keyed get by force
  then show "set (sort_key key (map snd m)) = {c. map_of m (key c) = Some c}" by (auto simp: get)
qed simp

lemma collects_sorted:
  fixes key :: "'a \<Rightarrow> 'k :: linorder"
  assumes "collects key xs m"
  shows "distinct (map key (sort_key key (map snd m)))" and "sorted (map key (sort_key key (map snd m)))"
    and "set (sort_key key (map snd m)) = {c. last_by key (key c) xs = Some c}"
proof -
  have "distinct_keys m" and get: "\<And>k. map_of m k = last_by key k xs"
    using assms by (simp_all add: collects_def)
  note vals = keyed_map_values [OF this(1), of key]
  have "\<And>k c. map_of m k = Some c \<Longrightarrow> key c = k" using last_by_Some by (fastforce simp: get)
  then show "distinct (map key (sort_key key (map snd m)))" and "sorted (map key (sort_key key (map snd m)))"
    and "set (sort_key key (map snd m)) = {c. last_by key (key c) xs = Some c}"
    using vals by (simp_all add: get)
qed

text \<open>The items of a list numbered from \<open>n\<close>, each giving at most one row, whose key names the item.\<close>

lemma indexed_row:
  assumes "r \<in> set (concat (map g (enumerate n xs)))"
  obtains i where "i < length xs" and "r \<in> set (g (n + i, xs ! i))"
  using assms by (auto simp: in_set_conv_nth [of _ "enumerate n xs"] nth_enumerate_eq)

lemma indexed_rows_distinct:
  assumes "\<And>i x. length (g (i, x)) \<le> 1" and "\<And>i x r. r \<in> set (g (i, x)) \<Longrightarrow> key r = enc i" and "inj enc"
  shows "distinct (map key (concat (map g (enumerate n xs))))"
proof (induction xs arbitrary: n)
  case (Cons x xs)
  let ?rest = "concat (map g (enumerate (Suc n) xs))"
  have "enc n \<notin> key ` set ?rest"
  proof
    assume "enc n \<in> key ` set ?rest"
    then obtain r where r: "r \<in> set ?rest" "key r = enc n" by (metis imageE)
    from r(1) obtain i where "r \<in> set (g (Suc n + i, xs ! i))" by (rule indexed_row)
    with r(2) show False using assms(2) injD [OF assms(3), of "Suc n + i" n] by auto
  qed
  then have "set (map key (g (n, x))) \<inter> set (map key ?rest) = {}"
    using assms(2) unfolding set_map by (intro equals0I) (metis IntE imageE)
  moreover have "distinct (map key (g (n, x)))" using assms(1) [of n x] by (cases "g (n, x)") auto
  ultimately have "distinct (map key (g (n, x)) @ map key ?rest)"
    using Cons.IH [of "Suc n"] by (simp only: distinct_append simp_thms)
  then show ?case by simp
qed simp

text \<open>The same for a loop that may fail.\<close>

lemma map_result_indexed:
  assumes "map_result f (enumerate n xs) = Inr ys"
    and "\<And>i x y. f (i, x) = Inr y \<Longrightarrow> length (h y) \<le> 1 \<and> (\<forall>r \<in> set (h y). key r = enc i)" and "inj enc"
  shows "distinct (map key (concat (map h ys)))" and "\<forall>r \<in> set (concat (map h ys)). \<exists>i. key r = enc i"
proof -
  define g where "g x = (case f x of Inr y \<Rightarrow> h y | Inl _ \<Rightarrow> [])" for x
  have eq: "concat (map h ys) = concat (map g (enumerate n xs))"
    by (rule map_result_concat [OF assms(1)]) (simp add: g_def)
  have one: "length (g (i, x)) \<le> 1" for i x
    using assms(2) [of i x] by (cases "f (i, x)") (simp_all add: g_def)
  have key: "r \<in> set (g (i, x)) \<Longrightarrow> key r = enc i" for i x r
    using assms(2) [of i x] by (cases "f (i, x)") (simp_all add: g_def)
  show "distinct (map key (concat (map h ys)))" unfolding eq
    by (rule indexed_rows_distinct [where enc = enc]) (use one key assms(3) in blast)+
  show "\<forall>r \<in> set (concat (map h ys)). \<exists>i. key r = enc i"
    unfolding eq using key by (metis indexed_row)
qed

text \<open>A step appends at most one row to a list, with the key that belongs to the step.\<close>

definition appends_one :: "('s \<Rightarrow> 'r list) \<Rightarrow> ('r \<Rightarrow> 'k) \<Rightarrow> 'k \<Rightarrow> 's \<Rightarrow> 's \<Rightarrow> bool" where
  "appends_one h key k s s' \<longleftrightarrow> (\<exists>ys. h s' = h s @ ys \<and> length ys \<le> 1 \<and> (\<forall>r \<in> set ys. key r = k))"

lemma appends_one_same: "h s' = h s \<Longrightarrow> appends_one h key k s s'"
  by (simp add: appends_one_def)

lemma appends_one_opt: "h s' = h s @ opt_list m \<Longrightarrow> (\<And>r. m = Some r \<Longrightarrow> key r = k) \<Longrightarrow> appends_one h key k s s'"
  by (cases m) (auto simp: appends_one_def)

lemma fold_appends_one:
  assumes "fold_result f (enumerate n xs) s = Inr s'"
    and "\<And>i x s s'. f (i, x) s = Inr s' \<Longrightarrow> appends_one h key (enc i) s s'" and "inj enc"
  shows "\<exists>rows. h s' = h s @ rows \<and> distinct (map key rows) \<and> (\<forall>r \<in> set rows. \<exists>i \<ge> n. key r = enc i)"
  using assms(1)
proof (induction xs arbitrary: n s)
  case (Cons x xs)
  then obtain s1 where s1: "f (n, x) s = Inr s1" "fold_result f (enumerate (Suc n) xs) s1 = Inr s'" by auto
  obtain ys where ys: "h s1 = h s @ ys" "length ys \<le> 1" "\<forall>r \<in> set ys. key r = enc n"
    using assms(2) [OF s1(1)] by (auto simp: appends_one_def)
  obtain rows where rows: "h s' = h s1 @ rows" "distinct (map key rows)" "\<forall>r \<in> set rows. \<exists>i \<ge> Suc n. key r = enc i"
    using Cons.IH [OF s1(2)] by blast
  have "enc n \<notin> key ` set rows" using rows(3) injD [OF assms(3)] by fastforce
  moreover have "distinct (map key ys)" using ys(2) by (cases ys) auto
  ultimately have "distinct (map key (ys @ rows))" using ys(3) rows(2) by auto
  moreover have "\<forall>r \<in> set (ys @ rows). \<exists>i \<ge> n. key r = enc i"
    using ys(3) rows(3) by (metis Suc_leD Un_iff order_refl set_append)
  ultimately show ?case using ys(1) rows(1) by (metis append.assoc)
qed simp

lemma map_result_in:
  "map_result f xs = Inr ys \<Longrightarrow> y \<in> set ys \<Longrightarrow> \<exists>x \<in> set xs. f x = Inr y"
  by (induction xs arbitrary: ys) auto

lemma map_result_concat_in:
  assumes "and_then (map_result f xs) (\<lambda>rs. Inr (concat rs)) = Inr ys" and "y \<in> set ys"
  obtains x r where "x \<in> set xs" and "f x = Inr r" and "y \<in> set r"
proof -
  obtain rs where rs: "map_result f xs = Inr rs" "ys = concat rs" using assms(1) by auto
  then obtain r where "r \<in> set rs" "y \<in> set r" using assms(2) by auto
  with map_result_in [OF rs(1)] that show ?thesis by blast
qed

end
