(* ===== verification/Proto.thy ===== *)
theory Proto
  imports Prelude
begin

text \<open>
  The protobuf messages the processors read. The message types come from the crate
  \<open>aptos_protos\<close>, which is not part of the repository; the records below hold the fields that the
  repository's code reads, under the same names with the message's prefix. Bytes are lists of
  8-bit words, a string is its list of UTF-8 bytes, an optional message is an \<open>option\<close>. A message
  that the code only hands to the serializer is kept as its encoded bytes (\<open>encoded\<close>).
  JSON values (\<open>serde_json::Value\<close>) are the datatype \<open>json\<close>; an object is an association list.
\<close>

type_synonym bytes = "u8 list"
type_synonym encoded = string

datatype json =
    JNull
  | JBool bool
  | JInt int
  | JFloat rat
  | JString string
  | JArray "json list"
  | JObject "(string \<times> json) list"

record timestamp =
  ts_seconds :: i64
  ts_nanos :: int

text \<open>A \<open>chrono::NaiveDateTime\<close> is determined by its seconds and nanoseconds since the epoch.\<close>

type_synonym naive_date_time = "int \<times> nat"

section \<open>Move types\<close>

datatype move_type = MoveType (mt_content: "move_type_content option")
  and move_type_content =
    ContentVector move_type
  | ContentStruct move_struct_tag
  | ContentGenericTypeParamIndex u32
  | ContentReference bool move_type
  | ContentUnparsable string
  and move_struct_tag =
    MoveStructTagPB (st_address: string) (st_module: string) (st_name: string)
      (st_generic_type_params: "move_type list")

record move_module_id =
  mmi_address :: string
  mmi_name :: string

record entry_function_id =
  efi_module :: "move_module_id option"
  efi_name :: string

section \<open>Payloads\<close>

record entry_function_payload =
  efp_function :: "entry_function_id option"
  efp_type_arguments :: "move_type list"
  efp_arguments :: "string list"
  efp_entry_function_id_str :: string

record script_payload =
  sp_code :: "bytes option"
  sp_type_arguments :: "move_type list"
  sp_arguments :: "string list"

datatype multisig_payload_type = MultisigEntryFunctionPayload entry_function_payload

record multisig_transaction_payload =
  mtp_payload :: "multisig_payload_type option"

record multisig_payload =
  mp_multisig_address :: string
  mp_transaction_payload :: "multisig_transaction_payload option"

record script_write_set =
  sws_execute_as :: string
  sws_script :: "script_payload option"

datatype write_set_type = ScriptWriteSet script_write_set | DirectWriteSet encoded

record write_set =
  ws_write_set :: "write_set_type option"

record write_set_payload =
  wsp_write_set :: "write_set option"

datatype payload_type =
    EntryFunctionPayload entry_function_payload
  | ScriptPayload script_payload
  | WriteSetPayload write_set_payload
  | MultisigPayload multisig_payload

record transaction_payload =
  tp_type :: int
  tp_payload :: "payload_type option"

section \<open>Events, signatures and requests\<close>

record event_key =
  ek_creation_number :: u64
  ek_account_address :: string

record event_pb =
  ev_key :: "event_key option"
  ev_sequence_number :: u64
  ev_type_str :: string
  ev_data :: string

record ed25519_signature =
  ed_public_key :: bytes
  ed_signature :: bytes

record multi_ed25519_signature =
  med_public_keys :: "bytes list"
  med_signatures :: "bytes list"
  med_threshold :: u32
  med_public_key_indices :: "u32 list"

text \<open>Each variant of an \<open>AnySignature\<close> holds the bytes that the code reads from it.\<close>

datatype signature_variant =
    VariantEd25519 bytes
  | VariantKeyless bytes
  | VariantWebauthn bytes
  | VariantSecp256k1Ecdsa bytes

record any_signature =
  any_type :: int
  any_signature_bytes :: bytes
  any_signature_variant :: "signature_variant option"

record single_key_signature =
  sks_public_key :: "bytes option"
  sks_signature :: "any_signature option"

record indexed_signature =
  ixs_index :: u32
  ixs_signature :: "any_signature option"

record multi_key_signature =
  mks_public_keys :: "bytes list"
  mks_signatures :: "indexed_signature list"
  mks_signatures_required :: u32

datatype account_signature_enum =
    AccountEd25519 ed25519_signature
  | AccountMultiEd25519 multi_ed25519_signature
  | AccountSingleKey single_key_signature
  | AccountMultiKey multi_key_signature

record account_signature =
  acc_signature :: "account_signature_enum option"

record multi_agent_signature =
  mas_sender :: "account_signature option"
  mas_secondary_signer_addresses :: "string list"
  mas_secondary_signers :: "account_signature list"

record fee_payer_signature = multi_agent_signature +
  fps_fee_payer_address :: string

datatype signature_enum =
    SigEd25519 ed25519_signature
  | SigMultiEd25519 multi_ed25519_signature
  | SigMultiAgent multi_agent_signature
  | SigFeePayer fee_payer_signature
  | SigSingleSender "account_signature option"

record transaction_signature =
  sig_signature :: "signature_enum option"

record user_transaction_request =
  utr_sender :: string
  utr_sequence_number :: u64
  utr_max_gas_amount :: u64
  utr_expiration_timestamp_secs :: "timestamp option"
  utr_gas_unit_price :: u64
  utr_payload :: "transaction_payload option"
  utr_signature :: "transaction_signature option"

section \<open>Write set changes\<close>

record move_module_pb =
  mm_address :: string
  mm_name :: string
  mm_friends :: "encoded list"
  mm_exposed_functions :: "encoded list"
  mm_structs :: "encoded list"

record move_module_bytecode =
  mmb_bytecode :: bytes
  mmb_abi :: "move_module_pb option"

record delete_module =
  dm_address :: string
  dm_state_key_hash :: bytes
  dm_module :: "move_module_id option"

record delete_resource =
  dr_address :: string
  dr_state_key_hash :: bytes
  dr_type :: "move_struct_tag option"
  dr_type_str :: string

record delete_table_data =
  dtd_key :: string
  dtd_key_type :: string

record delete_table_item =
  dti_state_key_hash :: bytes
  dti_handle :: string
  dti_key :: string
  dti_data :: "delete_table_data option"

record write_module =
  wm_address :: string
  wm_state_key_hash :: bytes
  wm_data :: "move_module_bytecode option"

record write_resource =
  wr_address :: string
  wr_state_key_hash :: bytes
  wr_type :: "move_struct_tag option"
  wr_type_str :: string
  wr_data :: string

record write_table_data =
  wtd_key :: string
  wtd_key_type :: string
  wtd_value :: string
  wtd_value_type :: string

record write_table_item =
  wti_state_key_hash :: bytes
  wti_handle :: string
  wti_key :: string
  wti_data :: "write_table_data option"

datatype change =
    DeleteModule delete_module
  | DeleteResource delete_resource
  | DeleteTableItem delete_table_item
  | WriteModule write_module
  | WriteResource write_resource
  | WriteTableItem write_table_item

record write_set_change_pb =
  wsc_type :: int
  wsc_change :: "change option"

section \<open>Transactions\<close>

record transaction_info =
  ti_hash :: bytes
  ti_state_change_hash :: bytes
  ti_event_root_hash :: bytes
  ti_state_checkpoint_hash :: "bytes option"
  ti_gas_used :: u64
  ti_success :: bool
  ti_vm_status :: string
  ti_accumulator_root_hash :: bytes
  ti_changes :: "write_set_change_pb list"

record block_metadata_pb =
  bm_id :: string
  bm_round :: u64
  bm_events :: "event_pb list"
  bm_previous_block_votes_bitvec :: bytes
  bm_proposer :: string
  bm_failed_proposer_indices :: "u32 list"

record genesis_pb =
  gen_payload :: "write_set option"
  gen_events :: "event_pb list"

record user_transaction =
  ut_request :: "user_transaction_request option"
  ut_events :: "event_pb list"

datatype txn_data =
    BlockMetadata block_metadata_pb
  | Genesis genesis_pb
  | StateCheckpoint
  | User user_transaction
  | Validator

record event_size_info =
  esi_type_tag_bytes :: u32
  esi_total_bytes :: u32

record write_op_size_info =
  wsi_key_bytes :: u32
  wsi_value_bytes :: u32

record transaction_size_info =
  tsi_transaction_bytes :: u32
  tsi_event_size_info :: "event_size_info list"
  tsi_write_op_size_info :: "write_op_size_info list"

record transaction =
  txn_timestamp :: "timestamp option"
  txn_version :: u64
  txn_info :: "transaction_info option"
  txn_epoch :: u64
  txn_block_height :: u64
  txn_type :: int
  txn_txn_data :: "txn_data option"
  txn_size_info :: "transaction_size_info option"

record transactions_response =
  tr_transactions :: "transaction list"
  tr_chain_id :: "u64 option"

text \<open>\<open>TransactionType\<close> of the protobuf schema; \<open>User = 4\<close>.\<close>

definition transaction_type_user :: int where
  "transaction_type_user = 4"

end
