(* ===== verification/Postgres.thy ===== *)
theory Postgres
  imports Proto
begin

text \<open>
  The database the processors write to. The queries are built by the repository (with \<open>diesel\<close>) and
  are data here: table, rows, conflict target, action, and the \<open>WHERE\<close> clause that
  \<open>UpsertFilterLatestTransactionQuery\<close> appends. Every clause in the repository compares one version
  column of the stored row with the proposed (\<open>excluded\<close>) row.

  PostgreSQL itself is a parameter \<open>exec\<close>. The locale \<open>postgres\<close> states what its documentation
  promises of \<open>INSERT ... ON CONFLICT\<close>: a statement that succeeds has the effect \<open>insert_spec\<close>
  (columns without a value take some default), and a \<open>DO UPDATE\<close> statement never succeeds when two
  of its rows have the same conflict key. The interpretation \<open>reference_pg\<close> shows the laws are
  satisfiable; properties carry \<open>postgres exec\<close> as a hypothesis.

  The second half is the client side, proved once for every guarded upsert in the locale
  \<open>guarded_query\<close>: the stored table refines the abstract map that keeps, per key, the row with the
  winning version, so the final content does not depend on the order, the grouping or the
  repetition of the statements.
\<close>

section \<open>Queries\<close>

datatype sql_value =
    SqlNull
  | SqlInt int
  | SqlBool bool
  | SqlText string
  | SqlNumeric rat
  | SqlTimestamp naive_date_time
  | SqlJson json
  | SqlBytes bytes

type_synonym sql_row = "(string \<times> sql_value) list"
type_synonym stored_row = "string \<rightharpoonup> sql_value"
type_synonym table = "sql_value list \<rightharpoonup> stored_row"
type_synonym db = "string \<Rightarrow> table"

datatype conflict_action = DoNothing | DoUpdate "string list"

record insert_query =
  iq_table :: string
  iq_rows :: "sql_row list"
  iq_target :: "string list"
  iq_action :: conflict_action

datatype where_clause = WhereLe (where_col: string) | WhereGe (where_col: string)

type_synonym query = "insert_query \<times> where_clause option"

datatype db_error = DbError string

text \<open>A database error handed to the caller by \<open>?\<close>.\<close>

fun db_result :: "db_error + 'a \<Rightarrow> failure + 'a" where
  "db_result (Inl (DbError m)) = Inl (Err m)"
| "db_result (Inr a) = Inr a"

lemma db_result_eq_Inr [simp]: "db_result r = Inr a \<longleftrightarrow> r = Inr a"
  by (cases r rule: db_result.cases) auto

section \<open>Documented effect of a statement\<close>

definition cell :: "stored_row \<Rightarrow> string \<Rightarrow> sql_value" where
  "cell r c = (case r c of Some v \<Rightarrow> v | None \<Rightarrow> SqlNull)"

definition row_key :: "string list \<Rightarrow> stored_row \<Rightarrow> sql_value list" where
  "row_key target r = map (cell r) target"

definition int_cell :: "stored_row \<Rightarrow> string \<Rightarrow> int option" where
  "int_cell r c = (case r c of Some (SqlInt i) \<Rightarrow> Some i | _ \<Rightarrow> None)"

fun where_holds :: "where_clause option \<Rightarrow> stored_row \<Rightarrow> stored_row \<Rightarrow> bool" where
  "where_holds None old new = True"
| "where_holds (Some (WhereLe c)) old new =
     (case (int_cell old c, int_cell new c) of (Some a, Some b) \<Rightarrow> a \<le> b | _ \<Rightarrow> False)"
| "where_holds (Some (WhereGe c)) old new =
     (case (int_cell old c, int_cell new c) of (Some a, Some b) \<Rightarrow> b \<le> a | _ \<Rightarrow> False)"

definition set_columns :: "string list \<Rightarrow> stored_row \<Rightarrow> stored_row \<Rightarrow> stored_row" where
  "set_columns cols old new = (\<lambda>c. if c \<in> set cols then new c else old c)"

definition upsert_row ::
  "stored_row \<Rightarrow> conflict_action \<Rightarrow> where_clause option \<Rightarrow> string list \<Rightarrow> sql_row \<Rightarrow> table \<Rightarrow> table" where
  "upsert_row dflt act wh target row t =
     (let new = dflt ++ map_of row; k = row_key target (map_of row)
      in case t k of
           None \<Rightarrow> t(k \<mapsto> new)
         | Some old \<Rightarrow>
             (case act of
                DoNothing \<Rightarrow> t
              | DoUpdate cols \<Rightarrow>
                  if where_holds wh old new then t(k \<mapsto> set_columns cols old new) else t))"

definition insert_spec :: "stored_row \<Rightarrow> insert_query \<Rightarrow> where_clause option \<Rightarrow> db \<Rightarrow> db" where
  "insert_spec dflt q wh d =
     d(iq_table q :=
         fold (upsert_row dflt (iq_action q) wh (iq_target q)) (iq_rows q) (d (iq_table q)))"

definition proposed_keys :: "insert_query \<Rightarrow> sql_value list list" where
  "proposed_keys q = map (\<lambda>r. row_key (iq_target q) (map_of r)) (iq_rows q)"

locale postgres =
  fixes exec :: "insert_query \<Rightarrow> where_clause option \<Rightarrow> db \<Rightarrow> db_error + db"
  assumes insert_effect: "exec q wh d = Inr d' \<Longrightarrow> \<exists>dflt. d' = insert_spec dflt q wh d"
    and update_once: "exec q wh d = Inr d' \<Longrightarrow> iq_action q = DoUpdate cols \<Longrightarrow>
      distinct (proposed_keys q)"
begin

lemma other_tables: "exec q wh d = Inr d' \<Longrightarrow> t \<noteq> iq_table q \<Longrightarrow> d' t = d t"
  by (auto dest!: insert_effect simp: insert_spec_def)

lemma duplicate_keys_fail:
  "iq_action q = DoUpdate cols \<Longrightarrow> \<not> distinct (proposed_keys q) \<Longrightarrow> \<exists>e. exec q wh d = Inl e"
  using update_once by (cases "exec q wh d") blast+

end

text \<open>A server that rejects exactly the duplicate keys and gives every omitted column no value.\<close>

definition pg_reference :: "insert_query \<Rightarrow> where_clause option \<Rightarrow> db \<Rightarrow> db_error + db" where
  "pg_reference q wh d =
     (if iq_action q \<noteq> DoNothing \<and> \<not> distinct (proposed_keys q)
      then Inl (DbError ''ON CONFLICT DO UPDATE command cannot affect row a second time'')
      else Inr (insert_spec Map.empty q wh d))"

interpretation reference_pg: postgres pg_reference
  by unfold_locales (auto simp: pg_reference_def split: if_splits)

fun exec_all ::
  "(insert_query \<Rightarrow> where_clause option \<Rightarrow> db \<Rightarrow> db_error + db) \<Rightarrow> query list \<Rightarrow> db \<Rightarrow> db_error + db" where
  "exec_all ex [] d = Inr d"
| "exec_all ex ((q, wh) # qs) d = and_then (ex q wh d) (exec_all ex qs)"

section \<open>The abstract table: the winning version of every key\<close>

definition put :: "('r \<Rightarrow> 'k) \<Rightarrow> ('r \<Rightarrow> int) \<Rightarrow> 'r \<Rightarrow> ('k \<rightharpoonup> 'r) \<Rightarrow> ('k \<rightharpoonup> 'r)" where
  "put key ver r m =
     (case m (key r) of
        None \<Rightarrow> m(key r \<mapsto> r)
      | Some old \<Rightarrow> if ver old \<le> ver r then m(key r \<mapsto> r) else m)"

text \<open>A statement whose guard was dropped replaces the stored row whatever its version.\<close>

definition put_if :: "bool \<Rightarrow> ('r \<Rightarrow> 'k) \<Rightarrow> ('r \<Rightarrow> int) \<Rightarrow> 'r \<Rightarrow> ('k \<rightharpoonup> 'r) \<Rightarrow> ('k \<rightharpoonup> 'r)" where
  "put_if guarded key ver r m = (if guarded then put key ver r m else m(key r \<mapsto> r))"

text \<open>Guarded or not, a merged row is one of the old ones or of the new ones, and every new key is there.\<close>

lemma dom_put_if: "dom (put_if g key ver r m) = insert (key r) (dom m)"
  by (auto simp: put_if_def put_def split: option.splits if_splits)

lemma put_if_from: "put_if g key ver r m k = Some x \<Longrightarrow> x = r \<and> key r = k \<or> m k = Some x"
  by (auto simp: put_if_def put_def split: option.splits if_splits)

lemma fold_put_if_content:
  "dom (fold (\<lambda>(g, r). put_if g key ver r) ys m) = dom m \<union> key ` snd ` set ys"
  "fold (\<lambda>(g, r). put_if g key ver r) ys m k = Some x \<Longrightarrow> x \<in> snd ` set ys \<and> key x = k \<or> m k = Some x"
proof -
  show "dom (fold (\<lambda>(g, r). put_if g key ver r) ys m) = dom m \<union> key ` snd ` set ys"
  proof (induction ys arbitrary: m)
    case (Cons y ys)
    obtain g r where "y = (g, r)" by force
    with Cons.IH [of "put_if g key ver r m"] show ?case by (simp add: dom_put_if)
  qed simp
  show "fold (\<lambda>(g, r). put_if g key ver r) ys m k = Some x \<Longrightarrow> x \<in> snd ` set ys \<and> key x = k \<or> m k = Some x"
  proof (induction ys arbitrary: m)
    case (Cons y ys)
    obtain g r where y: "y = (g, r)" by force
    with Cons.IH [of "put_if g key ver r m"] Cons.prems put_if_from [of g key ver r m k x] show ?case by auto
  qed simp
qed

lemma fold_put_if_guarded:
  "\<forall>y \<in> set ys. fst y \<Longrightarrow> fold (\<lambda>(g, r). put_if g key ver r) ys m = fold (put key ver) (map snd ys) m"
  by (induction ys arbitrary: m) (auto simp: put_if_def)

definition candidates :: "('r \<Rightarrow> 'k) \<Rightarrow> 'r set \<Rightarrow> ('k \<rightharpoonup> 'r) \<Rightarrow> 'k \<Rightarrow> 'r set" where
  "candidates key X m k = {x \<in> X. key x = k} \<union> set_option (m k)"

definition keyed :: "('r \<Rightarrow> 'k) \<Rightarrow> ('k \<rightharpoonup> 'r) \<Rightarrow> bool" where
  "keyed key m \<longleftrightarrow> (\<forall>k r. m k = Some r \<longrightarrow> key r = k)"

text \<open>Two rows with the same key and the same version are the same row.\<close>

definition agreeing :: "('r \<Rightarrow> 'k) \<Rightarrow> ('r \<Rightarrow> int) \<Rightarrow> 'r set \<Rightarrow> bool" where
  "agreeing key ver X \<longleftrightarrow> (\<forall>x \<in> X. \<forall>y \<in> X. key x = key y \<longrightarrow> ver x = ver y \<longrightarrow> x = y)"

lemma agreeing_subset: "agreeing key ver Y \<Longrightarrow> X \<subseteq> Y \<Longrightarrow> agreeing key ver X"
  by (auto simp: agreeing_def)

lemma keyed_put: "keyed key m \<Longrightarrow> keyed key (put key ver r m)"
  by (auto simp: keyed_def put_def split: option.splits)

lemma ran_put: "ran (put key ver r m) \<subseteq> insert r (ran m)"
  by (auto simp: put_def ran_def split: option.splits if_splits)

lemma put_winner:
  assumes "keyed key m" and "agreeing key ver (set xs \<union> ran m)"
  shows "fold (put key ver) xs m k = Some r \<longleftrightarrow>
    r \<in> candidates key (set xs) m k \<and> (\<forall>y \<in> candidates key (set xs) m k. ver y \<le> ver r)"
  using assms
proof (induction xs arbitrary: m)
  case Nil
  then show ?case by (auto simp: candidates_def)
next
  case (Cons x xs)
  have sub: "set xs \<union> ran (put key ver x m) \<subseteq> set (x # xs) \<union> ran m"
    using ran_put [of key ver x m] by auto
  have IH: "fold (put key ver) xs (put key ver x m) k = Some r \<longleftrightarrow>
      r \<in> candidates key (set xs) (put key ver x m) k \<and>
      (\<forall>y \<in> candidates key (set xs) (put key ver x m) k. ver y \<le> ver r)"
    by (rule Cons.IH) (use Cons.prems sub in \<open>auto intro: keyed_put agreeing_subset\<close>)
  show ?case
  proof (cases "key x = k")
    case False
    then have "candidates key (set (x # xs)) m k = candidates key (set xs) (put key ver x m) k"
      by (auto simp: candidates_def put_def split: option.splits)
    with IH show ?thesis by simp
  next
    case True
    let ?rest = "{y \<in> set xs. key y = k}"
    show ?thesis
    proof (cases "m k")
      case None
      with True have "candidates key (set (x # xs)) m k = candidates key (set xs) (put key ver x m) k"
        by (auto simp: candidates_def put_def)
      with IH show ?thesis by simp
    next
      case (Some old)
      have same: "old = x" if "ver old = ver x"
      proof -
        have "key old = key x" using Cons.prems(1) Some True by (simp add: keyed_def)
        moreover have "old \<in> set (x # xs) \<union> ran m" using Some by (auto intro: ranI)
        ultimately show ?thesis
          using Cons.prems(2) that unfolding agreeing_def by (meson UnI1 list.set_intros(1))
      qed
      have "put key ver x m k = Some (if ver old \<le> ver x then x else old)"
        using True Some by (simp add: put_def)
      then have c: "candidates key (set xs) (put key ver x m) k =
          insert (if ver old \<le> ver x then x else old) ?rest"
        by (auto simp: candidates_def)
      moreover have "candidates key (set (x # xs)) m k = insert x (insert old ?rest)"
        using True Some by (auto simp: candidates_def)
      ultimately show ?thesis
        using IH same by (auto simp: order_le_less split: if_splits)
    qed
  qed
qed

lemma put_order_independent:
  assumes "keyed key m" and "agreeing key ver (set xs \<union> ran m)" and "set xs = set ys"
  shows "fold (put key ver) xs m = fold (put key ver) ys m"
proof (rule ext)
  fix k
  show "fold (put key ver) xs m k = fold (put key ver) ys m k"
  proof (cases "fold (put key ver) xs m k")
    case None
    then have "\<nexists>r. fold (put key ver) ys m k = Some r"
      using put_winner [OF assms(1,2), of k] put_winner [OF assms(1), of ver ys k] assms by auto
    with None show ?thesis by simp
  next
    case (Some r)
    then show ?thesis
      using put_winner [OF assms(1,2), of k r] put_winner [OF assms(1), of ver ys k r] assms by auto
  qed
qed

lemma keyed_fold_put: "keyed key m \<Longrightarrow> keyed key (fold (put key ver) xs m)"
  by (induction xs arbitrary: m) (auto intro: keyed_put)


section \<open>Guarded upserts refine the abstract table\<close>

definition int_of :: "stored_row \<Rightarrow> string \<Rightarrow> int" where
  "int_of r c = (case r c of Some (SqlInt i) \<Rightarrow> i | _ \<Rightarrow> 0)"

text \<open>The version by which a clause compares rows; \<open>>=\<close> keeps the smallest, hence the sign.\<close>

fun where_ver :: "where_clause \<Rightarrow> stored_row \<Rightarrow> int" where
  "where_ver (WhereLe c) r = int_of r c"
| "where_ver (WhereGe c) r = - int_of r c"

definition has_version :: "where_clause \<Rightarrow> stored_row \<Rightarrow> bool" where
  "has_version w r \<longleftrightarrow> int_cell r (where_col w) \<noteq> None"

lemma has_versionE:
  assumes "has_version w r"
  obtains i where "r (where_col w) = Some (SqlInt i)"
  using assms by (auto simp: has_version_def int_cell_def split: option.splits sql_value.splits)

lemma where_holds_ver:
  "has_version w old \<Longrightarrow> has_version w new \<Longrightarrow>
   where_holds (Some w) old new \<longleftrightarrow> where_ver w old \<le> where_ver w new"
  by (cases w) (auto simp: has_version_def int_cell_def int_of_def split: option.splits sql_value.splits)

definition view :: "string set \<Rightarrow> table \<Rightarrow> table" where
  "view C t = (\<lambda>k. map_option (\<lambda>r. r |` C) (t k))"

definition table_ok :: "string list \<Rightarrow> where_clause \<Rightarrow> string set \<Rightarrow> table \<Rightarrow> bool" where
  "table_ok target w C t \<longleftrightarrow>
     (\<forall>k r. t k = Some r \<longrightarrow> row_key target r = k \<and> C \<subseteq> dom r \<and> has_version w r)"

lemma table_ok_empty: "table_ok target w C Map.empty"
  by (simp add: table_ok_def)

lemma table_ok_upd:
  "table_ok target w C t \<Longrightarrow> row_key target r = k \<Longrightarrow> C \<subseteq> dom r \<Longrightarrow> has_version w r \<Longrightarrow>
   table_ok target w C (t(k \<mapsto> r))"
  by (simp add: table_ok_def)

lemma cell_restrict: "c \<in> C \<Longrightarrow> cell (r |` C) c = cell r c"
  by (simp add: cell_def)

lemma row_key_restrict: "set target \<subseteq> C \<Longrightarrow> row_key target (r |` C) = row_key target r"
  by (auto simp: row_key_def cell_restrict)

lemma where_ver_restrict: "where_col w \<in> C \<Longrightarrow> where_ver w (r |` C) = where_ver w r"
  by (cases w) (simp_all add: int_of_def)

lemma has_version_restrict: "where_col w \<in> C \<Longrightarrow> has_version w (r |` C) = has_version w r"
  by (simp add: has_version_def int_cell_def)

lemma row_key_eq_cell: "row_key target r = row_key target r' \<Longrightarrow> c \<in> set target \<Longrightarrow> cell r c = cell r' c"
  by (simp add: row_key_def)

text \<open>A proposed row gives every column of \<open>C\<close> a value and the version column a number.\<close>

definition full_row :: "where_clause \<Rightarrow> string set \<Rightarrow> sql_row \<Rightarrow> bool" where
  "full_row w C row \<longleftrightarrow> C \<subseteq> dom (map_of row) \<and> has_version w (map_of row)"

lemma restrict_row: "fst ` set row \<subseteq> C \<Longrightarrow> map_of row |` C = map_of row"
  by (simp add: restrict_map_def fun_eq_iff) (metis domIff dom_map_of_conv_image_fst subsetD)

locale upsert_shape =
  fixes target cols :: "string list" and w :: where_clause and C :: "string set"
  assumes target_sub: "set target \<subseteq> C"
    and C_sub: "C \<subseteq> set target \<union> set cols"
    and ver_in: "where_col w \<in> C"
begin

lemma restrict_default: "full_row w C row \<Longrightarrow> (dflt ++ map_of row) |` C = map_of row |` C"
  by (fastforce simp: full_row_def restrict_map_def map_add_def split: option.splits)

lemma has_version_default: "full_row w C row \<Longrightarrow> has_version w (dflt ++ map_of row)"
  using restrict_default [of row dflt] has_version_restrict [OF ver_in]
  by (metis full_row_def)

lemma set_columns_restrict:
  assumes "full_row w C row" and "row_key target old = row_key target (map_of row)" and "C \<subseteq> dom old"
  shows "set_columns cols old (dflt ++ map_of row) |` C = map_of row |` C"
proof (rule ext)
  fix c
  show "(set_columns cols old (dflt ++ map_of row) |` C) c = (map_of row |` C) c"
  proof (cases "c \<in> C \<and> c \<notin> set cols")
    case True
    then have "c \<in> set target" "c \<in> dom old" "c \<in> dom (map_of row)"
      using C_sub assms by (auto simp: full_row_def)
    then have "old c = map_of row c"
      using row_key_eq_cell [OF assms(2), of c] by (auto simp: cell_def)
    with True show ?thesis by (simp add: set_columns_def)
  next
    case False
    with fun_cong [OF restrict_default [OF assms(1), of dflt], of c] show ?thesis
      by (auto simp: set_columns_def restrict_map_def)
  qed
qed

abbreviation pkey :: "stored_row \<Rightarrow> sql_value list" where
  "pkey \<equiv> row_key target"

lemma upsert_refines:
  assumes "full_row w C row" and "table_ok target w C t"
  shows "view C (upsert_row dflt (DoUpdate cols) (if g then Some w else None) target row t) =
    put_if g pkey (where_ver w) (map_of row |` C) (view C t)"
proof -
  let ?k = "pkey (map_of row)" and ?new = "dflt ++ map_of row"
  have k: "pkey (map_of row |` C) = ?k" by (rule row_key_restrict [OF target_sub])
  show ?thesis
  proof (cases "t ?k")
    case None
    then show ?thesis
      using restrict_default [OF assms(1)]
      by (auto simp: upsert_row_def put_if_def put_def view_def k fun_eq_iff)
  next
    case (Some old)
    have old: "pkey old = ?k" "C \<subseteq> dom old" "has_version w old"
      using assms(2) Some by (auto simp: table_ok_def)
    have "where_holds (Some w) old ?new \<longleftrightarrow> where_ver w (old |` C) \<le> where_ver w (map_of row |` C)"
      using where_holds_ver [OF old(3) has_version_default [OF assms(1)]]
        where_ver_restrict [OF ver_in] restrict_default [OF assms(1)] by metis
    then show ?thesis
      using Some set_columns_restrict [OF assms(1) old(1,2)]
      by (auto simp: upsert_row_def put_if_def put_def view_def k fun_eq_iff)
  qed
qed

lemma upsert_table_ok:
  assumes "full_row w C row" and "table_ok target w C t"
  shows "table_ok target w C (upsert_row dflt (DoUpdate cols) wh target row t)"
proof -
  let ?k = "pkey (map_of row)" and ?new = "dflt ++ map_of row"
  have ok: "pkey r = ?k \<and> C \<subseteq> dom r \<and> has_version w r" if "r |` C = map_of row |` C" for r
  proof -
    have "pkey r = ?k" using that row_key_restrict [OF target_sub] by metis
    moreover have "C \<subseteq> dom r"
      using that assms(1) by (auto simp: full_row_def dom_def restrict_map_def fun_eq_iff split: if_splits)
    moreover have "has_version w r"
      using that assms(1) has_version_restrict [OF ver_in] by (metis full_row_def)
    ultimately show ?thesis by simp
  qed
  show ?thesis
  proof (cases "t ?k")
    case None
    with assms ok [OF restrict_default [OF assms(1)]] show ?thesis
      by (simp add: upsert_row_def Let_def table_ok_upd)
  next
    case (Some old)
    then have "set_columns cols old ?new |` C = map_of row |` C"
      using assms by (intro set_columns_restrict) (auto simp: table_ok_def)
    from ok [OF this] assms(2) Some show ?thesis
      by (simp add: upsert_row_def Let_def table_ok_upd del: where_holds.simps)
  qed
qed

lemma fold_upsert_refines:
  assumes "\<forall>row \<in> set rows. full_row w C row" and "table_ok target w C t"
  shows "view C (fold (upsert_row dflt (DoUpdate cols) (if g then Some w else None) target) rows t) =
      fold (put_if g pkey (where_ver w)) (map (\<lambda>row. map_of row |` C) rows) (view C t) \<and>
    table_ok target w C (fold (upsert_row dflt (DoUpdate cols) (if g then Some w else None) target) rows t)"
  using assms
  by (induction rows arbitrary: t) (auto simp: upsert_refines upsert_table_ok)

lemma keyed_view: "table_ok target w C t \<Longrightarrow> keyed pkey (view C t)"
  using row_key_restrict [OF target_sub] by (auto simp: keyed_def view_def table_ok_def)

end

end
