(* ===== verification/Rust_Str.thy ===== *)
theory Rust_Str
  imports Prelude
begin

text \<open>
  Rust's \<open>str\<close> as its list of UTF-8 bytes: the operations of the standard library the processors
  use. \<open>len\<close> counts bytes, \<open>{:0>64}\<close> counts characters, and \<open>String::truncate\<close> panics when the new
  length is not on a character boundary, so all three are distinguished here.
\<close>

definition byte :: "char \<Rightarrow> nat" where
  "byte c = of_char c"

text \<open>A continuation byte of a multi-byte UTF-8 sequence is \<open>10xxxxxx\<close>.\<close>

definition is_continuation :: "char \<Rightarrow> bool" where
  "is_continuation c \<longleftrightarrow> 128 \<le> byte c \<and> byte c < 192"

definition is_ascii :: "string \<Rightarrow> bool" where
  "is_ascii s \<longleftrightarrow> list_all (\<lambda>c. byte c < 128) s"

definition char_count :: "string \<Rightarrow> nat" where
  "char_count s = length (filter (\<lambda>c. \<not> is_continuation c) s)"

definition is_char_boundary :: "string \<Rightarrow> nat \<Rightarrow> bool" where
  "is_char_boundary s n \<longleftrightarrow>
     n = 0 \<or> n = length s \<or> (n < length s \<and> \<not> is_continuation (s ! n))"

definition string_truncate :: "nat \<Rightarrow> string \<Rightarrow> failure + string" where
  "string_truncate n s =
     (if n \<le> length s
      then if is_char_boundary s n then Inr (take n s)
           else Inl (Panic ''assertion failed: self.is_char_boundary(new_len)'')
      else Inr s)"

text \<open>The slice \<open>s[n..]\<close>.\<close>

definition str_from :: "nat \<Rightarrow> string \<Rightarrow> failure + string" where
  "str_from n s =
     (if is_char_boundary s n then Inr (drop n s) else Inl (Panic ''byte index is not a char boundary''))"

definition strip_prefix :: "string \<Rightarrow> string \<Rightarrow> string option" where
  "strip_prefix p s = (if take (length p) s = p then Some (drop (length p) s) else None)"

text \<open>\<open>format!("{:0>w}", s)\<close>: pad on the left with zeros to \<open>w\<close> characters, never cut.\<close>

definition pad_zeros :: "nat \<Rightarrow> string \<Rightarrow> string" where
  "pad_zeros w s = replicate (w - char_count s) (CHR ''0'') @ s"

text \<open>\<open>s.split(sep)\<close> for a non-empty separator; \<open>find_sub\<close> is the position of the first match.\<close>

fun find_sub :: "string \<Rightarrow> string \<Rightarrow> nat option" where
  "find_sub p [] = (if p = [] then Some 0 else None)"
| "find_sub p (c # s) =
     (if take (length p) (c # s) = p then Some 0 else map_option Suc (find_sub p s))"

definition contains :: "string \<Rightarrow> string \<Rightarrow> bool" where
  "contains s p \<longleftrightarrow> find_sub p s \<noteq> None"

function split_on :: "string \<Rightarrow> string \<Rightarrow> string list" where
  "split_on p s =
     (if p = [] then [s]
      else case find_sub p s of
        None \<Rightarrow> [s]
      | Some i \<Rightarrow> take i s # split_on p (drop (i + length p) s))"
  by pat_completeness auto

lemma find_sub_bound: "find_sub p s = Some i \<Longrightarrow> i + length p \<le> length s"
proof (induction s arbitrary: i)
  case Nil
  then show ?case by (auto split: if_splits)
next
  case (Cons c s)
  then show ?case
    by (auto split: if_splits) (metis length_Cons length_take min.bounded_iff nle_le)
qed

lemma find_sub_match: "find_sub p s = Some i \<Longrightarrow> take (length p) (drop i s) = p"
  by (induction s arbitrary: i) (auto split: if_splits)

termination split_on
proof (relation "measure (length \<circ> snd)")
  fix p s :: string and i
  assume "p \<noteq> []" and "find_sub p s = Some i"
  then show "((p, drop (i + length p) s), p, s) \<in> measure (length \<circ> snd)"
    using find_sub_bound [of p s i] by (cases p) auto
qed simp

declare split_on.simps [simp del]

lemma split_on_nonempty: "split_on p s \<noteq> []"
  by (subst split_on.simps) (auto split: option.splits)

text \<open>\<open>s.replace(p, "")\<close>: drop every non-overlapping match from left to right.\<close>

definition remove_all :: "string \<Rightarrow> string \<Rightarrow> string" where
  "remove_all p s = concat (split_on p s)"

definition remove_char :: "char \<Rightarrow> string \<Rightarrow> string" where
  "remove_char c s = filter (\<lambda>d. d \<noteq> c) s"

text \<open>
  \<open>to_lowercase\<close> on the ASCII letters; other bytes are left alone (no character outside ASCII has
  one of the letters of \<open>where\<close>, the only word the code looks for, as its lower case).
\<close>

definition lower_char :: "char \<Rightarrow> char" where
  "lower_char c = (if 65 \<le> byte c \<and> byte c \<le> 90 then char_of (byte c + 32) else c)"

definition to_lowercase :: "string \<Rightarrow> string" where
  "to_lowercase s = map lower_char s"

section \<open>Laws\<close>

lemma byte_inject [simp]: "byte c = byte d \<longleftrightarrow> c = d"
  by (simp add: byte_def)

lemma char_count_append [simp]: "char_count (s @ t) = char_count s + char_count t"
  by (simp add: char_count_def)

lemma char_count_le_length: "char_count s \<le> length s"
  by (simp add: char_count_def)

lemma char_count_ascii: "is_ascii s \<Longrightarrow> char_count s = length s"
  by (induction s) (auto simp: is_ascii_def char_count_def is_continuation_def)

lemma char_count_zeros [simp]: "char_count (replicate n (CHR ''0'')) = n"
  by (induction n) (auto simp: char_count_def is_continuation_def byte_def)

lemma char_count_pad: "char_count (pad_zeros w s) = max w (char_count s)"
  by (auto simp: pad_zeros_def)

lemma pad_zeros_wide: "w \<le> char_count s \<Longrightarrow> pad_zeros w s = s"
  by (simp add: pad_zeros_def)

lemma pad_zeros_idem: "pad_zeros w (pad_zeros w s) = pad_zeros w s"
  by (simp add: pad_zeros_wide char_count_pad)

lemma pad_zeros_leading_zeros:
  "n + char_count s \<le> w \<Longrightarrow> pad_zeros w (replicate n (CHR ''0'') @ s) = pad_zeros w s"
  by (simp add: pad_zeros_def flip: append_assoc replicate_add)

lemma length_pad_zeros: "is_ascii s \<Longrightarrow> length s \<le> w \<Longrightarrow> length (pad_zeros w s) = w"
  by (simp add: pad_zeros_def char_count_ascii)

lemma strip_prefix_append [simp]: "strip_prefix p (p @ s) = Some s"
  by (simp add: strip_prefix_def)

lemma strip_prefix_Some: "strip_prefix p s = Some t \<Longrightarrow> s = p @ t"
  by (auto simp: strip_prefix_def split: if_splits) (metis append_take_drop_id)

lemma string_truncate_length: "string_truncate n s = Inr t \<Longrightarrow> length t \<le> n \<and> t = take n s"
  by (auto simp: string_truncate_def split: if_splits)

lemma string_truncate_short: "length s < n \<Longrightarrow> string_truncate n s = Inr s"
  by (simp add: string_truncate_def)

lemma ascii_not_continuation: "is_ascii s \<Longrightarrow> n < length s \<Longrightarrow> \<not> is_continuation (s ! n)"
  by (simp add: is_ascii_def list_all_length is_continuation_def not_le)

lemma string_truncate_ascii: "is_ascii s \<Longrightarrow> string_truncate n s = Inr (take n s)"
  using ascii_not_continuation [of s n]
  by (cases "n < length s") (auto simp: string_truncate_def is_char_boundary_def)

lemma string_truncate_panics_iff:
  "(\<exists>e. string_truncate n s = Inl e) \<longleftrightarrow> n < length s \<and> n \<noteq> 0 \<and> is_continuation (s ! n)"
  by (auto simp: string_truncate_def is_char_boundary_def)

lemma set_split_on: "c \<in> set (concat (split_on p s)) \<Longrightarrow> c \<in> set s"
proof (induction p s rule: split_on.induct)
  case (1 p s)
  show ?case
  proof (cases "p = []")
    case True
    with "1.prems" show ?thesis by (simp add: split_on.simps [of "[]" s])
  next
    case False
    with 1 show ?thesis
      by (auto simp: split_on.simps [of p s] split: option.splits dest: in_set_takeD in_set_dropD)
  qed
qed

lemma find_sub_infix: "find_sub p (a @ p @ b) \<noteq> None"
proof (induction a)
  case Nil
  then show ?case by (cases "p @ b") (auto split: if_splits, metis append_eq_conv_conj length_Cons)
next
  case (Cons c a)
  then show ?case by auto
qed

lemma contains_infix: "contains (a @ p @ b) p"
  by (simp add: contains_def find_sub_infix)

lemma contains_iff: "contains s p \<longleftrightarrow> (\<exists>a b. s = a @ p @ b)"
proof
  assume "contains s p"
  then obtain i where i: "find_sub p s = Some i" by (auto simp: contains_def)
  then have "s = take i s @ p @ drop (length p) (drop i s)"
    by (metis append_take_drop_id find_sub_match)
  then show "\<exists>a b. s = a @ p @ b" by blast
qed (auto simp: contains_infix)

end
