(* ===== verification/Util.thy ===== *)
theory Util
  imports Rust_Str Proto
begin

text \<open>
  \<open>utils/util.rs\<close>: addresses, truncation, payload cleaning, timestamps, null bytes and the decoding
  of hex and BCS values. What the file takes from other crates is a field of the record \<open>libs\<close>
  (SHA-256, hex, BCS, the JSON parser, \<open>chrono\<close>, the names and serializers of the generated protobuf
  types, \<open>bigdecimal\<close>, \<open>unescape\<close>, and the second group of the expression \<open>(<(.*)>)\<close> as \<open>regex\<close> finds it); the
  operations below take that record as an argument.
\<close>

text \<open>\<open>write_set_change::Type\<close> of the protobuf schema, as the code matches on it.\<close>

datatype write_set_change_type =
    TypeUnspecified | TypeDeleteModule | TypeDeleteResource | TypeDeleteTableItem
  | TypeWriteModule | TypeWriteResource | TypeWriteTableItem

text \<open>\<open>any_signature::Type\<close>, as far as the code tells its values apart.\<close>

datatype any_signature_type = AnyEd25519 | AnySecp256k1Ecdsa | AnyOther

record libs =
  lib_sha256_hex :: "string \<Rightarrow> string"
  lib_sha3_256 :: "bytes \<Rightarrow> bytes"
  lib_hex_encode :: "bytes \<Rightarrow> string"
  lib_hex_decode :: "string \<Rightarrow> bytes option"
  lib_json_from_str :: "string \<Rightarrow> json option"
  lib_from_timestamp_opt :: "int \<Rightarrow> nat \<Rightarrow> naive_date_time option"
  lib_payload_type_name :: "int \<Rightarrow> string"
  lib_transaction_type_name :: "int \<Rightarrow> string option"
  lib_write_set_change_type :: "int \<Rightarrow> write_set_change_type option"
  lib_any_signature_type :: "int \<Rightarrow> any_signature_type option"
  lib_entry_function_id_to_value :: "entry_function_id \<Rightarrow> json"
  lib_entry_function_payload_to_value :: "entry_function_payload \<Rightarrow> json option"
  lib_script_bytecode_to_value :: "bytes \<Rightarrow> json"
  lib_move_type_to_value :: "move_type \<Rightarrow> json option"
  lib_message_to_value :: "encoded \<Rightarrow> json option"
  lib_bcs_string :: "bytes \<Rightarrow> string option"
  lib_bcs_uint :: "nat \<Rightarrow> bytes \<Rightarrow> nat option"
  lib_bcs_bool :: "bytes \<Rightarrow> bool option"
  lib_bcs_bytes :: "bytes \<Rightarrow> bytes option"
  lib_bcs_bigdecimal :: "bytes \<Rightarrow> string option"
  lib_parse_bigdecimal :: "string \<Rightarrow> rat option"
  lib_bigdecimal_div :: "rat \<Rightarrow> rat \<Rightarrow> rat option"
  lib_bigdecimal_to_u64 :: "rat \<Rightarrow> u64 option"
  lib_generic_type_param :: "string \<Rightarrow> string option"
  lib_unescape :: "string \<Rightarrow> string option"

section \<open>Addresses, truncation, numbers\<close>

definition max_timestamp_secs :: i64 where
  "max_timestamp_secs = 253402300799"

definition max_entry_function_length :: nat where
  "max_entry_function_length = 1000"

definition standardize_address :: "string \<Rightarrow> string" where
  "standardize_address handle =
     (case strip_prefix ''0x'' handle of
        Some h \<Rightarrow> ''0x'' @ pad_zeros 64 h
      | None \<Rightarrow> ''0x'' @ pad_zeros 64 handle)"

definition hash_str :: "libs \<Rightarrow> string \<Rightarrow> string" where
  "hash_str L v = lib_sha256_hex L v"

definition truncate_str :: "string \<Rightarrow> nat \<Rightarrow> failure + string" where
  "truncate_str v max_chars = string_truncate max_chars v"

definition u64_to_bigdecimal :: "u64 \<Rightarrow> rat" where
  "u64_to_bigdecimal v = of_nat (unat v)"

definition bigdecimal_to_u64 :: "libs \<Rightarrow> rat \<Rightarrow> failure + u64" where
  "bigdecimal_to_u64 L v = expect ''Unable to convert big decimal to u64'' (lib_bigdecimal_to_u64 L v)"

definition ensure_not_negative :: "rat \<Rightarrow> rat" where
  "ensure_not_negative v = (if v < 0 then 0 else v)"

section \<open>Entry functions and payloads\<close>

definition get_entry_function_from_user_request ::
  "user_transaction_request \<Rightarrow> failure + string option" where
  "get_entry_function_from_user_request r =
     and_then (expect ''unwrap on None'' (utr_payload r)) (\<lambda>payload.
       case tp_payload payload of
         Some (EntryFunctionPayload p) \<Rightarrow>
           and_then (truncate_str (efp_entry_function_id_str p) max_entry_function_length)
             (\<lambda>t. Inr (Some t))
       | Some (MultisigPayload p) \<Rightarrow>
           (case mp_transaction_payload p of
              Some tp \<Rightarrow>
                and_then (expect ''unwrap on None'' (mtp_payload tp)) (\<lambda>mt.
                  case mt of MultisigEntryFunctionPayload _ \<Rightarrow> Inr None)
            | None \<Rightarrow> Inr None)
       | _ \<Rightarrow> Inr None)"

definition get_payload_type :: "libs \<Rightarrow> transaction_payload \<Rightarrow> string" where
  "get_payload_type L p = lib_payload_type_name L (tp_type p)"

text \<open>
  \<open>serde_json::from_str(arg).unwrap_or_else(|_| panic!())\<close> on every argument; the two cleaned
  payloads are serialized with their field names.
\<close>

definition clean_arguments :: "libs \<Rightarrow> string list \<Rightarrow> failure + json list" where
  "clean_arguments L args =
     map_result (\<lambda>a. expect ''Unable to serialize payload into value'' (lib_json_from_str L a)) args"

definition types_to_value :: "libs \<Rightarrow> move_type list \<Rightarrow> failure + json list" where
  "types_to_value L ts =
     map_result (\<lambda>t. expect ''Unable to serialize payload into value'' (lib_move_type_to_value L t)) ts"

definition get_clean_entry_function_payload ::
  "libs \<Rightarrow> entry_function_payload \<Rightarrow> failure + json" where
  "get_clean_entry_function_payload L p =
     and_then (clean_arguments L (efp_arguments p)) (\<lambda>args.
       and_then (types_to_value L (efp_type_arguments p)) (\<lambda>ts.
         Inr (JObject [
           (''function'', case efp_function p of
              None \<Rightarrow> JNull | Some f \<Rightarrow> lib_entry_function_id_to_value L f),
           (''type_arguments'', JArray ts),
           (''arguments'', JArray args)])))"

definition get_clean_script_payload :: "libs \<Rightarrow> script_payload \<Rightarrow> failure + json" where
  "get_clean_script_payload L p =
     and_then (clean_arguments L (sp_arguments p)) (\<lambda>args.
       and_then (types_to_value L (sp_type_arguments p)) (\<lambda>ts.
         Inr (JObject [
           (''code'', case sp_code p of
              None \<Rightarrow> JNull | Some c \<Rightarrow> lib_script_bytecode_to_value L c),
           (''type_arguments'', JArray ts),
           (''arguments'', JArray args)])))"

definition get_clean_writeset :: "libs \<Rightarrow> write_set \<Rightarrow> failure + json option" where
  "get_clean_writeset L w =
     and_then (expect ''unwrap on None'' (ws_write_set w)) (\<lambda>t.
       case t of
         ScriptWriteSet inner \<Rightarrow>
           and_then (expect ''unwrap on None'' (sws_script inner)) (\<lambda>payload.
             and_then (get_clean_script_payload L payload) (\<lambda>v. Inr (Some v)))
       | DirectWriteSet _ \<Rightarrow> Inr None)"

definition get_clean_payload :: "libs \<Rightarrow> transaction_payload \<Rightarrow> failure + json option" where
  "get_clean_payload L payload =
     (case tp_payload payload of
        None \<Rightarrow> Inr None
      | Some (EntryFunctionPayload inner) \<Rightarrow>
          and_then (get_clean_entry_function_payload L inner) (\<lambda>v. Inr (Some v))
      | Some (ScriptPayload inner) \<Rightarrow>
          and_then (get_clean_script_payload L inner) (\<lambda>v. Inr (Some v))
      | Some (WriteSetPayload inner) \<Rightarrow>
          (case wsp_write_set inner of
             Some w \<Rightarrow> get_clean_writeset L w
           | None \<Rightarrow> Inr None)
      | Some (MultisigPayload inner) \<Rightarrow>
          and_then
            (case mp_transaction_payload inner of
               Some p \<Rightarrow>
                 and_then (expect ''unwrap on None'' (mtp_payload p)) (\<lambda>mt.
                   case mt of MultisigEntryFunctionPayload efp \<Rightarrow>
                     get_clean_entry_function_payload L efp)
             | None \<Rightarrow> Inr JNull)
            (\<lambda>v. Inr (Some (JObject [
               (''multisig_address'', JString (mp_multisig_address inner)),
               (''transaction_payload'', v)]))))"

section \<open>Timestamps\<close>

definition as_u32 :: "int \<Rightarrow> nat" where
  "as_u32 i = unat (word_of_int i :: u32)"

definition parse_timestamp :: "libs \<Rightarrow> timestamp \<Rightarrow> failure + naive_date_time" where
  "parse_timestamp L ts =
     (let final_ts =
        (if max_timestamp_secs \<le> ts_seconds ts
         then \<lparr>ts_seconds = max_timestamp_secs, ts_nanos = 0\<rparr> else ts)
      in expect ''Could not parse timestamp''
           (lib_from_timestamp_opt L (ts_seconds final_ts) (as_u32 (ts_nanos final_ts))))"

definition parse_timestamp_secs :: "libs \<Rightarrow> u64 \<Rightarrow> failure + naive_date_time" where
  "parse_timestamp_secs L ts =
     expect ''Could not parse timestamp''
       (lib_from_timestamp_opt L (as_i64 (min ts (as_u64 max_timestamp_secs))) 0)"

section \<open>Null bytes\<close>

definition escaped_null :: string where
  "escaped_null = CHR 0x5C # ''u0000''"

definition string_null_byte_replacement :: "string \<Rightarrow> string" where
  "string_null_byte_replacement v = remove_all escaped_null (remove_char (CHR 0x00) v)"

primrec recurse_remove_null_bytes_from_json :: "json \<Rightarrow> json" where
  "recurse_remove_null_bytes_from_json JNull = JNull"
| "recurse_remove_null_bytes_from_json (JBool b) = JBool b"
| "recurse_remove_null_bytes_from_json (JInt i) = JInt i"
| "recurse_remove_null_bytes_from_json (JFloat r) = JFloat r"
| "recurse_remove_null_bytes_from_json (JString s) =
     (if s \<noteq> [] then JString (string_null_byte_replacement s) else JString s)"
| "recurse_remove_null_bytes_from_json (JArray xs) =
     JArray (map recurse_remove_null_bytes_from_json xs)"
| "recurse_remove_null_bytes_from_json (JObject kvs) =
     JObject (map (map_prod id recurse_remove_null_bytes_from_json) kvs)"

text \<open>
  The serializer and deserializer of a row type are derived by \<open>serde\<close>; \<open>remove_null_bytes\<close> is
  generic in them.
\<close>

record 'a serde =
  to_value :: "'a \<Rightarrow> json"
  from_value :: "json \<Rightarrow> 'a option"

definition remove_null_bytes :: "'a serde \<Rightarrow> 'a \<Rightarrow> failure + 'a" where
  "remove_null_bytes sd input =
     expect ''called Result::unwrap on an Err value''
       (from_value sd (recurse_remove_null_bytes_from_json (to_value sd input)))"

section \<open>Hex and BCS\<close>

definition bytes_to_str :: "bytes \<Rightarrow> string" where
  "bytes_to_str bs = map (\<lambda>b. char_of (unat b)) bs"

text \<open>Well-formed UTF-8, as \<open>String::from_utf8\<close> checks it.\<close>

definition cont :: "u8 \<Rightarrow> bool" where
  "cont b \<longleftrightarrow> 128 \<le> unat b \<and> unat b < 192"

fun valid_utf8 :: "bytes \<Rightarrow> bool" where
  "valid_utf8 [] = True"
| "valid_utf8 (b1 # bs) =
     (let n = unat b1 in
      if n < 128 then valid_utf8 bs
      else if 194 \<le> n \<and> n < 224 then
        (case bs of b2 # r \<Rightarrow> cont b2 \<and> valid_utf8 r | _ \<Rightarrow> False)
      else if 224 \<le> n \<and> n < 240 then
        (case bs of b2 # b3 # r \<Rightarrow>
           cont b2 \<and> (n = 224 \<longrightarrow> 160 \<le> unat b2) \<and> (n = 237 \<longrightarrow> unat b2 < 160) \<and> cont b3 \<and> valid_utf8 r
         | _ \<Rightarrow> False)
      else if 240 \<le> n \<and> n < 245 then
        (case bs of b2 # b3 # b4 # r \<Rightarrow>
           cont b2 \<and> (n = 240 \<longrightarrow> 144 \<le> unat b2) \<and> (n = 244 \<longrightarrow> unat b2 < 144) \<and> cont b3 \<and> cont b4 \<and>
           valid_utf8 r
         | _ \<Rightarrow> False)
      else False)"

definition from_utf8 :: "bytes \<Rightarrow> string option" where
  "from_utf8 bs = (if valid_utf8 bs then Some (bytes_to_str bs) else None)"

definition strip_0x :: "string \<Rightarrow> string" where
  "strip_0x v = (case strip_prefix ''0x'' v of Some h \<Rightarrow> h | None \<Rightarrow> v)"

definition convert_hex :: "libs \<Rightarrow> string \<Rightarrow> string option" where
  "convert_hex L v = Option.bind (lib_hex_decode L (strip_0x v)) from_utf8"

definition deserialize_string_from_hexstring :: "libs \<Rightarrow> string \<Rightarrow> string" where
  "deserialize_string_from_hexstring L s = (case convert_hex L s of Some t \<Rightarrow> t | None \<Rightarrow> s)"

fun nat_to_str :: "nat \<Rightarrow> string" where
  "nat_to_str n =
     (if n < 10 then [char_of (48 + n)] else nat_to_str (n div 10) @ [char_of (48 + n mod 10)])"

declare nat_to_str.simps [simp del]

definition bool_to_str :: "bool \<Rightarrow> string" where
  "bool_to_str b = (if b then ''true'' else ''false'')"

definition convert_bcs_hex :: "libs \<Rightarrow> string \<Rightarrow> string \<Rightarrow> string option" where
  "convert_bcs_hex L typ v =
     Option.bind (lib_hex_decode L (strip_0x v)) (\<lambda>decoded.
       if typ = ''0x1::string::String'' then lib_bcs_string L decoded
       else if typ = ''u8'' then map_option nat_to_str (lib_bcs_uint L 8 decoded)
       else if typ = ''u64'' then map_option nat_to_str (lib_bcs_uint L 64 decoded)
       else if typ = ''u128'' then map_option nat_to_str (lib_bcs_uint L 128 decoded)
       else if typ = ''bool'' then map_option bool_to_str (lib_bcs_bool L decoded)
       else if typ = ''address'' then map_option (\<lambda>e. ''0x'' @ e) (lib_bcs_string L decoded)
       else Some v)"

definition convert_bcs_hex_new :: "libs \<Rightarrow> u8 \<Rightarrow> string \<Rightarrow> string option" where
  "convert_bcs_hex_new L typ v =
     Option.bind (lib_hex_decode L (strip_0x v)) (\<lambda>decoded.
       if typ = 0 then map_option bool_to_str (lib_bcs_bool L decoded)
       else if typ = 1 then map_option nat_to_str (lib_bcs_uint L 8 decoded)
       else if typ = 2 then map_option nat_to_str (lib_bcs_uint L 16 decoded)
       else if typ = 3 then map_option nat_to_str (lib_bcs_uint L 32 decoded)
       else if typ = 4 then map_option nat_to_str (lib_bcs_uint L 64 decoded)
       else if typ = 5 then map_option nat_to_str (lib_bcs_uint L 128 decoded)
       else if typ = 6 then lib_bcs_bigdecimal L decoded
       else if typ = 7 then map_option (\<lambda>e. ''0x'' @ e) (lib_bcs_string L decoded)
       else if typ = 8 then map_option (\<lambda>e. ''0x'' @ lib_hex_encode L e) (lib_bcs_bytes L decoded)
       else if typ = 9 then lib_bcs_string L decoded
       else Some v)"

section \<open>JSON access and move types\<close>

text \<open>\<open>Value::get\<close>, \<open>as_str\<close>, \<open>as_array\<close>, \<open>as_object\<close>, \<open>as_u64\<close>.\<close>

fun json_get :: "string \<Rightarrow> json \<Rightarrow> json option" where
  "json_get k (JObject kvs) = map_of kvs k"
| "json_get k _ = None"

fun json_as_str :: "json \<Rightarrow> string option" where
  "json_as_str (JString s) = Some s"
| "json_as_str _ = None"

fun json_as_array :: "json \<Rightarrow> json list option" where
  "json_as_array (JArray xs) = Some xs"
| "json_as_array _ = None"

fun json_is_object :: "json \<Rightarrow> bool" where
  "json_is_object (JObject _) = True"
| "json_is_object _ = False"

fun json_as_u64 :: "json \<Rightarrow> u64 option" where
  "json_as_u64 (JInt i) = (if 0 \<le> i \<and> i < 2 ^ 64 then Some (word_of_int i) else None)"
| "json_as_u64 _ = None"

definition get_name_from_unnested_move_type :: "string \<Rightarrow> string" where
  "get_name_from_unnested_move_type move_type = last (split_on ''::'' move_type)"

text \<open>\<open>is_multisig_wallet_created_transaction\<close> reads the entry function payload of an event row.\<close>

definition is_multisig_wallet_created_transaction :: "json \<Rightarrow> bool" where
  "is_multisig_wallet_created_transaction entry_function_payload =
     (if \<not> json_is_object entry_function_payload then False
      else case json_get ''function'' entry_function_payload of
        None \<Rightarrow> False
      | Some f \<Rightarrow> (case json_get ''name'' f of
          None \<Rightarrow> False
        | Some name \<Rightarrow> (case json_as_str name of
            None \<Rightarrow> False
          | Some name_str \<Rightarrow> name_str = ''create_with_owners'')))"

section \<open>Libraries for concrete runs\<close>

definition sample_libs :: libs where
  "sample_libs =
     \<lparr>lib_sha256_hex = id, lib_sha3_256 = id, lib_hex_encode = (\<lambda>_. []), lib_hex_decode = (\<lambda>_. None),
      lib_json_from_str = (\<lambda>_. Some JNull), lib_from_timestamp_opt = (\<lambda>s n. Some (s, n)),
      lib_payload_type_name = (\<lambda>_. ''entry_function_payload''),
      lib_transaction_type_name = (\<lambda>_. Some ''user_transaction''),
      lib_write_set_change_type = (\<lambda>_. Some TypeWriteTableItem),
      lib_any_signature_type = (\<lambda>_. Some AnyEd25519),
      lib_entry_function_id_to_value = (\<lambda>_. JNull),
      lib_entry_function_payload_to_value = (\<lambda>_. Some JNull), lib_script_bytecode_to_value = (\<lambda>_. JNull),
      lib_move_type_to_value = (\<lambda>_. Some JNull), lib_message_to_value = (\<lambda>_. Some JNull),
      lib_bcs_string = (\<lambda>_. None), lib_bcs_uint = (\<lambda>_ _. None), lib_bcs_bool = (\<lambda>_. None),
      lib_bcs_bytes = (\<lambda>_. None), lib_bcs_bigdecimal = (\<lambda>_. None),
      lib_parse_bigdecimal = (\<lambda>_. Some 1), lib_bigdecimal_div = (\<lambda>a b. if b = 0 then None else Some (a / b)),
      lib_bigdecimal_to_u64 = (\<lambda>_. Some 1),
      lib_generic_type_param = (\<lambda>s. Some s), lib_unescape = (\<lambda>s. Some s)\<rparr>"

section \<open>Properties\<close>

lemma standardize_prefixed: "standardize_address (''0x'' @ h) = ''0x'' @ pad_zeros 64 h"
  by (simp add: standardize_address_def del: append_Cons)

lemma standardize_idem: "standardize_address (standardize_address s) = standardize_address s"
  by (simp add: standardize_address_def [of s] standardize_prefixed pad_zeros_idem split: option.split
      del: append_Cons append_Nil)

text \<open>
  C37: addresses have one canonical form. Up to 64 ASCII digits, with or without the prefix \<open>0x\<close> and with
  any number of leading zeros, give the same 66-byte string, and standardizing twice changes nothing.
\<close>

theorem standardize_address_canonical:
  assumes "is_ascii h" and "n + length h \<le> 64" and "strip_prefix ''0x'' h = None"
  shows "standardize_address (''0x'' @ replicate n (CHR ''0'') @ h) = standardize_address h \<and>
    length (standardize_address h) = 66 \<and>
    standardize_address (standardize_address s) = standardize_address s"
proof -
  have "standardize_address (''0x'' @ replicate n (CHR ''0'') @ h) = ''0x'' @ pad_zeros 64 h"
    using assms by (simp add: standardize_prefixed pad_zeros_leading_zeros char_count_ascii del: append_Cons)
  moreover have "standardize_address h = ''0x'' @ pad_zeros 64 h"
    using assms(3) by (simp add: standardize_address_def)
  ultimately show ?thesis using length_pad_zeros [OF assms(1)] assms(2) standardize_idem [of s] by simp
qed

theorem standardize_address_canonical_witness:
  "standardize_address ''0x00a'' = standardize_address ''a'' \<and> length (standardize_address ''a'') = 66"
  using standardize_address_canonical [of "''a''" 2]
  by (simp add: is_ascii_def byte_def strip_prefix_def numeral_2_eq_2)

text \<open>
  \<open>truncate_str\<close> cuts a string to at most \<open>max_chars\<close> bytes and leaves shorter strings alone; it panics
  exactly when the cut would fall inside a multi-byte character, so never on an ASCII string.
\<close>

lemma truncate_str_spec:
  "truncate_str v n =
     (if n < length v \<and> n \<noteq> 0 \<and> is_continuation (v ! n)
      then Inl (Panic ''assertion failed: self.is_char_boundary(new_len)'')
      else Inr (take n v))"
  by (auto simp: truncate_str_def string_truncate_def is_char_boundary_def)

text \<open>
  \<open>parse_timestamp\<close> and \<open>parse_timestamp_secs\<close> agree on whole seconds, and every timestamp from
  9999-12-31T23:59:59 on is read as that second, so no later value reaches \<open>chrono\<close>.
\<close>

lemma parse_timestamp_clamped:
  assumes "uint t < 2 ^ 63"
  shows "parse_timestamp_secs L t = parse_timestamp L \<lparr>ts_seconds = as_i64 t, ts_nanos = 0\<rparr> \<and>
    (max_timestamp_secs \<le> ts_seconds ts \<longrightarrow>
       parse_timestamp L ts = expect ''Could not parse timestamp'' (lib_from_timestamp_opt L max_timestamp_secs 0))"
proof -
  have m: "uint (as_u64 max_timestamp_secs) = max_timestamp_secs"
    by (rule uint_as_u64) (simp_all add: max_timestamp_secs_def)
  have t: "as_i64 t = uint t" by (rule as_i64_small [OF assms])
  have "as_i64 (min t (as_u64 max_timestamp_secs)) = min (uint t) max_timestamp_secs"
  proof (cases "t \<le> as_u64 max_timestamp_secs")
    case True
    then show ?thesis using t m by (simp add: min_def word_le_def)
  next
    case False
    have "as_i64 (as_u64 max_timestamp_secs) = uint (as_u64 max_timestamp_secs)"
      by (rule as_i64_small) (subst m, simp add: max_timestamp_secs_def)
    with False m show ?thesis by (simp add: min_def word_le_def)
  qed
  then show ?thesis
    by (auto simp: parse_timestamp_secs_def parse_timestamp_def t as_u32_def min_def Let_def)
qed

lemma parse_timestamp_clamped_witness:
  "parse_timestamp_secs sample_libs 1700000000 = parse_timestamp sample_libs \<lparr>ts_seconds = as_i64 1700000000, ts_nanos = 0\<rparr>"
  using parse_timestamp_clamped [of 1700000000 sample_libs] by simp

section \<open>Null bytes are removed from every string value\<close>

primrec strings_ok :: "(string \<Rightarrow> bool) \<Rightarrow> json \<Rightarrow> bool" where
  "strings_ok P JNull = True"
| "strings_ok P (JBool b) = True"
| "strings_ok P (JInt i) = True"
| "strings_ok P (JFloat r) = True"
| "strings_ok P (JString s) = P s"
| "strings_ok P (JArray xs) = list_all id (map (strings_ok P) xs)"
| "strings_ok P (JObject kvs) = list_all (\<lambda>kv. snd kv) (map (map_prod id (strings_ok P)) kvs)"

definition clean_string :: "string \<Rightarrow> bool" where
  "clean_string s \<longleftrightarrow> CHR 0x00 \<notin> set s \<and> \<not> contains s escaped_null"

lemma remove_all_absent: "\<not> contains s p \<Longrightarrow> remove_all p s = s"
  by (simp add: remove_all_def split_on.simps [of p s] contains_def)

lemma replacement_no_null: "CHR 0x00 \<notin> set (string_null_byte_replacement v)"
  using set_split_on [of "CHR 0x00" escaped_null "remove_char (CHR 0x00) v"]
  by (auto simp: string_null_byte_replacement_def remove_all_def remove_char_def)

lemma remove_char_absent: "c \<notin> set s \<Longrightarrow> remove_char c s = s"
  by (induction s) (auto simp: remove_char_def)

lemma replacement_clean: "clean_string v \<Longrightarrow> string_null_byte_replacement v = v"
  by (simp add: string_null_byte_replacement_def clean_string_def remove_char_absent remove_all_absent)

lemma recurse_no_null: "strings_ok (\<lambda>s. CHR 0x00 \<notin> set s) (recurse_remove_null_bytes_from_json j)"
proof (induction j)
  case (JArray xs)
  then show ?case by (simp add: list_all_iff)
next
  case (JObject kvs)
  then show ?case by (fastforce simp: list_all_iff)
qed (simp_all add: replacement_no_null)

lemma recurse_clean: "strings_ok clean_string j \<Longrightarrow> recurse_remove_null_bytes_from_json j = j"
proof (induction j)
  case (JArray xs)
  then show ?case by (simp add: list_all_iff map_idI)
next
  case (JObject kvs)
  have "map_prod id recurse_remove_null_bytes_from_json kv = kv" if "kv \<in> set kvs" for kv
  proof -
    obtain k v where kv: "kv = (k, v)" by force
    have "strings_ok clean_string v" using JObject.prems that kv by (force simp: list_all_iff)
    with JObject.IH [of kv v] that kv show ?thesis by simp
  qed
  then show ?case by (simp add: map_idI)
qed (simp_all add: replacement_clean)

text \<open>
  The cleaning that is tried when an insert fails leaves no null byte in any string value of the
  JSON tree, and does not touch a tree whose string values have neither a null byte nor its escape.
\<close>

lemma null_bytes_removed:
  "strings_ok (\<lambda>s. CHR 0x00 \<notin> set s) (recurse_remove_null_bytes_from_json j) \<and>
   (strings_ok clean_string j \<longrightarrow> recurse_remove_null_bytes_from_json j = j)"
  using recurse_no_null [of j] recurse_clean [of j] by blast

text \<open>
  The keys of an object are not cleaned, and a value in which the removal of an escape joins its
  neighbours to a new one keeps that one.
\<close>

lemma null_bytes_left_in_keys:
  "recurse_remove_null_bytes_from_json (JObject [([CHR 0x00], JNull)]) = JObject [([CHR 0x00], JNull)]"
  by simp

lemma escape_left_in_value:
  "contains (string_null_byte_replacement (CHR 0x5C # ''u00'' @ escaped_null @ ''00'')) escaped_null"
  by code_simp

text \<open>
  The entry function of a multisig payload is computed and dropped: the result is \<open>None\<close> whatever
  the payload holds.
\<close>

lemma multisig_entry_function_lost:
  "utr_payload r = Some p \<Longrightarrow> tp_payload p = Some (MultisigPayload m) \<Longrightarrow>
   get_entry_function_from_user_request r = Inr v \<Longrightarrow> v = None"
  by (auto simp: get_entry_function_from_user_request_def split: option.splits)
    (metis Inr_inject multisig_payload_type.case multisig_payload_type.exhaust)

end
