(* ===== verification/Database.thy ===== *)
theory Database
  imports Postgres Util
begin

text \<open>
  \<open>utils/database.rs\<close>: how the rows of a batch reach the database. \<open>execute_in_chunks\<close> cuts the rows
  into chunks and spawns one task per chunk; \<open>pg_sched\<close> is the order in which the runtime lets the
  tasks run. A task executes its query, and on any error once more with the null bytes removed.
  \<open>execute_with_better_error\<close> drops the \<open>WHERE\<close> clause when the debug text of the query, which \<open>diesel\<close>
  prints (\<open>pg_debug_query\<close>), contains the word \<open>where\<close>. Getting a connection from the pool can fail
  as the statement can, and is part of \<open>pg_exec\<close>.
\<close>

record pg_env =
  pg_exec :: "insert_query \<Rightarrow> where_clause option \<Rightarrow> db \<Rightarrow> db_error + db"
  pg_debug_query :: "insert_query \<Rightarrow> string"
  pg_sched :: "nat \<Rightarrow> nat list"

type_synonym db_op = "db \<Rightarrow> (failure + unit) \<times> db"

section \<open>Operations\<close>

definition max_diesel_param_size :: nat where
  "max_diesel_param_size = 65535 div 2"

definition clean_data_for_db :: "'a serde \<Rightarrow> 'a list \<Rightarrow> bool \<Rightarrow> failure + 'a list" where
  "clean_data_for_db sd items should_remove_null_bytes =
     (if should_remove_null_bytes then map_result (remove_null_bytes sd) items else Inr items)"

definition execute_with_better_error ::
  "pg_env \<Rightarrow> insert_query \<Rightarrow> where_clause option \<Rightarrow> db \<Rightarrow> db_error + db" where
  "execute_with_better_error env q additional_where_clause d =
     (let wh = (if contains (to_lowercase (pg_debug_query env q)) ''where''
                then None else additional_where_clause)
      in pg_exec env q wh d)"

text \<open>The variant on a connection the caller already holds.\<close>

definition execute_with_better_error_conn ::
  "pg_env \<Rightarrow> insert_query \<Rightarrow> where_clause option \<Rightarrow> db \<Rightarrow> db_error + db" where
  "execute_with_better_error_conn env q additional_where_clause d =
     (let wh = (if contains (to_lowercase (pg_debug_query env q)) ''where''
                then None else additional_where_clause)
      in pg_exec env q wh d)"

definition execute_or_retry_cleaned ::
  "pg_env \<Rightarrow> ('a list \<Rightarrow> query) \<Rightarrow> 'a serde \<Rightarrow> 'a list \<Rightarrow> insert_query \<Rightarrow> where_clause option \<Rightarrow> db_op" where
  "execute_or_retry_cleaned env build_query sd items q additional_where_clause d =
     (case execute_with_better_error env q additional_where_clause d of
        Inr d' \<Rightarrow> (Inr (), d')
      | Inl _ \<Rightarrow>
          (case clean_data_for_db sd items True of
             Inl f \<Rightarrow> (Inl f, d)
           | Inr cleaned_items \<Rightarrow>
               (let (cleaned_query, wh) = build_query cleaned_items
                in case execute_with_better_error env cleaned_query wh d of
                     Inr d' \<Rightarrow> (Inr (), d')
                   | Inl (DbError m) \<Rightarrow> (Inl (Err m), d))))"

definition chunk_task :: "pg_env \<Rightarrow> ('a list \<Rightarrow> query) \<Rightarrow> 'a serde \<Rightarrow> 'a list \<Rightarrow> db_op" where
  "chunk_task env build_query sd items d =
     (let (q, wh) = build_query items in execute_or_retry_cleaned env build_query sd items q wh d)"

text \<open>The spawned tasks in the order \<open>is\<close>; every task runs, whatever the others return.\<close>

fun run_tasks :: "db_op list \<Rightarrow> nat list \<Rightarrow> db \<Rightarrow> (nat \<times> (failure + unit)) list \<times> db" where
  "run_tasks ts [] d = ([], d)"
| "run_tasks ts (i # is) d =
     (if i < length ts
      then let (r, d1) = (ts ! i) d; (rs, d2) = run_tasks ts is d1 in ((i, r) # rs, d2)
      else run_tasks ts is d)"

text \<open>A panicked task makes the join panic; otherwise the first error in list order is returned.\<close>

definition is_panic :: "failure + unit \<Rightarrow> bool" where
  "is_panic r = (case r of Inl (Panic _) \<Rightarrow> True | _ \<Rightarrow> False)"

definition join_results :: "(failure + unit) list \<Rightarrow> failure + unit" where
  "join_results rs =
     (case filter is_panic rs of
        r # _ \<Rightarrow> r
      | [] \<Rightarrow> (case filter (\<lambda>r. r \<noteq> Inr ()) rs of r # _ \<Rightarrow> r | [] \<Rightarrow> Inr ()))"

definition results_in_order :: "(nat \<times> (failure + unit)) list \<Rightarrow> nat \<Rightarrow> (failure + unit) list" where
  "results_in_order rs n = map (\<lambda>i. case map_of rs i of Some r \<Rightarrow> r | None \<Rightarrow> Inr ()) [0..<n]"

definition execute_in_chunks ::
  "pg_env \<Rightarrow> ('a list \<Rightarrow> query) \<Rightarrow> 'a serde \<Rightarrow> 'a list \<Rightarrow> nat \<Rightarrow> db_op" where
  "execute_in_chunks env build_query sd items_to_insert chunk_size d =
     (if chunk_size = 0 then (Inl (Panic ''chunk size must be non-zero''), d)
      else let tasks = map (chunk_task env build_query sd) (chunks chunk_size items_to_insert);
               (rs, d') = run_tasks tasks (pg_sched env (length tasks)) d
           in (join_results (results_in_order rs (length tasks)), d'))"

definition get_config_table_chunk_size :: "nat \<Rightarrow> string \<Rightarrow> (string \<times> nat) list \<Rightarrow> nat" where
  "get_config_table_chunk_size field_count table_name per_table_chunk_sizes =
     (case map_of per_table_chunk_sizes table_name of
        Some n \<Rightarrow> n
      | None \<Rightarrow> max_diesel_param_size div field_count)"

text \<open>
  \<open>tokio::join!\<close> over the inserts of a processor, one per table, followed by the loop \<open>res?\<close>. The
  inserts write different tables; they are run in the order of the list and all of them run.
\<close>

fun run_ops :: "db_op list \<Rightarrow> db \<Rightarrow> (failure + unit) list \<times> db" where
  "run_ops [] d = ([], d)"
| "run_ops (f # fs) d = (let (r, d1) = f d; (rs, d2) = run_ops fs d1 in (r # rs, d2))"

definition join_inserts :: "db_op list \<Rightarrow> db_op" where
  "join_inserts ops d = (let (rs, d') = run_ops ops d in (join_results rs, d'))"

text \<open>Inserts that are awaited one after the other, each followed by \<open>?\<close>.\<close>

fun seq_inserts :: "db_op list \<Rightarrow> db_op" where
  "seq_inserts [] d = (Inr (), d)"
| "seq_inserts (f # fs) d = (case f d of (Inr _, d') \<Rightarrow> seq_inserts fs d' | (Inl e, d') \<Rightarrow> (Inl e, d'))"

text \<open>A sequence of batches, each inserted by \<open>ins\<close>, stopping at the first failure.\<close>

fun insert_batches :: "('b \<Rightarrow> db_op) \<Rightarrow> 'b list \<Rightarrow> db \<Rightarrow> failure + db" where
  "insert_batches ins [] d = Inr d"
| "insert_batches ins (b # bs) d =
     (case ins b d of (Inr _, d') \<Rightarrow> insert_batches ins bs d' | (Inl f, _) \<Rightarrow> Inl f)"

section \<open>Results of joins\<close>

lemma head_of_filter: "filter P xs = y # ys \<Longrightarrow> P y \<and> y \<in> set xs"
  by (auto dest: filter_eq_ConsD)

lemma join_results_ok: "join_results rs = Inr () \<longleftrightarrow> (\<forall>r \<in> set rs. r = Inr ())"
proof (cases "filter is_panic rs")
  case Nil
  show ?thesis
  proof (cases "filter (\<lambda>r. r \<noteq> Inr ()) rs")
    case Nil
    with \<open>filter is_panic rs = []\<close> show ?thesis
      by (auto simp: join_results_def filter_empty_conv)
  next
    case (Cons r xs)
    with head_of_filter [OF Cons] \<open>filter is_panic rs = []\<close> show ?thesis
      by (auto simp: join_results_def)
  qed
next
  case (Cons r xs)
  with head_of_filter [OF Cons] show ?thesis
    by (auto simp: join_results_def is_panic_def split: sum.splits)
qed

lemma run_ops_append:
  "run_ops (fs @ gs) d =
     (let (rs, d1) = run_ops fs d; (ss, d2) = run_ops gs d1 in (rs @ ss, d2))"
  by (induction fs arbitrary: d) (auto simp: case_prod_beta Let_def)

section \<open>Sequences of guarded upserts converge\<close>

definition where_free :: "pg_env \<Rightarrow> ('a list \<Rightarrow> query) \<Rightarrow> 'a set \<Rightarrow> bool" where
  "where_free env build X \<longleftrightarrow>
     (\<forall>xs. xs \<noteq> [] \<longrightarrow> set xs \<subseteq> X \<longrightarrow> \<not> contains (to_lowercase (pg_debug_query env (fst (build xs)))) ''where'')"

definition clean_stable :: "'a serde \<Rightarrow> 'a set \<Rightarrow> bool" where
  "clean_stable sd X \<longleftrightarrow> (\<forall>x \<in> X. remove_null_bytes sd x = Inr x)"

definition fair_sched :: "pg_env \<Rightarrow> bool" where
  "fair_sched env \<longleftrightarrow> (\<forall>n. mset (pg_sched env n) = mset [0..<n])"

lemma fair_sched_indices:
  assumes "fair_sched env"
  shows "set (pg_sched env n) = {..<n}" and "distinct (pg_sched env n)"
proof -
  have m: "mset (pg_sched env n) = mset [0..<n]" using assms by (simp add: fair_sched_def)
  have "set (pg_sched env n) = set [0..<n]" by (rule mset_eq_setD [OF m])
  then show "set (pg_sched env n) = {..<n}" by (simp add: lessThan_atLeast0)
  show "distinct (pg_sched env n)" using mset_eq_imp_distinct_iff [OF m] by simp
qed

lemma run_tasks_indices:
  "run_tasks ts is d = (rs, d') \<Longrightarrow> set is \<subseteq> {..<length ts} \<Longrightarrow> map fst rs = is"
  by (induction ts "is" d arbitrary: rs d' rule: run_tasks.induct) (auto simp: Let_def split: prod.splits)

lemma clean_stable_data: "clean_stable sd X \<Longrightarrow> set xs \<subseteq> X \<Longrightarrow> clean_data_for_db sd xs True = Inr xs"
  by (induction xs) (auto simp: clean_stable_def clean_data_for_db_def)

text \<open>What the server is asked to do: the query of the rows, with the guard unless the debug text has the word.\<close>

definition keeps_guard :: "pg_env \<Rightarrow> insert_query \<Rightarrow> bool" where
  "keeps_guard env q \<longleftrightarrow> \<not> contains (to_lowercase (pg_debug_query env q)) ''where''"

lemma where_free_keeps_guard: "where_free env build X \<Longrightarrow> set xs \<subseteq> X \<Longrightarrow> xs \<noteq> [] \<Longrightarrow> keeps_guard env (fst (build xs))"
  by (simp add: where_free_def keeps_guard_def)

lemma chunk_task_executes:
  assumes "chunk_task env build sd xs d = (Inr (), d')" and "clean_stable sd X" and "set xs \<subseteq> X"
  shows "pg_exec env (fst (build xs)) (if keeps_guard env (fst (build xs)) then snd (build xs) else None) d = Inr d'"
  using assms clean_stable_data [OF assms(2,3)]
  by (auto simp: chunk_task_def execute_or_retry_cleaned_def execute_with_better_error_def
      keeps_guard_def case_prod_beta Let_def split: sum.splits if_splits db_error.splits)

lemma execute_in_chunks_runs:
  assumes "execute_in_chunks env build sd items n d = (Inr (), d')" and "fair_sched env"
  defines "tasks \<equiv> map (chunk_task env build sd) (chunks n items)"
  obtains rs where "0 < n" and "run_tasks tasks (pg_sched env (length tasks)) d = (rs, d')"
    and "\<forall>r \<in> set rs. snd r = Inr ()" and "set (pg_sched env (length tasks)) = {..<length (chunks n items)}"
proof -
  let ?is = "pg_sched env (length tasks)"
  have n: "0 < n" using assms(1) by (auto simp: execute_in_chunks_def split: if_splits)
  obtain rs d0 where rs0: "run_tasks tasks ?is d = (rs, d0)" by (rule prod.exhaust)
  have "(join_results (results_in_order rs (length tasks)), d0) = (Inr (), d')"
    using assms(1) n rs0 unfolding execute_in_chunks_def Let_def tasks_def by (simp del: upt.simps)
  then have rs: "run_tasks tasks ?is d = (rs, d')"
    and ok: "\<forall>r \<in> set (results_in_order rs (length tasks)). r = Inr ()"
    using rs0 by (simp_all add: join_results_ok)
  have idx: "set ?is = {..<length tasks}" and "distinct ?is"
    using fair_sched_indices [OF assms(2), of "length tasks"] by simp_all
  have "map fst rs = ?is" using run_tasks_indices [OF rs] idx by simp
  have "snd r = Inr ()" if "r \<in> set rs" for r
  proof -
    have "fst r \<in> set ?is" unfolding \<open>map fst rs = ?is\<close> [symmetric] using that by simp
    moreover have "map_of rs (fst r) = Some (snd r)"
      using that \<open>map fst rs = ?is\<close> \<open>distinct ?is\<close> by (intro map_of_is_SomeI) simp_all
    ultimately show "snd r = Inr ()" using ok idx by (force simp: results_in_order_def)
  qed
  with that [OF n rs] idx show ?thesis by (simp add: tasks_def)
qed

lemma set_chunks: "0 < n \<Longrightarrow> (\<Union>c \<in> set (chunks n items). set c) = set items"
  by (metis concat_chunks set_concat)

text \<open>
  One call of \<open>execute_in_chunks\<close> as it happens at run time: the environment it meets (the server, the
  schedule of its tasks), the configured chunk size and the rows of the batch.
\<close>

type_synonym 'a insert_run = "pg_env \<times> nat \<times> 'a list"

definition insert_run :: "('a list \<Rightarrow> query) \<Rightarrow> 'a serde \<Rightarrow> 'a insert_run \<Rightarrow> db_op" where
  "insert_run build sd r = (case r of (env, n, items) \<Rightarrow> execute_in_chunks env build sd items n)"

definition run_items :: "'a insert_run list \<Rightarrow> 'a set" where
  "run_items rs = (\<Union>(env, n, items) \<in> set rs. set items)"

definition runs_ok :: "('a list \<Rightarrow> query) \<Rightarrow> 'a serde \<Rightarrow> 'a insert_run list \<Rightarrow> bool" where
  "runs_ok build sd rs \<longleftrightarrow> clean_stable sd (run_items rs) \<and>
     (\<forall>(env, n, items) \<in> set rs. postgres (pg_exec env) \<and> fair_sched env \<and> where_free env build (run_items rs))"

locale guarded_query = upsert_shape target cols w C for target cols w C +
  fixes build :: "'a list \<Rightarrow> query" and to_row :: "'a \<Rightarrow> sql_row" and tbl :: string
  assumes build: "build items =
      (\<lparr>iq_table = tbl, iq_rows = map to_row items, iq_target = target, iq_action = DoUpdate cols\<rparr>,
       Some w)"
    and rows_ok: "full_row w C (to_row a)"
begin

definition arow :: "'a \<Rightarrow> stored_row" where
  "arow a = map_of (to_row a) |` C"

lemma exec_refines:
  assumes "postgres ex" and "ex (fst (build items)) (if g then snd (build items) else None) d = Inr d'"
    and "table_ok target w C (d tbl)"
  shows "view C (d' tbl) = fold (put_if g pkey (where_ver w)) (map arow items) (view C (d tbl))"
    and "table_ok target w C (d' tbl)" and "t \<noteq> tbl \<Longrightarrow> d' t = d t"
proof -
  obtain dflt where "d' = insert_spec dflt (fst (build items)) (if g then snd (build items) else None) d"
    using postgres.insert_effect [OF assms(1,2)] by blast
  then have d': "d' tbl = fold (upsert_row dflt (DoUpdate cols) (if g then Some w else None) target)
      (map to_row items) (d tbl)" and other: "t \<noteq> tbl \<Longrightarrow> d' t = d t"
    by (simp_all add: insert_spec_def build)
  show "view C (d' tbl) = fold (put_if g pkey (where_ver w)) (map arow items) (view C (d tbl))"
    and "table_ok target w C (d' tbl)"
    using fold_upsert_refines [of "map to_row items" "d tbl" dflt g] assms(3) rows_ok
    by (simp_all add: d' arow_def [abs_def] comp_def)
  show "t \<noteq> tbl \<Longrightarrow> d' t = d t" by (rule other)
qed

text \<open>The rows of \<open>X\<close> have been merged into table \<open>t\<close>, in some order and any number of times, all of them guarded if \<open>g\<close>.\<close>

definition ingested :: "bool \<Rightarrow> 'a set \<Rightarrow> table \<Rightarrow> table \<Rightarrow> bool" where
  "ingested g X t t' \<longleftrightarrow> table_ok target w C t' \<and>
     (\<exists>ys. snd ` set ys = arow ` X \<and> (g \<longrightarrow> (\<forall>y \<in> set ys. fst y)) \<and>
       view C t' = fold (\<lambda>(g, r). put_if g pkey (where_ver w) r) ys (view C t))"

lemma ingested_refl: "table_ok target w C t \<Longrightarrow> ingested g {} t t"
  by (auto simp: ingested_def intro: exI [of _ "[]"])

lemma ingested_trans: "ingested g X t t' \<Longrightarrow> ingested g Y t' t'' \<Longrightarrow> ingested g (X \<union> Y) t t''"
proof -
  let ?put = "\<lambda>(g, r). put_if g pkey (where_ver w) r"
  assume "ingested g X t t'" and b: "ingested g Y t' t''"
  then obtain xs where xs: "snd ` set xs = arow ` X" "view C t' = fold ?put xs (view C t)" "g \<longrightarrow> (\<forall>y \<in> set xs. fst y)"
    unfolding ingested_def by blast
  obtain ys where "snd ` set ys = arow ` Y" "view C t'' = fold ?put ys (view C t')" "g \<longrightarrow> (\<forall>y \<in> set ys. fst y)"
    using b unfolding ingested_def by blast
  with xs have "snd ` set (xs @ ys) = arow ` (X \<union> Y) \<and> (g \<longrightarrow> (\<forall>y \<in> set (xs @ ys). fst y)) \<and>
      view C t'' = fold ?put (xs @ ys) (view C t)"
    by (auto simp: image_Un)
  with b show ?thesis unfolding ingested_def by blast
qed

lemma ingested_ok: "ingested g X t t' \<Longrightarrow> table_ok target w C t'"
  by (simp add: ingested_def)

lemma exec_ingested:
  assumes "postgres ex" and "ex (fst (build items)) (if k then snd (build items) else None) d = Inr d'"
    and "table_ok target w C (d tbl)" and "g \<longrightarrow> k"
  shows "ingested g (set items) (d tbl) (d' tbl)"
proof -
  have "fold (put_if k pkey (where_ver w)) rows m = fold (\<lambda>(g, r). put_if g pkey (where_ver w) r) (map (Pair k) rows) m"
    for rows m by (induction rows arbitrary: m) simp_all
  then show ?thesis
    using exec_refines [OF assms(1-3)] assms(4)
    by (auto simp: ingested_def image_image intro!: exI [of _ "map (Pair k) (map arow items)"])
qed

lemma run_tasks_ingested:
  assumes "postgres (pg_exec env)" and "g \<longrightarrow> where_free env build X" and "clean_stable sd X"
    and "\<forall>c \<in> set cs. c \<noteq> [] \<and> set c \<subseteq> X" and "table_ok target w C (d tbl)"
    and "run_tasks (map (chunk_task env build sd) cs) is d = (rs, d')"
    and "\<forall>r \<in> set rs. snd r = Inr ()" and "set is \<subseteq> {..<length cs}"
  shows "ingested g (\<Union>i \<in> set is. set (cs ! i)) (d tbl) (d' tbl)"
  using assms(5-8)
proof (induction "is" arbitrary: d rs)
  case Nil
  then show ?case by (simp add: ingested_refl)
next
  case (Cons i "is")
  obtain r1 d1 where t: "chunk_task env build sd (cs ! i) d = (r1, d1)" by fastforce
  obtain rs2 where r: "run_tasks (map (chunk_task env build sd) cs) is d1 = (rs2, d')"
    "rs = (i, r1) # rs2"
    using Cons.prems t by (auto split: prod.splits)
  have c: "set (cs ! i) \<subseteq> X" "cs ! i \<noteq> []" using assms(4) Cons.prems by simp_all
  have "r1 = Inr ()" using Cons.prems r by simp
  note exec = chunk_task_executes [OF t [unfolded this] assms(3) c(1)]
  have one: "ingested g (set (cs ! i)) (d tbl) (d1 tbl)"
    by (rule exec_ingested [OF assms(1) exec Cons.prems(1)]) (use assms(2) where_free_keeps_guard c in blast)
  have "ingested g (\<Union>i \<in> set is. set (cs ! i)) (d1 tbl) (d' tbl)"
    by (rule Cons.IH [OF ingested_ok [OF one] r(1)]) (use Cons.prems r in auto)
  from ingested_trans [OF one this] show ?case by simp
qed

lemma execute_in_chunks_ingested:
  assumes "postgres (pg_exec env)" and "g \<longrightarrow> where_free env build X" and "clean_stable sd X"
    and "fair_sched env" and "set items \<subseteq> X" and "table_ok target w C (d tbl)"
    and "execute_in_chunks env build sd items n d = (Inr (), d')"
  shows "ingested g (set items) (d tbl) (d' tbl)"
proof -
  let ?cs = "chunks n items" and ?ts = "map (chunk_task env build sd) (chunks n items)"
  let ?is = "pg_sched env (length ?ts)"
  obtain rs where n: "0 < n" and rs: "run_tasks ?ts ?is d = (rs, d')" and all_ok: "\<forall>r \<in> set rs. snd r = Inr ()"
    and idx: "set ?is = {..<length ?cs}"
    by (rule execute_in_chunks_runs [OF assms(7,4)])
  have set_items: "set items = (\<Union>c \<in> set ?cs. set c)" by (simp add: set_chunks [OF n])
  then have sub: "\<forall>c \<in> set ?cs. c \<noteq> [] \<and> set c \<subseteq> X"
    using assms(5) chunks_size [of _ n items] by blast
  have "(\<Union>i \<in> set ?is. set (?cs ! i)) = set items"
    unfolding idx set_items by (auto simp: set_conv_nth [of ?cs])
  with run_tasks_ingested [OF assms(1-3) sub assms(6) rs all_ok] idx show ?thesis by simp
qed

text \<open>The insert of one row, with its guard or without.\<close>

lemma insert_one:
  assumes "postgres (pg_exec env)" and "fair_sched env" and "clean_stable sd {a}" and "table_ok target w C (d tbl)"
    and "execute_in_chunks env build sd [a] n d = (Inr (), d')"
  shows "view C (d' tbl) = put_if (keeps_guard env (fst (build [a]))) pkey (where_ver w) (arow a) (view C (d tbl))"
proof -
  let ?ts = "map (chunk_task env build sd) (chunks n [a])"
  obtain rs where n: "0 < n" and rs: "run_tasks ?ts (pg_sched env (length ?ts)) d = (rs, d')"
    and ok: "\<forall>r \<in> set rs. snd r = Inr ()"
    by (rule execute_in_chunks_runs [OF assms(5,2)])
  have chunks: "chunks n [a] = [[a]]" using n by (simp add: chunks.simps [of n "[a]"] chunks.simps [of n "[]"])
  have "mset (pg_sched env 1) = {#0#}" using assms(2) by (simp add: fair_sched_def)
  then have "pg_sched env 1 = [0]" by (simp add: mset_single_iff)
  with rs ok have "chunk_task env build sd [a] d = (Inr (), d')"
    by (auto simp: chunks Let_def split: prod.splits)
  from exec_refines(1) [OF assms(1) chunk_task_executes [OF this assms(3)] assms(4)] show ?thesis by simp
qed

lemma ingested_content:
  assumes "ingested g X t t'"
  shows "dom (view C t') = dom (view C t) \<union> (\<lambda>a. pkey (arow a)) ` X"
    and "view C t' k = Some r \<Longrightarrow> (\<exists>a \<in> X. r = arow a \<and> pkey r = k) \<or> view C t k = Some r"
proof -
  obtain ys where ys: "snd ` set ys = arow ` X" "view C t' = fold (\<lambda>(g, r). put_if g pkey (where_ver w) r) ys (view C t)"
    using assms by (auto simp: ingested_def)
  show "dom (view C t') = dom (view C t) \<union> (\<lambda>a. pkey (arow a)) ` X"
    unfolding ys(2) fold_put_if_content(1) ys(1) by (simp add: image_image)
  show "(\<exists>a \<in> X. r = arow a \<and> pkey r = k) \<or> view C t k = Some r" if "view C t' k = Some r"
    using fold_put_if_content(2) [OF that [unfolded ys(2)]] ys(1) by auto
qed

lemma ingested_winner:
  assumes "ingested True X t t'" and "table_ok target w C t"
    and "agreeing pkey (where_ver w) (arow ` X \<union> ran (view C t))"
  shows "view C t' k = Some r \<longleftrightarrow>
    r \<in> candidates pkey (arow ` X) (view C t) k \<and>
    (\<forall>y \<in> candidates pkey (arow ` X) (view C t) k. where_ver w y \<le> where_ver w r)"
proof -
  obtain ys where ys: "snd ` set ys = arow ` X" "\<forall>y \<in> set ys. fst y"
      "view C t' = fold (\<lambda>(g, r). put_if g pkey (where_ver w) r) ys (view C t)"
    using assms(1) by (auto simp: ingested_def)
  have "view C t' = fold (put pkey (where_ver w)) (map snd ys) (view C t)"
    unfolding ys(3) by (rule fold_put_if_guarded [OF ys(2)])
  with put_winner [OF keyed_view [OF assms(2)], of "where_ver w" "map snd ys" k r] ys(1) assms(3) show ?thesis by simp
qed

lemma ingested_empty_winner:
  assumes "ingested True X Map.empty t'" and "agreeing pkey (where_ver w) (arow ` X)"
  shows "view C t' k = Some r \<longleftrightarrow>
    (\<exists>a \<in> X. pkey (arow a) = k \<and> r = arow a \<and>
       (\<forall>b \<in> X. pkey (arow b) = k \<longrightarrow> where_ver w (arow b) \<le> where_ver w (arow a)))"
proof -
  have "view C Map.empty = Map.empty" by (simp add: view_def)
  with ingested_winner [OF assms(1) table_ok_empty, of k r] assms(2) show ?thesis
    by (auto simp: candidates_def)
qed

lemma insert_batches_ingested:
  assumes "clean_stable sd X" and "run_items rs \<subseteq> X"
    and "\<forall>(env, n, items) \<in> set rs. postgres (pg_exec env) \<and> fair_sched env \<and> where_free env build X"
    and "table_ok target w C (d tbl)" and "insert_batches (insert_run build sd) rs d = Inr d'"
  shows "ingested True (run_items rs) (d tbl) (d' tbl)"
  using assms(2-)
proof (induction rs arbitrary: d)
  case Nil
  then show ?case by (simp add: run_items_def ingested_refl)
next
  case (Cons x rs)
  obtain env n items where x: "x = (env, n, items)" by (rule prod_cases3)
  have items: "set items \<subseteq> X" "run_items rs \<subseteq> X" "run_items (x # rs) = set items \<union> run_items rs"
    using Cons.prems(1) by (auto simp: run_items_def x)
  have env: "postgres (pg_exec env)" "fair_sched env" "where_free env build X"
    using Cons.prems(2) x by auto
  obtain d1 where d1: "execute_in_chunks env build sd items n d = (Inr (), d1)"
      "insert_batches (insert_run build sd) rs d1 = Inr d'"
    using Cons.prems(4) by (auto simp: x insert_run_def [of _ _ "(env, n, items)"] split: prod.splits sum.splits)
  have "ingested True (set items) (d tbl) (d1 tbl)"
    by (rule execute_in_chunks_ingested [OF env(1) _ assms(1) env(2) items(1) Cons.prems(3) d1(1)]) (simp add: env(3))
  moreover have "ingested True (run_items rs) (d1 tbl) (d' tbl)"
    by (rule Cons.IH [OF items(2) _ _ d1(2)]) (use Cons.prems(2) ingested_ok [OF calculation] in auto)
  ultimately show ?case unfolding items(3) by (rule ingested_trans)
qed

text \<open>The stored row of a key is the winning row among everything ever inserted under it.\<close>

lemma latest_wins:
  assumes "runs_ok build sd rs" and "table_ok target w C (d tbl)"
    and "agreeing pkey (where_ver w) (arow ` run_items rs \<union> ran (view C (d tbl)))"
    and "insert_batches (insert_run build sd) rs d = Inr d'"
  shows "view C (d' tbl) k = Some r \<longleftrightarrow>
    r \<in> candidates pkey (arow ` run_items rs) (view C (d tbl)) k \<and>
    (\<forall>y \<in> candidates pkey (arow ` run_items rs) (view C (d tbl)) k. where_ver w y \<le> where_ver w r)"
  using ingested_winner [OF insert_batches_ingested [of sd "run_items rs" rs d d'] assms(2,3)] assms
  by (simp add: runs_ok_def)

lemma converges:
  assumes "runs_ok build sd rs" and "runs_ok build sd rs'" and "run_items rs = run_items rs'"
    and "table_ok target w C (d tbl)"
    and "agreeing pkey (where_ver w) (arow ` run_items rs \<union> ran (view C (d tbl)))"
    and "insert_batches (insert_run build sd) rs d = Inr d1"
    and "insert_batches (insert_run build sd) rs' d = Inr d2"
  shows "view C (d1 tbl) = view C (d2 tbl)"
proof (rule ext)
  fix k
  have "view C (d1 tbl) k = Some r \<longleftrightarrow> view C (d2 tbl) k = Some r" for r
    using latest_wins [OF assms(1,4,5,6)] latest_wins [OF assms(2,4) _ assms(7)] assms(3,5) by simp
  then show "view C (d1 tbl) k = view C (d2 tbl) k"
    by (metis not_Some_eq)
qed

end

section \<open>Inserts of different tables do not interfere\<close>

text \<open>
  What an operation keeps, whether it succeeds or not: a relation between the database before and after it.
  A reflexive and transitive relation that every statement keeps is kept by chunks, retries and joins.
\<close>

definition keeps :: "(db \<Rightarrow> db \<Rightarrow> bool) \<Rightarrow> db_op \<Rightarrow> bool" where
  "keeps R op \<longleftrightarrow> (\<forall>d r d'. op d = (r, d') \<longrightarrow> R d d')"

text \<open>A set of items that contains what the cleaning makes of its elements.\<close>

definition clean_closed :: "'a serde \<Rightarrow> 'a set \<Rightarrow> bool" where
  "clean_closed sd X \<longleftrightarrow> (\<forall>x \<in> X. \<forall>y. remove_null_bytes sd x = Inr y \<longrightarrow> y \<in> X)"

lemma clean_closed_data: "clean_closed sd X \<Longrightarrow> set items \<subseteq> X \<Longrightarrow> clean_data_for_db sd items True = Inr xs \<Longrightarrow> set xs \<subseteq> X"
  by (auto simp: clean_data_for_db_def clean_closed_def dest!: map_result_in)

locale kept_relation =
  fixes R :: "db \<Rightarrow> db \<Rightarrow> bool"
  assumes kept_refl: "R d d" and kept_trans: "R d d1 \<Longrightarrow> R d1 d2 \<Longrightarrow> R d d2"
begin

lemma chunk_task_keeps:
  assumes stmt: "\<And>xs wh d d'. set xs \<subseteq> X \<Longrightarrow> pg_exec env (fst (build xs)) wh d = Inr d' \<Longrightarrow> R d d'"
    and closed: "clean_closed sd X" and items: "set items \<subseteq> X"
  shows "keeps R (chunk_task env build sd items)"
  unfolding keeps_def
proof (intro allI impI)
  fix d r d'
  assume run: "chunk_task env build sd items d = (r, d')"
  have stmt': "R d d'" if "set xs \<subseteq> X" and "execute_with_better_error env (fst (build xs)) wh d = Inr d'" for xs wh d'
    using that(2) stmt [OF that(1)] by (auto simp: execute_with_better_error_def Let_def)
  show "R d d'"
  proof (cases "execute_with_better_error env (fst (build items)) (snd (build items)) d")
    case (Inr d1)
    with run stmt' [OF items] show ?thesis by (auto simp: chunk_task_def execute_or_retry_cleaned_def case_prod_beta)
  next
    case first: (Inl e)
    show ?thesis
    proof (cases "clean_data_for_db sd items True")
      case (Inr xs)
      with run first stmt' [OF clean_closed_data [OF closed items Inr], of "snd (build xs)"] kept_refl show ?thesis
        by (cases "execute_with_better_error env (fst (build xs)) (snd (build xs)) d")
          (auto simp: chunk_task_def execute_or_retry_cleaned_def case_prod_beta split: db_error.splits)
    qed (use run first kept_refl in \<open>auto simp: chunk_task_def execute_or_retry_cleaned_def case_prod_beta\<close>)
  qed
qed

lemma run_tasks_keeps:
  assumes "\<And>op. op \<in> set ts \<Longrightarrow> keeps R op"
  shows "run_tasks ts is d = (rs, d') \<Longrightarrow> R d d'"
  using assms
proof (induction ts "is" d arbitrary: rs d' rule: run_tasks.induct)
  case (2 ts i "is" d)
  show ?case
  proof (cases "i < length ts")
    case True
    obtain r1 d1 where 1: "(ts ! i) d = (r1, d1)" by force
    obtain rs2 d2 where r: "run_tasks ts is d1 = (rs2, d2)" by force
    have "keeps R (ts ! i)" using "2.prems"(2) True by simp
    then have "R d d1" using 1 by (simp add: keeps_def)
    moreover have "R d1 d2" using "2.IH"(1) [OF True 1 [symmetric] _ r "2.prems"(2)] by simp
    moreover have "d' = d2" using "2.prems"(1) True 1 r by simp
    ultimately show ?thesis using kept_trans by blast
  qed (use 2 in simp)
qed (simp add: kept_refl)

lemma execute_in_chunks_keeps_in:
  assumes "\<And>xs wh d d'. set xs \<subseteq> X \<Longrightarrow> pg_exec env (fst (build xs)) wh d = Inr d' \<Longrightarrow> R d d'"
    and "clean_closed sd X" and "set items \<subseteq> X"
  shows "keeps R (execute_in_chunks env build sd items n)"
  unfolding keeps_def
proof (intro allI impI)
  fix d r d'
  assume e: "execute_in_chunks env build sd items n d = (r, d')"
  let ?ts = "map (chunk_task env build sd) (chunks n items)"
  show "R d d'"
  proof (cases "n = 0")
    case False
    obtain rs d1 where rt: "run_tasks ?ts (pg_sched env (length ?ts)) d = (rs, d1)" by (rule prod.exhaust)
    have "set c \<subseteq> X" if "c \<in> set (chunks n items)" for c
      using set_chunks [of n items] False that assms(3) by blast
    then have "R d d1"
      by (intro run_tasks_keeps [OF _ rt]) (use chunk_task_keeps [OF assms(1,2)] in auto)
    with e rt False show ?thesis by (auto simp: execute_in_chunks_def Let_def)
  qed (use e kept_refl in \<open>simp add: execute_in_chunks_def\<close>)
qed

lemma execute_in_chunks_keeps:
  assumes "\<And>xs wh d d'. pg_exec env (fst (build xs)) wh d = Inr d' \<Longrightarrow> R d d'"
  shows "keeps R (execute_in_chunks env build sd items n)"
  by (rule execute_in_chunks_keeps_in [where X = UNIV]) (use assms in \<open>auto simp: clean_closed_def\<close>)

lemma run_ops_keeps: "\<forall>op \<in> set ops. keeps R op \<Longrightarrow> run_ops ops d = (rs, d') \<Longrightarrow> R d d'"
proof (induction ops arbitrary: d rs)
  case (Cons op ops)
  obtain r1 d1 where 1: "op d = (r1, d1)" by force
  obtain rs2 d2 where 2: "run_ops ops d1 = (rs2, d2)" by force
  have "R d d1" using Cons.prems(1) 1 by (simp add: keeps_def)
  with Cons.IH [of d1 rs2] Cons.prems 1 2 kept_trans show ?case by simp
qed (simp add: kept_refl)

lemma join_inserts_keeps: "\<forall>op \<in> set ops. keeps R op \<Longrightarrow> keeps R (join_inserts ops)"
  using run_ops_keeps unfolding keeps_def [of R "join_inserts ops"]
  by (auto simp: join_inserts_def Let_def split: prod.splits)

lemma seq_inserts_keeps: "\<forall>op \<in> set ops. keeps R op \<Longrightarrow> keeps R (seq_inserts ops)"
proof (induction ops)
  case (Cons op ops)
  then have ops: "keeps R op" "keeps R (seq_inserts ops)" by auto
  show ?case
    unfolding keeps_def
  proof (intro allI impI)
    fix d r d'
    assume run: "seq_inserts (op # ops) d = (r, d')"
    obtain r1 d1 where 1: "op d = (r1, d1)" by force
    then have "R d d1" using ops(1) by (auto simp: keeps_def)
    with run 1 ops(2) kept_trans show "R d d'" by (cases r1) (auto simp: keeps_def)
  qed
qed (simp add: keeps_def kept_refl)

end

interpretation frame: kept_relation "\<lambda>d d'. d' t = d t" for t
  by unfold_locales simp_all

definition untouched :: "string \<Rightarrow> db_op \<Rightarrow> bool" where
  "untouched t op \<longleftrightarrow> (\<forall>d r d'. op d = (r, d') \<longrightarrow> d' t = d t)"

lemma untouched_keeps: "untouched t op \<longleftrightarrow> keeps (\<lambda>d d'. d' t = d t) op"
  by (simp add: untouched_def keeps_def)

lemma execute_in_chunks_untouched:
  assumes "postgres (pg_exec env)" and "\<And>xs. iq_table (fst (build xs)) \<noteq> t"
  shows "untouched t (execute_in_chunks env build sd items n)"
  unfolding untouched_keeps
  by (rule frame.execute_in_chunks_keeps) (use postgres.other_tables [OF assms(1)] assms(2) in metis)

lemma run_ops_untouched: "\<forall>op \<in> set ops. untouched t op \<Longrightarrow> run_ops ops d = (rs, d') \<Longrightarrow> d' t = d t"
  unfolding untouched_keeps by (rule frame.run_ops_keeps)

lemma join_inserts_untouched: "\<forall>op \<in> set ops. untouched t op \<Longrightarrow> untouched t (join_inserts ops)"
  unfolding untouched_keeps by (rule frame.join_inserts_keeps)

lemma seq_inserts_untouched: "\<forall>op \<in> set ops. untouched t op \<Longrightarrow> untouched t (seq_inserts ops)"
  unfolding untouched_keeps by (rule frame.seq_inserts_keeps)

lemma seq_inserts_at:
  assumes "seq_inserts (xs @ op # ys) d = (Inr (), d')" and "\<forall>f \<in> set xs \<union> set ys. untouched t f"
  obtains d1 d2 where "op d1 = (Inr (), d2)" and "d1 t = d t" and "d' t = d2 t"
  using assms
proof (induction xs arbitrary: d thesis)
  case Nil
  then obtain d2 where d2: "op d = (Inr (), d2)" "seq_inserts ys d2 = (Inr (), d')"
    by (auto split: prod.splits sum.splits)
  moreover have "untouched t (seq_inserts ys)" using Nil.prems(3) by (simp add: seq_inserts_untouched)
  ultimately show ?case using Nil.prems(1) by (auto simp: untouched_def)
next
  case (Cons f fs)
  then obtain d1 where d1: "f d = (Inr (), d1)" "seq_inserts (fs @ op # ys) d1 = (Inr (), d')"
    by (auto split: prod.splits sum.splits)
  have "d1 t = d t" using Cons.prems(3) d1(1) by (auto simp: untouched_def)
  with Cons.IH [OF _ d1(2)] Cons.prems(1,3) show ?case by auto
qed

lemma seq_inserts_succeeds:
  "\<forall>op \<in> set ops. \<forall>d. \<exists>d'. op d = (Inr (), d') \<Longrightarrow> \<exists>d'. seq_inserts ops d = (Inr (), d')"
proof (induction ops arbitrary: d)
  case (Cons op ops)
  then obtain d1 where "op d = (Inr (), d1)" by (meson list.set_intros(1))
  with Cons.IH [of d1] Cons.prems show ?case by auto
qed simp

text \<open>The insert of one table inside a join: it succeeded, and it saw and left the table alone.\<close>

lemma join_inserts_at:
  assumes "join_inserts (xs @ op # ys) d = (Inr (), d')"
    and "\<forall>f \<in> set xs \<union> set ys. untouched t f"
  obtains d1 d2 where "op d1 = (Inr (), d2)" and "d1 t = d t" and "d' t = d2 t"
proof -
  obtain rs1 d1 where 1: "run_ops xs d = (rs1, d1)" by force
  obtain r d2 where 2: "op d1 = (r, d2)" by force
  obtain rs2 d3 where 3: "run_ops ys d2 = (rs2, d3)" by force
  have j: "join_results (rs1 @ r # rs2) = Inr ()" "d' = d3"
    using assms(1) 1 2 3 by (simp_all add: join_inserts_def run_ops_append)
  then have "r = Inr ()" by (simp add: join_results_ok)
  moreover have "d1 t = d t" using run_ops_untouched [of xs t d rs1 d1] 1 assms(2) by simp
  moreover have "d3 t = d2 t" using run_ops_untouched [of ys t d2 rs2 d3] 3 assms(2) by simp
  ultimately show thesis using that [of d1 d2] 2 j by simp
qed

section \<open>When every statement is accepted the insert succeeds\<close>

lemma run_tasks_all_ok:
  "\<forall>op \<in> set ts. \<forall>d. \<exists>d'. op d = (Inr (), d') \<Longrightarrow> \<exists>rs d'. run_tasks ts is d = (rs, d') \<and> (\<forall>r \<in> set rs. snd r = Inr ())"
proof (induction ts "is" d rule: run_tasks.induct)
  case (2 ts i "is" d)
  show ?case
  proof (cases "i < length ts")
    case True
    then obtain d1 where 1: "(ts ! i) d = (Inr (), d1)" using "2.prems" nth_mem by blast
    from "2.IH"(1) [OF True 1 [symmetric] refl "2.prems"] obtain rs d' where
      "run_tasks ts is d1 = (rs, d')" "\<forall>r \<in> set rs. snd r = Inr ()" by blast
    with True 1 show ?thesis by simp
  qed (use 2 in simp)
qed simp

lemma execute_in_chunks_succeeds:
  assumes "0 < n"
    and "\<And>c d. c \<in> set (chunks n items) \<Longrightarrow>
      \<exists>d'. execute_with_better_error env (fst (build c)) (snd (build c)) d = Inr d'"
  shows "\<exists>d'. execute_in_chunks env build sd items n d = (Inr (), d')"
proof -
  let ?ts = "map (chunk_task env build sd) (chunks n items)"
  have "\<exists>d'. op d = (Inr (), d')" if op: "op \<in> set ?ts" for op d
  proof -
    obtain c where c: "c \<in> set (chunks n items)" "op = chunk_task env build sd c" using op by auto
    obtain q wh where b: "build c = (q, wh)" by force
    from assms(2) [OF c(1), of d] b c(2) show ?thesis
      by (auto simp: chunk_task_def execute_or_retry_cleaned_def)
  qed
  then have ok: "\<forall>op \<in> set ?ts. \<forall>d. \<exists>d'. op d = (Inr (), d')" by blast
  obtain rs d' where rt: "run_tasks ?ts (pg_sched env (length ?ts)) d = (rs, d')"
    and all: "\<forall>r \<in> set rs. snd r = Inr ()"
    using run_tasks_all_ok [OF ok] by blast
  have "r = Inr ()" if r: "r \<in> set (results_in_order rs m)" for r m
  proof -
    obtain i where "r = (case map_of rs i of Some r \<Rightarrow> r | None \<Rightarrow> Inr ())"
      using r by (auto simp: results_in_order_def)
    then show ?thesis using all map_of_SomeD [of rs i] by (force split: option.splits)
  qed
  then have "join_results (results_in_order rs m) = Inr ()" for m by (simp add: join_results_ok)
  with rt assms(1) show ?thesis by (simp add: execute_in_chunks_def Let_def)
qed

lemma run_ops_all_ok:
  "\<forall>op \<in> set ops. \<forall>d. \<exists>d'. op d = (Inr (), d') \<Longrightarrow>
   \<exists>rs d'. run_ops ops d = (rs, d') \<and> (\<forall>r \<in> set rs. r = Inr ())"
proof (induction ops arbitrary: d)
  case (Cons op ops)
  have "\<exists>d1. op d = (Inr (), d1)" using Cons.prems by (meson list.set_intros(1))
  then obtain d1 where "op d = (Inr (), d1)" by blast
  moreover obtain rs d' where "run_ops ops d1 = (rs, d')" "\<forall>r \<in> set rs. r = Inr ()"
    using Cons.IH [of d1] Cons.prems by (meson list.set_intros(2))
  ultimately show ?case by simp
qed simp

lemma join_inserts_succeeds:
  assumes "\<forall>op \<in> set ops. \<forall>d. \<exists>d'. op d = (Inr (), d')"
  shows "\<exists>d'. join_inserts ops d = (Inr (), d')"
proof -
  obtain rs d' where "run_ops ops d = (rs, d')" "\<forall>r \<in> set rs. r = Inr ()"
    using run_ops_all_ok [OF assms] by blast
  then show ?thesis by (simp add: join_inserts_def join_results_ok)
qed

text \<open>A chunk of rows with distinct keys has distinct keys.\<close>

lemma chunk_distinct:
  assumes "distinct (map f xs)" and "0 < n" and "c \<in> set (chunks n xs)"
  shows "distinct (map f c)"
proof -
  obtain as bs where "chunks n xs = as @ c # bs" using assms(3) by (auto simp: in_set_conv_decomp)
  then have "xs = concat as @ c @ concat bs" using concat_chunks [OF assms(2), of xs] by simp
  with assms(1) show ?thesis by simp
qed

lemma distinct_proposed:
  assumes "distinct (map key xs)" and "iq_rows q = map to_row xs"
    and "\<And>x. row_key (iq_target q) (map_of (to_row x)) = enc (key x)" and "inj enc"
  shows "distinct (proposed_keys q)"
proof -
  have "proposed_keys q = map enc (map key xs)" using assms(2,3) by (simp add: proposed_keys_def comp_def)
  moreover have "inj_on enc (set (map key xs))" using assms(4) by (rule inj_on_subset) simp
  ultimately show ?thesis using assms(1) by (simp only: distinct_map)
qed

text \<open>A statement that proposes a key twice fails, and so does the whole insert, cleaned or not.\<close>

lemma run_tasks_some_fails:
  assumes "i < length ts" and "i \<in> set is" and "\<And>d. \<exists>f d'. (ts ! i) d = (Inl f, d')"
  shows "\<exists>f. (i, Inl f) \<in> set (fst (run_tasks ts is d))"
  using assms(2)
proof (induction "is" arbitrary: d)
  case (Cons j js)
  obtain f d' where f: "(ts ! i) d = (Inl f, d')" using assms(3) by blast
  show ?case
  proof (cases "j = i")
    case True
    with f assms(1) show ?thesis by (auto simp: Let_def split: prod.splits)
  next
    case False
    with Cons have "\<exists>f. (i, Inl f) \<in> set (fst (run_tasks ts js d))" for d by auto
    from this [of d] this [of "snd ((ts ! j) d)"] show ?thesis by (auto simp: Let_def split: prod.splits)
  qed
qed simp

lemma execute_in_chunks_fails:
  assumes "0 < n" and "c \<in> set (chunks n items)" and "fair_sched env"
    and "\<And>d. \<exists>f d'. chunk_task env build sd c d = (Inl f, d')"
  shows "\<exists>f d'. execute_in_chunks env build sd items n d = (Inl f, d')"
proof -
  let ?ts = "map (chunk_task env build sd) (chunks n items)"
  obtain i where i: "i < length ?ts" "?ts ! i = chunk_task env build sd c"
    using assms(2) by (metis in_set_conv_nth length_map nth_map)
  let ?run = "run_tasks ?ts (pg_sched env (length ?ts)) d"
  have sched: "set (pg_sched env (length ?ts)) = {..<length ?ts}" "distinct (pg_sched env (length ?ts))"
    using fair_sched_indices [OF assms(3)] by simp_all
  have "\<exists>f. (i, Inl f) \<in> set (fst ?run)"
    by (rule run_tasks_some_fails) (use i sched assms(4) in auto)
  then obtain f where f: "(i, Inl f) \<in> set (fst ?run)" by blast
  obtain rs d' where run: "?run = (rs, d')" by force
  have "map fst rs = pg_sched env (length ?ts)" by (rule run_tasks_indices [OF run]) (use sched in simp)
  then have "map_of rs i = Some (Inl f)" using f sched run by (intro map_of_is_SomeI) simp_all
  then have "Inl f \<in> set (results_in_order rs (length ?ts))" using i by (force simp: results_in_order_def)
  then have "join_results (results_in_order rs (length ?ts)) \<noteq> Inr ()" by (auto simp: join_results_ok)
  with run assms(1) show ?thesis
    by (cases "join_results (results_in_order rs (length ?ts))") (auto simp: execute_in_chunks_def Let_def)
qed

lemma chunk_task_duplicate:
  assumes "postgres (pg_exec env)" and "\<And>c. \<exists>cols. iq_action (fst (build c)) = DoUpdate cols"
    and "\<And>c. proposed_keys (fst (build c)) = map enc (map key c)"
    and "\<And>x y. remove_null_bytes sd x = Inr y \<Longrightarrow> key y = key x" and "\<not> distinct (map key c)"
  shows "\<exists>f d'. chunk_task env build sd c d = (Inl f, d')"
proof -
  have fails: "\<exists>e. execute_with_better_error env (fst (build c')) wh d = Inl e" if "map key c' = map key c" for c' wh
  proof -
    obtain cols where "iq_action (fst (build c')) = DoUpdate cols" using assms(2) by blast
    moreover have "\<not> distinct (proposed_keys (fst (build c')))"
      unfolding assms(3) that using assms(5) by (metis distinct_map)
    ultimately show ?thesis
      using postgres.duplicate_keys_fail [OF assms(1)] by (simp add: execute_with_better_error_def Let_def)
  qed
  have cleaned: "map key ys = map key xs" if "map_result (remove_null_bytes sd) xs = Inr ys" for xs ys
    using that assms(4) by (induction xs arbitrary: ys) auto
  obtain e where "execute_with_better_error env (fst (build c)) (snd (build c)) d = Inl e" using fails by blast
  moreover have "\<exists>m. execute_with_better_error env (fst (build ys)) (snd (build ys)) d = Inl (DbError m)"
    if "map_result (remove_null_bytes sd) c = Inr ys" for ys
    using fails [OF cleaned [OF that]] by (metis db_error.exhaust)
  ultimately show ?thesis
    by (cases "map_result (remove_null_bytes sd) c")
      (auto simp: chunk_task_def execute_or_retry_cleaned_def clean_data_for_db_def split_def Let_def split: sum.splits db_error.splits)
qed

section \<open>The keys of a table\<close>

text \<open>
  Whatever its action and its guard, a statement that succeeds leaves under every proposed key a row and
  keeps the other keys. So a table has, after an insert, exactly the keys it had and those of the rows,
  provided that the cleaning of a row keeps its key.
\<close>

definition keeps_key :: "'a serde \<Rightarrow> ('a \<Rightarrow> 'k) \<Rightarrow> 'a set \<Rightarrow> bool" where
  "keeps_key sd key X \<longleftrightarrow> (\<forall>x \<in> X. \<forall>y. remove_null_bytes sd x = Inr y \<longrightarrow> key y = key x)"

lemma keeps_key_subset: "keeps_key sd key X \<Longrightarrow> Y \<subseteq> X \<Longrightarrow> keeps_key sd key Y"
  by (auto simp: keeps_key_def)

lemma cleaned_keys:
  "map_result (remove_null_bytes sd) xs = Inr ys \<Longrightarrow> keeps_key sd key (set xs) \<Longrightarrow> map key ys = map key xs"
  by (induction xs arbitrary: ys) (auto simp: keeps_key_def)

lemma dom_upsert_row: "dom (upsert_row dflt act wh target row t) = insert (row_key target (map_of row)) (dom t)"
  by (auto simp: upsert_row_def Let_def split: option.splits conflict_action.splits)

lemma dom_fold_upsert:
  "dom (fold (upsert_row dflt act wh target) rows t) = dom t \<union> set (map (\<lambda>r. row_key target (map_of r)) rows)"
  by (induction rows arbitrary: t) (auto simp: dom_upsert_row)

locale keyed_insert =
  fixes build :: "'a list \<Rightarrow> query" and key :: "'a \<Rightarrow> sql_value list" and tbl :: string
  assumes insert_table: "iq_table (fst (build items)) = tbl"
    and insert_keys: "proposed_keys (fst (build items)) = map key items"
begin

lemma exec_dom:
  assumes "postgres (pg_exec env)" and "execute_with_better_error env (fst (build items)) wh d = Inr d'"
  shows "dom (d' tbl) = dom (d tbl) \<union> key ` set items"
proof -
  obtain dflt wh' where "d' = insert_spec dflt (fst (build items)) wh' d"
    using postgres.insert_effect [OF assms(1)] assms(2) unfolding execute_with_better_error_def Let_def by blast
  then show ?thesis
    using insert_keys [of items] insert_table
    by (simp add: insert_spec_def dom_fold_upsert proposed_keys_def flip: set_map)
qed

lemma chunk_task_dom:
  assumes "postgres (pg_exec env)" and "keeps_key sd key (set items)" and "chunk_task env build sd items d = (Inr (), d')"
  shows "dom (d' tbl) = dom (d tbl) \<union> key ` set items"
proof (cases "execute_with_better_error env (fst (build items)) (snd (build items)) d")
  case (Inr d1)
  with assms(3) exec_dom [OF assms(1)] show ?thesis
    by (auto simp: chunk_task_def execute_or_retry_cleaned_def split_def)
next
  case (Inl e)
  with assms(3) obtain ys where ys: "map_result (remove_null_bytes sd) items = Inr ys"
    and run: "execute_with_better_error env (fst (build ys)) (snd (build ys)) d = Inr d'"
    by (auto simp: chunk_task_def execute_or_retry_cleaned_def clean_data_for_db_def split_def Let_def
        split: sum.splits db_error.splits)
  from exec_dom [OF assms(1) run] arg_cong [OF cleaned_keys [OF ys assms(2)], of set] show ?thesis by simp
qed

lemma run_tasks_dom:
  assumes "postgres (pg_exec env)" and "\<forall>c \<in> set cs. keeps_key sd key (set c)"
    and "run_tasks (map (chunk_task env build sd) cs) is d = (rs, d')"
    and "\<forall>r \<in> set rs. snd r = Inr ()" and "set is \<subseteq> {..<length cs}"
  shows "dom (d' tbl) = dom (d tbl) \<union> (\<Union>i \<in> set is. key ` set (cs ! i))"
  using assms(3-)
proof (induction "is" arbitrary: d rs)
  case (Cons i js)
  then obtain r d1 rs1 where step: "chunk_task env build sd (cs ! i) d = (r, d1)"
    "run_tasks (map (chunk_task env build sd) cs) js d1 = (rs1, d')" "rs = (i, r) # rs1"
    by (auto simp: Let_def split: prod.splits)
  have i: "i < length cs" using Cons.prems(3) by simp
  then have keeps: "keeps_key sd key (set (cs ! i))" using assms(2) by simp
  have "dom (d1 tbl) = dom (d tbl) \<union> key ` set (cs ! i)"
    using chunk_task_dom [OF assms(1) keeps] step(1,3) Cons.prems(2) by simp
  moreover have "dom (d' tbl) = dom (d1 tbl) \<union> (\<Union>i \<in> set js. key ` set (cs ! i))"
    by (rule Cons.IH [OF step(2)]) (use Cons.prems step(3) in auto)
  ultimately show ?case by auto
qed simp

lemma execute_in_chunks_dom:
  assumes "postgres (pg_exec env)" and "fair_sched env" and "keeps_key sd key (set items)"
    and "execute_in_chunks env build sd items n d = (Inr (), d')"
  shows "dom (d' tbl) = dom (d tbl) \<union> key ` set items"
proof -
  let ?cs = "chunks n items" and ?ts = "map (chunk_task env build sd) (chunks n items)"
  let ?is = "pg_sched env (length ?ts)"
  obtain rs where n: "0 < n" and rs: "run_tasks ?ts ?is d = (rs, d')" and ok: "\<forall>r \<in> set rs. snd r = Inr ()"
    and idx: "set ?is = {..<length ?cs}"
    by (rule execute_in_chunks_runs [OF assms(4,2)])
  have "keeps_key sd key (set c)" if "c \<in> set ?cs" for c
    using keeps_key_subset [OF assms(3)] set_chunks [OF n, of items] that by blast
  then have "dom (d' tbl) = dom (d tbl) \<union> (\<Union>i \<in> {..<length ?cs}. key ` set (?cs ! i))"
    using run_tasks_dom [OF assms(1) _ rs ok] idx by simp
  also have "(\<Union>i \<in> {..<length ?cs}. key ` set (?cs ! i)) = key ` (\<Union>c \<in> set ?cs. set c)"
    by (auto simp: set_conv_nth [of ?cs])
  finally show ?thesis by (simp add: set_chunks [OF n])
qed

end

section \<open>Columns that an upsert leaves alone\<close>

text \<open>The rows of a table stay, and a column that no statement sets keeps its values in them.\<close>

definition cell_kept :: "string \<Rightarrow> string \<Rightarrow> db \<Rightarrow> db \<Rightarrow> bool" where
  "cell_kept tbl col d d' \<longleftrightarrow> (\<forall>K r. d tbl K = Some r \<longrightarrow> (\<exists>r'. d' tbl K = Some r' \<and> r' col = r col))"

definition leaves_column :: "string \<Rightarrow> insert_query \<Rightarrow> bool" where
  "leaves_column col q \<longleftrightarrow> (case iq_action q of DoNothing \<Rightarrow> True | DoUpdate cols \<Rightarrow> col \<notin> set cols)"

interpretation cell_kept: kept_relation "cell_kept tbl col" for tbl col
proof
  show "cell_kept tbl col d d2" if "cell_kept tbl col d d1" and "cell_kept tbl col d1 d2" for d d1 d2
    using that unfolding cell_kept_def by metis
qed (simp add: cell_kept_def)

lemma upsert_keeps_cell:
  assumes "case act of DoNothing \<Rightarrow> True | DoUpdate cols \<Rightarrow> col \<notin> set cols" and "t K = Some r"
  shows "\<exists>r'. fold (upsert_row dflt act wh target) rows t K = Some r' \<and> r' col = r col"
  using assms(2)
proof (induction rows arbitrary: t r)
  case (Cons row rows)
  have "\<exists>r'. upsert_row dflt act wh target row t K = Some r' \<and> r' col = r col"
    using Cons.prems assms(1)
    by (auto simp: upsert_row_def Let_def set_columns_def split: option.splits conflict_action.splits)
  then obtain r1 where r1: "upsert_row dflt act wh target row t K = Some r1" "r1 col = r col" by blast
  from Cons.IH [of "upsert_row dflt act wh target row t" r1] r1 show ?case by simp
qed simp

lemma execute_in_chunks_cell_kept:
  assumes "postgres (pg_exec env)" and "\<And>xs. iq_table (fst (build xs)) = tbl \<Longrightarrow> leaves_column col (fst (build xs))"
  shows "keeps (cell_kept tbl col) (execute_in_chunks env build sd items n)"
proof (rule cell_kept.execute_in_chunks_keeps)
  fix xs wh d d'
  assume "pg_exec env (fst (build xs)) wh d = Inr d'"
  then obtain dflt where "d' = insert_spec dflt (fst (build xs)) wh d"
    using postgres.insert_effect [OF assms(1)] by blast
  then show "cell_kept tbl col d d'"
    using assms(2) [of xs] upsert_keeps_cell by (auto simp: cell_kept_def insert_spec_def leaves_column_def)
qed

section \<open>Values that no upsert takes away\<close>

text \<open>The rows of a table with the value \<open>v\<close> in a column keep it, if every statement leaves the column alone or sets it to \<open>v\<close>.\<close>

definition cell_stays :: "string \<Rightarrow> string \<Rightarrow> sql_value \<Rightarrow> db \<Rightarrow> db \<Rightarrow> bool" where
  "cell_stays tbl col v d d' \<longleftrightarrow>
     (\<forall>K r. d tbl K = Some r \<and> r col = Some v \<longrightarrow> (\<exists>r'. d' tbl K = Some r' \<and> r' col = Some v))"

interpretation cell_stays: kept_relation "cell_stays tbl col v" for tbl col v
proof
  show "cell_stays tbl col v d d2" if "cell_stays tbl col v d d1" and "cell_stays tbl col v d1 d2" for d d1 d2
    using that unfolding cell_stays_def by metis
qed (simp add: cell_stays_def)

lemma upsert_cell_stays:
  assumes "\<forall>row \<in> set rows. map_of row col = Some v" and "t K = Some r" and "r col = Some v"
  shows "\<exists>r'. fold (upsert_row dflt act wh target) rows t K = Some r' \<and> r' col = Some v"
  using assms
proof (induction rows arbitrary: t r)
  case (Cons row rows)
  have "\<exists>r'. upsert_row dflt act wh target row t K = Some r' \<and> r' col = Some v"
    using Cons.prems
    by (auto simp: upsert_row_def Let_def set_columns_def map_add_def split: option.splits conflict_action.splits)
  then obtain r1 where r1: "upsert_row dflt act wh target row t K = Some r1" "r1 col = Some v" by blast
  from Cons.IH [of "upsert_row dflt act wh target row t" r1] r1 Cons.prems(1) show ?case by simp
qed simp

lemma execute_in_chunks_cell_stays:
  assumes "postgres (pg_exec env)" and "clean_closed sd X" and "set items \<subseteq> X"
    and "\<And>xs. set xs \<subseteq> X \<Longrightarrow> iq_table (fst (build xs)) = tbl \<Longrightarrow>
      leaves_column col (fst (build xs)) \<or> (\<forall>row \<in> set (iq_rows (fst (build xs))). map_of row col = Some v)"
  shows "keeps (cell_stays tbl col v) (execute_in_chunks env build sd items n)"
proof (rule cell_stays.execute_in_chunks_keeps_in [OF _ assms(2,3)])
  fix xs wh d d'
  assume xs: "set xs \<subseteq> X" and "pg_exec env (fst (build xs)) wh d = Inr d'"
  then obtain dflt where d': "d' = insert_spec dflt (fst (build xs)) wh d"
    using postgres.insert_effect [OF assms(1)] by blast
  show "cell_stays tbl col v d d'"
  proof (cases "iq_table (fst (build xs)) = tbl")
    case True
    then show ?thesis
      using assms(4) [OF xs True] upsert_keeps_cell upsert_cell_stays
      unfolding cell_stays_def d' insert_spec_def leaves_column_def by (metis fun_upd_same)
  qed (simp add: cell_stays_def d' insert_spec_def)
qed

end
