(* ===== verification/Gap_Detector.thy ===== *)
theory Gap_Detector
  imports Proto
begin

text \<open>
  \<open>gap_detector.rs\<close>: batches come back from the concurrent processing tasks in any order; the
  detector keeps the results that arrived early under their start version and advances
  \<open>next_version_to_process\<close> over every contiguous run. Its last contiguous batch is what the status
  tracker writes to the \<open>processor_status\<close> table, from which the indexer restarts.
\<close>

section \<open>State and operations\<close>

record processing_result =
  pr_start_version :: u64
  pr_end_version :: u64
  pr_last_transaction_timestamp :: "timestamp option"
  pr_processing_duration_in_secs :: rat
  pr_db_insertion_duration_in_secs :: rat

record gap_detector =
  gd_next_version_to_process :: u64
  gd_seen_versions :: "(u64 \<times> processing_result) list"
  gd_last_success_batch :: "processing_result option"

record gap_detector_result =
  gdr_next_version_to_process :: u64
  gdr_num_gaps :: nat
  gdr_last_success_batch :: "processing_result option"

definition gap_detector_new :: "u64 \<Rightarrow> gap_detector" where
  "gap_detector_new starting_version =
     \<lparr>gd_next_version_to_process = starting_version, gd_seen_versions = [],
      gd_last_success_batch = None\<rparr>"

text \<open>
  The \<open>while let Some(next_version) = seen_versions.remove(..)\<close> loop of \<open>update_prev_batch\<close>;
  every iteration removes an entry, so the length of the map decreases.
\<close>

function follow_batches ::
  "(u64 \<times> processing_result) list \<Rightarrow> processing_result \<Rightarrow>
   (u64 \<times> processing_result) list \<times> processing_result" where
  "follow_batches seen new_prev_batch =
     (case map_of seen (pr_end_version new_prev_batch + 1) of
        Some next_version \<Rightarrow>
          follow_batches (AList.delete (pr_end_version new_prev_batch + 1) seen) next_version
      | None \<Rightarrow> (seen, new_prev_batch))"
  by pat_completeness auto

lemma delete_present_shorter:
  "map_of m k = Some v \<Longrightarrow> length (AList.delete k m) < length m"
  by (induction m) (auto simp: le_imp_less_Suc length_delete_le split: if_splits)

termination follow_batches
  by (relation "measure (length \<circ> fst)") (auto simp: delete_present_shorter)

declare follow_batches.simps [simp del]

definition update_prev_batch :: "processing_result \<Rightarrow> gap_detector \<Rightarrow> gap_detector" where
  "update_prev_batch result gd =
     (let (seen, new_prev_batch) = follow_batches (gd_seen_versions gd) result
      in gd\<lparr>gd_seen_versions := seen,
            gd_next_version_to_process := pr_end_version new_prev_batch + 1,
            gd_last_success_batch := Some new_prev_batch\<rparr>)"

definition process_versions ::
  "processing_result \<Rightarrow> gap_detector \<Rightarrow> gap_detector \<times> gap_detector_result" where
  "process_versions result gd =
     (let gd' =
        (if gd_next_version_to_process gd \<noteq> pr_start_version result
         then gd\<lparr>gd_seen_versions :=
                   AList.update (pr_start_version result) result (gd_seen_versions gd)\<rparr>
         else update_prev_batch result gd)
      in (gd',
          \<lparr>gdr_next_version_to_process = gd_next_version_to_process gd',
           gdr_num_gaps = length (gd_seen_versions gd'),
           gdr_last_success_batch = gd_last_success_batch gd'\<rparr>))"

text \<open>The detector after a sequence of results, in the order the channel delivers them.\<close>

definition process_all :: "processing_result list \<Rightarrow> gap_detector \<Rightarrow> gap_detector" where
  "process_all rs gd = fold (\<lambda>r. fst \<circ> process_versions r) rs gd"


text \<open>
  \<open>create_gap_detector_status_tracker_loop\<close>: every received result goes through the detector, and
  at most once per second the end of the last contiguous batch is stored by
  \<open>processor.update_last_processed_version\<close> (\<open>upd\<close>, an \<open>unwrap\<close> follows it). A received item is the
  result together with the reading of the clock; the end of the input list is the closed channel.
\<close>

definition update_processor_status_secs :: rat where
  "update_processor_status_secs = 1"

record 's tracker =
  tk_gap_detector :: gap_detector
  tk_last_update_time :: rat
  tk_store :: 's

definition status_tracker_step ::
  "(u64 \<Rightarrow> timestamp option \<Rightarrow> 's \<Rightarrow> failure + 's) \<Rightarrow> rat \<times> processing_result \<Rightarrow>
   's tracker \<Rightarrow> failure + 's tracker" where
  "status_tracker_step upd item tk =
     (let (now, result) = item;
          (gd, res) = process_versions result (tk_gap_detector tk);
          tk' = tk\<lparr>tk_gap_detector := gd\<rparr>
      in case gdr_last_success_batch res of
           None \<Rightarrow> Inr tk'
         | Some batch \<Rightarrow>
             if update_processor_status_secs \<le> now - tk_last_update_time tk
             then and_then
                    (unwrap_result (upd (pr_end_version batch)
                       (pr_last_transaction_timestamp batch) (tk_store tk)))
                    (\<lambda>st. Inr (tk'\<lparr>tk_store := st, tk_last_update_time := now\<rparr>))
             else Inr tk')"

definition create_gap_detector_status_tracker_loop ::
  "(u64 \<Rightarrow> timestamp option \<Rightarrow> 's \<Rightarrow> failure + 's) \<Rightarrow> u64 \<Rightarrow> rat \<Rightarrow>
   (rat \<times> processing_result) list \<Rightarrow> 's \<Rightarrow> failure + 's tracker" where
  "create_gap_detector_status_tracker_loop upd starting_version start_time items st =
     fold_result (status_tracker_step upd) items
       \<lparr>tk_gap_detector = gap_detector_new starting_version,
        tk_last_update_time = start_time, tk_store = st\<rparr>"

section \<open>Well-formed batches and chains of batches\<close>

definition wf_batch :: "processing_result \<Rightarrow> bool" where
  "wf_batch r \<longleftrightarrow> pr_start_version r \<le> pr_end_version r \<and> pr_end_version r \<noteq> - 1"

fun chain :: "u64 \<Rightarrow> processing_result list \<Rightarrow> bool" where
  "chain s [] = True"
| "chain s (b # bs) = (pr_start_version b = s \<and> wf_batch b \<and> chain (pr_end_version b + 1) bs)"

definition covered :: "processing_result list \<Rightarrow> u64 \<Rightarrow> bool" where
  "covered rs v \<longleftrightarrow> list_ex (\<lambda>r. pr_start_version r \<le> v \<and> v \<le> pr_end_version r) rs"

lemma less_Suc_u64: "w \<noteq> - 1 \<Longrightarrow> v < w + 1 \<longleftrightarrow> v \<le> w" for v w :: u64
  by (simp add: word_less_nat_alt word_le_nat_alt unat_Suc_u64 less_Suc_eq_le)

lemma wf_batch_less: "wf_batch r \<Longrightarrow> pr_start_version r < pr_end_version r + 1"
  by (simp add: wf_batch_def less_Suc_u64)

lemma chain_start_ge: "chain s bs \<Longrightarrow> b \<in> set bs \<Longrightarrow> s \<le> pr_start_version b"
proof (induction bs arbitrary: s)
  case (Cons x xs)
  then show ?case
    using wf_batch_less [of x] by (fastforce intro: order_trans less_imp_le)
qed simp

lemma chain_tail_start_gt:
  assumes "chain s (x # xs)" and "b \<in> set xs"
  shows "pr_start_version x < pr_start_version b"
  using assms chain_start_ge [of "pr_end_version x + 1" xs b] wf_batch_less [of x]
  by (auto intro: less_le_trans)

lemma chain_distinct: "chain s bs \<Longrightarrow> distinct (map pr_start_version bs)"
proof (induction bs arbitrary: s)
  case (Cons x xs)
  then have "pr_start_version x \<notin> pr_start_version ` set xs"
    using chain_tail_start_gt by fastforce
  with Cons show ?case by auto
qed simp

lemma chain_append:
  "chain s (xs @ ys) \<longleftrightarrow>
     chain s xs \<and> chain (if xs = [] then s else pr_end_version (last xs) + 1) ys"
  by (induction xs arbitrary: s) auto

section \<open>Safety: the detector never claims a version that was not processed\<close>

definition seen_ok :: "processing_result set \<Rightarrow> (u64 \<times> processing_result) list \<Rightarrow> bool" where
  "seen_ok R seen \<longleftrightarrow> (\<forall>k r. map_of seen k = Some r \<longrightarrow> r \<in> R \<and> wf_batch r \<and> pr_start_version r = k)"

lemma seen_ok_delete: "seen_ok R seen \<Longrightarrow> seen_ok R (AList.delete k seen)"
  by (auto simp: seen_ok_def ahash.get_remove split: if_splits)

lemma seen_ok_update:
  "seen_ok R seen \<Longrightarrow> wf_batch r \<Longrightarrow> r \<in> R \<Longrightarrow>
   seen_ok R (AList.update (pr_start_version r) r seen)"
  by (auto simp: seen_ok_def ahash.get_insert split: if_splits)

lemma seen_ok_mono: "seen_ok R seen \<Longrightarrow> R \<subseteq> R' \<Longrightarrow> seen_ok R' seen"
  by (auto simp: seen_ok_def)

lemma follow_batches_covered:
  assumes "follow_batches seen b = (seen', b')"
    and "seen_ok (set rs) seen" and "wf_batch b" and "b \<in> set rs"
    and "\<And>v. s \<le> v \<Longrightarrow> v \<le> pr_end_version b \<Longrightarrow> covered rs v"
  shows "wf_batch b' \<and> b' \<in> set rs \<and> seen_ok (set rs) seen' \<and>
    pr_end_version b \<le> pr_end_version b' \<and>
    (\<forall>v. s \<le> v \<longrightarrow> v \<le> pr_end_version b' \<longrightarrow> covered rs v)"
  using assms
proof (induction seen b rule: follow_batches.induct)
  case (1 seen b)
  let ?k = "pr_end_version b + 1"
  show ?case
  proof (cases "map_of seen ?k")
    case None
    with "1.prems" show ?thesis by (simp add: follow_batches.simps [of seen b])
  next
    case (Some n)
    with "1.prems" have n: "wf_batch n" "n \<in> set rs" "pr_start_version n = ?k"
      by (auto simp: seen_ok_def)
    have ext: "covered rs v" if "s \<le> v" "v \<le> pr_end_version n" for v
    proof (cases "v \<le> pr_end_version b")
      case False
      then have "?k \<le> v"
        using "1.prems"(3) by (simp add: wf_batch_def flip: less_Suc_u64)
      with that n show ?thesis by (auto simp: covered_def list_ex_iff intro!: bexI [of _ n])
    qed (use that "1.prems" in simp)
    have "pr_end_version b \<le> pr_end_version n"
      using n "1.prems"(3) less_Suc_u64 [of "pr_end_version b" "pr_end_version b"]
      by (auto simp: wf_batch_def intro: order_trans less_imp_le)
    with "1.IH" [OF Some] n ext "1.prems"(1,2) Some show ?thesis
      by (auto simp: follow_batches.simps [of seen b] seen_ok_delete intro: order_trans)
  qed
qed

definition detector_inv :: "u64 \<Rightarrow> processing_result list \<Rightarrow> gap_detector \<Rightarrow> bool" where
  "detector_inv s rs gd \<longleftrightarrow>
     s \<le> gd_next_version_to_process gd \<and>
     (\<forall>v. s \<le> v \<longrightarrow> v < gd_next_version_to_process gd \<longrightarrow> covered rs v) \<and>
     seen_ok (set rs) (gd_seen_versions gd) \<and>
     (case gd_last_success_batch gd of
        None \<Rightarrow> gd_next_version_to_process gd = s
      | Some b \<Rightarrow> b \<in> set rs \<and> wf_batch b \<and> gd_next_version_to_process gd = pr_end_version b + 1)"

lemma detector_inv_new: "detector_inv s [] (gap_detector_new s)"
  by (auto simp: detector_inv_def gap_detector_new_def seen_ok_def)

lemma covered_mono: "covered rs v \<Longrightarrow> set rs \<subseteq> set rs' \<Longrightarrow> covered rs' v"
  by (auto simp: covered_def list_ex_iff)

lemma detector_inv_mono:
  "detector_inv s rs gd \<Longrightarrow> set rs \<subseteq> set rs' \<Longrightarrow> detector_inv s rs' gd"
  by (auto simp: detector_inv_def intro: covered_mono seen_ok_mono split: option.splits)

lemma detector_inv_step:
  assumes inv: "detector_inv s rs gd" and r: "wf_batch r" "r \<in> set rs"
  shows "detector_inv s rs (fst (process_versions r gd)) \<and>
    gd_next_version_to_process gd \<le> gd_next_version_to_process (fst (process_versions r gd))"
proof (cases "gd_next_version_to_process gd = pr_start_version r")
  case False
  with assms show ?thesis
    by (auto simp: process_versions_def detector_inv_def Let_def intro: seen_ok_update
        split: option.splits)
next
  case True
  obtain seen' b' where f: "follow_batches (gd_seen_versions gd) r = (seen', b')" by force
  have cov: "covered rs v" if "s \<le> v" "v \<le> pr_end_version r" for v
  proof (cases "v < pr_start_version r")
    case False
    with that r show ?thesis by (auto simp: covered_def list_ex_iff not_less)
  qed (use inv True that in \<open>auto simp: detector_inv_def\<close>)
  have res: "wf_batch b' \<and> b' \<in> set rs \<and> seen_ok (set rs) seen' \<and>
      pr_end_version r \<le> pr_end_version b' \<and> (\<forall>v. s \<le> v \<longrightarrow> v \<le> pr_end_version b' \<longrightarrow> covered rs v)"
    using follow_batches_covered [OF f _ r] inv cov by (auto simp: detector_inv_def)
  then have le: "pr_start_version r \<le> pr_end_version b' + 1"
    using r(1) by (intro less_imp_le) (auto simp: wf_batch_def less_Suc_u64)
  moreover have "s \<le> pr_end_version b' + 1"
    using inv True le by (auto simp: detector_inv_def intro: order_trans)
  ultimately show ?thesis
    using True f res inv
    by (auto simp: process_versions_def update_prev_batch_def detector_inv_def less_Suc_u64
        wf_batch_def)
qed

lemma detector_inv_process_all:
  assumes "detector_inv s rs gd" and "list_all wf_batch xs" and "set xs \<subseteq> set rs"
  shows "detector_inv s rs (process_all xs gd) \<and>
    gd_next_version_to_process gd \<le> gd_next_version_to_process (process_all xs gd)"
  using assms
proof (induction xs arbitrary: gd)
  case (Cons x xs)
  then have "detector_inv s rs (fst (process_versions x gd))"
    and "gd_next_version_to_process gd \<le> gd_next_version_to_process (fst (process_versions x gd))"
    using detector_inv_step [of s rs gd x] by auto
  with Cons show ?case by (auto simp: process_all_def intro: order_trans)
qed (simp add: process_all_def)


section \<open>Completeness: every contiguous run is followed, whatever the order of arrival\<close>

text \<open>
  The detector after the results \<open>R\<close> of a chain \<open>bs\<close> of batches has arrived: the longest prefix
  of \<open>bs\<close> inside \<open>R\<close> is accounted for, the rest of \<open>R\<close> is waiting in \<open>seen_versions\<close>.
\<close>

definition waiting :: "processing_result set \<Rightarrow> processing_result list \<Rightarrow>
    (u64 \<times> processing_result) list \<Rightarrow> bool" where
  "waiting R rest seen \<longleftrightarrow> distinct_keys seen \<and>
     (\<forall>k b. map_of seen k = Some b \<longleftrightarrow> b \<in> R \<and> b \<in> set rest \<and> pr_start_version b = k)"

definition progress :: "u64 \<Rightarrow> processing_result list \<Rightarrow> processing_result set \<Rightarrow>
    gap_detector \<Rightarrow> bool" where
  "progress s bs R gd \<longleftrightarrow> (\<exists>dn rest. bs = dn @ rest \<and> set dn \<subseteq> R \<and>
     (rest = [] \<or> hd rest \<notin> R) \<and> waiting R rest (gd_seen_versions gd) \<and>
     gd_next_version_to_process gd = (if dn = [] then s else pr_end_version (last dn) + 1) \<and>
     gd_last_success_batch gd = (if dn = [] then None else Some (last dn)))"

lemma waiting_Cons_in:
  assumes "chain s (x # xs)" and "waiting R (x # xs) seen" and "x \<in> R"
  shows "map_of seen s = Some x" and "waiting R xs (AList.delete s seen)"
proof -
  have x: "pr_start_version x = s" using assms(1) by simp
  show "map_of seen s = Some x" using assms x by (auto simp: waiting_def)
  show "waiting R xs (AList.delete s seen)"
    using assms x chain_tail_start_gt [OF assms(1)]
    by (fastforce simp: waiting_def ahash.get_remove ahash.wf_remove split: if_splits)
qed

lemma waiting_Cons_notin:
  assumes "chain s (x # xs)" and "waiting R (x # xs) seen" and "x \<notin> R"
  shows "map_of seen s = None"
proof (rule ccontr)
  assume "map_of seen s \<noteq> None"
  then obtain b where "b \<in> R" "b \<in> set (x # xs)" "pr_start_version b = s"
    using assms(2) by (auto simp: waiting_def)
  with assms(1,3) chain_tail_start_gt [OF assms(1)] show False by auto
qed

lemma waiting_skip:
  assumes "waiting R (x # xs) seen" and "x \<notin> R" and "chain s (x # xs)"
  shows "waiting (insert x R) xs seen"
proof -
  have "x \<notin> set xs" using chain_tail_start_gt [OF assms(3), of x] by blast
  with assms(1,2) show ?thesis by (auto simp: waiting_def)
qed

lemma waiting_insert:
  assumes "waiting R rest seen" and "r \<in> set rest" and "inj_on pr_start_version (set rest)"
  shows "waiting (insert r R) rest (AList.update (pr_start_version r) r seen)"
proof -
  have "map_of (AList.update (pr_start_version r) r seen) k = Some b \<longleftrightarrow>
      b \<in> insert r R \<and> b \<in> set rest \<and> pr_start_version b = k" for k b
    using assms by (cases "k = pr_start_version r") (auto simp: waiting_def ahash.get_insert dest: inj_onD)
  with assms(1) show ?thesis by (simp add: waiting_def ahash.wf_insert)
qed

lemma follow_batches_chain:
  assumes "chain (pr_end_version b + 1) xs" and "waiting R xs seen"
  shows "\<exists>ys zs seen'. xs = ys @ zs \<and> set ys \<subseteq> R \<and> (zs = [] \<or> hd zs \<notin> R) \<and>
    follow_batches seen b = (seen', last (b # ys)) \<and> waiting R zs seen'"
  using assms
proof (induction xs arbitrary: seen b)
  case Nil
  then have "map_of seen (pr_end_version b + 1) = None"
    by (auto simp: waiting_def)
  with Nil show ?case by (auto simp: follow_batches.simps [of seen b])
next
  case (Cons x xs)
  let ?k = "pr_end_version b + 1"
  show ?case
  proof (cases "x \<in> R")
    case True
    note w = waiting_Cons_in [OF Cons.prems True]
    from Cons.prems(1) have "chain (pr_end_version x + 1) xs" by simp
    from Cons.IH [OF this w(2)] obtain ys zs seen' where
      r: "xs = ys @ zs" "set ys \<subseteq> R" "zs = [] \<or> hd zs \<notin> R"
        "follow_batches (AList.delete ?k seen) x = (seen', last (x # ys))" "waiting R zs seen'"
      by blast
    have "follow_batches seen b = (seen', last (b # x # ys))"
      using r(4) w(1) by (simp add: follow_batches.simps [of seen b])
    with r True show ?thesis
      by (intro exI [of _ "x # ys"] exI [of _ zs] exI [of _ seen']) auto
  next
    case False
    have "follow_batches seen b = (seen, b)"
      using waiting_Cons_notin [OF Cons.prems False] by (simp add: follow_batches.simps [of seen b])
    with False Cons.prems show ?thesis
      by (intro exI [of _ "[]"] exI [of _ "x # xs"] exI [of _ seen]) auto
  qed
qed

lemma progress_step:
  assumes ch: "chain s bs" and p: "progress s bs R gd" and r: "r \<in> set bs" "r \<notin> R"
  shows "progress s bs (insert r R) (fst (process_versions r gd))"
proof -
  obtain dn rest where d: "bs = dn @ rest" "set dn \<subseteq> R" "rest = [] \<or> hd rest \<notin> R"
      "waiting R rest (gd_seen_versions gd)"
      "gd_next_version_to_process gd = (if dn = [] then s else pr_end_version (last dn) + 1)"
      "gd_last_success_batch gd = (if dn = [] then None else Some (last dn))"
    using p unfolding progress_def by blast
  from r d(1,2) obtain x xs where rest: "rest = x # xs" by (cases rest) auto
  have cr: "chain (gd_next_version_to_process gd) (x # xs)"
    using ch d(1,5) rest by (simp add: chain_append)
  show ?thesis
  proof (cases "r = x")
    case True
    have w: "waiting (insert r R) xs (gd_seen_versions gd)"
      using waiting_skip [OF _ r(2)] d(4) rest True cr by auto
    have c: "chain (pr_end_version r + 1) xs" using cr True by simp
    obtain ys zs seen' where f: "xs = ys @ zs" "set ys \<subseteq> insert r R"
        "zs = [] \<or> hd zs \<notin> insert r R"
        "follow_batches (gd_seen_versions gd) r = (seen', last (r # ys))"
        "waiting (insert r R) zs seen'"
      using follow_batches_chain [OF c w] by blast
    then show ?thesis
      using True cr d rest unfolding progress_def
      by (intro exI [of _ "dn @ x # ys"] exI [of _ zs])
        (auto simp: process_versions_def update_prev_batch_def)
  next
    case False
    with r d rest have "r \<in> set xs" by auto
    then have "gd_next_version_to_process gd \<noteq> pr_start_version r"
      using chain_tail_start_gt [OF cr] cr by fastforce
    moreover have "waiting (insert r R) rest
        (AList.update (pr_start_version r) r (gd_seen_versions gd))"
      by (rule waiting_insert [OF d(4)])
        (use \<open>r \<in> set xs\<close> rest chain_distinct [OF cr] in \<open>auto simp: distinct_map\<close>)
    ultimately show ?thesis
      using d rest False unfolding progress_def
      by (intro exI [of _ dn] exI [of _ rest]) (auto simp: process_versions_def)
  qed
qed

lemma progress_process_all:
  assumes "chain s bs" and "progress s bs R gd" and "distinct xs" and "set xs \<subseteq> set bs"
    and "set xs \<inter> R = {}"
  shows "progress s bs (R \<union> set xs) (process_all xs gd)"
  using assms
proof (induction xs arbitrary: R gd)
  case (Cons x xs)
  then have "progress s bs (insert x R) (fst (process_versions x gd))"
    using progress_step by auto
  with Cons show ?case by (auto simp: process_all_def dest: Cons.IH)
qed (simp add: process_all_def)

lemma progress_complete:
  assumes "progress s bs (set bs) gd" and "bs \<noteq> []"
  shows "gd_next_version_to_process gd = pr_end_version (last bs) + 1 \<and>
    gd_last_success_batch gd = Some (last bs) \<and> gd_seen_versions gd = []"
proof -
  from assms obtain dn rest where "bs = dn @ rest" "rest = [] \<or> hd rest \<notin> set bs"
      "waiting (set bs) rest (gd_seen_versions gd)"
      "gd_next_version_to_process gd = (if dn = [] then s else pr_end_version (last dn) + 1)"
      "gd_last_success_batch gd = (if dn = [] then None else Some (last dn))"
    unfolding progress_def by blast
  moreover then have "rest = []" by (cases rest) auto
  ultimately have "\<forall>k. map_of (gd_seen_versions gd) k = None" "dn = bs"
    "gd_next_version_to_process gd = pr_end_version (last bs) + 1"
    "gd_last_success_batch gd = Some (last bs)"
    using assms(2) by (auto simp: waiting_def)
  moreover from this(1) have "gd_seen_versions gd = []"
    by (simp add: fun_eq_iff [symmetric])
  ultimately show ?thesis by simp
qed

lemma progress_new: "chain s bs \<Longrightarrow> progress s bs {} (gap_detector_new s)"
  by (auto simp: progress_def gap_detector_new_def waiting_def ahash.wf_empty)

section \<open>The status tracker stores only what is safe\<close>

text \<open>Whatever \<open>upd\<close> writes, it is called only for versions up to which everything is covered.\<close>

definition tracker_ok ::
  "u64 \<Rightarrow> processing_result list \<Rightarrow> ('s \<Rightarrow> bool) \<Rightarrow> 's tracker \<Rightarrow> bool" where
  "tracker_ok s rs P tk \<longleftrightarrow> detector_inv s rs (tk_gap_detector tk) \<and> P (tk_store tk)"

lemma process_versions_result:
  assumes "process_versions r gd = (gd', res)"
  shows "gdr_next_version_to_process res = gd_next_version_to_process gd'"
    and "gdr_num_gaps res = length (gd_seen_versions gd')"
    and "gdr_last_success_batch res = gd_last_success_batch gd'"
  using assms by (auto simp: process_versions_def Let_def)

lemma tracker_ok_step:
  assumes "tracker_ok s rs P tk" and "wf_batch (snd item)" and "snd item \<in> set rs"
    and "status_tracker_step upd item tk = Inr tk'"
    and "\<And>b ts st st'. P st \<Longrightarrow> upd (pr_end_version b) ts st = Inr st' \<Longrightarrow> wf_batch b \<Longrightarrow> b \<in> set rs \<Longrightarrow>
      (\<forall>v. s \<le> v \<longrightarrow> v \<le> pr_end_version b \<longrightarrow> covered rs v) \<Longrightarrow> P st'"
  shows "tracker_ok s rs P tk'"
proof -
  obtain now r where item: "item = (now, r)" by force
  obtain gd res where pv: "process_versions r (tk_gap_detector tk) = (gd, res)" by force
  note last = process_versions_result(3) [OF pv]
  have inv: "detector_inv s rs gd"
    using detector_inv_step [of s rs "tk_gap_detector tk" r] assms(1-3) pv item by (simp add: tracker_ok_def)
  show ?thesis
  proof (cases "gd_last_success_batch gd")
    case None
    with assms(1,4) inv show ?thesis by (auto simp: status_tracker_step_def item pv last tracker_ok_def)
  next
    case (Some b)
    then have "wf_batch b" "b \<in> set rs" "\<forall>v. s \<le> v \<longrightarrow> v \<le> pr_end_version b \<longrightarrow> covered rs v"
      using inv by (auto simp: detector_inv_def wf_batch_def less_Suc_u64)
    with assms(1,4,5) inv Some show ?thesis
      by (auto simp: status_tracker_step_def item pv last tracker_ok_def Let_def split: if_splits)
  qed
qed

lemma tracker_ok_loop:
  assumes "create_gap_detector_status_tracker_loop upd s start items st = Inr tk" and "P st"
    and "list_all wf_batch (map snd items)"
    and "\<And>b ts st st'. P st \<Longrightarrow> upd (pr_end_version b) ts st = Inr st' \<Longrightarrow> wf_batch b \<Longrightarrow>
      b \<in> snd ` set items \<Longrightarrow> (\<forall>v. s \<le> v \<longrightarrow> v \<le> pr_end_version b \<longrightarrow> covered (map snd items) v) \<Longrightarrow> P st'"
  shows "tracker_ok s (map snd items) P tk"
proof (rule fold_result_invariant [where P = "tracker_ok s (map snd items) P"])
  show "fold_result (status_tracker_step upd) items
      \<lparr>tk_gap_detector = gap_detector_new s, tk_last_update_time = start, tk_store = st\<rparr> = Inr tk"
    using assms(1) by (simp add: create_gap_detector_status_tracker_loop_def)
  show "tracker_ok s (map snd items) P
      \<lparr>tk_gap_detector = gap_detector_new s, tk_last_update_time = start, tk_store = st\<rparr>"
    using assms(2) detector_inv_new [of s] by (auto simp: tracker_ok_def intro: detector_inv_mono)
next
  fix item tk tk'
  assume "item \<in> set items" "tracker_ok s (map snd items) P tk" "status_tracker_step upd item tk = Inr tk'"
  then show "tracker_ok s (map snd items) P tk'"
    using assms(3,4) by (elim tracker_ok_step) (simp_all add: list_all_iff)
qed

section \<open>Properties\<close>

definition batch :: "u64 \<Rightarrow> u64 \<Rightarrow> processing_result" where
  "batch a b =
     \<lparr>pr_start_version = a, pr_end_version = b, pr_last_transaction_timestamp = None,
      pr_processing_duration_in_secs = 0, pr_db_insertion_duration_in_secs = 0\<rparr>"

text \<open>
  C2: whatever results arrive and in whatever order, every version from the starting version up to
  (excluding) \<open>next_version_to_process\<close> is inside a result that arrived, the last contiguous batch is
  one that arrived and ends right before \<open>next_version_to_process\<close>, and one more result never moves
  \<open>next_version_to_process\<close> back.
\<close>

theorem gap_detector_safe:
  assumes "list_all wf_batch rs" and "wf_batch r"
  shows "(s \<le> v \<and> v < gd_next_version_to_process (process_all rs (gap_detector_new s)) \<longrightarrow> covered rs v) \<and>
    (case gd_last_success_batch (process_all rs (gap_detector_new s)) of
       None \<Rightarrow> gd_next_version_to_process (process_all rs (gap_detector_new s)) = s
     | Some b \<Rightarrow> b \<in> set rs \<and>
         gd_next_version_to_process (process_all rs (gap_detector_new s)) = pr_end_version b + 1) \<and>
    gd_next_version_to_process (process_all rs (gap_detector_new s)) \<le>
      gd_next_version_to_process (process_all (rs @ [r]) (gap_detector_new s))"
proof -
  have inv: "detector_inv s rs (process_all rs (gap_detector_new s))"
    using detector_inv_process_all [of s rs _ rs] detector_inv_mono [OF detector_inv_new] assms(1) by auto
  have "detector_inv s (rs @ [r]) (process_all rs (gap_detector_new s))"
    using detector_inv_mono [OF inv, of "rs @ [r]"] by auto
  from detector_inv_step [OF this assms(2)] inv show ?thesis
    by (auto simp: detector_inv_def process_all_def split: option.splits)
qed

theorem gap_detector_safe_witness:
  "gd_next_version_to_process (process_all [batch 8 9, batch 5 7, batch 12 12] (gap_detector_new 5)) = 10 \<and>
   covered [batch 8 9, batch 5 7, batch 12 12] 9"
proof -
  have "gd_next_version_to_process (process_all [batch 8 9, batch 5 7, batch 12 12] (gap_detector_new 5)) = 10"
    by code_simp
  then show ?thesis
    using gap_detector_safe [of "[batch 8 9, batch 5 7, batch 12 12]" "batch 10 11" 5 9]
    by (simp add: batch_def wf_batch_def)
qed

text \<open>
  C5: when the results of consecutive batches have all arrived, in any order, the detector has
  followed all of them: it expects the version after the last batch, reports the last batch as
  processed and holds no gap.
\<close>

theorem gap_detector_complete:
  assumes "chain s bs" and "bs \<noteq> []" and "mset rs = mset bs"
  shows "process_all rs (gap_detector_new s) =
    \<lparr>gd_next_version_to_process = pr_end_version (last bs) + 1, gd_seen_versions = [],
     gd_last_success_batch = Some (last bs)\<rparr>"
proof -
  have "distinct bs" using chain_distinct [OF assms(1)] by (simp add: distinct_map)
  then have "distinct rs" using mset_eq_imp_distinct_iff [OF assms(3)] by simp
  moreover have "set rs = set bs" by (rule mset_eq_setD [OF assms(3)])
  ultimately have "progress s bs (set bs) (process_all rs (gap_detector_new s))"
    using progress_process_all [OF assms(1) progress_new [OF assms(1)], of rs] by simp
  from progress_complete [OF this assms(2)] show ?thesis by simp
qed

theorem gap_detector_complete_witness:
  "process_all [batch 8 9, batch 10 10, batch 5 7] (gap_detector_new 5) =
     \<lparr>gd_next_version_to_process = 11, gd_seen_versions = [], gd_last_success_batch = Some (batch 10 10)\<rparr>"
  using gap_detector_complete [of 5 "[batch 5 7, batch 8 9, batch 10 10]" "[batch 8 9, batch 10 10, batch 5 7]"]
  by (simp add: batch_def wf_batch_def)

text \<open>
  The fetcher gives every chunk of a split response the start and end version of the whole response,
  so the workers report the same pair several times. The first report already moves the detector
  past the response, and every later one stays in \<open>seen_versions\<close> and is counted as a gap.
\<close>

lemma split_response_acknowledged_early:
  assumes "wf_batch r"
  shows "process_all [r] (gap_detector_new (pr_start_version r)) =
      \<lparr>gd_next_version_to_process = pr_end_version r + 1, gd_seen_versions = [],
       gd_last_success_batch = Some r\<rparr>"
    and "gdr_num_gaps (snd (process_versions r (process_all [r] (gap_detector_new (pr_start_version r))))) = 1"
proof -
  show one: "process_all [r] (gap_detector_new (pr_start_version r)) =
      \<lparr>gd_next_version_to_process = pr_end_version r + 1, gd_seen_versions = [],
       gd_last_success_batch = Some r\<rparr>"
    by (simp add: process_all_def process_versions_def update_prev_batch_def gap_detector_new_def
        follow_batches.simps)
  have "pr_end_version r + 1 \<noteq> pr_start_version r" using wf_batch_less [OF assms] by auto
  then show "gdr_num_gaps (snd (process_versions r (process_all [r] (gap_detector_new (pr_start_version r))))) = 1"
    unfolding one by (simp add: process_versions_def)
qed

end
