(* ===== verification/Processor.thy ===== *)
theory Processor
  imports Database Gap_Detector
begin

text \<open>
  \<open>processors/mod.rs\<close>, \<open>models/processor_status.rs\<close>, \<open>models/ledger_info.rs\<close> and the names of
  \<open>config.rs\<close>: what all processors share. The last processed version is upserted into the table
  \<open>processor_status\<close> under a guard that never lets it go back; the worker reads it back at start-up.
  A read \<open>first\<close> of a table is a parameter; \<open>first_row_of\<close> is what PostgreSQL promises of it.
\<close>

section \<open>Processor configurations and names\<close>

record ans_processor_config =
  apc_ans_v1_primary_names_table_handle :: string
  apc_ans_v1_name_records_table_handle :: string
  apc_ans_v2_contract_address :: string

record query_retry_config =
  qrc_query_retries :: u32
  qrc_query_retry_delay_ms :: u64

record nft_metadata_processor_config = query_retry_config +
  nmc_pubsub_topic_name :: string
  nmc_google_application_credentials :: "string option"

record token_processor_config = query_retry_config +
  tpc_nft_points_contract :: "string option"

datatype processor_config =
    AccountTransactionsProcessor
  | AnsProcessor ans_processor_config
  | CoinProcessor
  | DefaultProcessor
  | EventsProcessor
  | FungibleAssetProcessor
  | MonitoringProcessor
  | NftMetadataProcessor nft_metadata_processor_config
  | ObjectsProcessor query_retry_config
  | StakeProcessor query_retry_config
  | TokenProcessor token_processor_config
  | TokenV2Processor query_retry_config
  | TransactionMetadataProcessor
  | UserTransactionProcessor

text \<open>\<open>strum\<close>'s snake-case names; the processor built for a configuration has the same name.\<close>

fun processor_name :: "processor_config \<Rightarrow> string" where
  "processor_name AccountTransactionsProcessor = ''account_transactions_processor''"
| "processor_name (AnsProcessor _) = ''ans_processor''"
| "processor_name CoinProcessor = ''coin_processor''"
| "processor_name DefaultProcessor = ''default_processor''"
| "processor_name EventsProcessor = ''events_processor''"
| "processor_name FungibleAssetProcessor = ''fungible_asset_processor''"
| "processor_name MonitoringProcessor = ''monitoring_processor''"
| "processor_name (NftMetadataProcessor _) = ''nft_metadata_processor''"
| "processor_name (ObjectsProcessor _) = ''objects_processor''"
| "processor_name (StakeProcessor _) = ''stake_processor''"
| "processor_name (TokenProcessor _) = ''token_processor''"
| "processor_name (TokenV2Processor _) = ''token_v2_processor''"
| "processor_name TransactionMetadataProcessor = ''transaction_metadata_processor''"
| "processor_name UserTransactionProcessor = ''user_transaction_processor''"

text \<open>The part before the first underscore, cut to twelve bytes (the names are ASCII).\<close>

definition get_server_name :: "processor_config \<Rightarrow> string" where
  "get_server_name cfg = take 12 (hd (split_on ''_'' (processor_name cfg)))"

section \<open>Status rows\<close>

record processor_status =
  ps_processor :: string
  ps_last_success_version :: i64
  ps_last_transaction_timestamp :: "naive_date_time option"

fun sql_opt :: "('a \<Rightarrow> sql_value) \<Rightarrow> 'a option \<Rightarrow> sql_value" where
  "sql_opt f None = SqlNull"
| "sql_opt f (Some a) = f a"

definition processor_status_row :: "processor_status \<Rightarrow> sql_row" where
  "processor_status_row st =
     [(''processor'', SqlText (ps_processor st)),
      (''last_success_version'', SqlInt (ps_last_success_version st)),
      (''last_transaction_timestamp'', sql_opt SqlTimestamp (ps_last_transaction_timestamp st))]"

definition processor_status_query :: "processor_status list \<Rightarrow> query" where
  "processor_status_query sts =
     (\<lparr>iq_table = ''processor_status'', iq_rows = map processor_status_row sts,
       iq_target = [''processor''],
       iq_action = DoUpdate [''last_success_version'', ''last_updated'', ''last_transaction_timestamp'']\<rparr>,
      Some (WhereLe ''last_success_version''))"

definition update_last_processed_version ::
  "libs \<Rightarrow> pg_env \<Rightarrow> string \<Rightarrow> u64 \<Rightarrow> timestamp option \<Rightarrow> db \<Rightarrow> failure + db" where
  "update_last_processed_version L env name version last_transaction_timestamp d =
     and_then (case last_transaction_timestamp of
                 None \<Rightarrow> Inr None
               | Some t \<Rightarrow> and_then (parse_timestamp L t) (\<lambda>x. Inr (Some x))) (\<lambda>timestamp.
     let status = \<lparr>ps_processor = name, ps_last_success_version = as_i64 version,
                   ps_last_transaction_timestamp = timestamp\<rparr>;
         (q, wh) = processor_status_query [status]
     in db_result (execute_with_better_error env q wh d))"

text \<open>
  A read of the first row of a table, and what the server promises: a row of the table that meets
  the conditions, or none if there is no such row.
\<close>

type_synonym pg_first = "string \<Rightarrow> (string \<times> sql_value) list \<Rightarrow> db \<Rightarrow> db_error + stored_row option"

definition meets :: "(string \<times> sql_value) list \<Rightarrow> stored_row \<Rightarrow> bool" where
  "meets cond r \<longleftrightarrow> list_all (\<lambda>(c, v). cell r c = v) cond"

lemma meets_simps [simp]: "meets [] r" "meets ((c, v) # cond) r \<longleftrightarrow> cell r c = v \<and> meets cond r"
  by (simp_all add: meets_def)

definition first_row_of :: "table \<Rightarrow> (string \<times> sql_value) list \<Rightarrow> stored_row option \<Rightarrow> bool" where
  "first_row_of t cond res \<longleftrightarrow>
     (case res of
        None \<Rightarrow> (\<forall>r \<in> ran t. \<not> meets cond r)
      | Some r \<Rightarrow> r \<in> ran t \<and> meets cond r)"

text \<open>Reading the columns of a row.\<close>

definition text_cell :: "stored_row \<Rightarrow> string \<Rightarrow> string option" where
  "text_cell r c = (case cell r c of SqlText s \<Rightarrow> Some s | _ \<Rightarrow> None)"

definition bool_cell :: "stored_row \<Rightarrow> string \<Rightarrow> bool option" where
  "bool_cell r c = (case cell r c of SqlBool b \<Rightarrow> Some b | _ \<Rightarrow> None)"

definition numeric_cell :: "stored_row \<Rightarrow> string \<Rightarrow> rat option" where
  "numeric_cell r c = (case cell r c of SqlNumeric q \<Rightarrow> Some q | _ \<Rightarrow> None)"

text \<open>The attempts \<open>tried + 1, tried + 2, ...\<close>, at most \<open>n\<close> of them.\<close>

fun first_success :: "(nat \<Rightarrow> failure + 'a) \<Rightarrow> nat \<Rightarrow> nat \<Rightarrow> 'a option" where
  "first_success query tried 0 = None"
| "first_success query tried (Suc n) =
     (case query (Suc tried) of Inr a \<Rightarrow> Some a | Inl _ \<Rightarrow> first_success query (Suc tried) n)"

record processor_status_query_result =
  psq_last_success_version :: i64

definition get_by_processor :: "pg_first \<Rightarrow> string \<Rightarrow> db \<Rightarrow> failure + processor_status_query_result option" where
  "get_by_processor first name d =
     and_then (db_result (first ''processor_status'' [(''processor'', SqlText name)] d)) (\<lambda>res.
       Inr (map_option (\<lambda>r. \<lparr>psq_last_success_version = int_of r ''last_success_version''\<rparr>) res))"

definition ledger_info_get :: "pg_first \<Rightarrow> db \<Rightarrow> failure + i64 option" where
  "ledger_info_get first d =
     and_then (db_result (first ''ledger_infos'' [] d)) (\<lambda>res.
       Inr (map_option (\<lambda>r. int_of r ''chain_id'') res))"

section \<open>The status table keeps the highest version\<close>

definition status_columns :: "string set" where
  "status_columns = {''processor'', ''last_success_version'', ''last_transaction_timestamp''}"

interpretation status: guarded_query
  "[''processor'']" "[''last_success_version'', ''last_updated'', ''last_transaction_timestamp'']"
  "WhereLe ''last_success_version''" status_columns
  processor_status_query processor_status_row "''processor_status''"
proof
  show "processor_status_query items = (\<lparr>iq_table = ''processor_status'',
      iq_rows = map processor_status_row items, iq_target = [''processor''],
      iq_action = DoUpdate [''last_success_version'', ''last_updated'', ''last_transaction_timestamp'']\<rparr>,
      Some (WhereLe ''last_success_version''))" for items
    by (simp add: processor_status_query_def)
  show "full_row (WhereLe ''last_success_version'') status_columns (processor_status_row a)" for a
    by (auto simp: full_row_def status_columns_def processor_status_row_def has_version_def int_cell_def)
qed (auto simp: status_columns_def)

abbreviation status_table_ok :: "db \<Rightarrow> bool" where
  "status_table_ok d \<equiv>
     table_ok [''processor''] (WhereLe ''last_success_version'') status_columns (d ''processor_status'')"

definition last_version :: "db \<Rightarrow> string \<Rightarrow> i64 option" where
  "last_version d name =
     map_option (\<lambda>r. int_of r ''last_success_version'') (d ''processor_status'' [SqlText name])"

lemma update_executes:
  assumes "update_last_processed_version L env name version ts d = Inr d'"
  obtains t wh where "pg_exec env (fst (processor_status_query [\<lparr>ps_processor = name,
      ps_last_success_version = as_i64 version, ps_last_transaction_timestamp = t\<rparr>])) wh d = Inr d'"
    and "where_free env processor_status_query {st. ps_processor st = name} \<Longrightarrow>
      wh = Some (WhereLe ''last_success_version'')"
proof -
  obtain t where e: "execute_with_better_error env (fst (processor_status_query [\<lparr>ps_processor = name,
      ps_last_success_version = as_i64 version, ps_last_transaction_timestamp = t\<rparr>]))
      (Some (WhereLe ''last_success_version'')) d = Inr d'" (is "execute_with_better_error env ?q ?w d = _")
    using assms by (auto simp: update_last_processed_version_def processor_status_query_def Let_def)
  let ?wh = "if contains (to_lowercase (pg_debug_query env ?q)) ''where'' then None else ?w"
  have "pg_exec env ?q ?wh d = Inr d'" using e by (simp add: execute_with_better_error_def Let_def)
  then show thesis by (rule that) (auto simp: where_free_def)
qed

text \<open>What an update does to the stored version, whether or not the guard was kept.\<close>

lemma last_version_update:
  assumes "postgres (pg_exec env)" and "update_last_processed_version L env name version ts d = Inr d'"
  shows "last_version d' name = last_version d name \<or> last_version d' name = Some (as_i64 version)"
proof -
  obtain t wh where "pg_exec env (fst (processor_status_query [\<lparr>ps_processor = name,
      ps_last_success_version = as_i64 version, ps_last_transaction_timestamp = t\<rparr>])) wh d = Inr d'"
    using update_executes [OF assms(2)] by metis
  from postgres.insert_effect [OF assms(1) this] obtain dflt where d': "d' = insert_spec dflt
      (fst (processor_status_query [\<lparr>ps_processor = name, ps_last_success_version = as_i64 version,
        ps_last_transaction_timestamp = t\<rparr>])) wh d" by blast
  show ?thesis
    by (auto simp: d' insert_spec_def processor_status_query_def upsert_row_def row_key_def cell_def Let_def
        last_version_def set_columns_def processor_status_row_def int_of_def split: option.splits)
qed

lemma last_version_guarded:
  assumes "postgres (pg_exec env)" and "update_last_processed_version L env name version ts d = Inr d'"
    and "where_free env processor_status_query {st. ps_processor st = name}" and "status_table_ok d"
  shows "last_version d' name =
    Some (case last_version d name of None \<Rightarrow> as_i64 version | Some old \<Rightarrow> max old (as_i64 version))"
proof -
  obtain t where e: "pg_exec env (fst (processor_status_query [\<lparr>ps_processor = name,
      ps_last_success_version = as_i64 version, ps_last_transaction_timestamp = t\<rparr>]))
      (Some (WhereLe ''last_success_version'')) d = Inr d'"
    using update_executes [OF assms(2)] assms(3) by metis
  from postgres.insert_effect [OF assms(1) this] obtain dflt where d': "d' = insert_spec dflt
      (fst (processor_status_query [\<lparr>ps_processor = name, ps_last_success_version = as_i64 version,
        ps_last_transaction_timestamp = t\<rparr>])) (Some (WhereLe ''last_success_version'')) d" by blast
  show ?thesis
  proof (cases "d ''processor_status'' [SqlText name]")
    case None
    then show ?thesis
      by (simp add: d' insert_spec_def processor_status_query_def upsert_row_def row_key_def cell_def Let_def
          last_version_def processor_status_row_def int_of_def)
  next
    case (Some r)
    then have "has_version (WhereLe ''last_success_version'') r" using assms(4) by (simp add: table_ok_def)
    then obtain old where "r ''last_success_version'' = Some (SqlInt old)" by (rule has_versionE) simp
    with Some show ?thesis
      by (auto simp: d' insert_spec_def processor_status_query_def upsert_row_def row_key_def cell_def Let_def
          last_version_def set_columns_def processor_status_row_def int_of_def int_cell_def max_def)
  qed
qed

lemma status_table_ok_update:
  assumes "postgres (pg_exec env)" and "update_last_processed_version L env name version ts d = Inr d'"
    and "where_free env processor_status_query {st. ps_processor st = name}" and "status_table_ok d"
  shows "status_table_ok d'"
proof -
  obtain t where e: "pg_exec env (fst (processor_status_query [\<lparr>ps_processor = name,
      ps_last_success_version = as_i64 version, ps_last_transaction_timestamp = t\<rparr>]))
      (Some (WhereLe ''last_success_version'')) d = Inr d'" (is "pg_exec env (fst (processor_status_query ?sts)) _ d = _")
    using update_executes [OF assms(2)] assms(3) by metis
  have "snd (processor_status_query ?sts) = Some (WhereLe ''last_success_version'')"
    by (simp add: processor_status_query_def)
  with e status.exec_refines(2) [OF assms(1), of ?sts True d d'] assms(4) show ?thesis by simp
qed

section \<open>Properties\<close>

text \<open>A server for the witnesses.\<close>

definition sample_pg :: pg_env where
  "sample_pg = \<lparr>pg_exec = pg_reference, pg_debug_query = (\<lambda>_. []), pg_sched = (\<lambda>n. [0..<n])\<rparr>"

lemma sample_pg_ok:
  "postgres (pg_exec sample_pg)" "fair_sched sample_pg" "where_free sample_pg build X"
proof -
  show "postgres (pg_exec sample_pg)" by (simp add: sample_pg_def reference_pg.postgres_axioms)
  show "fair_sched sample_pg" by (simp add: sample_pg_def fair_sched_def)
  show "where_free sample_pg build X" by (simp add: sample_pg_def where_free_def to_lowercase_def contains_def)
qed

text \<open>The reference server accepts a statement that does nothing on conflict or has distinct keys.\<close>

lemma reference_accepts:
  "iq_action (fst (build c)) = DoNothing \<or> distinct (proposed_keys (fst (build c))) \<Longrightarrow>
   \<exists>d'. execute_with_better_error sample_pg (fst (build c)) (snd (build c)) d = Inr d'"
  by (auto simp: execute_with_better_error_def sample_pg_def pg_reference_def Let_def)

lemma reference_do_nothing:
  assumes "0 < n" and "\<And>c. iq_action (fst (build c)) = DoNothing"
  shows "\<exists>d'. execute_in_chunks sample_pg build sd items n d = (Inr (), d')"
  by (rule execute_in_chunks_succeeds [OF assms(1)]) (rule reference_accepts, simp add: assms(2))

lemma reference_do_update:
  assumes "0 < n" and "distinct (map key items)"
    and "\<And>c. distinct (map key c) \<Longrightarrow> distinct (proposed_keys (fst (build c)))"
  shows "\<exists>d'. execute_in_chunks sample_pg build sd items n d = (Inr (), d')"
  by (rule execute_in_chunks_succeeds [OF assms(1)], rule reference_accepts)
    (use assms chunk_distinct in blast)

lemma reference_single:
  assumes "0 < n" and "length items \<le> 1" and "\<And>c. length (iq_rows (fst (build c))) = length c"
  shows "\<exists>d'. execute_in_chunks sample_pg build sd items n d = (Inr (), d')"
proof (rule reference_do_update [OF assms(1), where key = "\<lambda>_. 0 :: nat"])
  show "distinct (map (\<lambda>_. 0 :: nat) items)" using assms(2) by (cases items) simp_all
  fix c :: "'a list"
  assume "distinct (map (\<lambda>_. 0 :: nat) c)"
  then have "length c \<le> 1" by (cases c) (simp_all add: image_constant_conv split: if_splits)
  then have "length (proposed_keys (fst (build c))) \<le> 1" by (simp add: proposed_keys_def assms(3))
  then show "distinct (proposed_keys (fst (build c)))" by (cases "proposed_keys (fst (build c))") auto
qed

lemma default_chunk_size: "0 < k \<Longrightarrow> k \<le> 32767 \<Longrightarrow> 0 < get_config_table_chunk_size k name []"
  by (simp add: get_config_table_chunk_size_def max_diesel_param_size_def div_greater_zero_iff)

text \<open>
  C6: whatever results the workers report and in whatever order, and whatever the server does within
  its contract, a version that the status tracker stores for its processor is either the one that was
  stored before or one up to which every version since the starting version is inside a reported
  result.
\<close>

theorem status_tracker_safe:
  assumes "create_gap_detector_status_tracker_loop (update_last_processed_version L env name) s start items d = Inr tk"
    and "postgres (pg_exec env)" and "list_all wf_batch (map snd items)"
  shows "case last_version (tk_store tk) name of
      None \<Rightarrow> last_version d name = None
    | Some stored \<Rightarrow> last_version d name = Some stored \<or>
        (\<exists>e. stored = as_i64 e \<and> (\<forall>v. s \<le> v \<longrightarrow> v \<le> e \<longrightarrow> covered (map snd items) v))"
proof -
  let ?P = "\<lambda>st. last_version st name = last_version d name \<or>
    (\<exists>e. last_version st name = Some (as_i64 e) \<and> (\<forall>v. s \<le> v \<longrightarrow> v \<le> e \<longrightarrow> covered (map snd items) v))"
  have "tracker_ok s (map snd items) ?P tk"
  proof (rule tracker_ok_loop [OF assms(1) _ assms(3)])
    fix b ts st st'
    assume "?P st" and "update_last_processed_version L env name (pr_end_version b) ts st = Inr st'"
      and "\<forall>v. s \<le> v \<longrightarrow> v \<le> pr_end_version b \<longrightarrow> covered (map snd items) v"
    with last_version_update [OF assms(2)] show "?P st'" by metis
  qed simp
  then show ?thesis by (auto simp: tracker_ok_def split: option.splits)
qed

theorem status_tracker_safe_witness:
  "\<exists>tk. create_gap_detector_status_tracker_loop
      (update_last_processed_version sample_libs sample_pg ''coin_processor'') 5 0
      [(2, batch 8 9), (3, batch 5 7)] (\<lambda>_. Map.empty) = Inr tk \<and>
    last_version (tk_store tk) ''coin_processor'' = Some 9 \<and>
    (case last_version (tk_store tk) ''coin_processor'' of
       None \<Rightarrow> last_version (\<lambda>_. Map.empty) ''coin_processor'' = None
     | Some stored \<Rightarrow> last_version (\<lambda>_. Map.empty) ''coin_processor'' = Some stored \<or>
         (\<exists>e. stored = as_i64 e \<and> (\<forall>v. 5 \<le> v \<longrightarrow> v \<le> e \<longrightarrow> covered [batch 8 9, batch 5 7] v)))"
proof -
  let ?loop = "create_gap_detector_status_tracker_loop
      (update_last_processed_version sample_libs sample_pg ''coin_processor'') 5 0
      [(2, batch 8 9), (3, batch 5 7)] (\<lambda>_. Map.empty)"
  obtain tk where tk: "?loop = Inr tk" and v: "last_version (tk_store tk) ''coin_processor'' = Some 9"
    by (simp add: create_gap_detector_status_tracker_loop_def status_tracker_step_def
        process_versions_def update_prev_batch_def gap_detector_new_def follow_batches.simps batch_def
        update_processor_status_secs_def update_last_processed_version_def processor_status_query_def
        execute_with_better_error_def sample_pg_def contains_def to_lowercase_def
        pg_reference_def proposed_keys_def insert_spec_def upsert_row_def row_key_def cell_def
        last_version_def processor_status_row_def int_of_def as_i64_small Let_def)
  moreover have "list_all wf_batch (map snd [(2 :: rat, batch 8 9), (3, batch 5 7)])"
    by (simp add: batch_def wf_batch_def)
  ultimately show ?thesis using status_tracker_safe [OF tk sample_pg_ok(1)] by simp
qed

end
