(* ===== verification/Transaction_Filter.thy ===== *)
theory Transaction_Filter
  imports Proto
begin

text \<open>
  \<open>transaction_filter.rs\<close>: the criteria by which the fetcher drops transactions before they reach the
  processors. The function is translated branch by branch; \<open>focus_ok\<close>, \<open>skip_ok\<close> and \<open>user_ok\<close> are the criteria as the
  code applies them. The list of contract addresses is weaker than its documentation says: only the call of an entry
  function with a module is compared with it.
\<close>

record transaction_filter =
  tf_focus_contract_addresses :: "string set option"
  tf_skip_sender_addresses :: "string set option"
  tf_focus_user_transactions :: bool

definition transaction_filter_new ::
  "string set option \<Rightarrow> string set option \<Rightarrow> bool \<Rightarrow> transaction_filter" where
  "transaction_filter_new focus skip user_only =
     \<lparr>tf_focus_contract_addresses = focus, tf_skip_sender_addresses = skip,
      tf_focus_user_transactions = user_only\<rparr>"

definition focus_excludes :: "transaction_filter \<Rightarrow> user_transaction_request \<Rightarrow> bool" where
  "focus_excludes f utr =
     (case tf_focus_contract_addresses f of
        None \<Rightarrow> False
      | Some focus \<Rightarrow>
          (case utr_payload utr of
             None \<Rightarrow> False
           | Some payload \<Rightarrow>
               (case tp_payload payload of
                  Some (EntryFunctionPayload efp) \<Rightarrow>
                    (case efp_function efp of
                       None \<Rightarrow> False
                     | Some fn \<Rightarrow>
                         (case efi_module fn of
                            None \<Rightarrow> False
                          | Some m \<Rightarrow> mmi_address m \<notin> focus))
                | _ \<Rightarrow> False)))"

definition include_txn :: "transaction_filter \<Rightarrow> transaction \<Rightarrow> bool" where
  "include_txn f txn =
     (let is_user_txn = (txn_type txn = transaction_type_user) in
      if tf_focus_user_transactions f \<and> \<not> is_user_txn then False
      else if \<not> is_user_txn then True
      else case txn_txn_data txn of
             Some (User user_transaction) \<Rightarrow>
               (case ut_request user_transaction of
                  None \<Rightarrow> True
                | Some utr \<Rightarrow>
                    if (case tf_skip_sender_addresses f of
                          Some skip \<Rightarrow> utr_sender utr \<in> skip | None \<Rightarrow> False)
                    then False
                    else \<not> focus_excludes f utr)
           | _ \<Rightarrow> True)"

section \<open>The criteria are a conjunction\<close>

text \<open>The request of a user transaction, and the address of the contract its payload calls.\<close>

definition user_request :: "transaction \<Rightarrow> user_transaction_request option" where
  "user_request txn =
     (if txn_type txn = transaction_type_user
      then case txn_txn_data txn of Some (User u) \<Rightarrow> ut_request u | _ \<Rightarrow> None
      else None)"

definition called_contract :: "user_transaction_request \<Rightarrow> string option" where
  "called_contract utr =
     Option.bind (utr_payload utr) (\<lambda>p. Option.bind (tp_payload p) (\<lambda>pt.
       case pt of
         EntryFunctionPayload efp \<Rightarrow>
           Option.bind (efp_function efp) (\<lambda>fn. map_option mmi_address (efi_module fn))
       | _ \<Rightarrow> None))"

text \<open>Each criterion alone, in the order of the configuration fields.\<close>

definition focus_ok :: "transaction_filter \<Rightarrow> transaction \<Rightarrow> bool" where
  "focus_ok f txn \<longleftrightarrow>
     (\<forall>focus addr utr. tf_focus_contract_addresses f = Some focus \<longrightarrow> user_request txn = Some utr \<longrightarrow>
        called_contract utr = Some addr \<longrightarrow> addr \<in> focus)"

definition skip_ok :: "transaction_filter \<Rightarrow> transaction \<Rightarrow> bool" where
  "skip_ok f txn \<longleftrightarrow>
     (\<forall>skip utr. tf_skip_sender_addresses f = Some skip \<longrightarrow> user_request txn = Some utr \<longrightarrow>
        utr_sender utr \<notin> skip)"

definition user_ok :: "transaction_filter \<Rightarrow> transaction \<Rightarrow> bool" where
  "user_ok f txn \<longleftrightarrow> (tf_focus_user_transactions f \<longrightarrow> txn_type txn = transaction_type_user)"

lemma focus_excludes_iff:
  "focus_excludes f utr \<longleftrightarrow>
     (\<exists>focus addr. tf_focus_contract_addresses f = Some focus \<and> called_contract utr = Some addr \<and>
        addr \<notin> focus)"
  by (auto simp: focus_excludes_def called_contract_def Option.bind_eq_Some_conv
      split: option.splits payload_type.splits) (metis option.exhaust)

lemma include_txn_iff:
  "include_txn f txn \<longleftrightarrow> focus_ok f txn \<and> skip_ok f txn \<and> user_ok f txn"
proof (cases "user_request txn")
  case None
  then show ?thesis
    by (auto simp: include_txn_def focus_ok_def skip_ok_def user_ok_def user_request_def Let_def
        split: option.splits txn_data.splits if_splits)
next
  case (Some utr)
  then have "include_txn f txn \<longleftrightarrow>
      \<not> (\<exists>skip. tf_skip_sender_addresses f = Some skip \<and> utr_sender utr \<in> skip) \<and> \<not> focus_excludes f utr"
    by (auto simp: include_txn_def user_request_def Let_def split: option.splits txn_data.splits if_splits)
  moreover have "user_ok f txn"
    using Some by (auto simp: user_ok_def user_request_def split: if_splits)
  ultimately show ?thesis
    using Some by (auto simp: focus_ok_def skip_ok_def focus_excludes_iff)
qed

text \<open>
  C34: what passes the filter. A transaction passes exactly when it passes each configured criterion: if it calls an
  entry function, the module is at one of the focused addresses; its sender is not skipped; it is a user transaction
  if only those are wanted. So the sender and contract criteria only ever reject user transactions, and a user
  transaction that names no module, such as a script or a multisig transaction, passes whatever addresses are focused
  on, although the documentation says that only transactions from these addresses are allowed.
\<close>

theorem include_txn_conjunction:
  "(include_txn f txn \<longleftrightarrow> focus_ok f txn \<and> skip_ok f txn \<and> user_ok f txn) \<and>
   (\<forall>utr. user_request txn = Some utr \<longrightarrow> called_contract utr = None \<longrightarrow> (include_txn f txn \<longleftrightarrow> skip_ok f txn))"
proof -
  have all: "include_txn f txn \<longleftrightarrow> focus_ok f txn \<and> skip_ok f txn \<and> user_ok f txn" by (rule include_txn_iff)
  moreover have "user_ok f txn" if "user_request txn = Some utr" for utr
    using that by (auto simp: user_ok_def user_request_def split: if_splits)
  ultimately show ?thesis by (auto simp: focus_ok_def)
qed

text \<open>A script transaction passes a filter that focuses on no address at all.\<close>

definition script_txn :: transaction where
  "script_txn =
     \<lparr>txn_timestamp = None, txn_version = 7, txn_info = None, txn_epoch = 1, txn_block_height = 1,
      txn_type = transaction_type_user,
      txn_txn_data = Some (User \<lparr>ut_request = Some \<lparr>utr_sender = ''0x1'', utr_sequence_number = 0,
          utr_max_gas_amount = 10, utr_expiration_timestamp_secs = None, utr_gas_unit_price = 100,
          utr_payload = Some \<lparr>tp_type = 2, tp_payload = Some (ScriptPayload
            \<lparr>sp_code = None, sp_type_arguments = [], sp_arguments = []\<rparr>)\<rparr>,
          utr_signature = None\<rparr>, ut_events = []\<rparr>), txn_size_info = None\<rparr>"

theorem include_txn_conjunction_witness:
  "include_txn (transaction_filter_new (Some {}) None True) script_txn"
proof -
  let ?f = "transaction_filter_new (Some {}) None True"
  obtain utr where "user_request script_txn = Some utr" "called_contract utr = None"
    by (simp add: user_request_def script_txn_def called_contract_def)
  moreover have "skip_ok ?f script_txn" by (simp add: skip_ok_def transaction_filter_new_def)
  ultimately show ?thesis using include_txn_conjunction [of ?f script_txn] by blast
qed

end
