(* ===== verification/Moving_Average.thy ===== *)
theory Moving_Average
  imports Prelude
begin

text \<open>
  The crate \<open>moving-average\<close>: a queue of (timestamp in milliseconds, value) pairs with the sum of
  the values in the window. All arithmetic is on \<open>u64\<close>. The clock reading of \<open>new\<close> and \<open>tick_now\<close> is
  an argument. \<open>avg\<close> divides as \<open>f64\<close>; the model gives the exact quotient, and \<open>None\<close> where the
  divisor is zero and the \<open>f64\<close> is infinite or NaN.
\<close>

record moving_average =
  ma_window_millis :: u64
  ma_values :: "(u64 \<times> u64) list"
  ma_sum :: u64

definition moving_average_new :: "u64 \<Rightarrow> u64 \<Rightarrow> moving_average" where
  "moving_average_new now window_millis =
     \<lparr>ma_window_millis = window_millis, ma_values = [(now, 0)], ma_sum = 0\<rparr>"

fun evict :: "u64 \<Rightarrow> u64 \<Rightarrow> (u64 \<times> u64) list \<Rightarrow> u64 \<Rightarrow> (u64 \<times> u64) list \<times> u64" where
  "evict window timestamp_millis [] acc = ([], acc)"
| "evict window timestamp_millis ((ts, val) # vs) acc =
     (if 2 < length ((ts, val) # vs) \<and> window < timestamp_millis - ts
      then evict window timestamp_millis vs (acc - val)
      else ((ts, val) # vs, acc))"

definition ma_avg :: "moving_average \<Rightarrow> rat option" where
  "ma_avg ma =
     (if length (ma_values ma) < 2 then Some 0
      else let elapsed = fst (last (ma_values ma)) - fst (hd (ma_values ma))
           in if elapsed = 0 then None
              else Some (of_nat (unat (ma_sum ma * 1000)) / of_nat (unat elapsed)))"

definition tick :: "u64 \<Rightarrow> u64 \<Rightarrow> moving_average \<Rightarrow> moving_average \<times> rat option" where
  "tick timestamp_millis v ma =
     (let (vs, acc) = evict (ma_window_millis ma) timestamp_millis
                          (ma_values ma @ [(timestamp_millis, v)]) (ma_sum ma + v);
          ma' = ma\<lparr>ma_values := vs, ma_sum := acc\<rparr>
      in (ma', ma_avg ma'))"

definition tick_now :: "u64 \<Rightarrow> u64 \<Rightarrow> moving_average \<Rightarrow> moving_average" where
  "tick_now now v ma = fst (tick now v ma)"

section \<open>The sum is the sum of the window\<close>

definition ma_inv :: "moving_average \<Rightarrow> bool" where
  "ma_inv ma \<longleftrightarrow> ma_values ma \<noteq> [] \<and> ma_sum ma = sum_list (map snd (ma_values ma))"

lemma sorted_wrt_last_le:
  "sorted (map fst xs) \<Longrightarrow> e \<in> set xs \<Longrightarrow> fst e \<le> fst (last xs)"
  by (induction xs) auto

text \<open>The loop drops a prefix of expired entries and stops at the first live one, or at two entries.\<close>

lemma evict_split:
  assumes "evict window now vs acc = (vs', acc')" and "acc = sum_list (map snd vs)"
  shows "\<exists>old. vs = old @ vs' \<and> (\<forall>e \<in> set old. window < now - fst e) \<and>
    (2 < length vs' \<longrightarrow> \<not> window < now - fst (hd vs')) \<and> acc' = sum_list (map snd vs') \<and>
    (2 \<le> length vs \<longrightarrow> 2 \<le> length vs')"
  using assms
proof (induction window now vs acc rule: evict.induct)
  case (2 window now ts val vs acc)
  show ?case
  proof (cases "2 < length ((ts, val) # vs) \<and> window < now - ts")
    case True
    with 2 obtain old where "vs = old @ vs'" "\<forall>e \<in> set old. window < now - fst e"
        "2 < length vs' \<longrightarrow> \<not> window < now - fst (hd vs')" "acc' = sum_list (map snd vs')"
        "2 \<le> length vs'"
      by auto
    with True show ?thesis by (intro exI [of _ "(ts, val) # old"]) auto
  qed (use 2 in auto)
qed auto

definition ticks :: "(u64 \<times> u64) list \<Rightarrow> moving_average \<Rightarrow> moving_average" where
  "ticks es ma = fold (\<lambda>(now, v). tick_now now v) es ma"

lemma tick_now_split:
  assumes "ma_inv ma"
  shows "\<exists>old. ma_values ma @ [(now, v)] = old @ ma_values (tick_now now v ma) \<and>
    (\<forall>e \<in> set old. ma_window_millis ma < now - fst e) \<and>
    (2 < length (ma_values (tick_now now v ma)) \<longrightarrow>
       now - fst (hd (ma_values (tick_now now v ma))) \<le> ma_window_millis ma) \<and>
    ma_inv (tick_now now v ma) \<and> 2 \<le> length (ma_values (tick_now now v ma)) \<and>
    ma_window_millis (tick_now now v ma) = ma_window_millis ma"
proof -
  obtain vs acc where e: "evict (ma_window_millis ma) now (ma_values ma @ [(now, v)]) (ma_sum ma + v) =
      (vs, acc)"
    by force
  then have t: "tick_now now v ma = ma\<lparr>ma_values := vs, ma_sum := acc\<rparr>"
    by (simp add: tick_now_def tick_def Let_def)
  have two: "2 \<le> length (ma_values ma @ [(now, v)])"
    using assms by (cases "ma_values ma") (auto simp: ma_inv_def)
  show ?thesis
    using evict_split [OF e] assms two by (auto simp: t ma_inv_def not_less)
qed

section \<open>The window\<close>

text \<open>The entries that count at time \<open>now\<close>: those inside the window, or the last two if there are fewer.\<close>

definition live :: "u64 \<Rightarrow> u64 \<Rightarrow> u64 \<times> u64 \<Rightarrow> bool" where
  "live window now e \<longleftrightarrow> now - fst e \<le> window"

definition window_spec :: "u64 \<Rightarrow> u64 \<Rightarrow> (u64 \<times> u64) list \<Rightarrow> (u64 \<times> u64) list" where
  "window_spec window now pushed =
     (let inside = filter (live window now) pushed
      in if 2 \<le> length inside then inside else drop (length pushed - 2) pushed)"

lemma age_mono: "(t :: u64) \<le> t' \<Longrightarrow> t' \<le> now \<Longrightarrow> now - t' \<le> now - t"
  using order_trans [of t t' now] by (simp add: word_le_nat_alt unat_sub)

lemma expired_later: "(t :: u64) \<le> n \<Longrightarrow> n \<le> now \<Longrightarrow> window < n - t \<Longrightarrow> window < now - t"
  using order_trans [of t n now] by (simp add: word_le_nat_alt word_less_nat_alt unat_sub)

lemma window_spec_expired:
  "\<forall>e \<in> set old. window < now - fst e \<Longrightarrow> 2 \<le> length vs \<Longrightarrow> window_spec window now (old @ vs) = window_spec window now vs"
proof -
  assume old: "\<forall>e \<in> set old. window < now - fst e" and "2 \<le> length vs"
  moreover have "filter (live window now) old = []" using old by (auto simp: filter_empty_conv live_def)
  ultimately show ?thesis by (simp add: window_spec_def Let_def)
qed

lemma window_spec_all:
  assumes "sorted (map fst vs)" and "\<forall>e \<in> set vs. fst e \<le> now" and "2 \<le> length vs"
    and "2 < length vs \<longrightarrow> now - fst (hd vs) \<le> window"
  shows "window_spec window now vs = vs"
proof (cases "2 < length vs")
  case True
  have "live window now e" if "e \<in> set vs" for e
  proof -
    have "fst (hd vs) \<le> fst e" using assms(1) that by (cases vs) auto
    then show ?thesis
      using age_mono [of "fst (hd vs)" "fst e" now] assms(2,4) that True by (auto simp: live_def)
  qed
  then show ?thesis using assms(3) by (simp add: window_spec_def filter_id_conv [THEN iffD2])
next
  case False
  with assms(3) have two: "length vs = 2" by simp
  have "filter (live window now) vs = vs" if "2 \<le> length (filter (live window now) vs)"
    using that two length_filter_less [of _ vs "live window now"] by (auto simp: filter_id_conv)
  then show ?thesis by (auto simp: window_spec_def two Let_def)
qed

lemma ticks_snoc: "ticks (es @ [(now, v)]) ma = tick_now now v (ticks es ma)"
  by (simp add: ticks_def)

lemma ticks_inv:
  assumes "sorted (start # map fst es)"
  shows "ma_inv (ticks es (moving_average_new start window)) \<and>
    ma_window_millis (ticks es (moving_average_new start window)) = window \<and>
    (\<exists>old. (start, 0) # es = old @ ma_values (ticks es (moving_average_new start window)) \<and>
      (\<forall>e \<in> set old. window < fst (last ((start, 0) # es)) - fst e))"
  using assms
proof (induction es rule: rev_induct)
  case Nil
  show ?case by (simp add: ticks_def ma_inv_def moving_average_new_def)
next
  case (snoc x es)
  let ?ma = "ticks es (moving_average_new start window)"
  obtain now v where x: "x = (now, v)" by force
  have sorted: "sorted (start # map fst es)" and le: "\<forall>e \<in> set ((start, 0) # es). fst e \<le> now"
    using snoc.prems by (auto simp: x sorted_append)
  obtain old where old: "(start, 0) # es = old @ ma_values ?ma"
    "\<forall>e \<in> set old. window < fst (last ((start, 0) # es)) - fst e"
    and inv: "ma_inv ?ma" "ma_window_millis ?ma = window"
    using snoc.IH [OF sorted] by blast
  obtain new where new: "ma_values ?ma @ [(now, v)] = new @ ma_values (tick_now now v ?ma)"
    "\<forall>e \<in> set new. window < now - fst e" and inv': "ma_inv (tick_now now v ?ma)"
    "ma_window_millis (tick_now now v ?ma) = window"
    using tick_now_split [OF inv(1), of now v] inv(2) by auto
  have "window < now - fst e" if e: "e \<in> set old" for e
  proof (rule expired_later [OF _ _ old(2) [rule_format, OF e]])
    show "fst (last ((start, 0) # es)) \<le> now" using le last_in_set [of "(start, 0) # es"] by blast
    have in_all: "e \<in> set ((start, 0) # es)" using e old(1) by simp
    have "sorted (map fst ((start, 0) # es))" using sorted by simp
    then show "fst e \<le> fst (last ((start, 0) # es))"
      using sorted_wrt_last_le [of "(start, 0) # es" e] in_all by blast
  qed
  with new(2) have "\<forall>e \<in> set (old @ new). window < now - fst e" by auto
  moreover have "(start, 0) # es @ [(now, v)] = (old @ new) @ ma_values (tick_now now v ?ma)"
    using old(1) new(1) by (metis append.assoc append_Cons)
  moreover have "last ((start, 0) # es @ [x]) = (now, v)" by (simp add: x)
  ultimately show ?case using inv' unfolding x ticks_snoc by (intro conjI exI [of _ "old @ new"]) simp_all
qed

lemma unat_sum_list: "(\<Sum>e \<leftarrow> vs. unat (snd e)) < 2 ^ 64 \<Longrightarrow> unat (sum_list (map snd vs) :: u64) = (\<Sum>e \<leftarrow> vs. unat (snd e))"
  by (induction vs) (simp_all add: unat_word_ariths)

text \<open>
  C35: the window and the average. For a clock that does not go back, after the tick at \<open>now\<close> the kept
  entries are exactly those, of all that were ever pushed, that are at most the window old, or the last two if
  there are fewer; the stored sum is their (64-bit) sum; and the tick returns a thousand times their sum over the
  milliseconds since the oldest of them, as long as a thousand times the sum fits 64 bits (no number if no time has passed).
\<close>

theorem moving_average_window:
  fixes es :: "(u64 \<times> u64) list" and start window now v :: u64
  defines "ma \<equiv> ticks es (moving_average_new start window)"
    and "vs \<equiv> window_spec window now ((start, 0) # es @ [(now, v)])"
  assumes "sorted (start # map fst es @ [now])"
  shows "ma_values (fst (tick now v ma)) = vs \<and> ma_sum (fst (tick now v ma)) = sum_list (map snd vs) \<and>
    (1000 * (\<Sum>e \<leftarrow> vs. unat (snd e)) < 2 ^ 64 \<longrightarrow>
      snd (tick now v ma) = (if now = fst (hd vs) then None
        else Some (of_nat (1000 * (\<Sum>e \<leftarrow> vs. unat (snd e))) / of_nat (unat (now - fst (hd vs))))))"
proof -
  let ?pushed = "(start, 0) # es @ [(now, v)]" and ?ma = "tick_now now v ma"
  have sorted: "sorted (start # map fst es)" using assms(3) by (auto simp: sorted_append)
  then have inv: "ma_inv ma" "ma_window_millis ma = window" using ticks_inv unfolding ma_def by blast+
  note split = tick_now_split [OF inv(1), of now v, unfolded inv(2)]
  obtain old where old: "?pushed = old @ ma_values ?ma" "\<forall>e \<in> set old. window < now - fst e"
    using ticks_inv [of start "es @ [(now, v)]" window] assms(3) by (auto simp: ticks_snoc ma_def)
  have two: "2 \<le> length (ma_values ?ma)" using split by blast
  have "sorted (map fst ?pushed)" "\<forall>e \<in> set ?pushed. fst e \<le> now" using assms(3) by (auto simp: sorted_append)
  then have "sorted (map fst (ma_values ?ma))" "\<forall>e \<in> set (ma_values ?ma). fst e \<le> now"
    unfolding old(1) by (auto simp: sorted_append)
  then have "window_spec window now (ma_values ?ma) = ma_values ?ma"
    by (rule window_spec_all) (use split two in blast)+
  then have vs: "ma_values ?ma = vs"
    unfolding vs_def old(1) window_spec_expired [OF old(2) two] by simp
  have sum: "ma_sum ?ma = sum_list (map snd vs)" using split vs by (auto simp: ma_inv_def)
  have "last vs = (now, v)" using old(1) two vs by (metis last.simps last_appendR last_snoc list.size(3) not_numeral_le_zero append_is_Nil_conv append_Cons)
  moreover have "snd (tick now v ma) = ma_avg ?ma" by (auto simp: tick_now_def tick_def Let_def split: prod.splits)
  moreover have "unat (sum_list (map snd vs) * 1000) = 1000 * (\<Sum>e \<leftarrow> vs. unat (snd e))"
    if "1000 * (\<Sum>e \<leftarrow> vs. unat (snd e)) < 2 ^ 64"
    using that unat_sum_list [of vs] by (simp add: unat_word_ariths mult.commute)
  ultimately show ?thesis
    using vs sum two by (auto simp: ma_avg_def Let_def tick_now_def)
qed

theorem moving_average_window_witness:
  "snd (tick 4000 9 (ticks [(1000, 5), (3500, 7)] (moving_average_new 0 3000))) = Some 7"
proof -
  have vs: "window_spec 3000 4000 ([(0, 0), (1000, 5), (3500, 7), (4000, 9)] :: (u64 \<times> u64) list) =
      [(1000, 5), (3500, 7), (4000, 9)]"
    by code_simp
  show ?thesis
    using moving_average_window [where start = 0 and es = "[(1000, 5), (3500, 7)]" and now = 4000 and window = 3000 and v = 9] by (simp add: vs)
qed

end
