(* ===== verification/Grpc_Stream.thy ===== *)
theory Grpc_Stream
  imports Transaction_Filter Moving_Average
begin

text \<open>
  \<open>grpc_stream.rs\<close>: connecting to the transaction stream and the fetcher loop. The network is the
  record \<open>grpc_env\<close>: what the \<open>k\<close>-th call of \<open>get_stream\<close> meets (each connection or request attempt is
  \<open>None\<close> when it times out), the stream it obtains as the list of what \<open>next()\<close> yields before the
  stream ends, the encoded size of a message, whether the channel to the workers accepts a batch,
  the connection id in the metadata of the response (\<open>Some None\<close> is one that is not text), and the clock. Log lines
  and metrics are left out; a timestamp that cannot be formatted for them makes the task that takes the batch panic
  as well (\<open>task_iteration\<close> of \<open>Worker\<close>).
  The wait for the channel to drain before the fetcher returns changes no state.
\<close>

section \<open>Requests and connections\<close>

definition reconnection_max_retries :: nat where
  "reconnection_max_retries = 5"

record grpc_request =
  rq_starting_version :: u64
  rq_transactions_count :: "u64 option"
  rq_authorization :: string
  rq_request_name :: string

datatype stream_item = ItemTimeout | ItemErr string | ItemOk transactions_response

record grpc_env =
  ge_channel_ok :: bool
  ge_https :: bool
  ge_tls_ok :: bool
  ge_parse_metadata :: "string \<Rightarrow> string option"
  ge_connect :: "nat \<Rightarrow> nat \<Rightarrow> (string + unit) option"
  ge_get_transactions :: "nat \<Rightarrow> grpc_request \<Rightarrow> nat \<Rightarrow> (string + stream_item list) option"
  ge_connection_id :: "nat \<Rightarrow> string option option"
  ge_encoded_len :: "transactions_response \<Rightarrow> u64"
  ge_send_ok :: "nat \<Rightarrow> bool"
  ge_clock :: "nat \<Rightarrow> u64"

definition grpc_request_builder ::
  "grpc_env \<Rightarrow> u64 \<Rightarrow> u64 option \<Rightarrow> string \<Rightarrow> string \<Rightarrow> failure + grpc_request" where
  "grpc_request_builder env starting_version transactions_count grpc_auth_token processor_name =
     and_then (expect ''called Result::unwrap on an Err value''
                 (ge_parse_metadata env (''Bearer '' @ grpc_auth_token))) (\<lambda>auth.
     and_then (expect ''called Result::unwrap on an Err value''
                 (ge_parse_metadata env processor_name)) (\<lambda>name.
     Inr \<lparr>rq_starting_version = starting_version, rq_transactions_count = transactions_count,
          rq_authorization = auth, rq_request_name = name\<rparr>))"

text \<open>The two retry loops of \<open>get_stream\<close>: an attempt that completes ends the loop, a timeout retries.\<close>

function retry_loop :: "(nat \<Rightarrow> 'a option) \<Rightarrow> nat \<Rightarrow> 'a option" where
  "retry_loop attempt connect_retries =
     (case attempt connect_retries of
        Some r \<Rightarrow> Some r
      | None \<Rightarrow>
          if reconnection_max_retries \<le> connect_retries + 1 then None
          else retry_loop attempt (connect_retries + 1))"
  by pat_completeness auto
termination
  by (relation "measure (\<lambda>(f, k). reconnection_max_retries - k)") auto

declare retry_loop.simps [simp del]

definition transactions_to_request :: "u64 \<Rightarrow> u64 option \<Rightarrow> u64 option" where
  "transactions_to_request starting_version ending_version =
     map_option (\<lambda>v. as_u64 (wrap_i64 (wrap_i64 (as_i64 v - as_i64 starting_version) + 1)))
       ending_version"

definition get_stream ::
  "grpc_env \<Rightarrow> nat \<Rightarrow> u64 \<Rightarrow> u64 option \<Rightarrow> string \<Rightarrow> string \<Rightarrow> failure + stream_item list" where
  "get_stream env k starting_version ending_version auth_token processor_name =
     (if \<not> ge_channel_ok env then Inl (Panic ''Failed to build GRPC channel'')
      else if ge_https env \<and> \<not> ge_tls_ok env then Inl (Panic ''Failed to create TLS config'')
      else
        and_then (expect ''Timeout connecting to GRPC server'' (retry_loop (ge_connect env k) 0)) (\<lambda>connect_res.
        case connect_res of
          Inl e \<Rightarrow> Inl (Panic ''Error connecting to GRPC client'')
        | Inr _ \<Rightarrow>
            let count = transactions_to_request starting_version ending_version in
            and_then (grpc_request_builder env starting_version count auth_token processor_name) (\<lambda>request.
            and_then (expect ''Timed out making grpc request after max retries.''
                        (retry_loop (ge_get_transactions env k request) 0)) (\<lambda>stream_res.
            case stream_res of
              Inr stream \<Rightarrow> Inr stream
            | Inl e \<Rightarrow> Inl (Panic ''Failed to get grpc response. Is the server running?'')))))"

text \<open>Every caller of \<open>get_stream\<close> goes on to take the connection id out of the metadata.\<close>

definition connect_stream ::
  "grpc_env \<Rightarrow> nat \<Rightarrow> u64 \<Rightarrow> u64 option \<Rightarrow> string \<Rightarrow> string \<Rightarrow> failure + stream_item list" where
  "connect_stream env k starting_version ending_version auth_token processor_name =
     and_then (get_stream env k starting_version ending_version auth_token processor_name) (\<lambda>stream.
       case ge_connection_id env k of
         Some None \<Rightarrow> Inl (Panic ''called Result::unwrap on an Err value'')
       | _ \<Rightarrow> Inr stream)"

text \<open>\<open>get_chain_id\<close> waits for the first item without a timeout.\<close>

definition get_chain_id :: "grpc_env \<Rightarrow> nat \<Rightarrow> string \<Rightarrow> string \<Rightarrow> failure + u64" where
  "get_chain_id env k auth_token processor_name =
     and_then (connect_stream env k 1 (Some 2) auth_token processor_name) (\<lambda>resp_stream.
       case dropWhile (\<lambda>i. i = ItemTimeout) resp_stream of
         ItemOk r # _ \<Rightarrow> expect ''Chain Id doesn't exist.'' (tr_chain_id r)
       | ItemErr e # _ \<Rightarrow> Inl (Panic ''Error receiving datastream response for chain id'')
       | _ \<Rightarrow> Inl (Panic ''Stream ended before getting response fo for chain id''))"

section \<open>The fetcher loop\<close>

record transactions_pb_response =
  tpr_transactions :: "transaction list"
  tpr_chain_id :: u64
  tpr_start_version :: u64
  tpr_end_version :: u64
  tpr_start_txn_timestamp :: "timestamp option"
  tpr_end_txn_timestamp :: "timestamp option"
  tpr_size_in_bytes :: u64

record fetch_config =
  fc_starting_version :: u64
  fc_request_ending_version :: "u64 option"
  fc_auth_token :: string
  fc_processor_name :: string
  fc_transaction_filter :: transaction_filter
  fc_pb_channel_txn_chunk_size :: nat

record fetcher =
  ft_stream :: "stream_item list"
  ft_streams_opened :: nat
  ft_next_version_to_fetch :: u64
  ft_reconnection_retries :: nat
  ft_last_fetched_version :: i64
  ft_fetch_ma :: moving_average
  ft_send_ma :: moving_average
  ft_clock_reads :: nat
  ft_sent :: "transactions_pb_response list"

definition fetcher_init :: "grpc_env \<Rightarrow> fetch_config \<Rightarrow> stream_item list \<Rightarrow> fetcher" where
  "fetcher_init env cfg stream =
     \<lparr>ft_stream = stream, ft_streams_opened = 1,
      ft_next_version_to_fetch = fc_starting_version cfg,
      ft_reconnection_retries = 0,
      ft_last_fetched_version = wrap_i64 (as_i64 (fc_starting_version cfg) - 1),
      ft_fetch_ma = moving_average_new (ge_clock env 0) 3000,
      ft_send_ma = moving_average_new (ge_clock env 1) 3000,
      ft_clock_reads = 2, ft_sent = []\<rparr>"

definition start_version_of :: "transactions_response \<Rightarrow> u64" where
  "start_version_of r = txn_version (hd (tr_transactions r))"

definition end_version_of :: "transactions_response \<Rightarrow> u64" where
  "end_version_of r = txn_version (last (tr_transactions r))"

text \<open>The batches built from one response: one message, or chunks with an average size each.\<close>

definition pb_batch ::
  "transactions_response \<Rightarrow> u64 \<Rightarrow> u64 \<Rightarrow> transaction list \<Rightarrow> transactions_pb_response" where
  "pb_batch r chain_id size_in_bytes txns =
     \<lparr>tpr_transactions = txns, tpr_chain_id = chain_id,
      tpr_start_version = start_version_of r, tpr_end_version = end_version_of r,
      tpr_start_txn_timestamp = txn_timestamp (hd (tr_transactions r)),
      tpr_end_txn_timestamp = txn_timestamp (last (tr_transactions r)),
      tpr_size_in_bytes = size_in_bytes\<rparr>"

definition pb_batches ::
  "grpc_env \<Rightarrow> fetch_config \<Rightarrow> transactions_response \<Rightarrow> u64 \<Rightarrow> transactions_pb_response list" where
  "pb_batches env cfg r chain_id =
     (let size_in_bytes = ge_encoded_len env r;
          num_txns = length (tr_transactions r);
          kept = filter (include_txn (fc_transaction_filter cfg)) (tr_transactions r)
      in if length kept < fc_pb_channel_txn_chunk_size cfg
         then [pb_batch r chain_id size_in_bytes kept]
         else let average_size_in_bytes = size_in_bytes div of_nat num_txns
              in map (\<lambda>txns. pb_batch r chain_id (average_size_in_bytes * of_nat (length txns)) txns)
                   (chunks (fc_pb_channel_txn_chunk_size cfg) kept))"

fun send_all ::
  "grpc_env \<Rightarrow> transactions_pb_response list \<Rightarrow> fetcher \<Rightarrow> failure option \<times> fetcher" where
  "send_all env [] s = (None, s)"
| "send_all env (b # bs) s =
     (if ge_send_ok env (length (ft_sent s))
      then send_all env bs (s\<lparr>ft_sent := ft_sent s @ [b]\<rparr>)
      else (Some (Panic ''Error sending GRPC response to channel.''), s))"

definition tick_fetch :: "grpc_env \<Rightarrow> nat \<Rightarrow> fetcher \<Rightarrow> fetcher" where
  "tick_fetch env n s =
     s\<lparr>ft_fetch_ma := tick_now (ge_clock env (ft_clock_reads s)) (of_nat n) (ft_fetch_ma s),
       ft_clock_reads := ft_clock_reads s + 1\<rparr>"

definition tick_send :: "grpc_env \<Rightarrow> nat \<Rightarrow> fetcher \<Rightarrow> fetcher" where
  "tick_send env n s =
     s\<lparr>ft_send_ma := tick_now (ge_clock env (ft_clock_reads s)) (of_nat n) (ft_send_ma s),
       ft_clock_reads := ft_clock_reads s + 1\<rparr>"

definition receive_response ::
  "grpc_env \<Rightarrow> fetch_config \<Rightarrow> transactions_response \<Rightarrow> fetcher \<Rightarrow> failure option \<times> fetcher" where
  "receive_response env cfg r s0 =
     (let s1 = s0\<lparr>ft_reconnection_retries := 0\<rparr> in
      if tr_transactions r = []
      then (Some (Panic ''called Option::unwrap on a None value''), s1)
      else let s2 = s1\<lparr>ft_next_version_to_fetch := end_version_of r + 1\<rparr> in
      case tr_chain_id r of
        None \<Rightarrow> (Some (Panic ''Chain Id doesn't exist.''), s2)
      | Some chain_id \<Rightarrow>
          let num_txns = length (tr_transactions r);
              s3 = tick_fetch env num_txns s2
          in if wrap_i64 (ft_last_fetched_version s3 + 1) \<noteq> as_i64 (start_version_of r)
             then (Some (Panic ''Received batch with gap from GRPC stream''), s3)
             else let s4 = s3\<lparr>ft_last_fetched_version := as_i64 (end_version_of r)\<rparr> in
             if fc_pb_channel_txn_chunk_size cfg = 0
             then (Some (Panic ''assertion failed: size != 0''), s4)
             else case send_all env (pb_batches env cfg r chain_id) s4 of
                    (Some f, s5) \<Rightarrow> (Some f, s5)
                  | (None, s5) \<Rightarrow> (None, tick_send env num_txns s5))"

text \<open>One iteration of the loop: it goes on, breaks, or panics; the state shows what was sent.\<close>

datatype fetch_outcome =
    FetchContinue (outcome_state: fetcher)
  | FetchBreak (outcome_state: fetcher)
  | FetchPanic failure (outcome_state: fetcher)

definition reached_end :: "fetch_config \<Rightarrow> fetcher \<Rightarrow> bool" where
  "reached_end cfg s =
     (case fc_request_ending_version cfg of
        Some ending_version \<Rightarrow> ending_version < ft_next_version_to_fetch s
      | None \<Rightarrow> False)"

definition next_item :: "grpc_env \<Rightarrow> fetch_config \<Rightarrow> fetcher \<Rightarrow> (failure + bool) \<times> fetcher" where
  "next_item env cfg s =
     (case ft_stream s of
        [] \<Rightarrow> (Inr False, s)
      | ItemTimeout # rest \<Rightarrow> (Inr False, s\<lparr>ft_stream := rest\<rparr>)
      | ItemErr e # rest \<Rightarrow> (Inr False, s\<lparr>ft_stream := rest\<rparr>)
      | ItemOk r # rest \<Rightarrow>
          (case receive_response env cfg r (s\<lparr>ft_stream := rest\<rparr>) of
             (Some f, s') \<Rightarrow> (Inl f, s')
           | (None, s') \<Rightarrow> (Inr True, s')))"

definition reconnect :: "grpc_env \<Rightarrow> fetch_config \<Rightarrow> fetcher \<Rightarrow> fetch_outcome" where
  "reconnect env cfg s =
     (if reconnection_max_retries \<le> ft_reconnection_retries s
      then FetchPanic (Panic ''Reconnected more than 5 times. Will not retry.'') s
      else let s' = s\<lparr>ft_reconnection_retries := ft_reconnection_retries s + 1\<rparr> in
           case connect_stream env (ft_streams_opened s') (ft_next_version_to_fetch s')
                  (fc_request_ending_version cfg) (fc_auth_token cfg) (fc_processor_name cfg) of
             Inl f \<Rightarrow> FetchPanic f s'
           | Inr stream \<Rightarrow>
               FetchContinue (s'\<lparr>ft_stream := stream, ft_streams_opened := ft_streams_opened s' + 1\<rparr>))"

definition fetch_step :: "grpc_env \<Rightarrow> fetch_config \<Rightarrow> fetcher \<Rightarrow> fetch_outcome" where
  "fetch_step env cfg s =
     (case next_item env cfg s of
        (Inl f, s') \<Rightarrow> FetchPanic f s'
      | (Inr is_success, s') \<Rightarrow>
          if reached_end cfg s' then FetchBreak s'
          else if is_success then FetchContinue s'
          else reconnect env cfg s')"

text \<open>The loop for at most \<open>n\<close> iterations; \<open>FetchContinue\<close> is a loop that is still running.\<close>

fun fetch_loop :: "nat \<Rightarrow> grpc_env \<Rightarrow> fetch_config \<Rightarrow> fetcher \<Rightarrow> fetch_outcome" where
  "fetch_loop 0 env cfg s = FetchContinue s"
| "fetch_loop (Suc n) env cfg s =
     (case fetch_step env cfg s of
        FetchContinue s' \<Rightarrow> fetch_loop n env cfg s'
      | FetchBreak s' \<Rightarrow> FetchBreak s'
      | FetchPanic f s' \<Rightarrow> FetchPanic f s')"

definition create_fetcher_loop :: "nat \<Rightarrow> grpc_env \<Rightarrow> fetch_config \<Rightarrow> fetch_outcome" where
  "create_fetcher_loop n env cfg =
     (case connect_stream env 0 (fc_starting_version cfg) (fc_request_ending_version cfg)
             (fc_auth_token cfg) (fc_processor_name cfg) of
        Inl f \<Rightarrow> FetchPanic f (fetcher_init env cfg [])
      | Inr stream \<Rightarrow> fetch_loop n env cfg (fetcher_init env cfg stream))"

section \<open>Retry loops\<close>

lemma retry_loop_None:
  "k < reconnection_max_retries \<Longrightarrow>
   retry_loop att k = None \<longleftrightarrow> (\<forall>i. k \<le> i \<longrightarrow> i < reconnection_max_retries \<longrightarrow> att i = None)"
proof (induction att k rule: retry_loop.induct)
  case (1 att k)
  show ?case
  proof (cases "att k = None \<and> k + 1 < reconnection_max_retries")
    case True
    with 1 have "retry_loop att k = retry_loop att (k + 1)"
      "retry_loop att (k + 1) = None \<longleftrightarrow>
        (\<forall>i. k + 1 \<le> i \<longrightarrow> i < reconnection_max_retries \<longrightarrow> att i = None)"
      by (auto simp: retry_loop.simps [of att k])
    moreover have "(\<forall>i. k \<le> i \<longrightarrow> i < reconnection_max_retries \<longrightarrow> att i = None) \<longleftrightarrow>
        (\<forall>i. k + 1 \<le> i \<longrightarrow> i < reconnection_max_retries \<longrightarrow> att i = None)"
      using True by (metis Suc_eq_plus1 not_less_eq_eq order.antisym order_trans le_add1)
    ultimately show ?thesis by simp
  next
    case False
    with "1.prems" show ?thesis
      by (cases "att k") (auto simp: retry_loop.simps [of att k] dest: le_antisym)
  qed
qed

lemma retry_loop_Some:
  "retry_loop att k = Some r \<Longrightarrow> \<exists>i\<ge>k. att i = Some r \<and> (\<forall>j. k \<le> j \<longrightarrow> j < i \<longrightarrow> att j = None)"
proof (induction att k rule: retry_loop.induct)
  case (1 att k)
  show ?case
  proof (cases "att k")
    case None
    with 1 obtain i where "i \<ge> k + 1" "att i = Some r" "\<forall>j. k + 1 \<le> j \<longrightarrow> j < i \<longrightarrow> att j = None"
      by (auto simp: retry_loop.simps [of att k] split: if_splits)
    with None show ?thesis by (metis Suc_eq_plus1 Suc_leD le_antisym not_less_eq_eq)
  qed (use "1.prems" in \<open>auto simp: retry_loop.simps [of att k]\<close>)
qed

section \<open>Contiguous responses\<close>

text \<open>Responses whose versions follow each other without a gap, starting at \<open>v\<close>.\<close>

fun resp_chain :: "u64 \<Rightarrow> transactions_response list \<Rightarrow> bool" where
  "resp_chain v [] = True"
| "resp_chain v (r # rs) =
     (tr_transactions r \<noteq> [] \<and> tr_chain_id r \<noteq> None \<and> start_version_of r = v \<and>
      resp_chain (end_version_of r + 1) rs)"

fun chain_end :: "u64 \<Rightarrow> transactions_response list \<Rightarrow> u64" where
  "chain_end v [] = v"
| "chain_end v (r # rs) = chain_end (end_version_of r + 1) rs"

definition sent_for :: "grpc_env \<Rightarrow> fetch_config \<Rightarrow> transactions_response \<Rightarrow> transactions_pb_response list" where
  "sent_for env cfg r = pb_batches env cfg r (the (tr_chain_id r))"

lemma resp_chain_append: "resp_chain v (rs @ rs') \<longleftrightarrow> resp_chain v rs \<and> resp_chain (chain_end v rs) rs'"
  by (induction rs arbitrary: v) auto

lemma chain_end_append: "chain_end v (rs @ rs') = chain_end (chain_end v rs) rs'"
  by (induction rs arbitrary: v) auto

lemma wrap_i64_succ: "wrap_i64 (as_i64 v + 1) = as_i64 (v + 1)"
  by (simp add: wrap_i64_def as_u64_def as_i64_def flip: wi_hom_syms)

lemma wrap_i64_pred_succ: "wrap_i64 (wrap_i64 (as_i64 v - 1) + 1) = as_i64 v"
  by (simp add: wrap_i64_def as_u64_def as_i64_def flip: wi_hom_syms)

text \<open>The state of the loop after the accepted responses \<open>rs\<close>.\<close>

definition fetch_inv ::
  "grpc_env \<Rightarrow> fetch_config \<Rightarrow> transactions_response list \<Rightarrow> fetcher \<Rightarrow> bool" where
  "fetch_inv env cfg rs s \<longleftrightarrow>
     resp_chain (fc_starting_version cfg) rs \<and>
     ft_next_version_to_fetch s = chain_end (fc_starting_version cfg) rs \<and>
     wrap_i64 (ft_last_fetched_version s + 1) = as_i64 (ft_next_version_to_fetch s) \<and>
     ft_sent s = concat (map (sent_for env cfg) rs) \<and>
     (rs \<noteq> [] \<longrightarrow> fc_pb_channel_txn_chunk_size cfg \<noteq> 0) \<and>
     ft_reconnection_retries s \<le> reconnection_max_retries"

lemma fetch_inv_init: "fetch_inv env cfg [] (fetcher_init env cfg stream)"
  by (simp add: fetch_inv_def fetcher_init_def wrap_i64_pred_succ)

lemma send_all_None:
  "send_all env bs s = (None, s') \<Longrightarrow> s' = s\<lparr>ft_sent := ft_sent s @ bs\<rparr>"
  by (induction env bs s rule: send_all.induct) (auto split: if_splits)

lemma send_all_Some:
  "send_all env bs s = (Some f, s') \<Longrightarrow> \<exists>xs ys. bs = xs @ ys \<and> ft_sent s' = ft_sent s @ xs"
proof (induction env bs s rule: send_all.induct)
  case (2 env b bs s)
  show ?case
  proof (cases "ge_send_ok env (length (ft_sent s))")
    case True
    with 2 obtain xs ys where "bs = xs @ ys" "ft_sent s' = ft_sent s @ [b] @ xs" by auto
    then show ?thesis by (metis append_Cons append_Nil)
  next
    case False
    with 2 have "b # bs = [] @ (b # bs)" "ft_sent s' = ft_sent s @ []" by simp_all
    then show ?thesis by blast
  qed
qed simp

lemma tick_simps [simp]:
  "ft_sent (tick_fetch env n s) = ft_sent s" "ft_sent (tick_send env n s) = ft_sent s"
  "ft_next_version_to_fetch (tick_fetch env n s) = ft_next_version_to_fetch s"
  "ft_next_version_to_fetch (tick_send env n s) = ft_next_version_to_fetch s"
  "ft_last_fetched_version (tick_fetch env n s) = ft_last_fetched_version s"
  "ft_last_fetched_version (tick_send env n s) = ft_last_fetched_version s"
  "ft_reconnection_retries (tick_fetch env n s) = ft_reconnection_retries s"
  "ft_reconnection_retries (tick_send env n s) = ft_reconnection_retries s"
  "ft_stream (tick_fetch env n s) = ft_stream s" "ft_stream (tick_send env n s) = ft_stream s"
  by (simp_all add: tick_fetch_def tick_send_def)

lemma receive_response_ok:
  assumes "receive_response env cfg r s = (None, s')" and "fetch_inv env cfg rs s"
  shows "fetch_inv env cfg (rs @ [r]) s' \<and> ft_stream s' = ft_stream s"
  using assms
  by (auto simp: receive_response_def Let_def fetch_inv_def resp_chain_append chain_end_append
      sent_for_def wrap_i64_succ dest!: send_all_None split: if_splits option.splits prod.splits)

lemma receive_response_panic:
  assumes "receive_response env cfg r s = (Some f, s')"
  shows "\<exists>xs ys. sent_for env cfg r = xs @ ys \<and> ft_sent s' = ft_sent s @ xs"
proof -
  have "ft_sent s' = ft_sent s \<or> (\<exists>xs ys. sent_for env cfg r = xs @ ys \<and> ft_sent s' = ft_sent s @ xs)"
    using assms by (auto simp: receive_response_def Let_def sent_for_def
      dest!: send_all_Some split: if_splits option.splits prod.splits)
  then show ?thesis by (metis append.right_neutral append_Nil)
qed

section \<open>Every outcome of the loop\<close>

text \<open>The responses that the loop takes from its streams, in order, accepted or not.\<close>

definition received_now :: "fetcher \<Rightarrow> transactions_response list" where
  "received_now s = (case ft_stream s of ItemOk r # _ \<Rightarrow> [r] | _ \<Rightarrow> [])"

fun received_loop :: "nat \<Rightarrow> grpc_env \<Rightarrow> fetch_config \<Rightarrow> fetcher \<Rightarrow> transactions_response list" where
  "received_loop 0 env cfg s = []"
| "received_loop (Suc n) env cfg s =
     received_now s @
     (case fetch_step env cfg s of FetchContinue s' \<Rightarrow> received_loop n env cfg s' | _ \<Rightarrow> [])"

definition received :: "nat \<Rightarrow> grpc_env \<Rightarrow> fetch_config \<Rightarrow> transactions_response list" where
  "received n env cfg =
     (case connect_stream env 0 (fc_starting_version cfg) (fc_request_ending_version cfg)
             (fc_auth_token cfg) (fc_processor_name cfg) of
        Inl f \<Rightarrow> []
      | Inr stream \<Rightarrow> received_loop n env cfg (fetcher_init env cfg stream))"

definition outcome_ok ::
  "grpc_env \<Rightarrow> fetch_config \<Rightarrow> transactions_response list \<Rightarrow> fetch_outcome \<Rightarrow> bool" where
  "outcome_ok env cfg rs out \<longleftrightarrow>
     (case out of
        FetchContinue s \<Rightarrow> fetch_inv env cfg rs s
      | FetchBreak s \<Rightarrow> fetch_inv env cfg rs s \<and> reached_end cfg s
      | FetchPanic f s \<Rightarrow> (\<exists>ys. concat (map (sent_for env cfg) rs) = ft_sent s @ ys))"

lemma fetch_inv_stream: "fetch_inv env cfg rs (s\<lparr>ft_stream := x\<rparr>) = fetch_inv env cfg rs s"
  by (simp add: fetch_inv_def)

lemma fetch_inv_panic:
  "fetch_inv env cfg rs s \<Longrightarrow> ft_sent s' = ft_sent s \<Longrightarrow> outcome_ok env cfg rs (FetchPanic f s')"
  by (simp add: outcome_ok_def fetch_inv_def)

lemma next_item_inv:
  assumes "fetch_inv env cfg rs s" and "next_item env cfg s = (res, s')"
  shows "case res of
      Inl f \<Rightarrow> outcome_ok env cfg (rs @ received_now s) (FetchPanic f s')
    | Inr ok \<Rightarrow> fetch_inv env cfg (rs @ received_now s) s'"
proof (cases "\<exists>r rest. ft_stream s = ItemOk r # rest")
  case False
  then have "res = Inr False \<and> (s' = s \<or> (\<exists>x. s' = s\<lparr>ft_stream := x\<rparr>)) \<and> received_now s = []"
    using assms(2) by (auto simp: next_item_def received_now_def split: list.splits stream_item.splits)
  with assms(1) show ?thesis by (auto simp: fetch_inv_stream)
next
  case True
  then obtain r rest where str: "ft_stream s = ItemOk r # rest" by blast
  then have now: "received_now s = [r]" by (simp add: received_now_def)
  have inv: "fetch_inv env cfg rs (s\<lparr>ft_stream := rest\<rparr>)" using assms(1) by (simp add: fetch_inv_stream)
  obtain fo s1 where rr: "receive_response env cfg r (s\<lparr>ft_stream := rest\<rparr>) = (fo, s1)" by force
  show ?thesis
  proof (cases fo)
    case None
    with rr str assms(2) have "res = Inr True" "s' = s1" by (auto simp: next_item_def)
    with receive_response_ok [OF rr [unfolded None] inv] now show ?thesis by simp
  next
    case (Some f)
    with rr str assms(2) have res: "res = Inl f" "s' = s1" by (auto simp: next_item_def)
    with receive_response_panic [OF rr [unfolded Some]] inv now show ?thesis
      by (auto simp: outcome_ok_def fetch_inv_def)
  qed
qed

lemma reconnect_ok:
  assumes "fetch_inv env cfg rs s"
  shows "outcome_ok env cfg rs (reconnect env cfg s)"
  using assms fetch_inv_panic [OF assms]
  by (auto simp: reconnect_def Let_def outcome_ok_def fetch_inv_def split: sum.splits)

lemma fetch_step_ok:
  assumes "fetch_inv env cfg rs s"
  shows "outcome_ok env cfg (rs @ received_now s) (fetch_step env cfg s)"
proof -
  obtain res s' where n: "next_item env cfg s = (res, s')" by force
  from next_item_inv [OF assms n] show ?thesis
    by (cases res) (auto simp: fetch_step_def n outcome_ok_def [of _ _ _ "FetchBreak _"]
        outcome_ok_def [of _ _ _ "FetchContinue _"] dest: reconnect_ok)
qed

lemma fetch_loop_ok:
  "fetch_inv env cfg rs s \<Longrightarrow> outcome_ok env cfg (rs @ received_loop n env cfg s) (fetch_loop n env cfg s)"
proof (induction n arbitrary: rs s)
  case 0
  then show ?case by (simp add: outcome_ok_def)
next
  case (Suc n)
  note step = fetch_step_ok [OF Suc.prems]
  show ?case
  proof (cases "fetch_step env cfg s")
    case (FetchContinue s')
    with step have "fetch_inv env cfg (rs @ received_now s) s'" by (simp add: outcome_ok_def)
    from Suc.IH [OF this] FetchContinue show ?thesis by simp
  qed (use step in simp_all)
qed

lemma create_fetcher_loop_ok: "outcome_ok env cfg (received n env cfg) (create_fetcher_loop n env cfg)"
proof (cases "connect_stream env 0 (fc_starting_version cfg) (fc_request_ending_version cfg)
    (fc_auth_token cfg) (fc_processor_name cfg)")
  case (Inl f)
  then show ?thesis
    using fetch_inv_panic [OF fetch_inv_init refl, of env cfg f "[]"]
    by (simp add: create_fetcher_loop_def received_def)
next
  case (Inr stream)
  with fetch_loop_ok [OF fetch_inv_init] show ?thesis by (simp add: create_fetcher_loop_def received_def)
qed

section \<open>What is sent\<close>

lemma pb_batches_transactions:
  "fc_pb_channel_txn_chunk_size cfg \<noteq> 0 \<Longrightarrow>
   concat (map tpr_transactions (pb_batches env cfg r c)) =
     filter (include_txn (fc_transaction_filter cfg)) (tr_transactions r)"
  by (simp add: pb_batches_def Let_def pb_batch_def comp_def concat_chunks)

lemma sent_for_transactions:
  "fc_pb_channel_txn_chunk_size cfg \<noteq> 0 \<Longrightarrow>
   concat (map tpr_transactions (concat (map (sent_for env cfg) rs))) =
     filter (include_txn (fc_transaction_filter cfg)) (concat (map tr_transactions rs))"
  by (induction rs) (simp_all add: sent_for_def pb_batches_transactions)

lemma pb_batches_size:
  "b \<in> set (pb_batches env cfg r c) \<Longrightarrow>
   length (tpr_transactions b) \<le> fc_pb_channel_txn_chunk_size cfg \<and>
   tpr_start_version b = start_version_of r \<and> tpr_end_version b = end_version_of r"
  by (auto simp: pb_batches_def Let_def pb_batch_def dest: chunks_size split: if_splits)

section \<open>Properties of the fetcher\<close>

definition resp_covers :: "u64 \<Rightarrow> transactions_response \<Rightarrow> bool" where
  "resp_covers v r \<longleftrightarrow> start_version_of r \<le> v \<and> v \<le> end_version_of r"

definition wf_resp :: "transactions_response \<Rightarrow> bool" where
  "wf_resp r \<longleftrightarrow> start_version_of r \<le> end_version_of r \<and> end_version_of r \<noteq> - 1"

lemma resp_chain_nonempty: "resp_chain v rs \<Longrightarrow> r \<in> set rs \<Longrightarrow> tr_transactions r \<noteq> []"
  by (induction rs arbitrary: v) auto

lemma le_end_or_next: "(w :: u64) \<noteq> - 1 \<Longrightarrow> v \<le> w \<or> w + 1 \<le> v"
  by (auto simp: word_le_nat_alt unat_Suc_u64)

lemma resp_chain_covers:
  "resp_chain s rs \<Longrightarrow> list_all wf_resp rs \<Longrightarrow> s \<le> v \<Longrightarrow> v < chain_end s rs \<Longrightarrow>
   list_ex (resp_covers v) rs"
proof (induction rs arbitrary: s)
  case (Cons r rs)
  with le_end_or_next [of "end_version_of r" v] show ?case
    by (auto simp: wf_resp_def resp_covers_def)
qed simp

text \<open>A response whose transactions have consecutive versions; the fetcher itself only looks at the first and the last.\<close>

definition consecutive_resp :: "transactions_response \<Rightarrow> bool" where
  "consecutive_resp r \<longleftrightarrow>
     map txn_version (tr_transactions r) = map (\<lambda>i. start_version_of r + of_nat i) [0..<length (tr_transactions r)]"

lemma consecutive_end:
  assumes "consecutive_resp r" and "tr_transactions r \<noteq> []"
  shows "end_version_of r = start_version_of r + of_nat (length (tr_transactions r) - 1)"
proof -
  have "end_version_of r = last (map txn_version (tr_transactions r))" using assms(2) by (simp add: end_version_of_def last_map)
  also have "\<dots> = start_version_of r + of_nat (last [0..<length (tr_transactions r)])"
    using assms by (simp add: consecutive_resp_def last_map)
  finally show ?thesis using assms(2) by simp
qed

lemma chain_versions:
  "resp_chain v rs \<Longrightarrow> list_all consecutive_resp rs \<Longrightarrow>
   map txn_version (concat (map tr_transactions rs)) =
     map (\<lambda>i. v + of_nat i) [0..<length (concat (map tr_transactions rs))]"
proof (induction rs arbitrary: v)
  case (Cons r rs)
  let ?n = "length (tr_transactions r)" and ?m = "length (concat (map tr_transactions rs))"
  have "end_version_of r + 1 = v + of_nat ?n"
    using consecutive_end [of r] Cons.prems by (cases "tr_transactions r") (auto simp: add.commute add.left_commute)
  then have "map txn_version (concat (map tr_transactions rs)) = map (\<lambda>i. v + of_nat ?n + of_nat i) [0..<?m]"
    using Cons by simp
  also have "\<dots> = map (\<lambda>i. v + of_nat i) [?n..<?n + ?m]"
    by (rule nth_equalityI) (simp_all add: add.assoc)
  finally show ?case
    using Cons.prems upt_add_eq_append [of 0 ?n ?m] by (simp add: consecutive_resp_def)
qed simp

lemma consecutive_version:
  assumes "consecutive_resp r" and "tr_transactions r \<noteq> []" and "resp_covers v r"
  shows "\<exists>t \<in> set (tr_transactions r). txn_version t = v"
proof -
  let ?ts = "tr_transactions r" and ?i = "unat (v - start_version_of r)"
  have "v - start_version_of r \<le> end_version_of r - start_version_of r"
    using assms(3) order_trans [of "start_version_of r" v "end_version_of r"]
    by (simp add: resp_covers_def word_le_nat_alt unat_sub diff_le_mono)
  also have "\<dots> = of_nat (length ?ts - 1)" using consecutive_end [OF assms(1,2)] by simp
  finally have "?i \<le> unat (of_nat (length ?ts - 1) :: u64)" by (simp add: word_le_nat_alt)
  also have "\<dots> \<le> length ?ts - 1" unfolding unat_of_nat by (rule mod_less_eq_dividend)
  finally have i: "?i < length ?ts" using assms(2) by (cases ?ts) (auto simp: le_imp_less_Suc)
  then have "txn_version (?ts ! ?i) = start_version_of r + of_nat ?i"
    using assms(1) nth_map [of ?i ?ts txn_version] by (simp add: consecutive_resp_def)
  also have "\<dots> = v" by simp
  finally show ?thesis using nth_mem [OF i] by blast
qed

text \<open>A small server: two responses for three consecutive versions, then the end of the stream.\<close>

definition sample_txn :: "u64 \<Rightarrow> int \<Rightarrow> transaction" where
  "sample_txn v t =
     \<lparr>txn_timestamp = None, txn_version = v, txn_info = None, txn_epoch = 1, txn_block_height = 1,
      txn_type = t, txn_txn_data = None, txn_size_info = None\<rparr>"

definition sample_responses :: "transactions_response list" where
  "sample_responses =
     [\<lparr>tr_transactions = [sample_txn 7 4, sample_txn 8 1], tr_chain_id = Some 1\<rparr>,
      \<lparr>tr_transactions = [sample_txn 9 4], tr_chain_id = Some 1\<rparr>]"

definition sample_env :: "stream_item list \<Rightarrow> grpc_env" where
  "sample_env stream =
     \<lparr>ge_channel_ok = True, ge_https = False, ge_tls_ok = False, ge_parse_metadata = Some,
      ge_connect = (\<lambda>_ _. Some (Inr ())), ge_get_transactions = (\<lambda>_ _ _. Some (Inr stream)),
      ge_connection_id = (\<lambda>_. None), ge_encoded_len = (\<lambda>_. 100), ge_send_ok = (\<lambda>_. True), ge_clock = (\<lambda>n. of_nat n)\<rparr>"

definition sample_cfg :: fetch_config where
  "sample_cfg =
     \<lparr>fc_starting_version = 7, fc_request_ending_version = Some 9, fc_auth_token = ''t'',
      fc_processor_name = ''p'', fc_transaction_filter = transaction_filter_new None None True,
      fc_pb_channel_txn_chunk_size = 1\<rparr>"

section \<open>Giving up and getting through\<close>

definition no_response :: "stream_item list \<Rightarrow> bool" where
  "no_response str \<longleftrightarrow> list_all (\<lambda>i. \<forall>r. i \<noteq> ItemOk r) str"

lemma connect_stream_source:
  assumes "connect_stream env k a b t p = Inr str"
  shows "\<exists>rq i. ge_get_transactions env k rq i = Some (Inr str)"
proof -
  have "get_stream env k a b t p = Inr str"
    using assms by (cases "ge_connection_id env k") (auto simp: connect_stream_def split: option.splits)
  then show ?thesis by (auto simp: get_stream_def Let_def split: if_splits dest!: retry_loop_Some)
qed

lemma next_item_no_response:
  "no_response (ft_stream s) \<Longrightarrow> \<exists>x. next_item env cfg s = (Inr False, s\<lparr>ft_stream := x\<rparr>) \<and> no_response x"
proof (cases "ft_stream s")
  case Nil
  then show ?thesis by (intro exI [of _ "[]"]) (auto simp: next_item_def no_response_def)
next
  case (Cons i x)
  assume "no_response (ft_stream s)"
  with Cons show ?thesis
    by (intro exI [of _ x]) (cases i, auto simp: next_item_def no_response_def)
qed

lemma reached_end_stream [simp]: "reached_end cfg (s\<lparr>ft_stream := x\<rparr>) = reached_end cfg s"
  by (simp add: reached_end_def split: option.split)

lemma fetch_loop_gives_up:
  assumes "\<And>k rq i str. ge_get_transactions env k rq i = Some (Inr str) \<Longrightarrow> no_response str"
    and "no_response (ft_stream s)" and "\<not> reached_end cfg s"
    and "ft_reconnection_retries s + m = reconnection_max_retries"
  shows "\<exists>f s'. fetch_loop (Suc m) env cfg s = FetchPanic f s' \<and> ft_sent s' = ft_sent s"
  using assms(2-4)
proof (induction m arbitrary: s)
  case (0 s)
  obtain x where x: "next_item env cfg s = (Inr False, s\<lparr>ft_stream := x\<rparr>)"
    using next_item_no_response [OF "0.prems"(1)] by blast
  with 0 show ?case by (simp add: fetch_step_def x reconnect_def)
next
  case (Suc m s)
  obtain x where x: "next_item env cfg s = (Inr False, s\<lparr>ft_stream := x\<rparr>)"
    using next_item_no_response [OF Suc.prems(1)] by blast
  let ?s = "s\<lparr>ft_stream := x\<rparr>"
  have step: "fetch_step env cfg s = reconnect env cfg ?s"
    using Suc.prems(2) by (simp add: fetch_step_def x)
  show ?case
  proof (cases "reconnect env cfg ?s")
    case (FetchContinue s')
    then have "no_response (ft_stream s')" "ft_reconnection_retries s' = Suc (ft_reconnection_retries s)"
      "ft_next_version_to_fetch s' = ft_next_version_to_fetch s" "ft_sent s' = ft_sent s"
      using assms(1) by (auto simp: reconnect_def Let_def split: if_splits sum.splits dest!: connect_stream_source)
    moreover from this(3) have "\<not> reached_end cfg s'"
      using Suc.prems(2) by (simp add: reached_end_def split: option.splits)
    ultimately show ?thesis
      using Suc.IH [of s'] Suc.prems(3) step FetchContinue by simp
  next
    case (FetchBreak s')
    then show ?thesis by (auto simp: reconnect_def Let_def split: if_splits sum.splits)
  next
    case (FetchPanic f s')
    then have "ft_sent s' = ft_sent s"
      by (auto simp: reconnect_def Let_def split: if_splits sum.splits)
    with step FetchPanic show ?thesis by simp
  qed
qed

lemma resp_chain_last_ge:
  "resp_chain v rs \<Longrightarrow> list_all wf_resp rs \<Longrightarrow> rs \<noteq> [] \<Longrightarrow> v \<le> end_version_of (last rs)"
proof (induction rs arbitrary: v)
  case (Cons r rs)
  have "v \<le> end_version_of r" "end_version_of r < end_version_of r + 1"
    using Cons.prems by (auto simp: wf_resp_def word_less_nat_alt unat_Suc_u64)
  moreover have "rs \<noteq> [] \<longrightarrow> end_version_of r + 1 \<le> end_version_of (last rs)" using Cons by auto
  ultimately show ?case by (cases "rs = []") (auto intro: order_trans less_imp_le)
qed simp

lemma fetch_loop_delivers:
  assumes "resp_chain (ft_next_version_to_fetch s) rs" and "list_all wf_resp rs"
    and "wrap_i64 (ft_last_fetched_version s + 1) = as_i64 (ft_next_version_to_fetch s)"
    and "ft_stream s = map ItemOk rs @ rest" and "rs \<noteq> []"
    and "fc_request_ending_version cfg = Some (end_version_of (last rs))"
    and "fc_pb_channel_txn_chunk_size cfg \<noteq> 0" and "\<And>n. ge_send_ok env n"
  shows "\<exists>s'. fetch_loop (length rs) env cfg s = FetchBreak s' \<and>
    ft_sent s' = ft_sent s @ concat (map (sent_for env cfg) rs) \<and> received_loop (length rs) env cfg s = rs"
  using assms(1-6)
proof (induction rs arbitrary: s)
  case (Cons r rs)
  have send: "send_all env bs t = (None, t\<lparr>ft_sent := ft_sent t @ bs\<rparr>)" for bs t
    by (induction bs arbitrary: t) (simp_all add: assms(8))
  obtain c where c: "tr_chain_id r = Some c" using Cons.prems(1) by auto
  let ?recv = "snd (receive_response env cfg r (s\<lparr>ft_stream := map ItemOk rs @ rest\<rparr>))"
  have rcv: "fst (receive_response env cfg r (s\<lparr>ft_stream := map ItemOk rs @ rest\<rparr>)) = None"
    "ft_sent ?recv = ft_sent s @ sent_for env cfg r"
    "ft_stream ?recv = map ItemOk rs @ rest" "ft_next_version_to_fetch ?recv = end_version_of r + 1"
    "ft_last_fetched_version ?recv = as_i64 (end_version_of r)"
    using Cons.prems(1,3) c assms(7) by (auto simp: receive_response_def Let_def send sent_for_def)
  then have step: "fetch_step env cfg s =
      (if reached_end cfg ?recv then FetchBreak ?recv else FetchContinue ?recv)"
    using Cons.prems(4) by (auto simp: fetch_step_def next_item_def split: prod.splits option.splits)
  have now: "received_now s = [r]" using Cons.prems(4) by (simp add: received_now_def)
  have wf: "end_version_of r < end_version_of r + 1"
    using Cons.prems(2) by (auto simp: wf_resp_def word_less_nat_alt unat_Suc_u64)
  show ?case
  proof (cases "rs = []")
    case True
    then have "reached_end cfg ?recv" using Cons.prems(6) rcv(4) wf by (simp add: reached_end_def)
    with step rcv(2) True now show ?thesis by simp
  next
    case False
    have "end_version_of r + 1 \<le> end_version_of (last rs)"
      using Cons.prems(1,2) False by (intro resp_chain_last_ge) auto
    then have "\<not> reached_end cfg ?recv" using Cons.prems(6) False rcv(4) by (simp add: reached_end_def not_less)
    with Cons.IH [of ?recv] Cons.prems rcv step False now show ?thesis by (auto simp: wrap_i64_succ)
  qed
qed simp

lemma sample_run_facts:
  "connect_stream (sample_env (map ItemOk sample_responses)) 0 (fc_starting_version sample_cfg)
     (fc_request_ending_version sample_cfg) (fc_auth_token sample_cfg) (fc_processor_name sample_cfg) =
     Inr (map ItemOk sample_responses @ [])"
  "resp_chain (fc_starting_version sample_cfg) sample_responses"
  "list_all wf_resp sample_responses" "sample_responses \<noteq> []"
  "fc_request_ending_version sample_cfg = Some (end_version_of (last sample_responses))"
  "fc_pb_channel_txn_chunk_size sample_cfg \<noteq> 0"
  "ge_send_ok (sample_env (map ItemOk sample_responses)) n" "length sample_responses = 2"
proof -
  show "connect_stream (sample_env (map ItemOk sample_responses)) 0 (fc_starting_version sample_cfg)
     (fc_request_ending_version sample_cfg) (fc_auth_token sample_cfg) (fc_processor_name sample_cfg) =
     Inr (map ItemOk sample_responses @ [])"
    by (simp add: connect_stream_def get_stream_def sample_env_def sample_cfg_def retry_loop.simps grpc_request_builder_def)
  show "resp_chain (fc_starting_version sample_cfg) sample_responses" by code_simp
  show "list_all wf_resp sample_responses" by code_simp
  show "fc_request_ending_version sample_cfg = Some (end_version_of (last sample_responses))" by code_simp
qed (simp_all add: sample_responses_def sample_cfg_def sample_env_def)

lemma sample_run_breaks:
  "\<exists>s. create_fetcher_loop 2 (sample_env (map ItemOk sample_responses)) sample_cfg = FetchBreak s"
  using fetch_loop_delivers [of "fetcher_init (sample_env (map ItemOk sample_responses)) sample_cfg
      (map ItemOk sample_responses @ [])" sample_responses "[]" sample_cfg
      "sample_env (map ItemOk sample_responses)"] sample_run_facts
  by (auto simp: create_fetcher_loop_def fetcher_init_def wrap_i64_pred_succ)

text \<open>
  C4: as long as the fetcher has not panicked, the responses it took from its streams, over all reconnects, follow
  each other without a gap from the starting version on (the last version of each is followed by the first of the
  next), and what it has sent to the workers is, in order and without loss or duplication, exactly the transactions of
  these responses that pass the filter; the version it asks for next is the one after them, and no message has more
  transactions than the configured chunk size. If the versions inside each response are consecutive, the versions of
  all transactions received are consecutive from the starting version on.
\<close>

theorem fetcher_sends_contiguous:
  assumes "create_fetcher_loop n env cfg = FetchContinue s \<or> create_fetcher_loop n env cfg = FetchBreak s"
  shows "resp_chain (fc_starting_version cfg) (received n env cfg) \<and>
    ft_next_version_to_fetch s = chain_end (fc_starting_version cfg) (received n env cfg) \<and>
    concat (map tpr_transactions (ft_sent s)) =
      filter (include_txn (fc_transaction_filter cfg)) (concat (map tr_transactions (received n env cfg))) \<and>
    list_all (\<lambda>b. length (tpr_transactions b) \<le> fc_pb_channel_txn_chunk_size cfg) (ft_sent s) \<and>
    (list_all consecutive_resp (received n env cfg) \<longrightarrow>
      map txn_version (concat (map tr_transactions (received n env cfg))) =
        map (\<lambda>i. fc_starting_version cfg + of_nat i) [0..<length (concat (map tr_transactions (received n env cfg)))])"
proof -
  have inv: "fetch_inv env cfg (received n env cfg) s"
    using create_fetcher_loop_ok [of env cfg n] assms by (auto simp: outcome_ok_def)
  then have "concat (map tpr_transactions (ft_sent s)) =
      filter (include_txn (fc_transaction_filter cfg)) (concat (map tr_transactions (received n env cfg)))"
    using sent_for_transactions [of cfg env "received n env cfg"]
    by (cases "received n env cfg = []") (auto simp: fetch_inv_def)
  with inv chain_versions [of "fc_starting_version cfg" "received n env cfg"] show ?thesis
    by (auto simp: fetch_inv_def list_all_iff sent_for_def dest!: pb_batches_size)
qed

lemma sample_received: "received 2 (sample_env (map ItemOk sample_responses)) sample_cfg = sample_responses"
  using fetch_loop_delivers [of "fetcher_init (sample_env (map ItemOk sample_responses)) sample_cfg
      (map ItemOk sample_responses @ [])" sample_responses "[]" sample_cfg
      "sample_env (map ItemOk sample_responses)"] sample_run_facts
  by (auto simp: received_def fetcher_init_def wrap_i64_pred_succ)

theorem fetcher_sends_contiguous_witness:
  "\<exists>s. create_fetcher_loop 2 (sample_env (map ItemOk sample_responses)) sample_cfg = FetchBreak s \<and>
     ft_next_version_to_fetch s = 10 \<and>
     concat (map tpr_transactions (ft_sent s)) =
       filter (include_txn (fc_transaction_filter sample_cfg)) (concat (map tr_transactions sample_responses)) \<and>
     map txn_version (concat (map tr_transactions sample_responses)) = [7, 8, 9]"
proof -
  obtain s where run: "create_fetcher_loop 2 (sample_env (map ItemOk sample_responses)) sample_cfg = FetchBreak s"
    using sample_run_breaks by blast
  have facts: "list_all consecutive_resp sample_responses" "chain_end 7 sample_responses = 10"
    "length (concat (map tr_transactions sample_responses)) = 3" by code_simp+
  have start: "fc_starting_version sample_cfg = 7" by (simp add: sample_cfg_def)
  have "map (\<lambda>i. 7 + of_nat i) [0..<3] = [7, 8, 9 :: u64]" by code_simp
  with fetcher_sends_contiguous [OF disjI2 [OF run], unfolded sample_received start] facts run show ?thesis by simp
qed

text \<open>
  C28: the fetcher ends normally only when an ending version was requested and passed. If the versions inside each
  response it received are consecutive and not the last of 64 bits, then every version from the starting version to the
  ending version is the version of a transaction it received, and every one of these that passes the filter is in a
  message that was sent to the workers.
\<close>

theorem fetcher_break_complete:
  assumes "create_fetcher_loop n env cfg = FetchBreak s"
    and "list_all consecutive_resp (received n env cfg)" and "list_all wf_resp (received n env cfg)"
  shows "\<exists>e. fc_request_ending_version cfg = Some e \<and> e < ft_next_version_to_fetch s \<and>
    (\<forall>v. fc_starting_version cfg \<le> v \<longrightarrow> v \<le> e \<longrightarrow>
      (\<exists>t \<in> set (concat (map tr_transactions (received n env cfg))). txn_version t = v)) \<and>
    (\<forall>t \<in> set (concat (map tr_transactions (received n env cfg))). include_txn (fc_transaction_filter cfg) t \<longrightarrow>
      list_ex (\<lambda>b. t \<in> set (tpr_transactions b)) (ft_sent s))"
proof -
  let ?rs = "received n env cfg"
  have inv: "fetch_inv env cfg ?rs s" and "reached_end cfg s"
    using create_fetcher_loop_ok [of env cfg n] assms(1) by (auto simp: outcome_ok_def)
  then obtain e where e: "fc_request_ending_version cfg = Some e" "e < ft_next_version_to_fetch s"
    by (auto simp: reached_end_def split: option.splits)
  have chain: "resp_chain (fc_starting_version cfg) ?rs" "ft_next_version_to_fetch s = chain_end (fc_starting_version cfg) ?rs"
    using inv by (simp_all add: fetch_inv_def)
  have "\<exists>t \<in> set (concat (map tr_transactions ?rs)). txn_version t = v" if v: "fc_starting_version cfg \<le> v" "v \<le> e" for v
  proof -
    obtain r where r: "r \<in> set ?rs" "resp_covers v r"
      using resp_chain_covers [OF chain(1) assms(3) v(1)] v(2) e(2) chain(2) by (auto simp: list_ex_iff dest: le_less_trans)
    have "tr_transactions r \<noteq> []" using resp_chain_nonempty [OF chain(1) r(1)] .
    from consecutive_version [OF _ this r(2)] r(1) assms(2) show ?thesis by (auto simp: list_all_iff)
  qed
  moreover have "set (concat (map tpr_transactions (ft_sent s))) =
      set (filter (include_txn (fc_transaction_filter cfg)) (concat (map tr_transactions ?rs)))"
    using sent_for_transactions [of cfg env ?rs] inv by (cases "?rs = []") (auto simp: fetch_inv_def)
  then have "list_ex (\<lambda>b. t \<in> set (tpr_transactions b)) (ft_sent s)"
    if "t \<in> set (concat (map tr_transactions ?rs))" "include_txn (fc_transaction_filter cfg) t" for t
    using that by (auto simp: list_ex_iff set_eq_iff)
  ultimately show ?thesis using e by blast
qed

theorem fetcher_break_complete_witness:
  "\<exists>s. create_fetcher_loop 2 (sample_env (map ItemOk sample_responses)) sample_cfg = FetchBreak s \<and>
     (\<exists>t \<in> set (concat (map tr_transactions sample_responses)). txn_version t = 8) \<and>
     list_ex (\<lambda>b. sample_txn 9 4 \<in> set (tpr_transactions b)) (ft_sent s)"
proof -
  let ?env = "sample_env (map ItemOk sample_responses)"
  obtain s where run: "create_fetcher_loop 2 ?env sample_cfg = FetchBreak s"
    using sample_run_breaks by blast
  have c: "list_all consecutive_resp (received 2 ?env sample_cfg)" unfolding sample_received by code_simp
  have w: "list_all wf_resp (received 2 ?env sample_cfg)" unfolding sample_received by (rule sample_run_facts(3))
  have i: "include_txn (fc_transaction_filter sample_cfg) (sample_txn 9 4)" by code_simp
  have t: "sample_txn 9 4 \<in> set (concat (map tr_transactions sample_responses))" by (simp add: sample_responses_def)
  have end_version: "fc_request_ending_version sample_cfg = Some 9" "fc_starting_version sample_cfg = 7"
    by (simp_all add: sample_cfg_def)
  note all = fetcher_break_complete [OF run c w, unfolded sample_received end_version]
  have "\<exists>t \<in> set (concat (map tr_transactions sample_responses)). txn_version t = 8" using all by fastforce
  moreover have "list_ex (\<lambda>b. sample_txn 9 4 \<in> set (tpr_transactions b)) (ft_sent s)" using all i t by blast
  ultimately show ?thesis using run by blast
qed

text \<open>
  C30: when no stream the server opens ever yields a response and the ending version is not yet
  reached, the loop does not spin: after at most six iterations it has panicked, with nothing sent.
\<close>

theorem fetcher_gives_up:
  assumes "\<forall>k rq i str. ge_get_transactions env k rq i = Some (Inr str) \<longrightarrow> no_response str"
    and "\<forall>e. fc_request_ending_version cfg = Some e \<longrightarrow> fc_starting_version cfg \<le> e"
  shows "\<exists>f s. create_fetcher_loop 6 env cfg = FetchPanic f s \<and> ft_sent s = []"
proof (cases "connect_stream env 0 (fc_starting_version cfg) (fc_request_ending_version cfg)
    (fc_auth_token cfg) (fc_processor_name cfg)")
  case (Inl f)
  then show ?thesis by (simp add: create_fetcher_loop_def fetcher_init_def)
next
  case (Inr str)
  then have "no_response str" using assms(1) by (blast dest: connect_stream_source)
  then have "\<exists>f s. fetch_loop (Suc 5) env cfg (fetcher_init env cfg str) = FetchPanic f s \<and>
      ft_sent s = ft_sent (fetcher_init env cfg str)"
    using assms by (intro fetch_loop_gives_up)
      (auto simp: fetcher_init_def reached_end_def reconnection_max_retries_def split: option.splits
        dest: leD)
  then show ?thesis using Inr by (simp add: create_fetcher_loop_def fetcher_init_def del: fetch_loop.simps)
qed

theorem fetcher_gives_up_witness:
  "\<exists>f s. create_fetcher_loop 6 (sample_env [ItemErr ''unavailable'']) sample_cfg = FetchPanic f s \<and>
     ft_sent s = []"
  using fetcher_gives_up [of "sample_env [ItemErr ''unavailable'']" sample_cfg]
  by (simp add: sample_env_def sample_cfg_def no_response_def)

text \<open>
  C29: when the stream yields consecutive responses up to the requested ending version and the
  workers keep accepting, the loop ends after as many iterations as there are responses, with every
  response filtered, split and sent.
\<close>

theorem fetcher_delivers:
  assumes "connect_stream env 0 (fc_starting_version cfg) (fc_request_ending_version cfg)
      (fc_auth_token cfg) (fc_processor_name cfg) = Inr (map ItemOk rs @ rest)"
    and "resp_chain (fc_starting_version cfg) rs" and "list_all wf_resp rs" and "rs \<noteq> []"
    and "fc_request_ending_version cfg = Some (end_version_of (last rs))"
    and "fc_pb_channel_txn_chunk_size cfg \<noteq> 0" and "\<forall>n. ge_send_ok env n"
  shows "\<exists>s. create_fetcher_loop (length rs) env cfg = FetchBreak s \<and>
    ft_sent s = concat (map (sent_for env cfg) rs)"
  using fetch_loop_delivers [of "fetcher_init env cfg (map ItemOk rs @ rest)" rs rest cfg env] assms
  by (auto simp: create_fetcher_loop_def fetcher_init_def wrap_i64_pred_succ)

theorem fetcher_delivers_witness:
  "\<exists>s. create_fetcher_loop 2 (sample_env (map ItemOk sample_responses)) sample_cfg = FetchBreak s \<and>
     ft_sent s = concat (map (sent_for (sample_env (map ItemOk sample_responses)) sample_cfg) sample_responses)"
  using fetcher_delivers [OF sample_run_facts(1-6)] sample_run_facts(7,8) by simp

text \<open>
  C36: for every starting version not after the ending version the number of transactions requested is exactly
  the length of the closed interval, also where the subtraction or the addition on \<open>i64\<close> overflows and wraps, as it
  does in the release build; only for the whole range of 64 bits, whose length does not fit, is it 0.
\<close>

theorem transactions_to_request_exact:
  assumes "s \<le> e"
  shows "map_option unat (transactions_to_request s (Some e)) = Some (if s = 0 \<and> e = - 1 then 0 else unat e - unat s + 1)"
proof -
  have "transactions_to_request s (Some e) = Some (e - s + 1)"
    by (simp add: transactions_to_request_def wrap_i64_def as_u64_def as_i64_def flip: wi_hom_syms)
  moreover have diff: "unat (e - s) = unat e - unat s" using assms by (simp add: unat_sub word_le_nat_alt)
  moreover have "s = 0 \<and> e = - 1" if "e - s = - 1"
  proof (rule ccontr)
    assume no: "\<not> (s = 0 \<and> e = - 1)"
    have "e = (e - s) + s" by simp
    then have e: "e = s - 1" unfolding that by simp
    with no have "s \<noteq> 0" by auto
    then have "unat e = unat s - 1" "0 < unat s" using e by (simp_all add: unat_minus_one unat_gt_0)
    with assms show False by (simp add: word_le_nat_alt)
  qed
  ultimately show ?thesis by (cases "e - s = - 1") (auto simp: unat_Suc_u64)
qed

theorem transactions_to_request_exact_witness:
  "map_option unat (transactions_to_request 7 (Some 9)) = Some 3"
  using transactions_to_request_exact [of 7 9] by simp

text \<open>A starting version beyond the ending version by two or more asks for almost \<open>2^64\<close> transactions.\<close>

lemma transactions_to_request_wraps: "transactions_to_request 10 (Some 5) = Some (- 4)"
  by code_simp

end
