(* ===== verification/Worker.thy ===== *)
theory Worker
  imports Processor Grpc_Stream
begin

text \<open>
  \<open>worker.rs\<close>: start-up (resume version, chain id), the tasks that take batches from the channel, and
  \<open>do_processor\<close>. The processor a worker runs is the interface \<open>processor_trait\<close>: the locale states
  what the worker and the gap detector rely on, and every modelled processor interprets it. Metrics
  and log lines are left out, except for the expressions in them that can panic.
\<close>

type_synonym process_fn =
  "pg_env \<Rightarrow> transaction list \<Rightarrow> u64 \<Rightarrow> u64 \<Rightarrow> u64 option \<Rightarrow> db \<Rightarrow> (failure + processing_result) \<times> db"

section \<open>Start-up\<close>

definition get_start_version :: "pg_first \<Rightarrow> string \<Rightarrow> db \<Rightarrow> failure + u64 option" where
  "get_start_version first name d =
     and_then (get_by_processor first name d) (\<lambda>status.
       Inr (map_option (\<lambda>st. as_u64 (psq_last_success_version st) + 1) status))"

text \<open>\<open>ledger_infos\<close> has the single column \<open>chain_id\<close>, its primary key.\<close>

definition ledger_info_query :: "i64 \<Rightarrow> insert_query" where
  "ledger_info_query chain_id =
     \<lparr>iq_table = ''ledger_infos'', iq_rows = [[(''chain_id'', SqlInt chain_id)]],
      iq_target = [''chain_id''], iq_action = DoNothing\<rparr>"

definition check_or_update_chain_id :: "pg_first \<Rightarrow> pg_env \<Rightarrow> i64 \<Rightarrow> db \<Rightarrow> failure + u64 \<times> db" where
  "check_or_update_chain_id first env grpc_chain_id d =
     and_then (ledger_info_get first d) (\<lambda>maybe_existing_chain_id.
       case maybe_existing_chain_id of
         Some chain_id \<Rightarrow>
           if chain_id = grpc_chain_id then Inr (as_u64 chain_id, d)
           else Inl (Err ''Wrong chain detected!'')
       | None \<Rightarrow>
           and_then (db_result (execute_with_better_error_conn env (ledger_info_query grpc_chain_id) None d))
             (\<lambda>d'. Inr (as_u64 grpc_chain_id, d')))"

record worker =
  wk_processor_config :: processor_config
  wk_auth_token :: string
  wk_starting_version :: "u64 option"
  wk_ending_version :: "u64 option"
  wk_number_concurrent_processing_tasks :: nat
  wk_pb_channel_txn_chunk_size :: nat
  wk_transaction_filter :: transaction_filter
  wk_grpc_chain_id :: "u64 option"

text \<open>
  \<open>run\<close> up to the point where the tasks are spawned (the migrations are run by \<open>diesel\<close>): the fetcher's
  configuration, the worker with its chain id, and the database.
\<close>

definition run_setup ::
  "pg_first \<Rightarrow> pg_env \<Rightarrow> grpc_env \<Rightarrow> worker \<Rightarrow> db \<Rightarrow> failure + fetch_config \<times> worker \<times> db" where
  "run_setup first env genv w d =
     (let name = processor_name (wk_processor_config w) in
      and_then (unwrap_result (get_start_version first name d)) (\<lambda>v.
      let starting_version_from_db = (case v of Some x \<Rightarrow> x | None \<Rightarrow> 0);
          starting_version = (case wk_starting_version w of Some x \<Rightarrow> x | None \<Rightarrow> starting_version_from_db)
      in
      and_then (get_chain_id genv 0 (wk_auth_token w) name) (\<lambda>chain_id.
      and_then (unwrap_result (check_or_update_chain_id first env (as_i64 chain_id) d)) (\<lambda>(_, d').
      Inr (\<lparr>fc_starting_version = starting_version, fc_request_ending_version = wk_ending_version w,
            fc_auth_token = wk_auth_token w, fc_processor_name = name,
            fc_transaction_filter = wk_transaction_filter w,
            fc_pb_channel_txn_chunk_size = wk_pb_channel_txn_chunk_size w\<rparr>,
           w\<lparr>wk_grpc_chain_id := Some chain_id\<rparr>, d')))))"

section \<open>Processing one batch\<close>

definition do_processor ::
  "process_fn \<Rightarrow> pg_env \<Rightarrow> transactions_pb_response \<Rightarrow> u64 \<Rightarrow> db \<Rightarrow> (failure + processing_result) \<times> db" where
  "do_processor process env transactions_pb db_chain_id d =
     (if tpr_transactions transactions_pb = []
      then (Inr \<lparr>pr_start_version = tpr_start_version transactions_pb,
                 pr_end_version = tpr_end_version transactions_pb,
                 pr_last_transaction_timestamp = tpr_end_txn_timestamp transactions_pb,
                 pr_processing_duration_in_secs = 0, pr_db_insertion_duration_in_secs = 0\<rparr>, d)
      else process env (tpr_transactions transactions_pb) (tpr_start_version transactions_pb)
             (tpr_end_version transactions_pb) (Some db_chain_id) d)"

text \<open>\<open>timestamp_to_iso\<close> formats a parsed timestamp and panics when it cannot be parsed.\<close>

definition timestamp_to_iso_opt :: "libs \<Rightarrow> timestamp option \<Rightarrow> failure + naive_date_time option" where
  "timestamp_to_iso_opt L t =
     (case t of None \<Rightarrow> Inr None | Some ts \<Rightarrow> and_then (parse_timestamp L ts) (\<lambda>x. Inr (Some x)))"

definition first_version :: "transaction list \<Rightarrow> u64" where
  "first_version txns = (case txns of [] \<Rightarrow> 0 | t # _ \<Rightarrow> txn_version t)"

definition last_txn_version :: "transaction list \<Rightarrow> u64" where
  "last_txn_version txns = (case txns of [] \<Rightarrow> 0 | _ \<Rightarrow> txn_version (last txns))"

text \<open>
  One iteration of a task of \<open>launch_processor_task\<close> on a received batch, with the task's moving
  average and a clock reading: the result for the gap detector, or a panic.
\<close>

definition task_iteration ::
  "libs \<Rightarrow> process_fn \<Rightarrow> pg_env \<Rightarrow> u64 \<Rightarrow> u64 \<Rightarrow> transactions_pb_response \<Rightarrow> moving_average \<Rightarrow> db \<Rightarrow>
   (failure + processing_result \<times> moving_average) \<times> db" where
  "task_iteration L process env chain_id now transactions_pb ma d =
     (case and_then (timestamp_to_iso_opt L (tpr_start_txn_timestamp transactions_pb)) (\<lambda>_.
             timestamp_to_iso_opt L (tpr_end_txn_timestamp transactions_pb)) of
        Inl f \<Rightarrow> (Inl f, d)
      | Inr _ \<Rightarrow>
          if tpr_chain_id transactions_pb \<noteq> chain_id
          then (Inl (Panic ''Stream somehow changed chain id!''), d)
          else case do_processor process env transactions_pb chain_id d of
                 (Inl f, d') \<Rightarrow> (Inl (Panic ''Error processing transactions''), d')
               | (Inr r, d') \<Rightarrow>
                   let txns = tpr_transactions transactions_pb;
                       ma' = tick_now now ((last_txn_version txns - first_version txns) + 1) ma
                   in case tpr_end_txn_timestamp transactions_pb of
                        None \<Rightarrow> (Inl (Panic ''called Option::unwrap on a None value''), d')
                      | Some _ \<Rightarrow> (Inr (r, ma'), d'))"

text \<open>The whole task on the batches it receives until the channel is closed.\<close>

fun processor_task ::
  "libs \<Rightarrow> process_fn \<Rightarrow> pg_env \<Rightarrow> u64 \<Rightarrow> (u64 \<times> transactions_pb_response) list \<Rightarrow> moving_average \<Rightarrow> db \<Rightarrow>
   processing_result list \<times> failure option \<times> db" where
  "processor_task L process env chain_id [] ma d = ([], None, d)"
| "processor_task L process env chain_id ((now, b) # bs) ma d =
     (case task_iteration L process env chain_id now b ma d of
        (Inl f, d') \<Rightarrow> ([], Some f, d')
      | (Inr (r, ma'), d') \<Rightarrow>
          let (rs, f, d'') = processor_task L process env chain_id bs ma' d' in (r # rs, f, d''))"

section \<open>What a processor promises\<close>

locale processor_trait =
  fixes process :: process_fn
  assumes result_versions:
    "process env txns start_version end_version db_chain_id d = (Inr r, d') \<Longrightarrow>
      pr_start_version r = start_version \<and> pr_end_version r = end_version"
    and status_frame:
    "postgres (pg_exec env) \<Longrightarrow> process env txns start_version end_version db_chain_id d = (res, d') \<Longrightarrow>
      d' ''processor_status'' = d ''processor_status''"
begin

lemma do_processor_versions:
  "do_processor process env b c d = (Inr r, d') \<Longrightarrow>
    pr_start_version r = tpr_start_version b \<and> pr_end_version r = tpr_end_version b"
  by (auto simp: do_processor_def dest: result_versions split: if_splits)

lemma do_processor_frame:
  "postgres (pg_exec env) \<Longrightarrow> do_processor process env b c d = (res, d') \<Longrightarrow>
    d' ''processor_status'' = d ''processor_status''"
  by (auto simp: do_processor_def dest: status_frame split: if_splits)

lemma task_iteration_versions:
  "task_iteration L process env c now b ma d = (Inr (r, ma'), d') \<Longrightarrow>
    pr_start_version r = tpr_start_version b \<and> pr_end_version r = tpr_end_version b \<and> tpr_chain_id b = c"
  by (auto simp: task_iteration_def Let_def split: sum.splits prod.splits if_splits option.splits
      dest!: do_processor_versions)

lemma task_iteration_frame:
  "postgres (pg_exec env) \<Longrightarrow> task_iteration L process env c now b ma d = (res, d') \<Longrightarrow>
    d' ''processor_status'' = d ''processor_status''"
  by (auto simp: task_iteration_def Let_def split: sum.splits prod.splits if_splits option.splits
      dest: do_processor_frame)

end

text \<open>\<open>monitoring_processor.rs\<close>: it stores nothing and reports the batch.\<close>

definition monitoring_process_transactions :: process_fn where
  "monitoring_process_transactions env transactions start_version end_version db_chain_id d =
     (case transactions of
        [] \<Rightarrow> (Inl (Panic ''called Option::unwrap on a None value''), d)
      | _ \<Rightarrow> (Inr \<lparr>pr_start_version = start_version, pr_end_version = end_version,
                  pr_last_transaction_timestamp = txn_timestamp (last transactions),
                  pr_processing_duration_in_secs = 0, pr_db_insertion_duration_in_secs = 0\<rparr>, d))"

interpretation monitoring: processor_trait monitoring_process_transactions
  by unfold_locales (auto simp: monitoring_process_transactions_def split: list.splits)

section \<open>Properties\<close>

text \<open>
  C7: the worker resumes right after the highest version ever stored: after a successful status update
  with \<open>version\<close>, a read of the status gives the successor of the maximum of \<open>version\<close> and what was
  stored before, so a late, smaller update never makes the indexer go back.
\<close>

theorem resume_after_update:
  assumes "postgres (pg_exec env)" and "where_free env processor_status_query {st. ps_processor st = name}"
    and "status_table_ok d" and "update_last_processed_version L env name version ts d = Inr d'"
    and "first_row_of (d' ''processor_status'') [(''processor'', SqlText name)] res"
    and "first ''processor_status'' [(''processor'', SqlText name)] d' = Inr res"
  shows "get_start_version first name d' =
    Inr (Some (as_u64 (case last_version d name of
                         None \<Rightarrow> as_i64 version | Some old \<Rightarrow> max old (as_i64 version)) + 1))"
proof -
  note v = last_version_guarded [OF assms(1,4,2,3)]
  have ok: "status_table_ok d'" by (rule status_table_ok_update [OF assms(1,4,2,3)])
  from v obtain row where row: "d' ''processor_status'' [SqlText name] = Some row"
    by (auto simp: last_version_def)
  have key: "row_key [''processor''] r = [SqlText name] \<longleftrightarrow> cell r ''processor'' = SqlText name" for r
    by (simp add: row_key_def)
  have "meets [(''processor'', SqlText name)] row"
    using ok row key [of row] by (simp add: table_ok_def)
  then obtain r where r: "res = Some r" "r \<in> ran (d' ''processor_status'')" "cell r ''processor'' = SqlText name"
    using assms(5) row by (cases res) (auto simp: first_row_of_def ranI)
  then have "d' ''processor_status'' [SqlText name] = Some r"
    using ok key [of r] by (auto simp: table_ok_def ran_def)
  with v r(1) assms(6) show ?thesis
    by (simp add: get_start_version_def get_by_processor_def last_version_def)
qed

definition sample_first :: "string \<Rightarrow> pg_first" where
  "sample_first name t cond d = Inr (d t [SqlText name])"

theorem resume_after_update_witness:
  "\<exists>d'. update_last_processed_version sample_libs sample_pg ''coin_processor'' 9 None (\<lambda>_. Map.empty) = Inr d' \<and>
    get_start_version (sample_first ''coin_processor'') ''coin_processor'' d' = Inr (Some 10)"
proof -
  let ?d = "\<lambda>_. Map.empty"
  obtain d' where d': "update_last_processed_version sample_libs sample_pg ''coin_processor'' 9 None ?d = Inr d'"
    by (simp add: update_last_processed_version_def processor_status_query_def execute_with_better_error_def
        sample_pg_def contains_def to_lowercase_def pg_reference_def proposed_keys_def Let_def)
  let ?row = "Map.empty ++ map_of (processor_status_row \<lparr>ps_processor = ''coin_processor'',
      ps_last_success_version = as_i64 9, ps_last_transaction_timestamp = None\<rparr>)"
  have t: "d' ''processor_status'' = [[SqlText ''coin_processor''] \<mapsto> ?row]"
    using d' by (auto simp: update_last_processed_version_def processor_status_query_def
        execute_with_better_error_def sample_pg_def contains_def to_lowercase_def pg_reference_def
        proposed_keys_def insert_spec_def upsert_row_def row_key_def cell_def processor_status_row_def
        Let_def)
  have f: "first_row_of (d' ''processor_status'') [(''processor'', SqlText ''coin_processor'')]
      (d' ''processor_status'' [SqlText ''coin_processor''])"
    unfolding t by (simp add: first_row_of_def cell_def processor_status_row_def)
  have "get_start_version (sample_first ''coin_processor'') ''coin_processor'' d' =
      Inr (Some (as_u64 (case last_version ?d ''coin_processor'' of
        None \<Rightarrow> as_i64 9 | Some old \<Rightarrow> max old (as_i64 9)) + 1))"
    by (rule resume_after_update [OF sample_pg_ok(1,3) _ d' f])
      (simp_all add: table_ok_empty sample_first_def)
  with d' show ?thesis by (simp add: last_version_def)
qed

text \<open>
  C32: the chain id of the stream is checked against the stored one. If the table has a row, the check succeeds
  exactly when the row read has the same chain id, it writes nothing, and any other chain id is an error. If the table
  is empty, the chain id becomes its only row and no other table changes; the check fails only when the server refuses
  the insert.
\<close>

theorem chain_id_checked:
  assumes "postgres (pg_exec env)" and "first ''ledger_infos'' [] d = Inr res"
    and "first_row_of (d ''ledger_infos'') [] res"
  shows "(res = None \<longleftrightarrow> d ''ledger_infos'' = Map.empty) \<and>
    (case res of
       Some row \<Rightarrow>
         check_or_update_chain_id first env cid d =
           (if int_of row ''chain_id'' = cid then Inr (as_u64 cid, d) else Inl (Err ''Wrong chain detected!''))
     | None \<Rightarrow>
         (case check_or_update_chain_id first env cid d of
            Inl f \<Rightarrow> \<exists>e. execute_with_better_error_conn env (ledger_info_query cid) None d = Inl e
          | Inr (c, d') \<Rightarrow> c = as_u64 cid \<and> (\<forall>t. t \<noteq> ''ledger_infos'' \<longrightarrow> d' t = d t) \<and>
              (\<exists>row. d' ''ledger_infos'' = [[SqlInt cid] \<mapsto> row] \<and> int_of row ''chain_id'' = cid)))"
proof (cases res)
  case None
  then have "d ''ledger_infos'' k \<noteq> Some r" for k r
    using assms(3) by (auto simp: first_row_of_def dest: ranI)
  then have empty: "d ''ledger_infos'' = Map.empty" by (intro ext) (simp add: not_Some_eq [symmetric])
  show ?thesis
  proof (cases "pg_exec env (ledger_info_query cid) None d")
    case (Inl e)
    with None empty assms(2) show ?thesis
      by (cases e) (simp add: check_or_update_chain_id_def ledger_info_get_def execute_with_better_error_conn_def Let_def)
  next
    case (Inr d')
    then obtain dflt where "d' = insert_spec dflt (ledger_info_query cid) None d"
      using postgres.insert_effect [OF assms(1)] by blast
    then have "\<forall>t. t \<noteq> ''ledger_infos'' \<longrightarrow> d' t = d t"
      "\<exists>row. d' ''ledger_infos'' = [[SqlInt cid] \<mapsto> row] \<and> int_of row ''chain_id'' = cid"
      using empty by (auto simp: insert_spec_def ledger_info_query_def upsert_row_def row_key_def cell_def
          int_of_def Let_def)
    with None empty assms(2) Inr show ?thesis
      by (simp add: check_or_update_chain_id_def ledger_info_get_def execute_with_better_error_conn_def Let_def)
  qed
next
  case (Some r)
  then have "r \<in> ran (d ''ledger_infos'')" using assms(3) by (simp add: first_row_of_def)
  then have "d ''ledger_infos'' \<noteq> Map.empty" by auto
  with assms(2) Some show ?thesis by (auto simp: check_or_update_chain_id_def ledger_info_get_def)
qed

text \<open>An empty table, and a table with the chain id 1.\<close>

definition chain_db :: db where
  "chain_db = (\<lambda>_. Map.empty)(''ledger_infos'' := [[SqlInt 1] \<mapsto> [''chain_id'' \<mapsto> SqlInt 1]])"

theorem chain_id_checked_witness:
  "(\<exists>d'. check_or_update_chain_id (\<lambda>t c d. Inr (d t [SqlInt 1])) sample_pg 1 (\<lambda>_. Map.empty) = Inr (1, d') \<and>
      (\<exists>row. d' ''ledger_infos'' = [[SqlInt 1] \<mapsto> row] \<and> int_of row ''chain_id'' = 1)) \<and>
    check_or_update_chain_id (\<lambda>t c d. Inr (d t [SqlInt 1])) sample_pg 1 chain_db = Inr (1, chain_db) \<and>
    check_or_update_chain_id (\<lambda>t c d. Inr (d t [SqlInt 1])) sample_pg 2 chain_db = Inl (Err ''Wrong chain detected!'')"
proof -
  let ?first = "\<lambda>t c d. Inr (d t [SqlInt 1])"
  obtain d' where d': "check_or_update_chain_id ?first sample_pg 1 (\<lambda>_. Map.empty) = Inr (1, d')"
    by (simp add: check_or_update_chain_id_def ledger_info_get_def execute_with_better_error_conn_def
        sample_pg_def pg_reference_def ledger_info_query_def as_u64_def Let_def)
  have row: "chain_db ''ledger_infos'' [SqlInt 1] = Some [''chain_id'' \<mapsto> SqlInt 1]"
    "first_row_of (chain_db ''ledger_infos'') [] (Some [''chain_id'' \<mapsto> SqlInt 1])"
    by (simp_all add: chain_db_def first_row_of_def)
  have "first_row_of Map.empty [] None" by (simp add: first_row_of_def)
  with chain_id_checked [OF sample_pg_ok(1), of ?first "\<lambda>_. Map.empty" None 1] d'
  have "\<exists>row. d' ''ledger_infos'' = [[SqlInt 1] \<mapsto> row] \<and> int_of row ''chain_id'' = 1" by simp
  moreover note stored = chain_id_checked [OF sample_pg_ok(1), of ?first chain_db "Some [''chain_id'' \<mapsto> SqlInt 1]", OF _ row(2)]
  ultimately show ?thesis using stored [of 1] stored [of 2] d' row(1) by (simp add: int_of_def as_u64_def)
qed

end
