(* ===== verification/Pipeline.thy ===== *)
theory Pipeline
  imports Worker
begin

text \<open>
  The tasks of \<open>Worker::run\<close> together: the channel the fetcher filled, the concurrent tasks that hold a
  batch, the channel of results and the gap detector with the database. A step relation gives the
  interleavings. A task writes to the database while it holds a batch; \<open>step_write\<close> lets it change any
  table but \<open>processor_status\<close> at any moment, \<open>step_finish\<close> is the end of its iteration. A panic of any
  task stops the process, so runs are the sequences of successful steps. \<open>pl_done\<close> records the
  batches whose processing finished.
\<close>

record pipeline =
  pl_channel :: "transactions_pb_response list"
  pl_inflight :: "transactions_pb_response list"
  pl_results :: "processing_result list"
  pl_tracker :: "db tracker"
  pl_done :: "transactions_pb_response list"

record pipeline_env =
  pe_libs :: libs
  pe_pg :: pg_env
  pe_process :: process_fn
  pe_name :: string
  pe_chain_id :: u64
  pe_concurrent_tasks :: nat

definition pipeline_init :: "transactions_pb_response list \<Rightarrow> u64 \<Rightarrow> rat \<Rightarrow> db \<Rightarrow> pipeline" where
  "pipeline_init sent starting_version start_time d =
     \<lparr>pl_channel = sent, pl_inflight = [], pl_results = [],
      pl_tracker = \<lparr>tk_gap_detector = gap_detector_new starting_version,
                    tk_last_update_time = start_time, tk_store = d\<rparr>,
      pl_done = []\<rparr>"

definition set_store :: "db \<Rightarrow> pipeline \<Rightarrow> pipeline" where
  "set_store d p = p\<lparr>pl_tracker := (pl_tracker p)\<lparr>tk_store := d\<rparr>\<rparr>"

inductive pipeline_step :: "pipeline_env \<Rightarrow> pipeline \<Rightarrow> pipeline \<Rightarrow> bool" for e :: pipeline_env where
  step_receive:
    "pl_channel p = b # bs \<Longrightarrow> length (pl_inflight p) < pe_concurrent_tasks e \<Longrightarrow>
     pipeline_step e p (p\<lparr>pl_channel := bs, pl_inflight := b # pl_inflight p\<rparr>)"
| step_write:
    "pl_inflight p \<noteq> [] \<Longrightarrow> d ''processor_status'' = tk_store (pl_tracker p) ''processor_status'' \<Longrightarrow>
     pipeline_step e p (set_store d p)"
| step_finish:
    "b \<in> set (pl_inflight p) \<Longrightarrow>
     task_iteration (pe_libs e) (pe_process e) (pe_pg e) (pe_chain_id e) now b ma
       (tk_store (pl_tracker p)) = (Inr (r, ma'), d) \<Longrightarrow>
     pipeline_step e p (set_store d (p\<lparr>pl_inflight := remove1 b (pl_inflight p),
       pl_results := pl_results p @ [r], pl_done := b # pl_done p\<rparr>))"
| step_track:
    "pl_results p = r # rs \<Longrightarrow>
     status_tracker_step (update_last_processed_version (pe_libs e) (pe_pg e) (pe_name e)) (now, r)
       (pl_tracker p) = Inr tk \<Longrightarrow>
     pipeline_step e p (p\<lparr>pl_results := rs, pl_tracker := tk\<rparr>)"

inductive_cases pipeline_stepE: "pipeline_step e p q"

section \<open>Invariant\<close>

definition done_covers :: "transactions_pb_response list \<Rightarrow> u64 \<Rightarrow> bool" where
  "done_covers bs v \<longleftrightarrow> list_ex (\<lambda>b. tpr_start_version b \<le> v \<and> v \<le> tpr_end_version b) bs"

definition reports :: "transactions_pb_response list \<Rightarrow> processing_result \<Rightarrow> bool" where
  "reports bs r \<longleftrightarrow>
     list_ex (\<lambda>b. pr_start_version r = tpr_start_version b \<and> pr_end_version r = tpr_end_version b) bs"

definition wf_sent :: "transactions_pb_response \<Rightarrow> bool" where
  "wf_sent b \<longleftrightarrow> tpr_start_version b \<le> tpr_end_version b \<and> tpr_end_version b \<noteq> - 1"

definition status_sound ::
  "u64 \<Rightarrow> string \<Rightarrow> i64 option \<Rightarrow> transactions_pb_response list \<Rightarrow> db \<Rightarrow> bool" where
  "status_sound s name v0 dn d \<longleftrightarrow> last_version d name = v0 \<or>
     (\<exists>w. last_version d name = Some (as_i64 w) \<and> (\<forall>v. s \<le> v \<longrightarrow> v \<le> w \<longrightarrow> done_covers dn v))"

definition pipeline_inv ::
  "transactions_pb_response list \<Rightarrow> u64 \<Rightarrow> string \<Rightarrow> i64 option \<Rightarrow> pipeline \<Rightarrow> bool" where
  "pipeline_inv sent s name v0 p \<longleftrightarrow>
     set (pl_channel p) \<union> set (pl_inflight p) \<union> set (pl_done p) \<subseteq> set sent \<and>
     (\<exists>rs. list_all (reports (pl_done p)) rs \<and> set (pl_results p) \<subseteq> set rs \<and>
        detector_inv s rs (tk_gap_detector (pl_tracker p))) \<and>
     status_sound s name v0 (pl_done p) (tk_store (pl_tracker p))"

lemma done_covers_mono: "done_covers bs v \<Longrightarrow> set bs \<subseteq> set bs' \<Longrightarrow> done_covers bs' v"
  by (auto simp: done_covers_def list_ex_iff)

lemma reports_mono: "reports bs r \<Longrightarrow> set bs \<subseteq> set bs' \<Longrightarrow> reports bs' r"
  by (auto simp: reports_def list_ex_iff)

lemma status_sound_mono: "status_sound s name v0 bs d \<Longrightarrow> set bs \<subseteq> set bs' \<Longrightarrow> status_sound s name v0 bs' d"
  using done_covers_mono unfolding status_sound_def by metis

lemma status_sound_frame:
  "d ''processor_status'' = d' ''processor_status'' \<Longrightarrow> status_sound s name v0 bs d = status_sound s name v0 bs d'"
  by (simp add: status_sound_def last_version_def)

lemma reports_covered: "covered rs v \<Longrightarrow> list_all (reports bs) rs \<Longrightarrow> done_covers bs v"
  by (auto simp: covered_def done_covers_def reports_def list_ex_iff list_all_iff) metis

lemma set_store_simps [simp]:
  "pl_channel (set_store d p) = pl_channel p" "pl_inflight (set_store d p) = pl_inflight p"
  "pl_results (set_store d p) = pl_results p" "pl_done (set_store d p) = pl_done p"
  "tk_store (pl_tracker (set_store d p)) = d"
  "tk_gap_detector (pl_tracker (set_store d p)) = tk_gap_detector (pl_tracker p)"
  by (simp_all add: set_store_def)

lemma pipeline_inv_init: "pipeline_inv sent s name (last_version d name) (pipeline_init sent s t d)"
  by (auto simp: pipeline_inv_def pipeline_init_def status_sound_def detector_inv_new
      intro!: exI [of _ "[] :: processing_result list"])

lemma wf_reports:
  "reports bs r \<Longrightarrow> set bs \<subseteq> set sent \<Longrightarrow> list_all wf_sent sent \<Longrightarrow> wf_batch r"
  by (auto simp: reports_def wf_batch_def wf_sent_def list_ex_iff list_all_iff)

lemma track_preserves:
  assumes inv: "pipeline_inv sent s (pe_name e) v0 p" and wf: "list_all wf_sent sent"
    and pg: "postgres (pg_exec (pe_pg e))" and res: "pl_results p = r # rest"
    and step: "status_tracker_step (update_last_processed_version (pe_libs e) (pe_pg e) (pe_name e)) (now, r)
      (pl_tracker p) = Inr tk"
  shows "pipeline_inv sent s (pe_name e) v0 (p\<lparr>pl_results := rest, pl_tracker := tk\<rparr>)"
proof -
  obtain rs where rs: "list_all (reports (pl_done p)) rs" "set (pl_results p) \<subseteq> set rs"
      "detector_inv s rs (tk_gap_detector (pl_tracker p))"
    using inv by (auto simp: pipeline_inv_def)
  let ?P = "status_sound s (pe_name e) v0 (pl_done p)"
  have "reports (pl_done p) r" using rs res by (auto simp: list_all_iff)
  then have "wf_batch r" using inv wf by (auto simp: pipeline_inv_def intro: wf_reports)
  have trk: "tracker_ok s rs ?P (pl_tracker p)"
    using inv rs by (simp add: tracker_ok_def pipeline_inv_def)
  have upd: "?P st'" if "?P st"
    "update_last_processed_version (pe_libs e) (pe_pg e) (pe_name e) (pr_end_version b) ts st = Inr st'"
    "\<forall>v. s \<le> v \<longrightarrow> v \<le> pr_end_version b \<longrightarrow> covered rs v" for b ts st st'
  proof -
    have "\<forall>v. s \<le> v \<longrightarrow> v \<le> pr_end_version b \<longrightarrow> done_covers (pl_done p) v"
      using that(3) reports_covered [OF _ rs(1)] by blast
    with last_version_update [OF pg that(2)] that(1) show ?thesis unfolding status_sound_def by metis
  qed
  have "tracker_ok s rs ?P tk"
    by (rule tracker_ok_step [OF trk _ _ step upd]) (use \<open>wf_batch r\<close> rs(2) res in auto)
  with inv rs res show ?thesis by (auto simp: pipeline_inv_def tracker_ok_def)
qed

lemma finish_preserves:
  assumes inv: "pipeline_inv sent s name v0 p" and pt: "processor_trait (pe_process e)"
    and pg: "postgres (pg_exec (pe_pg e))" and b: "b \<in> set (pl_inflight p)"
    and step: "task_iteration (pe_libs e) (pe_process e) (pe_pg e) (pe_chain_id e) now b ma
      (tk_store (pl_tracker p)) = (Inr (r, ma'), d)"
  shows "pipeline_inv sent s name v0 (set_store d (p\<lparr>pl_inflight := remove1 b (pl_inflight p),
      pl_results := pl_results p @ [r], pl_done := b # pl_done p\<rparr>))"
proof -
  obtain rs where rs: "list_all (reports (pl_done p)) rs" "set (pl_results p) \<subseteq> set rs"
      "detector_inv s rs (tk_gap_detector (pl_tracker p))"
    using inv by (auto simp: pipeline_inv_def)
  have "reports (b # pl_done p) r"
    using processor_trait.task_iteration_versions [OF pt step] by (simp add: reports_def)
  moreover have "list_all (reports (b # pl_done p)) rs"
    using rs(1) by (auto simp: list_all_iff intro: reports_mono)
  moreover have "detector_inv s (rs @ [r]) (tk_gap_detector (pl_tracker p))"
    by (rule detector_inv_mono [OF rs(3)]) auto
  moreover have "status_sound s name v0 (b # pl_done p) d"
    using inv processor_trait.task_iteration_frame [OF pt pg step]
      status_sound_mono [of s name v0 "pl_done p" "tk_store (pl_tracker p)" "b # pl_done p"]
      status_sound_frame [of d "tk_store (pl_tracker p)" s name v0]
    by (auto simp: pipeline_inv_def)
  ultimately show ?thesis
    using inv rs b by (auto simp: pipeline_inv_def dest: notin_set_remove1 [THEN contrapos_pp]
        intro!: exI [of _ "rs @ [r]"])
qed

lemma pipeline_inv_step:
  assumes "pipeline_step e p q" and "pipeline_inv sent s (pe_name e) v0 p" and "list_all wf_sent sent"
    and "processor_trait (pe_process e)" and "postgres (pg_exec (pe_pg e))"
  shows "pipeline_inv sent s (pe_name e) v0 q"
  using assms(1)
proof (cases rule: pipeline_step.cases)
  case (step_receive b bs)
  with assms(2) show ?thesis by (auto simp: pipeline_inv_def)
next
  case (step_write d)
  then have "status_sound s (pe_name e) v0 (pl_done p) d =
      status_sound s (pe_name e) v0 (pl_done p) (tk_store (pl_tracker p))"
    by (intro status_sound_frame) simp
  with step_write assms(2) show ?thesis by (simp add: pipeline_inv_def)
next
  case (step_finish b now ma r ma' d)
  with finish_preserves [OF assms(2,4,5)] show ?thesis by simp
next
  case (step_track r rs now tk)
  with track_preserves [OF assms(2,3,5)] show ?thesis by simp
qed

lemma pipeline_inv_reachable:
  assumes "(pipeline_step e)\<^sup>*\<^sup>* p q" and "pipeline_inv sent s (pe_name e) v0 p" and "list_all wf_sent sent"
    and "processor_trait (pe_process e)" and "postgres (pg_exec (pe_pg e))"
  shows "pipeline_inv sent s (pe_name e) v0 q"
  using assms(1,2) by (induction rule: rtranclp_induct) (auto intro: pipeline_inv_step [OF _ _ assms(3-5)])

section \<open>Nothing before the stored version is lost\<close>

text \<open>A response whose transactions have versions between its first and its last one.\<close>

definition ordered_resp :: "transactions_response \<Rightarrow> bool" where
  "ordered_resp r \<longleftrightarrow> wf_resp r \<and>
     list_all (\<lambda>t. start_version_of r \<le> txn_version t \<and> txn_version t \<le> end_version_of r) (tr_transactions r)"

definition unsplit :: "fetch_config \<Rightarrow> transactions_response \<Rightarrow> bool" where
  "unsplit cfg r \<longleftrightarrow> length (tr_transactions r) < fc_pb_channel_txn_chunk_size cfg"

lemma unsplit_batch:
  assumes "unsplit cfg r" and "b \<in> set (sent_for env cfg r)"
  shows "tpr_transactions b = filter (include_txn (fc_transaction_filter cfg)) (tr_transactions r) \<and>
    tpr_start_version b = start_version_of r \<and> tpr_end_version b = end_version_of r"
proof -
  have "length (filter (include_txn (fc_transaction_filter cfg)) (tr_transactions r)) <
      fc_pb_channel_txn_chunk_size cfg"
    using assms(1) by (simp add: unsplit_def le_less_trans [OF length_filter_le])
  with assms(2) show ?thesis by (auto simp: sent_for_def pb_batches_def pb_batch_def Let_def)
qed

lemma resp_chain_later:
  "resp_chain v rs \<Longrightarrow> list_all wf_resp rs \<Longrightarrow> r \<in> set rs \<Longrightarrow> v \<le> start_version_of r"
proof (induction rs arbitrary: v)
  case (Cons x xs)
  then have "start_version_of x < end_version_of x + 1"
    by (auto simp: wf_resp_def less_Suc_u64)
  with Cons show ?case by (fastforce intro: order_trans less_imp_le)
qed simp

lemma resp_chain_disjoint:
  assumes "resp_chain v rs" and "list_all wf_resp rs" and "r \<in> set rs" and "r' \<in> set rs"
    and "resp_covers w r" and "resp_covers w r'"
  shows "r = r'"
  using assms
proof (induction rs arbitrary: v)
  case (Cons x xs)
  have later: "\<not> resp_covers w y" if "y \<in> set xs" "resp_covers w x" for y
  proof -
    have "end_version_of x + 1 \<le> start_version_of y"
      using resp_chain_later [of "end_version_of x + 1" xs y] Cons.prems(1,2) that(1) by auto
    then show ?thesis
      using that(2) Cons.prems(2) less_Suc_u64 [of "end_version_of x" w]
      by (auto simp: resp_covers_def wf_resp_def)
  qed
  show ?case
  proof (cases "r = x \<or> r' = x")
    case True
    with Cons.prems later show ?thesis by auto
  qed (use Cons in auto)
qed simp

text \<open>
  For the responses the fetcher accepted, none of which was split, and any interleaving of the tasks of a
  processor that keeps the contract: every transaction up to the stored version that passes the filter belongs
  to a batch whose processing has finished.
\<close>

lemma pipeline_no_loss:
  assumes "resp_chain (fc_starting_version cfg) rs" and "list_all ordered_resp rs"
    and "list_all (unsplit cfg) rs"
    and "(pipeline_step e)\<^sup>*\<^sup>*
      (pipeline_init (concat (map (sent_for genv cfg) rs)) (fc_starting_version cfg) t0 d) q"
    and "processor_trait (pe_process e)" and "postgres (pg_exec (pe_pg e))"
    and "last_version (tk_store (pl_tracker q)) (pe_name e) = Some stored"
    and "last_version d (pe_name e) \<noteq> Some stored"
    and "r \<in> set rs" and "t \<in> set (tr_transactions r)" and "txn_version t \<le> as_u64 stored"
    and "include_txn (fc_transaction_filter cfg) t"
  shows "list_ex (\<lambda>b. t \<in> set (tpr_transactions b)) (pl_done q)"
proof -
  let ?sent = "concat (map (sent_for genv cfg) rs)" and ?s = "fc_starting_version cfg"
  have from_resp: "\<exists>r' \<in> set rs. unsplit cfg r' \<and> b \<in> set (sent_for genv cfg r')" if "b \<in> set ?sent" for b
    using that assms(3) by (auto simp: list_all_iff)
  have wf: "list_all wf_resp rs" using assms(2) by (auto simp: list_all_iff ordered_resp_def)
  have "wf_sent b" if b: "b \<in> set ?sent" for b
  proof -
    obtain r' where "r' \<in> set rs" "unsplit cfg r'" "b \<in> set (sent_for genv cfg r')"
      using from_resp [OF b] by blast
    with unsplit_batch wf show ?thesis by (simp add: wf_sent_def wf_resp_def list_all_iff)
  qed
  then have "list_all wf_sent ?sent" by (simp add: list_all_iff del: set_concat)
  then have inv: "pipeline_inv ?sent ?s (pe_name e) (last_version d (pe_name e)) q"
    using pipeline_inv_reachable [OF assms(4) pipeline_inv_init _ assms(5,6)] by simp
  then obtain w where w: "stored = as_i64 w" "\<forall>v. ?s \<le> v \<longrightarrow> v \<le> w \<longrightarrow> done_covers (pl_done q) v"
    using assms(7,8) by (auto simp: pipeline_inv_def status_sound_def)
  have tv: "resp_covers (txn_version t) r"
    using assms(2,9,10) by (auto simp: ordered_resp_def list_all_iff resp_covers_def)
  moreover have "?s \<le> start_version_of r" by (rule resp_chain_later [OF assms(1) wf assms(9)])
  ultimately have "done_covers (pl_done q) (txn_version t)"
    using w assms(11) by (auto simp: resp_covers_def)
  then obtain b where b: "b \<in> set (pl_done q)" "tpr_start_version b \<le> txn_version t"
      "txn_version t \<le> tpr_end_version b"
    by (auto simp: done_covers_def list_ex_iff)
  then have "b \<in> set ?sent" using inv unfolding pipeline_inv_def by blast
  then obtain r' where r': "r' \<in> set rs" "unsplit cfg r'" "b \<in> set (sent_for genv cfg r')"
    using from_resp by blast
  note u = unsplit_batch [OF r'(2,3)]
  have "r' = r"
    by (rule resp_chain_disjoint [OF assms(1) wf r'(1) assms(9) _ tv]) (use u b in \<open>simp add: resp_covers_def\<close>)
  then have "t \<in> set (tpr_transactions b)" using u assms(10,12) by simp
  with b(1) show ?thesis by (auto simp: list_ex_iff)
qed

section \<open>A run, and a run that loses a chunk\<close>

definition stamped_txn :: "u64 \<Rightarrow> transaction" where
  "stamped_txn v = (sample_txn v 4)\<lparr>txn_timestamp := Some \<lparr>ts_seconds = 0, ts_nanos = 0\<rparr>\<rparr>"

definition stamped_response :: transactions_response where
  "stamped_response = \<lparr>tr_transactions = [stamped_txn 7, stamped_txn 8], tr_chain_id = Some 1\<rparr>"

definition run_cfg :: "nat \<Rightarrow> fetch_config" where
  "run_cfg chunk_size = sample_cfg\<lparr>fc_pb_channel_txn_chunk_size := chunk_size\<rparr>"

definition run_env :: pipeline_env where
  "run_env =
     \<lparr>pe_libs = sample_libs, pe_pg = sample_pg, pe_process = monitoring_process_transactions,
      pe_name = ''monitoring_processor'', pe_chain_id = 1, pe_concurrent_tasks = 1\<rparr>"

text \<open>One task takes the first batch of a channel, finishes it, and the gap detector sees its result.\<close>

lemma run_one_batch:
  assumes "tpr_start_version b = 7" and "tpr_end_version b = 8" and "tpr_transactions b \<noteq> []"
    and "tpr_chain_id b = 1" and "tpr_start_txn_timestamp b = Some ts" and "tpr_end_txn_timestamp b = Some ts'"
  shows "\<exists>q. (pipeline_step run_env)\<^sup>*\<^sup>* (pipeline_init (b # bs) 7 0 (\<lambda>_. Map.empty)) q \<and>
    pl_done q = [b] \<and> last_version (tk_store (pl_tracker q)) ''monitoring_processor'' = Some 8"
proof -
  let ?d = "\<lambda>_. Map.empty" and ?ma = "moving_average_new 0 3000"
  let ?p0 = "pipeline_init (b # bs) 7 0 ?d"
  let ?p1 = "?p0\<lparr>pl_channel := bs, pl_inflight := [b]\<rparr>"
  obtain r ma where it: "task_iteration sample_libs monitoring_process_transactions sample_pg 1 0 b ?ma ?d =
      (Inr (r, ma), ?d)" and r: "pr_start_version r = 7" "pr_end_version r = 8"
    using assms
    by (cases "tpr_transactions b")
      (auto simp: task_iteration_def timestamp_to_iso_opt_def parse_timestamp_def sample_libs_def
        do_processor_def monitoring_process_transactions_def Let_def)
  let ?p2 = "set_store ?d (?p1\<lparr>pl_inflight := [], pl_results := [r], pl_done := [b]\<rparr>)"
  have 1: "pipeline_step run_env ?p0 ?p1"
    using pipeline_step.step_receive [of ?p0 b bs run_env] by (simp add: pipeline_init_def run_env_def)
  have 2: "pipeline_step run_env ?p1 ?p2"
    using pipeline_step.step_finish [of b ?p1 run_env 0 ?ma r ma ?d] it
    by (simp add: pipeline_init_def run_env_def)
  obtain t where t: "update_last_processed_version sample_libs sample_pg ''monitoring_processor'' 8
      (pr_last_transaction_timestamp r) ?d = Inr t" and lv: "last_version t ''monitoring_processor'' = Some 8"
    by (cases "pr_last_transaction_timestamp r")
      (auto simp: update_last_processed_version_def processor_status_query_def parse_timestamp_def
        execute_with_better_error_def sample_pg_def sample_libs_def contains_def to_lowercase_def
        pg_reference_def proposed_keys_def insert_spec_def upsert_row_def row_key_def cell_def
        last_version_def processor_status_row_def int_of_def as_i64_small Let_def)
  then obtain tk where tk: "status_tracker_step (update_last_processed_version sample_libs sample_pg
      ''monitoring_processor'') (2, r) (pl_tracker ?p2) = Inr tk" "tk_store tk = t"
    using r by (simp add: status_tracker_step_def process_versions_def update_prev_batch_def
        follow_batches.simps gap_detector_new_def pipeline_init_def set_store_def
        update_processor_status_secs_def Let_def)
  let ?p3 = "?p2\<lparr>pl_results := [], pl_tracker := tk\<rparr>"
  have 3: "pipeline_step run_env ?p2 ?p3"
    using pipeline_step.step_track [of ?p2 r "[]" run_env 2 tk] tk(1) by (simp add: run_env_def)
  from 1 2 3 have "(pipeline_step run_env)\<^sup>*\<^sup>* ?p0 ?p3" by (meson converse_rtranclp_into_rtranclp rtranclp.rtrancl_refl)
  then show ?thesis using lv tk(2) by (intro exI [of _ ?p3]) (simp add: pipeline_init_def)
qed

lemma stamped_chunks:
  "sent_for (sample_env []) (run_cfg 10) stamped_response =
     [pb_batch stamped_response 1 100 [stamped_txn 7, stamped_txn 8]]"
  "sent_for (sample_env []) (run_cfg 1) stamped_response =
     [pb_batch stamped_response 1 50 [stamped_txn 7], pb_batch stamped_response 1 50 [stamped_txn 8]]"
  by (simp_all add: sent_for_def pb_batches_def stamped_response_def run_cfg_def sample_cfg_def
      sample_env_def include_txn_def stamped_txn_def sample_txn_def transaction_filter_new_def
      transaction_type_user_def chunks.simps Let_def)

lemma start_run_cfg: "fc_starting_version (run_cfg n) = 7"
  by (simp add: run_cfg_def sample_cfg_def)

lemma stamped_ok:
  "resp_chain 7 [stamped_response]" "list_all ordered_resp [stamped_response]"
  "include_txn (fc_transaction_filter (run_cfg n)) (stamped_txn v)"
  "tpr_start_version (pb_batch stamped_response c k ts) = 7"
  "tpr_end_version (pb_batch stamped_response c k ts) = 8"
  "tpr_start_txn_timestamp (pb_batch stamped_response c k ts) = Some \<lparr>ts_seconds = 0, ts_nanos = 0\<rparr>"
  "tpr_end_txn_timestamp (pb_batch stamped_response c k ts) = Some \<lparr>ts_seconds = 0, ts_nanos = 0\<rparr>"
  by (simp_all add: stamped_response_def start_version_of_def end_version_of_def ordered_resp_def
      wf_resp_def stamped_txn_def sample_txn_def include_txn_def run_cfg_def sample_cfg_def
      transaction_filter_new_def transaction_type_user_def pb_batch_def)

lemma stamped_run:
  "\<exists>q. (pipeline_step run_env)\<^sup>*\<^sup>* (pipeline_init (concat (map (sent_for (sample_env []) (run_cfg 10))
      [stamped_response])) (fc_starting_version (run_cfg 10)) 0 (\<lambda>_. Map.empty)) q \<and>
    last_version (tk_store (pl_tracker q)) ''monitoring_processor'' = Some 8"
  using run_one_batch [of "pb_batch stamped_response 1 100 [stamped_txn 7, stamped_txn 8]" _ _ "[]"] stamped_ok(4-)
  by (auto simp: pb_batch_def stamped_chunks start_run_cfg)

text \<open>
  The condition that no response is split is needed. With chunks of one transaction the response for
  versions 7 and 8 is split, the first chunk is acknowledged as 7 to 8, and the stored version
  becomes 8 while the transaction with version 8 is still in the channel.
\<close>

lemma split_chunk_not_yet_processed:
  "\<exists>q. (pipeline_step run_env)\<^sup>*\<^sup>* (pipeline_init (sent_for (sample_env []) (run_cfg 1) stamped_response) 7 0
      (\<lambda>_. Map.empty)) q \<and>
    last_version (tk_store (pl_tracker q)) ''monitoring_processor'' = Some 8 \<and>
    \<not> list_ex (\<lambda>b. stamped_txn 8 \<in> set (tpr_transactions b)) (pl_done q)"
proof -
  let ?b = "pb_batch stamped_response 1 50 [stamped_txn 7]"
  obtain q where "(pipeline_step run_env)\<^sup>*\<^sup>*
      (pipeline_init [?b, pb_batch stamped_response 1 50 [stamped_txn 8]] 7 0 (\<lambda>_. Map.empty)) q"
    "last_version (tk_store (pl_tracker q)) ''monitoring_processor'' = Some 8" "pl_done q = [?b]"
    using run_one_batch [of ?b _ _ "[pb_batch stamped_response 1 50 [stamped_txn 8]]"] stamped_ok(4-)
    by (auto simp: pb_batch_def)
  moreover have "stamped_txn 8 \<notin> set (tpr_transactions ?b)"
    by (simp add: pb_batch_def stamped_txn_def sample_txn_def)
  ultimately show ?thesis unfolding stamped_chunks(2) by (intro exI [of _ q]) simp
qed

end
