(* ===== verification/Default_Models.thy ===== *)
theory Default_Models
  imports Util Postgres
begin

text \<open>
  \<open>models/default_models\<close>: one row per transaction, per block metadata transaction, per write-set
  change, per module, resource and table item, and the latest state of every table item. The
  structs are records with the source's fields; each has the row it inserts, with the column names
  of the schema.
\<close>

section \<open>Modules\<close>

record move_module =
  mmod_transaction_version :: i64
  mmod_write_set_change_index :: i64
  mmod_transaction_block_height :: i64
  mmod_name :: string
  mmod_address :: string
  mmod_bytecode :: "bytes option"
  mmod_exposed_functions :: "json option"
  mmod_friends :: "json option"
  mmod_structs :: "json option"
  mmod_is_deleted :: bool

record move_module_byte_code_parsed =
  mmp_address :: string
  mmp_name :: string
  mmp_bytecode :: bytes
  mmp_exposed_functions :: json
  mmp_friends :: json
  mmp_structs :: json

definition messages_to_value :: "libs \<Rightarrow> encoded list \<Rightarrow> failure + json" where
  "messages_to_value L ms =
     and_then (map_result (\<lambda>m. expect ''called Result::unwrap on an Err value'' (lib_message_to_value L m)) ms)
       (\<lambda>vs. Inr (JArray vs))"

definition convert_move_module ::
  "libs \<Rightarrow> move_module_pb \<Rightarrow> bytes \<Rightarrow> failure + move_module_byte_code_parsed" where
  "convert_move_module L m bytecode =
     and_then (messages_to_value L (mm_exposed_functions m)) (\<lambda>exposed_functions.
     and_then (messages_to_value L (mm_friends m)) (\<lambda>friends.
     and_then (messages_to_value L (mm_structs m)) (\<lambda>structs.
     Inr \<lparr>mmp_address = standardize_address (mm_address m), mmp_name = mm_name m,
          mmp_bytecode = bytecode, mmp_exposed_functions = exposed_functions,
          mmp_friends = friends, mmp_structs = structs\<rparr>)))"

definition convert_move_module_bytecode ::
  "libs \<Rightarrow> move_module_bytecode \<Rightarrow> failure + move_module_byte_code_parsed option" where
  "convert_move_module_bytecode L mmb =
     (case mmb_abi mmb of
        None \<Rightarrow> Inr None
      | Some abi \<Rightarrow> and_then (convert_move_module L abi (mmb_bytecode mmb)) (\<lambda>p. Inr (Some p)))"

definition from_write_module :: "libs \<Rightarrow> write_module \<Rightarrow> i64 \<Rightarrow> i64 \<Rightarrow> i64 \<Rightarrow> failure + move_module" where
  "from_write_module L wm index version height =
     and_then (expect ''called Option::unwrap on a None value'' (wm_data wm)) (\<lambda>data.
     and_then (convert_move_module_bytecode L data) (\<lambda>parsed_data.
     Inr \<lparr>mmod_transaction_version = version, mmod_write_set_change_index = index,
          mmod_transaction_block_height = height,
          mmod_name = (case parsed_data of Some p \<Rightarrow> mmp_name p | None \<Rightarrow> []),
          mmod_address = standardize_address (wm_address wm),
          mmod_bytecode = map_option mmp_bytecode parsed_data,
          mmod_exposed_functions = map_option mmp_exposed_functions parsed_data,
          mmod_friends = map_option mmp_friends parsed_data,
          mmod_structs = map_option mmp_structs parsed_data,
          mmod_is_deleted = False\<rparr>))"

definition from_delete_module :: "delete_module \<Rightarrow> i64 \<Rightarrow> i64 \<Rightarrow> i64 \<Rightarrow> move_module" where
  "from_delete_module dm index version height =
     \<lparr>mmod_transaction_version = version, mmod_write_set_change_index = index,
      mmod_transaction_block_height = height,
      mmod_name = (case dm_module dm of Some m \<Rightarrow> mmi_name m | None \<Rightarrow> []),
      mmod_address = standardize_address (dm_address dm),
      mmod_bytecode = None, mmod_exposed_functions = None, mmod_friends = None, mmod_structs = None,
      mmod_is_deleted = True\<rparr>"

section \<open>Resources\<close>

record move_resource =
  mres_transaction_version :: i64
  mres_write_set_change_index :: i64
  mres_transaction_block_height :: i64
  mres_name :: string
  mres_type :: string
  mres_address :: string
  mres_module :: string
  mres_generic_type_params :: "json option"
  mres_data :: "json option"
  mres_is_deleted :: bool
  mres_state_key_hash :: string

record move_struct_tag_clean =
  mst_address :: string
  mst_module :: string
  mst_name :: string
  mst_generic_type_params :: "json option"

text \<open>The parameters are collected into a JSON array; one that cannot be serialized drops them all.\<close>

fun collect_options :: "('a \<Rightarrow> 'b option) \<Rightarrow> 'a list \<Rightarrow> 'b list option" where
  "collect_options f [] = Some []"
| "collect_options f (x # xs) =
     Option.bind (f x) (\<lambda>y. map_option (\<lambda>ys. y # ys) (collect_options f xs))"

definition convert_move_struct_tag :: "libs \<Rightarrow> move_struct_tag \<Rightarrow> move_struct_tag_clean" where
  "convert_move_struct_tag L tag =
     \<lparr>mst_address = standardize_address (st_address tag), mst_module = st_module tag,
      mst_name = st_name tag,
      mst_generic_type_params =
        map_option JArray (collect_options (lib_move_type_to_value L) (st_generic_type_params tag))\<rparr>"

definition mst_get_address :: "move_struct_tag_clean \<Rightarrow> string" where
  "mst_get_address tag = standardize_address (mst_address tag)"

definition from_write_resource ::
  "libs \<Rightarrow> write_resource \<Rightarrow> i64 \<Rightarrow> i64 \<Rightarrow> i64 \<Rightarrow> failure + move_resource" where
  "from_write_resource L wr index version height =
     and_then (expect ''MoveStructTag Not Exists.'' (wr_type wr)) (\<lambda>tag.
     let parsed_data = convert_move_struct_tag L tag in
     and_then (expect ''called Result::unwrap on an Err value'' (lib_json_from_str L (wr_data wr))) (\<lambda>data.
     Inr \<lparr>mres_transaction_version = version, mres_write_set_change_index = index,
          mres_transaction_block_height = height, mres_name = mst_name parsed_data,
          mres_type = wr_type_str wr, mres_address = standardize_address (wr_address wr),
          mres_module = mst_module parsed_data,
          mres_generic_type_params = mst_generic_type_params parsed_data,
          mres_data = Some data, mres_is_deleted = False,
          mres_state_key_hash = standardize_address (lib_hex_encode L (wr_state_key_hash wr))\<rparr>))"

definition from_delete_resource ::
  "libs \<Rightarrow> delete_resource \<Rightarrow> i64 \<Rightarrow> i64 \<Rightarrow> i64 \<Rightarrow> failure + move_resource" where
  "from_delete_resource L dr index version height =
     and_then (expect ''MoveStructTag Not Exists.'' (dr_type dr)) (\<lambda>tag.
     let parsed_data = convert_move_struct_tag L tag in
     Inr \<lparr>mres_transaction_version = version, mres_write_set_change_index = index,
          mres_transaction_block_height = height, mres_name = mst_name parsed_data,
          mres_type = dr_type_str dr, mres_address = standardize_address (dr_address dr),
          mres_module = mst_module parsed_data,
          mres_generic_type_params = mst_generic_type_params parsed_data,
          mres_data = None, mres_is_deleted = True,
          mres_state_key_hash = standardize_address (lib_hex_encode L (dr_state_key_hash dr))\<rparr>)"

definition get_outer_type_from_resource :: "libs \<Rightarrow> write_resource \<Rightarrow> failure + string" where
  "get_outer_type_from_resource L wr =
     and_then (expect ''called Option::unwrap on a None value'' (wr_type wr)) (\<lambda>tag.
       let t = convert_move_struct_tag L tag
       in Inr (mst_get_address t @ ''::'' @ mst_module t @ ''::'' @ mst_name t))"

section \<open>Table items\<close>

record current_table_item =
  cti_table_handle :: string
  cti_key_hash :: string
  cti_key :: string
  cti_decoded_key :: json
  cti_decoded_value :: "json option"
  cti_last_transaction_version :: i64
  cti_is_deleted :: bool

record table_item =
  titem_transaction_version :: i64
  titem_write_set_change_index :: i64
  titem_transaction_block_height :: i64
  titem_key :: string
  titem_table_handle :: string
  titem_decoded_key :: json
  titem_decoded_value :: "json option"
  titem_is_deleted :: bool

record table_metadata =
  tmeta_handle :: string
  tmeta_key_type :: string
  tmeta_value_type :: string

text \<open>\<open>serde_json::from_str\<close> at the type \<open>Option<Value>\<close>: the text \<open>null\<close> is \<open>None\<close>.\<close>

definition optional_value :: "json \<Rightarrow> json option" where
  "optional_value v = (if v = JNull then None else Some v)"

definition unwrap_json :: "libs \<Rightarrow> string \<Rightarrow> failure + json" where
  "unwrap_json L s = expect ''called Result::unwrap on an Err value'' (lib_json_from_str L s)"

definition from_write_table_item ::
  "libs \<Rightarrow> write_table_item \<Rightarrow> i64 \<Rightarrow> i64 \<Rightarrow> i64 \<Rightarrow> failure + table_item \<times> current_table_item" where
  "from_write_table_item L w index version height =
     and_then (expect ''called Option::unwrap on a None value'' (wti_data w)) (\<lambda>data.
     and_then (unwrap_json L (wtd_key data)) (\<lambda>decoded_key.
     and_then (unwrap_json L (wtd_value data)) (\<lambda>value.
     Inr (\<lparr>titem_transaction_version = version, titem_write_set_change_index = index,
           titem_transaction_block_height = height, titem_key = wti_key w,
           titem_table_handle = standardize_address (wti_handle w),
           titem_decoded_key = decoded_key, titem_decoded_value = optional_value value,
           titem_is_deleted = False\<rparr>,
          \<lparr>cti_table_handle = standardize_address (wti_handle w),
           cti_key_hash = hash_str L (wti_key w), cti_key = wti_key w,
           cti_decoded_key = decoded_key, cti_decoded_value = optional_value value,
           cti_last_transaction_version = version, cti_is_deleted = False\<rparr>))))"

definition from_delete_table_item ::
  "libs \<Rightarrow> delete_table_item \<Rightarrow> i64 \<Rightarrow> i64 \<Rightarrow> i64 \<Rightarrow> failure + table_item \<times> current_table_item" where
  "from_delete_table_item L w index version height =
     and_then (expect ''called Option::unwrap on a None value'' (dti_data w)) (\<lambda>data.
     and_then (unwrap_json L (dtd_key data)) (\<lambda>decoded_key.
     Inr (\<lparr>titem_transaction_version = version, titem_write_set_change_index = index,
           titem_transaction_block_height = height, titem_key = dti_key w,
           titem_table_handle = standardize_address (dti_handle w),
           titem_decoded_key = decoded_key, titem_decoded_value = None, titem_is_deleted = True\<rparr>,
          \<lparr>cti_table_handle = standardize_address (dti_handle w),
           cti_key_hash = hash_str L (dti_key w), cti_key = dti_key w,
           cti_decoded_key = decoded_key, cti_decoded_value = None,
           cti_last_transaction_version = version, cti_is_deleted = True\<rparr>)))"

definition table_metadata_from_write_table_item :: "write_table_item \<Rightarrow> failure + table_metadata" where
  "table_metadata_from_write_table_item w =
     and_then (expect ''called Option::unwrap on a None value'' (wti_data w)) (\<lambda>data.
     Inr \<lparr>tmeta_handle = wti_handle w, tmeta_key_type = wtd_key_type data,
          tmeta_value_type = wtd_value_type data\<rparr>)"

section \<open>Write-set changes\<close>

record write_set_change =
  wsch_transaction_version :: i64
  wsch_index :: i64
  wsch_hash :: string
  wsch_transaction_block_height :: i64
  wsch_type :: string
  wsch_address :: string

datatype write_set_change_detail =
    DetailModule move_module
  | DetailResource move_resource
  | DetailTable table_item current_table_item "table_metadata option"

definition get_write_set_change_type :: "libs \<Rightarrow> write_set_change_pb \<Rightarrow> failure + string" where
  "get_write_set_change_type L t =
     and_then (expect ''WriteSetChange must have a valid type.'' (lib_write_set_change_type L (wsc_type t)))
       (\<lambda>ty. case ty of
          TypeDeleteModule \<Rightarrow> Inr ''delete_module''
        | TypeDeleteResource \<Rightarrow> Inr ''delete_resource''
        | TypeDeleteTableItem \<Rightarrow> Inr ''delete_table_item''
        | TypeWriteModule \<Rightarrow> Inr ''write_module''
        | TypeWriteResource \<Rightarrow> Inr ''write_resource''
        | TypeWriteTableItem \<Rightarrow> Inr ''write_table_item''
        | TypeUnspecified \<Rightarrow> Inl (Panic ''WriteSetChange type must be specified.''))"

definition write_set_change_row_of ::
  "libs \<Rightarrow> i64 \<Rightarrow> i64 \<Rightarrow> i64 \<Rightarrow> string \<Rightarrow> bytes \<Rightarrow> string \<Rightarrow> write_set_change" where
  "write_set_change_row_of L version index height type state_key_hash address =
     \<lparr>wsch_transaction_version = version, wsch_index = index,
      wsch_hash = standardize_address (lib_hex_encode L state_key_hash),
      wsch_transaction_block_height = height, wsch_type = type, wsch_address = address\<rparr>"

definition from_write_set_change ::
  "libs \<Rightarrow> write_set_change_pb \<Rightarrow> i64 \<Rightarrow> i64 \<Rightarrow> i64 \<Rightarrow> failure + write_set_change \<times> write_set_change_detail" where
  "from_write_set_change L wsc index version height =
     and_then (get_write_set_change_type L wsc) (\<lambda>type.
     and_then (expect ''WriteSetChange must have a change'' (wsc_change wsc)) (\<lambda>change.
     let row = write_set_change_row_of L version index height type in
     case change of
       WriteModule inner \<Rightarrow>
         and_then (from_write_module L inner index version height) (\<lambda>m.
         Inr (row (wm_state_key_hash inner) (standardize_address (wm_address inner)), DetailModule m))
     | DeleteModule inner \<Rightarrow>
         Inr (row (dm_state_key_hash inner) (standardize_address (dm_address inner)),
              DetailModule (from_delete_module inner index version height))
     | WriteResource inner \<Rightarrow>
         and_then (from_write_resource L inner index version height) (\<lambda>r.
         Inr (row (wr_state_key_hash inner) (standardize_address (wr_address inner)), DetailResource r))
     | DeleteResource inner \<Rightarrow>
         and_then (from_delete_resource L inner index version height) (\<lambda>r.
         Inr (row (dr_state_key_hash inner) (standardize_address (dr_address inner)), DetailResource r))
     | WriteTableItem inner \<Rightarrow>
         and_then (from_write_table_item L inner index version height) (\<lambda>(ti, cti).
         and_then (table_metadata_from_write_table_item inner) (\<lambda>meta.
         Inr (row (wti_state_key_hash inner) [], DetailTable ti cti (Some meta))))
     | DeleteTableItem inner \<Rightarrow>
         and_then (from_delete_table_item L inner index version height) (\<lambda>(ti, cti).
         Inr (row (dti_state_key_hash inner) [], DetailTable ti cti None))))"

definition from_write_set_changes ::
  "libs \<Rightarrow> write_set_change_pb list \<Rightarrow> i64 \<Rightarrow> i64 \<Rightarrow>
   failure + write_set_change list \<times> write_set_change_detail list" where
  "from_write_set_changes L changes version height =
     and_then (map_result (\<lambda>(index, wsc). from_write_set_change L wsc (int index) version height)
                 (enumerate 0 changes))
       (\<lambda>rs. Inr (map fst rs, map snd rs))"

section \<open>Block metadata and transactions\<close>

record block_metadata_transaction =
  bmt_version :: i64
  bmt_block_height :: i64
  bmt_id :: string
  bmt_round :: i64
  bmt_epoch :: i64
  bmt_previous_block_votes_bitvec :: json
  bmt_proposer :: string
  bmt_failed_proposer_indices :: json
  bmt_timestamp :: naive_date_time

definition bmt_from_transaction ::
  "libs \<Rightarrow> block_metadata_pb \<Rightarrow> i64 \<Rightarrow> i64 \<Rightarrow> i64 \<Rightarrow> timestamp \<Rightarrow> failure + block_metadata_transaction" where
  "bmt_from_transaction L txn version height epoch timestamp =
     and_then (parse_timestamp L timestamp) (\<lambda>ts.
     Inr \<lparr>bmt_version = version, bmt_block_height = height, bmt_id = bm_id txn,
          bmt_round = as_i64 (bm_round txn), bmt_epoch = epoch,
          bmt_previous_block_votes_bitvec =
            JArray (map (\<lambda>b. JInt (uint b)) (bm_previous_block_votes_bitvec txn)),
          bmt_proposer = standardize_address (bm_proposer txn),
          bmt_failed_proposer_indices = JArray (map (\<lambda>i. JInt (uint i)) (bm_failed_proposer_indices txn)),
          bmt_timestamp = ts\<rparr>)"

record transaction_model =
  tm_version :: i64
  tm_block_height :: i64
  tm_hash :: string
  tm_type :: string
  tm_payload :: "json option"
  tm_state_change_hash :: string
  tm_event_root_hash :: string
  tm_state_checkpoint_hash :: "string option"
  tm_gas_used :: rat
  tm_success :: bool
  tm_vm_status :: string
  tm_accumulator_root_hash :: string
  tm_num_events :: i64
  tm_num_write_set_changes :: i64
  tm_epoch :: i64
  tm_payload_type :: "string option"

definition hex_address :: "libs \<Rightarrow> bytes \<Rightarrow> string" where
  "hex_address L bs = standardize_address (lib_hex_encode L bs)"

definition from_transaction_info_with_data ::
  "libs \<Rightarrow> transaction_info \<Rightarrow> json option \<Rightarrow> string option \<Rightarrow> i64 \<Rightarrow> string \<Rightarrow> i64 \<Rightarrow> i64 \<Rightarrow> i64 \<Rightarrow> transaction_model" where
  "from_transaction_info_with_data L info payload payload_type version type num_events height epoch =
     \<lparr>tm_version = version, tm_block_height = height, tm_hash = hex_address L (ti_hash info),
      tm_type = type, tm_payload = payload,
      tm_state_change_hash = hex_address L (ti_state_change_hash info),
      tm_event_root_hash = hex_address L (ti_event_root_hash info),
      tm_state_checkpoint_hash = map_option (hex_address L) (ti_state_checkpoint_hash info),
      tm_gas_used = u64_to_bigdecimal (ti_gas_used info), tm_success = ti_success info,
      tm_vm_status = ti_vm_status info,
      tm_accumulator_root_hash = hex_address L (ti_accumulator_root_hash info),
      tm_num_events = num_events, tm_num_write_set_changes = int (length (ti_changes info)),
      tm_epoch = epoch, tm_payload_type = payload_type\<rparr>"

definition from_transaction_info ::
  "libs \<Rightarrow> transaction_info \<Rightarrow> i64 \<Rightarrow> i64 \<Rightarrow> i64 \<Rightarrow> transaction_model" where
  "from_transaction_info L info version epoch height =
     \<lparr>tm_version = version, tm_block_height = height, tm_hash = hex_address L (ti_hash info),
      tm_type = [], tm_payload = None,
      tm_state_change_hash = hex_address L (ti_state_change_hash info),
      tm_event_root_hash = hex_address L (ti_event_root_hash info),
      tm_state_checkpoint_hash = map_option (hex_address L) (ti_state_checkpoint_hash info),
      tm_gas_used = u64_to_bigdecimal (ti_gas_used info), tm_success = ti_success info,
      tm_vm_status = ti_vm_status info,
      tm_accumulator_root_hash = hex_address L (ti_accumulator_root_hash info),
      tm_num_events = 0, tm_num_write_set_changes = int (length (ti_changes info)),
      tm_epoch = epoch, tm_payload_type = None\<rparr>"

type_synonym transaction_rows =
  "transaction_model \<times> block_metadata_transaction option \<times> write_set_change list \<times> write_set_change_detail list"

definition from_transaction :: "libs \<Rightarrow> transaction \<Rightarrow> failure + transaction_rows" where
  "from_transaction L txn =
     (let height = as_i64 (txn_block_height txn); epoch = as_i64 (txn_epoch txn);
          version = as_i64 (txn_version txn) in
      and_then (expect ''Transaction info doesn't exist!'' (txn_info txn)) (\<lambda>info.
      case txn_txn_data txn of
        None \<Rightarrow> Inr (from_transaction_info L info version epoch height, None, [], [])
      | Some txn_data \<Rightarrow>
          and_then (expect ''Transaction type doesn't exist!'' (lib_transaction_type_name L (txn_type txn))) (\<lambda>type.
          and_then (expect ''Transaction timestamp doesn't exist!'' (txn_timestamp txn)) (\<lambda>timestamp.
          case txn_data of
            User user_txn \<Rightarrow>
              and_then (from_write_set_changes L (ti_changes info) version height) (\<lambda>(wsc, wsc_detail).
              and_then (expect ''Getting user request failed.'' (ut_request user_txn)) (\<lambda>request.
              and_then (expect ''Getting payload failed.'' (utr_payload request)) (\<lambda>payload.
              and_then (get_clean_payload L payload) (\<lambda>payload_cleaned.
              Inr (from_transaction_info_with_data L info payload_cleaned
                     (Some (get_payload_type L payload)) version type
                     (int (length (ut_events user_txn))) height epoch, None, wsc, wsc_detail)))))
          | Genesis genesis_txn \<Rightarrow>
              and_then (from_write_set_changes L (ti_changes info) version height) (\<lambda>(wsc, wsc_detail).
              and_then (expect ''called Option::unwrap on a None value'' (gen_payload genesis_txn)) (\<lambda>payload.
              and_then (get_clean_writeset L payload) (\<lambda>payload_cleaned.
              Inr (from_transaction_info_with_data L info payload_cleaned None version type
                     (int (length (gen_events genesis_txn))) height epoch, None, wsc, wsc_detail))))
          | BlockMetadata block_metadata_txn \<Rightarrow>
              and_then (from_write_set_changes L (ti_changes info) version height) (\<lambda>(wsc, wsc_detail).
              and_then (bmt_from_transaction L block_metadata_txn version height epoch timestamp) (\<lambda>bmt.
              Inr (from_transaction_info_with_data L info None None version type
                     (int (length (bm_events block_metadata_txn))) height epoch,
                   Some bmt, wsc, wsc_detail)))
          | StateCheckpoint \<Rightarrow>
              Inr (from_transaction_info_with_data L info None None version type 0 height epoch, None, [], [])
          | Validator \<Rightarrow>
              Inr (from_transaction_info_with_data L info None None version type 0 height epoch, None, [], [])))))"

definition from_transactions ::
  "libs \<Rightarrow> transaction list \<Rightarrow>
   failure + transaction_model list \<times> block_metadata_transaction list \<times> write_set_change list \<times>
             write_set_change_detail list" where
  "from_transactions L transactions =
     fold_result (\<lambda>txn (txns, block_metadata_txns, wscs, wsc_details).
       and_then (from_transaction L txn) (\<lambda>(t, block_metadata, wsc_list, wsc_detail_list).
       Inr (txns @ [t],
            (case block_metadata of Some a \<Rightarrow> block_metadata_txns @ [a] | None \<Rightarrow> block_metadata_txns),
            wscs @ wsc_list, wsc_details @ wsc_detail_list)))
       transactions ([], [], [], [])"

section \<open>Sample messages\<close>

definition sample_change :: write_set_change_pb where
  "sample_change =
     \<lparr>wsc_type = 2, wsc_change = Some (DeleteModule \<lparr>dm_address = ''0x1'', dm_state_key_hash = [],
        dm_module = None\<rparr>)\<rparr>"

definition sample_user_txn :: "u64 \<Rightarrow> transaction" where
  "sample_user_txn v =
     \<lparr>txn_timestamp = Some \<lparr>ts_seconds = 0, ts_nanos = 0\<rparr>, txn_version = v,
      txn_info = Some \<lparr>ti_hash = [], ti_state_change_hash = [], ti_event_root_hash = [],
        ti_state_checkpoint_hash = None, ti_gas_used = 1, ti_success = True, ti_vm_status = [],
        ti_accumulator_root_hash = [], ti_changes = [sample_change]\<rparr>,
      txn_epoch = 1, txn_block_height = 1, txn_type = 4,
      txn_txn_data = Some (User \<lparr>ut_request = Some \<lparr>utr_sender = ''0x1'', utr_sequence_number = 0,
          utr_max_gas_amount = 10, utr_expiration_timestamp_secs = Some \<lparr>ts_seconds = 9, ts_nanos = 0\<rparr>,
          utr_gas_unit_price = 100, utr_payload = Some \<lparr>tp_type = 1, tp_payload = None\<rparr>,
          utr_signature = None\<rparr>, ut_events = []\<rparr>), txn_size_info = None\<rparr>"

section \<open>Shape of the rows\<close>

lemma map_result_nth:
  "map_result f xs = Inr ys \<Longrightarrow> i < length xs \<Longrightarrow> f (xs ! i) = Inr (ys ! i)"
  by (auto simp: map_result_Inr list_all2_conv_all_nth)

text \<open>What every change contributes: its row carries the position, version and block height.\<close>

lemma from_write_set_change_keys:
  "from_write_set_change L wsc index version height = Inr (row, detail) \<Longrightarrow>
    wsch_transaction_version row = version \<and> wsch_index row = index \<and>
    wsch_transaction_block_height row = height"
  by (cases "the (wsc_change wsc)")
    (auto simp: from_write_set_change_def write_set_change_row_of_def Let_def split: prod.splits)

text \<open>The keys of the detail rows.\<close>

fun detail_key :: "write_set_change_detail \<Rightarrow> i64 \<times> i64" where
  "detail_key (DetailModule m) = (mmod_transaction_version m, mmod_write_set_change_index m)"
| "detail_key (DetailResource r) = (mres_transaction_version r, mres_write_set_change_index r)"
| "detail_key (DetailTable t c md) = (titem_transaction_version t, titem_write_set_change_index t)"

fun detail_current :: "write_set_change_detail \<Rightarrow> current_table_item list" where
  "detail_current (DetailTable t c md) = [c]"
| "detail_current _ = []"

lemma from_write_set_change_detail:
  assumes "from_write_set_change L wsc index version height = Inr (row, detail)"
  shows "detail_key detail = (version, index)" and
    "\<forall>c \<in> set (detail_current detail). cti_last_transaction_version c = version"
  using assms
  by (cases "the (wsc_change wsc)",
      auto simp: from_write_set_change_def from_write_module_def from_delete_module_def
        from_write_resource_def from_delete_resource_def from_write_table_item_def
        from_delete_table_item_def Let_def split: prod.splits)+

lemma from_write_set_changes_nth:
  assumes "from_write_set_changes L changes version height = Inr (rows, details)" and "i < length changes"
  shows "length rows = length changes" and "length details = length changes"
    and "from_write_set_change L (changes ! i) (int i) version height = Inr (rows ! i, details ! i)"
proof -
  obtain rs where rs: "map_result (\<lambda>(index, wsc). from_write_set_change L wsc (int index) version height)
      (enumerate 0 changes) = Inr rs" "rows = map fst rs" "details = map snd rs"
    using assms(1) by (auto simp: from_write_set_changes_def)
  have len: "length rs = length changes" using map_result_length [OF rs(1)] by simp
  then show "length rows = length changes" "length details = length changes" by (simp_all add: rs)
  show "from_write_set_change L (changes ! i) (int i) version height = Inr (rows ! i, details ! i)"
    using map_result_nth [OF rs(1), of i] assms(2) len by (simp add: rs nth_enumerate_eq)
qed

lemma from_write_set_changes_length:
  "from_write_set_changes L changes version height = Inr (rows, details) \<Longrightarrow>
    length rows = length changes \<and> length details = length changes"
  using map_result_length by (fastforce simp: from_write_set_changes_def)

text \<open>
  The rows of a transaction's write set are numbered without a gap: the row at position \<open>i\<close> is the
  one of the \<open>i\<close>-th change, it carries \<open>i\<close> as its index together with the version and the block height
  of the transaction, and the detail row of the same change has the same key.
\<close>

lemma write_set_rows_numbered:
  assumes "from_write_set_changes L changes version height = Inr (rows, details)"
  shows "length rows = length changes \<and> length details = length changes \<and>
    (\<forall>i < length changes.
       wsch_transaction_version (rows ! i) = version \<and> wsch_index (rows ! i) = int i \<and>
       wsch_transaction_block_height (rows ! i) = height \<and> detail_key (details ! i) = (version, int i))"
  using from_write_set_changes_length [OF assms] from_write_set_changes_nth(3) [OF assms]
    from_write_set_change_keys from_write_set_change_detail(1) by blast

section \<open>Transactions of a batch\<close>

definition wsch_pk :: "write_set_change \<Rightarrow> i64 \<times> i64" where
  "wsch_pk w = (wsch_transaction_version w, wsch_index w)"

lemma write_set_keys:
  assumes "from_write_set_changes L changes version height = Inr (rows, details)"
  shows "map wsch_pk rows = map (\<lambda>i. (version, int i)) [0..<length changes]"
    and "map detail_key details = map (\<lambda>i. (version, int i)) [0..<length changes]"
  using write_set_rows_numbered [OF assms] by (auto intro!: nth_equalityI simp: wsch_pk_def)

fun option_list :: "'a option \<Rightarrow> 'a list" where
  "option_list None = []"
| "option_list (Some a) = [a]"

definition rows_wsc :: "transaction_rows \<Rightarrow> write_set_change list" where
  "rows_wsc r = fst (snd (snd r))"

definition rows_detail :: "transaction_rows \<Rightarrow> write_set_change_detail list" where
  "rows_detail r = snd (snd (snd r))"

lemma from_transactions_fold:
  "fold_result (\<lambda>txn (txns, block_metadata_txns, wscs, wsc_details).
       and_then (from_transaction L txn) (\<lambda>(t, block_metadata, wsc_list, wsc_detail_list).
       Inr (txns @ [t],
            (case block_metadata of Some a \<Rightarrow> block_metadata_txns @ [a] | None \<Rightarrow> block_metadata_txns),
            wscs @ wsc_list, wsc_details @ wsc_detail_list)))
       transactions (ts, bs, ws, ds) =
   and_then (map_result (from_transaction L) transactions) (\<lambda>rs.
     Inr (ts @ map fst rs, bs @ concat (map (option_list \<circ> fst \<circ> snd) rs),
          ws @ concat (map rows_wsc rs), ds @ concat (map rows_detail rs)))"
proof (induction transactions arbitrary: ts bs ws ds)
  case (Cons txn txns)
  show ?case
  proof (cases "from_transaction L txn")
    case (Inr r)
    obtain t b w dl where r: "r = (t, b, w, dl)" by (rule prod_cases4)
    show ?thesis
      by (cases b; cases "map_result (from_transaction L) txns")
        (simp_all add: Inr r Cons.IH rows_wsc_def rows_detail_def)
  qed simp
qed simp

lemma from_transactions_rows:
  "from_transactions L txns =
     and_then (map_result (from_transaction L) txns) (\<lambda>rs.
       Inr (map fst rs, concat (map (option_list \<circ> fst \<circ> snd) rs),
            concat (map rows_wsc rs), concat (map rows_detail rs)))"
  by (simp add: from_transactions_def from_transactions_fold)

lemma from_transaction_cases:
  assumes "from_transaction L txn = Inr r"
  shows "tm_version (fst r) = as_i64 (txn_version txn)"
    and "(rows_wsc r = [] \<and> rows_detail r = []) \<or>
      (\<exists>info. txn_info txn = Some info \<and> from_write_set_changes L (ti_changes info) (as_i64 (txn_version txn))
        (as_i64 (txn_block_height txn)) = Inr (rows_wsc r, rows_detail r))"
    and "\<exists>info. txn_info txn = Some info \<and> tm_num_write_set_changes (fst r) = int (length (ti_changes info))"
proof -
  obtain info where info: "txn_info txn = Some info"
    using assms by (auto simp: from_transaction_def Let_def)
  have "tm_version (fst r) = as_i64 (txn_version txn) \<and>
    ((rows_wsc r = [] \<and> rows_detail r = []) \<or>
      from_write_set_changes L (ti_changes info) (as_i64 (txn_version txn))
        (as_i64 (txn_block_height txn)) = Inr (rows_wsc r, rows_detail r)) \<and>
    tm_num_write_set_changes (fst r) = int (length (ti_changes info))"
  proof (cases "txn_txn_data txn")
    case None
    with assms info show ?thesis
      by (auto simp: from_transaction_def Let_def from_transaction_info_def rows_wsc_def rows_detail_def)
  next
    case (Some data)
    with assms info show ?thesis
      by (cases data) (auto simp: from_transaction_def Let_def from_transaction_info_with_data_def
          rows_wsc_def rows_detail_def)
  qed
  with info show "tm_version (fst r) = as_i64 (txn_version txn)"
    and "(rows_wsc r = [] \<and> rows_detail r = []) \<or>
      (\<exists>info. txn_info txn = Some info \<and> from_write_set_changes L (ti_changes info) (as_i64 (txn_version txn))
        (as_i64 (txn_block_height txn)) = Inr (rows_wsc r, rows_detail r))"
    and "\<exists>info. txn_info txn = Some info \<and> tm_num_write_set_changes (fst r) = int (length (ti_changes info))"
    by auto
qed

lemma from_transaction_keys:
  assumes "from_transaction L txn = Inr r"
  shows "distinct (map wsch_pk (rows_wsc r))" and "w \<in> set (rows_wsc r) \<Longrightarrow> fst (wsch_pk w) = as_i64 (txn_version txn)"
    and "distinct (map detail_key (rows_detail r))"
    and "x \<in> set (rows_detail r) \<Longrightarrow> fst (detail_key x) = as_i64 (txn_version txn)"
proof -
  have "\<exists>n. map wsch_pk (rows_wsc r) = map (\<lambda>i. (as_i64 (txn_version txn), int i)) [0..<n] \<and>
      map detail_key (rows_detail r) = map (\<lambda>i. (as_i64 (txn_version txn), int i)) [0..<n]"
    using from_transaction_cases(2) [OF assms] write_set_keys by (metis list.map(1) upt_0)
  then obtain n where w: "map wsch_pk (rows_wsc r) = map (\<lambda>i. (as_i64 (txn_version txn), int i)) [0..<n]"
    and d: "map detail_key (rows_detail r) = map (\<lambda>i. (as_i64 (txn_version txn), int i)) [0..<n]" by blast
  show "distinct (map wsch_pk (rows_wsc r))" "distinct (map detail_key (rows_detail r))"
    unfolding w d by (simp_all add: distinct_map inj_on_def)
  show "fst (wsch_pk w) = as_i64 (txn_version txn)" if "w \<in> set (rows_wsc r)" for w
  proof -
    have "wsch_pk w \<in> set (map wsch_pk (rows_wsc r))" using that by simp
    then show ?thesis unfolding w by auto
  qed
  show "fst (detail_key x) = as_i64 (txn_version txn)" if "x \<in> set (rows_detail r)" for x
  proof -
    have "detail_key x \<in> set (map detail_key (rows_detail r))" using that by simp
    then show ?thesis unfolding d by auto
  qed
qed

lemma from_transaction_block:
  assumes "from_transaction L txn = Inr r" and "fst (snd r) = Some b"
  shows "bmt_version b = as_i64 (txn_version txn)"
proof (cases "txn_txn_data txn")
  case (Some data)
  with assms show ?thesis
    by (cases data) (auto simp: from_transaction_def bmt_from_transaction_def Let_def)
qed (use assms in \<open>auto simp: from_transaction_def Let_def\<close>)

text \<open>What a batch collects from its transactions, transaction by transaction.\<close>

definition batch_part :: "libs \<Rightarrow> (transaction_rows \<Rightarrow> 'a list) \<Rightarrow> transaction \<Rightarrow> 'a list" where
  "batch_part L f txn = (case from_transaction L txn of Inr r \<Rightarrow> f r | Inl _ \<Rightarrow> [])"

lemma batch_parts:
  "map_result (from_transaction L) txns = Inr rs \<Longrightarrow> concat (map f rs) = concat (map (batch_part L f) txns)"
  by (induction txns arbitrary: rs) (auto simp: batch_part_def)

lemma batch_part_keys:
  "distinct (map wsch_pk (batch_part L rows_wsc t))" "w \<in> set (batch_part L rows_wsc t) \<Longrightarrow> fst (wsch_pk w) = as_i64 (txn_version t)"
  "distinct (map detail_key (batch_part L rows_detail t))"
  "x \<in> set (batch_part L rows_detail t) \<Longrightarrow> fst (detail_key x) = as_i64 (txn_version t)"
  using from_transaction_keys [of L t] by (cases "from_transaction L t"; fastforce simp: batch_part_def)+

lemma from_transactions_versions:
  "map_result (from_transaction L) txns = Inr rs \<Longrightarrow> map (tm_version \<circ> fst) rs = map (as_i64 \<circ> txn_version) txns"
  by (induction txns arbitrary: rs) (auto dest: from_transaction_cases(1))

text \<open>Every current table item of a transaction carries its version.\<close>

lemma from_transaction_current:
  assumes "from_transaction L txn = Inr r" and "detail \<in> set (rows_detail r)" and "c \<in> set (detail_current detail)"
  shows "cti_last_transaction_version c = as_i64 (txn_version txn)"
proof -
  from from_transaction_cases(2) [OF assms(1)] assms(2) obtain info :: transaction_info where
    w: "from_write_set_changes L (ti_changes info) (as_i64 (txn_version txn))
        (as_i64 (txn_block_height txn)) = Inr (rows_wsc r, rows_detail r)"
    by auto
  obtain i where "i < length (rows_detail r)" "detail = rows_detail r ! i"
    using assms(2) by (auto simp: in_set_conv_nth)
  with from_write_set_changes_nth(3) [OF w] from_write_set_changes_length [OF w] assms(3)
    from_write_set_change_detail(2) show ?thesis by metis
qed

text \<open>
  A batch gives one transaction row per transaction, in order and with its version, and the
  number of write-set rows a row announces is never less than the number that is stored for it.
\<close>

lemma from_transactions_complete:
  assumes "from_transactions L txns = Inr (ts, bs, ws, ds)"
  shows "map tm_version ts = map (as_i64 \<circ> txn_version) txns \<and> length ws = length ds \<and>
    int (length ws) \<le> sum_list (map tm_num_write_set_changes ts)"
proof -
  obtain rs where rs: "map_result (from_transaction L) txns = Inr rs"
    and eq: "ts = map fst rs" "ws = concat (map rows_wsc rs)" "ds = concat (map rows_detail rs)"
    using assms by (auto simp: from_transactions_rows)
  show ?thesis
    using rs unfolding eq
  proof (induction txns arbitrary: rs)
    case (Cons txn txns)
    then obtain r rs' where r: "from_transaction L txn = Inr r" "rs = r # rs'"
        "map_result (from_transaction L) txns = Inr rs'"
      by auto
    have "length (rows_wsc r) = length (rows_detail r) \<and>
        int (length (rows_wsc r)) \<le> tm_num_write_set_changes (fst r)"
      using from_transaction_cases(2,3) [OF r(1)] from_write_set_changes_length by fastforce
    with Cons.IH [OF r(3)] from_transaction_cases(1) [OF r(1)] r(2) show ?case by simp
  qed simp
qed

end
