(* ===== verification/Convergence.thy ===== *)
theory Convergence
  imports Worker
begin

text \<open>
  What the processors share beyond the trait of \<open>Worker\<close>. Their \<open>process_transactions\<close> all have one
  shape: build the rows of the batch, insert them, report the batch; \<open>process_batch\<close> is that shape
  and the locale \<open>batch_processor\<close> gives every processor its \<open>processor_trait\<close>.

  The locale \<open>current_table\<close> is the contract of a table that holds one row per key: a transaction
  leaves at most one row under a key, a batch inserts a set of such rows that contains the winning
  one, and the query is guarded by the version. Where every statement keeps its guard (\<open>guards_kept\<close>) the
  final content depends only on the history of transactions; where one loses it, because its text contains
  the word \<open>where\<close>, a key may be left with an older row of the history (\<open>stored_from\<close>).
  \<open>latest_table\<close> is the case of the tables \<open>current_...\<close>, whose rows are collected in a
  map in which a later row replaces an earlier one.
\<close>

section \<open>The shape of a processor\<close>

text \<open>
  \<open>transactions.last().unwrap()\<close> comes first; the two durations are measured. A panic inside the
  blocking task of a processor is handed to its caller as an error by \<open>join_error\<close>.
\<close>

definition process_batch ::
  "(transaction list \<Rightarrow> failure + 'rows) \<Rightarrow> (pg_env \<Rightarrow> 'rows \<Rightarrow> db_op) \<Rightarrow> rat \<times> rat \<Rightarrow> process_fn" where
  "process_batch rows_of insert_to_db durations env transactions start_version end_version db_chain_id d =
     (case transactions of
        [] \<Rightarrow> (Inl (Panic ''called Option::unwrap on a None value''), d)
      | _ \<Rightarrow>
          (case rows_of transactions of
             Inl f \<Rightarrow> (Inl f, d)
           | Inr rows \<Rightarrow>
               (case insert_to_db env rows d of
                  (Inr _, d') \<Rightarrow>
                    (Inr \<lparr>pr_start_version = start_version, pr_end_version = end_version,
                          pr_last_transaction_timestamp = txn_timestamp (last transactions),
                          pr_processing_duration_in_secs = fst durations,
                          pr_db_insertion_duration_in_secs = snd durations\<rparr>, d')
                | (Inl f, d') \<Rightarrow> (Inl f, d'))))"

fun join_error :: "failure + 'a \<Rightarrow> failure + 'a" where
  "join_error (Inl (Panic m)) = Inl (Err m)"
| "join_error (Inl (Err m)) = Inl (Err m)"
| "join_error (Inr a) = Inr a"

lemma join_error_eq_Inr [simp]: "join_error r = Inr a \<longleftrightarrow> r = Inr a"
  by (cases r rule: join_error.cases) auto

locale batch_processor =
  fixes rows_of :: "transaction list \<Rightarrow> failure + 'rows"
    and insert_to_db :: "pg_env \<Rightarrow> 'rows \<Rightarrow> db_op"
    and durations :: "rat \<times> rat"
  assumes status_untouched: "postgres (pg_exec env) \<Longrightarrow> untouched ''processor_status'' (insert_to_db env rows)"
begin

sublocale processor_trait "process_batch rows_of insert_to_db durations"
proof
  fix env txns start_version end_version c d r d'
  assume "process_batch rows_of insert_to_db durations env txns start_version end_version c d = (Inr r, d')"
  then show "pr_start_version r = start_version \<and> pr_end_version r = end_version"
    by (auto simp: process_batch_def split: list.splits sum.splits prod.splits)
next
  fix env txns start_version end_version c d res d'
  assume pg: "postgres (pg_exec env)"
    and "process_batch rows_of insert_to_db durations env txns start_version end_version c d = (res, d')"
  then show "d' ''processor_status'' = d ''processor_status''"
    using status_untouched [OF pg]
    by (auto simp: process_batch_def untouched_def split: list.splits sum.splits prod.splits)
qed

end

text \<open>One batch as it happens at run time: the server it meets, the configured chunk sizes, the batch.\<close>

type_synonym batch_run = "pg_env \<times> (string \<times> nat) list \<times> transaction list"

definition run_batch :: "((string \<times> nat) list \<Rightarrow> process_fn) \<Rightarrow> batch_run \<Rightarrow> db_op" where
  "run_batch process run d =
     (case run of (env, sizes, txns) \<Rightarrow>
        (case process sizes env txns (first_version txns) (last_txn_version txns) None d of
           (Inr _, d') \<Rightarrow> (Inr (), d')
         | (Inl f, d') \<Rightarrow> (Inl f, d')))"

lemma run_batch_ok:
  assumes "run_batch (\<lambda>sizes. process_batch rows_of (ins sizes) durations) (env, sizes, txns) d = (Inr (), d')"
  obtains rows where "rows_of txns = Inr rows" and "ins sizes env rows d = (Inr (), d')" and "txns \<noteq> []"
  using assms by (auto simp: run_batch_def process_batch_def split: list.splits sum.splits prod.splits)

lemma run_batch_succeeds:
  assumes "rows_of txns = Inr rows" and "\<exists>d'. ins sizes env rows d = (Inr (), d')" and "txns \<noteq> []"
  shows "\<exists>d'. run_batch (\<lambda>sizes. process_batch rows_of (ins sizes) durations) (env, sizes, txns) d = (Inr (), d')"
  using assms by (auto simp: run_batch_def process_batch_def split: list.splits)

lemma insert_batches_total:
  "\<forall>b \<in> set bs. \<forall>d. \<exists>d'. ins b d = (Inr (), d') \<Longrightarrow> \<exists>d'. insert_batches ins bs d = Inr d'"
proof (induction bs arbitrary: d)
  case (Cons b bs)
  then obtain d1 where "ins b d = (Inr (), d1)" by (meson list.set_intros(1))
  with Cons.IH [of d1] Cons.prems show ?case by auto
qed simp

text \<open>A batch operation restricted to the batches for which a contract holds.\<close>

definition only_good :: "(transaction \<Rightarrow> bool) \<Rightarrow> (batch_run \<Rightarrow> db_op) \<Rightarrow> batch_run \<Rightarrow> db_op" where
  "only_good good op run d =
     (if list_all good (snd (snd run)) then op run d else (Inl (Err ''outside the contract''), d))"

lemma only_good_ok:
  "only_good good op (env, sizes, txns) d = (Inr (), d') \<longleftrightarrow>
   list_all good txns \<and> op (env, sizes, txns) d = (Inr (), d')"
  by (simp add: only_good_def)

lemma insert_batches_only_good:
  "\<forall>(env, sizes, txns) \<in> set runs. list_all good txns \<Longrightarrow>
   insert_batches (only_good good op) runs d = insert_batches op runs d"
proof (induction runs arbitrary: d)
  case (Cons run runs)
  then have "only_good good op run d = op run d" by (auto simp: only_good_def)
  with Cons show ?case by (simp split: prod.split sum.split)
qed simp

text \<open>The server of a run; \<open>g\<close> asks in addition that no statement over the rows \<open>X\<close> loses its guard.\<close>

definition server_ok :: "bool \<Rightarrow> pg_env \<Rightarrow> ('a list \<Rightarrow> query) \<Rightarrow> 'a set \<Rightarrow> bool" where
  "server_ok g env build X \<longleftrightarrow> postgres (pg_exec env) \<and> fair_sched env \<and> (g \<longrightarrow> where_free env build X)"

context guarded_query
begin

text \<open>The insert of one guarded table among the joined inserts of a processor.\<close>

lemma join_ingests:
  assumes "join_inserts ops d = (Inr (), d')" and "i < length ops"
    and "ops ! i = execute_in_chunks env build sd items n"
    and "list_all (untouched tbl) (take i ops @ drop (Suc i) ops)"
    and "server_ok g env build X" and "clean_stable sd X" and "set items \<subseteq> X" and "table_ok target w C (d tbl)"
  shows "ingested g (set items) (d tbl) (d' tbl)"
proof -
  have "ops = take i ops @ execute_in_chunks env build sd items n # drop (Suc i) ops"
    using id_take_nth_drop [OF assms(2)] assms(3) by simp
  then have "join_inserts (take i ops @ execute_in_chunks env build sd items n # drop (Suc i) ops) d = (Inr (), d')"
    using assms(1) by simp
  moreover have "\<forall>f \<in> set (take i ops) \<union> set (drop (Suc i) ops). untouched tbl f"
    using assms(4) by (simp add: list_all_iff ball_Un)
  ultimately obtain d1 d2 where op: "execute_in_chunks env build sd items n d1 = (Inr (), d2)"
    and eq: "d1 tbl = d tbl" "d' tbl = d2 tbl"
    by (rule join_inserts_at)
  have env: "postgres (pg_exec env)" "fair_sched env" "g \<longrightarrow> where_free env build X"
    using assms(5) by (auto simp: server_ok_def)
  show ?thesis
    using execute_in_chunks_ingested [OF env(1,3) assms(6) env(2) assms(7) _ op] assms(8) eq by simp
qed

end

section \<open>Histories\<close>

definition ver :: "transaction \<Rightarrow> i64" where
  "ver t = as_i64 (txn_version t)"

definition version_ordered :: "transaction list \<Rightarrow> bool" where
  "version_ordered ts \<longleftrightarrow> sorted_wrt (\<lambda>a b. ver a < ver b) ts"

lemma version_ordered_inj: "version_ordered ts \<Longrightarrow> t \<in> set ts \<Longrightarrow> t' \<in> set ts \<Longrightarrow> ver t = ver t' \<Longrightarrow> t = t'"
  by (induction ts) (auto simp: version_ordered_def)

lemma version_ordered_distinct: "version_ordered ts \<Longrightarrow> distinct (map ver ts)"
  by (metis strict_sorted_iff version_ordered_def sorted_wrt_map)

text \<open>Rows that carry the version of their transaction in their key collide only within a transaction.\<close>

lemma versioned_keys_distinct:
  assumes "version_ordered ts" and "\<And>t. t \<in> set ts \<Longrightarrow> distinct (map key (rows t))"
    and "\<And>t r. r \<in> set (rows t) \<Longrightarrow> version_of (key r) = ver t"
  shows "distinct (map key (concat (map rows ts)))"
  using assms(1,2)
proof (induction ts)
  case (Cons t ts)
  then have "distinct (map key (concat (map rows ts)))" and new: "ver t \<notin> ver ` set ts"
    by (auto simp: version_ordered_def)
  moreover have "key r \<noteq> key r'" if "r \<in> set (rows t)" "r' \<in> set (rows t')" "t' \<in> set ts" for r r' t'
    using assms(3) [OF that(1)] assms(3) [OF that(2)] that(3) new by (metis image_eqI)
  then have "key ` set (rows t) \<inter> key ` set (concat (map rows ts)) = {}" by (auto simp: image_iff)
  ultimately show ?case using Cons.prems(2) [of t] by simp
qed simp

text \<open>The same when the rows of a transaction depend on what the loop has gathered before it.\<close>

lemma fold_versioned_distinct:
  assumes "fold_result f ts s = Inr s'" and "version_ordered ts"
    and "\<And>t s s'. f t s = Inr s' \<Longrightarrow> \<exists>rows. h s' = h s @ rows \<and> distinct (map key rows) \<and>
      (\<forall>r \<in> set rows. version_of (key r) = ver t)" and "h s = []"
  shows "distinct (map key (h s'))"
proof -
  have "distinct (map key (h s')) \<and> (\<forall>r \<in> set (h s'). version_of (key r) \<in> ver ` set ts)"
    using assms(1,2)
  proof (induction ts arbitrary: s' rule: rev_induct)
    case (snoc t ts)
    then obtain s1 where s1: "fold_result f ts s = Inr s1" "f t s1 = Inr s'" by (auto simp: fold_result_append)
    have ts: "version_ordered ts" "ver t \<notin> ver ` set ts"
      using snoc.prems(2) by (auto simp: version_ordered_def sorted_wrt_append)
    obtain rows where rows: "h s' = h s1 @ rows" "distinct (map key rows)" "\<forall>r \<in> set rows. version_of (key r) = ver t"
      using assms(3) [OF s1(2)] by blast
    from snoc.IH [OF s1(1) ts(1)] ts(2) rows(3) have "key ` set (h s1) \<inter> key ` set rows = {}" by fastforce
    with snoc.IH [OF s1(1) ts(1)] rows show ?case by auto
  qed (simp add: assms(4))
  then show ?thesis by simp
qed

text \<open>The transactions of all runs, and what it means that they are exactly the history.\<close>

definition run_txns :: "batch_run list \<Rightarrow> transaction set" where
  "run_txns runs = (\<Union>(env, sizes, txns) \<in> set runs. set txns)"

text \<open>
  What is asked of every run, that the batch is in order and the server a PostgreSQL that runs all tasks, and
  what the final content depends on: that the guard of no statement over the rows \<open>X\<close> is dropped, which
  \<open>execute_with_better_error\<close> does when the debug text of the query, bound values included, has the word \<open>where\<close>.
\<close>

definition servers_ok :: "batch_run list \<Rightarrow> bool" where
  "servers_ok runs \<longleftrightarrow> (\<forall>(env, sizes, txns) \<in> set runs. version_ordered txns \<and> postgres (pg_exec env) \<and> fair_sched env)"

definition guards_kept :: "batch_run list \<Rightarrow> ('a list \<Rightarrow> query) \<Rightarrow> 'a set \<Rightarrow> bool" where
  "guards_kept runs build X \<longleftrightarrow> (\<forall>(env, sizes, txns) \<in> set runs. where_free env build X)"

text \<open>The row that the last, or the first, transaction of a list leaves under a key.\<close>

definition latest_effect :: "(transaction \<Rightarrow> 'k \<Rightarrow> 'a option) \<Rightarrow> transaction list \<Rightarrow> 'k \<Rightarrow> 'a option" where
  "latest_effect effect ts k =
     (let us = filter (\<lambda>t. effect t k \<noteq> None) ts in if us = [] then None else effect (last us) k)"

definition first_effect :: "(transaction \<Rightarrow> 'k \<Rightarrow> 'a option) \<Rightarrow> transaction list \<Rightarrow> 'k \<Rightarrow> 'a option" where
  "first_effect effect ts k =
     (let us = filter (\<lambda>t. effect t k \<noteq> None) ts in if us = [] then None else effect (hd us) k)"

definition winner ::
  "(transaction \<Rightarrow> int) \<Rightarrow> (transaction \<Rightarrow> 'k \<Rightarrow> 'a option) \<Rightarrow> transaction set \<Rightarrow> 'k \<Rightarrow> 'a \<Rightarrow> bool" where
  "winner rank effect T k a \<longleftrightarrow>
     (\<exists>t \<in> T. effect t k = Some a \<and> (\<forall>t' \<in> T. effect t' k \<noteq> None \<longrightarrow> rank t' \<le> rank t))"

lemma sorted_wrt_last: "sorted_wrt P xs \<Longrightarrow> x \<in> set xs \<Longrightarrow> x = last xs \<or> P x (last xs)"
  by (induction xs) auto

lemma sorted_wrt_hd: "sorted_wrt P xs \<Longrightarrow> x \<in> set xs \<Longrightarrow> x = hd xs \<or> P (hd xs) x"
  by (cases xs) auto

lemma first_effect_snoc:
  "first_effect effect (ts @ [t]) k = (case first_effect effect ts k of Some a \<Rightarrow> Some a | None \<Rightarrow> effect t k)"
  using hd_in_set [of "filter (\<lambda>t. effect t k \<noteq> None) ts"]
  by (cases "filter (\<lambda>t. effect t k \<noteq> None) ts") (auto simp: first_effect_def Let_def)

lemma first_effect_Nil [simp]: "first_effect effect [] k = None"
  by (simp add: first_effect_def)

lemma first_effect_in: "first_effect effect ts k = Some a \<Longrightarrow> \<exists>t \<in> set ts. effect t k = Some a"
  using hd_in_set [of "filter (\<lambda>t. effect t k \<noteq> None) ts"]
  by (auto simp: first_effect_def Let_def split: if_splits)

lemma latest_effect_winner:
  assumes "version_ordered ts"
  shows "latest_effect effect ts k = Some a \<longleftrightarrow> winner ver effect (set ts) k a"
proof -
  let ?us = "filter (\<lambda>t. effect t k \<noteq> None) ts"
  have "sorted_wrt (\<lambda>a b. ver a < ver b) ?us"
    using assms unfolding version_ordered_def by (rule sorted_wrt_filter)
  from sorted_wrt_last [OF this] have max: "ver t \<le> ver (last ?us)" if "t \<in> set ?us" for t
    using that by fastforce
  have last: "last ?us \<in> set ts \<and> effect (last ?us) k \<noteq> None" if "?us \<noteq> []"
    using last_in_set [OF that] by simp
  show ?thesis
  proof
    assume "latest_effect effect ts k = Some a"
    then have "?us \<noteq> []" and "effect (last ?us) k = Some a"
      by (auto simp: latest_effect_def Let_def split: if_splits)
    with max last show "winner ver effect (set ts) k a" unfolding winner_def by fastforce
  next
    assume "winner ver effect (set ts) k a"
    then obtain t where t: "t \<in> set ts" "effect t k = Some a"
        "\<forall>t' \<in> set ts. effect t' k \<noteq> None \<longrightarrow> ver t' \<le> ver t"
      by (auto simp: winner_def)
    then have "t \<in> set ?us" by simp
    then have ne: "?us \<noteq> []" by (auto simp del: set_filter)
    have "ver (last ?us) = ver t" using max [OF \<open>t \<in> set ?us\<close>] last [OF ne] t(3) by fastforce
    then have "last ?us = t" using version_ordered_inj [OF assms] last [OF ne] t(1) by blast
    with ne t(2) show "latest_effect effect ts k = Some a" by (simp add: latest_effect_def Let_def)
  qed
qed

lemma first_effect_winner:
  assumes "version_ordered ts"
  shows "first_effect effect ts k = Some a \<longleftrightarrow> winner (\<lambda>t. - ver t) effect (set ts) k a"
proof -
  let ?us = "filter (\<lambda>t. effect t k \<noteq> None) ts"
  have "sorted_wrt (\<lambda>a b. ver a < ver b) ?us"
    using assms unfolding version_ordered_def by (rule sorted_wrt_filter)
  from sorted_wrt_hd [OF this] have min: "ver (hd ?us) \<le> ver t" if "t \<in> set ?us" for t
    using that by fastforce
  have hd: "hd ?us \<in> set ts \<and> effect (hd ?us) k \<noteq> None" if "?us \<noteq> []"
    using hd_in_set [OF that] by simp
  show ?thesis
  proof
    assume "first_effect effect ts k = Some a"
    then have "?us \<noteq> []" and "effect (hd ?us) k = Some a"
      by (auto simp: first_effect_def Let_def split: if_splits)
    with min hd show "winner (\<lambda>t. - ver t) effect (set ts) k a" unfolding winner_def by fastforce
  next
    assume "winner (\<lambda>t. - ver t) effect (set ts) k a"
    then obtain t where t: "t \<in> set ts" "effect t k = Some a"
        "\<forall>t' \<in> set ts. effect t' k \<noteq> None \<longrightarrow> ver t \<le> ver t'"
      by (auto simp: winner_def)
    then have "t \<in> set ?us" by simp
    then have ne: "?us \<noteq> []" by (auto simp del: set_filter)
    have "ver (hd ?us) = ver t" using min [OF \<open>t \<in> set ?us\<close>] hd [OF ne] t(3) by fastforce
    then have "hd ?us = t" using version_ordered_inj [OF assms] hd [OF ne] t(1) by blast
    with ne t(2) show "first_effect effect ts k = Some a" by (simp add: first_effect_def Let_def)
  qed
qed

lemma winner_exists:
  assumes "finite T" and "t \<in> T" and "effect t k \<noteq> None"
  shows "\<exists>b. winner rank effect T k b"
proof -
  let ?T = "{t \<in> T. effect t k \<noteq> None}"
  have "Max (rank ` ?T) \<in> rank ` ?T" by (rule Max_in) (use assms in auto)
  then obtain u where u: "u \<in> T" "effect u k \<noteq> None" "Max (rank ` ?T) = rank u" by blast
  have "rank t' \<le> rank u" if "t' \<in> T" "effect t' k \<noteq> None" for t'
    unfolding u(3) [symmetric] using that assms(1) by (intro Max_ge) auto
  with u(1,2) show ?thesis by (auto simp: winner_def)
qed

section \<open>Tables with one row per key\<close>

text \<open>A stored row is the row of an element of \<open>W\<close>, and there is none if \<open>W\<close> is empty.\<close>

definition stored_from :: "('a \<Rightarrow> stored_row) \<Rightarrow> 'a set \<Rightarrow> stored_row option \<Rightarrow> bool" where
  "stored_from row W stored \<longleftrightarrow> (case stored of None \<Rightarrow> W = {} | Some r \<Rightarrow> r \<in> row ` W)"

definition effects :: "(transaction \<Rightarrow> 'k \<Rightarrow> 'a option) \<Rightarrow> ('a \<Rightarrow> 'k) \<Rightarrow> transaction set \<Rightarrow> 'a set" where
  "effects effect key T = {a. \<exists>t \<in> T. effect t (key a) = Some a}"

definition run_rows :: "(transaction list \<Rightarrow> 'a set) \<Rightarrow> batch_run list \<Rightarrow> 'a set" where
  "run_rows inserted runs = (\<Union>(env, sizes, txns) \<in> set runs. inserted txns)"

locale current_table = guarded_query target cols w C build to_row tbl
  for target cols w C and build :: "'a list \<Rightarrow> query" and to_row tbl +
  fixes effect :: "transaction \<Rightarrow> 'k \<Rightarrow> 'a option" and key :: "'a \<Rightarrow> 'k"
    and rank :: "transaction \<Rightarrow> int"
    and inserted :: "transaction list \<Rightarrow> 'a set"
    and batch :: "batch_run \<Rightarrow> db_op" and sd :: "'a serde"
  assumes effect_key: "effect t k = Some a \<Longrightarrow> key a = k"
    and effect_rank: "effect t k = Some a \<Longrightarrow> where_ver w (arow a) = rank t"
    and rank_ver: "rank t = rank t' \<longleftrightarrow> ver t = ver t'"
    and inserted_effect: "a \<in> inserted txns \<Longrightarrow> \<exists>t \<in> set txns. effect t (key a) = Some a"
    and inserted_winner: "version_ordered txns \<Longrightarrow> winner rank effect (set txns) k a \<Longrightarrow> a \<in> inserted txns"
    and batch_ingests: "batch (env, sizes, txns) d = (Inr (), d') \<Longrightarrow> server_ok g env build X \<Longrightarrow>
      clean_stable sd X \<Longrightarrow> inserted txns \<subseteq> X \<Longrightarrow> table_ok target w C (d tbl) \<Longrightarrow>
      ingested g (inserted txns) (d tbl) (d' tbl)"
begin

lemma runs_ingest:
  assumes "insert_batches batch runs d = Inr d'" and "clean_stable sd X"
    and "\<forall>(env, sizes, txns) \<in> set runs. server_ok g env build X \<and> inserted txns \<subseteq> X"
    and "table_ok target w C (d tbl)"
  shows "ingested g (run_rows inserted runs) (d tbl) (d' tbl)"
  using assms(1,3,4)
proof (induction runs arbitrary: d)
  case Nil
  then show ?case by (simp add: run_rows_def ingested_refl)
next
  case (Cons run runs)
  obtain env sizes txns where run: "run = (env, sizes, txns)" by (rule prod_cases3)
  obtain d1 where d1: "batch run d = (Inr (), d1)" "insert_batches batch runs d1 = Inr d'"
    using Cons.prems(1) by (auto split: prod.splits sum.splits)
  have one: "ingested g (inserted txns) (d tbl) (d1 tbl)"
    by (rule batch_ingests [OF d1(1) [unfolded run] _ assms(2)]) (use Cons.prems(2,3) run in auto)
  have "ingested g (run_rows inserted runs) (d1 tbl) (d' tbl)"
    by (rule Cons.IH [OF d1(2)]) (use Cons.prems(2) ingested_ok [OF one] in auto)
  moreover have "run_rows inserted (run # runs) = inserted txns \<union> run_rows inserted runs"
    by (auto simp: run_rows_def run)
  ultimately show ?case using ingested_trans [OF one] by simp
qed

lemma run_rows_effects:
  "\<forall>(env, sizes, txns) \<in> set runs. set txns \<subseteq> T \<Longrightarrow> run_rows inserted runs \<subseteq> effects effect key T"
  using inserted_effect by (fastforce simp: run_rows_def effects_def)

lemma effects_agreeing:
  assumes "version_ordered H" and "X \<subseteq> effects effect key (set H)"
    and "\<forall>a \<in> X. \<forall>b \<in> X. pkey (arow a) = pkey (arow b) \<longrightarrow> key a = key b"
  shows "agreeing pkey (where_ver w) (arow ` X)"
proof -
  have "a = b" if ab: "a \<in> X" "b \<in> X" "pkey (arow a) = pkey (arow b)"
    "where_ver w (arow a) = where_ver w (arow b)" for a b
  proof -
    obtain t t' where t: "t \<in> set H" "effect t (key a) = Some a" "t' \<in> set H" "effect t' (key b) = Some b"
      using ab(1,2) assms(2) unfolding effects_def by blast
    then have "rank t = rank t'" using effect_rank ab(4) by simp
    then have "t = t'" using rank_ver [of t t'] version_ordered_inj [OF assms(1) t(1,3)] by blast
    moreover have "key a = key b" using assms(3) ab by blast
    ultimately show ?thesis using t(2,4) by (metis option.inject)
  qed
  then show ?thesis unfolding agreeing_def by blast
qed

text \<open>A winner of the history is inserted by the run that contains its transaction.\<close>

lemma winner_inserted:
  assumes "winner rank effect (run_txns runs) k a" and "\<forall>(env, sizes, txns) \<in> set runs. version_ordered txns"
  shows "a \<in> run_rows inserted runs"
proof -
  obtain t where t: "t \<in> run_txns runs" "effect t k = Some a"
      "\<forall>t' \<in> run_txns runs. effect t' k \<noteq> None \<longrightarrow> rank t' \<le> rank t"
    using assms(1) by (auto simp: winner_def)
  then obtain env sizes txns where run: "(env, sizes, txns) \<in> set runs" "t \<in> set txns"
    by (auto simp: run_txns_def)
  have "winner rank effect (set txns) k a"
    unfolding winner_def using t run by (intro bexI [of _ t]) (force simp: run_txns_def)+
  then have "a \<in> inserted txns" using inserted_winner assms(2) run(1) by blast
  with run(1) show ?thesis by (auto simp: run_rows_def)
qed

lemma runs_ingested:
  assumes "insert_batches batch runs d = Inr d'" and "d tbl = Map.empty" and "set H = run_txns runs"
    and "servers_ok runs" and "g \<longrightarrow> guards_kept runs build (effects effect key (set H))"
    and "clean_stable sd (effects effect key (set H))"
  shows "ingested g (run_rows inserted runs) (d tbl) (d' tbl)" and "run_rows inserted runs \<subseteq> effects effect key (set H)"
proof -
  have txns: "\<forall>(env, sizes, txns) \<in> set runs. set txns \<subseteq> set H" using assms(3) by (force simp: run_txns_def)
  show sub: "run_rows inserted runs \<subseteq> effects effect key (set H)" by (rule run_rows_effects [OF txns])
  then show "ingested g (run_rows inserted runs) (d tbl) (d' tbl)"
    by (intro runs_ingest [OF assms(1,6)])
      (use assms(2,4,5) table_ok_empty in
        \<open>fastforce simp: run_rows_def servers_ok_def guards_kept_def server_ok_def\<close>)+
qed

text \<open>
  With or without the guards: a stored row is a row that the history writes under its key, and every key that
  the history writes has a row.
\<close>

lemma table_content:
  assumes "insert_batches batch runs d = Inr d'" and "d tbl = Map.empty" and "set H = run_txns runs"
    and "servers_ok runs" and "clean_stable sd (effects effect key (set H))"
    and keys: "\<forall>a \<in> effects effect key (set H). \<forall>b \<in> effects effect key (set H).
      pkey (arow a) = pkey (arow b) \<longleftrightarrow> key a = key b"
  shows "stored_from arow {a \<in> effects effect key (set H). pkey (arow a) = K} (view C (d' tbl) K)"
proof -
  let ?X = "run_rows inserted runs" and ?E = "effects effect key (set H)"
  have ing: "ingested False ?X (d tbl) (d' tbl)" and sub: "?X \<subseteq> ?E"
    using runs_ingested [OF assms(1-4) _ assms(5), of False] by simp_all
  have empty: "view C (d tbl) = Map.empty" by (simp add: assms(2) view_def)
  note content = ingested_content [OF ing, unfolded empty]
  have "\<exists>a \<in> ?E. pkey (arow a) = K \<and> r = arow a" if "view C (d' tbl) K = Some r" for r
    using content(2) [OF that] sub by auto
  moreover have "view C (d' tbl) (pkey (arow a)) \<noteq> None" if a: "a \<in> ?E" for a
  proof -
    obtain t where "t \<in> set H" "effect t (key a) = Some a" using a by (auto simp: effects_def)
    then obtain b where b: "winner rank effect (set H) (key a) b"
      using winner_exists [of "set H" t effect "key a" rank] by auto
    then have bX: "b \<in> ?X" using assms(4) by (auto intro!: winner_inserted simp: assms(3) servers_ok_def)
    have "key b = key a" using b effect_key by (auto simp: winner_def)
    then have "pkey (arow a) = pkey (arow b)" using keys a subsetD [OF sub bX] by metis
    with bX content(1) have "pkey (arow a) \<in> dom (view C (d' tbl))" by simp
    then show ?thesis by auto
  qed
  ultimately show ?thesis by (fastforce simp: stored_from_def split: option.split)
qed

theorem table_converges:
  assumes "insert_batches batch runs d = Inr d'" and "d tbl = Map.empty"
    and "version_ordered H" and "set H = run_txns runs"
    and "servers_ok runs" and "guards_kept runs build (effects effect key (set H))"
    and "clean_stable sd (effects effect key (set H))"
    and keys: "\<forall>a \<in> effects effect key (set H). \<forall>b \<in> effects effect key (set H).
      pkey (arow a) = pkey (arow b) \<longleftrightarrow> key a = key b"
  shows "view C (d' tbl) K = Some r \<longleftrightarrow>
    (\<exists>k a. winner rank effect (set H) k a \<and> K = pkey (arow a) \<and> r = arow a)"
proof -
  let ?X = "run_rows inserted runs" and ?E = "effects effect key (set H)"
  have "ingested True ?X (d tbl) (d' tbl)" and sub: "?X \<subseteq> ?E"
    using runs_ingested [OF assms(1,2,4,5) _ assms(7), of True] assms(6) by simp_all
  moreover have "agreeing pkey (where_ver w) (arow ` ?X)"
    using effects_agreeing [OF assms(3) sub] keys sub by blast
  ultimately have win: "view C (d' tbl) K = Some r \<longleftrightarrow> (\<exists>a \<in> ?X. pkey (arow a) = K \<and> r = arow a \<and>
      (\<forall>b \<in> ?X. pkey (arow b) = K \<longrightarrow> where_ver w (arow b) \<le> where_ver w (arow a)))"
    using ingested_empty_winner assms(2) by simp
  have rows: "\<exists>t \<in> set H. effect t (key a) = Some a \<and> where_ver w (arow a) = rank t" if "a \<in> ?X" for a
    using that sub effect_rank by (fastforce simp: effects_def)
  have in_X: "a \<in> ?X" if "winner rank effect (set H) k a" for k a
    using winner_inserted that assms(4,5) by (fastforce simp: servers_ok_def)
  show ?thesis
  proof
    assume "view C (d' tbl) K = Some r"
    then obtain a where a: "a \<in> ?X" "pkey (arow a) = K" "r = arow a"
        "\<forall>b \<in> ?X. pkey (arow b) = K \<longrightarrow> where_ver w (arow b) \<le> where_ver w (arow a)"
      using win by blast
    obtain t where t: "t \<in> set H" "effect t (key a) = Some a" "where_ver w (arow a) = rank t"
      using rows [OF a(1)] by blast
    then obtain b where b: "winner rank effect (set H) (key a) b"
      using winner_exists [of "set H" t effect "key a" rank] by auto
    then obtain u where u: "effect u (key a) = Some b"
        "\<forall>t' \<in> set H. effect t' (key a) \<noteq> None \<longrightarrow> rank t' \<le> rank u"
      by (auto simp: winner_def)
    have "pkey (arow b) = K"
      using keys in_X [OF b] a(1,2) sub effect_key [OF u(1)] by blast
    then have "where_ver w (arow b) \<le> where_ver w (arow a)" using a(4) in_X [OF b] by blast
    then have "rank u \<le> rank t" using effect_rank [OF u(1)] t(3) by simp
    then have "winner rank effect (set H) (key a) a"
      unfolding winner_def using t(1,2) u(2) by (metis order_trans)
    with a show "\<exists>k a. winner rank effect (set H) k a \<and> K = pkey (arow a) \<and> r = arow a" by blast
  next
    assume "\<exists>k a. winner rank effect (set H) k a \<and> K = pkey (arow a) \<and> r = arow a"
    then obtain k a where a: "winner rank effect (set H) k a" "K = pkey (arow a)" "r = arow a" by blast
    have key: "key a = k" and wa: "\<forall>t' \<in> set H. effect t' k \<noteq> None \<longrightarrow> rank t' \<le> where_ver w (arow a)"
      using a(1) effect_key effect_rank by (fastforce simp: winner_def)+
    have "where_ver w (arow b) \<le> where_ver w (arow a)" if b: "b \<in> ?X" "pkey (arow b) = K" for b
    proof -
      have "key b = k" using keys b in_X [OF a(1)] sub key a(2) by blast
      with rows [OF b(1)] wa show ?thesis by force
    qed
    with win a in_X [OF a(1)] show "view C (d' tbl) K = Some r" by blast
  qed
qed

end

section \<open>Tables of the latest row of every key\<close>

text \<open>The last row that the transactions of a list write under a key.\<close>

definition latest_row :: "(transaction \<Rightarrow> 'a list) \<Rightarrow> ('a \<Rightarrow> 'k) \<Rightarrow> transaction list \<Rightarrow> 'k \<Rightarrow> 'a option" where
  "latest_row writes key ts k = last_by key k (concat (map writes ts))"

lemma latest_row_effect: "latest_row writes key ts k = latest_effect (\<lambda>t k. last_by key k (writes t)) ts k"
proof (induction ts rule: rev_induct)
  case (snoc t ts)
  then show ?case
    by (cases "last_by key k (writes t)")
      (auto simp: latest_row_def last_by_append latest_effect_def Let_def)
qed (simp add: latest_row_def latest_effect_def)

definition written :: "(transaction \<Rightarrow> 'a list) \<Rightarrow> transaction list \<Rightarrow> 'a set" where
  "written writes ts = set (concat (map writes ts))"

lemma written_mono: "set ts \<subseteq> set H \<Longrightarrow> written writes ts \<subseteq> written writes H"
  by (auto simp: written_def)

lemma latest_row_written: "latest_row writes key ts k = Some a \<Longrightarrow> a \<in> written writes ts \<and> key a = k"
  unfolding latest_row_def written_def by (rule last_by_Some)

text \<open>The values of the map in which a batch collects the rows, sorted by their key.\<close>

lemma collected_rows:
  fixes key :: "'a \<Rightarrow> 'k :: linorder" and writes :: "transaction \<Rightarrow> 'a list"
  defines "rows \<equiv> \<lambda>ts. sort_key key (map snd (collect_by key (concat (map writes ts)) []))"
  shows "set (rows ts) = {a. latest_row writes key ts (key a) = Some a}"
    and "distinct (map key (rows ts))" and "sorted (map key (rows ts))"
  using collect_by_sorted [where key = key and xs = "concat (map writes ts)"]
  by (auto simp: rows_def latest_row_def)

locale latest_table = guarded_query target cols "WhereLe vcol" C build to_row tbl
  for target cols vcol C and build :: "'a list \<Rightarrow> query" and to_row tbl +
  fixes writes :: "transaction \<Rightarrow> 'a list" and key :: "'a \<Rightarrow> 'k"
    and batch :: "batch_run \<Rightarrow> db_op" and sd :: "'a serde"
  assumes writes_version: "a \<in> set (writes t) \<Longrightarrow> int_of (map_of (to_row a)) vcol = ver t"
    and latest_ingests: "batch (env, sizes, txns) d = (Inr (), d') \<Longrightarrow> server_ok g env build X \<Longrightarrow>
      clean_stable sd X \<Longrightarrow> {a. latest_row writes key txns (key a) = Some a} \<subseteq> X \<Longrightarrow>
      table_ok target (WhereLe vcol) C (d tbl) \<Longrightarrow>
      ingested g {a. latest_row writes key txns (key a) = Some a} (d tbl) (d' tbl)"
begin

sublocale current_table target cols "WhereLe vcol" C build to_row tbl
  "\<lambda>t k. last_by key k (writes t)" key ver "\<lambda>txns. {a. latest_row writes key txns (key a) = Some a}" batch sd
proof
  fix t k a
  assume "last_by key k (writes t) = Some a"
  then have "a \<in> set (writes t)" and "key a = k" using last_by_Some by fast+
  then show "key a = k" and "where_ver (WhereLe vcol) (arow a) = ver t"
    using writes_version where_ver_restrict [OF ver_in] by (simp_all add: arow_def)
next
  fix txns a
  assume "a \<in> {a. latest_row writes key txns (key a) = Some a}"
  then have "latest_effect (\<lambda>t k. last_by key k (writes t)) txns (key a) = Some a"
    by (simp add: latest_row_effect)
  then show "\<exists>t \<in> set txns. last_by key (key a) (writes t) = Some a"
    using last_in_set by (fastforce simp: latest_effect_def Let_def split: if_splits)
next
  fix txns k a
  assume "version_ordered txns" and w: "winner ver (\<lambda>t k. last_by key k (writes t)) (set txns) k a"
  then have "latest_row writes key txns k = Some a" by (simp add: latest_row_effect latest_effect_winner)
  moreover from this have "key a = k" using latest_row_written by fast
  ultimately show "a \<in> {a. latest_row writes key txns (key a) = Some a}" by simp
qed (auto intro: latest_ingests)

lemma effects_written: "effects (\<lambda>t k. last_by key k (writes t)) key (set ts) \<subseteq> written writes ts"
  using last_by_Some by (fastforce simp: effects_def written_def)

text \<open>
  The content of the table after the runs. Whatever the guards do, a key has a row exactly when the history writes
  one under it, and that row is one of those; if no guard is dropped, it is the last of them.
\<close>

lemma latest_content:
  assumes "insert_batches batch runs d = Inr d'" and "d tbl = Map.empty"
    and "version_ordered H" and "set H = run_txns runs" and "servers_ok runs"
    and "clean_stable sd (written writes H)"
    and "\<forall>a \<in> written writes H. \<forall>b \<in> written writes H. pkey (arow a) = pkey (arow b) \<longleftrightarrow> key a = key b"
  shows "stored_from arow {a \<in> written writes H. pkey (arow a) = K} (view C (d' tbl) K)"
    and "guards_kept runs build (written writes H) \<Longrightarrow> view C (d' tbl) K = Some r \<longleftrightarrow>
      (\<exists>a. latest_row writes key H (key a) = Some a \<and> pkey (arow a) = K \<and> arow a = r)"
proof -
  let ?e = "\<lambda>t k. last_by key k (writes t)"
  let ?E = "effects ?e key (set H)"
  note sub = effects_written [of H]
  have clean: "clean_stable sd ?E" using assms(6) sub by (auto simp: clean_stable_def)
  have keys: "\<forall>a \<in> ?E. \<forall>b \<in> ?E. pkey (arow a) = pkey (arow b) \<longleftrightarrow> key a = key b"
    using assms(7) sub by blast
  have "\<exists>b \<in> ?E. pkey (arow b) = pkey (arow a)" if a: "a \<in> written writes H" for a
  proof -
    obtain b where b: "latest_row writes key H (key a) = Some b"
      using a last_by_None [of key "key a" "concat (map writes H)"] by (auto simp: written_def latest_row_def)
    then have "b \<in> ?E" using last_in_set latest_row_written [OF b]
      by (fastforce simp: latest_row_effect latest_effect_def effects_def Let_def split: if_splits)
    moreover have "pkey (arow b) = pkey (arow a)" using assms(7) a latest_row_written [OF b] by blast
    ultimately show ?thesis by blast
  qed
  with table_content [OF assms(1,2,4,5) clean keys, of K] sub
  show "stored_from arow {a \<in> written writes H. pkey (arow a) = K} (view C (d' tbl) K)"
    by (fastforce simp: stored_from_def split: option.splits)
  assume kept: "guards_kept runs build (written writes H)"
  then have kept: "guards_kept runs build ?E" using sub by (fastforce simp: guards_kept_def where_free_def)
  have win: "winner ver ?e (set H) k a \<longleftrightarrow> latest_row writes key H k = Some a" for k a
    by (simp add: latest_row_effect latest_effect_winner [OF assms(3)])
  have key: "key a = k" if "latest_row writes key H k = Some a" for k a
    using latest_row_written [OF that] by simp
  show "view C (d' tbl) K = Some r \<longleftrightarrow>
      (\<exists>a. latest_row writes key H (key a) = Some a \<and> pkey (arow a) = K \<and> arow a = r)"
    unfolding table_converges [OF assms(1-5) kept clean keys] win using key by fast
qed

end

section \<open>Tables that keep every row\<close>

text \<open>
  The other kind of table has one row for every event, change or signature. The locale \<open>append_table\<close>
  is its contract: a batch that is inserted adds exactly the keys of the rows of its transactions. Then
  the keys of the table are those of all transactions processed, in whatever batches and order.
\<close>

context keyed_insert
begin

lemma join_appends:
  assumes "join_inserts ops d = (Inr (), d')" and "i < length ops"
    and "ops ! i = execute_in_chunks env build sd items n"
    and "list_all (untouched tbl) (take i ops @ drop (Suc i) ops)"
    and "postgres (pg_exec env)" and "fair_sched env" and "keeps_key sd key (set items)"
  shows "dom (d' tbl) = dom (d tbl) \<union> key ` set items"
proof -
  have "ops = take i ops @ execute_in_chunks env build sd items n # drop (Suc i) ops"
    using id_take_nth_drop [OF assms(2)] assms(3) by simp
  then have "join_inserts (take i ops @ execute_in_chunks env build sd items n # drop (Suc i) ops) d = (Inr (), d')"
    using assms(1) by simp
  moreover have "\<forall>f \<in> set (take i ops) \<union> set (drop (Suc i) ops). untouched tbl f"
    using assms(4) by (simp add: list_all_iff ball_Un)
  ultimately obtain d1 d2 where op: "execute_in_chunks env build sd items n d1 = (Inr (), d2)"
    and eq: "d1 tbl = d tbl" "d' tbl = d2 tbl"
    by (rule join_inserts_at)
  from execute_in_chunks_dom [OF assms(5-7) op] eq show ?thesis by simp
qed

end

locale append_table = keyed_insert build key tbl
  for build :: "'a list \<Rightarrow> query" and key tbl +
  fixes rows :: "transaction \<Rightarrow> 'a set" and batch :: "batch_run \<Rightarrow> db_op" and sd :: "'a serde"
  assumes batch_appends: "batch (env, sizes, txns) d = (Inr (), d') \<Longrightarrow> postgres (pg_exec env) \<Longrightarrow> fair_sched env \<Longrightarrow>
    keeps_key sd key (\<Union>t \<in> set txns. rows t) \<Longrightarrow>
    dom (d' tbl) = dom (d tbl) \<union> key ` (\<Union>t \<in> set txns. rows t)"
begin

lemma table_accumulates:
  assumes "insert_batches batch runs d = Inr d'"
    and "\<forall>(env, sizes, txns) \<in> set runs. postgres (pg_exec env) \<and> fair_sched env"
    and "keeps_key sd key (\<Union>t \<in> run_txns runs. rows t)"
  shows "dom (d' tbl) = dom (d tbl) \<union> key ` (\<Union>t \<in> run_txns runs. rows t)"
  using assms
proof (induction runs arbitrary: d)
  case Nil
  then show ?case by (simp add: run_txns_def)
next
  case (Cons run runs)
  obtain env sizes txns where run: "run = (env, sizes, txns)" by (rule prod_cases3)
  with Cons.prems(1) obtain d1 where d1: "batch (env, sizes, txns) d = (Inr (), d1)"
    and rest: "insert_batches batch runs d1 = Inr d'" by (auto split: prod.splits sum.splits)
  have txns: "run_txns (run # runs) = set txns \<union> run_txns runs" by (auto simp: run_txns_def run)
  have "keeps_key sd key (\<Union>t \<in> set txns. rows t)" and later: "keeps_key sd key (\<Union>t \<in> run_txns runs. rows t)"
    using Cons.prems(3) by (auto simp: txns intro: keeps_key_subset)
  then have "dom (d1 tbl) = dom (d tbl) \<union> key ` (\<Union>t \<in> set txns. rows t)"
    using batch_appends [OF d1] Cons.prems(2) by (simp add: run)
  with Cons.IH [OF rest _ later] Cons.prems(2) show ?case by (auto simp: txns)
qed

end

end
