(* ===== verification/Default_Processor.thy ===== *)
theory Default_Processor
  imports Default_Models Convergence
begin

text \<open>
  \<open>processors/default_processor.rs\<close>: the rows of a batch are collected, the current table items and
  the table metadata are reduced to one row per key and sorted by key, and eight inserts run
  concurrently. The row types' serializers, which the null-byte cleaning uses, are parameters.
\<close>

section \<open>Rows and queries\<close>

definition transaction_row :: "transaction_model \<Rightarrow> sql_row" where
  "transaction_row t =
     [(''version'', SqlInt (tm_version t)), (''block_height'', SqlInt (tm_block_height t)),
      (''hash'', SqlText (tm_hash t)), (''type'', SqlText (tm_type t)),
      (''payload'', sql_opt SqlJson (tm_payload t)),
      (''state_change_hash'', SqlText (tm_state_change_hash t)),
      (''event_root_hash'', SqlText (tm_event_root_hash t)),
      (''state_checkpoint_hash'', sql_opt SqlText (tm_state_checkpoint_hash t)),
      (''gas_used'', SqlNumeric (tm_gas_used t)), (''success'', SqlBool (tm_success t)),
      (''vm_status'', SqlText (tm_vm_status t)),
      (''accumulator_root_hash'', SqlText (tm_accumulator_root_hash t)),
      (''num_events'', SqlInt (tm_num_events t)),
      (''num_write_set_changes'', SqlInt (tm_num_write_set_changes t)),
      (''epoch'', SqlInt (tm_epoch t)), (''payload_type'', sql_opt SqlText (tm_payload_type t))]"

definition block_metadata_transaction_row :: "block_metadata_transaction \<Rightarrow> sql_row" where
  "block_metadata_transaction_row b =
     [(''version'', SqlInt (bmt_version b)), (''block_height'', SqlInt (bmt_block_height b)),
      (''id'', SqlText (bmt_id b)), (''round'', SqlInt (bmt_round b)), (''epoch'', SqlInt (bmt_epoch b)),
      (''previous_block_votes_bitvec'', SqlJson (bmt_previous_block_votes_bitvec b)),
      (''proposer'', SqlText (bmt_proposer b)),
      (''failed_proposer_indices'', SqlJson (bmt_failed_proposer_indices b)),
      (''timestamp'', SqlTimestamp (bmt_timestamp b))]"

definition write_set_change_row :: "write_set_change \<Rightarrow> sql_row" where
  "write_set_change_row w =
     [(''transaction_version'', SqlInt (wsch_transaction_version w)), (''index'', SqlInt (wsch_index w)),
      (''hash'', SqlText (wsch_hash w)),
      (''transaction_block_height'', SqlInt (wsch_transaction_block_height w)),
      (''type'', SqlText (wsch_type w)), (''address'', SqlText (wsch_address w))]"

definition move_module_row :: "move_module \<Rightarrow> sql_row" where
  "move_module_row m =
     [(''transaction_version'', SqlInt (mmod_transaction_version m)),
      (''write_set_change_index'', SqlInt (mmod_write_set_change_index m)),
      (''transaction_block_height'', SqlInt (mmod_transaction_block_height m)),
      (''name'', SqlText (mmod_name m)), (''address'', SqlText (mmod_address m)),
      (''bytecode'', sql_opt SqlBytes (mmod_bytecode m)),
      (''exposed_functions'', sql_opt SqlJson (mmod_exposed_functions m)),
      (''friends'', sql_opt SqlJson (mmod_friends m)), (''structs'', sql_opt SqlJson (mmod_structs m)),
      (''is_deleted'', SqlBool (mmod_is_deleted m))]"

definition move_resource_row :: "move_resource \<Rightarrow> sql_row" where
  "move_resource_row r =
     [(''transaction_version'', SqlInt (mres_transaction_version r)),
      (''write_set_change_index'', SqlInt (mres_write_set_change_index r)),
      (''transaction_block_height'', SqlInt (mres_transaction_block_height r)),
      (''name'', SqlText (mres_name r)), (''type'', SqlText (mres_type r)),
      (''address'', SqlText (mres_address r)), (''module'', SqlText (mres_module r)),
      (''generic_type_params'', sql_opt SqlJson (mres_generic_type_params r)),
      (''data'', sql_opt SqlJson (mres_data r)), (''is_deleted'', SqlBool (mres_is_deleted r)),
      (''state_key_hash'', SqlText (mres_state_key_hash r))]"

definition table_item_row :: "table_item \<Rightarrow> sql_row" where
  "table_item_row t =
     [(''transaction_version'', SqlInt (titem_transaction_version t)),
      (''write_set_change_index'', SqlInt (titem_write_set_change_index t)),
      (''transaction_block_height'', SqlInt (titem_transaction_block_height t)),
      (''key'', SqlText (titem_key t)), (''table_handle'', SqlText (titem_table_handle t)),
      (''decoded_key'', SqlJson (titem_decoded_key t)),
      (''decoded_value'', sql_opt SqlJson (titem_decoded_value t)),
      (''is_deleted'', SqlBool (titem_is_deleted t))]"

definition current_table_item_row :: "current_table_item \<Rightarrow> sql_row" where
  "current_table_item_row c =
     [(''table_handle'', SqlText (cti_table_handle c)), (''key_hash'', SqlText (cti_key_hash c)),
      (''key'', SqlText (cti_key c)), (''decoded_key'', SqlJson (cti_decoded_key c)),
      (''decoded_value'', sql_opt SqlJson (cti_decoded_value c)),
      (''last_transaction_version'', SqlInt (cti_last_transaction_version c)),
      (''is_deleted'', SqlBool (cti_is_deleted c))]"

definition table_metadata_row :: "table_metadata \<Rightarrow> sql_row" where
  "table_metadata_row m =
     [(''handle'', SqlText (tmeta_handle m)), (''key_type'', SqlText (tmeta_key_type m)),
      (''value_type'', SqlText (tmeta_value_type m))]"

definition insert_transactions_query :: "transaction_model list \<Rightarrow> query" where
  "insert_transactions_query items =
     (\<lparr>iq_table = ''transactions'', iq_rows = map transaction_row items, iq_target = [''version''],
       iq_action = DoUpdate [''inserted_at'', ''payload_type'']\<rparr>, None)"

definition insert_block_metadata_transactions_query :: "block_metadata_transaction list \<Rightarrow> query" where
  "insert_block_metadata_transactions_query items =
     (\<lparr>iq_table = ''block_metadata_transactions'', iq_rows = map block_metadata_transaction_row items,
       iq_target = [''version''], iq_action = DoNothing\<rparr>, None)"

definition insert_write_set_changes_query :: "write_set_change list \<Rightarrow> query" where
  "insert_write_set_changes_query items =
     (\<lparr>iq_table = ''write_set_changes'', iq_rows = map write_set_change_row items,
       iq_target = [''transaction_version'', ''index''], iq_action = DoNothing\<rparr>, None)"

definition insert_move_modules_query :: "move_module list \<Rightarrow> query" where
  "insert_move_modules_query items =
     (\<lparr>iq_table = ''move_modules'', iq_rows = map move_module_row items,
       iq_target = [''transaction_version'', ''write_set_change_index''], iq_action = DoNothing\<rparr>, None)"

definition insert_move_resources_query :: "move_resource list \<Rightarrow> query" where
  "insert_move_resources_query items =
     (\<lparr>iq_table = ''move_resources'', iq_rows = map move_resource_row items,
       iq_target = [''transaction_version'', ''write_set_change_index''], iq_action = DoNothing\<rparr>, None)"

definition insert_table_items_query :: "table_item list \<Rightarrow> query" where
  "insert_table_items_query items =
     (\<lparr>iq_table = ''table_items'', iq_rows = map table_item_row items,
       iq_target = [''transaction_version'', ''write_set_change_index''], iq_action = DoNothing\<rparr>, None)"

definition insert_current_table_items_query :: "current_table_item list \<Rightarrow> query" where
  "insert_current_table_items_query items =
     (\<lparr>iq_table = ''current_table_items'', iq_rows = map current_table_item_row items,
       iq_target = [''table_handle'', ''key_hash''],
       iq_action = DoUpdate [''key'', ''decoded_key'', ''decoded_value'', ''is_deleted'',
                             ''last_transaction_version'', ''inserted_at'']\<rparr>,
      Some (WhereLe ''last_transaction_version''))"

definition insert_table_metadata_query :: "table_metadata list \<Rightarrow> query" where
  "insert_table_metadata_query items =
     (\<lparr>iq_table = ''table_metadatas'', iq_rows = map table_metadata_row items,
       iq_target = [''handle''], iq_action = DoNothing\<rparr>, None)"

section \<open>Processing a batch\<close>

record collected_details =
  cd_move_modules :: "move_module list"
  cd_move_resources :: "move_resource list"
  cd_table_items :: "table_item list"
  cd_current_table_items :: "((string \<times> string) \<times> current_table_item) list"
  cd_table_metadata :: "(string \<times> table_metadata) list"

fun collect_detail :: "write_set_change_detail \<Rightarrow> collected_details \<Rightarrow> collected_details" where
  "collect_detail (DetailModule m) cd = cd\<lparr>cd_move_modules := cd_move_modules cd @ [m]\<rparr>"
| "collect_detail (DetailResource r) cd = cd\<lparr>cd_move_resources := cd_move_resources cd @ [r]\<rparr>"
| "collect_detail (DetailTable item current_item metadata) cd =
     cd\<lparr>cd_table_items := cd_table_items cd @ [item],
        cd_current_table_items :=
          AList.update (cti_table_handle current_item, cti_key_hash current_item) current_item
            (cd_current_table_items cd),
        cd_table_metadata :=
          (case metadata of
             Some meta \<Rightarrow> AList.update (tmeta_handle meta) meta (cd_table_metadata cd)
           | None \<Rightarrow> cd_table_metadata cd)\<rparr>"

definition collect_details :: "write_set_change_detail list \<Rightarrow> collected_details" where
  "collect_details details =
     fold collect_detail details
       \<lparr>cd_move_modules = [], cd_move_resources = [], cd_table_items = [],
        cd_current_table_items = [], cd_table_metadata = []\<rparr>"

record default_rows =
  drw_txns :: "transaction_model list"
  drw_block_metadata_transactions :: "block_metadata_transaction list"
  drw_write_set_changes :: "write_set_change list"
  drw_move_modules :: "move_module list"
  drw_move_resources :: "move_resource list"
  drw_table_items :: "table_item list"
  drw_current_table_items :: "current_table_item list"
  drw_table_metadata :: "table_metadata list"

definition cti_pk :: "current_table_item \<Rightarrow> string \<times> string" where
  "cti_pk c = (cti_table_handle c, cti_key_hash c)"

definition default_rows_of :: "libs \<Rightarrow> transaction list \<Rightarrow> failure + default_rows" where
  "default_rows_of L transactions =
     and_then (from_transactions L transactions) (\<lambda>(txns, block_metadata_txns, wscs, details).
     let cd = collect_details details in
     Inr \<lparr>drw_txns = txns, drw_block_metadata_transactions = block_metadata_txns,
          drw_write_set_changes = wscs, drw_move_modules = cd_move_modules cd,
          drw_move_resources = cd_move_resources cd, drw_table_items = cd_table_items cd,
          drw_current_table_items = sort_key cti_pk (map snd (cd_current_table_items cd)),
          drw_table_metadata = sort_key tmeta_handle (map snd (cd_table_metadata cd))\<rparr>)"

record default_serdes =
  sd_transaction :: "transaction_model serde"
  sd_block_metadata :: "block_metadata_transaction serde"
  sd_write_set_change :: "write_set_change serde"
  sd_move_module :: "move_module serde"
  sd_move_resource :: "move_resource serde"
  sd_table_item :: "table_item serde"
  sd_current_table_item :: "current_table_item serde"
  sd_table_metadata :: "table_metadata serde"

text \<open>The numbers of fields are those of the structs, as \<open>field_count\<close> derives them.\<close>

definition default_insert_to_db ::
  "default_serdes \<Rightarrow> (string \<times> nat) list \<Rightarrow> pg_env \<Rightarrow> default_rows \<Rightarrow> db_op" where
  "default_insert_to_db sds per_table_chunk_sizes env rows =
     (let size = (\<lambda>fields name. get_config_table_chunk_size fields name per_table_chunk_sizes) in
      join_inserts
        [execute_in_chunks env insert_transactions_query (sd_transaction sds) (drw_txns rows)
           (size 16 ''transactions''),
         execute_in_chunks env insert_block_metadata_transactions_query (sd_block_metadata sds)
           (drw_block_metadata_transactions rows) (size 9 ''block_metadata_transactions''),
         execute_in_chunks env insert_write_set_changes_query (sd_write_set_change sds)
           (drw_write_set_changes rows) (size 6 ''write_set_changes''),
         execute_in_chunks env insert_move_modules_query (sd_move_module sds) (drw_move_modules rows)
           (size 10 ''move_modules''),
         execute_in_chunks env insert_move_resources_query (sd_move_resource sds)
           (drw_move_resources rows) (size 11 ''move_resources''),
         execute_in_chunks env insert_table_items_query (sd_table_item sds) (drw_table_items rows)
           (size 8 ''table_items''),
         execute_in_chunks env insert_current_table_items_query (sd_current_table_item sds)
           (drw_current_table_items rows) (size 7 ''current_table_items''),
         execute_in_chunks env insert_table_metadata_query (sd_table_metadata sds)
           (drw_table_metadata rows) (size 3 ''table_metadatas'')])"

text \<open>A panic of the blocking task is a panic of the caller (\<open>expect\<close>).\<close>

definition default_process_transactions ::
  "libs \<Rightarrow> default_serdes \<Rightarrow> rat \<times> rat \<Rightarrow> (string \<times> nat) list \<Rightarrow> process_fn" where
  "default_process_transactions L sds durations per_table_chunk_sizes =
     process_batch (\<lambda>transactions. unwrap_result (default_rows_of L transactions))
       (default_insert_to_db sds per_table_chunk_sizes) durations"

section \<open>The interfaces\<close>

lemmas default_query_defs =
  insert_transactions_query_def insert_block_metadata_transactions_query_def
  insert_write_set_changes_query_def insert_move_modules_query_def insert_move_resources_query_def
  insert_table_items_query_def insert_current_table_items_query_def insert_table_metadata_query_def

definition cti_columns :: "string set" where
  "cti_columns = {''table_handle'', ''key_hash'', ''key'', ''decoded_key'', ''decoded_value'',
     ''last_transaction_version'', ''is_deleted''}"

interpretation current_items: guarded_query
  "[''table_handle'', ''key_hash'']"
  "[''key'', ''decoded_key'', ''decoded_value'', ''is_deleted'', ''last_transaction_version'', ''inserted_at'']"
  "WhereLe ''last_transaction_version''" cti_columns
  insert_current_table_items_query current_table_item_row "''current_table_items''"
proof
  show "full_row (WhereLe ''last_transaction_version'') cti_columns (current_table_item_row c)" for c
    by (auto simp: full_row_def cti_columns_def current_table_item_row_def has_version_def int_cell_def)
qed (auto simp: cti_columns_def insert_current_table_items_query_def)

lemma default_insert_untouched:
  assumes "postgres (pg_exec env)" and "t \<notin> {''transactions'', ''block_metadata_transactions'',
    ''write_set_changes'', ''move_modules'', ''move_resources'', ''table_items'', ''current_table_items'',
    ''table_metadatas''}"
  shows "untouched t (default_insert_to_db sds sizes env rows)"
  unfolding default_insert_to_db_def Let_def
  by (rule join_inserts_untouched)
    (use assms in \<open>auto intro!: execute_in_chunks_untouched simp: default_query_defs\<close>)

interpretation default_processor: batch_processor
  "\<lambda>transactions. unwrap_result (default_rows_of L transactions)" "default_insert_to_db sds sizes" durations
  for L sds sizes durations
  by unfold_locales (simp add: default_insert_untouched)

section \<open>The current items of a batch\<close>

text \<open>The writes to tables a transaction makes, and its last write under a key.\<close>

definition cti_writes :: "libs \<Rightarrow> transaction \<Rightarrow> current_table_item list" where
  "cti_writes L txn =
     (case from_transaction L txn of
        Inr r \<Rightarrow> concat (map detail_current (rows_detail r)) | Inl _ \<Rightarrow> [])"

lemma collect_details_current:
  "cd_current_table_items (fold collect_detail ds cd) =
     collect_by cti_pk (concat (map detail_current ds)) (cd_current_table_items cd)"
proof (induction ds arbitrary: cd)
  case (Cons x ds)
  then show ?case by (cases x) (simp_all add: cti_pk_def collect_by_def)
qed (simp add: collect_by_def)

lemma cti_writes_rows:
  "map_result (from_transaction L) ts = Inr rs \<Longrightarrow>
   concat (map detail_current (concat (map rows_detail rs))) = concat (map (cti_writes L) ts)"
  by (induction ts arbitrary: rs) (auto simp: cti_writes_def)

text \<open>The rows a batch inserts are exactly the last writes of the batch, one per key.\<close>

lemma batch_current_items:
  assumes "default_rows_of L txns = Inr rows"
  shows "set (drw_current_table_items rows) = {c. latest_row (cti_writes L) cti_pk txns (cti_pk c) = Some c}"
    and "distinct (map cti_pk (drw_current_table_items rows))"
    and "sorted (map cti_pk (drw_current_table_items rows))"
proof -
  obtain rs where rs: "map_result (from_transaction L) txns = Inr rs"
    and rows: "drw_current_table_items rows = sort_key cti_pk (map snd (cd_current_table_items
      (collect_details (concat (map rows_detail rs)))))"
    using assms by (auto simp: default_rows_of_def from_transactions_rows Let_def)
  have eq: "drw_current_table_items rows =
      sort_key cti_pk (map snd (collect_by cti_pk (concat (map (cti_writes L) txns)) []))"
    by (simp add: rows collect_details_def collect_details_current cti_writes_rows [OF rs])
  show "set (drw_current_table_items rows) = {c. latest_row (cti_writes L) cti_pk txns (cti_pk c) = Some c}"
    and "distinct (map cti_pk (drw_current_table_items rows))"
    and "sorted (map cti_pk (drw_current_table_items rows))"
    unfolding eq using collected_rows [where key = cti_pk and writes = "cti_writes L"] by simp_all
qed

section \<open>The table after any sequence of batches\<close>

lemma cti_writes_version: "c \<in> set (cti_writes L t) \<Longrightarrow> cti_last_transaction_version c = ver t"
proof (cases "from_transaction L t")
  case (Inr r)
  assume "c \<in> set (cti_writes L t)"
  then obtain x where "x \<in> set (rows_detail r)" "c \<in> set (detail_current x)"
    using Inr by (auto simp: cti_writes_def)
  with from_transaction_current [OF Inr] show ?thesis by (simp add: ver_def)
qed (simp add: cti_writes_def)

lemma cti_arow:
  "current_items.arow c = map_of (current_table_item_row c)"
  "current_items.pkey (map_of (current_table_item_row c)) = [SqlText (cti_table_handle c), SqlText (cti_key_hash c)]"
  "int_of (map_of (current_table_item_row c)) ''last_transaction_version'' = cti_last_transaction_version c"
proof -
  show "current_items.arow c = map_of (current_table_item_row c)"
    unfolding current_items.arow_def
    by (rule restrict_row) (simp add: current_table_item_row_def cti_columns_def)
qed (simp_all add: current_table_item_row_def row_key_def cell_def int_of_def)

lemma cti_keys:
  "\<forall>a \<in> X. \<forall>b \<in> X. current_items.pkey (current_items.arow a) = current_items.pkey (current_items.arow b) \<longleftrightarrow>
    cti_pk a = cti_pk b"
  by (auto simp: cti_arow cti_pk_def)

interpretation latest_items: latest_table
  "[''table_handle'', ''key_hash'']"
  "[''key'', ''decoded_key'', ''decoded_value'', ''is_deleted'', ''last_transaction_version'', ''inserted_at'']"
  "''last_transaction_version''" cti_columns
  insert_current_table_items_query current_table_item_row "''current_table_items''"
  "cti_writes L" cti_pk "run_batch (default_process_transactions L sds durations)" "sd_current_table_item sds"
  for L sds durations
proof
  show "int_of (map_of (current_table_item_row c)) ''last_transaction_version'' = ver t"
    if "c \<in> set (cti_writes L t)" for c t
    using cti_writes_version [OF that] by (simp add: cti_arow)
next
  fix env sizes txns d d' X g
  assume run: "run_batch (default_process_transactions L sds durations) (env, sizes, txns) d = (Inr (), d')"
    and env: "server_ok g env insert_current_table_items_query X" "clean_stable (sd_current_table_item sds) X"
    and sub: "{c. latest_row (cti_writes L) cti_pk txns (cti_pk c) = Some c} \<subseteq> X"
    and ok: "table_ok [''table_handle'', ''key_hash''] (WhereLe ''last_transaction_version'') cti_columns
      (d ''current_table_items'')"
  obtain rows where rows: "default_rows_of L txns = Inr rows"
    and ins: "default_insert_to_db sds sizes env rows d = (Inr (), d')"
    by (rule run_batch_ok [OF run [unfolded default_process_transactions_def]]) auto
  have pg: "postgres (pg_exec env)" using env(1) by (simp add: server_ok_def)
  show "current_items.ingested g {c. latest_row (cti_writes L) cti_pk txns (cti_pk c) = Some c}
    (d ''current_table_items'') (d' ''current_table_items'')"
    unfolding batch_current_items(1) [OF rows, symmetric]
    by (rule current_items.join_ingests [OF ins [unfolded default_insert_to_db_def Let_def], where i = 6, OF _ _ _ env])
      (use sub ok batch_current_items(1) [OF rows] pg in
        \<open>simp_all add: execute_in_chunks_untouched default_query_defs\<close>)
qed

section \<open>No statement proposes a key twice\<close>

fun detail_modules :: "write_set_change_detail \<Rightarrow> move_module list" where
  "detail_modules (DetailModule m) = [m]"
| "detail_modules _ = []"

fun detail_resources :: "write_set_change_detail \<Rightarrow> move_resource list" where
  "detail_resources (DetailResource r) = [r]"
| "detail_resources _ = []"

fun detail_items :: "write_set_change_detail \<Rightarrow> table_item list" where
  "detail_items (DetailTable t c md) = [t]"
| "detail_items _ = []"

fun detail_metadata :: "write_set_change_detail \<Rightarrow> table_metadata list" where
  "detail_metadata (DetailTable t c md) = option_list md"
| "detail_metadata _ = []"

lemma collect_details_parts:
  "cd_move_modules (fold collect_detail ds cd) = cd_move_modules cd @ concat (map detail_modules ds)"
  "cd_move_resources (fold collect_detail ds cd) = cd_move_resources cd @ concat (map detail_resources ds)"
  "cd_table_items (fold collect_detail ds cd) = cd_table_items cd @ concat (map detail_items ds)"
  "cd_table_metadata (fold collect_detail ds cd) =
     collect_by tmeta_handle (concat (map detail_metadata ds)) (cd_table_metadata cd)"
proof (induction ds arbitrary: cd)
  case (Cons x ds)
  {
    case 1 show ?case by (cases x) (simp_all add: Cons.IH)
  next
    case 2 show ?case by (cases x) (simp_all add: Cons.IH)
  next
    case 3 show ?case by (cases x) (simp_all add: Cons.IH)
  next
    case 4 show ?case by (cases x) (auto simp: Cons.IH collect_by_def split: option.splits)
  }
qed (simp_all add: collect_by_def)

text \<open>Rows of details that take over the key of the detail have distinct keys when the details have.\<close>

lemma detail_rows_distinct:
  assumes "distinct (map detail_key ds)" and "\<And>x. map key (part x) = [] \<or> map key (part x) = [detail_key x]"
  shows "distinct (map key (concat (map part ds)))"
  using assms(1)
proof (induction ds)
  case (Cons x ds)
  have sub: "set (map key (part y)) \<subseteq> {detail_key y}" for y using assms(2) [of y] by auto
  then have "set (map key (concat (map part ds))) \<subseteq> detail_key ` set ds" by fastforce
  moreover have "distinct (map key (part x))" using assms(2) [of x] by auto
  moreover have "distinct (map key (concat (map part ds)))" "detail_key x \<notin> detail_key ` set ds" using Cons by auto
  ultimately have "distinct (map key (part x) @ map key (concat (map part ds)))" using sub [of x] unfolding distinct_append by blast
  then show ?case by simp
qed simp

definition mmod_pk :: "move_module \<Rightarrow> i64 \<times> i64" where
  "mmod_pk m = (mmod_transaction_version m, mmod_write_set_change_index m)"

definition mres_pk :: "move_resource \<Rightarrow> i64 \<times> i64" where
  "mres_pk r = (mres_transaction_version r, mres_write_set_change_index r)"

definition titem_pk :: "table_item \<Rightarrow> i64 \<times> i64" where
  "titem_pk t = (titem_transaction_version t, titem_write_set_change_index t)"

lemma default_rows_distinct:
  assumes "default_rows_of L txns = Inr rows" and "version_ordered txns"
  shows "distinct (map tm_version (drw_txns rows))" and "distinct (map cti_pk (drw_current_table_items rows))"
    and "distinct (map bmt_version (drw_block_metadata_transactions rows))"
    and "distinct (map wsch_pk (drw_write_set_changes rows))" and "distinct (map mmod_pk (drw_move_modules rows))"
    and "distinct (map mres_pk (drw_move_resources rows))" and "distinct (map titem_pk (drw_table_items rows))"
    and "distinct (map tmeta_handle (drw_table_metadata rows))"
proof -
  obtain rs where rs: "map_result (from_transaction L) txns = Inr rs"
    and ts: "drw_txns rows = map fst rs"
    and bs: "drw_block_metadata_transactions rows = concat (map (option_list \<circ> fst \<circ> snd) rs)"
    and ws: "drw_write_set_changes rows = concat (map rows_wsc rs)"
    and parts: "drw_move_modules rows = concat (map detail_modules (concat (map rows_detail rs)))"
      "drw_move_resources rows = concat (map detail_resources (concat (map rows_detail rs)))"
      "drw_table_items rows = concat (map detail_items (concat (map rows_detail rs)))"
      "drw_table_metadata rows = sort_key tmeta_handle (map snd (collect_by tmeta_handle
         (concat (map detail_metadata (concat (map rows_detail rs)))) []))"
    using assms(1) by (auto simp: default_rows_of_def from_transactions_rows collect_details_def collect_details_parts Let_def)
  have "distinct (map ver txns)" by (rule version_ordered_distinct [OF assms(2)])
  then show "distinct (map tm_version (drw_txns rows))"
    using from_transactions_versions [OF rs] by (simp add: ts comp_def ver_def [abs_def])
  show "distinct (map cti_pk (drw_current_table_items rows))" by (rule batch_current_items(2) [OF assms(1)])
  show "distinct (map bmt_version (drw_block_metadata_transactions rows))"
    unfolding bs batch_parts [OF rs]
  proof (rule versioned_keys_distinct [OF assms(2), where version_of = "\<lambda>v. v"])
    fix t
    have one: "distinct (map bmt_version (option_list b))" "x \<in> set (option_list b) \<longleftrightarrow> b = Some x" for b x
      by (cases b; auto)+
    show "distinct (map bmt_version (batch_part L (option_list \<circ> fst \<circ> snd) t))"
      by (cases "from_transaction L t") (simp_all add: batch_part_def one(1))
    show "bmt_version b = ver t" if "b \<in> set (batch_part L (option_list \<circ> fst \<circ> snd) t)" for b
    proof (cases "from_transaction L t")
      case (Inr r)
      with that have "fst (snd r) = Some b" by (simp add: batch_part_def one(2))
      from from_transaction_block [OF Inr this] show ?thesis by (simp add: ver_def)
    qed (use that in \<open>simp add: batch_part_def\<close>)
  qed
  show "distinct (map wsch_pk (drw_write_set_changes rows))"
    unfolding ws batch_parts [OF rs]
    by (rule versioned_keys_distinct [OF assms(2), where version_of = fst])
      (simp_all add: ver_def batch_part_keys)
  have "distinct (map detail_key (concat (map rows_detail rs)))"
    unfolding batch_parts [OF rs]
    by (rule versioned_keys_distinct [OF assms(2), where version_of = fst])
      (simp_all add: ver_def batch_part_keys)
  note d = detail_rows_distinct [OF this]
  show "distinct (map mmod_pk (drw_move_modules rows))" unfolding parts
    by (rule d) (metis detail_key.simps(1) detail_modules.simps list.simps(8,9) mmod_pk_def write_set_change_detail.exhaust)
  show "distinct (map mres_pk (drw_move_resources rows))" unfolding parts
    by (rule d) (metis detail_key.simps(2) detail_resources.simps list.simps(8,9) mres_pk_def write_set_change_detail.exhaust)
  show "distinct (map titem_pk (drw_table_items rows))" unfolding parts
    by (rule d) (metis detail_key.simps(3) detail_items.simps list.simps(8,9) titem_pk_def write_set_change_detail.exhaust)
  show "distinct (map tmeta_handle (drw_table_metadata rows))" unfolding parts by (rule collect_by_sorted(1))
qed

text \<open>The keys that the statement for a chunk of rows proposes are distinct, for every chunk.\<close>

definition chunks_own_keys :: "nat \<Rightarrow> ('a list \<Rightarrow> query) \<Rightarrow> 'a list \<Rightarrow> bool" where
  "chunks_own_keys n build items \<longleftrightarrow> list_all (\<lambda>c. distinct (proposed_keys (fst (build c)))) (chunks n items)"

lemma chunks_own_keysI:
  assumes "distinct (map key items)" and "0 < n" and "\<And>c. iq_rows (fst (build c)) = map to_row c"
    and "\<And>c x. row_key (iq_target (fst (build c))) (map_of (to_row x)) = enc (key x)" and "inj enc"
  shows "chunks_own_keys n build items"
  unfolding chunks_own_keys_def list_all_iff
  using distinct_proposed [where key = key and to_row = to_row and enc = enc, OF chunk_distinct [OF assms(1,2)] assms(3-5)]
  by blast

lemma inj_pair_key: "inj (\<lambda>(a, b). [SqlInt a, SqlInt b])"
  by (auto simp: inj_def)

lemma transactions_query_keys:
  "distinct (map tm_version c) \<Longrightarrow> distinct (proposed_keys (fst (insert_transactions_query c)))"
  by (rule distinct_proposed [where key = tm_version and to_row = transaction_row and enc = "\<lambda>v. [SqlInt v]"])
    (simp_all add: insert_transactions_query_def transaction_row_def row_key_def cell_def inj_def)

lemma current_table_items_query_keys:
  "distinct (map cti_pk c) \<Longrightarrow> distinct (proposed_keys (fst (insert_current_table_items_query c)))"
  by (rule distinct_proposed [where key = cti_pk and to_row = current_table_item_row
        and enc = "\<lambda>(h, k). [SqlText h, SqlText k]"])
    (auto simp: insert_current_table_items_query_def current_table_item_row_def row_key_def cell_def
      cti_pk_def inj_def)

text \<open>
  C33: for a batch of transactions with increasing versions and each of the eight inserts, no chunk of any size makes
  a statement that proposes the same key twice: PostgreSQL accepts those that update on conflict, and those that do
  nothing on conflict skip no row because of another row of the batch.
\<close>

theorem default_no_duplicate_keys:
  assumes "default_rows_of L txns = Inr rows" and "version_ordered txns" and "0 < n"
  shows "chunks_own_keys n insert_transactions_query (drw_txns rows) \<and>
    chunks_own_keys n insert_block_metadata_transactions_query (drw_block_metadata_transactions rows) \<and>
    chunks_own_keys n insert_write_set_changes_query (drw_write_set_changes rows) \<and>
    chunks_own_keys n insert_move_modules_query (drw_move_modules rows) \<and>
    chunks_own_keys n insert_move_resources_query (drw_move_resources rows) \<and>
    chunks_own_keys n insert_table_items_query (drw_table_items rows) \<and>
    chunks_own_keys n insert_current_table_items_query (drw_current_table_items rows) \<and>
    chunks_own_keys n insert_table_metadata_query (drw_table_metadata rows)"
proof (intro conjI)
  note dist = default_rows_distinct [OF assms(1,2)]
  note row_defs = row_key_def cell_def default_query_defs
  show "chunks_own_keys n insert_transactions_query (drw_txns rows)"
    by (rule chunks_own_keysI [OF dist(1) assms(3), where to_row = transaction_row and enc = "\<lambda>v. [SqlInt v]"])
      (simp_all add: row_defs transaction_row_def inj_def)
  show "chunks_own_keys n insert_block_metadata_transactions_query (drw_block_metadata_transactions rows)"
    by (rule chunks_own_keysI [OF dist(3) assms(3), where to_row = block_metadata_transaction_row and enc = "\<lambda>v. [SqlInt v]"])
      (simp_all add: row_defs block_metadata_transaction_row_def inj_def)
  show "chunks_own_keys n insert_write_set_changes_query (drw_write_set_changes rows)"
    by (rule chunks_own_keysI [OF dist(4) assms(3), where to_row = write_set_change_row, OF _ _ inj_pair_key])
      (simp_all add: row_defs write_set_change_row_def wsch_pk_def)
  show "chunks_own_keys n insert_move_modules_query (drw_move_modules rows)"
    by (rule chunks_own_keysI [OF dist(5) assms(3), where to_row = move_module_row, OF _ _ inj_pair_key])
      (simp_all add: row_defs move_module_row_def mmod_pk_def)
  show "chunks_own_keys n insert_move_resources_query (drw_move_resources rows)"
    by (rule chunks_own_keysI [OF dist(6) assms(3), where to_row = move_resource_row, OF _ _ inj_pair_key])
      (simp_all add: row_defs move_resource_row_def mres_pk_def)
  show "chunks_own_keys n insert_table_items_query (drw_table_items rows)"
    by (rule chunks_own_keysI [OF dist(7) assms(3), where to_row = table_item_row, OF _ _ inj_pair_key])
      (simp_all add: row_defs table_item_row_def titem_pk_def)
  show "chunks_own_keys n insert_current_table_items_query (drw_current_table_items rows)"
    by (rule chunks_own_keysI [OF dist(2) assms(3), where to_row = current_table_item_row
          and enc = "\<lambda>(h, k). [SqlText h, SqlText k]"])
      (auto simp: row_defs current_table_item_row_def cti_pk_def inj_def)
  show "chunks_own_keys n insert_table_metadata_query (drw_table_metadata rows)"
    by (rule chunks_own_keysI [OF dist(8) assms(3), where to_row = table_metadata_row and enc = "\<lambda>h. [SqlText h]"])
      (simp_all add: row_defs table_metadata_row_def inj_def)
qed

lemma default_batch_succeeds:
  assumes "default_rows_of L txns = Inr rows" and "version_ordered txns" and "txns \<noteq> []"
  shows "\<exists>d'. run_batch (default_process_transactions L sds durations) (sample_pg, [], txns) d = (Inr (), d')"
proof -
  note dist = default_rows_distinct [OF assms(1,2)]
  have "\<exists>d'. default_insert_to_db sds [] sample_pg rows d = (Inr (), d')"
    unfolding default_insert_to_db_def Let_def
    by (rule join_inserts_succeeds, unfold list.set ball_simps, intro conjI allI TrueI,
        rule reference_do_update [OF _ dist(1) transactions_query_keys],
        simp add: default_chunk_size, assumption)
      ((rule reference_do_nothing reference_do_update [OF _ dist(2) current_table_items_query_keys],
        simp_all add: default_chunk_size default_query_defs)+)
  with assms(1,3) show ?thesis
    unfolding default_process_transactions_def by (intro run_batch_succeeds) auto
qed

section \<open>Convergence\<close>

text \<open>
  C3: what the table of current items holds. Take a history of transactions with increasing versions, cut into
  batches in any way and processed in any order, concurrently chunked and scheduled, with any batch processed any
  number of times (as after a restart), starting from an empty table; the rows of the history are left as they are
  by the removal of null bytes. Once every transaction has been processed, a key has a row exactly when the
  history writes the key, and the row is one that the history writes under it. If no statement loses its version
  guard, that is if the debug text of no query over these rows contains \<open>where\<close>, it is the row of the last write.
\<close>

theorem current_table_items_converge:
  assumes "insert_batches (run_batch (default_process_transactions L sds durations)) runs d = Inr d'"
    and "d ''current_table_items'' = Map.empty" and "version_ordered H" and "set H = run_txns runs"
    and "servers_ok runs" and "clean_stable (sd_current_table_item sds) (written (cti_writes L) H)"
  shows "stored_from (\<lambda>c. map_of (current_table_item_row c)) {c \<in> written (cti_writes L) H. cti_pk c = (h, k)}
      (view cti_columns (d' ''current_table_items'') [SqlText h, SqlText k]) \<and>
    (guards_kept runs insert_current_table_items_query (written (cti_writes L) H) \<longrightarrow>
      view cti_columns (d' ''current_table_items'') [SqlText h, SqlText k] =
        map_option (\<lambda>c. map_of (current_table_item_row c)) (latest_row (cti_writes L) cti_pk H (h, k)))"
proof -
  let ?K = "[SqlText h, SqlText k]"
  note content = latest_items.latest_content [OF assms cti_keys, where K = ?K, unfolded cti_arow(1) [abs_def] cti_arow(2)]
  have key: "[SqlText (cti_table_handle c), SqlText (cti_key_hash c)] = ?K \<longleftrightarrow> cti_pk c = (h, k)" for c
    by (simp add: cti_pk_def)
  have "view cti_columns (d' ''current_table_items'') ?K =
      map_option (\<lambda>c. map_of (current_table_item_row c)) (latest_row (cti_writes L) cti_pk H (h, k))"
    if kept: "guards_kept runs insert_current_table_items_query (written (cti_writes L) H)"
  proof (rule option_eqI)
    fix r
    show "view cti_columns (d' ''current_table_items'') ?K = Some r \<longleftrightarrow>
        map_option (\<lambda>c. map_of (current_table_item_row c)) (latest_row (cti_writes L) cti_pk H (h, k)) = Some r"
      unfolding content(2) [OF kept] key map_option_eq_Some using latest_row_written by metis
  qed
  with content(1) [unfolded key] show ?thesis by blast
qed

text \<open>Two transactions that write the same table item.\<close>

definition table_txn :: "u64 \<Rightarrow> transaction" where
  "table_txn v =
     (sample_user_txn v)\<lparr>txn_info := map_option (\<lambda>i. i\<lparr>ti_changes :=
        [\<lparr>wsc_type = 6, wsc_change = Some (WriteTableItem \<lparr>wti_state_key_hash = [], wti_handle = ''0xa'',
            wti_key = ''k'', wti_data = Some \<lparr>wtd_key = ''1'', wtd_key_type = ''u64'', wtd_value = ''2'',
              wtd_value_type = ''u64''\<rparr>\<rparr>)\<rparr>]\<rparr>) (txn_info (sample_user_txn v))\<rparr>"

definition table_txn_item :: "int \<Rightarrow> current_table_item" where
  "table_txn_item v =
     \<lparr>cti_table_handle = standardize_address ''0xa'', cti_key_hash = ''k'', cti_key = ''k'',
      cti_decoded_key = JNull, cti_decoded_value = None, cti_last_transaction_version = v,
      cti_is_deleted = False\<rparr>"

definition sample_serdes :: default_serdes where
  "sample_serdes =
     \<lparr>sd_transaction = \<lparr>to_value = (\<lambda>_. JNull), from_value = (\<lambda>_. None)\<rparr>,
      sd_block_metadata = \<lparr>to_value = (\<lambda>_. JNull), from_value = (\<lambda>_. None)\<rparr>,
      sd_write_set_change = \<lparr>to_value = (\<lambda>_. JNull), from_value = (\<lambda>_. None)\<rparr>,
      sd_move_module = \<lparr>to_value = (\<lambda>_. JNull), from_value = (\<lambda>_. None)\<rparr>,
      sd_move_resource = \<lparr>to_value = (\<lambda>_. JNull), from_value = (\<lambda>_. None)\<rparr>,
      sd_table_item = \<lparr>to_value = (\<lambda>_. JNull), from_value = (\<lambda>_. None)\<rparr>,
      sd_current_table_item =
        \<lparr>to_value = (\<lambda>c. JInt (cti_last_transaction_version c)),
         from_value = (\<lambda>j. case j of JInt v \<Rightarrow> Some (table_txn_item v) | _ \<Rightarrow> None)\<rparr>,
      sd_table_metadata = \<lparr>to_value = (\<lambda>_. JNull), from_value = (\<lambda>_. None)\<rparr>\<rparr>"

lemma table_txn_rows:
  "from_transaction sample_libs (table_txn v) = Inr r \<Longrightarrow>
    concat (map detail_current (rows_detail r)) = [table_txn_item (as_i64 v)]"
  "\<exists>r. from_transaction sample_libs (table_txn v) = Inr r"
  by (auto simp: from_transaction_def table_txn_def sample_user_txn_def sample_libs_def
      from_write_set_changes_def from_write_set_change_def get_write_set_change_type_def
      from_write_table_item_def table_metadata_from_write_table_item_def unwrap_json_def
      get_clean_payload_def optional_value_def hash_str_def table_txn_item_def rows_detail_def Let_def)

lemma table_txn_writes: "cti_writes sample_libs (table_txn v) = [table_txn_item (as_i64 v)]"
  using table_txn_rows [of v] by (auto simp: cti_writes_def)

lemma table_txn_batch: "\<exists>rows. default_rows_of sample_libs [table_txn v] = Inr rows"
  using table_txn_rows(2) [of v] by (auto simp: default_rows_of_def from_transactions_rows Let_def)

text \<open>A batch of two transactions that write the same table item, inserted by one statement per table.\<close>

theorem default_no_duplicate_keys_witness:
  "\<exists>rows. default_rows_of sample_libs [table_txn 7, table_txn 8] = Inr rows \<and> length (drw_txns rows) = 2 \<and>
    chunks_own_keys 2 insert_transactions_query (drw_txns rows) \<and>
    chunks_own_keys 2 insert_table_items_query (drw_table_items rows) \<and>
    chunks_own_keys 2 insert_current_table_items_query (drw_current_table_items rows)"
proof -
  obtain r7 r8 where "from_transaction sample_libs (table_txn 7) = Inr r7" "from_transaction sample_libs (table_txn 8) = Inr r8"
    using table_txn_rows(2) by blast
  then obtain rows where rows: "default_rows_of sample_libs [table_txn 7, table_txn 8] = Inr rows" "length (drw_txns rows) = 2"
    by (simp add: default_rows_of_def from_transactions_rows Let_def)
  have "version_ordered [table_txn 7, table_txn 8]"
    by (simp add: version_ordered_def ver_def table_txn_def sample_user_txn_def as_i64_small)
  with default_no_duplicate_keys [OF rows(1), of 2] rows show ?thesis by simp
qed

text \<open>The later transaction is processed first, the earlier one next, and the later one again.\<close>

theorem current_table_items_converge_witness:
  "\<exists>d'. insert_batches (run_batch (default_process_transactions sample_libs sample_serdes (0, 0)))
      [(sample_pg, [], [table_txn 8]), (sample_pg, [], [table_txn 7]), (sample_pg, [], [table_txn 8])]
      (\<lambda>_. Map.empty) = Inr d' \<and>
    view cti_columns (d' ''current_table_items'') [SqlText (standardize_address ''0xa''), SqlText ''k''] =
      Some (map_of (current_table_item_row (table_txn_item 8)))"
proof -
  let ?batch = "run_batch (default_process_transactions sample_libs sample_serdes (0, 0))"
  let ?runs = "[(sample_pg, [], [table_txn 8]), (sample_pg, [], [table_txn 7]), (sample_pg, [], [table_txn 8])]"
  let ?H = "[table_txn 7, table_txn 8]"
  have vers: "ver (table_txn 7) = 7" "ver (table_txn 8) = 8"
    by (simp_all add: ver_def table_txn_def sample_user_txn_def as_i64_small)
  have one: "\<exists>d'. ?batch (sample_pg, [], [table_txn v]) d = (Inr (), d')" for v d
    using default_batch_succeeds table_txn_batch [of v] by (fastforce simp: version_ordered_def)
  obtain d' where run: "insert_batches ?batch ?runs (\<lambda>_. Map.empty) = Inr d'"
    using insert_batches_total [of ?runs ?batch "\<lambda>_. Map.empty"] one by (auto simp del: insert_batches.simps)
  have clean: "clean_stable (sd_current_table_item sample_serdes) (written (cti_writes sample_libs) ?H)"
    by (auto simp: clean_stable_def written_def table_txn_writes remove_null_bytes_def sample_serdes_def
        table_txn_item_def)
  have "view cti_columns (d' ''current_table_items'') [SqlText (standardize_address ''0xa''), SqlText ''k''] =
      map_option (\<lambda>c. map_of (current_table_item_row c))
        (latest_row (cti_writes sample_libs) cti_pk ?H (standardize_address ''0xa'', ''k''))"
    using current_table_items_converge [OF run _ _ _ _ clean, of "standardize_address ''0xa''" "''k''"]
    by (auto simp: version_ordered_def vers servers_ok_def guards_kept_def sample_pg_ok run_txns_def)
  moreover have "latest_row (cti_writes sample_libs) cti_pk ?H (standardize_address ''0xa'', ''k'') = Some (table_txn_item 8)"
    by (simp add: latest_row_def table_txn_writes last_by_def table_txn_item_def cti_pk_def as_i64_small)
  ultimately show ?thesis using run by auto
qed

end
