(* ===== verification/Signatures.thy ===== *)
theory Signatures
  imports Util Postgres
begin

text \<open>
  \<open>models/user_transactions_models/signatures.rs\<close>: the signatures of a user transaction flattened into
  rows, one per signature. A row's key is the transaction version, the position of the signer among
  the secondary signers, the position of the signature inside a multi-signature, and whether the
  signer is the sender.
\<close>

record signature =
  sg_transaction_version :: i64
  sg_multi_agent_index :: i64
  sg_multi_sig_index :: i64
  sg_transaction_block_height :: i64
  sg_signer :: string
  sg_is_sender_primary :: bool
  sg_type :: string
  sg_public_key :: string
  sg_signature :: string
  sg_threshold :: i64
  sg_public_key_indices :: json

section \<open>Operations\<close>

text \<open>\<open>format!("0x{}", hex::encode(bytes))\<close>, and a list of indices as a JSON array.\<close>

definition hex_0x :: "libs \<Rightarrow> bytes \<Rightarrow> string" where
  "hex_0x L bs = ''0x'' @ lib_hex_encode L bs"

definition indices_json :: "u32 list \<Rightarrow> json" where
  "indices_json is = JArray (map (\<lambda>i. JInt (uint i)) is)"

definition get_fee_payer_address :: "transaction_signature \<Rightarrow> failure + string option" where
  "get_fee_payer_address t =
     and_then (expect ''Transaction signature is missing'' (sig_signature t)) (\<lambda>sig.
       case sig of
         SigFeePayer s \<Rightarrow> Inr (Some (standardize_address (fps_fee_payer_address s)))
       | _ \<Rightarrow> Inr None)"

definition get_signature_type :: "transaction_signature \<Rightarrow> failure + string" where
  "get_signature_type t =
     and_then (expect ''called Option::unwrap on a None value'' (sig_signature t)) (\<lambda>sig.
       case sig of
         SigEd25519 _ \<Rightarrow> Inr ''ed25519_signature''
       | SigMultiEd25519 _ \<Rightarrow> Inr ''multi_ed25519_signature''
       | SigMultiAgent _ \<Rightarrow> Inr ''multi_agent_signature''
       | SigFeePayer _ \<Rightarrow> Inr ''fee_payer_signature''
       | SigSingleSender sender \<Rightarrow>
           and_then (expect ''called Option::unwrap on a None value'' sender) (\<lambda>account_signature.
           and_then (expect ''called Option::unwrap on a None value'' (acc_signature account_signature)) (\<lambda>s.
             case s of
               AccountEd25519 _ \<Rightarrow> Inr ''ed25519_signature''
             | AccountMultiEd25519 _ \<Rightarrow> Inr ''multi_ed25519_signature''
             | AccountSingleKey _ \<Rightarrow> Inr ''single_key_signature''
             | AccountMultiKey _ \<Rightarrow> Inr ''multi_key_signature'')))"

text \<open>
  What the row of a signature has besides its own values: who signed it (the sender, or the address
  of a secondary signer), where, and in which position.
\<close>

record signer_info =
  si_sender :: string
  si_transaction_version :: i64
  si_transaction_block_height :: i64
  si_is_sender_primary :: bool
  si_multi_agent_index :: i64
  si_override_address :: "string option"

definition signer_of :: "signer_info \<Rightarrow> string" where
  "signer_of si =
     standardize_address (case si_override_address si of Some a \<Rightarrow> a | None \<Rightarrow> si_sender si)"

definition signature_row ::
  "libs \<Rightarrow> signer_info \<Rightarrow> string \<Rightarrow> bytes \<Rightarrow> bytes \<Rightarrow> i64 \<Rightarrow> json \<Rightarrow> i64 \<Rightarrow> signature" where
  "signature_row L si kind public_key sig threshold indices multi_sig_index =
     \<lparr>sg_transaction_version = si_transaction_version si,
      sg_multi_agent_index = si_multi_agent_index si, sg_multi_sig_index = multi_sig_index,
      sg_transaction_block_height = si_transaction_block_height si, sg_signer = signer_of si,
      sg_is_sender_primary = si_is_sender_primary si, sg_type = kind,
      sg_public_key = hex_0x L public_key, sg_signature = hex_0x L sig, sg_threshold = threshold,
      sg_public_key_indices = indices\<rparr>"

definition parse_ed25519_signature :: "libs \<Rightarrow> signer_info \<Rightarrow> ed25519_signature \<Rightarrow> signature" where
  "parse_ed25519_signature L si s =
     signature_row L si ''ed25519_signature'' (ed_public_key s) (ed_signature s) 1 (JArray []) 0"

text \<open>\<open>vec[i]\<close> and \<open>vec.get(i).unwrap()\<close> panic outside the vector.\<close>

definition nth_or_panic :: "'a list \<Rightarrow> nat \<Rightarrow> failure + 'a" where
  "nth_or_panic xs i = (if i < length xs then Inr (xs ! i) else Inl (Panic ''index out of bounds''))"

definition parse_multi_ed25519_signature ::
  "libs \<Rightarrow> signer_info \<Rightarrow> multi_ed25519_signature \<Rightarrow> failure + signature list" where
  "parse_multi_ed25519_signature L si s =
     map_result (\<lambda>(index, sig).
       and_then (nth_or_panic (med_public_key_indices s) index) (\<lambda>key_index.
       and_then (nth_or_panic (med_public_keys s) (unat key_index)) (\<lambda>public_key.
       Inr (signature_row L si ''multi_ed25519_signature'' public_key sig (uint (med_threshold s))
              (indices_json (med_public_key_indices s)) (int index)))))
       (enumerate 0 (med_signatures s))"

fun get_any_signature_bytes :: "signature_variant option \<Rightarrow> bytes option" where
  "get_any_signature_bytes (Some (VariantEd25519 sig)) = Some sig"
| "get_any_signature_bytes (Some (VariantKeyless sig)) = Some sig"
| "get_any_signature_bytes (Some (VariantWebauthn sig)) = Some sig"
| "get_any_signature_bytes (Some (VariantSecp256k1Ecdsa sig)) = Some sig"
| "get_any_signature_bytes None = None"

definition get_any_signature_type :: "signature_variant option \<Rightarrow> bool \<Rightarrow> string option" where
  "get_any_signature_type variant is_single_sender =
     (let prefix = (if is_single_sender then ''single_sender'' else ''multi_key'') in
      case variant of
        Some (VariantEd25519 _) \<Rightarrow> Some (prefix @ ''_ed25519_signature'')
      | Some (VariantKeyless _) \<Rightarrow> Some (prefix @ ''_keyless_signature'')
      | Some (VariantWebauthn _) \<Rightarrow> Some (prefix @ ''_webauthn_signature'')
      | Some (VariantSecp256k1Ecdsa _) \<Rightarrow> Some (prefix @ ''_secp256k1_ecdsa_signature'')
      | None \<Rightarrow> None)"

definition signature_bytes_of :: "any_signature \<Rightarrow> bytes" where
  "signature_bytes_of s =
     (case get_any_signature_bytes (any_signature_variant s) of
        Some b \<Rightarrow> b | None \<Rightarrow> any_signature_bytes s)"

text \<open>The type of a signature: by its variant, or by the number older nodes sent.\<close>

definition single_key_type :: "libs \<Rightarrow> any_signature \<Rightarrow> string" where
  "single_key_type L sig =
     (case get_any_signature_type (any_signature_variant sig) True of
        Some t \<Rightarrow> t
      | None \<Rightarrow>
          (case lib_any_signature_type L (any_type sig) of
             Some AnyEd25519 \<Rightarrow> ''single_key_ed25519_signature''
           | Some AnySecp256k1Ecdsa \<Rightarrow> ''single_key_secp256k1_ecdsa_signature''
           | _ \<Rightarrow> []))"

definition multi_key_type :: "libs \<Rightarrow> any_signature \<Rightarrow> string" where
  "multi_key_type L sig =
     (case get_any_signature_type (any_signature_variant sig) False of
        Some t \<Rightarrow> t
      | None \<Rightarrow>
          (case lib_any_signature_type L (any_type sig) of
             Some AnyEd25519 \<Rightarrow> ''multi_key_ed25519_signature''
           | Some AnySecp256k1Ecdsa \<Rightarrow> ''multi_key_secp256k1_ecdsa_signature''
           | _ \<Rightarrow> ''unknown''))"

definition parse_single_key_signature ::
  "libs \<Rightarrow> signer_info \<Rightarrow> single_key_signature \<Rightarrow> failure + signature" where
  "parse_single_key_signature L si s =
     and_then (expect ''called Option::unwrap on a None value'' (sks_signature s)) (\<lambda>sig.
     and_then (expect ''called Option::unwrap on a None value'' (sks_public_key s)) (\<lambda>public_key.
     Inr (signature_row L si (single_key_type L sig) public_key (signature_bytes_of sig) 1 (JArray []) 0)))"

text \<open>The public key of the signature at position \<open>index\<close> is looked up at that position.\<close>

definition parse_multi_key_signature ::
  "libs \<Rightarrow> signer_info \<Rightarrow> multi_key_signature \<Rightarrow> failure + signature list" where
  "parse_multi_key_signature L si s =
     map_result (\<lambda>(index, signature).
       and_then (nth_or_panic (mks_public_keys s) index) (\<lambda>public_key.
       and_then (expect ''called Option::unwrap on a None value'' (ixs_signature signature)) (\<lambda>sig.
       Inr (signature_row L si (multi_key_type L sig) public_key (signature_bytes_of sig)
              (uint (mks_signatures_required s)) (indices_json (map ixs_index (mks_signatures s)))
              (int index)))))
       (enumerate 0 (mks_signatures s))"

definition parse_multi_agent_signature_helper ::
  "libs \<Rightarrow> signer_info \<Rightarrow> account_signature \<Rightarrow> failure + signature list" where
  "parse_multi_agent_signature_helper L si s =
     and_then (expect ''called Option::unwrap on a None value'' (acc_signature s)) (\<lambda>signature.
       case signature of
         AccountEd25519 sig \<Rightarrow> Inr [parse_ed25519_signature L si sig]
       | AccountMultiEd25519 sig \<Rightarrow> parse_multi_ed25519_signature L si sig
       | AccountSingleKey sig \<Rightarrow> and_then (parse_single_key_signature L si sig) (\<lambda>r. Inr [r])
       | AccountMultiKey sig \<Rightarrow> parse_multi_key_signature L si sig)"

definition sender_info :: "string \<Rightarrow> i64 \<Rightarrow> i64 \<Rightarrow> signer_info" where
  "sender_info sender version height =
     \<lparr>si_sender = sender, si_transaction_version = version, si_transaction_block_height = height,
      si_is_sender_primary = True, si_multi_agent_index = 0, si_override_address = None\<rparr>"

definition secondary_info :: "string \<Rightarrow> i64 \<Rightarrow> i64 \<Rightarrow> nat \<Rightarrow> string \<Rightarrow> signer_info" where
  "secondary_info sender version height index address =
     \<lparr>si_sender = sender, si_transaction_version = version, si_transaction_block_height = height,
      si_is_sender_primary = False, si_multi_agent_index = int index,
      si_override_address = Some address\<rparr>"

text \<open>A missing secondary signature is an \<open>Err\<close>, a missing sender a panic.\<close>

definition parse_multi_agent_signature ::
  "libs \<Rightarrow> string \<Rightarrow> i64 \<Rightarrow> i64 \<Rightarrow> 'b multi_agent_signature_scheme \<Rightarrow> failure + signature list" where
  "parse_multi_agent_signature L sender version height s =
     and_then (expect ''called Option::unwrap on a None value'' (mas_sender s)) (\<lambda>sender_sig.
     and_then (parse_multi_agent_signature_helper L (sender_info sender version height) sender_sig) (\<lambda>primary.
     and_then (map_result (\<lambda>(index, address).
         and_then (if index < length (mas_secondary_signers s) then Inr (mas_secondary_signers s ! index)
                   else Inl (Err ''Failed to parse index for multi agent secondary signers''))
           (parse_multi_agent_signature_helper L (secondary_info sender version height index address)))
         (enumerate 0 (mas_secondary_signer_addresses s))) (\<lambda>secondary.
     Inr (primary @ concat secondary))))"

text \<open>\<open>parse_fee_payer_signature\<close> does the same on the fields a fee payer signature shares.\<close>

definition parse_fee_payer_signature ::
  "libs \<Rightarrow> string \<Rightarrow> i64 \<Rightarrow> i64 \<Rightarrow> fee_payer_signature \<Rightarrow> failure + signature list" where
  "parse_fee_payer_signature L sender version height s = parse_multi_agent_signature L sender version height s"

definition parse_single_sender ::
  "libs \<Rightarrow> string \<Rightarrow> i64 \<Rightarrow> i64 \<Rightarrow> account_signature option \<Rightarrow> failure + signature list" where
  "parse_single_sender L sender version height s =
     and_then (expect ''called Option::unwrap on a None value'' s) (\<lambda>signature.
     let si = sender_info sender version height in
       case acc_signature signature of
         Some (AccountSingleKey s) \<Rightarrow> and_then (parse_single_key_signature L si s) (\<lambda>r. Inr [r])
       | Some (AccountMultiKey s) \<Rightarrow> parse_multi_key_signature L si s
       | Some (AccountEd25519 s) \<Rightarrow> Inr [parse_ed25519_signature L si s]
       | Some (AccountMultiEd25519 s) \<Rightarrow> parse_multi_ed25519_signature L si s
       | None \<Rightarrow> Inr [])"

definition from_user_transaction ::
  "libs \<Rightarrow> transaction_signature \<Rightarrow> string \<Rightarrow> i64 \<Rightarrow> i64 \<Rightarrow> failure + signature list" where
  "from_user_transaction L s sender version height =
     and_then (expect ''called Option::unwrap on a None value'' (sig_signature s)) (\<lambda>sig.
       case sig of
         SigEd25519 s \<Rightarrow> Inr [parse_ed25519_signature L (sender_info sender version height) s]
       | SigMultiEd25519 s \<Rightarrow> parse_multi_ed25519_signature L (sender_info sender version height) s
       | SigMultiAgent s \<Rightarrow> parse_multi_agent_signature L sender version height s
       | SigFeePayer s \<Rightarrow> parse_fee_payer_signature L sender version height s
       | SigSingleSender s \<Rightarrow> parse_single_sender L sender version height s)"

section \<open>One row per signature\<close>

definition sig_pk :: "signature \<Rightarrow> i64 \<times> i64 \<times> i64 \<times> bool" where
  "sig_pk r = (sg_transaction_version r, sg_multi_agent_index r, sg_multi_sig_index r, sg_is_sender_primary r)"

text \<open>The rows of one signer are numbered from 0 and carry what is known of the signer.\<close>

definition row_for :: "signer_info \<Rightarrow> nat \<Rightarrow> signature \<Rightarrow> bool" where
  "row_for si i r \<longleftrightarrow>
     sig_pk r = (si_transaction_version si, si_multi_agent_index si, int i, si_is_sender_primary si) \<and>
     sg_signer r = signer_of si \<and> sg_transaction_block_height r = si_transaction_block_height si"

definition signer_rows :: "signer_info \<Rightarrow> signature list \<Rightarrow> bool" where
  "signer_rows si rows \<longleftrightarrow> (\<forall>i < length rows. row_for si i (rows ! i))"

lemma row_for_row [simp]: "row_for si i (signature_row L si kind pk sig th ix (int i))"
  by (simp add: row_for_def sig_pk_def signature_row_def)

lemma row_for_row_0 [simp]: "row_for si 0 (signature_row L si kind pk sig th ix 0)"
  by (simp add: row_for_def sig_pk_def signature_row_def)

lemma signer_rows_enumerate:
  assumes "map_result f (enumerate 0 xs) = Inr rs" and "\<And>i x r. f (i, x) = Inr r \<Longrightarrow> row_for si i r"
  shows "signer_rows si rs"
proof -
  have "list_all2 (\<lambda>p r. f p = Inr r) (enumerate 0 xs) rs" using assms(1) by (simp add: map_result_Inr)
  then have "length rs = length xs" and "i < length xs \<Longrightarrow> f (i, xs ! i) = Inr (rs ! i)" for i
    by (auto simp: list_all2_conv_all_nth nth_enumerate_eq)
  then show ?thesis using assms(2) unfolding signer_rows_def by metis
qed

lemmas row_parsers =
  parse_multi_ed25519_signature_def parse_multi_key_signature_def parse_single_key_signature_def
  parse_ed25519_signature_def

lemma parse_multi_ed25519_rows: "parse_multi_ed25519_signature L si s = Inr rows \<Longrightarrow> signer_rows si rows"
  unfolding row_parsers by (rule signer_rows_enumerate, assumption) auto

lemma parse_multi_key_rows: "parse_multi_key_signature L si s = Inr rows \<Longrightarrow> signer_rows si rows"
  unfolding row_parsers by (rule signer_rows_enumerate, assumption) auto

lemma parse_single_key_rows: "parse_single_key_signature L si s = Inr r \<Longrightarrow> signer_rows si [r]"
  by (auto simp: row_parsers signer_rows_def)

lemma parse_ed25519_rows: "signer_rows si [parse_ed25519_signature L si s]"
  by (simp add: row_parsers signer_rows_def)

lemma helper_rows:
  assumes "parse_multi_agent_signature_helper L si s = Inr rows"
  shows "signer_rows si rows"
proof -
  obtain sig where sig: "acc_signature s = Some sig"
    using assms by (auto simp: parse_multi_agent_signature_helper_def)
  with assms show ?thesis
    by (cases sig) (auto simp: parse_multi_agent_signature_helper_def parse_ed25519_rows
        dest: parse_multi_ed25519_rows parse_multi_key_rows parse_single_key_rows)
qed

lemma signer_rows_pk:
  "signer_rows si rows \<Longrightarrow> r \<in> set rows \<Longrightarrow>
    \<exists>i. sig_pk r = (si_transaction_version si, si_multi_agent_index si, int i, si_is_sender_primary si)"
  by (auto simp: signer_rows_def in_set_conv_nth row_for_def)

lemma signer_rows_distinct: "signer_rows si rows \<Longrightarrow> distinct (map sig_pk rows)"
  by (auto simp: signer_rows_def distinct_conv_nth row_for_def)

text \<open>The secondary signers: the rows of signer \<open>i\<close> have \<open>i\<close> as their second key component.\<close>

lemma secondary_rows:
  assumes "map_result (\<lambda>(index, address).
      and_then (sec index) (parse_multi_agent_signature_helper L (secondary_info sender version height index address)))
      (enumerate n addresses) = Inr rss"
  shows "distinct (map sig_pk (concat rss)) \<and>
    (\<forall>r \<in> set (concat rss). \<exists>i j. n \<le> i \<and> sig_pk r = (version, int i, int j, False))"
  using assms
proof (induction addresses arbitrary: n rss)
  case (Cons a addresses)
  obtain s rows rss' where e: "sec n = Inr s"
      "parse_multi_agent_signature_helper L (secondary_info sender version height n a) s = Inr rows"
      "map_result (\<lambda>(index, address). and_then (sec index)
        (parse_multi_agent_signature_helper L (secondary_info sender version height index address)))
        (enumerate (Suc n) addresses) = Inr rss'" "rss = rows # rss'"
    using Cons.prems by auto
  have first: "\<exists>j. sig_pk r = (version, int n, int j, False)" if "r \<in> set rows" for r
    using signer_rows_pk [OF helper_rows [OF e(2)] that] by (simp add: secondary_info_def)
  note rest = Cons.IH [OF e(3)]
  have "sig_pk ` set rows \<inter> sig_pk ` set (concat rss') = {}"
    using first rest by fastforce
  then have "distinct (map sig_pk (concat rss))"
    using signer_rows_distinct [OF helper_rows [OF e(2)]] rest by (simp add: e(4))
  moreover have "\<exists>i j. n \<le> i \<and> sig_pk r = (version, int i, int j, False)" if "r \<in> set (concat rss)" for r
    using that first rest unfolding e(4) by (fastforce dest: Suc_leD)
  ultimately show ?case by blast
qed simp

lemma multi_agent_rows:
  assumes "parse_multi_agent_signature L sender version height s = Inr rows"
  shows "distinct (map sig_pk rows) \<and> (\<forall>r \<in> set rows. sg_transaction_version r = version)"
proof -
  obtain primary rss where p: "signer_rows (sender_info sender version height) primary"
    and r: "map_result (\<lambda>(index, address).
         and_then (if index < length (mas_secondary_signers s) then Inr (mas_secondary_signers s ! index)
                   else Inl (Err ''Failed to parse index for multi agent secondary signers''))
           (parse_multi_agent_signature_helper L (secondary_info sender version height index address)))
         (enumerate 0 (mas_secondary_signer_addresses s)) = Inr rss"
    and rows: "rows = primary @ concat rss"
    using assms by (auto simp: parse_multi_agent_signature_def dest: helper_rows)
  have first: "\<exists>j. sig_pk x = (version, 0, int j, True)" if "x \<in> set primary" for x
    using signer_rows_pk [OF p that] by (simp add: sender_info_def)
  have "sig_pk ` set primary \<inter> sig_pk ` set (concat rss) = {}"
    using first secondary_rows [OF r] by fastforce
  then have "distinct (map sig_pk rows)"
    using signer_rows_distinct [OF p] secondary_rows [OF r] by (simp add: rows)
  moreover have "sg_transaction_version x = version" if "x \<in> set rows" for x
    using that first secondary_rows [OF r] unfolding rows sig_pk_def by fastforce
  ultimately show ?thesis by blast
qed

lemma sender_rows:
  "signer_rows (sender_info sender version height) rows \<Longrightarrow>
    distinct (map sig_pk rows) \<and> (\<forall>r \<in> set rows. sg_transaction_version r = version)"
  using signer_rows_distinct signer_rows_pk by (fastforce simp: sender_info_def sig_pk_def)

lemma from_user_transaction_keys:
  assumes "from_user_transaction L s sender version height = Inr rows"
  shows "distinct (map sig_pk rows) \<and> list_all (\<lambda>r. sg_transaction_version r = version) rows"
proof -
  obtain sig where sig: "sig_signature s = Some sig" using assms by (auto simp: from_user_transaction_def)
  have "distinct (map sig_pk rows) \<and> (\<forall>r \<in> set rows. sg_transaction_version r = version)"
  proof (cases sig)
    case (SigSingleSender a)
    with assms sig obtain acc where a: "a = Some acc"
      by (auto simp: from_user_transaction_def parse_single_sender_def)
    with assms sig SigSingleSender show ?thesis
      by (auto simp: from_user_transaction_def parse_single_sender_def Let_def split: option.splits
          account_signature_enum.splits intro!: sender_rows parse_ed25519_rows
          dest: parse_multi_ed25519_rows parse_multi_key_rows parse_single_key_rows)
  next
    case (SigMultiAgent m)
    with assms sig multi_agent_rows show ?thesis by (simp add: from_user_transaction_def)
  next
    case (SigFeePayer m)
    with assms sig multi_agent_rows show ?thesis
      by (simp add: from_user_transaction_def parse_fee_payer_signature_def)
  qed (use assms sig in \<open>auto simp: from_user_transaction_def
      intro!: sender_rows parse_ed25519_rows dest: parse_multi_ed25519_rows\<close>)
  then show ?thesis by (simp add: list_all_iff)
qed

text \<open>
  C39: the signatures of a transaction, of whatever kind and nested in whatever way, become rows with
  pairwise different keys, all under the version of the transaction: no signature is lost to the
  \<open>ON CONFLICT DO NOTHING\<close> of their insert.
\<close>

theorem signature_keys_distinct:
  assumes "from_user_transaction L s sender version height = Inr rows"
  shows "distinct (map sig_pk rows) \<and> list_all (\<lambda>r. sg_transaction_version r = version) rows"
  by (rule from_user_transaction_keys [OF assms])

definition sample_multi_key :: multi_key_signature where
  "sample_multi_key =
     \<lparr>mks_public_keys = [[1], [2]],
      mks_signatures = [\<lparr>ixs_index = 1, ixs_signature = Some \<lparr>any_type = 1, any_signature_bytes = [9],
        any_signature_variant = None\<rparr>\<rparr>],
      mks_signatures_required = 1\<rparr>"

theorem signature_keys_distinct_witness:
  "\<exists>rows. from_user_transaction sample_libs
      \<lparr>sig_signature = Some (SigMultiAgent \<lparr>mas_sender = Some \<lparr>acc_signature = Some (AccountMultiKey sample_multi_key)\<rparr>,
         mas_secondary_signer_addresses = [''0xb''],
         mas_secondary_signers = [\<lparr>acc_signature = Some (AccountMultiKey sample_multi_key)\<rparr>]\<rparr>)\<rparr> ''0xa'' 7 1 = Inr rows \<and>
    length rows = 2 \<and> distinct (map sig_pk rows)"
proof -
  let ?s = "\<lparr>sig_signature = Some (SigMultiAgent \<lparr>mas_sender = Some \<lparr>acc_signature = Some (AccountMultiKey sample_multi_key)\<rparr>,
         mas_secondary_signer_addresses = [''0xb''],
         mas_secondary_signers = [\<lparr>acc_signature = Some (AccountMultiKey sample_multi_key)\<rparr>]\<rparr>)\<rparr>"
  obtain rows where e: "from_user_transaction sample_libs ?s ''0xa'' 7 1 = Inr rows" and l: "length rows = 2"
    by (simp add: from_user_transaction_def parse_multi_agent_signature_def
        parse_multi_agent_signature_helper_def parse_multi_key_signature_def nth_or_panic_def sample_multi_key_def)
  from signature_keys_distinct [OF e] have "distinct (map sig_pk rows)" by (rule conjunct1)
  with e l show ?thesis by blast
qed

lemma signature_row_sel:
  "signature_row L si kind pk sig th ix i = r \<Longrightarrow> sg_public_key r = hex_0x L pk \<and> sg_public_key_indices r = ix"
  by (auto simp: signature_row_def)

text \<open>
  C40: the public key stored with a signature. For a multi-Ed25519 signature it is the key that the
  signature's entry of \<open>public_key_indices\<close> names. For a multi-key signature it is the key at the
  position of the signature in the list, whatever index the signature names (its row still lists the
  named indices), so a signature by any key but the first ones is stored with a key of somebody else.
\<close>

theorem stored_public_keys:
  "(parse_multi_ed25519_signature L si s = Inr rows \<longrightarrow>
     (\<forall>i < length rows. sg_public_key (rows ! i) =
        hex_0x L (med_public_keys s ! unat (med_public_key_indices s ! i)))) \<and>
   (parse_multi_key_signature L si m = Inr mrows \<longrightarrow>
     (\<forall>i < length mrows. sg_public_key (mrows ! i) = hex_0x L (mks_public_keys m ! i) \<and>
        sg_public_key_indices (mrows ! i) = indices_json (map ixs_index (mks_signatures m))))"
proof (intro conjI impI allI)
  fix i
  assume "parse_multi_ed25519_signature L si s = Inr rows" and "i < length rows"
  then show "sg_public_key (rows ! i) = hex_0x L (med_public_keys s ! unat (med_public_key_indices s ! i))"
    by (auto simp: parse_multi_ed25519_signature_def map_result_Inr list_all2_conv_all_nth nth_enumerate_eq
        nth_or_panic_def split: if_splits dest!: spec [of _ i] signature_row_sel)
next
  fix i
  assume "parse_multi_key_signature L si m = Inr mrows" and "i < length mrows"
  then show "sg_public_key (mrows ! i) = hex_0x L (mks_public_keys m ! i)"
    and "sg_public_key_indices (mrows ! i) = indices_json (map ixs_index (mks_signatures m))"
    by (auto simp: parse_multi_key_signature_def map_result_Inr list_all2_conv_all_nth nth_enumerate_eq
        nth_or_panic_def split: if_splits dest!: spec [of _ i] signature_row_sel)
qed

theorem stored_public_keys_witness:
  "\<exists>r. parse_multi_key_signature sample_libs (sender_info ''0xa'' 7 1) sample_multi_key = Inr [r] \<and>
    sg_public_key r = hex_0x sample_libs [1] \<and> sg_public_key_indices r = JArray [JInt 1]"
proof -
  let ?si = "sender_info ''0xa'' 7 1"
  obtain r where r: "parse_multi_key_signature sample_libs ?si sample_multi_key = Inr [r]"
    by (simp add: parse_multi_key_signature_def nth_or_panic_def sample_multi_key_def)
  with stored_public_keys [of sample_libs ?si _ _ sample_multi_key "[r]"] show ?thesis
    by (simp add: indices_json_def sample_multi_key_def)
qed

end
