(* ===== verification/User_Transactions.thy ===== *)
theory User_Transactions
  imports Signatures Convergence Default_Models
begin

text \<open>
  \<open>models/user_transactions_models/user_transactions.rs\<close> and \<open>processors/user_transaction_processor.rs\<close>:
  one row per user transaction, and the rows of its signatures.
\<close>

section \<open>Rows\<close>

record user_transaction_model =
  utm_version :: i64
  utm_block_height :: i64
  utm_parent_signature_type :: string
  utm_sender :: string
  utm_sequence_number :: i64
  utm_max_gas_amount :: rat
  utm_expiration_timestamp_secs :: naive_date_time
  utm_gas_unit_price :: rat
  utm_timestamp :: naive_date_time
  utm_entry_function_id_str :: string
  utm_epoch :: i64

definition get_signatures :: "libs \<Rightarrow> user_transaction_request \<Rightarrow> i64 \<Rightarrow> i64 \<Rightarrow> failure + signature list" where
  "get_signatures L req version block_height =
     (case utr_signature req of
        Some s \<Rightarrow> unwrap_result (from_user_transaction L s (utr_sender req) version block_height)
      | None \<Rightarrow> Inr [])"

definition utm_from_transaction ::
  "libs \<Rightarrow> user_transaction \<Rightarrow> timestamp \<Rightarrow> i64 \<Rightarrow> i64 \<Rightarrow> i64 \<Rightarrow>
   failure + user_transaction_model \<times> signature list" where
  "utm_from_transaction L txn timestamp block_height epoch version =
     and_then (expect ''Sends is not present in user txn'' (ut_request txn)) (\<lambda>req.
     and_then (case utr_signature req of
                 Some s \<Rightarrow> get_signature_type s | None \<Rightarrow> Inr []) (\<lambda>parent_signature_type.
     and_then (expect ''Expiration timestamp is not present in user txn''
                 (utr_expiration_timestamp_secs req)) (\<lambda>expiration.
     and_then (parse_timestamp L expiration) (\<lambda>expiration_timestamp_secs.
     and_then (parse_timestamp L timestamp) (\<lambda>ts.
     and_then (get_entry_function_from_user_request req) (\<lambda>entry_function.
     and_then (get_signatures L req version block_height) (\<lambda>signatures.
     Inr (\<lparr>utm_version = version, utm_block_height = block_height,
           utm_parent_signature_type = parent_signature_type,
           utm_sender = standardize_address (utr_sender req),
           utm_sequence_number = as_i64 (utr_sequence_number req),
           utm_max_gas_amount = u64_to_bigdecimal (utr_max_gas_amount req),
           utm_expiration_timestamp_secs = expiration_timestamp_secs,
           utm_gas_unit_price = u64_to_bigdecimal (utr_gas_unit_price req),
           utm_timestamp = ts,
           utm_entry_function_id_str = (case entry_function of Some e \<Rightarrow> e | None \<Rightarrow> []),
           utm_epoch = epoch\<rparr>, signatures))))))))"

definition user_transaction_row :: "user_transaction_model \<Rightarrow> sql_row" where
  "user_transaction_row t =
     [(''version'', SqlInt (utm_version t)), (''block_height'', SqlInt (utm_block_height t)),
      (''parent_signature_type'', SqlText (utm_parent_signature_type t)),
      (''sender'', SqlText (utm_sender t)), (''sequence_number'', SqlInt (utm_sequence_number t)),
      (''max_gas_amount'', SqlNumeric (utm_max_gas_amount t)),
      (''expiration_timestamp_secs'', SqlTimestamp (utm_expiration_timestamp_secs t)),
      (''gas_unit_price'', SqlNumeric (utm_gas_unit_price t)),
      (''timestamp'', SqlTimestamp (utm_timestamp t)),
      (''entry_function_id_str'', SqlText (utm_entry_function_id_str t)),
      (''epoch'', SqlInt (utm_epoch t))]"

definition signature_table_row :: "signature \<Rightarrow> sql_row" where
  "signature_table_row s =
     [(''transaction_version'', SqlInt (sg_transaction_version s)),
      (''multi_agent_index'', SqlInt (sg_multi_agent_index s)),
      (''multi_sig_index'', SqlInt (sg_multi_sig_index s)),
      (''transaction_block_height'', SqlInt (sg_transaction_block_height s)),
      (''signer'', SqlText (sg_signer s)), (''is_sender_primary'', SqlBool (sg_is_sender_primary s)),
      (''type'', SqlText (sg_type s)), (''public_key'', SqlText (sg_public_key s)),
      (''signature'', SqlText (sg_signature s)), (''threshold'', SqlInt (sg_threshold s)),
      (''public_key_indices'', SqlJson (sg_public_key_indices s))]"

section \<open>The processor\<close>

definition insert_user_transactions_query :: "user_transaction_model list \<Rightarrow> query" where
  "insert_user_transactions_query items =
     (\<lparr>iq_table = ''user_transactions'', iq_rows = map user_transaction_row items,
       iq_target = [''version''],
       iq_action = DoUpdate [''expiration_timestamp_secs'', ''inserted_at'']\<rparr>, None)"

definition insert_signatures_query :: "signature list \<Rightarrow> query" where
  "insert_signatures_query items =
     (\<lparr>iq_table = ''signatures'', iq_rows = map signature_table_row items,
       iq_target = [''transaction_version'', ''multi_agent_index'', ''multi_sig_index'', ''is_sender_primary''],
       iq_action = DoNothing\<rparr>, None)"

text \<open>The body of the loop over the transactions of a batch, and the loop.\<close>

definition user_add ::
  "libs \<Rightarrow> transaction \<Rightarrow> user_transaction_model list \<times> signature list \<Rightarrow>
   failure + user_transaction_model list \<times> signature list" where
  "user_add L txn rows =
     (case txn_txn_data txn of
        Some (User inner) \<Rightarrow>
          and_then (expect ''called Option::unwrap on a None value'' (txn_timestamp txn)) (\<lambda>ts.
          and_then (utm_from_transaction L inner ts (as_i64 (txn_block_height txn)) (as_i64 (txn_epoch txn))
                      (as_i64 (txn_version txn))) (\<lambda>(user_transaction, sigs).
          Inr (fst rows @ [user_transaction], snd rows @ sigs)))
      | _ \<Rightarrow> Inr rows)"

definition user_rows_of ::
  "libs \<Rightarrow> transaction list \<Rightarrow> failure + user_transaction_model list \<times> signature list" where
  "user_rows_of L transactions = fold_result (user_add L) transactions ([], [])"

definition user_insert_to_db ::
  "user_transaction_model serde \<Rightarrow> signature serde \<Rightarrow> (string \<times> nat) list \<Rightarrow> pg_env \<Rightarrow>
   user_transaction_model list \<times> signature list \<Rightarrow> db_op" where
  "user_insert_to_db sdu sds per_table_chunk_sizes env rows =
     join_inserts
       [execute_in_chunks env insert_user_transactions_query sdu (fst rows)
          (get_config_table_chunk_size 11 ''user_transactions'' per_table_chunk_sizes),
        execute_in_chunks env insert_signatures_query sds (snd rows)
          (get_config_table_chunk_size 11 ''signatures'' per_table_chunk_sizes)]"

definition user_process_transactions ::
  "libs \<Rightarrow> user_transaction_model serde \<Rightarrow> signature serde \<Rightarrow> rat \<times> rat \<Rightarrow> (string \<times> nat) list \<Rightarrow> process_fn" where
  "user_process_transactions L sdu sds durations per_table_chunk_sizes =
     process_batch (user_rows_of L) (user_insert_to_db sdu sds per_table_chunk_sizes) durations"

interpretation user_processor: batch_processor "user_rows_of L" "user_insert_to_db sdu sds sizes" durations
  for L sdu sds sizes durations
proof
  fix env :: pg_env and rows
  assume "postgres (pg_exec env)"
  then show "untouched ''processor_status'' (user_insert_to_db sdu sds sizes env rows)"
    unfolding user_insert_to_db_def
    by (intro join_inserts_untouched)
      (auto intro!: execute_in_chunks_untouched simp: insert_user_transactions_query_def insert_signatures_query_def)
qed

section \<open>Every signature of a batch is stored under its own key\<close>

definition is_user :: "transaction \<Rightarrow> bool" where
  "is_user txn = (case txn_txn_data txn of Some (User _) \<Rightarrow> True | _ \<Rightarrow> False)"

lemma utm_from_transaction_keys:
  assumes "utm_from_transaction L txn ts h e v = Inr (u, sigs)"
  shows "utm_version u = v" and "distinct (map sig_pk sigs)" and "\<forall>s \<in> set sigs. sg_transaction_version s = v"
proof -
  obtain r where r: "get_signatures L r v h = Inr sigs" "utm_version u = v"
    using assms by (auto simp: utm_from_transaction_def)
  then show "utm_version u = v" by simp
  show "distinct (map sig_pk sigs)" and "\<forall>s \<in> set sigs. sg_transaction_version s = v"
    using r(1) from_user_transaction_keys by (fastforce simp: get_signatures_def list_all_iff split: option.splits)+
qed

lemma user_add_cases:
  assumes "user_add L t rows = Inr rows'"
  shows "\<exists>us sigs. rows' = (fst rows @ us, snd rows @ sigs) \<and>
    map utm_version us = map ver (filter is_user [t]) \<and> distinct (map sig_pk sigs) \<and>
    (\<forall>s \<in> set sigs. sg_transaction_version s = ver t)"
proof (cases "is_user t")
  case False
  with assms have "rows' = rows" by (auto simp: user_add_def is_user_def split: option.splits txn_data.splits)
  with False show ?thesis by (intro exI [of _ "[]"]) simp
next
  case True
  then obtain inner ts u sigs where "utm_from_transaction L inner ts (as_i64 (txn_block_height t))
      (as_i64 (txn_epoch t)) (as_i64 (txn_version t)) = Inr (u, sigs)"
    and rows': "rows' = (fst rows @ [u], snd rows @ sigs)"
    using assms by (auto simp: user_add_def is_user_def split: option.splits txn_data.splits)
  from utm_from_transaction_keys [OF this(1)] True rows' show ?thesis
    by (intro exI [of _ "[u]"] exI [of _ sigs]) (simp add: ver_def)
qed

lemma user_rows_fold:
  assumes "fold_result (user_add L) txns rows = Inr rows'" and "version_ordered txns"
  shows "\<exists>us sigs. rows' = (fst rows @ us, snd rows @ sigs) \<and>
    map utm_version us = map ver (filter is_user txns) \<and> distinct (map sig_pk sigs) \<and>
    sg_transaction_version ` set sigs \<subseteq> ver ` set txns"
  using assms
proof (induction txns arbitrary: rows)
  case (Cons t txns)
  have vo: "version_ordered txns" and new: "ver t \<notin> ver ` set txns"
    using Cons.prems(2) by (auto simp: version_ordered_def)
  obtain rows1 where r: "user_add L t rows = Inr rows1" "fold_result (user_add L) txns rows1 = Inr rows'"
    using Cons.prems(1) by auto
  obtain us1 sigs1 where 1: "rows1 = (fst rows @ us1, snd rows @ sigs1)"
      "map utm_version us1 = map ver (filter is_user [t])" "distinct (map sig_pk sigs1)"
      "\<forall>s \<in> set sigs1. sg_transaction_version s = ver t"
    using user_add_cases [OF r(1)] by blast
  obtain us sigs where 2: "rows' = (fst rows1 @ us, snd rows1 @ sigs)"
      "map utm_version us = map ver (filter is_user txns)" "distinct (map sig_pk sigs)"
      "sg_transaction_version ` set sigs \<subseteq> ver ` set txns"
    using Cons.IH [OF r(2) vo] by blast
  have "sig_pk s \<noteq> sig_pk s'" if "s \<in> set sigs1" "s' \<in> set sigs" for s s'
  proof -
    have "sg_transaction_version s = ver t" using 1(4) that(1) by blast
    moreover have "sg_transaction_version s' \<noteq> ver t" using 2(4) that(2) new by (metis image_eqI subsetD)
    ultimately show ?thesis by (auto simp: sig_pk_def)
  qed
  then have "sig_pk ` set sigs1 \<inter> sig_pk ` set sigs = {}" by blast
  then have "distinct (map sig_pk (sigs1 @ sigs))" using 1(3) 2(3) by simp
  moreover have "map utm_version (us1 @ us) = map ver (filter is_user (t # txns))"
    using 1(2) 2(2) by (simp split: if_splits)
  moreover have "sg_transaction_version ` set (sigs1 @ sigs) \<subseteq> ver ` set (t # txns)" using 1(4) 2(4) by auto
  moreover have "rows' = (fst rows @ (us1 @ us), snd rows @ (sigs1 @ sigs))" using 1(1) 2(1) by simp
  ultimately show ?case by blast
qed simp

text \<open>
  C38: a batch of transactions with increasing versions gives exactly one row for each of its user
  transactions, in order, and signature rows with pairwise different keys; so neither insert can
  propose a key twice or drop a row of the batch.
\<close>

theorem user_rows_complete:
  assumes "user_rows_of L txns = Inr (us, ss)" and "version_ordered txns"
  shows "map utm_version us = map ver (filter is_user txns) \<and> distinct (map sig_pk ss)"
  using user_rows_fold [OF assms(1) [unfolded user_rows_of_def] assms(2)] by auto

theorem user_rows_complete_witness:
  "\<exists>us ss. user_rows_of sample_libs [sample_user_txn 7, sample_user_txn 8] = Inr (us, ss) \<and>
    map utm_version us = [7, 8] \<and> distinct (map sig_pk ss)"
proof -
  obtain us ss where e: "user_rows_of sample_libs [sample_user_txn 7, sample_user_txn 8] = Inr (us, ss)"
    by (simp add: user_rows_of_def user_add_def utm_from_transaction_def sample_user_txn_def sample_libs_def
        parse_timestamp_def max_timestamp_secs_def get_entry_function_from_user_request_def get_signatures_def)
  have "version_ordered [sample_user_txn 7, sample_user_txn 8]"
    by (simp add: version_ordered_def ver_def sample_user_txn_def as_i64_small)
  from user_rows_complete [OF e this] e show ?thesis
    by (auto simp: ver_def is_user_def sample_user_txn_def as_i64_small)
qed

end
