(* ===== verification/Serde.thy ===== *)
theory Serde
  imports Util
begin

text \<open>
  Reading Rust values from JSON. \<open>serde\<close> derives the readers of the structs in \<open>models\<close>: a struct is
  read from an object by the names of its fields (others are ignored, a missing one is an error
  unless it is an \<open>Option\<close>), or from an array with one element per field. Numbers that Move prints as
  strings go through \<open>deserialize_from_string\<close> and the number parsers of the standard library.
  A reader returns \<open>None\<close> for \<open>Err\<close>. A struct that the code reads straight from a text is read from the
  parsed text here; the two differ only on texts that repeat a field name.
\<close>

type_synonym 'a reader = "json \<Rightarrow> 'a option"

section \<open>Numbers\<close>

definition digit_value :: "char \<Rightarrow> nat option" where
  "digit_value c = (let n = of_char c in if 48 \<le> n \<and> n \<le> 57 then Some (n - 48) else None)"

fun parse_digits :: "nat \<Rightarrow> string \<Rightarrow> nat option" where
  "parse_digits acc [] = Some acc"
| "parse_digits acc (c # cs) =
     (case digit_value c of None \<Rightarrow> None | Some v \<Rightarrow> parse_digits (acc * 10 + v) cs)"

definition parse_nat :: "string \<Rightarrow> nat option" where
  "parse_nat s = (if s = [] then None else parse_digits 0 s)"

text \<open>\<open>u64::from_str\<close> and \<open>i64::from_str\<close>: an optional sign, at least one digit, within the range.\<close>

definition parse_unsigned :: "nat \<Rightarrow> string \<Rightarrow> nat option" where
  "parse_unsigned width s =
     Option.bind (case s of CHR ''+'' # ds \<Rightarrow> parse_nat ds | _ \<Rightarrow> parse_nat s)
       (\<lambda>n. if n < 2 ^ width then Some n else None)"

definition parse_signed :: "nat \<Rightarrow> string \<Rightarrow> int option" where
  "parse_signed width s =
     Option.bind
       (case s of
          CHR ''-'' # ds \<Rightarrow> map_option (\<lambda>n. - int n) (parse_nat ds)
        | CHR ''+'' # ds \<Rightarrow> map_option int (parse_nat ds)
        | _ \<Rightarrow> map_option int (parse_nat s))
       (\<lambda>i. if - (2 ^ (width - 1)) \<le> i \<and> i < 2 ^ (width - 1) then Some i else None)"

definition parse_u64 :: "string \<Rightarrow> u64 option" where
  "parse_u64 s = map_option of_nat (parse_unsigned 64 s)"

definition parse_i64 :: "string \<Rightarrow> i64 option" where
  "parse_i64 s = parse_signed 64 s"

section \<open>Readers\<close>

fun read_string :: "string reader" where
  "read_string (JString s) = Some s"
| "read_string _ = None"

fun read_bool :: "bool reader" where
  "read_bool (JBool b) = Some b"
| "read_bool _ = None"

fun read_signed :: "nat \<Rightarrow> int reader" where
  "read_signed width (JInt i) = (if - (2 ^ (width - 1)) \<le> i \<and> i < 2 ^ (width - 1) then Some i else None)"
| "read_signed width _ = None"

fun read_vec :: "'a reader \<Rightarrow> 'a list reader" where
  "read_vec rd (JArray xs) = those (map rd xs)"
| "read_vec rd _ = None"

definition deserialize_from_string :: "(string \<Rightarrow> 'a option) \<Rightarrow> 'a reader" where
  "deserialize_from_string parse j = Option.bind (read_string j) parse"

text \<open>The field \<open>n\<close> of a struct with the fields \<open>names\<close>.\<close>

fun struct_value :: "string list \<Rightarrow> string \<Rightarrow> json \<Rightarrow> json option" where
  "struct_value names n (JObject kvs) = map_of kvs n"
| "struct_value names n (JArray xs) = (if length xs = length names then map_of (zip names xs) n else None)"
| "struct_value names n _ = None"

definition field :: "string list \<Rightarrow> string \<Rightarrow> 'a reader \<Rightarrow> json \<Rightarrow> 'a option" where
  "field names n rd j = Option.bind (struct_value names n j) rd"

fun is_struct :: "string list \<Rightarrow> json \<Rightarrow> bool" where
  "is_struct names (JObject kvs) = True"
| "is_struct names (JArray xs) = (length xs = length names)"
| "is_struct names _ = False"

definition read_option :: "'a reader \<Rightarrow> 'a option reader" where
  "read_option rd j = (if j = JNull then Some None else map_option Some (rd j))"

definition optional_field :: "string list \<Rightarrow> string \<Rightarrow> 'a reader \<Rightarrow> json \<Rightarrow> 'a option option" where
  "optional_field names n rd j =
     (if \<not> is_struct names j then None
      else case struct_value names n j of None \<Rightarrow> Some None | Some v \<Rightarrow> read_option rd v)"

text \<open>A number printed as a string, and a struct with the single field \<open>n\<close>.\<close>

definition read_bigdecimal :: "libs \<Rightarrow> rat reader" where
  "read_bigdecimal L = deserialize_from_string (lib_parse_bigdecimal L)"

definition read_single :: "string \<Rightarrow> 'a reader \<Rightarrow> 'a reader" where
  "read_single n rd = field [n] n rd"

definition first_of :: "'a list \<Rightarrow> 'a option" where
  "first_of xs = (case xs of [] \<Rightarrow> None | x # _ \<Rightarrow> Some x)"

text \<open>A reader's error with the context of the version and type, as \<open>anyhow\<close> carries it.\<close>

definition parse_or_err :: "'a option \<Rightarrow> failure + 'a" where
  "parse_or_err r = (case r of Some a \<Rightarrow> Inr a | None \<Rightarrow> Inl (Err ''failed to parse type''))"

text \<open>\<open>serde_json::from_str(data).map(|inner| Some(wrap(inner)))\<close> with its context.\<close>

definition from_json_str :: "libs \<Rightarrow> 'a reader \<Rightarrow> ('a \<Rightarrow> 'b) \<Rightarrow> string \<Rightarrow> failure + 'b option" where
  "from_json_str L rd wrap data =
     and_then (parse_or_err (Option.bind (lib_json_from_str L data) rd)) (\<lambda>inner. Inr (Some (wrap inner)))"

section \<open>Aggregators\<close>

text \<open>\<open>AggregatorU64\<close>, \<open>AggregatorSnapshotU64\<close> and \<open>DerivedStringSnapshot\<close> of \<open>utils/util.rs\<close>.\<close>

record aggregator_u64 =
  agg_value :: rat
  agg_max_value :: rat

definition read_aggregator_u64 :: "libs \<Rightarrow> aggregator_u64 reader" where
  "read_aggregator_u64 L j =
     Option.bind (field [''value'', ''max_value''] ''value'' (deserialize_from_string (lib_parse_bigdecimal L)) j) (\<lambda>v.
     Option.bind (field [''value'', ''max_value''] ''max_value'' (deserialize_from_string (lib_parse_bigdecimal L)) j) (\<lambda>m.
     Some \<lparr>agg_value = v, agg_max_value = m\<rparr>))"

section \<open>Properties\<close>

lemma digit_value_digit: "d < 10 \<Longrightarrow> digit_value (char_of (48 + d)) = Some d"
  by (simp add: digit_value_def)

lemma parse_digits_append:
  "parse_digits acc (s @ t) = Option.bind (parse_digits acc s) (\<lambda>n. parse_digits n t)"
  by (induction acc s rule: parse_digits.induct) (auto split: option.splits)

lemma nat_to_str_nonempty: "nat_to_str n \<noteq> []"
  by (subst nat_to_str.simps) simp

lemma parse_nat_to_str: "parse_digits 0 (nat_to_str n) = Some n"
proof (induction n rule: nat_to_str.induct)
  case (1 n)
  show ?case
  proof (cases "n < 10")
    case True
    then show ?thesis by (simp add: nat_to_str.simps [of n] digit_value_digit)
  next
    case False
    then show ?thesis
      using 1 by (simp add: nat_to_str.simps [of n] parse_digits_append digit_value_digit)
  qed
qed

lemma nat_to_str_hd: "\<exists>d s. (d :: nat) < 10 \<and> nat_to_str n = char_of (48 + d) # s"
proof (induction n rule: nat_to_str.induct)
  case (1 n)
  then show ?case by (cases "n < 10") (auto simp: nat_to_str.simps [of n])
qed

lemma digit_not_sign:
  fixes d :: nat
  assumes "d < 10"
  shows "char_of (48 + d) \<noteq> CHR ''+'' \<and> char_of (48 + d) \<noteq> CHR ''-''"
proof -
  have "digit_value (char_of (48 + d)) \<noteq> None" using assms by (simp add: digit_value_digit)
  moreover have "digit_value (CHR ''+'') = None" "digit_value (CHR ''-'') = None" by (simp_all add: digit_value_def)
  ultimately show ?thesis by auto
qed

lemma parse_unsigned_nat_to_str:
  "parse_unsigned width (nat_to_str n) = (if n < 2 ^ width then Some n else None)"
proof -
  obtain d :: nat and s where s: "d < 10" "nat_to_str n = char_of (48 + d) # s" using nat_to_str_hd by blast
  have "parse_unsigned width (nat_to_str n) =
      Option.bind (parse_nat (nat_to_str n)) (\<lambda>n. if n < 2 ^ width then Some n else None)"
    unfolding s(2) parse_unsigned_def using digit_not_sign [OF s(1)]
    by (auto split: list.splits char.splits bool.splits)
  then show ?thesis by (simp add: parse_nat_def nat_to_str_nonempty parse_nat_to_str)
qed

text \<open>
  A number printed in decimal, as the node prints every \<open>u64\<close> in its JSON, is read back exactly by
  \<open>deserialize_from_string\<close>; a number that does not fit into 64 bits is an error, never a wrapped value.
\<close>

lemma u64_string_round_trip:
  "deserialize_from_string parse_u64 (JString (nat_to_str n)) =
     (if n < 2 ^ 64 then Some (of_nat n) else None)"
  by (simp add: deserialize_from_string_def parse_u64_def parse_unsigned_nat_to_str)

end
