(* ===== verification/Coin_Models.thy ===== *)
theory Coin_Models
  imports Serde Signatures Default_Models
begin

text \<open>
  \<open>models/coin_models\<close>: the coin resources and events as the contracts at \<open>0x1\<close> write them, and the rows
  the coin processor makes of them: activities from deposit and withdraw events, balances from coin
  stores, coin infos, and the supply of the native coin from its aggregator table. A coin event does not
  name its coin; the store written in the same transaction that owns the event's handle does.
\<close>

section \<open>Resources\<close>

definition coin_addr :: string where
  "coin_addr = ''0x0000000000000000000000000000000000000000000000000000000000000001''"

definition coin_type_hash_length :: nat where "coin_type_hash_length = 5000"

definition coin_type_max :: nat where "coin_type_max = 1000"

definition aptos_coin_type_str :: string where "aptos_coin_type_str = ''0x1::aptos_coin::AptosCoin''"

record aggregator_resource =
  ar_handle :: string
  ar_key :: string

record optional_aggregator_resource =
  oar_aggregator :: "aggregator_resource list"
  oar_integer :: "rat list"

record coin_info_resource =
  cir_name :: string
  cir_symbol :: string
  cir_decimals :: int
  cir_supply :: "optional_aggregator_resource list"

record event_guid_resource =
  egr_addr :: string
  egr_creation_num :: i64

record coin_store_resource =
  csr_coin :: rat
  csr_deposit_events :: event_guid_resource
  csr_withdraw_events :: event_guid_resource
  csr_frozen :: bool

datatype coin_resource =
    CoinInfoResource coin_info_resource
  | CoinStoreResource coin_store_resource

datatype coin_event =
    WithdrawCoinEvent rat
  | DepositCoinEvent rat

definition read_aggregator_resource :: "aggregator_resource reader" where
  "read_aggregator_resource j =
     (let fd = field [''handle'', ''key''] in
      Option.bind (fd ''handle'' read_string j) (\<lambda>handle.
      Option.bind (fd ''key'' read_string j) (\<lambda>key.
      Some \<lparr>ar_handle = handle, ar_key = key\<rparr>)))"

definition read_optional_aggregator_resource :: "libs \<Rightarrow> optional_aggregator_resource reader" where
  "read_optional_aggregator_resource L j =
     (let names = [''aggregator'', ''integer''] in
      Option.bind (field names ''aggregator'' (read_single ''vec'' (read_vec read_aggregator_resource)) j) (\<lambda>aggregator.
      Option.bind (field names ''integer''
                     (read_single ''vec'' (read_vec (read_single ''value'' (read_bigdecimal L)))) j) (\<lambda>integer.
      Some \<lparr>oar_aggregator = aggregator, oar_integer = integer\<rparr>)))"

definition read_coin_info_resource :: "libs \<Rightarrow> coin_info_resource reader" where
  "read_coin_info_resource L j =
     (let names = [''name'', ''symbol'', ''decimals'', ''supply''] in
      Option.bind (field names ''name'' read_string j) (\<lambda>name.
      Option.bind (field names ''symbol'' read_string j) (\<lambda>symbol.
      Option.bind (field names ''decimals'' (read_signed 32) j) (\<lambda>decimals.
      Option.bind (field names ''supply''
                     (read_single ''vec'' (read_vec (read_optional_aggregator_resource L))) j) (\<lambda>supply.
      Some \<lparr>cir_name = name, cir_symbol = symbol, cir_decimals = decimals, cir_supply = supply\<rparr>)))))"

definition read_event_guid_resource :: "event_guid_resource reader" where
  "read_event_guid_resource j =
     (let names = [''addr'', ''creation_num''] in
      Option.bind (field names ''addr'' read_string j) (\<lambda>addr.
      Option.bind (field names ''creation_num'' (deserialize_from_string parse_i64) j) (\<lambda>creation_num.
      Some \<lparr>egr_addr = addr, egr_creation_num = creation_num\<rparr>)))"

definition read_event_handle :: "event_guid_resource reader" where
  "read_event_handle = read_single ''guid'' (read_single ''id'' read_event_guid_resource)"

definition read_coin_store_resource :: "libs \<Rightarrow> coin_store_resource reader" where
  "read_coin_store_resource L j =
     (let names = [''coin'', ''deposit_events'', ''withdraw_events'', ''frozen''] in
      Option.bind (field names ''coin'' (read_single ''value'' (read_bigdecimal L)) j) (\<lambda>coin.
      Option.bind (field names ''deposit_events'' read_event_handle j) (\<lambda>deposit_events.
      Option.bind (field names ''withdraw_events'' read_event_handle j) (\<lambda>withdraw_events.
      Option.bind (field names ''frozen'' read_bool j) (\<lambda>frozen.
      Some \<lparr>csr_coin = coin, csr_deposit_events = deposit_events,
            csr_withdraw_events = withdraw_events, csr_frozen = frozen\<rparr>)))))"

definition get_name_trunc :: "coin_info_resource \<Rightarrow> failure + string" where
  "get_name_trunc r = truncate_str (cir_name r) 32"

definition get_symbol_trunc :: "coin_info_resource \<Rightarrow> failure + string" where
  "get_symbol_trunc r = truncate_str (cir_symbol r) 10"

definition get_aggregator_metadata :: "coin_info_resource \<Rightarrow> aggregator_resource option" where
  "get_aggregator_metadata r = Option.bind (first_of (cir_supply r)) (\<lambda>inner. first_of (oar_aggregator inner))"

definition get_supply :: "optional_aggregator_resource \<Rightarrow> rat option" where
  "get_supply r = first_of (oar_integer r)"

definition get_standardized :: "event_guid_resource \<Rightarrow> event_guid_resource" where
  "get_standardized g = g\<lparr>egr_addr := standardize_address (egr_addr g)\<rparr>"

section \<open>Coin types\<close>

record coin_info_type =
  cit_coin_type :: string
  cit_creator_address :: string

text \<open>\<open>generic_type_params[0]\<close> panics on an empty vector.\<close>

definition from_move_type :: "libs \<Rightarrow> move_type \<Rightarrow> string \<Rightarrow> failure + coin_info_type" where
  "from_move_type L mt move_type_str =
     and_then (expect ''called Option::unwrap on a None value'' (mt_content mt)) (\<lambda>content.
       case content of
         ContentStruct tag \<Rightarrow>
           and_then (expect ''explicit panic'' (lib_generic_type_param L move_type_str)) (\<lambda>coin_type.
           Inr \<lparr>cit_coin_type = coin_type, cit_creator_address = st_address tag\<rparr>)
       | _ \<Rightarrow> Inl (Panic ''explicit panic''))"

definition coin_info_type_of :: "libs \<Rightarrow> write_resource \<Rightarrow> failure + coin_info_type" where
  "coin_info_type_of L wr =
     and_then (expect ''called Option::unwrap on a None value'' (wr_type wr)) (\<lambda>tag.
     and_then (nth_or_panic (st_generic_type_params tag) 0) (\<lambda>mt. from_move_type L mt (wr_type_str wr)))"

definition to_hash :: "libs \<Rightarrow> coin_info_type \<Rightarrow> string" where
  "to_hash L t = hash_str L (cit_coin_type t)"

definition get_creator_address :: "coin_info_type \<Rightarrow> string" where
  "get_creator_address t = standardize_address (cit_creator_address t)"

definition get_storage_id :: "libs \<Rightarrow> string \<Rightarrow> string \<Rightarrow> string" where
  "get_storage_id L coin_type owner_address =
     ''0x'' @ hash_str L (owner_address @ ''::'' @ coin_type)"

definition get_coin_type_trunc :: "coin_info_type \<Rightarrow> failure + string" where
  "get_coin_type_trunc t = truncate_str (cit_coin_type t) coin_type_hash_length"

definition get_coin_type_below_max :: "coin_info_type \<Rightarrow> string option" where
  "get_coin_type_below_max t =
     (if length (cit_coin_type t) > coin_type_max then None else Some (cit_coin_type t))"

section \<open>Reading resources and events\<close>

definition coin_resources :: "string list" where
  "coin_resources = [coin_addr @ ''::coin::CoinInfo'', coin_addr @ ''::coin::CoinStore'']"

definition is_resource_supported :: "string \<Rightarrow> bool" where
  "is_resource_supported data_type \<longleftrightarrow> data_type \<in> set coin_resources"

definition from_resource :: "libs \<Rightarrow> string \<Rightarrow> json \<Rightarrow> failure + coin_resource" where
  "from_resource L data_type data =
     (if data_type = coin_addr @ ''::coin::CoinInfo''
      then and_then (parse_or_err (read_coin_info_resource L data)) (\<lambda>r. Inr (CoinInfoResource r))
      else if data_type = coin_addr @ ''::coin::CoinStore''
      then and_then (parse_or_err (read_coin_store_resource L data)) (\<lambda>r. Inr (CoinStoreResource r))
      else Inl (Err ''Resource unsupported! Call is_resource_supported first.''))"

definition coin_from_write_resource :: "libs \<Rightarrow> write_resource \<Rightarrow> i64 \<Rightarrow> failure + coin_resource option" where
  "coin_from_write_resource L wr version =
     and_then (get_outer_type_from_resource L wr) (\<lambda>type_str.
     if \<not> is_resource_supported type_str then Inr None
     else and_then (from_write_resource L wr 0 version 0) (\<lambda>resource.
          and_then (expect ''called Option::unwrap on a None value'' (mres_data resource)) (\<lambda>data.
          and_then (from_resource L type_str data) (\<lambda>r. Inr (Some r)))))"

definition read_coin_amount :: "libs \<Rightarrow> string \<Rightarrow> failure + rat" where
  "read_coin_amount L data =
     parse_or_err (Option.bind (lib_json_from_str L data) (read_single ''amount'' (read_bigdecimal L)))"

definition coin_from_event :: "libs \<Rightarrow> string \<Rightarrow> string \<Rightarrow> failure + coin_event option" where
  "coin_from_event L data_type data =
     (if data_type = ''0x1::coin::WithdrawEvent''
      then and_then (read_coin_amount L data) (\<lambda>a. Inr (Some (WithdrawCoinEvent a)))
      else if data_type = ''0x1::coin::DepositEvent''
      then and_then (read_coin_amount L data) (\<lambda>a. Inr (Some (DepositCoinEvent a)))
      else Inr None)"

section \<open>Rows\<close>

record coin_info =
  cin_coin_type_hash :: string
  cin_coin_type :: string
  cin_transaction_version_created :: i64
  cin_creator_address :: string
  cin_name :: string
  cin_symbol :: string
  cin_decimals :: int
  cin_transaction_created_timestamp :: naive_date_time
  cin_supply_aggregator_table_handle :: "string option"
  cin_supply_aggregator_table_key :: "string option"

record coin_balance =
  cbal_transaction_version :: i64
  cbal_owner_address :: string
  cbal_coin_type_hash :: string
  cbal_coin_type :: string
  cbal_amount :: rat
  cbal_transaction_timestamp :: naive_date_time

record current_coin_balance =
  ccb_owner_address :: string
  ccb_coin_type_hash :: string
  ccb_coin_type :: string
  ccb_amount :: rat
  ccb_last_transaction_version :: i64
  ccb_last_transaction_timestamp :: naive_date_time

record coin_supply =
  csup_transaction_version :: i64
  csup_coin_type_hash :: string
  csup_coin_type :: string
  csup_supply :: rat
  csup_transaction_timestamp :: naive_date_time
  csup_transaction_epoch :: i64

record coin_activity =
  cact_transaction_version :: i64
  cact_event_account_address :: string
  cact_event_creation_number :: i64
  cact_event_sequence_number :: i64
  cact_owner_address :: string
  cact_coin_type :: string
  cact_amount :: rat
  cact_activity_type :: string
  cact_is_gas_fee :: bool
  cact_is_transaction_success :: bool
  cact_entry_function_id_str :: "string option"
  cact_block_height :: i64
  cact_transaction_timestamp :: naive_date_time
  cact_event_index :: "i64 option"
  cact_gas_fee_payer_address :: "string option"
  cact_storage_refund_amount :: rat

type_synonym event_to_coin_type = "(event_guid_resource \<times> string) list"

definition coin_info_from_write_resource ::
  "libs \<Rightarrow> write_resource \<Rightarrow> i64 \<Rightarrow> naive_date_time \<Rightarrow> failure + coin_info option" where
  "coin_info_from_write_resource L wr version timestamp =
     and_then (coin_from_write_resource L wr version) (\<lambda>resource.
     case resource of
       Some (CoinInfoResource inner) \<Rightarrow>
         and_then (coin_info_type_of L wr) (\<lambda>coin_info_type.
         and_then (get_coin_type_trunc coin_info_type) (\<lambda>coin_type.
         and_then (get_name_trunc inner) (\<lambda>name.
         and_then (get_symbol_trunc inner) (\<lambda>symbol.
         let agg = get_aggregator_metadata inner in
         Inr (Some \<lparr>cin_coin_type_hash = to_hash L coin_info_type, cin_coin_type = coin_type,
            cin_transaction_version_created = version,
            cin_creator_address = get_creator_address coin_info_type,
            cin_name = name, cin_symbol = symbol, cin_decimals = cir_decimals inner,
            cin_transaction_created_timestamp = timestamp,
            cin_supply_aggregator_table_handle = map_option ar_handle agg,
            cin_supply_aggregator_table_key = map_option ar_key agg\<rparr>)))))
     | _ \<Rightarrow> Inr None)"

text \<open>\<open>AHashMap::from\<close> inserts in order: the deposit handle replaces an equal withdraw handle.\<close>

definition coin_balance_from_write_resource ::
  "libs \<Rightarrow> write_resource \<Rightarrow> i64 \<Rightarrow> naive_date_time \<Rightarrow>
   failure + (coin_balance \<times> current_coin_balance \<times> event_to_coin_type) option" where
  "coin_balance_from_write_resource L wr version timestamp =
     and_then (coin_from_write_resource L wr version) (\<lambda>resource.
     case resource of
       Some (CoinStoreResource inner) \<Rightarrow>
         and_then (coin_info_type_of L wr) (\<lambda>coin_info_type.
         and_then (get_coin_type_trunc coin_info_type) (\<lambda>coin_type.
         let owner_address = standardize_address (wr_address wr) in
         Inr (Some
           (\<lparr>cbal_transaction_version = version, cbal_owner_address = owner_address,
             cbal_coin_type_hash = to_hash L coin_info_type, cbal_coin_type = coin_type,
             cbal_amount = csr_coin inner, cbal_transaction_timestamp = timestamp\<rparr>,
            \<lparr>ccb_owner_address = owner_address, ccb_coin_type_hash = to_hash L coin_info_type,
             ccb_coin_type = coin_type, ccb_amount = csr_coin inner,
             ccb_last_transaction_version = version,
             ccb_last_transaction_timestamp = timestamp\<rparr>,
            AList.update (get_standardized (csr_deposit_events inner)) coin_type
              [(get_standardized (csr_withdraw_events inner), coin_type)]))))
     | _ \<Rightarrow> Inr None)"

definition aptos_coin_supply_table_handle :: string where
  "aptos_coin_supply_table_handle = ''0x1b854694ae746cdbd8d44186ca4929b2b337df21d1c74633be19b2710552fdca''"

definition aptos_coin_supply_table_key :: string where
  "aptos_coin_supply_table_key = ''0x619dc29a0aac8fa146714058e8dd6d2d0f3bdf5f6331907bf91f3acd81e6935''"

definition coin_supply_from_write_table_item ::
  "libs \<Rightarrow> write_table_item \<Rightarrow> i64 \<Rightarrow> naive_date_time \<Rightarrow> i64 \<Rightarrow> failure + coin_supply option" where
  "coin_supply_from_write_table_item L w version timestamp epoch =
     (case wti_data w of
        None \<Rightarrow> Inr None
      | Some data \<Rightarrow>
          if \<not> (wtd_key_type data = ''address'' \<and> wtd_value_type data = ''u128'') then Inr None
          else if wti_handle w \<noteq> aptos_coin_supply_table_handle then Inr None
          else
            and_then (from_write_table_item L w 0 version 0) (\<lambda>(item, _).
            and_then (expect ''called Option::unwrap on a None value'' (json_as_str (titem_decoded_key item))) (\<lambda>table_key.
            if table_key \<noteq> aptos_coin_supply_table_key then Inr None
            else
              and_then (expect ''called Option::unwrap on a None value'' (titem_decoded_value item)) (\<lambda>value.
              and_then (expect ''called Option::unwrap on a None value'' (json_as_str value)) (\<lambda>s.
              case lib_parse_bigdecimal L s of
                None \<Rightarrow> Inl (Err ''cannot parse string as u128'')
              | Some supply \<Rightarrow>
                  Inr (Some \<lparr>csup_transaction_version = version,
                    csup_coin_type_hash = hash_str L aptos_coin_type_str,
                    csup_coin_type = aptos_coin_type_str, csup_supply = supply,
                    csup_transaction_timestamp = timestamp, csup_transaction_epoch = epoch\<rparr>))))))"

section \<open>Activities\<close>

definition gas_fee_event :: string where "gas_fee_event = ''0x1::aptos_coin::GasFeeEvent''"

definition burn_gas_event_creation_num :: i64 where "burn_gas_event_creation_num = -1"

definition burn_gas_event_index :: i64 where "burn_gas_event_index = -1"

text \<open>\<open>FeeStatement\<close> is the refund of storage fees it carries.\<close>

type_synonym fee_statement = u64

definition fee_statement_from_event :: "libs \<Rightarrow> string \<Rightarrow> string \<Rightarrow> failure + fee_statement option" where
  "fee_statement_from_event L data_type data =
     (if data_type = ''0x1::transaction_fee::FeeStatement''
      then and_then (expect ''explicit panic''
             (Option.bind (lib_json_from_str L data)
                (read_single ''storage_fee_refund_octas'' (deserialize_from_string parse_u64))))
             (\<lambda>fs. Inr (Some fs))
      else Inr None)"

fun coin_event_amount :: "coin_event \<Rightarrow> rat" where
  "coin_event_amount (WithdrawCoinEvent amount) = amount"
| "coin_event_amount (DepositCoinEvent amount) = amount"

definition from_parsed_event ::
  "string \<Rightarrow> event_pb \<Rightarrow> coin_event \<Rightarrow> i64 \<Rightarrow> event_to_coin_type \<Rightarrow> i64 \<Rightarrow> string option \<Rightarrow>
   naive_date_time \<Rightarrow> i64 \<Rightarrow> failure + coin_activity" where
  "from_parsed_event event_type event coin_event version event_to_coin_type block_height
       entry_function_id_str transaction_timestamp event_index =
     and_then (expect ''called Option::unwrap on a None value'' (ev_key event)) (\<lambda>key.
     let address = standardize_address (ek_account_address key);
         guid = \<lparr>egr_addr = address, egr_creation_num = as_i64 (ek_creation_number key)\<rparr> in
     and_then (expect ''Could not find event in resources (CoinStore)'' (map_of event_to_coin_type guid)) (\<lambda>coin_type.
     Inr \<lparr>cact_transaction_version = version, cact_event_account_address = address,
          cact_event_creation_number = as_i64 (ek_creation_number key),
          cact_event_sequence_number = as_i64 (ev_sequence_number event),
          cact_owner_address = address, cact_coin_type = coin_type,
          cact_amount = coin_event_amount coin_event, cact_activity_type = event_type,
          cact_is_gas_fee = False, cact_is_transaction_success = True,
          cact_entry_function_id_str = entry_function_id_str, cact_block_height = block_height,
          cact_transaction_timestamp = transaction_timestamp, cact_event_index = Some event_index,
          cact_gas_fee_payer_address = None, cact_storage_refund_amount = 0\<rparr>))"

definition get_gas_event ::
  "transaction_info \<Rightarrow> user_transaction_request \<Rightarrow> string option \<Rightarrow> i64 \<Rightarrow> naive_date_time \<Rightarrow> i64 \<Rightarrow>
   fee_statement option \<Rightarrow> failure + coin_activity" where
  "get_gas_event info req entry_function_id_str transaction_version transaction_timestamp block_height fee_statement =
     and_then (expect ''User transaction must have signature'' (utr_signature req)) (\<lambda>signature.
     and_then (get_fee_payer_address signature) (\<lambda>gas_fee_payer_address.
     Inr \<lparr>cact_transaction_version = transaction_version,
          cact_event_account_address = standardize_address (utr_sender req),
          cact_event_creation_number = burn_gas_event_creation_num,
          cact_event_sequence_number = as_i64 (utr_sequence_number req),
          cact_owner_address = standardize_address (utr_sender req),
          cact_coin_type = aptos_coin_type_str,
          cact_amount = u64_to_bigdecimal (ti_gas_used info * utr_gas_unit_price req),
          cact_activity_type = gas_fee_event, cact_is_gas_fee = True,
          cact_is_transaction_success = ti_success info,
          cact_entry_function_id_str = entry_function_id_str, cact_block_height = block_height,
          cact_transaction_timestamp = transaction_timestamp,
          cact_event_index = Some burn_gas_event_index,
          cact_gas_fee_payer_address = gas_fee_payer_address,
          cact_storage_refund_amount = (case fee_statement of Some fs \<Rightarrow> u64_to_bigdecimal fs | None \<Rightarrow> 0)\<rparr>))"

section \<open>A transaction\<close>

record coin_rows =
  crw_activities :: "coin_activity list"
  crw_balances :: "coin_balance list"
  crw_infos :: "(string \<times> coin_info) list"
  crw_current :: "((string \<times> string) \<times> current_coin_balance) list"
  crw_supply :: "coin_supply list"

record coin_changes =
  cch_balances :: "coin_balance list"
  cch_infos :: "(string \<times> coin_info) list"
  cch_current :: "((string \<times> string) \<times> current_coin_balance) list"
  cch_event_to_coin_type :: event_to_coin_type
  cch_supply :: "coin_supply list"

text \<open>What a change of the write set says about coins, and the step of the loop over the changes.\<close>

type_synonym coin_change =
  "coin_info option \<times> (coin_balance \<times> current_coin_balance \<times> event_to_coin_type) option \<times> coin_supply option"

definition coin_change_data ::
  "libs \<Rightarrow> i64 \<Rightarrow> naive_date_time \<Rightarrow> i64 \<Rightarrow> write_set_change_pb \<Rightarrow> failure + coin_change" where
  "coin_change_data L version timestamp epoch wsc =
     and_then (expect ''called Option::unwrap on a None value'' (wsc_change wsc)) (\<lambda>change.
     and_then (case change of
         WriteResource wr \<Rightarrow>
           and_then (unwrap_result (coin_info_from_write_resource L wr version timestamp)) (\<lambda>i.
           and_then (unwrap_result (coin_balance_from_write_resource L wr version timestamp)) (\<lambda>b.
           Inr (i, b)))
       | _ \<Rightarrow> Inr (None, None)) (\<lambda>(maybe_coin_info, maybe_coin_balance_data).
     and_then (case change of
         WriteTableItem item \<Rightarrow> unwrap_result (coin_supply_from_write_table_item L item version timestamp epoch)
       | _ \<Rightarrow> Inr None) (\<lambda>maybe_coin_supply.
     Inr (maybe_coin_info, maybe_coin_balance_data, maybe_coin_supply))))"

fun coin_store_change :: "coin_change \<Rightarrow> coin_changes \<Rightarrow> coin_changes" where
  "coin_store_change (i, b, s) st =
     st\<lparr>cch_infos := (case i of Some info \<Rightarrow> AList.update (cin_coin_type info) info (cch_infos st)
                               | None \<Rightarrow> cch_infos st),
        cch_current := (case b of
            Some (balance, current, _) \<Rightarrow>
              AList.update (cbal_owner_address balance, cbal_coin_type balance) current (cch_current st)
          | None \<Rightarrow> cch_current st),
        cch_balances := (case b of Some (balance, _, _) \<Rightarrow> cch_balances st @ [balance] | None \<Rightarrow> cch_balances st),
        cch_event_to_coin_type := (case b of
            Some (_, _, event_to_coin_type) \<Rightarrow> hm_extend (cch_event_to_coin_type st) event_to_coin_type
          | None \<Rightarrow> cch_event_to_coin_type st),
        cch_supply := (case s of Some supply \<Rightarrow> cch_supply st @ [supply] | None \<Rightarrow> cch_supply st)\<rparr>"

definition coin_add_change ::
  "libs \<Rightarrow> i64 \<Rightarrow> naive_date_time \<Rightarrow> i64 \<Rightarrow> write_set_change_pb \<Rightarrow> coin_changes \<Rightarrow> failure + coin_changes" where
  "coin_add_change L version timestamp epoch wsc st =
     and_then (coin_change_data L version timestamp epoch wsc) (\<lambda>x. Inr (coin_store_change x st))"

definition no_coin_changes :: coin_changes where
  "no_coin_changes = \<lparr>cch_balances = [], cch_infos = [], cch_current = [], cch_event_to_coin_type = [], cch_supply = []\<rparr>"

definition coin_activity_of ::
  "libs \<Rightarrow> i64 \<Rightarrow> event_to_coin_type \<Rightarrow> i64 \<Rightarrow> string option \<Rightarrow> naive_date_time \<Rightarrow> nat \<times> event_pb \<Rightarrow>
   failure + coin_activity list" where
  "coin_activity_of L version event_to_coin_type block_height entry_function_id_str timestamp ie =
     (case ie of (index, event) \<Rightarrow>
      and_then (unwrap_result (coin_from_event L (ev_type_str event) (ev_data event))) (\<lambda>parsed.
      case parsed of
        None \<Rightarrow> Inr []
      | Some parsed_event \<Rightarrow>
          and_then (from_parsed_event (ev_type_str event) event parsed_event version event_to_coin_type
                      block_height entry_function_id_str timestamp (int index)) (\<lambda>a. Inr [a])))"

definition coin_events_of :: "txn_data \<Rightarrow> (event_pb list \<times> user_transaction_request option) option" where
  "coin_events_of data =
     (case data of
        Genesis inner \<Rightarrow> Some (gen_events inner, None)
      | User inner \<Rightarrow> Some (ut_events inner, ut_request inner)
      | _ \<Rightarrow> None)"

definition no_coin_rows :: coin_rows where
  "no_coin_rows = \<lparr>crw_activities = [], crw_balances = [], crw_infos = [], crw_current = [], crw_supply = []\<rparr>"

definition coin_from_transaction :: "libs \<Rightarrow> transaction \<Rightarrow> failure + coin_rows" where
  "coin_from_transaction L transaction =
     (case Option.bind (txn_txn_data transaction) coin_events_of of
        None \<Rightarrow> Inr no_coin_rows
      | Some (events, maybe_user_request) \<Rightarrow>
          and_then (expect ''Transaction info doesn't exist!'' (txn_info transaction)) (\<lambda>info.
          and_then (expect ''Transaction timestamp doesn't exist!'' (txn_timestamp transaction)) (\<lambda>ts.
          and_then (expect ''Txn Timestamp is invalid!'' (lib_from_timestamp_opt L (ts_seconds ts) 0)) (\<lambda>timestamp.
          and_then (case maybe_user_request of
              Some user_request \<Rightarrow> get_entry_function_from_user_request user_request
            | None \<Rightarrow> Inr None) (\<lambda>entry_function_id_str.
          let version = as_i64 (txn_version transaction) in
          and_then (fold_result (coin_add_change L version timestamp (as_i64 (txn_epoch transaction)))
                      (ti_changes info) no_coin_changes) (\<lambda>ch.
          and_then (map_result (coin_activity_of L version (cch_event_to_coin_type ch)
                      (as_i64 (txn_block_height transaction)) entry_function_id_str timestamp)
                      (enumerate 0 events)) (\<lambda>activities.
          Inr \<lparr>crw_activities = concat activities, crw_balances = cch_balances ch,
               crw_infos = cch_infos ch, crw_current = cch_current ch, crw_supply = cch_supply ch\<rparr>)))))))"

section \<open>What a transaction leaves\<close>

definition ccb_pk :: "current_coin_balance \<Rightarrow> string \<times> string" where
  "ccb_pk c = (ccb_owner_address c, ccb_coin_type c)"

text \<open>The balances and coin infos that the changes of a transaction write, in order.\<close>

definition change_balance :: "coin_change \<Rightarrow> current_coin_balance list" where
  "change_balance x = (case x of (_, Some (_, current, _), _) \<Rightarrow> [current] | _ \<Rightarrow> [])"

definition change_info :: "coin_change \<Rightarrow> coin_info list" where
  "change_info x = (case x of (Some info, _, _) \<Rightarrow> [info] | _ \<Rightarrow> [])"

definition coin_changes_of :: "libs \<Rightarrow> transaction \<Rightarrow> coin_change list" where
  "coin_changes_of L t =
     (case coin_from_transaction L t of
        Inl _ \<Rightarrow> []
      | Inr _ \<Rightarrow>
          (case (Option.bind (txn_txn_data t) coin_events_of, txn_info t, txn_timestamp t) of
             (Some _, Some info, Some ts) \<Rightarrow>
               (case lib_from_timestamp_opt L (ts_seconds ts) 0 of
                  None \<Rightarrow> []
                | Some timestamp \<Rightarrow>
                    (case map_result (coin_change_data L (as_i64 (txn_version t)) timestamp (as_i64 (txn_epoch t)))
                            (ti_changes info) of
                       Inr xs \<Rightarrow> xs | Inl _ \<Rightarrow> []))
           | _ \<Rightarrow> []))"

text \<open>A change agrees with its transaction: its rows carry the version, and a balance fits its current row.\<close>

fun coin_change_ok :: "i64 \<Rightarrow> coin_change \<Rightarrow> bool" where
  "coin_change_ok version (i, b, s) \<longleftrightarrow>
     (case i of Some info \<Rightarrow> cin_transaction_version_created info = version | None \<Rightarrow> True) \<and>
     (case b of
        Some (balance, current, events) \<Rightarrow>
          (cbal_owner_address balance, cbal_coin_type balance) = ccb_pk current \<and>
          ccb_last_transaction_version current = version \<and> snd ` set events \<subseteq> {cbal_coin_type balance} \<and>
          distinct_keys events
      | None \<Rightarrow> True)"

lemma coin_balance_rows:
  "coin_balance_from_write_resource L wr version timestamp = Inr (Some (balance, current, events)) \<Longrightarrow>
   (cbal_owner_address balance, cbal_coin_type balance) = ccb_pk current \<and>
   ccb_last_transaction_version current = version \<and> snd ` set events \<subseteq> {cbal_coin_type balance} \<and> distinct_keys events"
  by (clarsimp simp: coin_balance_from_write_resource_def)
    (auto simp: ccb_pk_def Let_def distinct_keys_def split: option.splits coin_resource.splits if_splits)

lemma coin_info_rows:
  "coin_info_from_write_resource L wr version timestamp = Inr (Some info) \<Longrightarrow>
   cin_transaction_version_created info = version"
  by (clarsimp simp: coin_info_from_write_resource_def)
    (auto simp: Let_def split: option.splits coin_resource.splits)

lemma coin_change_data_ok: "coin_change_data L version timestamp epoch wsc = Inr x \<Longrightarrow> coin_change_ok version x"
  by (cases x) (auto simp: coin_change_data_def split: change.splits option.splits
      dest: coin_info_rows coin_balance_rows)

definition coin_state :: "libs \<Rightarrow> transaction \<Rightarrow> coin_changes" where
  "coin_state L t = fold coin_store_change (coin_changes_of L t) no_coin_changes"

lemma coin_add_changes:
  "fold_result (coin_add_change L version timestamp epoch) changes st =
     and_then (map_result (coin_change_data L version timestamp epoch) changes) (\<lambda>xs. Inr (fold coin_store_change xs st))"
  unfolding coin_add_change_def [abs_def] by (rule fold_result_map)

lemma coin_from_transaction_run:
  assumes "coin_from_transaction L t = Inr r" and "Option.bind (txn_txn_data t) coin_events_of = Some (events, req)"
  obtains height entry timestamp acts where
    "map_result (coin_activity_of L (as_i64 (txn_version t)) (cch_event_to_coin_type (coin_state L t))
       height entry timestamp) (enumerate 0 events) = Inr acts"
    and "r = \<lparr>crw_activities = concat acts, crw_balances = cch_balances (coin_state L t),
      crw_infos = cch_infos (coin_state L t), crw_current = cch_current (coin_state L t),
      crw_supply = cch_supply (coin_state L t)\<rparr>"
    and "list_all (coin_change_ok (as_i64 (txn_version t))) (coin_changes_of L t)"
proof -
  from assms obtain info ts timestamp entry xs acts where
      t: "txn_info t = Some info" "txn_timestamp t = Some ts"
        "lib_from_timestamp_opt L (ts_seconds ts) 0 = Some timestamp"
    and xs: "map_result (coin_change_data L (as_i64 (txn_version t)) timestamp (as_i64 (txn_epoch t)))
        (ti_changes info) = Inr xs"
    and acts: "map_result (coin_activity_of L (as_i64 (txn_version t))
        (cch_event_to_coin_type (fold coin_store_change xs no_coin_changes))
        (as_i64 (txn_block_height t)) entry timestamp) (enumerate 0 events) = Inr acts"
    and r: "r = \<lparr>crw_activities = concat acts, crw_balances = cch_balances (fold coin_store_change xs no_coin_changes),
      crw_infos = cch_infos (fold coin_store_change xs no_coin_changes),
      crw_current = cch_current (fold coin_store_change xs no_coin_changes),
      crw_supply = cch_supply (fold coin_store_change xs no_coin_changes)\<rparr>"
    by (clarsimp simp: coin_from_transaction_def coin_add_changes Let_def)
  have ch: "coin_changes_of L t = xs"
    using assms t xs by (simp add: coin_changes_of_def)
  have "list_all (coin_change_ok (as_i64 (txn_version t))) xs"
    by (rule map_result_all [OF xs coin_change_data_ok])
  with acts r ch show ?thesis by (intro that [of "as_i64 (txn_block_height t)" entry timestamp acts]) (simp_all add: coin_state_def)
qed

lemma coin_from_transaction_other:
  assumes "Option.bind (txn_txn_data t) coin_events_of = None"
  shows "coin_from_transaction L t = Inr no_coin_rows" and "coin_changes_of L t = []"
  using assms by (simp_all add: coin_from_transaction_def coin_changes_of_def)

text \<open>The maps of a transaction hold the last row written under each key.\<close>

lemma coin_changes_collected:
  "list_all (coin_change_ok version) xs \<Longrightarrow>
   collects ccb_pk (concat (map change_balance xs)) (cch_current (fold coin_store_change xs no_coin_changes)) \<and>
   collects cin_coin_type (concat (map change_info xs)) (cch_infos (fold coin_store_change xs no_coin_changes))"
proof (induction xs rule: rev_induct)
  case (snoc x xs)
  obtain i b s where x: "x = (i, b, s)" by (rule prod_cases3)
  from snoc show ?case
    by (auto simp: x change_balance_def change_info_def collects_insert split: option.splits)
qed (simp add: no_coin_changes_def)

lemma coin_event_types:
  "list_all (coin_change_ok version) xs \<Longrightarrow>
   map_of (cch_event_to_coin_type (fold coin_store_change xs no_coin_changes)) g = Some ty \<Longrightarrow>
   ty \<in> cbal_coin_type ` set (cch_balances (fold coin_store_change xs no_coin_changes))"
proof (induction xs rule: rev_induct)
  case (snoc x xs)
  obtain i b s where x: "x = (i, b, s)" by (rule prod_cases3)
  let ?st = "fold coin_store_change xs no_coin_changes"
  have IH: "map_of (cch_event_to_coin_type ?st) g = Some ty \<Longrightarrow> ty \<in> cbal_coin_type ` set (cch_balances ?st)"
    using snoc by simp
  show ?case
  proof (cases b)
    case None
    with snoc.prems IH show ?thesis by (simp add: x)
  next
    case (Some d)
    obtain balance current events where b: "b = Some (balance, current, events)"
      using Some by (metis prod_cases3)
    have ev: "snd ` set events \<subseteq> {cbal_coin_type balance}" "distinct_keys events"
      using snoc.prems(1) by (auto simp: x b)
    have "map_of events g = Some ty \<or> map_of (cch_event_to_coin_type ?st) g = Some ty"
      using snoc.prems(2) by (auto simp: x b hm_extend_map_of [OF ev(2)])
    then show ?thesis
    proof
      assume "map_of events g = Some ty"
      then have "ty \<in> snd ` set events" using image_iff map_of_SomeD by fastforce
      with ev(1) show ?thesis by (auto simp: x b)
    qed (use IH in \<open>simp add: x b\<close>)
  qed
qed (simp add: no_coin_changes_def)

section \<open>Every coin event is accounted for\<close>

definition is_coin_event :: "event_pb \<Rightarrow> bool" where
  "is_coin_event e \<longleftrightarrow> ev_type_str e \<in> {''0x1::coin::WithdrawEvent'', ''0x1::coin::DepositEvent''}"

lemma coin_activity_of_event:
  assumes "coin_activity_of L version event_types height entry timestamp (n, e) = Inr as"
  shows "map cact_event_index as = (if is_coin_event e then [Some (int n)] else [])"
    and "\<forall>a \<in> set as. \<exists>g. map_of event_types g = Some (cact_coin_type a)"
proof -
  obtain parsed where p: "coin_from_event L (ev_type_str e) (ev_data e) = Inr parsed"
    and as: "(case parsed of None \<Rightarrow> Inr [] | Some pe \<Rightarrow>
      and_then (from_parsed_event (ev_type_str e) e pe version event_types height entry timestamp (int n)) (\<lambda>a. Inr [a]))
      = Inr as"
    using assms by (auto simp: coin_activity_of_def)
  have coin: "is_coin_event e \<longleftrightarrow> parsed \<noteq> None"
    using p by (auto simp: is_coin_event_def coin_from_event_def split: if_splits)
  from as coin show "map cact_event_index as = (if is_coin_event e then [Some (int n)] else [])"
    and "\<forall>a \<in> set as. \<exists>g. map_of event_types g = Some (cact_coin_type a)"
    by (auto simp: from_parsed_event_def Let_def split: option.splits)
qed

lemma coin_activities_of_events:
  assumes "map_result (coin_activity_of L version event_types height entry timestamp) (enumerate n events) = Inr ass"
  shows "map cact_event_index (concat ass) =
      map (\<lambda>(i, e). Some (int i)) (filter (is_coin_event \<circ> snd) (enumerate n events))"
    and "\<forall>a \<in> set (concat ass). \<exists>g. map_of event_types g = Some (cact_coin_type a)"
proof -
  have "map cact_event_index (concat ass) =
      map (\<lambda>(i, e). Some (int i)) (filter (is_coin_event \<circ> snd) (enumerate n events)) \<and>
    (\<forall>a \<in> set (concat ass). \<exists>g. map_of event_types g = Some (cact_coin_type a))"
    using assms
  proof (induction events arbitrary: n ass)
    case (Cons e events)
    then obtain a as where a: "coin_activity_of L version event_types height entry timestamp (n, e) = Inr a"
      "map_result (coin_activity_of L version event_types height entry timestamp) (enumerate (Suc n) events) = Inr as"
      "ass = a # as" by auto
    with Cons.IH [OF a(2)] coin_activity_of_event [OF a(1)] show ?case by auto
  qed simp
  then show "map cact_event_index (concat ass) =
      map (\<lambda>(i, e). Some (int i)) (filter (is_coin_event \<circ> snd) (enumerate n events))"
    and "\<forall>a \<in> set (concat ass). \<exists>g. map_of event_types g = Some (cact_coin_type a)" by blast+
qed

lemma coin_activities_run:
  assumes "coin_from_transaction L t = Inr r" and "Option.bind (txn_txn_data t) coin_events_of = Some (events, req)"
  shows "map cact_event_index (crw_activities r) =
      map (\<lambda>(i, e). Some (int i)) (filter (is_coin_event \<circ> snd) (enumerate 0 events)) \<and>
    cact_coin_type ` set (crw_activities r) \<subseteq> cbal_coin_type ` set (crw_balances r)"
proof -
  obtain height entry timestamp acts where
      acts: "map_result (coin_activity_of L (as_i64 (txn_version t)) (cch_event_to_coin_type (coin_state L t))
        height entry timestamp) (enumerate 0 events) = Inr acts"
    and r: "r = \<lparr>crw_activities = concat acts, crw_balances = cch_balances (coin_state L t),
      crw_infos = cch_infos (coin_state L t), crw_current = cch_current (coin_state L t),
      crw_supply = cch_supply (coin_state L t)\<rparr>"
    and ok: "list_all (coin_change_ok (as_i64 (txn_version t))) (coin_changes_of L t)"
    by (rule coin_from_transaction_run [OF assms])
  have "cact_coin_type a \<in> cbal_coin_type ` set (cch_balances (coin_state L t))" if "a \<in> set (concat acts)" for a
    using coin_activities_of_events(2) [OF acts] that coin_event_types [OF ok]
    unfolding coin_state_def by blast
  with coin_activities_of_events(1) [OF acts] show ?thesis by (auto simp: r)
qed

text \<open>A transaction that writes a coin store of \<open>0xa\<close> and emits a deposit event from its handle.\<close>

definition sample_store :: json where
  "sample_store =
     (let handle = (\<lambda>n. JObject [(''guid'', JObject [(''id'',
                          JObject [(''addr'', JString ''0xa''), (''creation_num'', JString n)])])])
      in JObject [(''coin'', JObject [(''value'', JString ''5'')]), (''deposit_events'', handle ''2''),
                  (''withdraw_events'', handle ''3''), (''frozen'', JBool False)])"

definition sample_info_json :: json where
  "sample_info_json = JObject [(''name'', JString ''Coin''), (''symbol'', JString ''C''), (''decimals'', JInt 8),
     (''supply'', JObject [(''vec'', JArray [])])]"

definition coin_libs :: libs where
  "coin_libs = sample_libs\<lparr>lib_json_from_str :=
     (\<lambda>s. if s = ''store'' then Some sample_store else if s = ''info'' then Some sample_info_json else Some (JObject [(''amount'', JString ''5'')])),
     lib_parse_bigdecimal := (\<lambda>s. map_option of_nat (parse_nat s)),
     lib_generic_type_param := (\<lambda>_. Some ''0x1::aptos_coin::AptosCoin'')\<rparr>"

definition coin_store_change_pb :: write_set_change_pb where
  "coin_store_change_pb = \<lparr>wsc_type = 5, wsc_change = Some (WriteResource \<lparr>wr_address = ''0xa'', wr_state_key_hash = [],
     wr_type = Some (MoveStructTagPB ''0x1'' ''coin'' ''CoinStore''
       [MoveType (Some (ContentStruct (MoveStructTagPB ''0x1'' ''aptos_coin'' ''AptosCoin'' [])))]),
     wr_type_str = ''0x1::coin::CoinStore<0x1::aptos_coin::AptosCoin>'', wr_data = ''store''\<rparr>)\<rparr>"

definition coin_info_change_pb :: write_set_change_pb where
  "coin_info_change_pb = \<lparr>wsc_type = 5, wsc_change = Some (WriteResource \<lparr>wr_address = ''0x1'', wr_state_key_hash = [],
     wr_type = Some (MoveStructTagPB ''0x1'' ''coin'' ''CoinInfo''
       [MoveType (Some (ContentStruct (MoveStructTagPB ''0x1'' ''aptos_coin'' ''AptosCoin'' [])))]),
     wr_type_str = ''0x1::coin::CoinInfo<0x1::aptos_coin::AptosCoin>'', wr_data = ''info''\<rparr>)\<rparr>"

definition deposit_event :: event_pb where
  "deposit_event = \<lparr>ev_key = Some \<lparr>ek_creation_number = 2, ek_account_address = ''0xa''\<rparr>, ev_sequence_number = 0,
     ev_type_str = ''0x1::coin::DepositEvent'', ev_data = ''event''\<rparr>"

definition coin_txn :: "u64 \<Rightarrow> transaction" where
  "coin_txn v = (sample_user_txn v)\<lparr>txn_info := map_option (\<lambda>i. i\<lparr>ti_changes := [coin_store_change_pb, coin_info_change_pb]\<rparr>)
     (txn_info (sample_user_txn v)), txn_txn_data := Some (Genesis \<lparr>gen_payload = None, gen_events = [deposit_event]\<rparr>)\<rparr>"

definition sample_balance :: "i64 \<Rightarrow> current_coin_balance" where
  "sample_balance v = \<lparr>ccb_owner_address = standardize_address ''0xa'', ccb_coin_type_hash = aptos_coin_type_str,
     ccb_coin_type = aptos_coin_type_str, ccb_amount = 5, ccb_last_transaction_version = v,
     ccb_last_transaction_timestamp = (0, 0)\<rparr>"

lemma coin_libs_sel:
  "lib_json_from_str coin_libs s = (if s = ''store'' then Some sample_store else
     if s = ''info'' then Some sample_info_json else Some (JObject [(''amount'', JString ''5'')]))"
  "lib_parse_bigdecimal coin_libs s = map_option of_nat (parse_nat s)"
  "lib_generic_type_param coin_libs s = Some ''0x1::aptos_coin::AptosCoin''"
  "lib_sha256_hex coin_libs s = s" "lib_from_timestamp_opt coin_libs secs nanos = Some (secs, nanos)"
  by (simp_all add: coin_libs_def sample_libs_def)

definition sample_info :: "i64 \<Rightarrow> coin_info" where
  "sample_info v = \<lparr>cin_coin_type_hash = aptos_coin_type_str, cin_coin_type = aptos_coin_type_str,
     cin_transaction_version_created = v, cin_creator_address = coin_addr, cin_name = ''Coin'', cin_symbol = ''C'',
     cin_decimals = 8, cin_transaction_created_timestamp = (0, 0), cin_supply_aggregator_table_handle = None,
     cin_supply_aggregator_table_key = None\<rparr>"

lemma sample_store_read:
  "read_coin_store_resource coin_libs sample_store =
     Some \<lparr>csr_coin = 5, csr_deposit_events = \<lparr>egr_addr = ''0xa'', egr_creation_num = 2\<rparr>,
       csr_withdraw_events = \<lparr>egr_addr = ''0xa'', egr_creation_num = 3\<rparr>, csr_frozen = False\<rparr>"
  by (simp add: read_coin_store_resource_def sample_store_def field_def read_single_def read_bigdecimal_def
      read_event_handle_def read_event_guid_resource_def deserialize_from_string_def coin_libs_sel parse_i64_def
      parse_signed_def parse_nat_def digit_value_def Let_def)

lemma coin_addr_standard: "standardize_address ''0x1'' = coin_addr"
  by code_simp

lemma coin_type_kept: "truncate_str ''0x1::aptos_coin::AptosCoin'' coin_type_hash_length = Inr aptos_coin_type_str"
  by code_simp

lemma standardize_coin_addr: "standardize_address coin_addr = coin_addr"
  by (metis coin_addr_standard standardize_idem)

lemma sample_types:
  assumes "wr_type wr = Some (MoveStructTagPB ''0x1'' ''coin'' name
      [MoveType (Some (ContentStruct (MoveStructTagPB ''0x1'' ''aptos_coin'' ''AptosCoin'' [])))])"
  shows "get_outer_type_from_resource coin_libs wr = Inr (coin_addr @ ''::coin::'' @ name)"
    and "coin_info_type_of coin_libs wr =
      Inr \<lparr>cit_coin_type = ''0x1::aptos_coin::AptosCoin'', cit_creator_address = ''0x1''\<rparr>"
    and "lib_json_from_str coin_libs (wr_data wr) = Some data \<Longrightarrow> name \<in> {''CoinInfo'', ''CoinStore''} \<Longrightarrow>
      coin_from_write_resource coin_libs wr version =
        and_then (from_resource coin_libs (coin_addr @ ''::coin::'' @ name) data) (\<lambda>r. Inr (Some r))"
proof -
  show outer: "get_outer_type_from_resource coin_libs wr = Inr (coin_addr @ ''::coin::'' @ name)"
    using assms by (simp add: get_outer_type_from_resource_def convert_move_struct_tag_def mst_get_address_def
        coin_addr_standard standardize_coin_addr Let_def)
  show "coin_info_type_of coin_libs wr =
      Inr \<lparr>cit_coin_type = ''0x1::aptos_coin::AptosCoin'', cit_creator_address = ''0x1''\<rparr>"
    by (simp add: coin_info_type_of_def assms nth_or_panic_def from_move_type_def coin_libs_sel)
  show "coin_from_write_resource coin_libs wr version =
        and_then (from_resource coin_libs (coin_addr @ ''::coin::'' @ name) data) (\<lambda>r. Inr (Some r))"
    if "lib_json_from_str coin_libs (wr_data wr) = Some data" and "name \<in> {''CoinInfo'', ''CoinStore''}"
    using that by (auto simp: coin_from_write_resource_def outer is_resource_supported_def coin_resources_def
        from_write_resource_def assms Let_def)
qed

lemma sample_store_change:
  "\<exists>balance events. coin_change_data coin_libs version (0, 0) epoch coin_store_change_pb =
     Inr (None, Some (balance, sample_balance version, events), None) \<and> cbal_coin_type balance = aptos_coin_type_str \<and>
     map_of events \<lparr>egr_addr = standardize_address ''0xa'', egr_creation_num = 2\<rparr> = Some aptos_coin_type_str"
proof -
  obtain wr where wr: "wsc_change coin_store_change_pb = Some (WriteResource wr)"
      "wr_type wr = Some (MoveStructTagPB ''0x1'' ''coin'' ''CoinStore''
        [MoveType (Some (ContentStruct (MoveStructTagPB ''0x1'' ''aptos_coin'' ''AptosCoin'' [])))])"
      "wr_address wr = ''0xa''" "wr_data wr = ''store''"
    by (simp add: coin_store_change_pb_def)
  note ty = sample_types [OF wr(2)]
  have "coin_from_write_resource coin_libs wr version = Inr (Some (CoinStoreResource
      \<lparr>csr_coin = 5, csr_deposit_events = \<lparr>egr_addr = ''0xa'', egr_creation_num = 2\<rparr>,
       csr_withdraw_events = \<lparr>egr_addr = ''0xa'', egr_creation_num = 3\<rparr>, csr_frozen = False\<rparr>))"
    by (simp add: ty(3) [of sample_store] wr coin_libs_sel from_resource_def sample_store_read parse_or_err_def)
  then show ?thesis
    by (simp add: coin_change_data_def wr coin_info_from_write_resource_def coin_balance_from_write_resource_def
        ty(2) get_coin_type_trunc_def coin_type_kept to_hash_def hash_str_def coin_libs_sel
        sample_balance_def aptos_coin_type_str_def get_standardized_def Let_def)
qed

lemma sample_info_change:
  "coin_change_data coin_libs version (0, 0) epoch coin_info_change_pb = Inr (Some (sample_info version), None, None)"
proof -
  obtain wr where wr: "wsc_change coin_info_change_pb = Some (WriteResource wr)"
      "wr_type wr = Some (MoveStructTagPB ''0x1'' ''coin'' ''CoinInfo''
        [MoveType (Some (ContentStruct (MoveStructTagPB ''0x1'' ''aptos_coin'' ''AptosCoin'' [])))])"
      "wr_data wr = ''info''"
    by (simp add: coin_info_change_pb_def)
  note ty = sample_types [OF wr(2)]
  have "coin_from_write_resource coin_libs wr version = Inr (Some (CoinInfoResource
      \<lparr>cir_name = ''Coin'', cir_symbol = ''C'', cir_decimals = 8, cir_supply = []\<rparr>))"
    by (simp add: ty(3) [of sample_info_json] wr coin_libs_sel from_resource_def sample_info_json_def
        read_coin_info_resource_def field_def read_single_def parse_or_err_def Let_def)
  moreover have "truncate_str ''Coin'' 32 = Inr ''Coin''" "truncate_str ''C'' 10 = Inr ''C''" by code_simp+
  ultimately show ?thesis
    by (simp add: coin_change_data_def wr coin_info_from_write_resource_def coin_balance_from_write_resource_def
        ty(2) get_coin_type_trunc_def coin_type_kept get_name_trunc_def get_symbol_trunc_def to_hash_def hash_str_def
        coin_libs_sel sample_info_def aptos_coin_type_str_def get_creator_address_def coin_addr_standard
        get_aggregator_metadata_def first_of_def Let_def)
qed

lemma coin_txn_runs:
  "\<exists>r. coin_from_transaction coin_libs (coin_txn v) = Inr r"
  "concat (map change_balance (coin_changes_of coin_libs (coin_txn v))) = [sample_balance (as_i64 v)]"
  "concat (map change_info (coin_changes_of coin_libs (coin_txn v))) = [sample_info (as_i64 v)]"
proof -
  obtain balance events where ch: "coin_change_data coin_libs (as_i64 v) (0, 0) 1 coin_store_change_pb =
      Inr (None, Some (balance, sample_balance (as_i64 v), events), None)"
    and ev: "map_of events \<lparr>egr_addr = standardize_address ''0xa'', egr_creation_num = 2\<rparr> = Some aptos_coin_type_str"
    using sample_store_change by blast
  have "distinct_keys events" using coin_change_data_ok [OF ch] by simp
  note ext = hm_extend_map_of [OF this]
  show r: "\<exists>r. coin_from_transaction coin_libs (coin_txn v) = Inr r"
    by (simp add: coin_from_transaction_def coin_txn_def sample_user_txn_def coin_events_of_def coin_libs_sel
        coin_add_change_def ch sample_info_change no_coin_changes_def coin_activity_of_def deposit_event_def
        coin_from_event_def read_coin_amount_def parse_or_err_def read_single_def field_def read_bigdecimal_def
        deserialize_from_string_def parse_nat_def digit_value_def from_parsed_event_def as_i64_small ext ev Let_def)
  then show "concat (map change_balance (coin_changes_of coin_libs (coin_txn v))) = [sample_balance (as_i64 v)]"
    and "concat (map change_info (coin_changes_of coin_libs (coin_txn v))) = [sample_info (as_i64 v)]"
    by (auto simp: coin_changes_of_def coin_txn_def sample_user_txn_def coin_events_of_def coin_libs_sel ch
        sample_info_change change_balance_def change_info_def as_i64_small)
qed

lemma coin_txn_events: "Option.bind (txn_txn_data (coin_txn v)) coin_events_of = Some ([deposit_event], None)"
  by (simp add: coin_txn_def coin_events_of_def)

lemma coin_txn_activities:
  "coin_from_transaction coin_libs (coin_txn v) = Inr r \<Longrightarrow> length (crw_activities r) = 1"
  using coin_activities_run [OF _ coin_txn_events, THEN conjunct1, THEN arg_cong [where f = length]]
  by (fastforce simp: is_coin_event_def deposit_event_def)

end
