(* ===== verification/Coin_Processor.thy ===== *)
theory Coin_Processor
  imports Coin_Models Convergence
begin

text \<open>
  \<open>processors/coin_processor.rs\<close>: the rows of the transactions of a batch are gathered, coin infos keep
  the first row of a coin type and current balances the last row of an owner and coin type, both are
  sorted by key, and five inserts run concurrently. Coin infos are guarded towards the earliest
  version, current balances towards the latest.
\<close>

section \<open>Rows and queries\<close>

definition coin_activity_row :: "coin_activity \<Rightarrow> sql_row" where
  "coin_activity_row a =
     [(''transaction_version'', SqlInt (cact_transaction_version a)),
      (''event_account_address'', SqlText (cact_event_account_address a)),
      (''event_creation_number'', SqlInt (cact_event_creation_number a)),
      (''event_sequence_number'', SqlInt (cact_event_sequence_number a)),
      (''owner_address'', SqlText (cact_owner_address a)), (''coin_type'', SqlText (cact_coin_type a)),
      (''amount'', SqlNumeric (cact_amount a)), (''activity_type'', SqlText (cact_activity_type a)),
      (''is_gas_fee'', SqlBool (cact_is_gas_fee a)),
      (''is_transaction_success'', SqlBool (cact_is_transaction_success a)),
      (''entry_function_id_str'', sql_opt SqlText (cact_entry_function_id_str a)),
      (''block_height'', SqlInt (cact_block_height a)),
      (''transaction_timestamp'', SqlTimestamp (cact_transaction_timestamp a)),
      (''event_index'', sql_opt SqlInt (cact_event_index a)),
      (''gas_fee_payer_address'', sql_opt SqlText (cact_gas_fee_payer_address a)),
      (''storage_refund_amount'', SqlNumeric (cact_storage_refund_amount a))]"

definition coin_info_row :: "coin_info \<Rightarrow> sql_row" where
  "coin_info_row i =
     [(''coin_type_hash'', SqlText (cin_coin_type_hash i)), (''coin_type'', SqlText (cin_coin_type i)),
      (''transaction_version_created'', SqlInt (cin_transaction_version_created i)),
      (''creator_address'', SqlText (cin_creator_address i)), (''name'', SqlText (cin_name i)),
      (''symbol'', SqlText (cin_symbol i)), (''decimals'', SqlInt (cin_decimals i)),
      (''transaction_created_timestamp'', SqlTimestamp (cin_transaction_created_timestamp i)),
      (''supply_aggregator_table_handle'', sql_opt SqlText (cin_supply_aggregator_table_handle i)),
      (''supply_aggregator_table_key'', sql_opt SqlText (cin_supply_aggregator_table_key i))]"

definition coin_balance_row :: "coin_balance \<Rightarrow> sql_row" where
  "coin_balance_row b =
     [(''transaction_version'', SqlInt (cbal_transaction_version b)),
      (''owner_address'', SqlText (cbal_owner_address b)),
      (''coin_type_hash'', SqlText (cbal_coin_type_hash b)), (''coin_type'', SqlText (cbal_coin_type b)),
      (''amount'', SqlNumeric (cbal_amount b)),
      (''transaction_timestamp'', SqlTimestamp (cbal_transaction_timestamp b))]"

definition current_coin_balance_row :: "current_coin_balance \<Rightarrow> sql_row" where
  "current_coin_balance_row b =
     [(''owner_address'', SqlText (ccb_owner_address b)),
      (''coin_type_hash'', SqlText (ccb_coin_type_hash b)), (''coin_type'', SqlText (ccb_coin_type b)),
      (''amount'', SqlNumeric (ccb_amount b)),
      (''last_transaction_version'', SqlInt (ccb_last_transaction_version b)),
      (''last_transaction_timestamp'', SqlTimestamp (ccb_last_transaction_timestamp b))]"

definition coin_supply_row :: "coin_supply \<Rightarrow> sql_row" where
  "coin_supply_row s =
     [(''transaction_version'', SqlInt (csup_transaction_version s)),
      (''coin_type_hash'', SqlText (csup_coin_type_hash s)), (''coin_type'', SqlText (csup_coin_type s)),
      (''supply'', SqlNumeric (csup_supply s)),
      (''transaction_timestamp'', SqlTimestamp (csup_transaction_timestamp s)),
      (''transaction_epoch'', SqlInt (csup_transaction_epoch s))]"

definition insert_coin_activities_query :: "coin_activity list \<Rightarrow> query" where
  "insert_coin_activities_query items =
     (\<lparr>iq_table = ''coin_activities'', iq_rows = map coin_activity_row items,
       iq_target = [''transaction_version'', ''event_account_address'', ''event_creation_number'', ''event_sequence_number''],
       iq_action = DoUpdate [''entry_function_id_str'', ''inserted_at'']\<rparr>, None)"

definition insert_coin_infos_query :: "coin_info list \<Rightarrow> query" where
  "insert_coin_infos_query items =
     (\<lparr>iq_table = ''coin_infos'', iq_rows = map coin_info_row items, iq_target = [''coin_type_hash''],
       iq_action = DoUpdate [''transaction_version_created'', ''creator_address'', ''name'', ''symbol'', ''decimals'',
         ''transaction_created_timestamp'', ''supply_aggregator_table_handle'', ''supply_aggregator_table_key'',
         ''inserted_at'']\<rparr>,
      Some (WhereGe ''transaction_version_created''))"

definition insert_coin_balances_query :: "coin_balance list \<Rightarrow> query" where
  "insert_coin_balances_query items =
     (\<lparr>iq_table = ''coin_balances'', iq_rows = map coin_balance_row items,
       iq_target = [''transaction_version'', ''owner_address'', ''coin_type_hash''], iq_action = DoNothing\<rparr>, None)"

definition insert_current_coin_balances_query :: "current_coin_balance list \<Rightarrow> query" where
  "insert_current_coin_balances_query items =
     (\<lparr>iq_table = ''current_coin_balances'', iq_rows = map current_coin_balance_row items,
       iq_target = [''owner_address'', ''coin_type_hash''],
       iq_action = DoUpdate [''amount'', ''last_transaction_version'', ''last_transaction_timestamp'', ''inserted_at'']\<rparr>,
      Some (WhereLe ''last_transaction_version''))"

definition insert_coin_supply_query :: "coin_supply list \<Rightarrow> query" where
  "insert_coin_supply_query items =
     (\<lparr>iq_table = ''coin_supply'', iq_rows = map coin_supply_row items,
       iq_target = [''transaction_version'', ''coin_type_hash''], iq_action = DoNothing\<rparr>, None)"

section \<open>Processing a batch\<close>

definition coin_merge :: "coin_rows \<Rightarrow> coin_rows \<Rightarrow> coin_rows" where
  "coin_merge r all =
     \<lparr>crw_activities = crw_activities all @ crw_activities r, crw_balances = crw_balances all @ crw_balances r,
      crw_infos = hm_or_insert_all (crw_infos all) (crw_infos r),
      crw_current = hm_extend (crw_current all) (crw_current r),
      crw_supply = crw_supply all @ crw_supply r\<rparr>"

record coin_inserts =
  cins_activities :: "coin_activity list"
  cins_infos :: "coin_info list"
  cins_balances :: "coin_balance list"
  cins_current :: "current_coin_balance list"
  cins_supply :: "coin_supply list"

definition coin_rows_of :: "libs \<Rightarrow> transaction list \<Rightarrow> failure + coin_inserts" where
  "coin_rows_of L transactions =
     and_then (fold_result (\<lambda>txn all. and_then (coin_from_transaction L txn) (\<lambda>r. Inr (coin_merge r all)))
                 transactions no_coin_rows) (\<lambda>all.
     Inr \<lparr>cins_activities = crw_activities all,
          cins_infos = sort_key cin_coin_type (map snd (crw_infos all)),
          cins_balances = crw_balances all,
          cins_current = sort_key ccb_pk (map snd (crw_current all)),
          cins_supply = crw_supply all\<rparr>)"

record coin_serdes =
  sd_coin_activity :: "coin_activity serde"
  sd_coin_info :: "coin_info serde"
  sd_coin_balance :: "coin_balance serde"
  sd_current_coin_balance :: "current_coin_balance serde"
  sd_coin_supply :: "coin_supply serde"

definition coin_insert_to_db :: "coin_serdes \<Rightarrow> (string \<times> nat) list \<Rightarrow> pg_env \<Rightarrow> coin_inserts \<Rightarrow> db_op" where
  "coin_insert_to_db sds per_table_chunk_sizes env rows =
     (let size = (\<lambda>fields name. get_config_table_chunk_size fields name per_table_chunk_sizes) in
      join_inserts
        [execute_in_chunks env insert_coin_activities_query (sd_coin_activity sds) (cins_activities rows)
           (size 16 ''coin_activities''),
         execute_in_chunks env insert_coin_infos_query (sd_coin_info sds) (cins_infos rows) (size 10 ''coin_infos''),
         execute_in_chunks env insert_coin_balances_query (sd_coin_balance sds) (cins_balances rows)
           (size 6 ''coin_balances''),
         execute_in_chunks env insert_current_coin_balances_query (sd_current_coin_balance sds) (cins_current rows)
           (size 6 ''current_coin_balances''),
         execute_in_chunks env insert_coin_supply_query (sd_coin_supply sds) (cins_supply rows)
           (size 6 ''coin_supply'')])"

text \<open>A panic of the blocking task is an error of the processor (\<open>context(..)?\<close>).\<close>

definition coin_process_transactions ::
  "libs \<Rightarrow> coin_serdes \<Rightarrow> rat \<times> rat \<Rightarrow> (string \<times> nat) list \<Rightarrow> process_fn" where
  "coin_process_transactions L sds durations per_table_chunk_sizes =
     process_batch (\<lambda>transactions. join_error (coin_rows_of L transactions))
       (coin_insert_to_db sds per_table_chunk_sizes) durations"

section \<open>The interfaces\<close>

lemmas coin_query_defs =
  insert_coin_activities_query_def insert_coin_infos_query_def insert_coin_balances_query_def
  insert_current_coin_balances_query_def insert_coin_supply_query_def

interpretation coin_processor: batch_processor
  "\<lambda>transactions. join_error (coin_rows_of L transactions)" "coin_insert_to_db sds sizes" durations
  for L sds sizes durations
proof
  fix env :: pg_env and rows
  assume "postgres (pg_exec env)"
  then show "untouched ''processor_status'' (coin_insert_to_db sds sizes env rows)"
    unfolding coin_insert_to_db_def Let_def
    by (intro join_inserts_untouched) (auto intro!: execute_in_chunks_untouched simp: coin_query_defs)
qed

definition current_balance_columns :: "string set" where
  "current_balance_columns = {''owner_address'', ''coin_type_hash'', ''amount'', ''last_transaction_version'',
     ''last_transaction_timestamp''}"

definition coin_info_columns :: "string set" where
  "coin_info_columns = {''coin_type_hash'', ''transaction_version_created'', ''creator_address'', ''name'', ''symbol'',
     ''decimals'', ''transaction_created_timestamp'', ''supply_aggregator_table_handle'', ''supply_aggregator_table_key''}"

interpretation current_balances: guarded_query
  "[''owner_address'', ''coin_type_hash'']"
  "[''amount'', ''last_transaction_version'', ''last_transaction_timestamp'', ''inserted_at'']"
  "WhereLe ''last_transaction_version''" current_balance_columns
  insert_current_coin_balances_query current_coin_balance_row "''current_coin_balances''"
proof
  show "full_row (WhereLe ''last_transaction_version'') current_balance_columns (current_coin_balance_row c)" for c
    by (auto simp: full_row_def current_balance_columns_def current_coin_balance_row_def has_version_def int_cell_def)
qed (auto simp: current_balance_columns_def insert_current_coin_balances_query_def)

interpretation stored_infos: guarded_query
  "[''coin_type_hash'']"
  "[''transaction_version_created'', ''creator_address'', ''name'', ''symbol'', ''decimals'',
    ''transaction_created_timestamp'', ''supply_aggregator_table_handle'', ''supply_aggregator_table_key'', ''inserted_at'']"
  "WhereGe ''transaction_version_created''" coin_info_columns
  insert_coin_infos_query coin_info_row "''coin_infos''"
proof
  show "full_row (WhereGe ''transaction_version_created'') coin_info_columns (coin_info_row c)" for c
    by (auto simp: full_row_def coin_info_columns_def coin_info_row_def has_version_def int_cell_def)
qed (auto simp: coin_info_columns_def insert_coin_infos_query_def)

section \<open>The rows of a batch\<close>

definition ccb_writes :: "libs \<Rightarrow> transaction \<Rightarrow> current_coin_balance list" where
  "ccb_writes L t = concat (map change_balance (coin_changes_of L t))"

definition coin_info_effect :: "libs \<Rightarrow> transaction \<Rightarrow> string \<Rightarrow> coin_info option" where
  "coin_info_effect L t k = last_by cin_coin_type k (concat (map change_info (coin_changes_of L t)))"

lemma coin_changes_ok: "list_all (coin_change_ok (ver t)) (coin_changes_of L t)"
proof (cases "coin_from_transaction L t")
  case (Inr r)
  show ?thesis
  proof (cases "Option.bind (txn_txn_data t) coin_events_of")
    case (Some ev)
    then show ?thesis by (cases ev) (auto intro: coin_from_transaction_run [OF Inr] simp: ver_def)
  qed (simp add: coin_from_transaction_other)
qed (simp add: coin_changes_of_def)

lemma coin_txn_collects:
  assumes "coin_from_transaction L t = Inr r"
  shows "collects ccb_pk (ccb_writes L t) (crw_current r)"
    and "distinct_keys (crw_infos r)" and "map_of (crw_infos r) k = coin_info_effect L t k"
proof -
  have "crw_current r = cch_current (coin_state L t) \<and> crw_infos r = cch_infos (coin_state L t)"
  proof (cases "Option.bind (txn_txn_data t) coin_events_of")
    case None
    with assms have "r = no_coin_rows" by (simp add: coin_from_transaction_other)
    with None show ?thesis
      by (simp add: coin_from_transaction_other coin_state_def no_coin_changes_def no_coin_rows_def)
  next
    case (Some ev)
    then show ?thesis by (cases ev) (auto intro: coin_from_transaction_run [OF assms])
  qed
  then show "collects ccb_pk (ccb_writes L t) (crw_current r)"
    and "distinct_keys (crw_infos r)" and "map_of (crw_infos r) k = coin_info_effect L t k"
    using coin_changes_collected [OF coin_changes_ok]
    by (simp_all add: coin_state_def ccb_writes_def coin_info_effect_def collects_def)
qed

lemma coin_batch_maps:
  assumes "fold_result (\<lambda>txn all. and_then (coin_from_transaction L txn) (\<lambda>r. Inr (coin_merge r all))) txns no_coin_rows
    = Inr all"
  shows "collects ccb_pk (concat (map (ccb_writes L) txns)) (crw_current all) \<and> distinct_keys (crw_infos all) \<and>
    (\<forall>k. map_of (crw_infos all) k = first_effect (coin_info_effect L) txns k)"
  using assms
proof (induction txns arbitrary: all rule: rev_induct)
  case (snoc t txns)
  then obtain before r where before: "fold_result (\<lambda>txn all. and_then (coin_from_transaction L txn)
      (\<lambda>r. Inr (coin_merge r all))) txns no_coin_rows = Inr before"
    and r: "coin_from_transaction L t = Inr r" and all: "all = coin_merge r before"
    by (auto simp: fold_result_append)
  from snoc.IH [OF before] coin_txn_collects(1) [OF r] show ?case
    by (simp add: all coin_merge_def collects_extend hm_or_insert_all_distinct hm_or_insert_all_map_of
        coin_txn_collects(3) [OF r] first_effect_snoc split: option.split)
qed (simp add: no_coin_rows_def distinct_keys_def)

lemma coin_info_effect_key: "coin_info_effect L t k = Some i \<Longrightarrow> cin_coin_type i = k"
  unfolding coin_info_effect_def using last_by_Some by fastforce

lemma coin_batch_rows:
  assumes "coin_rows_of L txns = Inr rows"
  shows "set (cins_current rows) = {c. latest_row (ccb_writes L) ccb_pk txns (ccb_pk c) = Some c}"
    and "distinct (map ccb_pk (cins_current rows))"
    and "set (cins_infos rows) = {i. first_effect (coin_info_effect L) txns (cin_coin_type i) = Some i}"
    and "distinct (map cin_coin_type (cins_infos rows))"
proof -
  obtain all where all: "fold_result (\<lambda>txn all. and_then (coin_from_transaction L txn)
      (\<lambda>r. Inr (coin_merge r all))) txns no_coin_rows = Inr all"
    and rows: "cins_current rows = sort_key ccb_pk (map snd (crw_current all))"
      "cins_infos rows = sort_key cin_coin_type (map snd (crw_infos all))"
    using assms by (auto simp: coin_rows_of_def)
  note maps = coin_batch_maps [OF all]
  then have cur: "collects ccb_pk (concat (map (ccb_writes L) txns)) (crw_current all)"
    and inf: "distinct_keys (crw_infos all)" "\<And>k. map_of (crw_infos all) k = first_effect (coin_info_effect L) txns k"
    by simp_all
  have keyed: "cin_coin_type i = k" if "map_of (crw_infos all) k = Some i" for k i
    using that first_effect_in coin_info_effect_key by (metis inf(2))
  show "set (cins_current rows) = {c. latest_row (ccb_writes L) ccb_pk txns (ccb_pk c) = Some c}"
    and "distinct (map ccb_pk (cins_current rows))"
    unfolding rows latest_row_def using collects_sorted [OF cur] by simp_all
  show "set (cins_infos rows) = {i. first_effect (coin_info_effect L) txns (cin_coin_type i) = Some i}"
    and "distinct (map cin_coin_type (cins_infos rows))"
    unfolding rows using keyed_map_values [OF inf(1) keyed] by (simp_all add: inf(2))
qed

section \<open>The tables after any sequence of batches\<close>

lemma ccb_arow:
  "current_balances.arow c = map_of (current_coin_balance_row c) |` current_balance_columns"
  "current_balances.pkey (current_balances.arow c) = [SqlText (ccb_owner_address c), SqlText (ccb_coin_type_hash c)]"
  unfolding current_balances.arow_def
  by (simp_all add: current_coin_balance_row_def current_balance_columns_def row_key_def cell_def)

lemma coin_info_arow:
  "stored_infos.arow i = map_of (coin_info_row i) |` coin_info_columns"
  "stored_infos.pkey (stored_infos.arow i) = [SqlText (cin_coin_type_hash i)]"
  "int_of (stored_infos.arow i) ''transaction_version_created'' = cin_transaction_version_created i"
  unfolding stored_infos.arow_def
  by (simp_all add: coin_info_row_def coin_info_columns_def row_key_def cell_def int_of_def)

lemma ccb_writes_version: "c \<in> set (ccb_writes L t) \<Longrightarrow> ccb_last_transaction_version c = ver t"
  using coin_changes_ok [of t L]
  by (fastforce simp: ccb_writes_def change_balance_def list_all_iff split: option.splits prod.splits)

lemma coin_info_effect_version: "coin_info_effect L t k = Some i \<Longrightarrow> cin_transaction_version_created i = ver t"
proof -
  assume "coin_info_effect L t k = Some i"
  then have "i \<in> set (concat (map change_info (coin_changes_of L t)))"
    unfolding coin_info_effect_def using last_by_Some by fast
  then show ?thesis
    using coin_changes_ok [of t L]
    by (fastforce simp: change_info_def list_all_iff split: option.splits prod.splits)
qed

lemma coin_run_ok:
  assumes "run_batch (coin_process_transactions L sds durations) (env, sizes, txns) d = (Inr (), d')"
  obtains rows where "coin_rows_of L txns = Inr rows" and "coin_insert_to_db sds sizes env rows d = (Inr (), d')"
  by (rule run_batch_ok [OF assms [unfolded coin_process_transactions_def]]) auto

interpretation latest_balances: latest_table
  "[''owner_address'', ''coin_type_hash'']"
  "[''amount'', ''last_transaction_version'', ''last_transaction_timestamp'', ''inserted_at'']"
  "''last_transaction_version''" current_balance_columns
  insert_current_coin_balances_query current_coin_balance_row "''current_coin_balances''"
  "ccb_writes L" ccb_pk "run_batch (coin_process_transactions L sds durations)" "sd_current_coin_balance sds"
  for L sds durations
proof
  show "int_of (map_of (current_coin_balance_row c)) ''last_transaction_version'' = ver t"
    if "c \<in> set (ccb_writes L t)" for c t
    using ccb_writes_version [OF that] by (simp add: current_coin_balance_row_def int_of_def)
next
  fix env sizes txns d d' X g
  assume run: "run_batch (coin_process_transactions L sds durations) (env, sizes, txns) d = (Inr (), d')"
    and env: "server_ok g env insert_current_coin_balances_query X" "clean_stable (sd_current_coin_balance sds) X"
    and sub: "{c. latest_row (ccb_writes L) ccb_pk txns (ccb_pk c) = Some c} \<subseteq> X"
    and ok: "table_ok [''owner_address'', ''coin_type_hash''] (WhereLe ''last_transaction_version'')
      current_balance_columns (d ''current_coin_balances'')"
  obtain rows where rows: "coin_rows_of L txns = Inr rows"
    and ins: "coin_insert_to_db sds sizes env rows d = (Inr (), d')" by (rule coin_run_ok [OF run])
  have pg: "postgres (pg_exec env)" using env(1) by (simp add: server_ok_def)
  show "current_balances.ingested g {c. latest_row (ccb_writes L) ccb_pk txns (ccb_pk c) = Some c}
    (d ''current_coin_balances'') (d' ''current_coin_balances'')"
    unfolding coin_batch_rows(1) [OF rows, symmetric]
    by (rule current_balances.join_ingests [OF ins [unfolded coin_insert_to_db_def Let_def], where i = 3, OF _ _ _ env])
      (use sub ok coin_batch_rows(1) [OF rows] pg in \<open>simp_all add: execute_in_chunks_untouched coin_query_defs\<close>)
qed

interpretation first_infos: current_table
  "[''coin_type_hash'']"
  "[''transaction_version_created'', ''creator_address'', ''name'', ''symbol'', ''decimals'',
    ''transaction_created_timestamp'', ''supply_aggregator_table_handle'', ''supply_aggregator_table_key'', ''inserted_at'']"
  "WhereGe ''transaction_version_created''" coin_info_columns
  insert_coin_infos_query coin_info_row "''coin_infos''"
  "coin_info_effect L" cin_coin_type "\<lambda>t. - ver t"
  "\<lambda>txns. {i. first_effect (coin_info_effect L) txns (cin_coin_type i) = Some i}"
  "run_batch (coin_process_transactions L sds durations)" "sd_coin_info sds"
  for L sds durations
proof
  show "cin_coin_type i = k" if "coin_info_effect L t k = Some i" for t k i
    by (rule coin_info_effect_key [OF that])
  show "where_ver (WhereGe ''transaction_version_created'') (stored_infos.arow i) = - ver t"
    if "coin_info_effect L t k = Some i" for t k i
    using coin_info_effect_version [OF that] by (simp add: coin_info_arow(3))
  show "\<exists>t \<in> set txns. coin_info_effect L t (cin_coin_type i) = Some i"
    if "i \<in> {i. first_effect (coin_info_effect L) txns (cin_coin_type i) = Some i}" for i txns
    using that first_effect_in by fast
  show "i \<in> {i. first_effect (coin_info_effect L) txns (cin_coin_type i) = Some i}"
    if "version_ordered txns" and w: "winner (\<lambda>t. - ver t) (coin_info_effect L) (set txns) k i" for txns k i
  proof -
    have "first_effect (coin_info_effect L) txns k = Some i" using that by (simp add: first_effect_winner)
    moreover from w have "cin_coin_type i = k" using coin_info_effect_key by (auto simp: winner_def)
    ultimately show ?thesis by simp
  qed
next
  fix env sizes txns d d' X g
  assume run: "run_batch (coin_process_transactions L sds durations) (env, sizes, txns) d = (Inr (), d')"
    and env: "server_ok g env insert_coin_infos_query X" "clean_stable (sd_coin_info sds) X"
    and sub: "{i. first_effect (coin_info_effect L) txns (cin_coin_type i) = Some i} \<subseteq> X"
    and ok: "table_ok [''coin_type_hash''] (WhereGe ''transaction_version_created'') coin_info_columns (d ''coin_infos'')"
  obtain rows where rows: "coin_rows_of L txns = Inr rows"
    and ins: "coin_insert_to_db sds sizes env rows d = (Inr (), d')" by (rule coin_run_ok [OF run])
  have pg: "postgres (pg_exec env)" using env(1) by (simp add: server_ok_def)
  show "stored_infos.ingested g {i. first_effect (coin_info_effect L) txns (cin_coin_type i) = Some i}
    (d ''coin_infos'') (d' ''coin_infos'')"
    unfolding coin_batch_rows(3) [OF rows, symmetric]
    by (rule stored_infos.join_ingests [OF ins [unfolded coin_insert_to_db_def Let_def], where i = 1, OF _ _ _ env])
      (use sub ok coin_batch_rows(3) [OF rows] pg in \<open>simp_all add: execute_in_chunks_untouched coin_query_defs\<close>)
qed auto

text \<open>
  C8: what the table of current coin balances holds. Take a history of transactions with increasing versions, cut
  into batches in any way, processed in any order and any number of times, starting from an empty table; the rows of
  the history are left as they are by the removal of null bytes, and the two keys in use agree on them: the batch
  collects by the coin type, cut to 5000 bytes, and the table is keyed by the hash of the whole type. Then a key has a
  row exactly when the history writes the key, and the row is one of those; if no statement loses its version guard,
  that is if the debug text of no query over these rows contains \<open>where\<close>, it is the balance of the last coin store
  written for the owner and the coin.
\<close>

theorem current_coin_balances_converge:
  assumes "insert_batches (run_batch (coin_process_transactions L sds durations)) runs d = Inr d'"
    and "d ''current_coin_balances'' = Map.empty" and "version_ordered H" and "set H = run_txns runs"
    and "servers_ok runs" and "clean_stable (sd_current_coin_balance sds) (written (ccb_writes L) H)"
    and "\<forall>a \<in> written (ccb_writes L) H. \<forall>b \<in> written (ccb_writes L) H.
      ccb_coin_type_hash a = ccb_coin_type_hash b \<longleftrightarrow> ccb_coin_type a = ccb_coin_type b"
  shows "stored_from (\<lambda>c. map_of (current_coin_balance_row c) |` current_balance_columns)
      {c \<in> written (ccb_writes L) H. [SqlText (ccb_owner_address c), SqlText (ccb_coin_type_hash c)] = K}
      (view current_balance_columns (d' ''current_coin_balances'') K) \<and>
    (guards_kept runs insert_current_coin_balances_query (written (ccb_writes L) H) \<longrightarrow>
      (view current_balance_columns (d' ''current_coin_balances'') K = Some r \<longleftrightarrow>
        (\<exists>c. latest_row (ccb_writes L) ccb_pk H (ccb_pk c) = Some c \<and>
          [SqlText (ccb_owner_address c), SqlText (ccb_coin_type_hash c)] = K \<and>
          map_of (current_coin_balance_row c) |` current_balance_columns = r)))"
proof -
  have keys: "\<forall>a \<in> written (ccb_writes L) H. \<forall>b \<in> written (ccb_writes L) H.
    current_balances.pkey (current_balances.arow a) = current_balances.pkey (current_balances.arow b) \<longleftrightarrow>
    ccb_pk a = ccb_pk b"
    using assms(7) by (auto simp: ccb_arow(2) ccb_pk_def)
  show ?thesis
    using latest_balances.latest_content [OF assms(1-6) keys] unfolding ccb_arow(2) unfolding ccb_arow(1) [abs_def] by blast
qed

text \<open>
  C23: what the table of coin infos holds. For a history as above, whatever the batches, their order and
  repetitions, starting from an empty table, for rows that the removal of null bytes leaves as they are and on which
  the hash and the coin type agree: a coin has a row exactly when a transaction of the history writes its info, and
  the row is one of those; if no statement loses its version guard, that is if the debug text of no query over these
  rows contains \<open>where\<close>, it is the one of the earliest transaction that wrote it.
\<close>

theorem coin_infos_keep_first:
  assumes "insert_batches (run_batch (coin_process_transactions L sds durations)) runs d = Inr d'"
    and "d ''coin_infos'' = Map.empty" and "version_ordered H" and "set H = run_txns runs" and "servers_ok runs"
    and "clean_stable (sd_coin_info sds) (effects (coin_info_effect L) cin_coin_type (set H))"
    and "\<forall>a \<in> effects (coin_info_effect L) cin_coin_type (set H).
      \<forall>b \<in> effects (coin_info_effect L) cin_coin_type (set H).
      cin_coin_type_hash a = cin_coin_type_hash b \<longleftrightarrow> cin_coin_type a = cin_coin_type b"
  shows "stored_from (\<lambda>i. map_of (coin_info_row i) |` coin_info_columns)
      {i \<in> effects (coin_info_effect L) cin_coin_type (set H). [SqlText (cin_coin_type_hash i)] = K}
      (view coin_info_columns (d' ''coin_infos'') K) \<and>
    (guards_kept runs insert_coin_infos_query (effects (coin_info_effect L) cin_coin_type (set H)) \<longrightarrow>
      (view coin_info_columns (d' ''coin_infos'') K = Some r \<longleftrightarrow>
        (\<exists>i. first_effect (coin_info_effect L) H (cin_coin_type i) = Some i \<and> K = [SqlText (cin_coin_type_hash i)] \<and>
          r = map_of (coin_info_row i) |` coin_info_columns)))"
proof -
  have keys: "\<forall>a \<in> effects (coin_info_effect L) cin_coin_type (set H).
    \<forall>b \<in> effects (coin_info_effect L) cin_coin_type (set H).
    stored_infos.pkey (stored_infos.arow a) = stored_infos.pkey (stored_infos.arow b) \<longleftrightarrow>
    cin_coin_type a = cin_coin_type b"
    using assms(7) by (simp add: coin_info_arow(2))
  have key: "cin_coin_type i = k" if "first_effect (coin_info_effect L) H k = Some i" for k i
    using first_effect_in [OF that] coin_info_effect_key by fast
  have "view coin_info_columns (d' ''coin_infos'') K = Some r \<longleftrightarrow>
      (\<exists>i. first_effect (coin_info_effect L) H (cin_coin_type i) = Some i \<and> K = [SqlText (cin_coin_type_hash i)] \<and>
        r = map_of (coin_info_row i) |` coin_info_columns)"
    if kept: "guards_kept runs insert_coin_infos_query (effects (coin_info_effect L) cin_coin_type (set H))"
    unfolding first_infos.table_converges [OF assms(1-5) kept assms(6) keys] first_effect_winner [OF assms(3), symmetric]
      coin_info_arow(2) unfolding coin_info_arow(1)
    using key by fast
  with first_infos.table_content [OF assms(1,2,4-6) keys, of K, unfolded coin_info_arow(2), unfolded coin_info_arow(1) [abs_def]]
  show ?thesis by blast
qed

section \<open>Runs\<close>

lemma coin_batch_succeeds:
  assumes "coin_rows_of L txns = Inr rows" and "txns \<noteq> []" and "length (cins_activities rows) \<le> 1"
    and "length (cins_infos rows) \<le> 1" and "length (cins_current rows) \<le> 1"
  shows "\<exists>d'. run_batch (coin_process_transactions L sds durations) (sample_pg, [], txns) d = (Inr (), d')"
proof -
  have "\<exists>d'. coin_insert_to_db sds [] sample_pg rows d = (Inr (), d')"
    unfolding coin_insert_to_db_def Let_def
    by (rule join_inserts_succeeds, unfold list.set ball_simps, intro conjI allI TrueI)
      (rule reference_single reference_do_nothing;
        simp add: default_chunk_size coin_query_defs assms(3-5) del: One_nat_def)+
  with assms(1,2) show ?thesis
    unfolding coin_process_transactions_def by (intro run_batch_succeeds) auto
qed

lemma coin_txn_batch:
  "\<exists>rows. coin_rows_of coin_libs [coin_txn v] = Inr rows \<and> length (cins_activities rows) \<le> 1 \<and>
    length (cins_infos rows) \<le> 1 \<and> length (cins_current rows) \<le> 1"
proof -
  obtain r where r: "coin_from_transaction coin_libs (coin_txn v) = Inr r" using coin_txn_runs(1) by blast
  then obtain rows where rows: "coin_rows_of coin_libs [coin_txn v] = Inr rows"
    and act: "cins_activities rows = crw_activities r"
    by (simp add: coin_rows_of_def coin_merge_def no_coin_rows_def)
  have "set (cins_current rows) \<subseteq> {sample_balance (as_i64 v)}"
    unfolding coin_batch_rows(1) [OF rows] latest_row_def using coin_txn_runs(2) [of v] last_by_Some
    by (fastforce simp: ccb_writes_def)
  then have "length (cins_current rows) \<le> 1"
    by (rule length_le_one [OF coin_batch_rows(2) [OF rows]])
  moreover have "set (cins_infos rows) \<subseteq> {sample_info (as_i64 v)}"
    unfolding coin_batch_rows(3) [OF rows] using coin_txn_runs(3) [of v] last_by_Some first_effect_in
    by (fastforce simp: coin_info_effect_def)
  then have "length (cins_infos rows) \<le> 1"
    by (rule length_le_one [OF coin_batch_rows(4) [OF rows]])
  ultimately show ?thesis using rows act coin_txn_activities [OF r] by auto
qed

definition sample_coin_serdes :: coin_serdes where
  "sample_coin_serdes =
     \<lparr>sd_coin_activity = \<lparr>to_value = (\<lambda>_. JNull), from_value = (\<lambda>_. None)\<rparr>,
      sd_coin_info = \<lparr>to_value = (\<lambda>i. JInt (cin_transaction_version_created i)),
        from_value = (\<lambda>j. case j of JInt v \<Rightarrow> Some (sample_info v) | _ \<Rightarrow> None)\<rparr>,
      sd_coin_balance = \<lparr>to_value = (\<lambda>_. JNull), from_value = (\<lambda>_. None)\<rparr>,
      sd_current_coin_balance = \<lparr>to_value = (\<lambda>c. JInt (ccb_last_transaction_version c)),
        from_value = (\<lambda>j. case j of JInt v \<Rightarrow> Some (sample_balance v) | _ \<Rightarrow> None)\<rparr>,
      sd_coin_supply = \<lparr>to_value = (\<lambda>_. JNull), from_value = (\<lambda>_. None)\<rparr>\<rparr>"

text \<open>The later transaction is processed first, the earlier one next, and the later one again.\<close>

definition coin_runs :: "batch_run list" where
  "coin_runs = [(sample_pg, [], [coin_txn 8]), (sample_pg, [], [coin_txn 7]), (sample_pg, [], [coin_txn 8])]"

lemma coin_runs_ok:
  "\<exists>d'. insert_batches (run_batch (coin_process_transactions coin_libs sample_coin_serdes (0, 0))) coin_runs d = Inr d'"
  "version_ordered [coin_txn 7, coin_txn 8]" "set [coin_txn 7, coin_txn 8] = run_txns coin_runs"
  "servers_ok coin_runs" "guards_kept coin_runs build X"
proof -
  let ?batch = "run_batch (coin_process_transactions coin_libs sample_coin_serdes (0, 0))"
  have "\<exists>d'. ?batch (sample_pg, [], [coin_txn v]) d = (Inr (), d')" for v d
    using coin_txn_batch [of v] coin_batch_succeeds by blast
  then show "\<exists>d'. insert_batches ?batch coin_runs d = Inr d'"
    by (intro insert_batches_total) (auto simp: coin_runs_def)
  show "version_ordered [coin_txn 7, coin_txn 8]"
    by (simp add: version_ordered_def ver_def coin_txn_def sample_user_txn_def as_i64_small)
  show "set [coin_txn 7, coin_txn 8] = run_txns coin_runs" by (auto simp: run_txns_def coin_runs_def)
  show "servers_ok coin_runs" "guards_kept coin_runs build X"
    by (auto simp: coin_runs_def version_ordered_def servers_ok_def guards_kept_def sample_pg_ok)
qed

theorem current_coin_balances_converge_witness:
  "\<exists>d'. insert_batches (run_batch (coin_process_transactions coin_libs sample_coin_serdes (0, 0))) coin_runs
      (\<lambda>_. Map.empty) = Inr d' \<and>
    view current_balance_columns (d' ''current_coin_balances'')
      [SqlText (standardize_address ''0xa''), SqlText aptos_coin_type_str] =
      Some (map_of (current_coin_balance_row (sample_balance 8)) |` current_balance_columns)"
proof -
  let ?H = "[coin_txn 7, coin_txn 8]" and ?W = "written (ccb_writes coin_libs) [coin_txn 7, coin_txn 8]"
  obtain d' where run: "insert_batches (run_batch (coin_process_transactions coin_libs sample_coin_serdes (0, 0)))
      coin_runs (\<lambda>_. Map.empty) = Inr d'" using coin_runs_ok(1) by blast
  have writes: "ccb_writes coin_libs (coin_txn v) = [sample_balance (as_i64 v)]" for v
    by (simp add: ccb_writes_def coin_txn_runs(2))
  have clean: "clean_stable (sd_current_coin_balance sample_coin_serdes) ?W"
    by (auto simp: clean_stable_def written_def writes remove_null_bytes_def sample_coin_serdes_def sample_balance_def)
  have keys: "\<forall>a \<in> ?W. \<forall>b \<in> ?W. ccb_coin_type_hash a = ccb_coin_type_hash b \<longleftrightarrow> ccb_coin_type a = ccb_coin_type b"
    by (simp add: written_def writes sample_balance_def)
  have "latest_row (ccb_writes coin_libs) ccb_pk ?H (standardize_address ''0xa'', aptos_coin_type_str) = Some (sample_balance 8)"
    by (simp add: latest_row_def writes last_by_def ccb_pk_def as_i64_small) (simp add: sample_balance_def)
  then have "\<exists>c. latest_row (ccb_writes coin_libs) ccb_pk ?H (ccb_pk c) = Some c \<and>
      [SqlText (ccb_owner_address c), SqlText (ccb_coin_type_hash c)] =
        [SqlText (standardize_address ''0xa''), SqlText aptos_coin_type_str] \<and>
      map_of (current_coin_balance_row c) |` current_balance_columns =
        map_of (current_coin_balance_row (sample_balance 8)) |` current_balance_columns"
    by (intro exI [of _ "sample_balance 8"]) (simp add: sample_balance_def ccb_pk_def)
  with current_coin_balances_converge [OF run _ coin_runs_ok(2-4) clean keys] coin_runs_ok(5) run show ?thesis by blast
qed

theorem coin_infos_keep_first_witness:
  "\<exists>d'. insert_batches (run_batch (coin_process_transactions coin_libs sample_coin_serdes (0, 0))) coin_runs
      (\<lambda>_. Map.empty) = Inr d' \<and>
    view coin_info_columns (d' ''coin_infos'') [SqlText aptos_coin_type_str] =
      Some (map_of (coin_info_row (sample_info 7)) |` coin_info_columns)"
proof -
  let ?H = "[coin_txn 7, coin_txn 8]" and ?e = "coin_info_effect coin_libs"
  let ?E = "effects ?e cin_coin_type (set ?H)"
  obtain d' where run: "insert_batches (run_batch (coin_process_transactions coin_libs sample_coin_serdes (0, 0)))
      coin_runs (\<lambda>_. Map.empty) = Inr d'" using coin_runs_ok(1) by blast
  have eff: "?e (coin_txn v) k = (if k = aptos_coin_type_str then Some (sample_info (as_i64 v)) else None)" for v k
    by (auto simp: coin_info_effect_def coin_txn_runs(3) last_by_def sample_info_def)
  have E: "?E \<subseteq> {sample_info 7, sample_info 8}"
    by (auto simp: effects_def eff as_i64_small split: if_splits)
  have clean: "clean_stable (sd_coin_info sample_coin_serdes) ?E"
    using E by (auto simp: clean_stable_def remove_null_bytes_def sample_coin_serdes_def) (auto simp: sample_info_def)
  have keys: "\<forall>a \<in> ?E. \<forall>b \<in> ?E. cin_coin_type_hash a = cin_coin_type_hash b \<longleftrightarrow> cin_coin_type a = cin_coin_type b"
  proof -
    have "cin_coin_type_hash a = aptos_coin_type_str \<and> cin_coin_type a = aptos_coin_type_str" if "a \<in> ?E" for a
      using subsetD [OF E that] by (auto simp: sample_info_def)
    then show ?thesis by simp
  qed
  have "first_effect ?e ?H aptos_coin_type_str = Some (sample_info 7)"
    by (simp add: first_effect_def eff as_i64_small)
  then have "\<exists>i. first_effect ?e ?H (cin_coin_type i) = Some i \<and> [SqlText aptos_coin_type_str] = [SqlText (cin_coin_type_hash i)] \<and>
      map_of (coin_info_row (sample_info 7)) |` coin_info_columns = map_of (coin_info_row i) |` coin_info_columns"
    by (intro exI [of _ "sample_info 7"]) (simp add: sample_info_def)
  with coin_infos_keep_first [OF run _ coin_runs_ok(2-4) clean keys] coin_runs_ok(5) run show ?thesis by blast
qed

end
