(* ===== verification/Events.thy ===== *)
theory Events
  imports Convergence Default_Models
begin

text \<open>
  \<open>models/events_models/events.rs\<close> and \<open>processors/events_processor.rs\<close>: the events of user
  transactions, except those of two filtered types and of one filtered entry function, and one more row
  for every multisig account that a user transaction writes. The row of an event has the position of
  the event in its transaction; the row made for a multisig account has the number of rows collected so
  far in the batch.
\<close>

section \<open>Rows\<close>

definition event_type_max_length :: nat where "event_type_max_length = 600"

record event_model =
  em_sequence_number :: i64
  em_creation_number :: i64
  em_account_address :: string
  em_transaction_version :: i64
  em_transaction_block_height :: i64
  em_type :: string
  em_data :: json
  em_event_index :: i64
  em_indexed_type :: string
  em_from :: string
  em_entry_function_payload :: json
  em_entry_function_id_str :: string
  em_module_address :: string
  em_module_name :: string
  em_event_name :: string
  em_inserted_at :: naive_date_time

text \<open>\<open>NaiveDateTime::from_timestamp\<close> panics where \<open>from_timestamp_opt\<close> has no value.\<close>

definition timestamp_to_naive :: "libs \<Rightarrow> timestamp option \<Rightarrow> failure + naive_date_time" where
  "timestamp_to_naive L t =
     (case t of
        Some ts \<Rightarrow> expect ''invalid or out-of-range datetime'' (lib_from_timestamp_opt L (ts_seconds ts) (as_u32 (ts_nanos ts)))
      | None \<Rightarrow> expect ''invalid or out-of-range datetime'' (lib_from_timestamp_opt L 0 0))"

definition nth_opt :: "'a list \<Rightarrow> nat \<Rightarrow> 'a option" where
  "nth_opt xs i = (if i < length xs then Some (xs ! i) else None)"

definition part_or_empty :: "nat \<Rightarrow> string \<Rightarrow> string" where
  "part_or_empty i t = (case nth_opt (split_on ''::'' t) i of Some p \<Rightarrow> p | None \<Rightarrow> [])"

definition event_name_of :: "string \<Rightarrow> string" where
  "event_name_of t = hd (split_on ''<'' (part_or_empty 2 t))"

definition entry_function_of ::
  "libs \<Rightarrow> transaction_payload \<Rightarrow> failure + json option \<times> string" where
  "entry_function_of L payload =
     and_then (expect ''called Option::unwrap on a None value'' (tp_payload payload)) (\<lambda>p.
     Inr (case p of
            EntryFunctionPayload efp \<Rightarrow> (lib_entry_function_payload_to_value L efp, efp_entry_function_id_str efp)
          | _ \<Rightarrow> (None, [])))"

text \<open>The sender and the entry function of the request, and the module parts of the event's type.\<close>

definition event_source ::
  "libs \<Rightarrow> user_transaction_request option \<Rightarrow> failure + string \<times> json \<times> string" where
  "event_source L request =
     (case Option.bind request utr_payload of
        Some payload \<Rightarrow>
          and_then (entry_function_of L payload) (\<lambda>(payload_json, id_str).
          Inr (case request of Some r \<Rightarrow> utr_sender r | None \<Rightarrow> [],
               case payload_json of Some j \<Rightarrow> j | None \<Rightarrow> JNull, id_str))
      | None \<Rightarrow> Inr ([], JNull, []))"

definition event_module ::
  "string \<Rightarrow> user_transaction_request option \<Rightarrow> failure + string \<times> string" where
  "event_module t request =
     (case Option.bind request utr_payload of
        Some _ \<Rightarrow> Inr (part_or_empty 0 t, part_or_empty 1 t)
      | None \<Rightarrow>
          and_then (expect ''called Option::unwrap on a None value'' (nth_opt (split_on ''::'' t) 0)) (\<lambda>address.
          and_then (expect ''called Option::unwrap on a None value'' (nth_opt (split_on ''::'' t) 1)) (\<lambda>name.
          Inr (address, name))))"

definition event_from_event ::
  "libs \<Rightarrow> event_pb \<Rightarrow> i64 \<Rightarrow> i64 \<Rightarrow> i64 \<Rightarrow> user_transaction_request option \<Rightarrow> timestamp option \<Rightarrow>
   failure + event_model" where
  "event_from_event L event version block_height event_index request inserted_at =
     (let t = ev_type_str event in
      and_then (event_source L request) (\<lambda>(sender, payload, id_str).
      and_then (expect ''called Option::unwrap on a None value'' (ev_key event)) (\<lambda>key.
      and_then (unwrap_json L (ev_data event)) (\<lambda>data.
      and_then (truncate_str t event_type_max_length) (\<lambda>indexed_type.
      and_then (event_module t request) (\<lambda>(module_address, module_name).
      and_then (timestamp_to_naive L inserted_at) (\<lambda>ts.
      Inr \<lparr>em_sequence_number = as_i64 (ev_sequence_number event),
           em_creation_number = as_i64 (ek_creation_number key),
           em_account_address = standardize_address (ek_account_address key),
           em_transaction_version = version, em_transaction_block_height = block_height,
           em_type = t, em_data = data, em_event_index = event_index, em_indexed_type = indexed_type,
           em_from = sender, em_entry_function_payload = payload, em_entry_function_id_str = id_str,
           em_module_address = module_address, em_module_name = module_name,
           em_event_name = event_name_of t, em_inserted_at = ts\<rparr>)))))))"

definition from_events ::
  "libs \<Rightarrow> event_pb list \<Rightarrow> i64 \<Rightarrow> i64 \<Rightarrow> user_transaction_request option \<Rightarrow> timestamp option \<Rightarrow>
   failure + event_model list" where
  "from_events L events version block_height request inserted_at =
     map_result (\<lambda>(index, event). event_from_event L event version block_height (int index) request inserted_at)
       (enumerate 0 events)"

section \<open>The processor\<close>

definition filtered_events :: "string list" where
  "filtered_events = [''0x1::transaction_fee::FeeStatement'', ''0x1::multisig_account::create_with_owners'']"

definition required_events :: "string list" where
  "required_events =
     [''0x111ae3e5bc816a5e63c2da97d0aa3886519e0cd5e4b046659fa35796bd11542a'',
      ''0x9770fa9c725cbd97eb50b2be5f7416efdfd1f1554beb0750d4dae4c64e860da3'',
      ''0x190d44266241744264b964a37b8f09863167a12d3e70cda39376cfb4e3561e12'',
      ''0x61d2c22a6cb7831bee0f48363b0eec92369357aece0d1142062f7d5d85c7bef8'',
      ''0xc7efb4076dbe143cbcd98cfaaa929ecfc8f299203dfff63b95ccb6bfe19850fa'',
      ''0x48271d39d0b05bd6efca2278f22277d6fcc375504f9839fd73f74ace240861af'',
      ''0x5ae6789dd2fec1a9ec9cccfb3acaf12e93d432f0a3a42c92fe1a9d490b7bbc06'',
      ''0x31a6675cbe84365bf2b0cbce617ece6c47023ef70826533bde5203d32171dc3c'',
      ''0xe11c12ec495f3989c35e1c6a0af414451223305b579291fc8f3d9d0575a23c26'',
      ''0x584b50b999c78ade62f8359c91b5165ff390338d45f8e55969a04e65d76258c9'',
      ''0xd520d8669b0a3de23119898dcdff3e0a27910db247663646ad18cf16e44c6f5'',
      ''0xc0deb00c405f84c85dc13442e305df75d1288100cdd82675695f6148c7ece51c'',
      ''0x17f1e926a81639e9557f4e4934df93452945ec30bc962e11351db59eb0d78c33'',
      ''0x1::voting'', ''0x1::aptos_governance'', ''0x1::delegation_pool'',
      ''0x05a97986a9d031c4567e15b797be516910cfcb4156312482efc6a19c0a30c948'',
      ''0xfaf4e633ae9eb31366c9ca24214231760926576c7b625313b3688b5e900731f6'',
      ''0x163df34fccbf003ce219d3f1d9e70d140b60622cb9dd47599c25fb2f797ba6e'',
      ''0x4bf51972879e3b95c4781a5cdcb9e1ee24ef483e7d22f2d903626f126df62bd1'',
      ''0x3c1d4a86594d681ff7e5d5a233965daeabdc6a15fe5672ceeda5260038857183'',
      ''0xc6bc659f1649553c1a3fa05d9727433dc03843baac29473c817d06d39e7621ba'',
      ''0x167f411fc5a678fb40d86e0af646fa8f62458b686ad8996215248447037af40c'',
      ''0x1::multisig_account::CreateTransactionEvent'', ''0x1::multisig_account::AddOwnersEvent'',
      ''0x1::multisig_account::RemoveOwnersEvent'', ''0x1::multisig_account::VoteEvent'',
      ''0x1::multisig_account::TransactionExecutionSucceededEvent'',
      ''0x1::multisig_account::TransactionExecutionFailedEvent'',
      ''0x1::multisig_account::ExecuteRejectedTransactionEvent'',
      ''0xccd1a84ccea93531d7f165b90134aa0415feb30e8757ab1632dac68c0055f5c2'']"

definition keep_event :: "event_model \<Rightarrow> bool" where
  "keep_event e \<longleftrightarrow>
     (em_type e \<notin> set filtered_events \<or> em_type e \<in> set required_events) \<and>
     em_entry_function_id_str e \<notin> set filtered_events"

definition event_row :: "event_model \<Rightarrow> sql_row" where
  "event_row e =
     [(''sequence_number'', SqlInt (em_sequence_number e)), (''creation_number'', SqlInt (em_creation_number e)),
      (''account_address'', SqlText (em_account_address e)),
      (''transaction_version'', SqlInt (em_transaction_version e)),
      (''transaction_block_height'', SqlInt (em_transaction_block_height e)),
      (''type'', SqlText (em_type e)), (''data'', SqlJson (em_data e)),
      (''event_index'', SqlInt (em_event_index e)), (''indexed_type'', SqlText (em_indexed_type e)),
      (''from'', SqlText (em_from e)), (''entry_function_payload'', SqlJson (em_entry_function_payload e)),
      (''entry_function_id_str'', SqlText (em_entry_function_id_str e)),
      (''module_address'', SqlText (em_module_address e)), (''module_name'', SqlText (em_module_name e)),
      (''event_name'', SqlText (em_event_name e)), (''inserted_at'', SqlTimestamp (em_inserted_at e))]"

definition insert_events_query :: "event_model list \<Rightarrow> query" where
  "insert_events_query items =
     (\<lparr>iq_table = ''events'', iq_rows = map event_row items, iq_target = [''transaction_version'', ''event_index''],
       iq_action = DoUpdate [''inserted_at'', ''indexed_type'']\<rparr>, None)"

definition multisig_account_type :: string where
  "multisig_account_type = ''0x1::multisig_account::MultisigAccount''"

definition multisig_event :: "user_transaction_request \<Rightarrow> write_resource \<Rightarrow> event_pb" where
  "multisig_event req wr =
     \<lparr>ev_key = Some \<lparr>ek_creation_number = utr_sequence_number req,
                     ek_account_address = standardize_address (utr_sender req)\<rparr>,
      ev_sequence_number = utr_sequence_number req, ev_type_str = wr_type_str wr, ev_data = wr_data wr\<rparr>"

definition add_multisig_event ::
  "libs \<Rightarrow> transaction \<Rightarrow> user_transaction_request \<Rightarrow> write_set_change_pb \<Rightarrow> event_model list \<Rightarrow>
   failure + event_model list" where
  "add_multisig_event L txn req c events =
     and_then (expect ''called Option::unwrap on a None value'' (wsc_change c)) (\<lambda>change.
     case change of
       WriteResource wr \<Rightarrow>
         if wr_type_str wr = multisig_account_type
         then and_then (event_from_event L (multisig_event req wr) (as_i64 (txn_version txn))
                  (as_i64 (txn_block_height txn)) (int (length events)) (Some req) (txn_timestamp txn))
                (\<lambda>e. Inr (events @ [e]))
         else Inr events
     | _ \<Rightarrow> Inr events)"

definition add_events :: "libs \<Rightarrow> transaction \<Rightarrow> event_model list \<Rightarrow> failure + event_model list" where
  "add_events L txn events =
     (case txn_txn_data txn of
        Some (User inner) \<Rightarrow>
          (case ut_request inner of
             None \<Rightarrow> Inr events
           | Some req \<Rightarrow>
               and_then (expect ''called Option::unwrap on a None value'' (txn_info txn)) (\<lambda>info.
               and_then (fold_result (add_multisig_event L txn req) (ti_changes info) events) (\<lambda>events.
               and_then (from_events L (ut_events inner) (as_i64 (txn_version txn)) (as_i64 (txn_block_height txn))
                           (Some req) (txn_timestamp txn)) (\<lambda>txn_events.
               Inr (events @ filter keep_event txn_events)))))
      | _ \<Rightarrow> Inr events)"

definition events_rows_of :: "libs \<Rightarrow> transaction list \<Rightarrow> failure + event_model list" where
  "events_rows_of L transactions = fold_result (add_events L) transactions []"

definition events_insert_to_db ::
  "event_model serde \<Rightarrow> (string \<times> nat) list \<Rightarrow> pg_env \<Rightarrow> event_model list \<Rightarrow> db_op" where
  "events_insert_to_db sd per_table_chunk_sizes env events =
     execute_in_chunks env insert_events_query sd events (get_config_table_chunk_size 16 ''events'' per_table_chunk_sizes)"

definition events_process_transactions ::
  "libs \<Rightarrow> event_model serde \<Rightarrow> rat \<times> rat \<Rightarrow> (string \<times> nat) list \<Rightarrow> process_fn" where
  "events_process_transactions L sd durations per_table_chunk_sizes =
     process_batch (events_rows_of L) (events_insert_to_db sd per_table_chunk_sizes) durations"

interpretation events_processor: batch_processor "events_rows_of L" "events_insert_to_db sd sizes" durations
  for L sd sizes durations
  by unfold_locales (simp add: events_insert_to_db_def execute_in_chunks_untouched insert_events_query_def)

section \<open>The rows of a batch\<close>

definition event_pk :: "event_model \<Rightarrow> i64 \<times> i64" where
  "event_pk e = (em_transaction_version e, em_event_index e)"

definition writes_multisig :: "write_set_change_pb \<Rightarrow> bool" where
  "writes_multisig c \<longleftrightarrow> (\<exists>wr. wsc_change c = Some (WriteResource wr) \<and> wr_type_str wr = multisig_account_type)"

lemma event_from_event_pk:
  "event_from_event L event version height index request ts = Inr e \<Longrightarrow> event_pk e = (version, index)"
  by (auto simp: event_from_event_def event_pk_def Let_def)

lemma from_events_pk:
  assumes "from_events L events version height request ts = Inr es"
  shows "map event_pk es = map (\<lambda>i. (version, int i)) [0..<length events]"
proof -
  have "map event_pk es = map (\<lambda>i. (version, int i)) [n..<n + length events]"
    if "map_result (\<lambda>(index, event). event_from_event L event version height (int index) request ts)
      (enumerate n events) = Inr es" for n es
    using that
  proof (induction events arbitrary: n es)
    case (Cons event events)
    then obtain e es' where e: "event_from_event L event version height (int n) request ts = Inr e"
      "map_result (\<lambda>(index, event). event_from_event L event version height (int index) request ts)
        (enumerate (Suc n) events) = Inr es'" "es = e # es'" by auto
    have "map (\<lambda>i. (version, int i)) [n..<n + length (event # events)] =
        (version, int n) # map (\<lambda>i. (version, int i)) [Suc n..<Suc n + length events]"
      by (simp add: upt_conv_Cons del: upt_Suc)
    with e Cons.IH [OF e(2)] event_from_event_pk [OF e(1)] show ?case by simp
  qed simp
  from this [of 0 es] assms show ?thesis by (simp add: from_events_def)
qed

text \<open>The list of required events plays no role: none of them is a filtered one.\<close>

lemma keep_event_iff:
  "keep_event e \<longleftrightarrow> em_type e \<notin> set filtered_events \<and> em_entry_function_id_str e \<notin> set filtered_events"
proof -
  have "list_all (\<lambda>t. t \<notin> set required_events) filtered_events" by code_simp
  then show ?thesis by (auto simp: keep_event_def list_all_iff)
qed

lemma add_multisig_none:
  "\<not> writes_multisig c \<Longrightarrow> add_multisig_event L txn req c events = Inr events' \<Longrightarrow> events' = events"
  by (clarsimp simp: writes_multisig_def add_multisig_event_def) (auto split: change.splits if_splits)

lemma add_multisig_all_none:
  "\<forall>c \<in> set cs. \<not> writes_multisig c \<Longrightarrow> fold_result (add_multisig_event L txn req) cs events = Inr events' \<Longrightarrow>
   events' = events"
  by (induction cs) (auto dest: add_multisig_none)

definition kept_events :: "libs \<Rightarrow> transaction \<Rightarrow> event_model list" where
  "kept_events L txn =
     (case txn_txn_data txn of
        Some (User inner) \<Rightarrow>
          (case ut_request inner of
             None \<Rightarrow> []
           | Some req \<Rightarrow>
               (case from_events L (ut_events inner) (ver txn) (as_i64 (txn_block_height txn)) (Some req)
                       (txn_timestamp txn) of
                  Inr es \<Rightarrow> filter keep_event es | Inl _ \<Rightarrow> []))
      | _ \<Rightarrow> [])"

definition no_multisig :: "transaction \<Rightarrow> bool" where
  "no_multisig txn \<longleftrightarrow> (case txn_info txn of Some info \<Rightarrow> \<forall>c \<in> set (ti_changes info). \<not> writes_multisig c | None \<Rightarrow> True)"

lemma add_events_kept:
  assumes "add_events L t es = Inr es'" and "no_multisig t"
  shows "es' = es @ kept_events L t"
proof (cases "txn_txn_data t")
  case (Some data)
  with assms show ?thesis
    by (cases data) (auto simp: add_events_def kept_events_def no_multisig_def ver_def split: option.splits
        dest!: add_multisig_all_none [rotated])
qed (use assms in \<open>simp add: add_events_def kept_events_def\<close>)

lemma distinct_map_filter: "distinct (map f xs) \<Longrightarrow> distinct (map f (filter P xs))"
  by (induction xs) auto

lemma kept_events_pk:
  "distinct (map event_pk (kept_events L t))"
  "e \<in> set (kept_events L t) \<Longrightarrow> em_transaction_version e = ver t"
proof -
  have "distinct (map event_pk (kept_events L t)) \<and> (\<forall>e \<in> set (kept_events L t). em_transaction_version e = ver t)"
  proof (cases "kept_events L t = []")
    case False
    then obtain events req h ts es where es: "from_events L events (ver t) h req ts = Inr es"
      and kept: "kept_events L t = filter keep_event es"
      unfolding kept_events_def by (auto split: option.splits txn_data.splits sum.splits)
    have "distinct (map event_pk es)" unfolding from_events_pk [OF es] by (simp add: distinct_map inj_on_def)
    moreover have "em_transaction_version e = ver t" if "e \<in> set es" for e
    proof -
      have "event_pk e \<in> set (map event_pk es)" using that by simp
      then show ?thesis unfolding from_events_pk [OF es] by (auto simp: event_pk_def)
    qed
    ultimately show ?thesis unfolding kept by (auto simp: distinct_map_filter)
  qed simp
  then show "distinct (map event_pk (kept_events L t))"
    and "e \<in> set (kept_events L t) \<Longrightarrow> em_transaction_version e = ver t" by blast+
qed

lemma kept_events_distinct:
  assumes "version_ordered ts"
  shows "distinct (map event_pk (concat (map (kept_events L) ts)))"
  by (rule versioned_keys_distinct [OF assms, where version_of = fst])
    (simp_all add: kept_events_pk event_pk_def)

lemma events_rows_kept:
  "fold_result (add_events L) ts es = Inr es' \<Longrightarrow> \<forall>t \<in> set ts. no_multisig t \<Longrightarrow>
   es' = es @ concat (map (kept_events L) ts)"
  by (rule fold_result_concat) (auto dest: add_events_kept)

text \<open>
  C26: a batch of transactions with increasing versions, none of which writes a multisig account, gives
  exactly the events of its user transactions whose type and entry function are not filtered, in order,
  each under its own key; the list of required events changes nothing.
\<close>

theorem events_rows_complete:
  assumes "events_rows_of L ts = Inr es" and "version_ordered ts" and "\<forall>t \<in> set ts. no_multisig t"
  shows "es = concat (map (kept_events L) ts) \<and> distinct (map event_pk es) \<and>
    (keep_event e \<longleftrightarrow> em_type e \<notin> set filtered_events \<and> em_entry_function_id_str e \<notin> set filtered_events)"
  using events_rows_kept [of L ts "[]" es] assms kept_events_distinct [OF assms(2)] keep_event_iff
  by (simp add: events_rows_of_def)

section \<open>A multisig account at the start of a batch\<close>

lemma events_query_keys:
  "proposed_keys (fst (insert_events_query es)) = map (\<lambda>(v, i). [SqlInt v, SqlInt i]) (map event_pk es)"
  by (simp add: insert_events_query_def proposed_keys_def event_row_def row_key_def cell_def event_pk_def)

lemma add_multisig_prefix:
  "add_multisig_event L t req c es = Inr es' \<Longrightarrow> \<exists>xs. es' = es @ xs"
  by (clarsimp simp: add_multisig_event_def) (auto split: change.splits if_splits)

lemma add_events_prefix: "add_events L t es = Inr es' \<Longrightarrow> \<exists>xs. es' = es @ xs"
proof -
  have fold: "fold_result (add_multisig_event L t req) cs es = Inr es' \<Longrightarrow> \<exists>xs. es' = es @ xs" for req cs es es'
    by (rule fold_result_prefix) (auto dest: add_multisig_prefix)
  show "add_events L t es = Inr es' \<Longrightarrow> \<exists>xs. es' = es @ xs"
    by (auto simp: add_events_def split: option.splits txn_data.splits dest!: fold)
qed

lemma events_rows_prefix: "fold_result (add_events L) ts es = Inr es' \<Longrightarrow> \<exists>xs. es' = es @ xs"
  by (rule fold_result_prefix) (auto dest: add_events_prefix)

lemma add_one_multisig:
  assumes "filter writes_multisig cs = [c]" and "fold_result (add_multisig_event L t req) cs es = Inr es'"
  shows "\<exists>e. es' = es @ [e] \<and> event_pk e = (ver t, int (length es))"
proof -
  obtain cs1 cs2 where cs: "cs = cs1 @ c # cs2" "\<forall>x \<in> set cs1. \<not> writes_multisig x" "writes_multisig c"
      "\<forall>x \<in> set cs2. \<not> writes_multisig x"
    using assms(1) unfolding filter_eq_Cons_iff by (metis filter_empty_conv)
  obtain es1 es2 where es: "fold_result (add_multisig_event L t req) cs1 es = Inr es1"
      "add_multisig_event L t req c es1 = Inr es2" "fold_result (add_multisig_event L t req) cs2 es2 = Inr es'"
    using assms(2) by (auto simp: cs(1) fold_result_append)
  have eq: "es1 = es" "es' = es2" using add_multisig_all_none [OF cs(2) es(1)] add_multisig_all_none [OF cs(4) es(3)] by auto
  from cs(3) obtain wr where "wsc_change c = Some (WriteResource wr)" "wr_type_str wr = multisig_account_type"
    by (auto simp: writes_multisig_def)
  with es(2) show ?thesis
    by (auto simp: eq add_multisig_event_def ver_def dest!: event_from_event_pk)
qed

text \<open>
  C27: a batch whose first transaction writes one multisig account and has a first event that is kept can
  never be inserted: the row made for the account and the row of the event get the same key, PostgreSQL
  rejects the statement, and the processor returns an error whatever the rest of the batch, the state
  of the database and the number of attempts.
\<close>

theorem events_multisig_collision:
  assumes "txn_txn_data t = Some (User inner)" and "ut_request inner = Some req" and "txn_info t = Some info"
    and "filter writes_multisig (ti_changes info) = [c]"
    and "from_events L (ut_events inner) (ver t) (as_i64 (txn_block_height t)) (Some req) (txn_timestamp t) = Inr (e # es)"
    and "keep_event e" and "postgres (pg_exec env)" and "fair_sched env"
    and "2 \<le> get_config_table_chunk_size 16 ''events'' sizes"
    and "\<And>x y. remove_null_bytes sd x = Inr y \<Longrightarrow> event_pk y = event_pk x"
  shows "\<exists>f d'. events_process_transactions L sd durations sizes env (t # ts) start_version end_version chain_id d = (Inl f, d')"
proof (cases "events_rows_of L (t # ts)")
  case (Inr rows)
  let ?n = "get_config_table_chunk_size 16 ''events'' sizes"
  have e: "event_pk e = (ver t, 0)"
    using arg_cong [OF from_events_pk [OF assms(5)], of hd] arg_cong [OF from_events_pk [OF assms(5)], of length]
    by (cases "ut_events inner") (simp_all add: upt_conv_Cons del: upt_Suc)
  obtain es1 es2 where es1: "fold_result (add_multisig_event L t req) (ti_changes info) [] = Inr es1"
    and es2: "es2 = es1 @ filter keep_event (e # es)" and rest: "fold_result (add_events L) ts es2 = Inr rows"
    using Inr assms(1-3,5) by (auto simp: events_rows_of_def add_events_def ver_def)
  obtain xs where rows: "rows = es1 @ filter keep_event (e # es) @ xs"
    using events_rows_prefix [OF rest] by (auto simp: es2)
  from add_one_multisig [OF assms(4) es1] obtain m where m: "es1 = [m]" "event_pk m = (ver t, 0)" by auto
  have "rows = m # e # filter keep_event es @ xs" using rows m assms(6) by simp
  moreover obtain k where k: "?n = Suc (Suc k)" using le_Suc_ex [OF assms(9)] by auto
  ultimately have chunk: "m # e # take k (filter keep_event es @ xs) \<in> set (chunks ?n rows)"
    by (simp add: chunks.simps [of "Suc (Suc k)"])
  have "\<exists>f d'. chunk_task env insert_events_query sd (m # e # take k (filter keep_event es @ xs)) d = (Inl f, d')" for d
    by (rule chunk_task_duplicate [OF assms(7) _ events_query_keys assms(10)])
      (simp_all add: insert_events_query_def e m)
  from execute_in_chunks_fails [OF _ chunk assms(8) this] assms(9)
  obtain f d' where "execute_in_chunks env insert_events_query sd rows ?n d = (Inl f, d')" by fastforce
  with Inr show ?thesis by (simp add: events_process_transactions_def process_batch_def events_insert_to_db_def)
qed (simp add: events_process_transactions_def process_batch_def)

text \<open>A transaction with a fee statement and another event, and one that also writes a multisig account.\<close>

definition sample_event :: "string \<Rightarrow> event_pb" where
  "sample_event t = \<lparr>ev_key = Some \<lparr>ek_creation_number = 1, ek_account_address = ''0xa''\<rparr>, ev_sequence_number = 0,
     ev_type_str = t, ev_data = ''{}''\<rparr>"

definition event_request :: user_transaction_request where
  "event_request = \<lparr>utr_sender = ''0xa'', utr_sequence_number = 3, utr_max_gas_amount = 1,
     utr_expiration_timestamp_secs = None, utr_gas_unit_price = 1, utr_payload = None, utr_signature = None\<rparr>"

definition event_txn :: "write_set_change_pb list \<Rightarrow> u64 \<Rightarrow> transaction" where
  "event_txn cs v = (sample_user_txn v)\<lparr>txn_info := map_option (\<lambda>i. i\<lparr>ti_changes := cs\<rparr>) (txn_info (sample_user_txn v)),
     txn_txn_data := Some (User \<lparr>ut_request = Some event_request,
       ut_events = [sample_event ''0x1::m::Created'', sample_event ''0x1::transaction_fee::FeeStatement'']\<rparr>)\<rparr>"

definition multisig_change :: write_set_change_pb where
  "multisig_change = \<lparr>wsc_type = 5, wsc_change = Some (WriteResource \<lparr>wr_address = ''0xb'', wr_state_key_hash = [],
     wr_type = None, wr_type_str = multisig_account_type, wr_data = ''{}''\<rparr>)\<rparr>"

definition sample_event_model :: "i64 \<Rightarrow> i64 \<Rightarrow> event_model" where
  "sample_event_model v i = \<lparr>em_sequence_number = 0, em_creation_number = 1,
     em_account_address = standardize_address ''0xa'', em_transaction_version = v, em_transaction_block_height = 1,
     em_type = ''0x1::m::Created'', em_data = JNull, em_event_index = i, em_indexed_type = ''0x1::m::Created'',
     em_from = [], em_entry_function_payload = JNull, em_entry_function_id_str = [], em_module_address = ''0x1'',
     em_module_name = ''m'', em_event_name = ''Created'', em_inserted_at = (0, 0)\<rparr>"

definition sample_event_serde :: "event_model serde" where
  "sample_event_serde =
     \<lparr>to_value = (\<lambda>e. JArray [JInt (em_transaction_version e), JInt (em_event_index e)]),
      from_value = (\<lambda>j. case j of JArray [JInt v, JInt i] \<Rightarrow> Some (sample_event_model v i) | _ \<Rightarrow> None)\<rparr>"

lemma sample_event_parts:
  "split_on ''::'' ''0x1::m::Created'' = [''0x1'', ''m'', ''Created'']"
  "split_on ''::'' ''0x1::transaction_fee::FeeStatement'' = [''0x1'', ''transaction_fee'', ''FeeStatement'']"
  "split_on ''<'' ''Created'' = [''Created'']" "split_on ''<'' ''FeeStatement'' = [''FeeStatement'']"
  "truncate_str ''0x1::m::Created'' event_type_max_length = Inr ''0x1::m::Created''"
  "truncate_str ''0x1::transaction_fee::FeeStatement'' event_type_max_length = Inr ''0x1::transaction_fee::FeeStatement''"
  by code_simp+

lemmas event_eval = event_from_event_def event_source_def event_module_def event_request_def sample_event_def
  timestamp_to_naive_def unwrap_json_def sample_libs_def nth_opt_def part_or_empty_def event_name_of_def
  sample_event_parts as_i64_small as_u32_def Let_def

lemma event_txn_events:
  "from_events sample_libs [sample_event ''0x1::m::Created'', sample_event ''0x1::transaction_fee::FeeStatement'']
     v 1 (Some event_request) (Some \<lparr>ts_seconds = 0, ts_nanos = 0\<rparr>) =
   Inr [sample_event_model v 0, (sample_event_model v 1)\<lparr>em_type := ''0x1::transaction_fee::FeeStatement'',
     em_indexed_type := ''0x1::transaction_fee::FeeStatement'', em_module_name := ''transaction_fee'',
     em_event_name := ''FeeStatement''\<rparr>]"
  by (simp add: from_events_def event_eval sample_event_model_def)

lemma event_txn_kept: "kept_events sample_libs (event_txn cs v) = [sample_event_model (as_i64 v) 0]"
  using event_txn_events [of "as_i64 v"]
  by (simp add: kept_events_def event_txn_def sample_user_txn_def ver_def as_i64_small keep_event_iff filtered_events_def)
    (simp add: sample_event_model_def)

theorem events_rows_complete_witness:
  "\<exists>es. events_rows_of sample_libs [event_txn [] 7, event_txn [] 8] = Inr es \<and>
    es = [sample_event_model 7 0, sample_event_model 8 0] \<and> distinct (map event_pk es)"
proof -
  have add: "\<exists>es'. add_events sample_libs (event_txn [] v) es = Inr es'" for v es
    using event_txn_events [of "as_i64 v"] by (simp add: add_events_def event_txn_def sample_user_txn_def as_i64_small)
  then obtain es where es: "events_rows_of sample_libs [event_txn [] 7, event_txn [] 8] = Inr es"
    unfolding events_rows_of_def by (metis fold_result.simps and_then.simps(2))
  have "version_ordered [event_txn [] 7, event_txn [] 8]"
    by (simp add: version_ordered_def ver_def event_txn_def sample_user_txn_def as_i64_small)
  moreover have "\<forall>t \<in> set [event_txn [] 7, event_txn [] 8]. no_multisig t"
    by (simp add: no_multisig_def event_txn_def sample_user_txn_def)
  ultimately show ?thesis using events_rows_complete [OF es, of undefined] es
    by (simp add: event_txn_kept as_i64_small) (simp add: event_pk_def sample_event_model_def)
qed

theorem events_multisig_collision_witness:
  "\<exists>f d'. events_process_transactions sample_libs sample_event_serde (0, 0) [] sample_pg
     [event_txn [multisig_change] 7] 7 7 None (\<lambda>_. Map.empty) = (Inl f, d')"
proof (rule events_multisig_collision)
  show "txn_txn_data (event_txn [multisig_change] 7) = Some (User \<lparr>ut_request = Some event_request,
      ut_events = [sample_event ''0x1::m::Created'', sample_event ''0x1::transaction_fee::FeeStatement'']\<rparr>)"
    by (simp add: event_txn_def)
  show "txn_info (event_txn [multisig_change] 7) =
      Some ((the (txn_info (sample_user_txn 7)))\<lparr>ti_changes := [multisig_change]\<rparr>)"
    by (simp add: event_txn_def sample_user_txn_def)
  show "filter writes_multisig (ti_changes ((the (txn_info (sample_user_txn 7)))\<lparr>ti_changes := [multisig_change]\<rparr>)) =
      [multisig_change]"
    by (simp add: writes_multisig_def multisig_change_def)
  show "from_events sample_libs (ut_events \<lparr>ut_request = Some event_request,
      ut_events = [sample_event ''0x1::m::Created'', sample_event ''0x1::transaction_fee::FeeStatement'']\<rparr>)
      (ver (event_txn [multisig_change] 7)) (as_i64 (txn_block_height (event_txn [multisig_change] 7)))
      (Some event_request) (txn_timestamp (event_txn [multisig_change] 7)) = Inr (sample_event_model 7 0 #
      [(sample_event_model 7 1)\<lparr>em_type := ''0x1::transaction_fee::FeeStatement'',
        em_indexed_type := ''0x1::transaction_fee::FeeStatement'', em_module_name := ''transaction_fee'',
        em_event_name := ''FeeStatement''\<rparr>])"
    using event_txn_events [of 7] by (simp add: event_txn_def sample_user_txn_def ver_def as_i64_small)
  show "keep_event (sample_event_model 7 0)"
    by (simp add: keep_event_iff filtered_events_def sample_event_model_def)
  show "2 \<le> get_config_table_chunk_size 16 ''events'' []"
    by (simp add: get_config_table_chunk_size_def max_diesel_param_size_def)
  show "event_pk y = event_pk x" if "remove_null_bytes sample_event_serde x = Inr y" for x y
    using that by (simp add: remove_null_bytes_def sample_event_serde_def) (auto simp: event_pk_def sample_event_model_def)
qed (simp_all add: sample_pg_ok)

end
