(* ===== verification/Property_Map.thy ===== *)
theory Property_Map
  imports Util
begin

text \<open>
  \<open>models/property_map.rs\<close> and its callers in \<open>utils/util.rs\<close>: the BCS-encoded property maps of
  tokens are decoded entry by entry and flattened to a JSON object of strings. Every \<open>?\<close> of the
  source is a bind of \<open>option\<close>.
\<close>

record property_value =
  pv_value :: string
  pv_typ :: string

definition create_property_value :: "libs \<Rightarrow> string \<Rightarrow> string \<Rightarrow> property_value" where
  "create_property_value L typ v =
     \<lparr>pv_value = (case convert_bcs_hex L typ v of Some t \<Rightarrow> t | None \<Rightarrow> v), pv_typ = typ\<rparr>"

definition to_flat_json :: "(string \<times> property_value) list \<Rightarrow> json" where
  "to_flat_json data = JObject (map (\<lambda>(k, v). (k, JString (pv_value v))) data)"

definition property_entry :: "libs \<Rightarrow> json \<Rightarrow> (string \<times> property_value) option" where
  "property_entry L entry =
     Option.bind (Option.bind (json_get ''key'' entry) json_as_str) (\<lambda>key.
     Option.bind (Option.bind (Option.bind (json_get ''value'' entry) (json_get ''value'')) json_as_str) (\<lambda>val.
     Option.bind (Option.bind (Option.bind (json_get ''value'' entry) (json_get ''type'')) json_as_str) (\<lambda>typ.
     Some (key, create_property_value L typ val))))"

fun collect_entries ::
  "(json \<Rightarrow> (string \<times> 'v) option) \<Rightarrow> json list \<Rightarrow> (string \<times> 'v) list \<Rightarrow> (string \<times> 'v) list option" where
  "collect_entries f [] m = Some m"
| "collect_entries f (e # es) m =
     Option.bind (f e) (\<lambda>(k, v). collect_entries f es (AList.update k v m))"

definition from_bcs_encode_str :: "libs \<Rightarrow> json \<Rightarrow> json option" where
  "from_bcs_encode_str L val =
     Option.bind (Option.bind (Option.bind (json_get ''map'' val) (json_get ''data'')) json_as_array) (\<lambda>records.
     map_option to_flat_json (collect_entries (property_entry L) records []))"

record token_object_property_value =
  topv_value :: string
  topv_typ :: u8

definition create_token_object_property_value ::
  "libs \<Rightarrow> u8 \<Rightarrow> string \<Rightarrow> token_object_property_value" where
  "create_token_object_property_value L typ v =
     \<lparr>topv_value = (case convert_bcs_hex_new L typ v of Some t \<Rightarrow> t | None \<Rightarrow> v), topv_typ = typ\<rparr>"

definition to_flat_json_new :: "(string \<times> token_object_property_value) list \<Rightarrow> json" where
  "to_flat_json_new data = JObject (map (\<lambda>(k, v). (k, JString (topv_value v))) data)"

definition token_object_property_entry ::
  "libs \<Rightarrow> json \<Rightarrow> (string \<times> token_object_property_value) option" where
  "token_object_property_entry L entry =
     Option.bind (Option.bind (json_get ''key'' entry) json_as_str) (\<lambda>key.
     Option.bind (Option.bind (Option.bind (json_get ''value'' entry) (json_get ''value'')) json_as_str) (\<lambda>val.
     Option.bind (Option.bind (Option.bind (json_get ''value'' entry) (json_get ''type'')) json_as_u64) (\<lambda>typ.
     Some (key, create_token_object_property_value L (ucast typ) val))))"

definition token_object_from_bcs_encode_str :: "libs \<Rightarrow> json \<Rightarrow> json option" where
  "token_object_from_bcs_encode_str L val =
     Option.bind (Option.bind (json_get ''data'' val) json_as_array) (\<lambda>records.
     map_option to_flat_json_new (collect_entries (token_object_property_entry L) records []))"

definition convert_bcs_propertymap :: "libs \<Rightarrow> json \<Rightarrow> json option" where
  "convert_bcs_propertymap L s = from_bcs_encode_str L s"

definition convert_bcs_token_object_propertymap :: "libs \<Rightarrow> json \<Rightarrow> json option" where
  "convert_bcs_token_object_propertymap L s = token_object_from_bcs_encode_str L s"

text \<open>If the value does not have the shape of a property map the original JSON is kept.\<close>

definition deserialize_property_map_from_bcs_hexstring :: "libs \<Rightarrow> json \<Rightarrow> json" where
  "deserialize_property_map_from_bcs_hexstring L s =
     (case convert_bcs_propertymap L s of Some v \<Rightarrow> v | None \<Rightarrow> s)"

definition deserialize_token_object_property_map_from_bcs_hexstring :: "libs \<Rightarrow> json \<Rightarrow> json" where
  "deserialize_token_object_property_map_from_bcs_hexstring L s =
     (case convert_bcs_token_object_propertymap L s of Some v \<Rightarrow> v | None \<Rightarrow> s)"

section \<open>The decoded map is flat and has one value per key\<close>

definition flat_string_object :: "json \<Rightarrow> bool" where
  "flat_string_object j \<longleftrightarrow>
     (case j of JObject kvs \<Rightarrow> distinct (map fst kvs) \<and> list_all (\<lambda>(k, v). \<exists>s. v = JString s) kvs
      | _ \<Rightarrow> False)"

lemma collect_entries_spec:
  "collect_entries f es m = Some m' \<longleftrightarrow>
     (\<exists>kvs. list_all2 (\<lambda>e kv. f e = Some kv) es kvs \<and>
            m' = fold (\<lambda>kv. AList.update (fst kv) (snd kv)) kvs m)"
proof (induction es arbitrary: m)
  case (Cons e es)
  show ?case
  proof (cases "f e")
    case (Some kv)
    then have eq: "collect_entries f (e # es) m = collect_entries f es (AList.update (fst kv) (snd kv) m)"
      by (simp add: case_prod_beta)
    have "(\<exists>kvs. list_all2 (\<lambda>e kv. f e = Some kv) (e # es) kvs \<and>
            m' = fold (\<lambda>kv. AList.update (fst kv) (snd kv)) kvs m) \<longleftrightarrow>
          (\<exists>zs. list_all2 (\<lambda>e kv. f e = Some kv) es zs \<and>
            m' = fold (\<lambda>kv. AList.update (fst kv) (snd kv)) (kv # zs) m)"
      using Some by (force simp: list_all2_Cons1)
    with eq show ?thesis by (simp only: Cons.IH fold_simps)
  qed (auto simp: list_all2_Cons1)
qed auto

lemma collect_entries_distinct:
  "collect_entries f es m = Some m' \<Longrightarrow> distinct_keys m \<Longrightarrow> distinct_keys m'"
  by (auto simp: collect_entries_spec ahash.wf_fold_insert)

lemma collect_entries_get:
  assumes "collect_entries f es [] = Some m'" and "f e = Some (k, v)"
    and "es = before @ e # after" and "\<forall>a \<in> set after. \<forall>k' v'. f a = Some (k', v') \<longrightarrow> k' \<noteq> k"
  shows "map_of m' k = Some v"
proof -
  from assms(1) obtain kvs where kvs: "list_all2 (\<lambda>e kv. f e = Some kv) es kvs"
    and m': "m' = fold (\<lambda>kv. AList.update (fst kv) (snd kv)) kvs []"
    by (auto simp: collect_entries_spec)
  from kvs assms(2,3) obtain b a where split: "kvs = b @ (k, v) # a"
    and a: "list_all2 (\<lambda>e kv. f e = Some kv) after a"
    by (auto simp: list_all2_append1 list_all2_Cons1)
  have "\<forall>kv \<in> set a. fst kv \<noteq> k"
    using a assms(4) by (force simp: list_all2_conv_all_nth in_set_conv_nth)
  then have "filter (\<lambda>kv. fst kv = k) a = []" by (simp add: filter_empty_conv)
  then show ?thesis by (simp add: m' split ahash.get_fold_insert ahash.get_insert)
qed

lemma flat_string_object_map:
  "distinct_keys m \<Longrightarrow> flat_string_object (JObject (map (\<lambda>(k, v). (k, JString (g v))) m))"
  by (auto simp: flat_string_object_def distinct_keys_def list_all_iff comp_def case_prod_beta)

end
