(* ===== verification/Object_Utils.thy ===== *)
theory Object_Utils
  imports Coin_Models Property_Map
begin

text \<open>
  The resources and events of objects, digital assets and fungible assets:
  \<open>models/token_v2_models/v2_token_utils.rs\<close>, \<open>models/fungible_asset_models/v2_fungible_asset_utils.rs\<close>
  and \<open>models/object_models/v2_object_utils.rs\<close>. A write resource is read by the outer type of its
  Move type; the data of an object, spread over several resources of one address, is gathered in
  \<open>object_aggregated_data\<close>.
\<close>

section \<open>Objects, collections and tokens\<close>

definition token_v2_addr :: string where
  "token_v2_addr = ''0x0000000000000000000000000000000000000000000000000000000000000004''"

definition default_owner_address :: string where "default_owner_address = ''unknown''"

definition name_length :: nat where "name_length = 128"

definition uri_length :: nat where "uri_length = 512"

text \<open>\<open>Table\<close> of \<open>token_utils.rs\<close> has the single field \<open>handle\<close>.\<close>

definition read_table :: "string reader" where
  "read_table = read_single ''handle'' read_string"

definition get_handle :: "string \<Rightarrow> string" where
  "get_handle handle = standardize_address handle"

datatype token_standard = V1 | V2

fun token_standard_str :: "token_standard \<Rightarrow> string" where
  "token_standard_str V1 = ''v1''"
| "token_standard_str V2 = ''v2''"

record object_core =
  oc_allow_ungated_transfer :: bool
  oc_guid_creation_num :: rat
  oc_owner :: string

definition get_owner_address :: "object_core \<Rightarrow> string" where
  "get_owner_address c = standardize_address (oc_owner c)"

record collection_resource =
  col_creator :: string
  col_description :: string
  col_name :: string
  col_uri :: string

record aptos_collection =
  aco_mutable_description :: bool
  aco_mutable_uri :: bool

record token_v2_resource =
  tok_collection :: string
  tok_description :: string
  tok_name :: string
  tok_uri :: string

record fixed_supply =
  fsup_current_supply :: rat
  fsup_max_supply :: rat
  fsup_total_minted :: rat

record unlimited_supply =
  usup_current_supply :: rat
  usup_total_minted :: rat

record concurrent_supply =
  csupp_current_supply :: aggregator_u64
  csupp_total_minted :: aggregator_u64

text \<open>\<open>PropertyMapModel\<close> is its decoded value, \<open>TokenIdentifiers\<close> the name in its derived snapshot.\<close>

datatype v2_token_resource =
    ResAptosCollection aptos_collection
  | ResCollection collection_resource
  | ResConcurrentSupply concurrent_supply
  | ResFixedSupply fixed_supply
  | ResObjectCore object_core
  | ResUnlimitedSupply unlimited_supply
  | ResTokenV2 token_v2_resource
  | ResPropertyMapModel json
  | ResTokenIdentifiers string

definition read_object_core :: "libs \<Rightarrow> object_core reader" where
  "read_object_core L j =
     (let names = [''allow_ungated_transfer'', ''guid_creation_num'', ''owner''] in
      Option.bind (field names ''allow_ungated_transfer'' read_bool j) (\<lambda>allow.
      Option.bind (field names ''guid_creation_num'' (read_bigdecimal L) j) (\<lambda>guid.
      Option.bind (field names ''owner'' read_string j) (\<lambda>owner.
      Some \<lparr>oc_allow_ungated_transfer = allow, oc_guid_creation_num = guid, oc_owner = owner\<rparr>))))"

definition read_collection :: "collection_resource reader" where
  "read_collection j =
     (let names = [''creator'', ''description'', ''name'', ''uri''] in
      Option.bind (field names ''creator'' read_string j) (\<lambda>creator.
      Option.bind (field names ''description'' read_string j) (\<lambda>description.
      Option.bind (field names ''name'' read_string j) (\<lambda>name.
      Option.bind (field names ''uri'' read_string j) (\<lambda>uri.
      Some \<lparr>col_creator = creator, col_description = description, col_name = name, col_uri = uri\<rparr>)))))"

definition read_aptos_collection :: "aptos_collection reader" where
  "read_aptos_collection j =
     (let names = [''mutable_description'', ''mutable_uri''] in
      Option.bind (field names ''mutable_description'' read_bool j) (\<lambda>description.
      Option.bind (field names ''mutable_uri'' read_bool j) (\<lambda>uri.
      Some \<lparr>aco_mutable_description = description, aco_mutable_uri = uri\<rparr>)))"

text \<open>\<open>ResourceReference\<close> has the single field \<open>inner\<close>.\<close>

definition read_reference :: "string reader" where
  "read_reference = read_single ''inner'' read_string"

definition read_token_v2 :: "token_v2_resource reader" where
  "read_token_v2 j =
     (let names = [''collection'', ''description'', ''name'', ''uri''] in
      Option.bind (field names ''collection'' read_reference j) (\<lambda>collection.
      Option.bind (field names ''description'' read_string j) (\<lambda>description.
      Option.bind (field names ''name'' read_string j) (\<lambda>name.
      Option.bind (field names ''uri'' read_string j) (\<lambda>uri.
      Some \<lparr>tok_collection = collection, tok_description = description, tok_name = name, tok_uri = uri\<rparr>)))))"

definition read_fixed_supply :: "libs \<Rightarrow> fixed_supply reader" where
  "read_fixed_supply L j =
     (let names = [''current_supply'', ''max_supply'', ''total_minted''] in
      Option.bind (field names ''current_supply'' (read_bigdecimal L) j) (\<lambda>current.
      Option.bind (field names ''max_supply'' (read_bigdecimal L) j) (\<lambda>max_supply.
      Option.bind (field names ''total_minted'' (read_bigdecimal L) j) (\<lambda>minted.
      Some \<lparr>fsup_current_supply = current, fsup_max_supply = max_supply, fsup_total_minted = minted\<rparr>))))"

definition read_unlimited_supply :: "libs \<Rightarrow> unlimited_supply reader" where
  "read_unlimited_supply L j =
     (let names = [''current_supply'', ''total_minted''] in
      Option.bind (field names ''current_supply'' (read_bigdecimal L) j) (\<lambda>current.
      Option.bind (field names ''total_minted'' (read_bigdecimal L) j) (\<lambda>minted.
      Some \<lparr>usup_current_supply = current, usup_total_minted = minted\<rparr>)))"

definition read_concurrent_supply :: "libs \<Rightarrow> concurrent_supply reader" where
  "read_concurrent_supply L j =
     (let names = [''current_supply'', ''total_minted''] in
      Option.bind (field names ''current_supply'' (read_aggregator_u64 L) j) (\<lambda>current.
      Option.bind (field names ''total_minted'' (read_aggregator_u64 L) j) (\<lambda>minted.
      Some \<lparr>csupp_current_supply = current, csupp_total_minted = minted\<rparr>)))"

definition read_property_map_model :: "libs \<Rightarrow> json reader" where
  "read_property_map_model L =
     read_single ''inner'' (\<lambda>v. Some (deserialize_token_object_property_map_from_bcs_hexstring L v))"

definition read_token_identifiers :: "string reader" where
  "read_token_identifiers = read_single ''name'' (read_single ''value'' read_string)"

definition get_collection_creator :: "collection_resource \<Rightarrow> string" where
  "get_collection_creator c = standardize_address (col_creator c)"

definition collection_uri_trunc :: "collection_resource \<Rightarrow> failure + string" where
  "collection_uri_trunc c = truncate_str (col_uri c) uri_length"

definition collection_name_trunc :: "collection_resource \<Rightarrow> failure + string" where
  "collection_name_trunc c = truncate_str (col_name c) name_length"

definition get_collection_address :: "token_v2_resource \<Rightarrow> string" where
  "get_collection_address t = standardize_address (tok_collection t)"

definition token_uri_trunc :: "token_v2_resource \<Rightarrow> failure + string" where
  "token_uri_trunc t = truncate_str (tok_uri t) uri_length"

definition token_name_trunc :: "token_v2_resource \<Rightarrow> failure + string" where
  "token_name_trunc t = truncate_str (tok_name t) name_length"

definition identifiers_name_trunc :: "string \<Rightarrow> failure + string" where
  "identifiers_name_trunc name = truncate_str name name_length"

definition v2_token_resource_types :: "string list" where
  "v2_token_resource_types =
     [coin_addr @ ''::object::ObjectCore'', token_v2_addr @ ''::collection::Collection'',
      token_v2_addr @ ''::collection::ConcurrentSupply'', token_v2_addr @ ''::collection::FixedSupply'',
      token_v2_addr @ ''::collection::UnlimitedSupply'', token_v2_addr @ ''::aptos_token::AptosCollection'',
      token_v2_addr @ ''::token::Token'', token_v2_addr @ ''::property_map::PropertyMap'',
      token_v2_addr @ ''::token::TokenIdentifiers'']"

definition v2_token_is_resource_supported :: "string \<Rightarrow> bool" where
  "v2_token_is_resource_supported data_type \<longleftrightarrow> data_type \<in> set v2_token_resource_types"

definition v2_token_from_resource :: "libs \<Rightarrow> string \<Rightarrow> json \<Rightarrow> failure + v2_token_resource" where
  "v2_token_from_resource L data_type data =
     (if data_type = coin_addr @ ''::object::ObjectCore''
      then and_then (parse_or_err (read_object_core L data)) (\<lambda>r. Inr (ResObjectCore r))
      else if data_type = token_v2_addr @ ''::collection::Collection''
      then and_then (parse_or_err (read_collection data)) (\<lambda>r. Inr (ResCollection r))
      else if data_type = token_v2_addr @ ''::collection::ConcurrentSupply''
      then and_then (parse_or_err (read_concurrent_supply L data)) (\<lambda>r. Inr (ResConcurrentSupply r))
      else if data_type = token_v2_addr @ ''::collection::FixedSupply''
      then and_then (parse_or_err (read_fixed_supply L data)) (\<lambda>r. Inr (ResFixedSupply r))
      else if data_type = token_v2_addr @ ''::collection::UnlimitedSupply''
      then and_then (parse_or_err (read_unlimited_supply L data)) (\<lambda>r. Inr (ResUnlimitedSupply r))
      else if data_type = token_v2_addr @ ''::aptos_token::AptosCollection''
      then and_then (parse_or_err (read_aptos_collection data)) (\<lambda>r. Inr (ResAptosCollection r))
      else if data_type = token_v2_addr @ ''::token::Token''
      then and_then (parse_or_err (read_token_v2 data)) (\<lambda>r. Inr (ResTokenV2 r))
      else if data_type = token_v2_addr @ ''::token::TokenIdentifiers''
      then and_then (parse_or_err (read_token_identifiers data)) (\<lambda>r. Inr (ResTokenIdentifiers r))
      else if data_type = token_v2_addr @ ''::property_map::PropertyMap''
      then and_then (parse_or_err (read_property_map_model L data)) (\<lambda>r. Inr (ResPropertyMapModel r))
      else Inl (Err ''Resource unsupported! Call is_resource_supported first.''))"

text \<open>
  The common part of the functions \<open>from_write_resource\<close>: read the resource of a supported type. Each of
  them then takes one kind of resource and ignores the others.
\<close>

definition v2_token_resource_of :: "libs \<Rightarrow> write_resource \<Rightarrow> i64 \<Rightarrow> failure + v2_token_resource option" where
  "v2_token_resource_of L wr version =
     and_then (get_outer_type_from_resource L wr) (\<lambda>type_str.
     if \<not> v2_token_is_resource_supported type_str then Inr None
     else and_then (from_write_resource L wr 0 version 0) (\<lambda>resource.
          and_then (expect ''called Option::unwrap on a None value'' (mres_data resource)) (\<lambda>data.
          and_then (v2_token_from_resource L type_str data) (\<lambda>r. Inr (Some r)))))"

definition aptos_collection_from_write_resource :: "libs \<Rightarrow> write_resource \<Rightarrow> i64 \<Rightarrow> failure + aptos_collection option" where
  "aptos_collection_from_write_resource L wr version =
     and_then (v2_token_resource_of L wr version)
       (\<lambda>r. Inr (case r of Some (ResAptosCollection inner) \<Rightarrow> Some inner | _ \<Rightarrow> None))"

definition fixed_supply_from_write_resource :: "libs \<Rightarrow> write_resource \<Rightarrow> i64 \<Rightarrow> failure + fixed_supply option" where
  "fixed_supply_from_write_resource L wr version =
     and_then (v2_token_resource_of L wr version)
       (\<lambda>r. Inr (case r of Some (ResFixedSupply inner) \<Rightarrow> Some inner | _ \<Rightarrow> None))"

definition unlimited_supply_from_write_resource :: "libs \<Rightarrow> write_resource \<Rightarrow> i64 \<Rightarrow> failure + unlimited_supply option" where
  "unlimited_supply_from_write_resource L wr version =
     and_then (v2_token_resource_of L wr version)
       (\<lambda>r. Inr (case r of Some (ResUnlimitedSupply inner) \<Rightarrow> Some inner | _ \<Rightarrow> None))"

definition concurrent_supply_from_write_resource :: "libs \<Rightarrow> write_resource \<Rightarrow> i64 \<Rightarrow> failure + concurrent_supply option" where
  "concurrent_supply_from_write_resource L wr version =
     and_then (v2_token_resource_of L wr version)
       (\<lambda>r. Inr (case r of Some (ResConcurrentSupply inner) \<Rightarrow> Some inner | _ \<Rightarrow> None))"

definition property_map_from_write_resource :: "libs \<Rightarrow> write_resource \<Rightarrow> i64 \<Rightarrow> failure + json option" where
  "property_map_from_write_resource L wr version =
     and_then (v2_token_resource_of L wr version)
       (\<lambda>r. Inr (case r of Some (ResPropertyMapModel inner) \<Rightarrow> Some inner | _ \<Rightarrow> None))"

definition token_identifiers_from_write_resource :: "libs \<Rightarrow> write_resource \<Rightarrow> i64 \<Rightarrow> failure + string option" where
  "token_identifiers_from_write_resource L wr version =
     and_then (v2_token_resource_of L wr version)
       (\<lambda>r. Inr (case r of Some (ResTokenIdentifiers inner) \<Rightarrow> Some inner | _ \<Rightarrow> None))"

definition token_v2_from_write_resource :: "libs \<Rightarrow> write_resource \<Rightarrow> i64 \<Rightarrow> failure + token_v2_resource option" where
  "token_v2_from_write_resource L wr version =
     and_then (v2_token_resource_of L wr version) (\<lambda>r.
     case r of
       Some (ResTokenV2 inner) \<Rightarrow>
         and_then (unwrap_result (token_identifiers_from_write_resource L wr version)) (\<lambda>identifiers.
         Inr (Some (case identifiers of Some name \<Rightarrow> inner\<lparr>tok_name := name\<rparr> | None \<Rightarrow> inner)))
     | _ \<Rightarrow> Inr None)"

record object_with_metadata =
  owm_object_core :: object_core
  owm_state_key_hash :: string

definition object_from_write_resource :: "libs \<Rightarrow> write_resource \<Rightarrow> i64 \<Rightarrow> failure + object_with_metadata option" where
  "object_from_write_resource L wr version =
     and_then (get_outer_type_from_resource L wr) (\<lambda>type_str.
     if \<not> v2_token_is_resource_supported type_str then Inr None
     else and_then (unwrap_json L (wr_data wr)) (\<lambda>data.
          and_then (v2_token_from_resource L type_str data) (\<lambda>r.
          Inr (case r of
                 ResObjectCore inner \<Rightarrow>
                   Some \<lparr>owm_object_core = inner,
                         owm_state_key_hash = standardize_address (lib_hex_encode L (wr_state_key_hash wr))\<rparr>
               | _ \<Rightarrow> None))))"

definition get_state_key_hash :: "object_with_metadata \<Rightarrow> string" where
  "get_state_key_hash o' = standardize_address (owm_state_key_hash o')"

text \<open>
  The name from \<open>TokenIdentifiers\<close> is never taken: the branch asks the resource that was just read as a
  token whether it is of the other type.
\<close>

lemma token_v2_name_kept:
  "token_v2_from_write_resource L wr version = Inr (Some t) \<longleftrightarrow> v2_token_resource_of L wr version = Inr (Some (ResTokenV2 t))"
  by (cases "v2_token_resource_of L wr version")
    (auto simp: token_v2_from_write_resource_def token_identifiers_from_write_resource_def
      split: option.splits v2_token_resource.splits)

section \<open>Token events\<close>

record mint_event =
  me_index :: rat
  me_token :: string

record mint =
  mint_collection :: string
  mint_index :: rat
  mint_token :: string

record token_mutation_event =
  tme_mutated_field_name :: string
  tme_old_value :: string
  tme_new_value :: string

record burn =
  burn_collection :: string
  burn_token :: string
  burn_previous_owner :: string

record transfer_event =
  te_from :: string
  te_to :: string
  te_object :: string

text \<open>\<open>BurnEvent\<close> has the fields of \<open>MintEvent\<close>.\<close>

datatype v2_token_event =
    EvMint mint
  | EvMintEvent mint_event
  | EvTokenMutationEvent token_mutation_event
  | EvBurn burn
  | EvBurnEvent mint_event
  | EvTransferEvent transfer_event

definition read_mint_event :: "libs \<Rightarrow> mint_event reader" where
  "read_mint_event L j =
     (let names = [''index'', ''token''] in
      Option.bind (field names ''index'' (read_bigdecimal L) j) (\<lambda>index.
      Option.bind (field names ''token'' read_string j) (\<lambda>token.
      Some \<lparr>me_index = index, me_token = token\<rparr>)))"

definition read_mint :: "libs \<Rightarrow> mint reader" where
  "read_mint L j =
     (let names = [''collection'', ''index'', ''token''] in
      Option.bind (field names ''collection'' read_string j) (\<lambda>collection.
      Option.bind (field names ''index'' (read_single ''value'' (read_bigdecimal L)) j) (\<lambda>index.
      Option.bind (field names ''token'' read_string j) (\<lambda>token.
      Some \<lparr>mint_collection = collection, mint_index = index, mint_token = token\<rparr>))))"

definition read_token_mutation_event :: "token_mutation_event reader" where
  "read_token_mutation_event j =
     (let names = [''mutated_field_name'', ''old_value'', ''new_value''] in
      Option.bind (field names ''mutated_field_name'' read_string j) (\<lambda>n.
      Option.bind (field names ''old_value'' read_string j) (\<lambda>old.
      Option.bind (field names ''new_value'' read_string j) (\<lambda>new.
      Some \<lparr>tme_mutated_field_name = n, tme_old_value = old, tme_new_value = new\<rparr>))))"

definition read_burn :: "burn reader" where
  "read_burn j =
     (let names = [''collection'', ''token'', ''previous_owner''] in
      Option.bind (field names ''collection'' read_string j) (\<lambda>collection.
      Option.bind (field names ''token'' read_string j) (\<lambda>token.
      Option.bind (field names ''previous_owner'' read_string j) (\<lambda>owner.
      Some \<lparr>burn_collection = collection, burn_token = token, burn_previous_owner = owner\<rparr>))))"

definition read_transfer_event :: "transfer_event reader" where
  "read_transfer_event j =
     (let names = [''from'', ''to'', ''object''] in
      Option.bind (field names ''from'' read_string j) (\<lambda>from_addr.
      Option.bind (field names ''to'' read_string j) (\<lambda>to_addr.
      Option.bind (field names ''object'' read_string j) (\<lambda>obj.
      Some \<lparr>te_from = from_addr, te_to = to_addr, te_object = obj\<rparr>))))"

definition v2_token_from_event :: "libs \<Rightarrow> string \<Rightarrow> string \<Rightarrow> failure + v2_token_event option" where
  "v2_token_from_event L data_type data =
     (let parse = (\<lambda>rd. parse_or_err (Option.bind (lib_json_from_str L data) rd)) in
      if data_type = ''0x4::collection::Mint''
      then parse (\<lambda>j. map_option (Some \<circ> EvMint) (read_mint L j))
      else if data_type = ''0x4::collection::MintEvent''
      then parse (\<lambda>j. map_option (Some \<circ> EvMintEvent) (read_mint_event L j))
      else if data_type = ''0x4::token::MutationEvent''
      then parse (\<lambda>j. map_option (Some \<circ> EvTokenMutationEvent) (read_token_mutation_event j))
      else if data_type = ''0x4::collection::Burn''
      then parse (\<lambda>j. map_option (Some \<circ> EvBurn) (read_burn j))
      else if data_type = ''0x4::collection::BurnEvent''
      then parse (\<lambda>j. map_option (Some \<circ> EvBurnEvent) (read_mint_event L j))
      else if data_type = ''0x1::object::TransferEvent''
      then parse (\<lambda>j. map_option (Some \<circ> EvTransferEvent) (read_transfer_event j))
      else Inr None)"

definition token_event_of :: "libs \<Rightarrow> event_pb \<Rightarrow> failure + v2_token_event option" where
  "token_event_of L event = unwrap_result (v2_token_from_event L (ev_type_str event) (ev_data event))"

definition mint_event_from_event :: "libs \<Rightarrow> event_pb \<Rightarrow> failure + mint_event option" where
  "mint_event_from_event L event =
     and_then (token_event_of L event) (\<lambda>e. Inr (case e of Some (EvMintEvent inner) \<Rightarrow> Some inner | _ \<Rightarrow> None))"

definition burn_event_from_event :: "libs \<Rightarrow> event_pb \<Rightarrow> failure + mint_event option" where
  "burn_event_from_event L event =
     and_then (token_event_of L event) (\<lambda>e. Inr (case e of Some (EvBurnEvent inner) \<Rightarrow> Some inner | _ \<Rightarrow> None))"

definition burn_from_event :: "libs \<Rightarrow> event_pb \<Rightarrow> failure + burn option" where
  "burn_from_event L event =
     and_then (token_event_of L event) (\<lambda>e. Inr (case e of Some (EvBurn inner) \<Rightarrow> Some inner | _ \<Rightarrow> None))"

definition transfer_event_from_event :: "libs \<Rightarrow> event_pb \<Rightarrow> failure + transfer_event option" where
  "transfer_event_from_event L event =
     and_then (token_event_of L event) (\<lambda>e. Inr (case e of Some (EvTransferEvent inner) \<Rightarrow> Some inner | _ \<Rightarrow> None))"

definition mint_event_token_address :: "mint_event \<Rightarrow> string" where
  "mint_event_token_address e = standardize_address (me_token e)"

definition mint_token_address :: "mint \<Rightarrow> string" where
  "mint_token_address m = standardize_address (mint_token m)"

definition burn_token_address :: "burn \<Rightarrow> string" where
  "burn_token_address b = standardize_address (burn_token b)"

definition get_previous_owner_address :: "burn \<Rightarrow> string option" where
  "get_previous_owner_address b =
     (if burn_previous_owner b = [] then None else Some (standardize_address (burn_previous_owner b)))"

definition burn_collection_address :: "burn \<Rightarrow> string" where
  "burn_collection_address b = standardize_address (burn_collection b)"

definition get_from_address :: "transfer_event \<Rightarrow> string" where
  "get_from_address e = standardize_address (te_from e)"

definition get_to_address :: "transfer_event \<Rightarrow> string" where
  "get_to_address e = standardize_address (te_to e)"

definition get_object_address :: "transfer_event \<Rightarrow> string" where
  "get_object_address e = standardize_address (te_object e)"

section \<open>Fungible assets\<close>

definition fungible_asset_length :: nat where "fungible_asset_length = 32"

definition fungible_asset_symbol :: nat where "fungible_asset_symbol = 10"

record fungible_asset_metadata =
  fam_name :: string
  fam_symbol :: string
  fam_decimals :: int
  fam_icon_uri :: string
  fam_project_uri :: string

record fungible_asset_store =
  fas_metadata :: string
  fas_balance :: rat
  fas_frozen :: bool

record fungible_asset_supply =
  fasu_current :: rat
  fasu_maximum :: "rat list"

datatype v2_fungible_asset_resource =
    ResFungibleAssetMetadata fungible_asset_metadata
  | ResFungibleAssetStore fungible_asset_store
  | ResFungibleAssetSupply fungible_asset_supply

datatype fungible_asset_event =
    FaDepositEvent rat
  | FaWithdrawEvent rat
  | FaFrozenEvent bool

definition read_fungible_asset_metadata :: "fungible_asset_metadata reader" where
  "read_fungible_asset_metadata j =
     (let names = [''name'', ''symbol'', ''decimals'', ''icon_uri'', ''project_uri''] in
      Option.bind (field names ''name'' read_string j) (\<lambda>name.
      Option.bind (field names ''symbol'' read_string j) (\<lambda>symbol.
      Option.bind (field names ''decimals'' (read_signed 32) j) (\<lambda>decimals.
      Option.bind (field names ''icon_uri'' read_string j) (\<lambda>icon_uri.
      Option.bind (field names ''project_uri'' read_string j) (\<lambda>project_uri.
      Some \<lparr>fam_name = name, fam_symbol = symbol, fam_decimals = decimals, fam_icon_uri = icon_uri,
            fam_project_uri = project_uri\<rparr>))))))"

definition read_fungible_asset_store :: "libs \<Rightarrow> fungible_asset_store reader" where
  "read_fungible_asset_store L j =
     (let names = [''metadata'', ''balance'', ''frozen''] in
      Option.bind (field names ''metadata'' read_reference j) (\<lambda>metadata.
      Option.bind (field names ''balance'' (read_bigdecimal L) j) (\<lambda>balance.
      Option.bind (field names ''frozen'' read_bool j) (\<lambda>frozen.
      Some \<lparr>fas_metadata = metadata, fas_balance = balance, fas_frozen = frozen\<rparr>))))"

definition read_fungible_asset_supply :: "libs \<Rightarrow> fungible_asset_supply reader" where
  "read_fungible_asset_supply L j =
     (let names = [''current'', ''maximum''] in
      Option.bind (field names ''current'' (read_bigdecimal L) j) (\<lambda>current.
      Option.bind (field names ''maximum'' (read_single ''vec'' (read_vec (read_bigdecimal L))) j) (\<lambda>maximum.
      Some \<lparr>fasu_current = current, fasu_maximum = maximum\<rparr>)))"

definition fa_get_name :: "fungible_asset_metadata \<Rightarrow> failure + string" where
  "fa_get_name m = truncate_str (fam_name m) fungible_asset_length"

definition fa_get_symbol :: "fungible_asset_metadata \<Rightarrow> failure + string" where
  "fa_get_symbol m = truncate_str (fam_symbol m) fungible_asset_symbol"

definition get_icon_uri :: "fungible_asset_metadata \<Rightarrow> failure + string" where
  "get_icon_uri m = truncate_str (fam_icon_uri m) uri_length"

definition get_project_uri :: "fungible_asset_metadata \<Rightarrow> failure + string" where
  "get_project_uri m = truncate_str (fam_project_uri m) uri_length"

definition get_maximum :: "fungible_asset_supply \<Rightarrow> rat option" where
  "get_maximum s = first_of (fasu_maximum s)"

definition fa_is_resource_supported :: "string \<Rightarrow> bool" where
  "fa_is_resource_supported data_type \<longleftrightarrow>
     data_type \<in> set [coin_addr @ ''::fungible_asset::Supply'', coin_addr @ ''::fungible_asset::Metadata'',
       coin_addr @ ''::fungible_asset::FungibleStore'']"

definition fa_from_resource :: "libs \<Rightarrow> string \<Rightarrow> json \<Rightarrow> failure + v2_fungible_asset_resource" where
  "fa_from_resource L data_type data =
     (if data_type = coin_addr @ ''::fungible_asset::Supply''
      then and_then (parse_or_err (read_fungible_asset_supply L data)) (\<lambda>r. Inr (ResFungibleAssetSupply r))
      else if data_type = coin_addr @ ''::fungible_asset::Metadata''
      then and_then (parse_or_err (read_fungible_asset_metadata data)) (\<lambda>r. Inr (ResFungibleAssetMetadata r))
      else if data_type = coin_addr @ ''::fungible_asset::FungibleStore''
      then and_then (parse_or_err (read_fungible_asset_store L data)) (\<lambda>r. Inr (ResFungibleAssetStore r))
      else Inl (Err ''Resource unsupported! Call is_resource_supported first.''))"

definition fa_resource_of :: "libs \<Rightarrow> write_resource \<Rightarrow> i64 \<Rightarrow> failure + v2_fungible_asset_resource option" where
  "fa_resource_of L wr version =
     and_then (get_outer_type_from_resource L wr) (\<lambda>type_str.
     if \<not> fa_is_resource_supported type_str then Inr None
     else and_then (from_write_resource L wr 0 version 0) (\<lambda>resource.
          and_then (expect ''called Option::unwrap on a None value'' (mres_data resource)) (\<lambda>data.
          and_then (fa_from_resource L type_str data) (\<lambda>r. Inr (Some r)))))"

definition fa_metadata_from_write_resource :: "libs \<Rightarrow> write_resource \<Rightarrow> i64 \<Rightarrow> failure + fungible_asset_metadata option" where
  "fa_metadata_from_write_resource L wr version =
     and_then (fa_resource_of L wr version)
       (\<lambda>r. Inr (case r of Some (ResFungibleAssetMetadata inner) \<Rightarrow> Some inner | _ \<Rightarrow> None))"

definition fa_store_from_write_resource :: "libs \<Rightarrow> write_resource \<Rightarrow> i64 \<Rightarrow> failure + fungible_asset_store option" where
  "fa_store_from_write_resource L wr version =
     and_then (fa_resource_of L wr version)
       (\<lambda>r. Inr (case r of Some (ResFungibleAssetStore inner) \<Rightarrow> Some inner | _ \<Rightarrow> None))"

definition fa_supply_from_write_resource :: "libs \<Rightarrow> write_resource \<Rightarrow> i64 \<Rightarrow> failure + fungible_asset_supply option" where
  "fa_supply_from_write_resource L wr version =
     and_then (fa_resource_of L wr version)
       (\<lambda>r. Inr (case r of Some (ResFungibleAssetSupply inner) \<Rightarrow> Some inner | _ \<Rightarrow> None))"

definition fa_from_event :: "libs \<Rightarrow> string \<Rightarrow> string \<Rightarrow> failure + fungible_asset_event option" where
  "fa_from_event L data_type data =
     (if data_type = ''0x1::fungible_asset::DepositEvent''
      then and_then (read_coin_amount L data) (\<lambda>a. Inr (Some (FaDepositEvent a)))
      else if data_type = ''0x1::fungible_asset::WithdrawEvent''
      then and_then (read_coin_amount L data) (\<lambda>a. Inr (Some (FaWithdrawEvent a)))
      else if data_type = ''0x1::fungible_asset::FrozenEvent''
      then and_then (parse_or_err (Option.bind (lib_json_from_str L data) (read_single ''frozen'' read_bool)))
             (\<lambda>f. Inr (Some (FaFrozenEvent f)))
      else Inr None)"

section \<open>The data of an object\<close>

record object_aggregated_data =
  oad_object :: object_with_metadata
  oad_transfer_events :: "(i64 \<times> transfer_event) list"
  oad_fungible_asset_metadata :: "fungible_asset_metadata option"
  oad_fungible_asset_supply :: "fungible_asset_supply option"
  oad_fungible_asset_store :: "fungible_asset_store option"
  oad_aptos_collection :: "aptos_collection option"
  oad_fixed_supply :: "fixed_supply option"
  oad_property_map :: "json option"
  oad_token :: "token_v2_resource option"
  oad_unlimited_supply :: "unlimited_supply option"
  oad_concurrent_supply :: "concurrent_supply option"
  oad_token_identifier :: "string option"

type_synonym object_aggregated_data_mapping = "(string \<times> object_aggregated_data) list"

definition object_data :: "object_with_metadata \<Rightarrow> object_aggregated_data" where
  "object_data obj =
     \<lparr>oad_object = obj, oad_transfer_events = [], oad_fungible_asset_metadata = None,
      oad_fungible_asset_supply = None, oad_fungible_asset_store = None, oad_aptos_collection = None,
      oad_fixed_supply = None, oad_property_map = None, oad_token = None, oad_unlimited_supply = None,
      oad_concurrent_supply = None, oad_token_identifier = None\<rparr>"

definition default_object_data :: object_aggregated_data where
  "default_object_data =
     object_data \<lparr>owm_object_core = \<lparr>oc_allow_ungated_transfer = False, oc_guid_creation_num = 0, oc_owner = []\<rparr>,
                  owm_state_key_hash = []\<rparr>"

text \<open>
  The first pass of several processors over the changes of a transaction: a written object core starts
  the data of its address afresh.
\<close>

definition add_object_core ::
  "libs \<Rightarrow> i64 \<Rightarrow> write_set_change_pb \<Rightarrow> object_aggregated_data_mapping \<Rightarrow> failure + object_aggregated_data_mapping" where
  "add_object_core L version wsc helper =
     and_then (expect ''called Option::unwrap on a None value'' (wsc_change wsc)) (\<lambda>change.
     case change of
       WriteResource wr \<Rightarrow>
         and_then (unwrap_result (object_from_write_resource L wr version)) (\<lambda>obj.
         Inr (case obj of
                Some o' \<Rightarrow> AList.update (standardize_address (wr_address wr)) (object_data o') helper
              | None \<Rightarrow> helper))
     | _ \<Rightarrow> Inr helper)"

end
