(* ===== verification/Objects.thy ===== *)
theory Objects
  imports Object_Utils Convergence
begin

text \<open>
  \<open>models/object_models/v2_objects.rs\<close> and \<open>processors/objects_processor.rs\<close>: one row for every write or
  deletion of an object and the current row of every object. A first pass over the changes of a
  transaction collects the object cores, a second one makes the rows. A deletion carries no data of the
  object, so its row is completed from the rows of the batch or, with a bounded number of attempts, from
  the database; what the database answers may change from attempt to attempt.
\<close>

section \<open>Rows\<close>

record object_row_data =
  obj_transaction_version :: i64
  obj_write_set_change_index :: i64
  obj_object_address :: string
  obj_owner_address :: string
  obj_state_key_hash :: string
  obj_guid_creation_num :: rat
  obj_allow_ungated_transfer :: bool
  obj_is_deleted :: bool

record current_object =
  cob_object_address :: string
  cob_owner_address :: string
  cob_state_key_hash :: string
  cob_allow_ungated_transfer :: bool
  cob_last_guid_creation_num :: rat
  cob_last_transaction_version :: i64
  cob_is_deleted :: bool

definition object_from_write ::
  "write_resource \<Rightarrow> i64 \<Rightarrow> i64 \<Rightarrow> object_aggregated_data_mapping \<Rightarrow> (object_row_data \<times> current_object) option" where
  "object_from_write wr version index object_metadata_mapping =
     (let address = standardize_address (wr_address wr) in
      case map_of object_metadata_mapping address of
        None \<Rightarrow> None
      | Some data \<Rightarrow>
          let core = owm_object_core (oad_object data); hash = owm_state_key_hash (oad_object data) in
          Some (\<lparr>obj_transaction_version = version, obj_write_set_change_index = index,
                 obj_object_address = address, obj_owner_address = get_owner_address core,
                 obj_state_key_hash = hash, obj_guid_creation_num = oc_guid_creation_num core,
                 obj_allow_ungated_transfer = oc_allow_ungated_transfer core, obj_is_deleted = False\<rparr>,
                \<lparr>cob_object_address = address, cob_owner_address = get_owner_address core,
                 cob_state_key_hash = hash, cob_allow_ungated_transfer = oc_allow_ungated_transfer core,
                 cob_last_guid_creation_num = oc_guid_creation_num core,
                 cob_last_transaction_version = version, cob_is_deleted = False\<rparr>))"

text \<open>\<open>CurrentObjectQuery::get_by_address\<close>: the columns of the first row with the address.\<close>

definition read_current_object :: "stored_row \<Rightarrow> current_object option" where
  "read_current_object r =
     Option.bind (text_cell r ''object_address'') (\<lambda>address.
     Option.bind (text_cell r ''owner_address'') (\<lambda>owner.
     Option.bind (text_cell r ''state_key_hash'') (\<lambda>hash.
     Option.bind (bool_cell r ''allow_ungated_transfer'') (\<lambda>allow.
     Option.bind (numeric_cell r ''last_guid_creation_num'') (\<lambda>guid.
     Option.bind (int_cell r ''last_transaction_version'') (\<lambda>version.
     Option.bind (bool_cell r ''is_deleted'') (\<lambda>deleted.
     Some \<lparr>cob_object_address = address, cob_owner_address = owner, cob_state_key_hash = hash,
           cob_allow_ungated_transfer = allow, cob_last_guid_creation_num = guid,
           cob_last_transaction_version = version, cob_is_deleted = deleted\<rparr>)))))))"

definition get_by_address :: "pg_first \<Rightarrow> string \<Rightarrow> db \<Rightarrow> failure + current_object" where
  "get_by_address first object_address d =
     and_then (db_result (first ''current_objects'' [(''object_address'', SqlText object_address)] d)) (\<lambda>row.
     case Option.bind row read_current_object of
       Some c \<Rightarrow> Inr c | None \<Rightarrow> Inl (Err ''NotFound''))"

definition get_current_object ::
  "pg_first \<Rightarrow> (nat \<Rightarrow> db) \<Rightarrow> string \<Rightarrow> u32 \<Rightarrow> failure + current_object" where
  "get_current_object first seen object_address query_retries =
     (case first_success (\<lambda>i. get_by_address first object_address (seen i)) 0 (unat query_retries) of
        Some c \<Rightarrow> Inr c
      | None \<Rightarrow> Inl (Err ''Failed to get object owner''))"

definition object_from_delete ::
  "libs \<Rightarrow> pg_first \<Rightarrow> (nat \<Rightarrow> db) \<Rightarrow> u32 \<Rightarrow> delete_resource \<Rightarrow> i64 \<Rightarrow> i64 \<Rightarrow> (string \<times> current_object) list \<Rightarrow>
   failure + (object_row_data \<times> current_object) option" where
  "object_from_delete L first seen query_retries dr version index object_mapping =
     (if dr_type_str dr = ''0x1::object::ObjectGroup''
      then
        and_then (from_delete_resource L dr 0 version 0) (\<lambda>resource.
        let previous =
          (case map_of object_mapping (mres_address resource) of
             Some c \<Rightarrow> Some c
           | None \<Rightarrow>
               (case get_current_object first seen (mres_address resource) query_retries of
                  Inr c \<Rightarrow> Some c | Inl _ \<Rightarrow> None))
        in case previous of
             None \<Rightarrow> Inr None
           | Some p \<Rightarrow>
               Inr (Some
                 (\<lparr>obj_transaction_version = version, obj_write_set_change_index = index,
                   obj_object_address = mres_address resource, obj_owner_address = cob_owner_address p,
                   obj_state_key_hash = mres_state_key_hash resource,
                   obj_guid_creation_num = cob_last_guid_creation_num p,
                   obj_allow_ungated_transfer = cob_allow_ungated_transfer p, obj_is_deleted = True\<rparr>,
                  \<lparr>cob_object_address = mres_address resource, cob_owner_address = cob_owner_address p,
                   cob_state_key_hash = mres_state_key_hash resource,
                   cob_allow_ungated_transfer = cob_allow_ungated_transfer p,
                   cob_last_guid_creation_num = cob_last_guid_creation_num p,
                   cob_last_transaction_version = version, cob_is_deleted = True\<rparr>)))
      else Inr None)"

definition object_table_row :: "object_row_data \<Rightarrow> sql_row" where
  "object_table_row r =
     [(''transaction_version'', SqlInt (obj_transaction_version r)),
      (''write_set_change_index'', SqlInt (obj_write_set_change_index r)),
      (''object_address'', SqlText (obj_object_address r)), (''owner_address'', SqlText (obj_owner_address r)),
      (''state_key_hash'', SqlText (obj_state_key_hash r)),
      (''guid_creation_num'', SqlNumeric (obj_guid_creation_num r)),
      (''allow_ungated_transfer'', SqlBool (obj_allow_ungated_transfer r)),
      (''is_deleted'', SqlBool (obj_is_deleted r))]"

definition current_object_row :: "current_object \<Rightarrow> sql_row" where
  "current_object_row c =
     [(''object_address'', SqlText (cob_object_address c)), (''owner_address'', SqlText (cob_owner_address c)),
      (''state_key_hash'', SqlText (cob_state_key_hash c)),
      (''allow_ungated_transfer'', SqlBool (cob_allow_ungated_transfer c)),
      (''last_guid_creation_num'', SqlNumeric (cob_last_guid_creation_num c)),
      (''last_transaction_version'', SqlInt (cob_last_transaction_version c)),
      (''is_deleted'', SqlBool (cob_is_deleted c))]"

definition insert_objects_query :: "object_row_data list \<Rightarrow> query" where
  "insert_objects_query items =
     (\<lparr>iq_table = ''objects'', iq_rows = map object_table_row items,
       iq_target = [''transaction_version'', ''write_set_change_index''], iq_action = DoUpdate [''inserted_at'']\<rparr>, None)"

definition insert_current_objects_query :: "current_object list \<Rightarrow> query" where
  "insert_current_objects_query items =
     (\<lparr>iq_table = ''current_objects'', iq_rows = map current_object_row items, iq_target = [''object_address''],
       iq_action = DoUpdate [''owner_address'', ''state_key_hash'', ''allow_ungated_transfer'',
         ''last_guid_creation_num'', ''last_transaction_version'', ''is_deleted'', ''inserted_at'']\<rparr>,
      Some (WhereLe ''last_transaction_version''))"

section \<open>Processing a batch\<close>

record objects_state =
  os_objects :: "object_row_data list"
  os_current :: "(string \<times> current_object) list"
  os_helper :: object_aggregated_data_mapping

definition push_object :: "(object_row_data \<times> current_object) option \<Rightarrow> objects_state \<Rightarrow> objects_state" where
  "push_object r st =
     (case r of
        None \<Rightarrow> st
      | Some (obj, cur) \<Rightarrow>
          st\<lparr>os_objects := os_objects st @ [obj],
             os_current := AList.update (obj_object_address obj) cur (os_current st)\<rparr>)"

text \<open>\<open>seen v i n\<close> is the database as the lookup for the change \<open>i\<close> of version \<open>v\<close> sees it at attempt \<open>n\<close>.\<close>

definition add_object_change ::
  "libs \<Rightarrow> pg_first \<Rightarrow> (i64 \<Rightarrow> nat \<Rightarrow> nat \<Rightarrow> db) \<Rightarrow> u32 \<Rightarrow> i64 \<Rightarrow> nat \<times> write_set_change_pb \<Rightarrow> objects_state \<Rightarrow>
   failure + objects_state" where
  "add_object_change L first seen query_retries version iw st =
     (case iw of (index, wsc) \<Rightarrow>
      and_then (expect ''called Option::unwrap on a None value'' (wsc_change wsc)) (\<lambda>change.
      case change of
        WriteResource inner \<Rightarrow> Inr (push_object (object_from_write inner version (int index) (os_helper st)) st)
      | DeleteResource inner \<Rightarrow>
          and_then (unwrap_result (object_from_delete L first (seen version index) query_retries inner version
                      (int index) (os_current st))) (\<lambda>r. Inr (push_object r st))
      | _ \<Rightarrow> Inr st))"

definition add_object_txn ::
  "libs \<Rightarrow> pg_first \<Rightarrow> (i64 \<Rightarrow> nat \<Rightarrow> nat \<Rightarrow> db) \<Rightarrow> u32 \<Rightarrow> transaction \<Rightarrow> objects_state \<Rightarrow> failure + objects_state" where
  "add_object_txn L first seen query_retries txn st =
     (let version = as_i64 (txn_version txn) in
      and_then (expect ''Transaction info doesn't exist!'' (txn_info txn)) (\<lambda>info.
      and_then (fold_result (add_object_core L version) (ti_changes info) (os_helper st)) (\<lambda>helper.
      fold_result (add_object_change L first seen query_retries version) (enumerate 0 (ti_changes info))
        (st\<lparr>os_helper := helper\<rparr>))))"

definition objects_rows_of ::
  "libs \<Rightarrow> pg_first \<Rightarrow> (i64 \<Rightarrow> nat \<Rightarrow> nat \<Rightarrow> db) \<Rightarrow> u32 \<Rightarrow> transaction list \<Rightarrow>
   failure + object_row_data list \<times> current_object list" where
  "objects_rows_of L first seen query_retries transactions =
     and_then (fold_result (add_object_txn L first seen query_retries) transactions
                 \<lparr>os_objects = [], os_current = [], os_helper = []\<rparr>) (\<lambda>st.
     Inr (os_objects st, sort_key cob_object_address (map snd (os_current st))))"

definition objects_insert_to_db ::
  "object_row_data serde \<Rightarrow> current_object serde \<Rightarrow> (string \<times> nat) list \<Rightarrow> pg_env \<Rightarrow>
   object_row_data list \<times> current_object list \<Rightarrow> db_op" where
  "objects_insert_to_db sdo sdc per_table_chunk_sizes env rows =
     join_inserts
       [execute_in_chunks env insert_objects_query sdo (fst rows)
          (get_config_table_chunk_size 8 ''objects'' per_table_chunk_sizes),
        execute_in_chunks env insert_current_objects_query sdc (snd rows)
          (get_config_table_chunk_size 7 ''current_objects'' per_table_chunk_sizes)]"

definition objects_process_transactions ::
  "libs \<Rightarrow> pg_first \<Rightarrow> (i64 \<Rightarrow> nat \<Rightarrow> nat \<Rightarrow> db) \<Rightarrow> u32 \<Rightarrow> object_row_data serde \<Rightarrow> current_object serde \<Rightarrow>
   rat \<times> rat \<Rightarrow> (string \<times> nat) list \<Rightarrow> process_fn" where
  "objects_process_transactions L first seen query_retries sdo sdc durations per_table_chunk_sizes =
     process_batch (objects_rows_of L first seen query_retries)
       (objects_insert_to_db sdo sdc per_table_chunk_sizes) durations"

lemmas objects_query_defs = insert_objects_query_def insert_current_objects_query_def

interpretation objects_processor: batch_processor
  "objects_rows_of L first seen retries" "objects_insert_to_db sdo sdc sizes" durations
  for L first seen retries sdo sdc sizes durations
proof
  fix env :: pg_env and rows
  assume "postgres (pg_exec env)"
  then show "untouched ''processor_status'' (objects_insert_to_db sdo sdc sizes env rows)"
    unfolding objects_insert_to_db_def
    by (intro join_inserts_untouched) (auto intro!: execute_in_chunks_untouched simp: objects_query_defs)
qed

section \<open>The rows of a batch\<close>

definition current_of :: "object_row_data \<Rightarrow> current_object" where
  "current_of r =
     \<lparr>cob_object_address = obj_object_address r, cob_owner_address = obj_owner_address r,
      cob_state_key_hash = obj_state_key_hash r, cob_allow_ungated_transfer = obj_allow_ungated_transfer r,
      cob_last_guid_creation_num = obj_guid_creation_num r,
      cob_last_transaction_version = obj_transaction_version r, cob_is_deleted = obj_is_deleted r\<rparr>"

definition obj_pk :: "object_row_data \<Rightarrow> i64 \<times> i64" where
  "obj_pk r = (obj_transaction_version r, obj_write_set_change_index r)"

definition pk_less :: "int \<times> int \<Rightarrow> int \<times> int \<Rightarrow> bool" where
  "pk_less a b \<longleftrightarrow> fst a < fst b \<or> fst a = fst b \<and> snd a < snd b"

lemma object_from_write_pair:
  "object_from_write wr version index helper = Some (r, c) \<Longrightarrow> c = current_of r \<and> obj_pk r = (version, index)"
  by (auto simp: object_from_write_def current_of_def obj_pk_def Let_def split: option.splits)

lemma object_from_delete_pair:
  "object_from_delete L first seen retries dr version index m = Inr (Some (r, c)) \<Longrightarrow>
   c = current_of r \<and> obj_pk r = (version, index)"
  by (auto simp: object_from_delete_def current_of_def obj_pk_def Let_def split: option.splits if_splits)

text \<open>
  The state of the loop before the change \<open>k\<close>: the rows so far are in the order of their keys, below
  \<open>k\<close>, and the map of current objects holds the last row of every address.
\<close>

definition objects_inv :: "int \<times> int \<Rightarrow> objects_state \<Rightarrow> bool" where
  "objects_inv k st \<longleftrightarrow>
     sorted_wrt pk_less (map obj_pk (os_objects st)) \<and> (\<forall>r \<in> set (os_objects st). pk_less (obj_pk r) k) \<and>
     collects cob_object_address (map current_of (os_objects st)) (os_current st)"

lemma objects_inv_mono: "objects_inv k st \<Longrightarrow> pk_less k k' \<Longrightarrow> objects_inv k' st"
  by (fastforce simp: objects_inv_def pk_less_def)

lemma objects_inv_helper: "objects_inv k (st\<lparr>os_helper := h\<rparr>) \<longleftrightarrow> objects_inv k st"
  by (simp add: objects_inv_def)

lemma objects_inv_push:
  assumes "objects_inv (v, int i) st" and "\<And>r c. x = Some (r, c) \<Longrightarrow> c = current_of r \<and> obj_pk r = (v, int i)"
  shows "objects_inv (v, 1 + int i) (push_object x st)"
proof (cases x)
  case None
  have "objects_inv (v, 1 + int i) st" by (rule objects_inv_mono [OF assms(1)]) (simp add: pk_less_def)
  with None show ?thesis by (simp add: push_object_def)
next
  case (Some rc)
  then obtain r c where x: "x = Some (r, c)" by (metis surj_pair)
  have c: "c = current_of r" "obj_pk r = (v, int i)" using assms(2) [OF x] by auto
  have "collects cob_object_address (map current_of (os_objects st) @ [current_of r])
      (AList.update (cob_object_address (current_of r)) (current_of r) (os_current st))"
    using assms(1) by (intro collects_insert) (simp add: objects_inv_def)
  moreover have "cob_object_address (current_of r) = obj_object_address r" by (simp add: current_of_def)
  ultimately show ?thesis
    using assms(1) by (fastforce simp: objects_inv_def x c push_object_def sorted_wrt_append pk_less_def)
qed

lemma add_object_change_inv:
  assumes "add_object_change L first seen retries v (i, wsc) st = Inr st'" and "objects_inv (v, int i) st"
  shows "objects_inv (v, 1 + int i) st'"
proof -
  obtain change where "wsc_change wsc = Some change" using assms(1) by (auto simp: add_object_change_def)
  moreover have "objects_inv (v, 1 + int i) st"
    by (rule objects_inv_mono [OF assms(2)]) (simp add: pk_less_def)
  ultimately show ?thesis
    using assms by (cases change) (auto simp: add_object_change_def intro!: objects_inv_push
        dest: object_from_write_pair object_from_delete_pair)
qed

lemma add_object_changes_inv:
  "fold_result (add_object_change L first seen retries v) (enumerate i cs) st = Inr st' \<Longrightarrow>
   objects_inv (v, int i) st \<Longrightarrow> objects_inv (v, int (i + length cs)) st'"
proof (induction cs arbitrary: i st)
  case (Cons c cs)
  then obtain st1 where st1: "add_object_change L first seen retries v (i, c) st = Inr st1"
    "fold_result (add_object_change L first seen retries v) (enumerate (Suc i) cs) st1 = Inr st'" by auto
  from Cons.IH [OF st1(2)] add_object_change_inv [OF st1(1) Cons.prems(2)] show ?case by simp
qed simp

lemma add_object_txn_inv:
  assumes "add_object_txn L first seen retries t st = Inr st'" and "objects_inv (ver t, 0) st" and "ver t < v"
  shows "objects_inv (v, 0) st'"
proof -
  obtain info :: transaction_info and helper where
      "fold_result (add_object_change L first seen retries (ver t)) (enumerate 0 (ti_changes info)) (st\<lparr>os_helper := helper\<rparr>)
        = Inr st'"
    using assms(1) unfolding add_object_txn_def Let_def ver_def and_then_eq_Inr by blast
  from add_object_changes_inv [OF this] assms(2) have "objects_inv (ver t, int (length (ti_changes info))) st'"
    by (simp add: objects_inv_helper)
  then show ?thesis by (rule objects_inv_mono) (use assms(3) in \<open>simp add: pk_less_def\<close>)
qed

lemma add_object_txns_inv:
  "fold_result (add_object_txn L first seen retries) ts st = Inr st' \<Longrightarrow> version_ordered ts \<Longrightarrow>
   (\<forall>t \<in> set ts. objects_inv (ver t, 0) st) \<Longrightarrow> objects_inv k st \<Longrightarrow> \<exists>k'. objects_inv k' st'"
proof (induction ts arbitrary: st k)
  case (Cons t ts)
  then obtain st1 where st1: "add_object_txn L first seen retries t st = Inr st1"
    "fold_result (add_object_txn L first seen retries) ts st1 = Inr st'" by auto
  have inv: "objects_inv (v, 0) st1" if "ver t < v" for v
    by (rule add_object_txn_inv [OF st1(1) _ that]) (use Cons.prems in simp)
  show ?case
    by (rule Cons.IH [OF st1(2) _ _ inv [of "ver t + 1"]]) (use Cons.prems(2) inv in \<open>auto simp: version_ordered_def\<close>)
qed auto

lemma objects_batch_rows:
  assumes "objects_rows_of L first seen retries ts = Inr (objs, cur)" and "version_ordered ts"
  shows "sorted_wrt pk_less (map obj_pk objs)"
    and "set cur = {c. last_by cob_object_address (cob_object_address c) (map current_of objs) = Some c}"
    and "distinct (map cob_object_address cur)"
proof -
  obtain st where st: "fold_result (add_object_txn L first seen retries) ts
      \<lparr>os_objects = [], os_current = [], os_helper = []\<rparr> = Inr st"
    and rows: "objs = os_objects st" "cur = sort_key cob_object_address (map snd (os_current st))"
    using assms(1) by (auto simp: objects_rows_of_def)
  have init: "objects_inv k \<lparr>os_objects = [], os_current = [], os_helper = []\<rparr>" for k
    by (simp add: objects_inv_def)
  obtain k where inv: "objects_inv k st" using add_object_txns_inv [OF st assms(2) _ init] init by blast
  then have "collects cob_object_address (map current_of objs) (os_current st)"
    by (simp add: objects_inv_def rows)
  from collects_sorted [OF this] inv
  show "sorted_wrt pk_less (map obj_pk objs)"
    and "set cur = {c. last_by cob_object_address (cob_object_address c) (map current_of objs) = Some c}"
    and "distinct (map cob_object_address cur)"
    by (simp_all add: objects_inv_def rows)
qed

lemma pk_sorted_distinct: "sorted_wrt pk_less xs \<Longrightarrow> distinct xs"
  by (induction xs) (auto simp: pk_less_def)

lemma objects_query_keys:
  "distinct (map obj_pk c) \<Longrightarrow> distinct (proposed_keys (fst (insert_objects_query c)))"
  by (rule distinct_proposed [where key = obj_pk and to_row = object_table_row and enc = "\<lambda>(v, i). [SqlInt v, SqlInt i]"])
    (auto simp: insert_objects_query_def object_table_row_def row_key_def cell_def obj_pk_def inj_def)

lemma current_objects_query_keys:
  "distinct (map cob_object_address c) \<Longrightarrow> distinct (proposed_keys (fst (insert_current_objects_query c)))"
  by (rule distinct_proposed [where key = cob_object_address and to_row = current_object_row and enc = "\<lambda>a. [SqlText a]"])
    (auto simp: insert_current_objects_query_def current_object_row_def row_key_def cell_def inj_def)

text \<open>
  C25: the rows of a batch of transactions with increasing versions are consistent: the current row of an
  object is exactly the last of its object rows, deletions included, an object without row has no
  current row, and no chunk of either table proposes a key twice.
\<close>

theorem objects_batch_consistent:
  assumes "objects_rows_of L first seen retries ts = Inr (objs, cur)" and "version_ordered ts" and "0 < n"
  shows "set cur = {c. last_by cob_object_address (cob_object_address c) (map current_of objs) = Some c} \<and>
    list_all (\<lambda>c. distinct (proposed_keys (fst (insert_objects_query c)))) (chunks n objs) \<and>
    list_all (\<lambda>c. distinct (proposed_keys (fst (insert_current_objects_query c)))) (chunks n cur)"
proof -
  note rows = objects_batch_rows [OF assms(1,2)]
  have keys: "distinct (map obj_pk objs)" by (rule pk_sorted_distinct [OF rows(1)])
  show ?thesis
    unfolding list_all_iff
    by (intro conjI ballI rows(2) objects_query_keys current_objects_query_keys
        chunk_distinct [OF keys assms(3)] chunk_distinct [OF rows(3) assms(3)])
qed

section \<open>Looking up a deleted object\<close>

lemma first_success_iff:
  "first_success q tried n = Some a \<longleftrightarrow>
     (\<exists>i. tried < i \<and> i \<le> tried + n \<and> q i = Inr a \<and> (\<forall>j. tried < j \<longrightarrow> j < i \<longrightarrow> (\<exists>f. q j = Inl f)))"
proof (induction n arbitrary: tried)
  case (Suc n)
  show ?case
  proof (cases "q (Suc tried)")
    case (Inl f)
    have "(\<exists>i. Suc tried < i \<and> i \<le> Suc tried + n \<and> q i = Inr a \<and> (\<forall>j. Suc tried < j \<longrightarrow> j < i \<longrightarrow> (\<exists>f. q j = Inl f))) \<longleftrightarrow>
      (\<exists>i. tried < i \<and> i \<le> tried + Suc n \<and> q i = Inr a \<and> (\<forall>j. tried < j \<longrightarrow> j < i \<longrightarrow> (\<exists>f. q j = Inl f)))"
      using Inl by (metis Suc_lessD Suc_lessI add_Suc_right add_Suc_shift sum.distinct(1))
    with Inl Suc show ?thesis by simp
  next
    case (Inr b)
    have "i = Suc tried" if "tried < i" "\<forall>j. tried < j \<longrightarrow> j < i \<longrightarrow> (\<exists>f. q j = Inl f)" for i
      using that Inr by (metis Suc_lessI lessI sum.distinct(1))
    with Inr show ?thesis by auto
  qed
qed simp

text \<open>Attempt \<open>i\<close> is the first one that succeeds, it is one of the first \<open>n\<close>, and it answers \<open>a\<close>.\<close>

definition first_answer :: "(nat \<Rightarrow> failure + 'a) \<Rightarrow> nat \<Rightarrow> nat \<Rightarrow> 'a \<Rightarrow> bool" where
  "first_answer q n i a \<longleftrightarrow> 0 < i \<and> i \<le> n \<and> q i = Inr a \<and> (\<forall>j. 0 < j \<longrightarrow> j < i \<longrightarrow> (\<exists>f. q j = Inl f))"

lemma first_success_answer: "first_success q 0 n = Some a \<longleftrightarrow> (\<exists>i. first_answer q n i a)"
  by (simp add: first_success_iff first_answer_def)

lemma first_success_none: "first_success q 0 n = None \<longleftrightarrow> (\<forall>i. 0 < i \<longrightarrow> i \<le> n \<longrightarrow> (\<exists>f. q i = Inl f))"
proof -
  have "\<exists>f. q i = Inl f" if none: "first_success q 0 n = None" and "0 < i" "i \<le> n" for i
    using that(2,3)
  proof (induction i rule: less_induct)
    case (less i)
    have "q i \<noteq> Inr a" for a
      using less none first_success_answer [of q n a] unfolding first_answer_def by force
    then show ?case by (cases "q i") auto
  qed
  moreover have "first_success q 0 n = None" if all: "\<forall>i. 0 < i \<longrightarrow> i \<le> n \<longrightarrow> (\<exists>f. q i = Inl f)"
  proof (rule ccontr)
    assume "first_success q 0 n \<noteq> None"
    then obtain a i where "first_answer q n i a" using first_success_answer [of q n] by blast
    then have "0 < i" "i \<le> n" "q i = Inr a" by (auto simp: first_answer_def)
    with all show False by (metis sum.distinct(1))
  qed
  ultimately show ?thesis by blast
qed

text \<open>
  C31: the deletion of an object that the batch has not written. The lookup of the object makes at most
  \<open>query_retries\<close> attempts, although a comment says that it loops until it gets the object. If one of them succeeds, the rows of the
  deletion carry the owner that the first successful attempt answers and the mark of the deletion; if none does, the
  deletion is left out of the batch without an error.
\<close>

theorem get_current_object_bounded:
  assumes "dr_type_str dr = ''0x1::object::ObjectGroup''" and "from_delete_resource L dr 0 version 0 = Inr r"
    and "map_of object_mapping (mres_address r) = None"
  shows "case object_from_delete L first seen query_retries dr version index object_mapping of
      Inl f \<Rightarrow> False
    | Inr None \<Rightarrow> \<forall>i. 0 < i \<longrightarrow> i \<le> unat query_retries \<longrightarrow> (\<exists>f. get_by_address first (mres_address r) (seen i) = Inl f)
    | Inr (Some (obj, cur)) \<Rightarrow>
        \<exists>i c. first_answer (\<lambda>i. get_by_address first (mres_address r) (seen i)) (unat query_retries) i c \<and>
          obj_object_address obj = mres_address r \<and> obj_owner_address obj = cob_owner_address c \<and> obj_is_deleted obj \<and>
          cob_object_address cur = mres_address r \<and> cob_owner_address cur = cob_owner_address c \<and> cob_is_deleted cur"
proof -
  let ?q = "\<lambda>i. get_by_address first (mres_address r) (seen i)"
  show ?thesis
  proof (cases "first_success ?q 0 (unat query_retries)")
    case None
    with first_success_none [of ?q "unat query_retries"] assms show ?thesis
      by (simp add: object_from_delete_def get_current_object_def)
  next
    case (Some c)
    with first_success_answer [of ?q "unat query_retries" c] assms show ?thesis
      by (simp add: object_from_delete_def get_current_object_def) blast
  qed
qed

section \<open>Runs\<close>

text \<open>A write of an object core and a deletion of the object.\<close>

definition sample_core :: json where
  "sample_core = JObject [(''allow_ungated_transfer'', JBool True), (''guid_creation_num'', JString ''1''),
     (''owner'', JString ''0xb'')]"

definition object_libs :: libs where
  "object_libs = sample_libs\<lparr>lib_json_from_str := (\<lambda>_. Some sample_core)\<rparr>"

definition object_write :: "string \<Rightarrow> write_set_change_pb" where
  "object_write name = \<lparr>wsc_type = 5, wsc_change = Some (WriteResource \<lparr>wr_address = ''0xa'', wr_state_key_hash = [],
     wr_type = Some (MoveStructTagPB ''0x1'' ''object'' name []), wr_type_str = [], wr_data = []\<rparr>)\<rparr>"

definition object_delete :: write_set_change_pb where
  "object_delete = \<lparr>wsc_type = 2, wsc_change = Some (DeleteResource \<lparr>dr_address = ''0xa'', dr_state_key_hash = [],
     dr_type = Some (MoveStructTagPB ''0x1'' ''object'' ''ObjectGroup'' []), dr_type_str = ''0x1::object::ObjectGroup''\<rparr>)\<rparr>"

definition object_txn :: "write_set_change_pb list \<Rightarrow> u64 \<Rightarrow> transaction" where
  "object_txn cs v = (sample_user_txn v)\<lparr>txn_info := map_option (\<lambda>i. i\<lparr>ti_changes := cs\<rparr>) (txn_info (sample_user_txn v))\<rparr>"

lemma object_write_read:
  assumes "wsc_change (object_write name) = Some (WriteResource wr)"
  shows "object_from_write_resource object_libs wr v =
    (if name = ''ObjectCore''
     then Inr (Some \<lparr>owm_object_core = \<lparr>oc_allow_ungated_transfer = True, oc_guid_creation_num = 1, oc_owner = ''0xb''\<rparr>,
       owm_state_key_hash = standardize_address []\<rparr>)
     else if name = ''Other'' then Inr None else object_from_write_resource object_libs wr v)"
proof -
  have sel: "lib_json_from_str object_libs s = Some sample_core" "lib_parse_bigdecimal object_libs s = Some 1"
    "lib_hex_encode object_libs b = []" for s b by (simp_all add: object_libs_def sample_libs_def)
  have wr: "wr_type wr = Some (MoveStructTagPB ''0x1'' ''object'' name [])" "wr_state_key_hash wr = []"
    using assms by (auto simp: object_write_def)
  have outer: "get_outer_type_from_resource object_libs wr = Inr (coin_addr @ ''::object::'' @ name)"
    by (simp add: wr get_outer_type_from_resource_def convert_move_struct_tag_def mst_get_address_def
        coin_addr_standard standardize_coin_addr Let_def)
  have "read_object_core object_libs sample_core =
      Some \<lparr>oc_allow_ungated_transfer = True, oc_guid_creation_num = 1, oc_owner = ''0xb''\<rparr>"
    by (simp add: read_object_core_def sample_core_def field_def read_bigdecimal_def deserialize_from_string_def sel Let_def)
  moreover have "\<not> v2_token_is_resource_supported (coin_addr @ ''::object::Other'')" by code_simp
  moreover have "v2_token_is_resource_supported (coin_addr @ ''::object::ObjectCore'')" by code_simp
  ultimately show ?thesis
    by (simp add: object_from_write_resource_def outer unwrap_json_def sel v2_token_from_resource_def
        parse_or_err_def wr)
qed

definition sample_object :: "i64 \<Rightarrow> i64 \<Rightarrow> bool \<Rightarrow> object_row_data" where
  "sample_object v i deleted = \<lparr>obj_transaction_version = v, obj_write_set_change_index = i,
     obj_object_address = standardize_address ''0xa'', obj_owner_address = standardize_address ''0xb'',
     obj_state_key_hash = standardize_address [], obj_guid_creation_num = 1, obj_allow_ungated_transfer = True,
     obj_is_deleted = deleted\<rparr>"

definition no_rows :: pg_first where
  "no_rows t f d = Inr None"

definition sample_resource :: "string \<Rightarrow> write_resource" where
  "sample_resource name = \<lparr>wr_address = ''0xa'', wr_state_key_hash = [],
     wr_type = Some (MoveStructTagPB ''0x1'' ''object'' name []), wr_type_str = [], wr_data = []\<rparr>"

lemma object_write_change: "wsc_change (object_write name) = Some (WriteResource (sample_resource name))"
  by (simp add: object_write_def sample_resource_def)

lemmas object_run_defs = add_object_txn_def object_txn_def sample_user_txn_def add_object_core_def
  object_write_change add_object_change_def push_object_def object_from_write_def sample_resource_def object_data_def
  get_owner_address_def sample_object_def object_from_delete_def object_delete_def from_delete_resource_def Let_def

lemma object_libs_hex: "lib_hex_encode object_libs b = []"
  by (simp add: object_libs_def sample_libs_def)

lemma object_rows_run:
  "objects_rows_of object_libs first seen n
     [object_txn [object_write ''ObjectCore''] v, object_txn [object_write ''Other''] w, object_txn [object_delete] x] =
   Inr ([sample_object (as_i64 v) 0 False, sample_object (as_i64 w) 0 False, sample_object (as_i64 x) 0 True],
        [current_of (sample_object (as_i64 x) 0 True)])"
  using object_write_read [OF object_write_change, of "''ObjectCore''"] object_write_read [OF object_write_change, of "''Other''"]
  by (simp add: objects_rows_of_def object_run_defs current_of_def object_libs_hex)

lemma object_rows_run_alone:
  "objects_rows_of object_libs first seen n [object_txn [object_write ''ObjectCore''] v] =
     Inr ([sample_object (as_i64 v) 0 False], [current_of (sample_object (as_i64 v) 0 False)])"
  "objects_rows_of object_libs first seen n [object_txn [object_write ''Other''] w] = Inr ([], [])"
  using object_write_read [OF object_write_change, of "''ObjectCore''"] object_write_read [OF object_write_change, of "''Other''"]
  by (simp_all add: objects_rows_of_def object_run_defs current_of_def)

theorem objects_batch_consistent_witness:
  "\<exists>objs cur. objects_rows_of object_libs no_rows (\<lambda>_ _ _ _. Map.empty) 1
     [object_txn [object_write ''ObjectCore''] 7, object_txn [object_write ''Other''] 8, object_txn [object_delete] 9] =
     Inr (objs, cur) \<and> length objs = 3 \<and>
    set cur = {c. last_by cob_object_address (cob_object_address c) (map current_of objs) = Some c}"
proof -
  note run = object_rows_run [of no_rows "\<lambda>_ _ _ _. Map.empty" 1 7 8 9]
  have "version_ordered [object_txn [object_write ''ObjectCore''] 7, object_txn [object_write ''Other''] 8,
      object_txn [object_delete] 9]"
    by (simp add: version_ordered_def ver_def object_txn_def sample_user_txn_def as_i64_small)
  from objects_batch_consistent [OF run this, of 1] run show ?thesis by simp
qed

text \<open>The row that the second attempt finds.\<close>

definition second_attempt :: "nat \<Rightarrow> db" where
  "second_attempt i = (\<lambda>t. if 2 \<le> i then Map.empty([SqlText (standardize_address ''0xa'')] \<mapsto>
       map_of (current_object_row (current_of (sample_object 7 0 False)))) else Map.empty)"

definition row_under_key :: pg_first where
  "row_under_key t f d = Inr (d t (map snd f))"

definition deleted_object :: delete_resource where
  "deleted_object = \<lparr>dr_address = ''0xa'', dr_state_key_hash = [],
     dr_type = Some (MoveStructTagPB ''0x1'' ''object'' ''ObjectGroup'' []), dr_type_str = ''0x1::object::ObjectGroup''\<rparr>"

text \<open>With one attempt the deletion is left out, with three the second attempt finds the owner.\<close>

theorem get_current_object_bounded_witness:
  "object_from_delete object_libs row_under_key second_attempt 1 deleted_object 8 0 [] = Inr None \<and>
    (\<exists>obj cur. object_from_delete object_libs row_under_key second_attempt 3 deleted_object 8 0 [] = Inr (Some (obj, cur)) \<and>
      obj_owner_address obj = standardize_address ''0xb'' \<and> obj_is_deleted obj)"
proof -
  let ?a = "standardize_address ''0xa''" and ?c = "current_of (sample_object 7 0 False)"
  have found: "get_by_address row_under_key ?a (second_attempt 2) = Inr ?c"
    by (simp add: get_by_address_def row_under_key_def second_attempt_def read_current_object_def text_cell_def
        bool_cell_def numeric_cell_def int_cell_def cell_def current_object_row_def current_of_def)
  have missed: "get_by_address row_under_key ?a (second_attempt 1) = Inl (Err ''NotFound'')"
    by (simp add: get_by_address_def row_under_key_def second_attempt_def)
  obtain r where r: "from_delete_resource object_libs deleted_object 0 8 0 = Inr r" "mres_address r = ?a"
    by (simp add: from_delete_resource_def deleted_object_def object_libs_hex Let_def)
  have group: "dr_type_str deleted_object = ''0x1::object::ObjectGroup''" by (simp add: deleted_object_def)
  note lookup = get_current_object_bounded [OF group r(1), where object_mapping = "[]" and first = row_under_key
      and seen = second_attempt and index = 0, unfolded r(2), simplified]
  have one: "object_from_delete object_libs row_under_key second_attempt 1 deleted_object 8 0 [] = Inr None"
    using lookup [where query_retries = 1] missed
    by (auto simp: first_answer_def le_Suc_eq split: sum.splits option.splits)
  have "object_from_delete object_libs row_under_key second_attempt 3 deleted_object 8 0 [] \<noteq> Inr None"
    using lookup [where query_retries = 3] found by (auto split: sum.splits option.splits dest: spec [of _ 2])
  then obtain obj cur where rows: "object_from_delete object_libs row_under_key second_attempt 3 deleted_object 8 0 [] = Inr (Some (obj, cur))"
    using lookup [where query_retries = 3] by (auto split: sum.splits option.splits)
  then obtain i c where first: "first_answer (\<lambda>i. get_by_address row_under_key ?a (second_attempt i)) 3 i c"
    and obj: "obj_owner_address obj = cob_owner_address c" "obj_is_deleted obj"
    using lookup [where query_retries = 3] by auto
  have i: "0 < i" "i \<le> 3" "get_by_address row_under_key ?a (second_attempt i) = Inr c"
    "2 < i \<Longrightarrow> \<exists>f. get_by_address row_under_key ?a (second_attempt 2) = Inl f"
    using first by (auto simp: first_answer_def)
  have "i \<noteq> 1" using i(3) missed by auto
  moreover have "\<not> 2 < i" using i(4) found by auto
  ultimately have "i = 2" using i(1) by linarith
  with first found have "c = ?c" by (simp add: first_answer_def)
  then have "cob_owner_address c = standardize_address ''0xb''" by (simp add: current_of_def sample_object_def)
  with one rows obj show ?thesis by simp
qed

text \<open>
  The cores that the first pass collects are kept for the whole batch, so a write of any resource at the
  address of an object gives an object row when an earlier transaction of the same batch has written
  the core, and none when that transaction was in an earlier batch.
\<close>

lemma object_rows_depend_on_batching:
  "\<exists>all one two cur cur1 cur2. objects_rows_of object_libs first seen n
      [object_txn [object_write ''ObjectCore''] 7, object_txn [object_write ''Other''] 8] = Inr (all, cur) \<and>
    objects_rows_of object_libs first seen n [object_txn [object_write ''ObjectCore''] 7] = Inr (one, cur1) \<and>
    objects_rows_of object_libs first seen n [object_txn [object_write ''Other''] 8] = Inr (two, cur2) \<and>
    all \<noteq> one @ two"
  using object_write_read [OF object_write_change, of "''ObjectCore''"] object_write_read [OF object_write_change, of "''Other''"]
    object_rows_run_alone [of first seen n]
  by (simp add: objects_rows_of_def object_run_defs)

end
