(* ===== verification/Account_Transactions.thy ===== *)
theory Account_Transactions
  imports User_Transactions Object_Utils Convergence
begin

text \<open>
  \<open>models/account_transaction_models/account_transactions.rs\<close> and
  \<open>processors/account_transactions_processor.rs\<close>: for every account that a transaction touches, one row
  with the account and the version. An account is touched when it signs, when an event of its handles is
  emitted, when a resource at its address is written or deleted, and when it owns an object whose core
  is written.
\<close>

section \<open>Rows\<close>

record account_transaction =
  atx_transaction_version :: i64
  atx_account_address :: string

type_synonym account_transactions_map = "((string \<times> i64) \<times> account_transaction) list"

definition atx_insert :: "string \<Rightarrow> i64 \<Rightarrow> account_transactions_map \<Rightarrow> account_transactions_map" where
  "atx_insert account_address version =
     AList.update (account_address, version) \<lparr>atx_transaction_version = version, atx_account_address = account_address\<rparr>"

definition atx_from_event :: "event_pb \<Rightarrow> i64 \<Rightarrow> failure + account_transactions_map" where
  "atx_from_event event version =
     and_then (expect ''called Option::unwrap on a None value'' (ev_key event)) (\<lambda>key.
     Inr (atx_insert (standardize_address (ek_account_address key)) version []))"

definition atx_from_write_resource :: "libs \<Rightarrow> write_resource \<Rightarrow> i64 \<Rightarrow> failure + account_transactions_map" where
  "atx_from_write_resource L wr version =
     (let result = atx_insert (standardize_address (wr_address wr)) version [] in
      and_then (object_from_write_resource L wr version) (\<lambda>obj.
      Inr (case obj of
             Some inner \<Rightarrow> atx_insert (get_owner_address (owm_object_core inner)) version result
           | None \<Rightarrow> result)))"

definition atx_from_delete_resource :: "delete_resource \<Rightarrow> i64 \<Rightarrow> failure + account_transactions_map" where
  "atx_from_delete_resource dr version = Inr (atx_insert (standardize_address (dr_address dr)) version [])"

definition atx_add_event :: "i64 \<Rightarrow> event_pb \<Rightarrow> account_transactions_map \<Rightarrow> failure + account_transactions_map" where
  "atx_add_event version event m = and_then (atx_from_event event version) (\<lambda>r. Inr (hm_extend m r))"

definition atx_add_change ::
  "libs \<Rightarrow> i64 \<Rightarrow> write_set_change_pb \<Rightarrow> account_transactions_map \<Rightarrow> failure + account_transactions_map" where
  "atx_add_change L version wsc m =
     and_then (expect ''called Option::unwrap on a None value'' (wsc_change wsc)) (\<lambda>change.
     case change of
       DeleteResource res \<Rightarrow>
         and_then (unwrap_result (atx_from_delete_resource res version)) (\<lambda>r. Inr (hm_extend m r))
     | WriteResource res \<Rightarrow>
         and_then (unwrap_result (atx_from_write_resource L res version)) (\<lambda>r. Inr (hm_extend m r))
     | _ \<Rightarrow> Inr m)"

text \<open>The events and signatures of the kinds of transactions that are looked at.\<close>

definition atx_sources ::
  "libs \<Rightarrow> txn_data \<Rightarrow> i64 \<Rightarrow> i64 \<Rightarrow> failure + (event_pb list \<times> signature list) option" where
  "atx_sources L data version block_height =
     (case data of
        User inner \<Rightarrow>
          and_then (expect ''User request doesn't exist for version'' (ut_request inner)) (\<lambda>req.
          and_then (get_signatures L req version block_height) (\<lambda>signatures.
          Inr (Some (ut_events inner, signatures))))
      | Genesis inner \<Rightarrow> Inr (Some (gen_events inner, []))
      | BlockMetadata inner \<Rightarrow> Inr (Some (bm_events inner, []))
      | _ \<Rightarrow> Inr None)"

definition atx_from_transaction :: "libs \<Rightarrow> transaction \<Rightarrow> failure + account_transactions_map" where
  "atx_from_transaction L txn =
     (let version = as_i64 (txn_version txn) in
      case txn_txn_data txn of
        None \<Rightarrow> Inr []
      | Some data \<Rightarrow>
          and_then (expect ''Transaction info doesn't exist for version'' (txn_info txn)) (\<lambda>info.
          and_then (atx_sources L data version (as_i64 (txn_block_height txn))) (\<lambda>sources.
          case sources of
            None \<Rightarrow> Inr []
          | Some (events, signatures) \<Rightarrow>
              and_then (fold_result (atx_add_event version) events
                (fold (\<lambda>s. atx_insert (sg_signer s) version) signatures [])) (\<lambda>m.
              fold_result (atx_add_change L version) (ti_changes info) m))))"

section \<open>The processor\<close>

definition account_transaction_row :: "account_transaction \<Rightarrow> sql_row" where
  "account_transaction_row a =
     [(''transaction_version'', SqlInt (atx_transaction_version a)), (''account_address'', SqlText (atx_account_address a))]"

definition insert_account_transactions_query :: "account_transaction list \<Rightarrow> query" where
  "insert_account_transactions_query items =
     (\<lparr>iq_table = ''account_transactions'', iq_rows = map account_transaction_row items,
       iq_target = [''transaction_version'', ''account_address''], iq_action = DoNothing\<rparr>, None)"

definition account_transactions_insert_to_db ::
  "account_transaction serde \<Rightarrow> (string \<times> nat) list \<Rightarrow> pg_env \<Rightarrow> account_transaction list \<Rightarrow> db_op" where
  "account_transactions_insert_to_db sd per_table_chunk_sizes env rows =
     execute_in_chunks env insert_account_transactions_query sd rows
       (get_config_table_chunk_size 2 ''account_transactions'' per_table_chunk_sizes)"

definition atx_sort_key :: "account_transaction \<Rightarrow> i64 \<times> string" where
  "atx_sort_key a = (atx_transaction_version a, atx_account_address a)"

definition account_transactions_rows_of :: "libs \<Rightarrow> transaction list \<Rightarrow> failure + account_transaction list" where
  "account_transactions_rows_of L transactions =
     and_then (fold_result (\<lambda>txn m. and_then (atx_from_transaction L txn) (\<lambda>r. Inr (hm_extend m r))) transactions [])
       (\<lambda>m. Inr (sort_key atx_sort_key (map snd m)))"

definition account_transactions_process_transactions ::
  "libs \<Rightarrow> account_transaction serde \<Rightarrow> rat \<times> rat \<Rightarrow> (string \<times> nat) list \<Rightarrow> process_fn" where
  "account_transactions_process_transactions L sd durations per_table_chunk_sizes =
     process_batch (account_transactions_rows_of L)
       (account_transactions_insert_to_db sd per_table_chunk_sizes) durations"

interpretation account_transactions_processor: batch_processor
  "account_transactions_rows_of L" "account_transactions_insert_to_db sd sizes" durations
  for L sd sizes durations
  by unfold_locales
    (simp add: account_transactions_insert_to_db_def execute_in_chunks_untouched insert_account_transactions_query_def)

section \<open>The touched accounts\<close>

definition event_accounts :: "event_pb list \<Rightarrow> string set" where
  "event_accounts es = (\<Union>e \<in> set es. \<Union>k \<in> set_option (ev_key e). {standardize_address (ek_account_address k)})"

definition change_accounts :: "libs \<Rightarrow> i64 \<Rightarrow> write_set_change_pb \<Rightarrow> string set" where
  "change_accounts L v c =
     (case wsc_change c of
        Some (WriteResource wr) \<Rightarrow>
          insert (standardize_address (wr_address wr))
            (case object_from_write_resource L wr v of
               Inr (Some obj) \<Rightarrow> {get_owner_address (owm_object_core obj)} | _ \<Rightarrow> {})
      | Some (DeleteResource dr) \<Rightarrow> {standardize_address (dr_address dr)}
      | _ \<Rightarrow> {})"

definition touched_accounts :: "libs \<Rightarrow> transaction \<Rightarrow> string set" where
  "touched_accounts L t =
     (case (txn_txn_data t, txn_info t) of
        (Some data, Some info) \<Rightarrow>
          (case atx_sources L data (ver t) (as_i64 (txn_block_height t)) of
             Inr (Some (events, signatures)) \<Rightarrow>
               sg_signer ` set signatures \<union> event_accounts events \<union>
               (\<Union>c \<in> set (ti_changes info). change_accounts L (ver t) c)
           | _ \<Rightarrow> {})
      | _ \<Rightarrow> {})"

definition atx_of :: "string \<times> i64 \<Rightarrow> account_transaction" where
  "atx_of k = \<lparr>atx_transaction_version = snd k, atx_account_address = fst k\<rparr>"

text \<open>The map holds the rows of the accounts and versions in \<open>K\<close>.\<close>

definition atx_map :: "(string \<times> i64) set \<Rightarrow> account_transactions_map \<Rightarrow> bool" where
  "atx_map K m \<longleftrightarrow> distinct_keys m \<and> (\<forall>k. map_of m k = (if k \<in> K then Some (atx_of k) else None))"

lemma atx_map_Nil: "atx_map {} []"
  by (simp add: atx_map_def distinct_keys_def)

lemma atx_map_insert: "atx_map K m \<Longrightarrow> atx_map (insert (a, v) K) (atx_insert a v m)"
  by (auto simp: atx_map_def atx_insert_def atx_of_def distinct_keys_def distinct_update update_conv')

lemma atx_map_extend: "atx_map K m \<Longrightarrow> atx_map J n \<Longrightarrow> atx_map (K \<union> J) (hm_extend m n)"
  by (auto simp: atx_map_def hm_extend_distinct hm_extend_map_of map_add_def)

lemma atx_map_signers:
  "atx_map K m \<Longrightarrow> atx_map (K \<union> (\<lambda>s. (sg_signer s, v)) ` set sigs) (fold (\<lambda>s. atx_insert (sg_signer s) v) sigs m)"
proof (induction sigs arbitrary: K m)
  case (Cons s sigs)
  from Cons.IH [OF atx_map_insert [OF Cons.prems]] show ?case by simp
qed simp

lemma atx_map_event:
  assumes "atx_add_event v e m = Inr m'" and "atx_map K m"
  shows "atx_map (K \<union> (\<lambda>a. (a, v)) ` event_accounts [e]) m'"
proof -
  obtain k where k: "ev_key e = Some k" and m': "m' = hm_extend m (atx_insert (standardize_address (ek_account_address k)) v [])"
    using assms(1) by (auto simp: atx_add_event_def atx_from_event_def)
  show ?thesis
    using atx_map_extend [OF assms(2) atx_map_insert [OF atx_map_Nil]] by (simp add: m' k event_accounts_def)
qed

lemma atx_map_change:
  assumes "atx_add_change L v c m = Inr m'" and "atx_map K m"
  shows "atx_map (K \<union> (\<lambda>a. (a, v)) ` change_accounts L v c) m'"
proof -
  have one: "atx_map {(a, v)} (atx_insert a v [])" for a using atx_map_insert [OF atx_map_Nil] by simp
  note two = atx_map_insert [OF one]
  obtain change where change: "wsc_change c = Some change"
    using assms(1) by (auto simp: atx_add_change_def)
  show ?thesis
  proof (cases change)
    case (WriteResource wr)
    with assms(1) change obtain obj where obj: "object_from_write_resource L wr v = Inr obj"
      and m': "m' = hm_extend m (case obj of
         Some inner \<Rightarrow> atx_insert (get_owner_address (owm_object_core inner)) v (atx_insert (standardize_address (wr_address wr)) v [])
       | None \<Rightarrow> atx_insert (standardize_address (wr_address wr)) v [])"
      by (auto simp: atx_add_change_def atx_from_write_resource_def Let_def)
    show ?thesis
      using atx_map_extend [OF assms(2) one] atx_map_extend [OF assms(2) two]
      by (cases obj) (simp_all add: m' change_accounts_def change WriteResource obj insert_commute)
  next
    case (DeleteResource dr)
    with assms change atx_map_extend [OF assms(2) one] show ?thesis
      by (auto simp: atx_add_change_def change_accounts_def atx_from_delete_resource_def)
  qed (use assms change in \<open>auto simp: atx_add_change_def change_accounts_def\<close>)
qed

text \<open>A fold whose steps each add the keys \<open>keys x\<close>.\<close>

lemma atx_map_fold:
  assumes "fold_result f xs m = Inr m'" and "atx_map K m"
    and "\<And>x m m' K. f x m = Inr m' \<Longrightarrow> atx_map K m \<Longrightarrow> atx_map (K \<union> keys x) m'"
  shows "atx_map (K \<union> (\<Union>x \<in> set xs. keys x)) m'"
  using assms(1,2)
proof (induction xs arbitrary: K m)
  case (Cons x xs)
  then obtain m1 where m1: "f x m = Inr m1" "fold_result f xs m1 = Inr m'" by auto
  from Cons.IH [OF m1(2) assms(3) [OF m1(1) Cons.prems(2)]] show ?case by (simp add: Un_assoc)
qed simp

lemma atx_map_transaction:
  assumes "atx_from_transaction L t = Inr m"
  shows "atx_map ((\<lambda>a. (a, ver t)) ` touched_accounts L t) m"
proof (cases "m = [] \<and> touched_accounts L t = {}")
  case False
  then obtain data where data: "txn_txn_data t = Some data"
    using assms by (cases "txn_txn_data t") (auto simp: atx_from_transaction_def touched_accounts_def)
  then obtain info src where info: "txn_info t = Some info"
    and src: "atx_sources L data (ver t) (as_i64 (txn_block_height t)) = Inr src"
    using assms by (auto simp: atx_from_transaction_def ver_def Let_def)
  with False assms data obtain events sigs where es: "src = Some (events, sigs)"
    by (cases src) (auto simp: atx_from_transaction_def touched_accounts_def ver_def)
  obtain m1 where m1: "fold_result (atx_add_event (ver t)) events (fold (\<lambda>s. atx_insert (sg_signer s) (ver t)) sigs []) = Inr m1"
    and m: "fold_result (atx_add_change L (ver t)) (ti_changes info) m1 = Inr m"
    using assms data info src es by (auto simp: atx_from_transaction_def ver_def Let_def)
  have "atx_map ({} \<union> (\<lambda>s. (sg_signer s, ver t)) ` set sigs \<union> (\<Union>e \<in> set events. (\<lambda>a. (a, ver t)) ` event_accounts [e]) \<union>
      (\<Union>c \<in> set (ti_changes info). (\<lambda>a. (a, ver t)) ` change_accounts L (ver t) c)) m"
    by (rule atx_map_fold [OF m atx_map_fold [OF m1 atx_map_signers [OF atx_map_Nil] atx_map_event] atx_map_change])
  moreover have "{} \<union> (\<lambda>s. (sg_signer s, ver t)) ` set sigs \<union> (\<Union>e \<in> set events. (\<lambda>a. (a, ver t)) ` event_accounts [e]) \<union>
      (\<Union>c \<in> set (ti_changes info). (\<lambda>a. (a, ver t)) ` change_accounts L (ver t) c) =
      (\<lambda>a. (a, ver t)) ` touched_accounts L t"
    by (auto simp: touched_accounts_def data info src es event_accounts_def)
  ultimately show ?thesis by simp
qed (simp add: atx_map_Nil)

definition touched_rows :: "libs \<Rightarrow> transaction \<Rightarrow> account_transaction set" where
  "touched_rows L t = (\<lambda>a. atx_of (a, ver t)) ` touched_accounts L t"

lemma account_rows:
  assumes "account_transactions_rows_of L ts = Inr rows"
  shows "set rows = (\<Union>t \<in> set ts. touched_rows L t)" and "distinct (map atx_sort_key rows)" and "sorted (map atx_sort_key rows)"
proof -
  obtain m where m: "fold_result (\<lambda>txn m. and_then (atx_from_transaction L txn) (\<lambda>r. Inr (hm_extend m r))) ts [] = Inr m"
    and rows: "rows = sort_key atx_sort_key (map snd m)"
    using assms by (auto simp: account_transactions_rows_of_def)
  let ?K = "\<Union>t \<in> set ts. (\<lambda>a. (a, ver t)) ` touched_accounts L t"
  have "atx_map ({} \<union> ?K) m"
    by (rule atx_map_fold [OF m atx_map_Nil]) (auto intro: atx_map_extend atx_map_transaction)
  then have "atx_map ?K m" by (simp only: Un_empty_left)
  then have m: "distinct_keys m" "\<And>k. map_of m k = (if k \<in> ?K then Some (atx_of k) else None)"
    unfolding atx_map_def by blast+
  have inv: "prod.swap (atx_sort_key (atx_of k)) = k" for k by (simp add: atx_sort_key_def atx_of_def)
  have "distinct (map (prod.swap \<circ> atx_sort_key) (map snd m))"
  proof -
    have "prod.swap (atx_sort_key (snd x)) = fst x" if "x \<in> set m" for x
    proof -
      have "map_of m (fst x) = Some (snd x)" using that m(1) by (simp add: distinct_keys_def)
      then have "snd x = atx_of (fst x)" unfolding m(2) by (simp split: if_splits)
      then show ?thesis by (simp only: inv)
    qed
    then have "map (prod.swap \<circ> atx_sort_key) (map snd m) = map fst m" by simp
    with m(1) show ?thesis by (simp only: distinct_keys_def)
  qed
  then have "distinct (map atx_sort_key (map snd m))" by (metis distinct_map map_map)
  moreover have "mset (map atx_sort_key rows) = mset (map atx_sort_key (map snd m))" by (simp add: rows multiset.map_comp)
  ultimately show "distinct (map atx_sort_key rows)" using mset_eq_imp_distinct_iff by blast
  show "sorted (map atx_sort_key rows)" by (simp add: rows)
  have "set rows = ran (map_of m)" using m(1) by (simp add: rows ran_distinct distinct_keys_def)
  also have "\<dots> = atx_of ` ?K" by (auto simp: ran_def m(2))
  finally show "set rows = (\<Union>t \<in> set ts. touched_rows L t)" by (auto simp: touched_rows_def)
qed

section \<open>The table\<close>

definition account_transaction_key :: "account_transaction \<Rightarrow> sql_value list" where
  "account_transaction_key a = [SqlInt (atx_transaction_version a), SqlText (atx_account_address a)]"

interpretation account_keys: keyed_insert insert_account_transactions_query account_transaction_key
  "''account_transactions''"
  by unfold_locales
    (simp_all add: insert_account_transactions_query_def account_transaction_key_def proposed_keys_def
      account_transaction_row_def row_key_def cell_def)

interpretation account_transactions_table: append_table insert_account_transactions_query account_transaction_key
  "''account_transactions''" "touched_rows L" "run_batch (account_transactions_process_transactions L sd durations)" sd
  for L sd durations
proof (unfold_locales, goal_cases)
  case (1 env sizes txns d d')
  then obtain rows where rows: "account_transactions_rows_of L txns = Inr rows"
    and ins: "account_transactions_insert_to_db sd sizes env rows d = (Inr (), d')"
    unfolding account_transactions_process_transactions_def by (auto elim: run_batch_ok)
  show ?case
    using account_keys.execute_in_chunks_dom [OF 1(2,3) _ ins [unfolded account_transactions_insert_to_db_def]] 1(4)
    by (simp add: account_rows(1) [OF rows])
qed

text \<open>
  C24: the table of account transactions refines the set of touched accounts: starting with an empty table, after
  any sequence of batches that were processed, in any order, overlapping or repeated, it has a row for
  an account and a version exactly when a processed transaction of that version touches the account.
\<close>

theorem account_transactions_refine:
  assumes "insert_batches (run_batch (account_transactions_process_transactions L sd durations)) runs d = Inr d'"
    and "d ''account_transactions'' = Map.empty"
    and "\<forall>(env, sizes, txns) \<in> set runs. postgres (pg_exec env) \<and> fair_sched env"
    and "keeps_key sd account_transaction_key (\<Union>t \<in> run_txns runs. touched_rows L t)"
  shows "dom (d' ''account_transactions'') =
      {[SqlInt (ver t), SqlText a] | t a. t \<in> run_txns runs \<and> a \<in> touched_accounts L t}"
proof -
  have "account_transaction_key ` (\<Union>t \<in> run_txns runs. touched_rows L t) =
      {[SqlInt (ver t), SqlText a] | t a. t \<in> run_txns runs \<and> a \<in> touched_accounts L t}"
    unfolding touched_rows_def image_UN image_image account_transaction_key_def atx_of_def by auto
  with account_transactions_table.table_accumulates [OF assms(1,3,4)] assms(2) show ?thesis by simp
qed

definition sample_atx_serde :: "account_transaction serde" where
  "sample_atx_serde =
     \<lparr>to_value = (\<lambda>a. JArray [JInt (atx_transaction_version a), JString (atx_account_address a)]),
      from_value = (\<lambda>j. case j of JArray [JInt v, JString a] \<Rightarrow>
        Some \<lparr>atx_transaction_version = v, atx_account_address = a\<rparr> | _ \<Rightarrow> None)\<rparr>"

text \<open>A genesis transaction with one event.\<close>

definition atx_txn :: "u64 \<Rightarrow> transaction" where
  "atx_txn v = (sample_user_txn v)\<lparr>
     txn_info := map_option (\<lambda>i. i\<lparr>ti_changes := []\<rparr>) (txn_info (sample_user_txn v)),
     txn_txn_data := Some (Genesis \<lparr>gen_payload = None, gen_events =
       [\<lparr>ev_key = Some \<lparr>ek_creation_number = 1, ek_account_address = ''0xa''\<rparr>, ev_sequence_number = 0,
         ev_type_str = [], ev_data = []\<rparr>]\<rparr>)\<rparr>"

lemma atx_txn_touched: "touched_accounts L (atx_txn v) = {standardize_address ''0xa''}"
  by (simp add: touched_accounts_def atx_txn_def sample_user_txn_def atx_sources_def event_accounts_def)

lemma atx_txn_batch:
  "\<exists>d'. run_batch (account_transactions_process_transactions L sd (0, 0)) (sample_pg, [], [atx_txn v]) d = (Inr (), d')"
proof -
  obtain rows where rows: "account_transactions_rows_of L [atx_txn v] = Inr rows"
    by (simp add: account_transactions_rows_of_def atx_from_transaction_def atx_txn_def sample_user_txn_def atx_sources_def
        atx_add_event_def atx_from_event_def Let_def)
  have "\<exists>d'. account_transactions_insert_to_db sd [] sample_pg rows d = (Inr (), d')"
    unfolding account_transactions_insert_to_db_def
    by (rule reference_do_nothing; simp add: default_chunk_size insert_account_transactions_query_def)
  with rows show ?thesis
    unfolding account_transactions_process_transactions_def by (intro run_batch_succeeds) auto
qed

theorem account_transactions_refine_witness:
  "\<exists>d'. insert_batches (run_batch (account_transactions_process_transactions sample_libs sample_atx_serde (0, 0)))
      [(sample_pg, [], [atx_txn 8]), (sample_pg, [], [atx_txn 7]), (sample_pg, [], [atx_txn 8])] (\<lambda>_. Map.empty) = Inr d' \<and>
    dom (d' ''account_transactions'') =
      {[SqlInt 7, SqlText (standardize_address ''0xa'')], [SqlInt 8, SqlText (standardize_address ''0xa'')]}"
proof -
  let ?run = "run_batch (account_transactions_process_transactions sample_libs sample_atx_serde (0, 0))"
  let ?runs = "[(sample_pg, [], [atx_txn 8]), (sample_pg, [], [atx_txn 7]), (sample_pg, [], [atx_txn 8])]"
  obtain d' where d': "insert_batches ?run ?runs (\<lambda>_. Map.empty) = Inr d'"
    using insert_batches_total [of ?runs ?run "\<lambda>_. Map.empty"] atx_txn_batch by (auto simp del: insert_batches.simps)
  have clean: "string_null_byte_replacement (standardize_address ''0xa'') = standardize_address ''0xa''" by code_simp
  have vers: "ver (atx_txn 7) = 7" "ver (atx_txn 8) = 8" by (simp_all add: ver_def atx_txn_def sample_user_txn_def as_i64_small)
  have txns: "run_txns ?runs = {atx_txn 7, atx_txn 8}" by (auto simp: run_txns_def)
  have "dom (d' ''account_transactions'') =
      {[SqlInt (ver t), SqlText a] | t a. t \<in> run_txns ?runs \<and> a \<in> touched_accounts sample_libs t}"
  proof (rule account_transactions_refine [OF d'])
    show "keeps_key sample_atx_serde account_transaction_key (\<Union>t \<in> run_txns ?runs. touched_rows sample_libs t)"
      using clean by (auto simp: txns keeps_key_def touched_rows_def atx_txn_touched vers atx_of_def account_transaction_key_def
          remove_null_bytes_def sample_atx_serde_def)
  qed (simp_all add: sample_pg_ok)
  also have "\<dots> = {[SqlInt 7, SqlText (standardize_address ''0xa'')], [SqlInt 8, SqlText (standardize_address ''0xa'')]}"
    unfolding txns using vers atx_txn_touched by fastforce
  finally show ?thesis using d' by blast
qed

end
