(* ===== verification/Fungible_Assets.thy ===== *)
theory Fungible_Assets
  imports Object_Utils
begin

text \<open>
  \<open>models/fungible_asset_models\<close>: the activities, balances and metadata of coins (version 1) and of
  fungible assets (version 2). A fungible asset is an object, so its rows need the core of the object,
  which the processor has collected in a first pass.
\<close>

section \<open>Rows\<close>

record fungible_asset_activity =
  faa_transaction_version :: i64
  faa_event_index :: i64
  faa_owner_address :: string
  faa_storage_id :: string
  faa_asset_type :: string
  faa_is_frozen :: "bool option"
  faa_amount :: "rat option"
  faa_type :: string
  faa_is_gas_fee :: bool
  faa_gas_fee_payer_address :: "string option"
  faa_is_transaction_success :: bool
  faa_entry_function_id_str :: "string option"
  faa_block_height :: i64
  faa_token_standard :: string
  faa_transaction_timestamp :: naive_date_time
  faa_storage_refund_amount :: rat

record fungible_asset_balance =
  fab_transaction_version :: i64
  fab_write_set_change_index :: i64
  fab_storage_id :: string
  fab_owner_address :: string
  fab_asset_type :: string
  fab_is_primary :: bool
  fab_is_frozen :: bool
  fab_amount :: rat
  fab_transaction_timestamp :: naive_date_time
  fab_token_standard :: string

record current_fungible_asset_balance =
  cfab_storage_id :: string
  cfab_owner_address :: string
  cfab_asset_type :: string
  cfab_is_primary :: bool
  cfab_is_frozen :: bool
  cfab_amount :: rat
  cfab_last_transaction_version :: i64
  cfab_last_transaction_timestamp :: naive_date_time
  cfab_token_standard :: string

record fungible_asset_metadata_model =
  famm_asset_type :: string
  famm_creator_address :: string
  famm_name :: string
  famm_symbol :: string
  famm_decimals :: int
  famm_icon_uri :: "string option"
  famm_project_uri :: "string option"
  famm_last_transaction_version :: i64
  famm_last_transaction_timestamp :: naive_date_time
  famm_supply_aggregator_table_handle_v1 :: "string option"
  famm_supply_aggregator_table_key_v1 :: "string option"
  famm_token_standard :: string
  famm_is_token_v2 :: "bool option"
  famm_supply_v2 :: "rat option"
  famm_maximum_v2 :: "rat option"

section \<open>Activities\<close>

fun fa_event_values :: "fungible_asset_event \<Rightarrow> bool option \<times> rat option" where
  "fa_event_values (FaWithdrawEvent amount) = (None, Some amount)"
| "fa_event_values (FaDepositEvent amount) = (None, Some amount)"
| "fa_event_values (FaFrozenEvent frozen) = (Some frozen, None)"

definition get_v2_from_event ::
  "libs \<Rightarrow> event_pb \<Rightarrow> i64 \<Rightarrow> i64 \<Rightarrow> naive_date_time \<Rightarrow> i64 \<Rightarrow> string option \<Rightarrow> object_aggregated_data_mapping \<Rightarrow>
   failure + fungible_asset_activity option" where
  "get_v2_from_event L event version block_height timestamp event_index entry_function_id_str objects =
     and_then (fa_from_event L (ev_type_str event) (ev_data event)) (\<lambda>parsed.
     case parsed of
       None \<Rightarrow> Inr None
     | Some fa_event \<Rightarrow>
         and_then (expect ''called Option::unwrap on a None value'' (ev_key event)) (\<lambda>key.
         let storage_id = standardize_address (ek_account_address key) in
         case map_of objects storage_id of
           None \<Rightarrow> Inr None
         | Some data \<Rightarrow>
             and_then (expect ''called Option::unwrap on a None value'' (oad_fungible_asset_store data)) (\<lambda>store.
             Inr (Some \<lparr>faa_transaction_version = version, faa_event_index = event_index,
               faa_owner_address = get_owner_address (owm_object_core (oad_object data)),
               faa_storage_id = storage_id, faa_asset_type = standardize_address (fas_metadata store),
               faa_is_frozen = fst (fa_event_values fa_event), faa_amount = snd (fa_event_values fa_event),
               faa_type = ev_type_str event, faa_is_gas_fee = False, faa_gas_fee_payer_address = None,
               faa_is_transaction_success = True, faa_entry_function_id_str = entry_function_id_str,
               faa_block_height = block_height, faa_token_standard = token_standard_str V2,
               faa_transaction_timestamp = timestamp, faa_storage_refund_amount = 0\<rparr>))))"

definition get_v1_from_event ::
  "libs \<Rightarrow> event_pb \<Rightarrow> i64 \<Rightarrow> i64 \<Rightarrow> naive_date_time \<Rightarrow> string option \<Rightarrow> event_to_coin_type \<Rightarrow> i64 \<Rightarrow>
   failure + fungible_asset_activity option" where
  "get_v1_from_event L event version block_height timestamp entry_function_id_str event_to_coin_type event_index =
     and_then (coin_from_event L (ev_type_str event) (ev_data event)) (\<lambda>parsed.
     case parsed of
       None \<Rightarrow> Inr None
     | Some inner \<Rightarrow>
         (case ev_key event of
            None \<Rightarrow> Inl (Err ''event must have a key'')
          | Some key \<Rightarrow>
              let guid = \<lparr>egr_addr = standardize_address (ek_account_address key),
                          egr_creation_num = as_i64 (ek_creation_number key)\<rparr> in
              (case map_of event_to_coin_type guid of
                 None \<Rightarrow> Inr None
               | Some coin_type \<Rightarrow>
                   Inr (Some \<lparr>faa_transaction_version = version, faa_event_index = event_index,
                     faa_owner_address = egr_addr guid, faa_storage_id = get_storage_id L coin_type (egr_addr guid),
                     faa_asset_type = coin_type, faa_is_frozen = None, faa_amount = Some (coin_event_amount inner),
                     faa_type = ev_type_str event, faa_is_gas_fee = False, faa_gas_fee_payer_address = None,
                     faa_is_transaction_success = True, faa_entry_function_id_str = entry_function_id_str,
                     faa_block_height = block_height, faa_token_standard = token_standard_str V1,
                     faa_transaction_timestamp = timestamp, faa_storage_refund_amount = 0\<rparr>))))"

definition fa_get_gas_event ::
  "libs \<Rightarrow> transaction_info \<Rightarrow> user_transaction_request \<Rightarrow> string option \<Rightarrow> i64 \<Rightarrow> naive_date_time \<Rightarrow> i64 \<Rightarrow>
   fee_statement option \<Rightarrow> failure + fungible_asset_activity" where
  "fa_get_gas_event L info req entry_function_id_str version timestamp block_height fee_statement =
     and_then (get_gas_event info req entry_function_id_str version timestamp block_height fee_statement) (\<lambda>v1.
     and_then (expect ''called Option::unwrap on a None value'' (cact_event_index v1)) (\<lambda>event_index.
     Inr \<lparr>faa_transaction_version = version, faa_event_index = event_index,
          faa_owner_address = cact_owner_address v1,
          faa_storage_id = get_storage_id L (cact_coin_type v1) (cact_owner_address v1),
          faa_asset_type = cact_coin_type v1, faa_is_frozen = None, faa_amount = Some (cact_amount v1),
          faa_type = cact_activity_type v1, faa_is_gas_fee = cact_is_gas_fee v1,
          faa_gas_fee_payer_address = cact_gas_fee_payer_address v1,
          faa_is_transaction_success = cact_is_transaction_success v1,
          faa_entry_function_id_str = cact_entry_function_id_str v1, faa_block_height = block_height,
          faa_token_standard = token_standard_str V1, faa_transaction_timestamp = timestamp,
          faa_storage_refund_amount = cact_storage_refund_amount v1\<rparr>))"

section \<open>Balances\<close>

text \<open>\<open><[u8; 32]>::from_hex\<close> of an address without its prefix.\<close>

definition address_bytes :: "libs \<Rightarrow> string \<Rightarrow> failure + bytes" where
  "address_bytes L address =
     and_then (str_from 2 address) (\<lambda>h.
     case lib_hex_decode L h of
       Some bs \<Rightarrow> if length bs = 32 then Inr bs else Inl (Panic ''InvalidStringLength'')
     | None \<Rightarrow> Inl (Panic ''called Result::unwrap on an Err value''))"

definition is_primary :: "libs \<Rightarrow> string \<Rightarrow> string \<Rightarrow> string \<Rightarrow> failure + bool" where
  "is_primary L owner_address metadata_address fungible_store_address =
     and_then (address_bytes L owner_address) (\<lambda>owner.
     and_then (address_bytes L metadata_address) (\<lambda>metadata.
     and_then (str_from 2 fungible_store_address) (\<lambda>store.
     Inr (lib_hex_encode L (lib_sha3_256 L (owner @ metadata @ [0xFC])) = store))))"

definition get_v2_from_write_resource ::
  "libs \<Rightarrow> write_resource \<Rightarrow> i64 \<Rightarrow> i64 \<Rightarrow> naive_date_time \<Rightarrow> object_aggregated_data_mapping \<Rightarrow>
   failure + (fungible_asset_balance \<times> current_fungible_asset_balance) option" where
  "get_v2_from_write_resource L wr index version timestamp objects =
     and_then (fa_store_from_write_resource L wr version) (\<lambda>store.
     case store of
       None \<Rightarrow> Inr None
     | Some inner \<Rightarrow>
         let storage_id = standardize_address (wr_address wr) in
         (case map_of objects storage_id of
            None \<Rightarrow> Inr None
          | Some data \<Rightarrow>
              let owner_address = get_owner_address (owm_object_core (oad_object data));
                  asset_type = standardize_address (fas_metadata inner) in
              and_then (is_primary L owner_address asset_type storage_id) (\<lambda>primary.
              Inr (Some
                (\<lparr>fab_transaction_version = version, fab_write_set_change_index = index,
                  fab_storage_id = storage_id, fab_owner_address = owner_address, fab_asset_type = asset_type,
                  fab_is_primary = primary, fab_is_frozen = fas_frozen inner, fab_amount = fas_balance inner,
                  fab_transaction_timestamp = timestamp, fab_token_standard = token_standard_str V2\<rparr>,
                 \<lparr>cfab_storage_id = storage_id, cfab_owner_address = owner_address, cfab_asset_type = asset_type,
                  cfab_is_primary = primary, cfab_is_frozen = fas_frozen inner, cfab_amount = fas_balance inner,
                  cfab_last_transaction_version = version, cfab_last_transaction_timestamp = timestamp,
                  cfab_token_standard = token_standard_str V2\<rparr>)))))"

definition get_v1_from_write_resource ::
  "libs \<Rightarrow> write_resource \<Rightarrow> i64 \<Rightarrow> i64 \<Rightarrow> naive_date_time \<Rightarrow>
   failure + (fungible_asset_balance \<times> current_fungible_asset_balance \<times> event_to_coin_type) option" where
  "get_v1_from_write_resource L wr index version timestamp =
     and_then (coin_from_write_resource L wr version) (\<lambda>resource.
     case resource of
       Some (CoinStoreResource inner) \<Rightarrow>
         and_then (coin_info_type_of L wr) (\<lambda>coin_info_type.
         case get_coin_type_below_max coin_info_type of
           None \<Rightarrow> Inr None
         | Some coin_type \<Rightarrow>
             let owner_address = standardize_address (wr_address wr);
                 storage_id = get_storage_id L coin_type owner_address in
             Inr (Some
               (\<lparr>fab_transaction_version = version, fab_write_set_change_index = index,
                 fab_storage_id = storage_id, fab_owner_address = owner_address, fab_asset_type = coin_type,
                 fab_is_primary = True, fab_is_frozen = csr_frozen inner, fab_amount = csr_coin inner,
                 fab_transaction_timestamp = timestamp, fab_token_standard = token_standard_str V1\<rparr>,
                \<lparr>cfab_storage_id = storage_id, cfab_owner_address = owner_address, cfab_asset_type = coin_type,
                 cfab_is_primary = True, cfab_is_frozen = csr_frozen inner, cfab_amount = csr_coin inner,
                 cfab_last_transaction_version = version, cfab_last_transaction_timestamp = timestamp,
                 cfab_token_standard = token_standard_str V1\<rparr>,
                AList.update (get_standardized (csr_deposit_events inner)) coin_type
                  [(get_standardized (csr_withdraw_events inner), coin_type)])))
     | _ \<Rightarrow> Inr None)"

section \<open>Metadata\<close>

definition famm_get_v2_from_write_resource ::
  "libs \<Rightarrow> write_resource \<Rightarrow> i64 \<Rightarrow> naive_date_time \<Rightarrow> object_aggregated_data_mapping \<Rightarrow>
   failure + fungible_asset_metadata_model option" where
  "famm_get_v2_from_write_resource L wr version timestamp objects =
     and_then (fa_metadata_from_write_resource L wr version) (\<lambda>metadata.
     case metadata of
       None \<Rightarrow> Inr None
     | Some inner \<Rightarrow>
         let asset_type = standardize_address (wr_address wr) in
         (case map_of objects asset_type of
            None \<Rightarrow> Inr None
          | Some data \<Rightarrow>
              and_then (fa_get_name inner) (\<lambda>name.
              and_then (fa_get_symbol inner) (\<lambda>symbol.
              and_then (get_icon_uri inner) (\<lambda>icon_uri.
              and_then (get_project_uri inner) (\<lambda>project_uri.
              let supply = oad_fungible_asset_supply data in
              Inr (Some \<lparr>famm_asset_type = asset_type,
                famm_creator_address = get_owner_address (owm_object_core (oad_object data)),
                famm_name = name, famm_symbol = symbol, famm_decimals = fam_decimals inner,
                famm_icon_uri = Some icon_uri, famm_project_uri = Some project_uri,
                famm_last_transaction_version = version, famm_last_transaction_timestamp = timestamp,
                famm_supply_aggregator_table_handle_v1 = None, famm_supply_aggregator_table_key_v1 = None,
                famm_token_standard = token_standard_str V2, famm_is_token_v2 = None,
                famm_supply_v2 = map_option fasu_current supply,
                famm_maximum_v2 = Option.bind supply get_maximum\<rparr>)))))))"

definition famm_get_v1_from_write_resource ::
  "libs \<Rightarrow> write_resource \<Rightarrow> i64 \<Rightarrow> naive_date_time \<Rightarrow> failure + fungible_asset_metadata_model option" where
  "famm_get_v1_from_write_resource L wr version timestamp =
     and_then (coin_from_write_resource L wr version) (\<lambda>resource.
     case resource of
       Some (CoinInfoResource inner) \<Rightarrow>
         and_then (coin_info_type_of L wr) (\<lambda>coin_info_type.
         let agg = get_aggregator_metadata inner in
         case get_coin_type_below_max coin_info_type of
           None \<Rightarrow> Inr None
         | Some asset_type \<Rightarrow>
             and_then (get_name_trunc inner) (\<lambda>name.
             and_then (get_symbol_trunc inner) (\<lambda>symbol.
             Inr (Some \<lparr>famm_asset_type = asset_type,
               famm_creator_address = get_creator_address coin_info_type,
               famm_name = name, famm_symbol = symbol, famm_decimals = cir_decimals inner,
               famm_icon_uri = None, famm_project_uri = None,
               famm_last_transaction_version = version, famm_last_transaction_timestamp = timestamp,
               famm_supply_aggregator_table_handle_v1 = map_option ar_handle agg,
               famm_supply_aggregator_table_key_v1 = map_option ar_key agg,
               famm_token_standard = token_standard_str V1, famm_is_token_v2 = None,
               famm_supply_v2 = None, famm_maximum_v2 = None\<rparr>))))
     | _ \<Rightarrow> Inr None)"

section \<open>Shapes of the rows\<close>

lemma get_v1_from_event_pk:
  "get_v1_from_event L event version height timestamp fn m index = Inr (Some a) \<Longrightarrow>
   faa_transaction_version a = version \<and> faa_event_index a = index \<and>
   ev_type_str event \<in> {''0x1::coin::WithdrawEvent'', ''0x1::coin::DepositEvent''}"
  by (clarsimp simp: get_v1_from_event_def) (auto simp: coin_from_event_def Let_def split: option.splits if_splits)

lemma get_v2_from_event_pk:
  "get_v2_from_event L event version height timestamp index fn objects = Inr (Some a) \<Longrightarrow>
   faa_transaction_version a = version \<and> faa_event_index a = index \<and>
   ev_type_str event \<in> {''0x1::fungible_asset::DepositEvent'', ''0x1::fungible_asset::WithdrawEvent'',
     ''0x1::fungible_asset::FrozenEvent''}"
  by (clarsimp simp: get_v2_from_event_def) (auto simp: fa_from_event_def Let_def split: option.splits if_splits)

lemma fa_get_gas_event_pk:
  "fa_get_gas_event L info req fn version timestamp height fs = Inr a \<Longrightarrow>
   faa_transaction_version a = version \<and> faa_event_index a = - 1"
  by (auto simp: fa_get_gas_event_def get_gas_event_def burn_gas_event_index_def)

lemma get_v1_balance_pk:
  "get_v1_from_write_resource L wr index version timestamp = Inr (Some (b, c, m)) \<Longrightarrow>
   fab_transaction_version b = version \<and> fab_write_set_change_index b = index \<and>
   cfab_storage_id c = fab_storage_id b \<and> cfab_last_transaction_version c = version \<and>
   (\<exists>t. get_outer_type_from_resource L wr = Inr t \<and> is_resource_supported t)"
  by (clarsimp simp: get_v1_from_write_resource_def coin_from_write_resource_def)
    (auto simp: Let_def split: option.splits coin_resource.splits if_splits)

lemma get_v2_balance_pk:
  "get_v2_from_write_resource L wr index version timestamp objects = Inr (Some (b, c)) \<Longrightarrow>
   fab_transaction_version b = version \<and> fab_write_set_change_index b = index \<and>
   cfab_storage_id c = fab_storage_id b \<and> cfab_last_transaction_version c = version \<and>
   (\<exists>t. get_outer_type_from_resource L wr = Inr t \<and> fa_is_resource_supported t)"
  by (clarsimp simp: get_v2_from_write_resource_def fa_store_from_write_resource_def fa_resource_of_def)
    (auto simp: Let_def split: option.splits if_splits)

text \<open>Coins and fungible assets are different resources.\<close>

lemma coin_not_fungible_asset: "is_resource_supported t \<Longrightarrow> \<not> fa_is_resource_supported t"
proof -
  have "list_all (\<lambda>t. \<not> fa_is_resource_supported t) coin_resources" by code_simp
  then show "is_resource_supported t \<Longrightarrow> \<not> fa_is_resource_supported t"
    by (auto simp: is_resource_supported_def list_all_iff)
qed

lemma one_balance_per_resource:
  "get_v1_from_write_resource L wr index version timestamp = Inr (Some x) \<Longrightarrow>
   get_v2_from_write_resource L wr index' version' timestamp' objects = Inr y \<Longrightarrow> y = None"
  by (cases y; cases x) (auto dest!: get_v1_balance_pk get_v2_balance_pk simp: coin_not_fungible_asset)

lemma one_activity_per_event:
  "get_v1_from_event L event version height timestamp fn m index = Inr (Some x) \<Longrightarrow>
   get_v2_from_event L event version' height' timestamp' index' fn' objects = Inr y \<Longrightarrow> y = None"
  by (cases y) (auto dest!: get_v1_from_event_pk get_v2_from_event_pk)

end
