(* ===== verification/Fungible_Asset_Processor.thy ===== *)
theory Fungible_Asset_Processor
  imports Fungible_Assets Convergence
begin

text \<open>
  \<open>processors/fungible_asset_processor.rs\<close>. A transaction is read in four loops: the object cores, then the
  balances of coins and the data of the objects, then the events, then metadata and balances of fungible
  assets. The object data is kept for the whole batch. Rows that are pushed to a vector or inserted into
  a map are lists here, in the order of the insertions; \<open>collect_by\<close> makes the map of a list.
\<close>

section \<open>Rows and queries\<close>

definition fungible_asset_activity_row :: "fungible_asset_activity \<Rightarrow> sql_row" where
  "fungible_asset_activity_row a =
     [(''transaction_version'', SqlInt (faa_transaction_version a)), (''event_index'', SqlInt (faa_event_index a)),
      (''owner_address'', SqlText (faa_owner_address a)), (''storage_id'', SqlText (faa_storage_id a)),
      (''asset_type'', SqlText (faa_asset_type a)), (''is_frozen'', sql_opt SqlBool (faa_is_frozen a)),
      (''amount'', sql_opt SqlNumeric (faa_amount a)), (''type'', SqlText (faa_type a)),
      (''is_gas_fee'', SqlBool (faa_is_gas_fee a)),
      (''gas_fee_payer_address'', sql_opt SqlText (faa_gas_fee_payer_address a)),
      (''is_transaction_success'', SqlBool (faa_is_transaction_success a)),
      (''entry_function_id_str'', sql_opt SqlText (faa_entry_function_id_str a)),
      (''block_height'', SqlInt (faa_block_height a)), (''token_standard'', SqlText (faa_token_standard a)),
      (''transaction_timestamp'', SqlTimestamp (faa_transaction_timestamp a)),
      (''storage_refund_amount'', SqlNumeric (faa_storage_refund_amount a))]"

definition fungible_asset_balance_row :: "fungible_asset_balance \<Rightarrow> sql_row" where
  "fungible_asset_balance_row b =
     [(''transaction_version'', SqlInt (fab_transaction_version b)),
      (''write_set_change_index'', SqlInt (fab_write_set_change_index b)),
      (''storage_id'', SqlText (fab_storage_id b)), (''owner_address'', SqlText (fab_owner_address b)),
      (''asset_type'', SqlText (fab_asset_type b)), (''is_primary'', SqlBool (fab_is_primary b)),
      (''is_frozen'', SqlBool (fab_is_frozen b)), (''amount'', SqlNumeric (fab_amount b)),
      (''transaction_timestamp'', SqlTimestamp (fab_transaction_timestamp b)),
      (''token_standard'', SqlText (fab_token_standard b))]"

definition current_fungible_asset_balance_row :: "current_fungible_asset_balance \<Rightarrow> sql_row" where
  "current_fungible_asset_balance_row b =
     [(''storage_id'', SqlText (cfab_storage_id b)), (''owner_address'', SqlText (cfab_owner_address b)),
      (''asset_type'', SqlText (cfab_asset_type b)), (''is_primary'', SqlBool (cfab_is_primary b)),
      (''is_frozen'', SqlBool (cfab_is_frozen b)), (''amount'', SqlNumeric (cfab_amount b)),
      (''last_transaction_version'', SqlInt (cfab_last_transaction_version b)),
      (''last_transaction_timestamp'', SqlTimestamp (cfab_last_transaction_timestamp b)),
      (''token_standard'', SqlText (cfab_token_standard b))]"

definition fungible_asset_metadata_row :: "fungible_asset_metadata_model \<Rightarrow> sql_row" where
  "fungible_asset_metadata_row m =
     [(''asset_type'', SqlText (famm_asset_type m)), (''creator_address'', SqlText (famm_creator_address m)),
      (''name'', SqlText (famm_name m)), (''symbol'', SqlText (famm_symbol m)),
      (''decimals'', SqlInt (famm_decimals m)), (''icon_uri'', sql_opt SqlText (famm_icon_uri m)),
      (''project_uri'', sql_opt SqlText (famm_project_uri m)),
      (''last_transaction_version'', SqlInt (famm_last_transaction_version m)),
      (''last_transaction_timestamp'', SqlTimestamp (famm_last_transaction_timestamp m)),
      (''supply_aggregator_table_handle_v1'', sql_opt SqlText (famm_supply_aggregator_table_handle_v1 m)),
      (''supply_aggregator_table_key_v1'', sql_opt SqlText (famm_supply_aggregator_table_key_v1 m)),
      (''token_standard'', SqlText (famm_token_standard m)),
      (''is_token_v2'', sql_opt SqlBool (famm_is_token_v2 m)),
      (''supply_v2'', sql_opt SqlNumeric (famm_supply_v2 m)),
      (''maximum_v2'', sql_opt SqlNumeric (famm_maximum_v2 m))]"

definition insert_fungible_asset_activities_query :: "fungible_asset_activity list \<Rightarrow> query" where
  "insert_fungible_asset_activities_query items =
     (\<lparr>iq_table = ''fungible_asset_activities'', iq_rows = map fungible_asset_activity_row items,
       iq_target = [''transaction_version'', ''event_index''], iq_action = DoNothing\<rparr>, None)"

definition insert_fungible_asset_metadata_query :: "fungible_asset_metadata_model list \<Rightarrow> query" where
  "insert_fungible_asset_metadata_query items =
     (\<lparr>iq_table = ''fungible_asset_metadata'', iq_rows = map fungible_asset_metadata_row items,
       iq_target = [''asset_type''],
       iq_action = DoUpdate [''creator_address'', ''name'', ''symbol'', ''decimals'', ''icon_uri'', ''project_uri'',
         ''last_transaction_version'', ''last_transaction_timestamp'', ''supply_aggregator_table_handle_v1'',
         ''supply_aggregator_table_key_v1'', ''token_standard'', ''inserted_at'', ''is_token_v2'', ''supply_v2'',
         ''maximum_v2'']\<rparr>,
      Some (WhereLe ''last_transaction_version''))"

definition insert_fungible_asset_balances_query :: "fungible_asset_balance list \<Rightarrow> query" where
  "insert_fungible_asset_balances_query items =
     (\<lparr>iq_table = ''fungible_asset_balances'', iq_rows = map fungible_asset_balance_row items,
       iq_target = [''transaction_version'', ''write_set_change_index''], iq_action = DoNothing\<rparr>, None)"

definition insert_current_fungible_asset_balances_query :: "current_fungible_asset_balance list \<Rightarrow> query" where
  "insert_current_fungible_asset_balances_query items =
     (\<lparr>iq_table = ''current_fungible_asset_balances'', iq_rows = map current_fungible_asset_balance_row items,
       iq_target = [''storage_id''],
       iq_action = DoUpdate [''owner_address'', ''asset_type'', ''is_primary'', ''is_frozen'', ''amount'',
         ''last_transaction_timestamp'', ''last_transaction_version'', ''token_standard'', ''inserted_at'']\<rparr>,
      Some (WhereLe ''last_transaction_version''))"

section \<open>A transaction\<close>

definition fa_events_of ::
  "txn_data \<Rightarrow> failure + event_pb list \<times> user_transaction_request option \<times> string option" where
  "fa_events_of data =
     (case data of
        BlockMetadata inner \<Rightarrow> Inr (bm_events inner, None, None)
      | Genesis inner \<Rightarrow> Inr (gen_events inner, None, None)
      | User inner \<Rightarrow>
          and_then (expect ''Sends is not present in user txn'' (ut_request inner)) (\<lambda>maybe_request.
          and_then (get_entry_function_from_user_request maybe_request) (\<lambda>entry_function_id_str.
          Inr (ut_events inner, Some maybe_request, entry_function_id_str)))
      | _ \<Rightarrow> Inr ([], None, None))"

text \<open>The data of an object that a write resource carries, when the object is known.\<close>

definition fa_fill_object ::
  "libs \<Rightarrow> i64 \<Rightarrow> write_resource \<Rightarrow> object_aggregated_data_mapping \<Rightarrow> failure + object_aggregated_data_mapping" where
  "fa_fill_object L version wr objects =
     (let address = standardize_address (wr_address wr) in
      case map_of objects address of
        None \<Rightarrow> Inr objects
      | Some data \<Rightarrow>
          and_then (unwrap_result (fa_metadata_from_write_resource L wr version)) (\<lambda>metadata.
          and_then (unwrap_result (fa_store_from_write_resource L wr version)) (\<lambda>store.
          and_then (unwrap_result (fa_supply_from_write_resource L wr version)) (\<lambda>supply.
          Inr (AList.update address
            (data\<lparr>oad_fungible_asset_metadata :=
                     (case metadata of Some m \<Rightarrow> Some m | None \<Rightarrow> oad_fungible_asset_metadata data),
                   oad_fungible_asset_store :=
                     (case store of Some s \<Rightarrow> Some s | None \<Rightarrow> oad_fungible_asset_store data),
                   oad_fungible_asset_supply :=
                     (case supply of Some s \<Rightarrow> Some s | None \<Rightarrow> oad_fungible_asset_supply data)\<rparr>) objects)))))"

record fa_pass =
  fap_balances :: "(fungible_asset_balance \<times> current_fungible_asset_balance) list"
  fap_event_to_coin_type :: event_to_coin_type
  fap_objects :: object_aggregated_data_mapping

definition fa_add_v1 ::
  "libs \<Rightarrow> i64 \<Rightarrow> naive_date_time \<Rightarrow> nat \<times> write_set_change_pb \<Rightarrow> fa_pass \<Rightarrow> failure + fa_pass" where
  "fa_add_v1 L version timestamp iw st =
     (case iw of (index, wsc) \<Rightarrow>
      and_then (expect ''called Option::unwrap on a None value'' (wsc_change wsc)) (\<lambda>change.
      case change of
        WriteResource wr \<Rightarrow>
          and_then (unwrap_result (get_v1_from_write_resource L wr (int index) version timestamp)) (\<lambda>v1.
          let st1 = (case v1 of
              Some (balance, current_balance, event_to_coin) \<Rightarrow>
                st\<lparr>fap_balances := fap_balances st @ [(balance, current_balance)],
                   fap_event_to_coin_type := hm_extend (fap_event_to_coin_type st) event_to_coin\<rparr>
            | None \<Rightarrow> st) in
          and_then (fa_fill_object L version wr (fap_objects st1)) (\<lambda>objects.
          Inr (st1\<lparr>fap_objects := objects\<rparr>)))
      | _ \<Rightarrow> Inr st))"

fun find_map_result :: "('a \<Rightarrow> failure + 'b option) \<Rightarrow> 'a list \<Rightarrow> failure + 'b option" where
  "find_map_result f [] = Inr None"
| "find_map_result f (x # xs) =
     and_then (f x) (\<lambda>r. case r of Some y \<Rightarrow> Inr (Some y) | None \<Rightarrow> find_map_result f xs)"

definition fa_gas_activities ::
  "libs \<Rightarrow> transaction_info \<Rightarrow> user_transaction_request option \<Rightarrow> string option \<Rightarrow> i64 \<Rightarrow> naive_date_time \<Rightarrow> i64 \<Rightarrow>
   event_pb list \<Rightarrow> failure + fungible_asset_activity list" where
  "fa_gas_activities L info maybe_request entry_function_id_str version timestamp block_height events =
     (case maybe_request of
        None \<Rightarrow> Inr []
      | Some req \<Rightarrow>
          and_then (find_map_result (\<lambda>event. fee_statement_from_event L (ev_type_str event) (ev_data event)) events)
            (\<lambda>fee_statement.
          and_then (fa_get_gas_event L info req entry_function_id_str version timestamp block_height fee_statement)
            (\<lambda>gas_event. Inr [gas_event])))"

definition fa_event_activities ::
  "libs \<Rightarrow> i64 \<Rightarrow> i64 \<Rightarrow> naive_date_time \<Rightarrow> string option \<Rightarrow> event_to_coin_type \<Rightarrow> object_aggregated_data_mapping \<Rightarrow>
   nat \<times> event_pb \<Rightarrow> failure + fungible_asset_activity list" where
  "fa_event_activities L version block_height timestamp entry_function_id_str event_to_coin_type objects ie =
     (case ie of (index, event) \<Rightarrow>
      and_then (unwrap_result (get_v1_from_event L event version block_height timestamp entry_function_id_str
                  event_to_coin_type (int index))) (\<lambda>v1.
      and_then (unwrap_result (get_v2_from_event L event version block_height timestamp (int index)
                  entry_function_id_str objects)) (\<lambda>v2.
      Inr (opt_list v1 @ opt_list v2))))"

definition fa_v2_change ::
  "libs \<Rightarrow> i64 \<Rightarrow> naive_date_time \<Rightarrow> object_aggregated_data_mapping \<Rightarrow> nat \<times> write_set_change_pb \<Rightarrow>
   failure + fungible_asset_metadata_model list \<times> (fungible_asset_balance \<times> current_fungible_asset_balance) list" where
  "fa_v2_change L version timestamp objects iw =
     (case iw of (index, wsc) \<Rightarrow>
      and_then (expect ''called Option::unwrap on a None value'' (wsc_change wsc)) (\<lambda>change.
      case change of
        WriteResource wr \<Rightarrow>
          and_then (unwrap_result (famm_get_v1_from_write_resource L wr version timestamp)) (\<lambda>m1.
          and_then (unwrap_result (famm_get_v2_from_write_resource L wr version timestamp objects)) (\<lambda>m2.
          and_then (unwrap_result (get_v2_from_write_resource L wr (int index) version timestamp objects)) (\<lambda>b.
          Inr (opt_list m1 @ opt_list m2, opt_list b))))
      | _ \<Rightarrow> Inr ([], [])))"

record fa_rows =
  far_activities :: "fungible_asset_activity list"
  far_metadata :: "fungible_asset_metadata_model list"
  far_balances :: "(fungible_asset_balance \<times> current_fungible_asset_balance) list"

definition no_fa_rows :: fa_rows where
  "no_fa_rows = \<lparr>far_activities = [], far_metadata = [], far_balances = []\<rparr>"

definition fa_from_transaction ::
  "libs \<Rightarrow> transaction \<Rightarrow> object_aggregated_data_mapping \<Rightarrow> failure + fa_rows \<times> object_aggregated_data_mapping" where
  "fa_from_transaction L txn objects0 =
     (let version = as_i64 (txn_version txn); block_height = as_i64 (txn_block_height txn) in
      case txn_txn_data txn of
        None \<Rightarrow> Inr (no_fa_rows, objects0)
      | Some data \<Rightarrow>
          and_then (expect ''Transaction info doesn't exist!'' (txn_info txn)) (\<lambda>info.
          and_then (expect ''Transaction timestamp doesn't exist!'' (txn_timestamp txn)) (\<lambda>ts.
          and_then (expect ''Txn Timestamp is invalid!'' (lib_from_timestamp_opt L (ts_seconds ts) 0)) (\<lambda>timestamp.
          and_then (fa_events_of data) (\<lambda>(events, maybe_request, entry_function_id_str).
          and_then (fold_result (add_object_core L version) (ti_changes info) objects0) (\<lambda>objects.
          and_then (fold_result (fa_add_v1 L version timestamp) (enumerate 0 (ti_changes info))
              \<lparr>fap_balances = [], fap_event_to_coin_type = [], fap_objects = objects\<rparr>) (\<lambda>pass.
          and_then (fa_gas_activities L info maybe_request entry_function_id_str version timestamp block_height events) (\<lambda>gas.
          and_then (map_result (fa_event_activities L version block_height timestamp entry_function_id_str
              (fap_event_to_coin_type pass) (fap_objects pass)) (enumerate 0 events)) (\<lambda>activities.
          and_then (map_result (fa_v2_change L version timestamp (fap_objects pass)) (enumerate 0 (ti_changes info))) (\<lambda>v2.
          Inr (\<lparr>far_activities = gas @ concat activities, far_metadata = concat (map fst v2),
                far_balances = fap_balances pass @ concat (map snd v2)\<rparr>, fap_objects pass)))))))))))"

section \<open>A batch\<close>

definition fa_append :: "fa_rows \<Rightarrow> fa_rows \<Rightarrow> fa_rows" where
  "fa_append all r =
     \<lparr>far_activities = far_activities all @ far_activities r, far_metadata = far_metadata all @ far_metadata r,
      far_balances = far_balances all @ far_balances r\<rparr>"

record fa_inserts =
  fin_activities :: "fungible_asset_activity list"
  fin_metadata :: "fungible_asset_metadata_model list"
  fin_balances :: "fungible_asset_balance list"
  fin_current :: "current_fungible_asset_balance list"

definition parse_v2_coin :: "libs \<Rightarrow> transaction list \<Rightarrow> failure + fa_inserts" where
  "parse_v2_coin L transactions =
     and_then (fold_result (\<lambda>txn (all, objects).
         and_then (fa_from_transaction L txn objects) (\<lambda>(r, objects). Inr (fa_append all r, objects)))
       transactions (no_fa_rows, [])) (\<lambda>(all, _).
     Inr \<lparr>fin_activities = far_activities all,
          fin_metadata = sort_key famm_asset_type (map snd (collect_by famm_asset_type (far_metadata all) [])),
          fin_balances = map fst (far_balances all),
          fin_current = sort_key cfab_storage_id
            (map snd (collect_by cfab_storage_id (map snd (far_balances all)) []))\<rparr>)"

record fa_serdes =
  sd_fungible_asset_activity :: "fungible_asset_activity serde"
  sd_fungible_asset_metadata :: "fungible_asset_metadata_model serde"
  sd_fungible_asset_balance :: "fungible_asset_balance serde"
  sd_current_fungible_asset_balance :: "current_fungible_asset_balance serde"

definition fa_insert_to_db :: "fa_serdes \<Rightarrow> (string \<times> nat) list \<Rightarrow> pg_env \<Rightarrow> fa_inserts \<Rightarrow> db_op" where
  "fa_insert_to_db sds per_table_chunk_sizes env rows =
     (let size = (\<lambda>fields name. get_config_table_chunk_size fields name per_table_chunk_sizes) in
      join_inserts
        [execute_in_chunks env insert_fungible_asset_activities_query (sd_fungible_asset_activity sds)
           (fin_activities rows) (size 16 ''fungible_asset_activities''),
         execute_in_chunks env insert_fungible_asset_metadata_query (sd_fungible_asset_metadata sds)
           (fin_metadata rows) (size 15 ''fungible_asset_metadata''),
         execute_in_chunks env insert_fungible_asset_balances_query (sd_fungible_asset_balance sds)
           (fin_balances rows) (size 10 ''fungible_asset_balances''),
         execute_in_chunks env insert_current_fungible_asset_balances_query (sd_current_fungible_asset_balance sds)
           (fin_current rows) (size 9 ''current_fungible_asset_balances'')])"

definition fa_process_transactions ::
  "libs \<Rightarrow> fa_serdes \<Rightarrow> rat \<times> rat \<Rightarrow> (string \<times> nat) list \<Rightarrow> process_fn" where
  "fa_process_transactions L sds durations per_table_chunk_sizes =
     process_batch (parse_v2_coin L) (fa_insert_to_db sds per_table_chunk_sizes) durations"

lemmas fa_query_defs = insert_fungible_asset_activities_query_def insert_fungible_asset_metadata_query_def
  insert_fungible_asset_balances_query_def insert_current_fungible_asset_balances_query_def

interpretation fa_processor: batch_processor "parse_v2_coin L" "fa_insert_to_db sds sizes" durations
  for L sds sizes durations
proof
  fix env :: pg_env and rows
  assume "postgres (pg_exec env)"
  then show "untouched ''processor_status'' (fa_insert_to_db sds sizes env rows)"
    unfolding fa_insert_to_db_def Let_def
    by (intro join_inserts_untouched) (auto intro!: execute_in_chunks_untouched simp: fa_query_defs)
qed

section \<open>The balances of a transaction\<close>

definition fa_v1_rows ::
  "libs \<Rightarrow> i64 \<Rightarrow> naive_date_time \<Rightarrow> nat \<times> write_set_change_pb \<Rightarrow>
   (fungible_asset_balance \<times> current_fungible_asset_balance) list" where
  "fa_v1_rows L v timestamp ic =
     (case wsc_change (snd ic) of
        Some (WriteResource wr) \<Rightarrow>
          (case get_v1_from_write_resource L wr (int (fst ic)) v timestamp of
             Inr (Some (b, c, _)) \<Rightarrow> [(b, c)] | _ \<Rightarrow> [])
      | _ \<Rightarrow> [])"

definition fa_v2_rows ::
  "libs \<Rightarrow> i64 \<Rightarrow> naive_date_time \<Rightarrow> object_aggregated_data_mapping \<Rightarrow> nat \<times> write_set_change_pb \<Rightarrow>
   (fungible_asset_balance \<times> current_fungible_asset_balance) list" where
  "fa_v2_rows L v timestamp objects ic =
     (case wsc_change (snd ic) of
        Some (WriteResource wr) \<Rightarrow>
          (case get_v2_from_write_resource L wr (int (fst ic)) v timestamp objects of
             Inr b \<Rightarrow> opt_list b | _ \<Rightarrow> [])
      | _ \<Rightarrow> [])"

text \<open>All that the balances of fungible assets need of the object data is the core.\<close>

definition core_at :: "object_aggregated_data_mapping \<Rightarrow> string \<Rightarrow> object_core option" where
  "core_at objects a = map_option (\<lambda>data. owm_object_core (oad_object data)) (map_of objects a)"

lemma get_v2_core:
  "core_at objects (standardize_address (wr_address wr)) = core_at objects' (standardize_address (wr_address wr)) \<Longrightarrow>
   get_v2_from_write_resource L wr i v timestamp objects = get_v2_from_write_resource L wr i v timestamp objects'"
  by (auto simp: get_v2_from_write_resource_def core_at_def Let_def intro!: arg_cong [where f = "and_then _"] ext
      split: option.split)

lemma fa_fill_core: "fa_fill_object L v wr objects = Inr objects' \<Longrightarrow> core_at objects' = core_at objects"
  by (auto simp: fa_fill_object_def core_at_def update_conv' fun_eq_iff Let_def split: option.splits)

lemma fa_add_v1_step:
  assumes "fa_add_v1 L v timestamp ic st = Inr st'"
  shows "fap_balances st' = fap_balances st @ fa_v1_rows L v timestamp ic"
    and "core_at (fap_objects st') = core_at (fap_objects st)"
proof -
  obtain i c where ic: "ic = (i, c)" by (rule prod.exhaust)
  obtain change where ch: "wsc_change c = Some change" using assms by (auto simp: fa_add_v1_def ic)
  have "fap_balances st' = fap_balances st @ fa_v1_rows L v timestamp ic \<and>
      core_at (fap_objects st') = core_at (fap_objects st)"
  proof (cases change)
    case (WriteResource wr)
    obtain v1 where v1: "get_v1_from_write_resource L wr (int i) v timestamp = Inr v1"
      using assms ch by (auto simp: fa_add_v1_def ic WriteResource)
    from assms ch show ?thesis
      by (cases v1) (auto simp: fa_add_v1_def fa_v1_rows_def ic WriteResource v1 Let_def dest: fa_fill_core)
  qed (use assms ch in \<open>auto simp: fa_add_v1_def fa_v1_rows_def ic\<close>)
  then show "fap_balances st' = fap_balances st @ fa_v1_rows L v timestamp ic"
    and "core_at (fap_objects st') = core_at (fap_objects st)" by simp_all
qed

lemma fa_v2_change_rows: "fa_v2_change L v timestamp objects ic = Inr y \<Longrightarrow> snd y = fa_v2_rows L v timestamp objects ic"
proof -
  assume change: "fa_v2_change L v timestamp objects ic = Inr y"
  obtain i c where ic: "ic = (i, c)" by (rule prod.exhaust)
  obtain ch where ch: "wsc_change c = Some ch" using change by (auto simp: fa_v2_change_def ic)
  from change ch show "snd y = fa_v2_rows L v timestamp objects ic"
    by (cases ch) (auto simp: fa_v2_change_def fa_v2_rows_def ic)
qed

lemma fa_txn_balances:
  assumes "fa_from_transaction L t objects0 = Inr (r, objects')"
  obtains "far_balances r = []" and "txn_txn_data t = None"
  | data info ts timestamp objects where "txn_txn_data t = Some data" and "txn_info t = Some info"
      and "txn_timestamp t = Some ts" and "lib_from_timestamp_opt L (ts_seconds ts) 0 = Some timestamp"
      and "fold_result (add_object_core L (ver t)) (ti_changes info) objects0 = Inr objects"
      and "core_at objects' = core_at objects"
      and "far_balances r = concat (map (fa_v1_rows L (ver t) timestamp) (enumerate 0 (ti_changes info))) @
        concat (map (fa_v2_rows L (ver t) timestamp objects') (enumerate 0 (ti_changes info)))"
proof (cases "txn_txn_data t")
  case None
  with assms that(1) show ?thesis by (auto simp: fa_from_transaction_def no_fa_rows_def Let_def)
next
  case (Some data)
  with assms obtain info ts timestamp objects pass v2 where *: "txn_info t = Some info" "txn_timestamp t = Some ts"
      "lib_from_timestamp_opt L (ts_seconds ts) 0 = Some timestamp"
      "fold_result (add_object_core L (ver t)) (ti_changes info) objects0 = Inr objects"
      "fold_result (fa_add_v1 L (ver t) timestamp) (enumerate 0 (ti_changes info))
        \<lparr>fap_balances = [], fap_event_to_coin_type = [], fap_objects = objects\<rparr> = Inr pass"
      "map_result (fa_v2_change L (ver t) timestamp (fap_objects pass)) (enumerate 0 (ti_changes info)) = Inr v2"
      "far_balances r = fap_balances pass @ concat (map snd v2)" "objects' = fap_objects pass"
    by (auto simp: fa_from_transaction_def ver_def Let_def split: prod.splits)
  have "fap_balances pass = [] @ concat (map (fa_v1_rows L (ver t) timestamp) (enumerate 0 (ti_changes info)))"
    using fold_result_appends [OF *(5), where h = fap_balances and g = "fa_v1_rows L (ver t) timestamp"] fa_add_v1_step(1)
    by simp
  moreover have "concat (map snd v2) =
      concat (map (fa_v2_rows L (ver t) timestamp (fap_objects pass)) (enumerate 0 (ti_changes info)))"
    by (rule map_result_concat [OF *(6)]) (rule fa_v2_change_rows)
  moreover have "core_at (fap_objects pass) = core_at objects"
    by (rule fold_result_invariant [OF *(5), where P = "\<lambda>st. core_at (fap_objects st) = core_at objects"])
      (auto dest: fa_add_v1_step(2))
  ultimately show ?thesis using that(2) [OF Some *(1-4)] *(7,8) by simp
qed

text \<open>The cores that a transaction writes.\<close>

definition core_writes :: "libs \<Rightarrow> i64 \<Rightarrow> write_set_change_pb \<Rightarrow> (string \<times> object_core) list" where
  "core_writes L v c =
     (case wsc_change c of
        Some (WriteResource wr) \<Rightarrow>
          (case object_from_write_resource L wr v of
             Inr (Some obj) \<Rightarrow> [(standardize_address (wr_address wr), owm_object_core obj)] | _ \<Rightarrow> [])
      | _ \<Rightarrow> [])"

definition written_core :: "libs \<Rightarrow> i64 \<Rightarrow> write_set_change_pb list \<Rightarrow> string \<Rightarrow> object_core option" where
  "written_core L v cs a = map_option snd (last_by fst a (concat (map (core_writes L v) cs)))"

lemma add_object_core_at:
  assumes "add_object_core L v c objects = Inr objects'"
  shows "core_at objects' a = (case map_option snd (last_by fst a (core_writes L v c)) of Some x \<Rightarrow> Some x | None \<Rightarrow> core_at objects a)"
proof -
  obtain change where ch: "wsc_change c = Some change" using assms by (auto simp: add_object_core_def)
  show ?thesis
  proof (cases change)
    case (WriteResource wr)
    obtain obj where obj: "object_from_write_resource L wr v = Inr obj"
      using assms ch by (auto simp: add_object_core_def WriteResource)
    from assms ch show ?thesis
      by (cases obj) (auto simp: add_object_core_def core_writes_def WriteResource obj core_at_def update_conv'
          object_data_def last_by_def)
  qed (use assms ch in \<open>auto simp: add_object_core_def core_writes_def last_by_def\<close>)
qed

lemma written_core_at:
  "fold_result (add_object_core L v) cs objects = Inr objects' \<Longrightarrow>
   core_at objects' a = (case written_core L v cs a of Some x \<Rightarrow> Some x | None \<Rightarrow> core_at objects a)"
proof (induction cs arbitrary: objects' rule: rev_induct)
  case (snoc c cs)
  then obtain o1 where o1: "fold_result (add_object_core L v) cs objects = Inr o1" "add_object_core L v c o1 = Inr objects'"
    by (auto simp: fold_result_append)
  show ?case
    using snoc.IH [OF o1(1)] add_object_core_at [OF o1(2), of a]
    by (simp add: written_core_def last_by_append split: option.splits)
qed (simp add: written_core_def last_by_def)

lemma add_object_cores_total:
  "fold_result (add_object_core L v) cs objects = Inr objects' \<Longrightarrow> \<exists>fresh. fold_result (add_object_core L v) cs [] = Inr fresh"
proof (induction cs arbitrary: objects' rule: rev_induct)
  case (snoc c cs)
  then obtain o1 fresh where o1: "add_object_core L v c o1 = Inr objects'" "fold_result (add_object_core L v) cs [] = Inr fresh"
    by (auto simp: fold_result_append)
  then obtain ch where "wsc_change c = Some ch" by (auto simp: add_object_core_def)
  with o1(1) have "\<exists>o2. add_object_core L v c fresh = Inr o2" by (cases ch) (auto simp: add_object_core_def)
  with o1(2) show ?case by (simp add: fold_result_append)
qed simp

text \<open>
  A transaction is self-contained when it writes the core of every object whose fungible store it writes.
  The resources of an object are written together as one resource group, so the node gives such
  transactions. Then the balances of the transaction do not depend on the rest of the batch.
\<close>

definition stores_have_core :: "libs \<Rightarrow> i64 \<Rightarrow> write_set_change_pb list \<Rightarrow> bool" where
  "stores_have_core L v cs \<longleftrightarrow>
     list_all (\<lambda>c. case wsc_change c of
        Some (WriteResource wr) \<Rightarrow>
          (case fa_store_from_write_resource L wr v of
             Inr (Some _) \<Rightarrow> written_core L v cs (standardize_address (wr_address wr)) \<noteq> None | _ \<Rightarrow> True)
      | _ \<Rightarrow> True) cs"

definition self_contained :: "libs \<Rightarrow> transaction \<Rightarrow> bool" where
  "self_contained L t \<longleftrightarrow> (case txn_info t of Some info \<Rightarrow> stores_have_core L (ver t) (ti_changes info) | None \<Rightarrow> True)"

definition cores :: "libs \<Rightarrow> i64 \<Rightarrow> write_set_change_pb list \<Rightarrow> object_aggregated_data_mapping" where
  "cores L v cs = (case fold_result (add_object_core L v) cs [] of Inr objects \<Rightarrow> objects | Inl _ \<Rightarrow> [])"

definition fa_balance_rows :: "libs \<Rightarrow> transaction \<Rightarrow> (fungible_asset_balance \<times> current_fungible_asset_balance) list" where
  "fa_balance_rows L t =
     (case (txn_txn_data t, txn_info t, Option.bind (txn_timestamp t) (\<lambda>ts. lib_from_timestamp_opt L (ts_seconds ts) 0)) of
        (Some data, Some info, Some timestamp) \<Rightarrow>
          concat (map (fa_v1_rows L (ver t) timestamp) (enumerate 0 (ti_changes info))) @
          concat (map (fa_v2_rows L (ver t) timestamp (cores L (ver t) (ti_changes info))) (enumerate 0 (ti_changes info)))
      | _ \<Rightarrow> [])"

lemma fa_balance_rows_self_contained:
  assumes "fa_from_transaction L t objects0 = Inr (r, objects')" and "self_contained L t"
  shows "far_balances r = fa_balance_rows L t"
  using assms(1)
proof (cases rule: fa_txn_balances)
  case (2 data info ts timestamp objects)
  let ?v = "ver t" and ?cs = "ti_changes info"
  obtain fresh where fresh: "fold_result (add_object_core L ?v) ?cs [] = Inr fresh"
    using add_object_cores_total [OF 2(5)] by blast
  have "fa_v2_rows L ?v timestamp objects' ic = fa_v2_rows L ?v timestamp fresh ic" if "ic \<in> set (enumerate 0 ?cs)" for ic
  proof (cases "\<exists>wr s. wsc_change (snd ic) = Some (WriteResource wr) \<and> fa_store_from_write_resource L wr ?v = Inr (Some s)")
    case True
    then obtain wr s where wr: "wsc_change (snd ic) = Some (WriteResource wr)" "fa_store_from_write_resource L wr ?v = Inr (Some s)"
      by blast
    have "snd ic \<in> set ?cs" using that by (simp add: in_set_enumerate_eq) (metis nth_mem)
    then have "written_core L ?v ?cs (standardize_address (wr_address wr)) \<noteq> None"
      using assms(2) 2(2) wr by (auto simp: self_contained_def stores_have_core_def list_all_iff)
    then have "core_at objects' (standardize_address (wr_address wr)) = core_at fresh (standardize_address (wr_address wr))"
      using written_core_at [OF 2(5)] written_core_at [OF fresh] 2(6) by auto
    from get_v2_core [OF this] show ?thesis by (simp add: fa_v2_rows_def wr(1))
  next
    case False
    then have "get_v2_from_write_resource L wr i ?v timestamp objects' = get_v2_from_write_resource L wr i ?v timestamp fresh"
      if "wsc_change (snd ic) = Some (WriteResource wr)" for wr i
      using that by (cases "fa_store_from_write_resource L wr ?v") (auto simp: get_v2_from_write_resource_def split: option.split)
    then show ?thesis by (auto simp: fa_v2_rows_def split: option.split change.split)
  qed
  then have "map (fa_v2_rows L ?v timestamp objects') (enumerate 0 ?cs) = map (fa_v2_rows L ?v timestamp fresh) (enumerate 0 ?cs)"
    by simp
  with 2 fresh show ?thesis by (simp add: fa_balance_rows_def cores_def)
qed (simp add: fa_balance_rows_def)

lemma fa_rows_version:
  "r \<in> set (fa_v1_rows L v timestamp ic) \<or> r \<in> set (fa_v2_rows L v timestamp objects ic) \<Longrightarrow>
   fab_transaction_version (fst r) = v \<and> fab_write_set_change_index (fst r) = int (fst ic) \<and>
   cfab_last_transaction_version (snd r) = v"
  by (auto simp: fa_v1_rows_def fa_v2_rows_def opt_list_def split: option.splits change.splits sum.splits prod.splits)
    (metis get_v1_balance_pk get_v2_balance_pk)+

definition fab_pk :: "fungible_asset_balance \<Rightarrow> i64 \<times> i64" where
  "fab_pk b = (fab_transaction_version b, fab_write_set_change_index b)"

definition faa_pk :: "fungible_asset_activity \<Rightarrow> i64 \<times> i64" where
  "faa_pk a = (faa_transaction_version a, faa_event_index a)"

lemma fa_one_row:
  "length (fa_v1_rows L v timestamp ic) \<le> 1" "length (fa_v2_rows L v timestamp objects ic) \<le> 1"
  "fa_v1_rows L v timestamp ic = [] \<or> fa_v2_rows L v timestamp objects ic = []"
proof -
  show "length (fa_v1_rows L v timestamp ic) \<le> 1" "length (fa_v2_rows L v timestamp objects ic) \<le> 1"
    by (auto simp: fa_v1_rows_def fa_v2_rows_def opt_list_def split: option.split change.split sum.split prod.split)
  show "fa_v1_rows L v timestamp ic = [] \<or> fa_v2_rows L v timestamp objects ic = []"
    by (auto simp: fa_v1_rows_def fa_v2_rows_def opt_list_def dest: one_balance_per_resource
        split: option.split change.split sum.split prod.split)
qed

lemma fa_balance_keys_distinct:
  assumes "fa_from_transaction L t objects0 = Inr (r, objects')"
  shows "distinct (map (\<lambda>b. fab_pk (fst b)) (far_balances r))"
    and "b \<in> set (far_balances r) \<Longrightarrow> fst (fab_pk (fst b)) = ver t"
proof -
  have "distinct (map (\<lambda>b. fab_pk (fst b)) (far_balances r)) \<and> (\<forall>b \<in> set (far_balances r). fst (fab_pk (fst b)) = ver t)"
    using assms
  proof (cases rule: fa_txn_balances)
    case (2 data info ts timestamp objects)
    let ?g1 = "fa_v1_rows L (ver t) timestamp" and ?g2 = "fa_v2_rows L (ver t) timestamp objects'"
    let ?es = "enumerate 0 (ti_changes info)" and ?key = "\<lambda>b. fab_pk (fst b)"
    have key: "?key b = (ver t, int i)" if "b \<in> set (?g1 (i, c)) \<or> b \<in> set (?g2 (i, c))" for b i c
      using fa_rows_version [OF that] by (simp add: fab_pk_def)
    have inj: "inj (\<lambda>i :: nat. (ver t, int i))" by (simp add: inj_def)
    have "distinct (map ?key (concat (map ?g1 ?es)))"
      by (rule indexed_rows_distinct [where enc = "\<lambda>i. (ver t, int i)", OF fa_one_row(1) key [OF disjI1] inj])
    moreover have "distinct (map ?key (concat (map ?g2 ?es)))"
      by (rule indexed_rows_distinct [where enc = "\<lambda>i. (ver t, int i)", OF fa_one_row(2) key [OF disjI2] inj])
    moreover have "?key ` set (concat (map ?g1 ?es)) \<inter> ?key ` set (concat (map ?g2 ?es)) = {}"
    proof (rule equals0I, elim IntE imageE)
      fix k x y
      assume x: "x \<in> set (concat (map ?g1 ?es))" and y: "y \<in> set (concat (map ?g2 ?es))" and k: "k = ?key x" "k = ?key y"
      from x obtain i where i: "x \<in> set (?g1 (0 + i, ti_changes info ! i))" by (rule indexed_row)
      from y obtain j where j: "y \<in> set (?g2 (0 + j, ti_changes info ! j))" by (rule indexed_row)
      have "i = j" using k key [OF disjI1, OF i] key [OF disjI2, OF j] by simp
      with i j fa_one_row(3) show False by (metis empty_iff empty_set)
    qed
    moreover have "fst (?key b) = ver t" if "b \<in> set (far_balances r)" for b
      using that fa_rows_version [of b L "ver t" timestamp _ objects'] by (auto simp: fab_pk_def 2(7))
    ultimately show ?thesis unfolding 2(7) map_append distinct_append set_map by (simp only: simp_thms) blast
  qed simp
  then show "distinct (map (\<lambda>b. fab_pk (fst b)) (far_balances r))"
    and "b \<in> set (far_balances r) \<Longrightarrow> fst (fab_pk (fst b)) = ver t" by auto
qed

lemma fa_event_activities_rows:
  assumes "fa_event_activities L v height timestamp fn m objects (i, e) = Inr xs"
  shows "length xs \<le> 1" and "a \<in> set xs \<Longrightarrow> faa_pk a = (v, int i)"
proof -
  obtain v1 v2 where "get_v1_from_event L e v height timestamp fn m (int i) = Inr v1"
    "get_v2_from_event L e v height timestamp (int i) fn objects = Inr v2" "xs = opt_list v1 @ opt_list v2"
    using assms by (auto simp: fa_event_activities_def)
  then show "length xs \<le> 1" and "a \<in> set xs \<Longrightarrow> faa_pk a = (v, int i)"
    by (cases v1; cases v2; auto simp: opt_list_def faa_pk_def dest: one_activity_per_event
        dest!: get_v1_from_event_pk get_v2_from_event_pk)+
qed

lemma fa_activity_keys_distinct:
  assumes "fa_from_transaction L t objects0 = Inr (r, objects')"
  shows "distinct (map faa_pk (far_activities r)) \<and> (\<forall>a \<in> set (far_activities r). fst (faa_pk a) = ver t)"
proof (cases "far_activities r = []")
  case False
  with assms obtain info timestamp maybe_request fn events m gas acts where
      gas: "fa_gas_activities L info maybe_request fn (ver t) timestamp (as_i64 (txn_block_height t)) events = Inr gas"
    and acts: "map_result (fa_event_activities L (ver t) (as_i64 (txn_block_height t)) timestamp fn m objects')
      (enumerate 0 events) = Inr acts"
    and r: "far_activities r = gas @ concat acts"
    by (auto simp: fa_from_transaction_def ver_def no_fa_rows_def Let_def split: option.splits prod.splits)
  define g where "g ie = (case fa_event_activities L (ver t) (as_i64 (txn_block_height t)) timestamp fn m objects' ie of
      Inr xs \<Rightarrow> xs | Inl _ \<Rightarrow> [])" for ie
  have g_key: "faa_pk a = (ver t, int i)" if "a \<in> set (g (i, e))" for a i e
    using that fa_event_activities_rows(2) by (cases "fa_event_activities L (ver t) (as_i64 (txn_block_height t)) timestamp fn m objects' (i, e)")
      (auto simp: g_def)
  have g_one: "length (g ie) \<le> 1" for ie
    using fa_event_activities_rows(1) by (cases "fa_event_activities L (ver t) (as_i64 (txn_block_height t)) timestamp fn m objects' ie"; cases ie)
      (auto simp: g_def)
  have "concat acts = concat (map g (enumerate 0 events))"
    using map_result_concat [OF acts, where h = "\<lambda>x. x" and g = g] by (simp add: g_def)
  then have r: "far_activities r = gas @ concat (map g (enumerate 0 events))" by (simp add: r)
  have gas_key: "faa_pk a = (ver t, - 1)" if "a \<in> set gas" for a
    using that gas by (auto simp: fa_gas_activities_def faa_pk_def dest!: fa_get_gas_event_pk split: option.splits)
  have "length gas \<le> 1" using gas by (auto simp: fa_gas_activities_def split: option.splits)
  then have "distinct (map faa_pk gas)" by (cases gas) auto
  moreover have "distinct (map faa_pk (concat (map g (enumerate 0 events))))"
    by (rule indexed_rows_distinct [where enc = "\<lambda>i. (ver t, int i)", OF g_one g_key]) (auto intro: injI)
  moreover have key: "\<exists>i. faa_pk a = (ver t, int i)" if "a \<in> set (concat (map g (enumerate 0 events)))" for a
    using that by (rule indexed_row) (auto dest: g_key)
  moreover have "faa_pk ` set gas \<inter> faa_pk ` set (concat (map g (enumerate 0 events))) = {}"
    by (rule equals0I, elim IntE imageE) (use key gas_key in fastforce)
  ultimately show ?thesis unfolding r map_append distinct_append set_map set_append using gas_key by fastforce
qed simp

section \<open>The rows of a batch\<close>

lemma fa_batch:
  assumes "parse_v2_coin L ts = Inr rows"
  obtains all objects where
    "fold_result (\<lambda>txn (all, objects). and_then (fa_from_transaction L txn objects)
       (\<lambda>(r, objects). Inr (fa_append all r, objects))) ts (no_fa_rows, []) = Inr (all, objects)"
    and "fin_activities rows = far_activities all" and "fin_balances rows = map fst (far_balances all)"
    and "fin_current rows = sort_key cfab_storage_id (map snd (collect_by cfab_storage_id (map snd (far_balances all)) []))"
    and "fin_metadata rows = sort_key famm_asset_type (map snd (collect_by famm_asset_type (far_metadata all) []))"
  using assms that by (auto simp: parse_v2_coin_def)

text \<open>
  C10: in a batch of transactions with increasing versions every activity and every balance has a key of its
  own, so that none of them is dropped by \<open>ON CONFLICT DO NOTHING\<close>, and metadata and current balances have
  one row per asset and per store.
\<close>

theorem fa_rows_have_own_keys:
  assumes "parse_v2_coin L ts = Inr rows" and "version_ordered ts"
  shows "distinct (map faa_pk (fin_activities rows)) \<and> distinct (map fab_pk (fin_balances rows)) \<and>
    distinct (map famm_asset_type (fin_metadata rows)) \<and> distinct (map cfab_storage_id (fin_current rows))"
proof -
  obtain all objects where run: "fold_result (\<lambda>txn (all, objects). and_then (fa_from_transaction L txn objects)
       (\<lambda>(r, objects). Inr (fa_append all r, objects))) ts (no_fa_rows, []) = Inr (all, objects)"
    and rows: "fin_activities rows = far_activities all" "fin_balances rows = map fst (far_balances all)"
      "fin_current rows = sort_key cfab_storage_id (map snd (collect_by cfab_storage_id (map snd (far_balances all)) []))"
      "fin_metadata rows = sort_key famm_asset_type (map snd (collect_by famm_asset_type (far_metadata all) []))"
    by (rule fa_batch [OF assms(1)])
  have "distinct (map faa_pk (far_activities (fst (all, objects))))"
    by (rule fold_versioned_distinct [OF run assms(2), where version_of = fst])
      (use fa_activity_keys_distinct in \<open>fastforce simp: fa_append_def no_fa_rows_def\<close>)+
  moreover have "distinct (map (\<lambda>b. fab_pk (fst b)) (far_balances (fst (all, objects))))"
    by (rule fold_versioned_distinct [OF run assms(2), where version_of = fst])
      (use fa_balance_keys_distinct in \<open>fastforce simp: fa_append_def no_fa_rows_def\<close>)+
  ultimately show ?thesis
    by (simp add: rows collect_by_sorted(1) comp_def)
qed

section \<open>The current balances converge\<close>

definition fa_current_columns :: "string set" where
  "fa_current_columns = {''storage_id'', ''owner_address'', ''asset_type'', ''is_primary'', ''is_frozen'', ''amount'',
     ''last_transaction_version'', ''last_transaction_timestamp'', ''token_standard''}"

definition fa_writes :: "libs \<Rightarrow> transaction \<Rightarrow> current_fungible_asset_balance list" where
  "fa_writes L t = map snd (fa_balance_rows L t)"

lemma fa_batch_current:
  assumes "parse_v2_coin L ts = Inr rows" and "list_all (self_contained L) ts"
  shows "set (fin_current rows) = {c. latest_row (fa_writes L) cfab_storage_id ts (cfab_storage_id c) = Some c}"
proof -
  obtain all objects where run: "fold_result (\<lambda>txn (all, objects). and_then (fa_from_transaction L txn objects)
       (\<lambda>(r, objects). Inr (fa_append all r, objects))) ts (no_fa_rows, []) = Inr (all, objects)"
    and cur: "fin_current rows = sort_key cfab_storage_id (map snd (collect_by cfab_storage_id (map snd (far_balances all)) []))"
    by (rule fa_batch [OF assms(1)])
  have "map snd (far_balances (fst (all, objects))) =
      map snd (far_balances (fst (no_fa_rows, [] :: object_aggregated_data_mapping))) @ concat (map (fa_writes L) ts)"
    by (rule fold_result_appends [OF run, where h = "\<lambda>s. map snd (far_balances (fst s))"])
      (use assms(2) fa_balance_rows_self_contained in \<open>fastforce simp: fa_append_def fa_writes_def list_all_iff\<close>)
  then have "map snd (far_balances all) = concat (map (fa_writes L) ts)" by (simp add: no_fa_rows_def)
  then show ?thesis using collected_rows(1) [of cfab_storage_id "fa_writes L" ts] by (simp add: cur)
qed

interpretation fa_current: guarded_query
  "[''storage_id'']"
  "[''owner_address'', ''asset_type'', ''is_primary'', ''is_frozen'', ''amount'',
    ''last_transaction_timestamp'', ''last_transaction_version'', ''token_standard'', ''inserted_at'']"
  "WhereLe ''last_transaction_version''" fa_current_columns
  insert_current_fungible_asset_balances_query current_fungible_asset_balance_row "''current_fungible_asset_balances''"
proof
  show "full_row (WhereLe ''last_transaction_version'') fa_current_columns (current_fungible_asset_balance_row c)" for c
    by (auto simp: full_row_def fa_current_columns_def current_fungible_asset_balance_row_def has_version_def int_cell_def)
qed (auto simp: fa_current_columns_def insert_current_fungible_asset_balances_query_def)

lemma fa_current_arow:
  "fa_current.arow c = map_of (current_fungible_asset_balance_row c)"
  "fa_current.pkey (fa_current.arow c) = [SqlText (cfab_storage_id c)]"
  unfolding fa_current.arow_def
  by (subst restrict_row; simp add: current_fungible_asset_balance_row_def fa_current_columns_def)
    (simp add: current_fungible_asset_balance_row_def fa_current_columns_def row_key_def cell_def)

lemma fa_writes_version: "c \<in> set (fa_writes L t) \<Longrightarrow> cfab_last_transaction_version c = ver t"
  using fa_rows_version
  by (fastforce simp: fa_writes_def fa_balance_rows_def split: option.splits)

interpretation latest_fa_balances: latest_table
  "[''storage_id'']"
  "[''owner_address'', ''asset_type'', ''is_primary'', ''is_frozen'', ''amount'',
    ''last_transaction_timestamp'', ''last_transaction_version'', ''token_standard'', ''inserted_at'']"
  "''last_transaction_version''" fa_current_columns
  insert_current_fungible_asset_balances_query current_fungible_asset_balance_row "''current_fungible_asset_balances''"
  "fa_writes L" cfab_storage_id "only_good (self_contained L) (run_batch (fa_process_transactions L sds durations))"
  "sd_current_fungible_asset_balance sds"
  for L sds durations
proof
  show "int_of (map_of (current_fungible_asset_balance_row c)) ''last_transaction_version'' = ver t"
    if "c \<in> set (fa_writes L t)" for c t
    using fa_writes_version [OF that] by (simp add: current_fungible_asset_balance_row_def int_of_def)
next
  fix env sizes txns d d' X g
  assume run: "only_good (self_contained L) (run_batch (fa_process_transactions L sds durations)) (env, sizes, txns) d = (Inr (), d')"
    and env: "server_ok g env insert_current_fungible_asset_balances_query X" "clean_stable (sd_current_fungible_asset_balance sds) X"
    and sub: "{c. latest_row (fa_writes L) cfab_storage_id txns (cfab_storage_id c) = Some c} \<subseteq> X"
    and ok: "table_ok [''storage_id''] (WhereLe ''last_transaction_version'') fa_current_columns
      (d ''current_fungible_asset_balances'')"
  obtain rows where rows: "parse_v2_coin L txns = Inr rows" and ins: "fa_insert_to_db sds sizes env rows d = (Inr (), d')"
    and good: "list_all (self_contained L) txns"
    using run unfolding only_good_ok fa_process_transactions_def by (auto elim: run_batch_ok)
  have pg: "postgres (pg_exec env)" using env(1) by (simp add: server_ok_def)
  note cur = fa_batch_current [OF rows good]
  show "fa_current.ingested g {c. latest_row (fa_writes L) cfab_storage_id txns (cfab_storage_id c) = Some c}
    (d ''current_fungible_asset_balances'') (d' ''current_fungible_asset_balances'')"
    unfolding cur [symmetric]
    by (rule fa_current.join_ingests [OF ins [unfolded fa_insert_to_db_def Let_def], where i = 3, OF _ _ _ env])
      (use sub ok cur pg in \<open>simp_all add: execute_in_chunks_untouched fa_query_defs\<close>)
qed

text \<open>
  C9: what the table of current balances of coins and fungible assets holds. Take a history of self-contained
  transactions with increasing versions, cut into batches in any way, processed in any order and any number of times,
  starting from an empty table; the rows of the history are left as they are by the removal of null bytes. Then a store
  has a row exactly when the history gives it a balance, and the row is one of those; if no statement loses its version
  guard, that is if the debug text of no query over these rows contains \<open>where\<close>, it is the last one.
\<close>

theorem current_fungible_asset_balances_converge:
  assumes "insert_batches (run_batch (fa_process_transactions L sds durations)) runs d = Inr d'"
    and "d ''current_fungible_asset_balances'' = Map.empty" and "version_ordered H" and "set H = run_txns runs"
    and "servers_ok runs" and "clean_stable (sd_current_fungible_asset_balance sds) (written (fa_writes L) H)"
    and "list_all (self_contained L) H"
  shows "stored_from (\<lambda>c. map_of (current_fungible_asset_balance_row c))
      {c \<in> written (fa_writes L) H. [SqlText (cfab_storage_id c)] = K}
      (view fa_current_columns (d' ''current_fungible_asset_balances'') K) \<and>
    (guards_kept runs insert_current_fungible_asset_balances_query (written (fa_writes L) H) \<longrightarrow>
      (view fa_current_columns (d' ''current_fungible_asset_balances'') K = Some r \<longleftrightarrow>
        (\<exists>c. latest_row (fa_writes L) cfab_storage_id H (cfab_storage_id c) = Some c \<and>
          [SqlText (cfab_storage_id c)] = K \<and> map_of (current_fungible_asset_balance_row c) = r)))"
proof -
  have good: "\<forall>(env, sizes, txns) \<in> set runs. list_all (self_contained L) txns"
    using assms(4,7) by (fastforce simp: list_all_iff run_txns_def)
  have run: "insert_batches (only_good (self_contained L) (run_batch (fa_process_transactions L sds durations))) runs d = Inr d'"
    using assms(1) by (simp add: insert_batches_only_good [OF good])
  have keys: "\<forall>a \<in> written (fa_writes L) H. \<forall>b \<in> written (fa_writes L) H.
    fa_current.pkey (fa_current.arow a) = fa_current.pkey (fa_current.arow b) \<longleftrightarrow> cfab_storage_id a = cfab_storage_id b"
    by (simp add: fa_current_arow(2))
  show ?thesis
    using latest_fa_balances.latest_content [OF run assms(2-6) keys]
    unfolding fa_current_arow(2) unfolding fa_current_arow(1) [abs_def] by blast
qed

section \<open>Runs\<close>

text \<open>A transaction that writes a coin store.\<close>

definition fa_txn :: "u64 \<Rightarrow> transaction" where
  "fa_txn v = (sample_user_txn v)\<lparr>txn_info := map_option (\<lambda>i. i\<lparr>ti_changes := [coin_store_change_pb]\<rparr>)
     (txn_info (sample_user_txn v)), txn_txn_data := Some (Genesis \<lparr>gen_payload = None, gen_events = []\<rparr>)\<rparr>"

definition sample_fa_balance :: "i64 \<Rightarrow> current_fungible_asset_balance" where
  "sample_fa_balance v =
     \<lparr>cfab_storage_id = get_storage_id coin_libs aptos_coin_type_str (standardize_address ''0xa''),
      cfab_owner_address = standardize_address ''0xa'', cfab_asset_type = aptos_coin_type_str, cfab_is_primary = True,
      cfab_is_frozen = False, cfab_amount = 5, cfab_last_transaction_version = v,
      cfab_last_transaction_timestamp = (0, 0), cfab_token_standard = ''v1''\<rparr>"

lemma fa_sample_change:
  obtains wr where "wsc_change coin_store_change_pb = Some (WriteResource wr)"
    and "object_from_write_resource coin_libs wr v = Inr None" and "fa_resource_of coin_libs wr v = Inr None"
    and "famm_get_v1_from_write_resource coin_libs wr v (0, 0) = Inr None"
    and "\<exists>b m. get_v1_from_write_resource coin_libs wr i v (0, 0) = Inr (Some (b, sample_fa_balance v, m))"
proof -
  obtain wr where wr: "wsc_change coin_store_change_pb = Some (WriteResource wr)"
      "wr_type wr = Some (MoveStructTagPB ''0x1'' ''coin'' ''CoinStore''
        [MoveType (Some (ContentStruct (MoveStructTagPB ''0x1'' ''aptos_coin'' ''AptosCoin'' [])))])"
      "wr_address wr = ''0xa''" "wr_data wr = ''store''"
    by (simp add: coin_store_change_pb_def)
  note ty = sample_types [OF wr(2)]
  have other: "\<not> v2_token_is_resource_supported (coin_addr @ ''::coin::CoinStore'')"
    "\<not> fa_is_resource_supported (coin_addr @ ''::coin::CoinStore'')" by code_simp+
  have store: "coin_from_write_resource coin_libs wr v = Inr (Some (CoinStoreResource
      \<lparr>csr_coin = 5, csr_deposit_events = \<lparr>egr_addr = ''0xa'', egr_creation_num = 2\<rparr>,
       csr_withdraw_events = \<lparr>egr_addr = ''0xa'', egr_creation_num = 3\<rparr>, csr_frozen = False\<rparr>))"
    by (simp add: ty(3) [of sample_store] wr coin_libs_sel from_resource_def sample_store_read parse_or_err_def)
  have "\<exists>b m. get_v1_from_write_resource coin_libs wr i v (0, 0) = Inr (Some (b, sample_fa_balance v, m))"
    by (simp add: get_v1_from_write_resource_def store ty(2) get_coin_type_below_max_def coin_type_max_def
        sample_fa_balance_def wr(3) aptos_coin_type_str_def Let_def)
  with store other show ?thesis
    by (intro that [OF wr(1)])
      (simp_all add: object_from_write_resource_def fa_resource_of_def ty(1) famm_get_v1_from_write_resource_def)
qed

lemma fa_txn_runs:
  "self_contained coin_libs (fa_txn v)" "fa_writes coin_libs (fa_txn v) = [sample_fa_balance (as_i64 v)]"
  "\<exists>rows. parse_v2_coin coin_libs [fa_txn v] = Inr rows \<and> length (fin_metadata rows) \<le> 1 \<and> length (fin_current rows) \<le> 1"
proof -
  obtain wr where wr: "wsc_change coin_store_change_pb = Some (WriteResource wr)"
      "object_from_write_resource coin_libs wr (as_i64 v) = Inr None" "fa_resource_of coin_libs wr (as_i64 v) = Inr None"
      "famm_get_v1_from_write_resource coin_libs wr (as_i64 v) (0, 0) = Inr None"
      "\<exists>b m. get_v1_from_write_resource coin_libs wr 0 (as_i64 v) (0, 0) = Inr (Some (b, sample_fa_balance (as_i64 v), m))"
    by (rule fa_sample_change [of "as_i64 v" 0]) blast
  then obtain b m where v1: "get_v1_from_write_resource coin_libs wr 0 (as_i64 v) (0, 0) = Inr (Some (b, sample_fa_balance (as_i64 v), m))"
    by blast
  have fa: "fa_store_from_write_resource coin_libs wr (as_i64 v) = Inr None"
    "fa_metadata_from_write_resource coin_libs wr (as_i64 v) = Inr None"
    "fa_supply_from_write_resource coin_libs wr (as_i64 v) = Inr None"
    by (simp_all add: fa_store_from_write_resource_def fa_metadata_from_write_resource_def
        fa_supply_from_write_resource_def wr(3))
  have txn: "txn_info (fa_txn v) = Some ((the (txn_info (sample_user_txn v)))\<lparr>ti_changes := [coin_store_change_pb]\<rparr>)"
    "txn_txn_data (fa_txn v) = Some (Genesis \<lparr>gen_payload = None, gen_events = []\<rparr>)"
    "txn_timestamp (fa_txn v) = Some \<lparr>ts_seconds = 0, ts_nanos = 0\<rparr>" "txn_version (fa_txn v) = v"
    by (simp_all add: fa_txn_def sample_user_txn_def)
  show good: "self_contained coin_libs (fa_txn v)"
    by (simp add: self_contained_def txn stores_have_core_def wr(1) fa ver_def)
  show "fa_writes coin_libs (fa_txn v) = [sample_fa_balance (as_i64 v)]"
    by (simp add: fa_writes_def fa_balance_rows_def txn ver_def coin_libs_sel fa_v1_rows_def fa_v2_rows_def wr(1) v1
        get_v2_from_write_resource_def fa opt_list_def)
  show "\<exists>rows. parse_v2_coin coin_libs [fa_txn v] = Inr rows \<and> length (fin_metadata rows) \<le> 1 \<and> length (fin_current rows) \<le> 1"
    by (simp add: parse_v2_coin_def fa_from_transaction_def txn coin_libs_sel fa_events_of_def add_object_core_def wr
        fa_add_v1_def v1 fa_fill_object_def fa_gas_activities_def fa_v2_change_def famm_get_v2_from_write_resource_def fa
        get_v2_from_write_resource_def opt_list_def fa_append_def no_fa_rows_def collect_by_def Let_def)
qed

definition sample_fa_serdes :: fa_serdes where
  "sample_fa_serdes =
     \<lparr>sd_fungible_asset_activity = \<lparr>to_value = (\<lambda>_. JNull), from_value = (\<lambda>_. None)\<rparr>,
      sd_fungible_asset_metadata = \<lparr>to_value = (\<lambda>_. JNull), from_value = (\<lambda>_. None)\<rparr>,
      sd_fungible_asset_balance = \<lparr>to_value = (\<lambda>_. JNull), from_value = (\<lambda>_. None)\<rparr>,
      sd_current_fungible_asset_balance = \<lparr>to_value = (\<lambda>c. JInt (cfab_last_transaction_version c)),
        from_value = (\<lambda>j. case j of JInt v \<Rightarrow> Some (sample_fa_balance v) | _ \<Rightarrow> None)\<rparr>\<rparr>"

lemma fa_txn_batch:
  "\<exists>d'. run_batch (fa_process_transactions coin_libs sds durations) (sample_pg, [], [fa_txn v]) d = (Inr (), d')"
proof -
  obtain rows where rows: "parse_v2_coin coin_libs [fa_txn v] = Inr rows" "length (fin_metadata rows) \<le> 1"
      "length (fin_current rows) \<le> 1" using fa_txn_runs(3) by blast
  have "\<exists>d'. fa_insert_to_db sds [] sample_pg rows d = (Inr (), d')"
    unfolding fa_insert_to_db_def Let_def
    by (rule join_inserts_succeeds, unfold list.set ball_simps, intro conjI allI TrueI)
      (rule reference_single reference_do_nothing;
        simp add: default_chunk_size fa_query_defs rows(2,3) del: One_nat_def)+
  with rows(1) show ?thesis unfolding fa_process_transactions_def by (intro run_batch_succeeds) auto
qed

theorem fa_rows_have_own_keys_witness:
  "\<exists>rows. parse_v2_coin coin_libs [fa_txn 7] = Inr rows \<and> distinct (map fab_pk (fin_balances rows))"
proof -
  obtain rows where rows: "parse_v2_coin coin_libs [fa_txn 7] = Inr rows" using fa_txn_runs(3) by blast
  with fa_rows_have_own_keys [OF rows] show ?thesis by (simp add: version_ordered_def)
qed

text \<open>The later transaction is processed first, the earlier one next, and the later one again.\<close>

theorem current_fungible_asset_balances_converge_witness:
  "\<exists>d'. insert_batches (run_batch (fa_process_transactions coin_libs sample_fa_serdes (0, 0)))
      [(sample_pg, [], [fa_txn 8]), (sample_pg, [], [fa_txn 7]), (sample_pg, [], [fa_txn 8])] (\<lambda>_. Map.empty) = Inr d' \<and>
    view fa_current_columns (d' ''current_fungible_asset_balances'') [SqlText (cfab_storage_id (sample_fa_balance 8))] =
      Some (map_of (current_fungible_asset_balance_row (sample_fa_balance 8)))"
proof -
  let ?batch = "run_batch (fa_process_transactions coin_libs sample_fa_serdes (0, 0))"
  let ?runs = "[(sample_pg, [], [fa_txn 8]), (sample_pg, [], [fa_txn 7]), (sample_pg, [], [fa_txn 8])]"
  let ?H = "[fa_txn 7, fa_txn 8]"
  have vers: "ver (fa_txn 7) = 7" "ver (fa_txn 8) = 8" by (simp_all add: ver_def fa_txn_def sample_user_txn_def as_i64_small)
  obtain d' where run: "insert_batches ?batch ?runs (\<lambda>_. Map.empty) = Inr d'"
    using insert_batches_total [of ?runs ?batch "\<lambda>_. Map.empty"] fa_txn_batch by (auto simp del: insert_batches.simps)
  have clean: "clean_stable (sd_current_fungible_asset_balance sample_fa_serdes) (written (fa_writes coin_libs) ?H)"
    by (auto simp: clean_stable_def written_def fa_txn_runs(2) remove_null_bytes_def sample_fa_serdes_def sample_fa_balance_def)
  have "latest_row (fa_writes coin_libs) cfab_storage_id ?H (cfab_storage_id (sample_fa_balance 8)) = Some (sample_fa_balance 8)"
    by (simp add: latest_row_def fa_txn_runs(2) last_by_def as_i64_small)
  moreover have "view fa_current_columns (d' ''current_fungible_asset_balances'') K = Some r \<longleftrightarrow>
      (\<exists>c. latest_row (fa_writes coin_libs) cfab_storage_id ?H (cfab_storage_id c) = Some c \<and>
        [SqlText (cfab_storage_id c)] = K \<and> map_of (current_fungible_asset_balance_row c) = r)" for K r
    by (rule current_fungible_asset_balances_converge [OF run _ _ _ _ clean, THEN conjunct2, THEN mp])
      (auto simp: version_ordered_def vers servers_ok_def guards_kept_def sample_pg_ok run_txns_def fa_txn_runs(1))
  ultimately show ?thesis using run by blast
qed

end
