(* ===== verification/Transaction_Metadata.thy ===== *)
theory Transaction_Metadata
  imports Convergence Default_Models
begin

text \<open>
  \<open>models/transaction_metadata_model\<close> and \<open>processors/transaction_metadata_processor.rs\<close>: the sizes of
  transactions, of their events and of their write operations. The three tables are written one after
  the other; a failure leaves the tables before it written.
\<close>

section \<open>Rows and queries\<close>

record transaction_size =
  tsz_transaction_version :: i64
  tsz_size_bytes :: i64

record event_size =
  esz_transaction_version :: i64
  esz_index :: i64
  esz_type_tag_bytes :: i64
  esz_total_bytes :: i64

record write_set_size =
  wsz_transaction_version :: i64
  wsz_index :: i64
  wsz_key_bytes :: i64
  wsz_value_bytes :: i64

definition size_from_transaction_info :: "transaction_size_info \<Rightarrow> i64 \<Rightarrow> transaction_size" where
  "size_from_transaction_info info version =
     \<lparr>tsz_transaction_version = version, tsz_size_bytes = uint (tsi_transaction_bytes info)\<rparr>"

definition from_event_size_info :: "event_size_info \<Rightarrow> i64 \<Rightarrow> i64 \<Rightarrow> event_size" where
  "from_event_size_info info version index =
     \<lparr>esz_transaction_version = version, esz_index = index, esz_type_tag_bytes = uint (esi_type_tag_bytes info),
      esz_total_bytes = uint (esi_total_bytes info)\<rparr>"

definition write_set_size_from_info :: "write_op_size_info \<Rightarrow> i64 \<Rightarrow> i64 \<Rightarrow> write_set_size" where
  "write_set_size_from_info info version index =
     \<lparr>wsz_transaction_version = version, wsz_index = index, wsz_key_bytes = uint (wsi_key_bytes info),
      wsz_value_bytes = uint (wsi_value_bytes info)\<rparr>"

definition transaction_size_row :: "transaction_size \<Rightarrow> sql_row" where
  "transaction_size_row s =
     [(''transaction_version'', SqlInt (tsz_transaction_version s)), (''size_bytes'', SqlInt (tsz_size_bytes s))]"

definition event_size_row :: "event_size \<Rightarrow> sql_row" where
  "event_size_row s =
     [(''transaction_version'', SqlInt (esz_transaction_version s)), (''index'', SqlInt (esz_index s)),
      (''type_tag_bytes'', SqlInt (esz_type_tag_bytes s)), (''total_bytes'', SqlInt (esz_total_bytes s))]"

definition write_set_size_row :: "write_set_size \<Rightarrow> sql_row" where
  "write_set_size_row s =
     [(''transaction_version'', SqlInt (wsz_transaction_version s)), (''index'', SqlInt (wsz_index s)),
      (''key_bytes'', SqlInt (wsz_key_bytes s)), (''value_bytes'', SqlInt (wsz_value_bytes s))]"

definition insert_transaction_sizes_query :: "transaction_size list \<Rightarrow> query" where
  "insert_transaction_sizes_query items =
     (\<lparr>iq_table = ''transaction_size_info'', iq_rows = map transaction_size_row items,
       iq_target = [''transaction_version''], iq_action = DoNothing\<rparr>, None)"

definition insert_event_sizes_query :: "event_size list \<Rightarrow> query" where
  "insert_event_sizes_query items =
     (\<lparr>iq_table = ''event_size_info'', iq_rows = map event_size_row items,
       iq_target = [''transaction_version'', ''index''], iq_action = DoNothing\<rparr>, None)"

definition insert_write_set_sizes_query :: "write_set_size list \<Rightarrow> query" where
  "insert_write_set_sizes_query items =
     (\<lparr>iq_table = ''write_set_size_info'', iq_rows = map write_set_size_row items,
       iq_target = [''transaction_version'', ''index''], iq_action = DoNothing\<rparr>, None)"

section \<open>Processing a batch\<close>

record size_rows =
  szr_transactions :: "transaction_size list"
  szr_events :: "event_size list"
  szr_write_sets :: "write_set_size list"

definition add_sizes :: "transaction \<Rightarrow> size_rows \<Rightarrow> size_rows" where
  "add_sizes txn rows =
     (let version = as_i64 (txn_version txn) in
      case txn_size_info txn of
        None \<Rightarrow> rows
      | Some info \<Rightarrow>
          \<lparr>szr_transactions = szr_transactions rows @ [size_from_transaction_info info version],
           szr_events = szr_events rows @
             map (\<lambda>(index, e). from_event_size_info e version (int index)) (enumerate 0 (tsi_event_size_info info)),
           szr_write_sets = szr_write_sets rows @
             map (\<lambda>(index, w). write_set_size_from_info w version (int index)) (enumerate 0 (tsi_write_op_size_info info))\<rparr>)"

definition size_rows_of :: "transaction list \<Rightarrow> failure + size_rows" where
  "size_rows_of transactions =
     Inr (fold add_sizes transactions \<lparr>szr_transactions = [], szr_events = [], szr_write_sets = []\<rparr>)"

record size_serdes =
  sd_transaction_size :: "transaction_size serde"
  sd_event_size :: "event_size serde"
  sd_write_set_size :: "write_set_size serde"

definition sizes_insert_to_db :: "size_serdes \<Rightarrow> (string \<times> nat) list \<Rightarrow> pg_env \<Rightarrow> size_rows \<Rightarrow> db_op" where
  "sizes_insert_to_db sds per_table_chunk_sizes env rows =
     seq_inserts
       [execute_in_chunks env insert_transaction_sizes_query (sd_transaction_size sds) (szr_transactions rows)
          (get_config_table_chunk_size 2 ''transaction_size_info'' per_table_chunk_sizes),
        execute_in_chunks env insert_event_sizes_query (sd_event_size sds) (szr_events rows)
          (get_config_table_chunk_size 4 ''event_size_info'' per_table_chunk_sizes),
        execute_in_chunks env insert_write_set_sizes_query (sd_write_set_size sds) (szr_write_sets rows)
          (get_config_table_chunk_size 4 ''write_set_size_info'' per_table_chunk_sizes)]"

text \<open>
  \<open>transactions.last().unwrap()\<close> is evaluated after the inserts here; it panics on an empty batch, for
  which there is nothing to insert, so the result is that of the other processors.
\<close>

definition sizes_process_transactions ::
  "size_serdes \<Rightarrow> rat \<times> rat \<Rightarrow> (string \<times> nat) list \<Rightarrow> process_fn" where
  "sizes_process_transactions sds durations per_table_chunk_sizes =
     process_batch size_rows_of (sizes_insert_to_db sds per_table_chunk_sizes) durations"

lemmas size_query_defs = insert_transaction_sizes_query_def insert_event_sizes_query_def insert_write_set_sizes_query_def

interpretation sizes_processor: batch_processor size_rows_of "sizes_insert_to_db sds sizes" durations
  for sds sizes durations
proof
  fix env :: pg_env and rows
  assume "postgres (pg_exec env)"
  then show "untouched ''processor_status'' (sizes_insert_to_db sds sizes env rows)"
    unfolding sizes_insert_to_db_def
    by (intro seq_inserts_untouched) (auto intro!: execute_in_chunks_untouched simp: size_query_defs)
qed

section \<open>The table of event sizes\<close>

definition event_sizes :: "transaction \<Rightarrow> event_size set" where
  "event_sizes t =
     (case txn_size_info t of
        None \<Rightarrow> {}
      | Some info \<Rightarrow> {from_event_size_info e (ver t) (int i) | i e. (i, e) \<in> set (enumerate 0 (tsi_event_size_info info))})"

lemma add_sizes_events:
  "set (szr_events (fold add_sizes ts rows)) = set (szr_events rows) \<union> (\<Union>t \<in> set ts. event_sizes t)"
proof (induction ts arbitrary: rows)
  case (Cons t ts)
  have "set (szr_events (add_sizes t rows)) = set (szr_events rows) \<union> event_sizes t"
    by (force simp: add_sizes_def event_sizes_def ver_def image_iff Let_def split: option.split)
  with Cons [of "add_sizes t rows"] show ?case by auto
qed simp

definition event_size_key :: "event_size \<Rightarrow> sql_value list" where
  "event_size_key s = [SqlInt (esz_transaction_version s), SqlInt (esz_index s)]"

interpretation event_size_keys: keyed_insert insert_event_sizes_query event_size_key "''event_size_info''"
  by unfold_locales
    (simp_all add: insert_event_sizes_query_def event_size_key_def proposed_keys_def event_size_row_def row_key_def cell_def)

interpretation event_size_table: append_table insert_event_sizes_query event_size_key "''event_size_info''"
  event_sizes "run_batch (sizes_process_transactions sds durations)" "sd_event_size sds"
  for sds durations
proof
  fix env sizes txns d d'
  assume run: "run_batch (sizes_process_transactions sds durations) (env, sizes, txns) d = (Inr (), d')"
    and env: "postgres (pg_exec env)" "fair_sched env"
    and keeps: "keeps_key (sd_event_size sds) event_size_key (\<Union>t \<in> set txns. event_sizes t)"
  obtain rows where rows: "size_rows_of txns = Inr rows" and ins: "sizes_insert_to_db sds sizes env rows d = (Inr (), d')"
    using run unfolding sizes_process_transactions_def by (auto elim: run_batch_ok)
  have set: "set (szr_events rows) = (\<Union>t \<in> set txns. event_sizes t)"
    using rows add_sizes_events by (auto simp: size_rows_of_def)
  let ?op = "\<lambda>build sd items k name. execute_in_chunks env build sd items (get_config_table_chunk_size k name sizes)"
  have "seq_inserts ([?op insert_transaction_sizes_query (sd_transaction_size sds) (szr_transactions rows) 2 ''transaction_size_info''] @
      ?op insert_event_sizes_query (sd_event_size sds) (szr_events rows) 4 ''event_size_info'' #
      [?op insert_write_set_sizes_query (sd_write_set_size sds) (szr_write_sets rows) 4 ''write_set_size_info'']) d = (Inr (), d')"
    using ins by (simp add: sizes_insert_to_db_def)
  then obtain d1 d2 where op: "?op insert_event_sizes_query (sd_event_size sds) (szr_events rows) 4 ''event_size_info'' d1 = (Inr (), d2)"
    and eq: "d1 ''event_size_info'' = d ''event_size_info''" "d' ''event_size_info'' = d2 ''event_size_info''"
    by (rule seq_inserts_at [where t = "''event_size_info''"]) (use env(1) in \<open>auto intro!: execute_in_chunks_untouched simp: size_query_defs\<close>)
  from event_size_keys.execute_in_chunks_dom [OF env _ op] keeps eq
  show "dom (d' ''event_size_info'') = dom (d ''event_size_info'') \<union> event_size_key ` (\<Union>t \<in> set txns. event_sizes t)"
    by (simp add: set)
qed

text \<open>
  Starting with an empty table, after any batches in any order the table of event sizes has exactly one
  row for every position of an event of every processed transaction that carries size information.
\<close>

lemma event_sizes_complete:
  assumes "insert_batches (run_batch (sizes_process_transactions sds durations)) runs d = Inr d'"
    and "d ''event_size_info'' = Map.empty"
    and "\<forall>(env, sizes, txns) \<in> set runs. postgres (pg_exec env) \<and> fair_sched env"
    and "keeps_key (sd_event_size sds) event_size_key (\<Union>t \<in> run_txns runs. event_sizes t)"
  shows "dom (d' ''event_size_info'') =
      {[SqlInt (ver t), SqlInt (int i)] | t i info. t \<in> run_txns runs \<and> txn_size_info t = Some info \<and>
        i < length (tsi_event_size_info info)}"
proof -
  have one: "event_size_key ` event_sizes t =
      {[SqlInt (ver t), SqlInt (int i)] | i info. txn_size_info t = Some info \<and> i < length (tsi_event_size_info info)}" for t
  proof (cases "txn_size_info t")
    case (Some info)
    have "event_size_key ` event_sizes t = (\<lambda>ie. [SqlInt (ver t), SqlInt (int (fst ie))]) ` set (enumerate 0 (tsi_event_size_info info))"
      by (force simp: event_sizes_def Some event_size_key_def from_event_size_info_def image_iff)
    also have "\<dots> = (\<lambda>i. [SqlInt (ver t), SqlInt (int i)]) ` set (map fst (enumerate 0 (tsi_event_size_info info)))"
      by (simp only: set_map image_image)
    finally show ?thesis by (auto simp: Some)
  qed (simp add: event_sizes_def)
  show ?thesis
    using event_size_table.table_accumulates [OF assms(1,3,4)] assms(2) unfolding image_UN one by auto
qed

end
