(* ===== verification/Ans_Models.thy ===== *)
theory Ans_Models
  imports Object_Utils Processor
begin

text \<open>
  \<open>models/ans_models\<close>: the names of the Aptos Name Service. Version 1 keeps the name records and the
  primary names in two tables; version 2 keeps a name record as a resource of the name's own account
  and reports the primary names as events. Every row of version 1 is copied to the tables of version 2.
\<close>

section \<open>Records, resources and events (\<open>ans_utils.rs\<close>)\<close>

definition domain_length :: nat where
  "domain_length = 64"

text \<open>\<open>OptionalString\<close> and \<open>OptionalBigDecimal\<close> have the single field \<open>vec\<close>.\<close>

definition get_string :: "string list \<Rightarrow> string option" where
  "get_string v = (if v = [] then None else Some (v ! 0))"

definition get_big_decimal :: "rat list \<Rightarrow> rat option" where
  "get_big_decimal v = first_of v"

definition read_optional_string :: "string list reader" where
  "read_optional_string = read_single ''vec'' (read_vec read_string)"

definition read_optional_bigdecimal :: "libs \<Rightarrow> rat list reader" where
  "read_optional_bigdecimal L = read_single ''vec'' (read_vec (read_bigdecimal L))"

definition trunc_or_default :: "string list \<Rightarrow> failure + string" where
  "trunc_or_default v = truncate_str (case get_string v of Some s \<Rightarrow> s | None \<Rightarrow> []) domain_length"

definition get_token_name :: "string \<Rightarrow> string \<Rightarrow> failure + string" where
  "get_token_name domain_name subdomain_name =
     and_then (truncate_str domain_name domain_length) (\<lambda>domain.
     and_then (truncate_str subdomain_name domain_length) (\<lambda>subdomain.
     let token_name = domain @ ''.apt'' in
     Inr (if subdomain \<noteq> [] then subdomain @ ''.'' @ token_name else token_name)))"

record name_record_key_v1 =
  nrk_domain_name :: string
  nrk_subdomain_name :: "string list"

record name_record_v1 =
  nr1_expiration_time_sec :: rat
  nr1_property_version :: rat
  nr1_target_address :: "string list"

datatype ans_table_item = NameRecordKeyV1 name_record_key_v1 | NameRecordV1 name_record_v1

record name_record_v2 =
  nr2_domain_name :: string
  nr2_expiration_time_sec :: rat
  nr2_target_address :: "string list"

record subdomain_ext_v2 =
  sdx_subdomain_expiration_policy :: i64
  sdx_subdomain_name :: string

datatype ans_write_resource = NameRecordV2 name_record_v2 | SubdomainExtV2 subdomain_ext_v2

record renew_name_event =
  rne_domain_name :: string
  rne_expiration_time_secs :: rat
  rne_is_primary_name :: bool
  rne_subdomain_name :: "string list"
  rne_target_address :: "string list"

record set_reverse_lookup_event =
  srl_account_addr :: string
  srl_curr_domain_name :: "string list"
  srl_curr_expiration_time_secs :: "rat list"
  srl_curr_subdomain_name :: "string list"
  srl_prev_domain_name :: "string list"
  srl_prev_expiration_time_secs :: "rat list"
  srl_prev_subdomain_name :: "string list"

datatype v2_ans_event = SetReverseLookupEvent set_reverse_lookup_event | RenewNameEvent renew_name_event

subsection \<open>Readers\<close>

definition read_name_record_key_v1 :: "name_record_key_v1 reader" where
  "read_name_record_key_v1 j =
     (let names = [''domain_name'', ''subdomain_name''] in
      Option.bind (field names ''domain_name'' read_string j) (\<lambda>domain.
      Option.bind (field names ''subdomain_name'' read_optional_string j) (\<lambda>subdomain.
      Some \<lparr>nrk_domain_name = domain, nrk_subdomain_name = subdomain\<rparr>)))"

definition read_name_record_v1 :: "libs \<Rightarrow> name_record_v1 reader" where
  "read_name_record_v1 L j =
     (let names = [''expiration_time_sec'', ''property_version'', ''target_address''] in
      Option.bind (field names ''expiration_time_sec'' (read_bigdecimal L) j) (\<lambda>expiration.
      Option.bind (field names ''property_version'' (read_bigdecimal L) j) (\<lambda>property_version.
      Option.bind (field names ''target_address'' read_optional_string j) (\<lambda>target.
      Some \<lparr>nr1_expiration_time_sec = expiration, nr1_property_version = property_version,
            nr1_target_address = target\<rparr>))))"

definition read_name_record_v2 :: "libs \<Rightarrow> name_record_v2 reader" where
  "read_name_record_v2 L j =
     (let names = [''domain_name'', ''expiration_time_sec'', ''target_address''] in
      Option.bind (field names ''domain_name'' read_string j) (\<lambda>domain.
      Option.bind (field names ''expiration_time_sec'' (read_bigdecimal L) j) (\<lambda>expiration.
      Option.bind (field names ''target_address'' read_optional_string j) (\<lambda>target.
      Some \<lparr>nr2_domain_name = domain, nr2_expiration_time_sec = expiration, nr2_target_address = target\<rparr>))))"

definition read_subdomain_ext_v2 :: "subdomain_ext_v2 reader" where
  "read_subdomain_ext_v2 j =
     (let names = [''subdomain_expiration_policy'', ''subdomain_name''] in
      Option.bind (field names ''subdomain_expiration_policy'' (read_signed 64) j) (\<lambda>policy.
      Option.bind (field names ''subdomain_name'' read_string j) (\<lambda>subdomain.
      Some \<lparr>sdx_subdomain_expiration_policy = policy, sdx_subdomain_name = subdomain\<rparr>)))"

definition read_renew_name_event :: "libs \<Rightarrow> renew_name_event reader" where
  "read_renew_name_event L j =
     (let names = [''domain_name'', ''expiration_time_secs'', ''is_primary_name'', ''subdomain_name'', ''target_address''] in
      Option.bind (field names ''domain_name'' read_string j) (\<lambda>domain.
      Option.bind (field names ''expiration_time_secs'' (read_bigdecimal L) j) (\<lambda>expiration.
      Option.bind (field names ''is_primary_name'' read_bool j) (\<lambda>is_primary_name.
      Option.bind (field names ''subdomain_name'' read_optional_string j) (\<lambda>subdomain.
      Option.bind (field names ''target_address'' read_optional_string j) (\<lambda>target.
      Some \<lparr>rne_domain_name = domain, rne_expiration_time_secs = expiration, rne_is_primary_name = is_primary_name,
            rne_subdomain_name = subdomain, rne_target_address = target\<rparr>))))))"

definition read_set_reverse_lookup_event :: "libs \<Rightarrow> set_reverse_lookup_event reader" where
  "read_set_reverse_lookup_event L j =
     (let names = [''account_addr'', ''curr_domain_name'', ''curr_expiration_time_secs'', ''curr_subdomain_name'',
                   ''prev_domain_name'', ''prev_expiration_time_secs'', ''prev_subdomain_name''] in
      Option.bind (field names ''account_addr'' read_string j) (\<lambda>account_addr.
      Option.bind (field names ''curr_domain_name'' read_optional_string j) (\<lambda>curr_domain.
      Option.bind (field names ''curr_expiration_time_secs'' (read_optional_bigdecimal L) j) (\<lambda>curr_expiration.
      Option.bind (field names ''curr_subdomain_name'' read_optional_string j) (\<lambda>curr_subdomain.
      Option.bind (field names ''prev_domain_name'' read_optional_string j) (\<lambda>prev_domain.
      Option.bind (field names ''prev_expiration_time_secs'' (read_optional_bigdecimal L) j) (\<lambda>prev_expiration.
      Option.bind (field names ''prev_subdomain_name'' read_optional_string j) (\<lambda>prev_subdomain.
      Some \<lparr>srl_account_addr = account_addr, srl_curr_domain_name = curr_domain,
            srl_curr_expiration_time_secs = curr_expiration, srl_curr_subdomain_name = curr_subdomain,
            srl_prev_domain_name = prev_domain, srl_prev_expiration_time_secs = prev_expiration,
            srl_prev_subdomain_name = prev_subdomain\<rparr>))))))))"

definition from_table_item :: "libs \<Rightarrow> string \<Rightarrow> string \<Rightarrow> failure + ans_table_item option" where
  "from_table_item L data_type_name data =
     (if data_type_name = ''NameRecordKeyV1'' then from_json_str L read_name_record_key_v1 NameRecordKeyV1 data
      else if data_type_name = ''NameRecordV1'' then from_json_str L (read_name_record_v1 L) NameRecordV1 data
      else Inr None)"

definition ans_from_write_resource :: "libs \<Rightarrow> write_resource \<Rightarrow> string \<Rightarrow> failure + ans_write_resource option" where
  "ans_from_write_resource L wr ans_v2_contract_address =
     and_then (get_outer_type_from_resource L wr) (\<lambda>type_str.
     if type_str = ans_v2_contract_address @ ''::v2_1_domains::NameRecord''
     then from_json_str L (read_name_record_v2 L) NameRecordV2 (wr_data wr)
     else if type_str = ans_v2_contract_address @ ''::v2_1_domains::SubdomainExt''
     then from_json_str L read_subdomain_ext_v2 SubdomainExtV2 (wr_data wr)
     else Inr None)"

definition name_record_v2_from_write_resource ::
  "libs \<Rightarrow> write_resource \<Rightarrow> string \<Rightarrow> failure + name_record_v2 option" where
  "name_record_v2_from_write_resource L wr ans_v2_contract_address =
     and_then (ans_from_write_resource L wr ans_v2_contract_address)
       (\<lambda>r. Inr (case r of Some (NameRecordV2 inner) \<Rightarrow> Some inner | _ \<Rightarrow> None))"

definition subdomain_ext_from_write_resource ::
  "libs \<Rightarrow> write_resource \<Rightarrow> string \<Rightarrow> failure + subdomain_ext_v2 option" where
  "subdomain_ext_from_write_resource L wr ans_v2_contract_address =
     and_then (ans_from_write_resource L wr ans_v2_contract_address)
       (\<lambda>r. Inr (case r of Some (SubdomainExtV2 inner) \<Rightarrow> Some inner | _ \<Rightarrow> None))"

definition is_event_supported :: "string \<Rightarrow> string \<Rightarrow> bool" where
  "is_event_supported event_type ans_v2_contract_address \<longleftrightarrow>
     event_type \<in> set [ans_v2_contract_address @ ''::v2_1_domains::SetReverseLookupEvent'',
                        ans_v2_contract_address @ ''::v2_1_domains::RenewNameEvent'']"

definition v2_ans_from_event :: "libs \<Rightarrow> event_pb \<Rightarrow> string \<Rightarrow> failure + v2_ans_event option" where
  "v2_ans_from_event L event ans_v2_contract_address =
     (let type_str = ev_type_str event in
      if \<not> is_event_supported type_str ans_v2_contract_address then Inr None
      else if type_str = ans_v2_contract_address @ ''::v2_1_domains::SetReverseLookupEvent''
      then from_json_str L (read_set_reverse_lookup_event L) SetReverseLookupEvent (ev_data event)
      else if type_str = ans_v2_contract_address @ ''::v2_1_domains::RenewNameEvent''
      then from_json_str L (read_renew_name_event L) RenewNameEvent (ev_data event)
      else Inr None)"

definition renew_name_from_event :: "libs \<Rightarrow> event_pb \<Rightarrow> string \<Rightarrow> failure + renew_name_event option" where
  "renew_name_from_event L event ans_v2_contract_address =
     and_then (unwrap_result (v2_ans_from_event L event ans_v2_contract_address))
       (\<lambda>r. Inr (case r of Some (RenewNameEvent inner) \<Rightarrow> Some inner | _ \<Rightarrow> None))"

definition set_reverse_lookup_from_event ::
  "libs \<Rightarrow> event_pb \<Rightarrow> string \<Rightarrow> failure + set_reverse_lookup_event option" where
  "set_reverse_lookup_from_event L event ans_v2_contract_address =
     and_then (unwrap_result (v2_ans_from_event L event ans_v2_contract_address))
       (\<lambda>r. Inr (case r of Some (SetReverseLookupEvent inner) \<Rightarrow> Some inner | _ \<Rightarrow> None))"

subsection \<open>Parts of the records\<close>

definition nrk_get_domain_trunc :: "name_record_key_v1 \<Rightarrow> failure + string" where
  "nrk_get_domain_trunc k = truncate_str (nrk_domain_name k) domain_length"

definition nrk_get_subdomain_trunc :: "name_record_key_v1 \<Rightarrow> failure + string" where
  "nrk_get_subdomain_trunc k = trunc_or_default (nrk_subdomain_name k)"

definition nrk_get_token_name :: "name_record_key_v1 \<Rightarrow> failure + string" where
  "nrk_get_token_name k =
     and_then (nrk_get_domain_trunc k) (\<lambda>domain.
     and_then (nrk_get_subdomain_trunc k) (\<lambda>subdomain. get_token_name domain subdomain))"

definition expiration_of :: "libs \<Rightarrow> rat \<Rightarrow> failure + naive_date_time" where
  "expiration_of L secs = and_then (bigdecimal_to_u64 L secs) (parse_timestamp_secs L)"

definition nr1_get_expiration_time :: "libs \<Rightarrow> name_record_v1 \<Rightarrow> failure + naive_date_time" where
  "nr1_get_expiration_time L r = expiration_of L (nr1_expiration_time_sec r)"

definition nr1_get_property_version :: "libs \<Rightarrow> name_record_v1 \<Rightarrow> failure + u64" where
  "nr1_get_property_version L r = bigdecimal_to_u64 L (nr1_property_version r)"

definition nr1_get_target_address :: "name_record_v1 \<Rightarrow> string option" where
  "nr1_get_target_address r = map_option standardize_address (get_string (nr1_target_address r))"

definition nr2_get_domain_trunc :: "name_record_v2 \<Rightarrow> failure + string" where
  "nr2_get_domain_trunc r = truncate_str (nr2_domain_name r) domain_length"

definition nr2_get_expiration_time :: "libs \<Rightarrow> name_record_v2 \<Rightarrow> failure + naive_date_time" where
  "nr2_get_expiration_time L r = expiration_of L (nr2_expiration_time_sec r)"

definition nr2_get_target_address :: "name_record_v2 \<Rightarrow> string option" where
  "nr2_get_target_address r = map_option standardize_address (get_string (nr2_target_address r))"

definition sdx_get_subdomain_trunc :: "subdomain_ext_v2 \<Rightarrow> failure + string" where
  "sdx_get_subdomain_trunc s = truncate_str (sdx_subdomain_name s) domain_length"

definition get_account_addr :: "set_reverse_lookup_event \<Rightarrow> string" where
  "get_account_addr e = standardize_address (srl_account_addr e)"

definition get_curr_domain_trunc :: "set_reverse_lookup_event \<Rightarrow> failure + string" where
  "get_curr_domain_trunc e = trunc_or_default (srl_curr_domain_name e)"

definition get_curr_subdomain_trunc :: "set_reverse_lookup_event \<Rightarrow> failure + string" where
  "get_curr_subdomain_trunc e = trunc_or_default (srl_curr_subdomain_name e)"

definition get_curr_token_name :: "set_reverse_lookup_event \<Rightarrow> failure + string" where
  "get_curr_token_name e =
     and_then (get_curr_domain_trunc e) (\<lambda>domain.
     and_then (get_curr_subdomain_trunc e) (\<lambda>subdomain. get_token_name domain subdomain))"

definition optional_expiration :: "libs \<Rightarrow> rat list \<Rightarrow> failure + naive_date_time option" where
  "optional_expiration L v =
     (case get_big_decimal v of
        None \<Rightarrow> Inr None
      | Some x \<Rightarrow> and_then (expiration_of L x) (\<lambda>t. Inr (Some t)))"

definition get_curr_expiration_time :: "libs \<Rightarrow> set_reverse_lookup_event \<Rightarrow> failure + naive_date_time option" where
  "get_curr_expiration_time L e = optional_expiration L (srl_curr_expiration_time_secs e)"

definition get_prev_domain_trunc :: "set_reverse_lookup_event \<Rightarrow> failure + string" where
  "get_prev_domain_trunc e = trunc_or_default (srl_prev_domain_name e)"

definition get_prev_subdomain_trunc :: "set_reverse_lookup_event \<Rightarrow> failure + string" where
  "get_prev_subdomain_trunc e = trunc_or_default (srl_prev_subdomain_name e)"

definition get_prev_token_name :: "set_reverse_lookup_event \<Rightarrow> failure + string" where
  "get_prev_token_name e =
     and_then (get_prev_domain_trunc e) (\<lambda>domain.
     and_then (get_prev_subdomain_trunc e) (\<lambda>subdomain. get_token_name domain subdomain))"

definition get_prev_expiration_time :: "libs \<Rightarrow> set_reverse_lookup_event \<Rightarrow> failure + naive_date_time option" where
  "get_prev_expiration_time L e = optional_expiration L (srl_prev_expiration_time_secs e)"

section \<open>Lookups of version 1 (\<open>ans_lookup.rs\<close>)\<close>

record current_ans_lookup =
  cal_domain :: string
  cal_subdomain :: string
  cal_registered_address :: "string option"
  cal_last_transaction_version :: i64
  cal_expiration_timestamp :: naive_date_time
  cal_token_name :: string
  cal_is_deleted :: bool

record ans_lookup =
  al_transaction_version :: i64
  al_write_set_change_index :: i64
  al_domain :: string
  al_subdomain :: string
  al_registered_address :: "string option"
  al_expiration_timestamp :: naive_date_time
  al_token_name :: string
  al_is_deleted :: bool

record current_ans_primary_name =
  capn_registered_address :: string
  capn_domain :: "string option"
  capn_subdomain :: "string option"
  capn_token_name :: "string option"
  capn_is_deleted :: bool
  capn_last_transaction_version :: i64

record ans_primary_name =
  apn_transaction_version :: i64
  apn_write_set_change_index :: i64
  apn_registered_address :: string
  apn_domain :: "string option"
  apn_subdomain :: "string option"
  apn_token_name :: "string option"
  apn_is_deleted :: bool

definition cal_pk :: "current_ans_lookup \<Rightarrow> string \<times> string" where
  "cal_pk c = (cal_domain c, cal_subdomain c)"

definition capn_pk :: "current_ans_primary_name \<Rightarrow> string" where
  "capn_pk c = capn_registered_address c"

definition parse_name_record_from_write_table_item_v1 ::
  "libs \<Rightarrow> write_table_item \<Rightarrow> string \<Rightarrow> i64 \<Rightarrow> i64 \<Rightarrow> failure + (current_ans_lookup \<times> ans_lookup) option" where
  "parse_name_record_from_write_table_item_v1 L wti name_records_table_handle version index =
     (let table_handle = standardize_address (wti_handle wti) in
      if table_handle \<noteq> standardize_address name_records_table_handle then Inr None
      else case wti_data wti of
        None \<Rightarrow> Inr None
      | Some data \<Rightarrow>
          and_then (from_table_item L (get_name_from_unnested_move_type (wtd_key_type data)) (wtd_key data)) (\<lambda>key.
          case key of
            Some (NameRecordKeyV1 name_record_key) \<Rightarrow>
              and_then (from_table_item L (get_name_from_unnested_move_type (wtd_value_type data)) (wtd_value data)) (\<lambda>value.
              case value of
                Some (NameRecordV1 name_record) \<Rightarrow>
                  and_then (nrk_get_domain_trunc name_record_key) (\<lambda>domain.
                  and_then (nrk_get_subdomain_trunc name_record_key) (\<lambda>subdomain.
                  and_then (nr1_get_expiration_time L name_record) (\<lambda>expiration.
                  and_then (nrk_get_token_name name_record_key) (\<lambda>token_name.
                  Inr (Some
                    (\<lparr>cal_domain = domain, cal_subdomain = subdomain,
                      cal_registered_address = nr1_get_target_address name_record,
                      cal_last_transaction_version = version, cal_expiration_timestamp = expiration,
                      cal_token_name = token_name, cal_is_deleted = False\<rparr>,
                     \<lparr>al_transaction_version = version, al_write_set_change_index = index, al_domain = domain,
                      al_subdomain = subdomain, al_registered_address = nr1_get_target_address name_record,
                      al_expiration_timestamp = expiration, al_token_name = token_name,
                      al_is_deleted = False\<rparr>))))))
              | _ \<Rightarrow> Inr None)
          | _ \<Rightarrow> Inr None))"

definition parse_name_record_from_delete_table_item_v1 ::
  "libs \<Rightarrow> delete_table_item \<Rightarrow> string \<Rightarrow> i64 \<Rightarrow> i64 \<Rightarrow> failure + (current_ans_lookup \<times> ans_lookup) option" where
  "parse_name_record_from_delete_table_item_v1 L dti name_records_table_handle version index =
     (let table_handle = standardize_address (dti_handle dti) in
      if table_handle \<noteq> standardize_address name_records_table_handle then Inr None
      else case dti_data dti of
        None \<Rightarrow> Inr None
      | Some data \<Rightarrow>
          and_then (from_table_item L (get_name_from_unnested_move_type (dtd_key_type data)) (dtd_key data)) (\<lambda>key.
          case key of
            Some (NameRecordKeyV1 name_record_key) \<Rightarrow>
              and_then (nrk_get_domain_trunc name_record_key) (\<lambda>domain.
              and_then (nrk_get_subdomain_trunc name_record_key) (\<lambda>subdomain.
              and_then (nrk_get_token_name name_record_key) (\<lambda>token_name.
              Inr (Some
                (\<lparr>cal_domain = domain, cal_subdomain = subdomain, cal_registered_address = None,
                  cal_last_transaction_version = version, cal_expiration_timestamp = (0, 0),
                  cal_token_name = token_name, cal_is_deleted = True\<rparr>,
                 \<lparr>al_transaction_version = version, al_write_set_change_index = index, al_domain = domain,
                  al_subdomain = subdomain, al_registered_address = None, al_expiration_timestamp = (0, 0),
                  al_token_name = token_name, al_is_deleted = True\<rparr>)))))
          | _ \<Rightarrow> Inr None))"

definition decoded_address :: "libs \<Rightarrow> string \<Rightarrow> failure + string" where
  "decoded_address L key =
     and_then (expect ''called Result::unwrap on an Err value'' (Option.bind (lib_json_from_str L key) read_string))
       (\<lambda>decoded_key. Inr (standardize_address decoded_key))"

definition parse_primary_name_record_from_write_table_item_v1 ::
  "libs \<Rightarrow> write_table_item \<Rightarrow> string \<Rightarrow> i64 \<Rightarrow> i64 \<Rightarrow>
   failure + (current_ans_primary_name \<times> ans_primary_name) option" where
  "parse_primary_name_record_from_write_table_item_v1 L wti primary_names_table_handle version index =
     (let table_handle = standardize_address (wti_handle wti) in
      if table_handle \<noteq> standardize_address primary_names_table_handle then Inr None
      else case wti_data wti of
        None \<Rightarrow> Inr None
      | Some data \<Rightarrow>
          if wtd_key_type data \<noteq> ''address'' then Inr None
          else
            and_then (decoded_address L (wtd_key data)) (\<lambda>registered_address.
            and_then (from_table_item L (get_name_from_unnested_move_type (wtd_value_type data)) (wtd_value data)) (\<lambda>value.
            case value of
              Some (NameRecordKeyV1 name_record_key) \<Rightarrow>
                and_then (nrk_get_domain_trunc name_record_key) (\<lambda>domain.
                and_then (nrk_get_subdomain_trunc name_record_key) (\<lambda>subdomain.
                and_then (nrk_get_token_name name_record_key) (\<lambda>token_name.
                Inr (Some
                  (\<lparr>capn_registered_address = registered_address, capn_domain = Some domain,
                    capn_subdomain = Some subdomain, capn_token_name = Some token_name, capn_is_deleted = False,
                    capn_last_transaction_version = version\<rparr>,
                   \<lparr>apn_transaction_version = version, apn_write_set_change_index = index,
                    apn_registered_address = registered_address, apn_domain = Some domain,
                    apn_subdomain = Some subdomain, apn_token_name = Some token_name,
                    apn_is_deleted = False\<rparr>)))))
            | _ \<Rightarrow> Inr None)))"

definition parse_primary_name_record_from_delete_table_item_v1 ::
  "libs \<Rightarrow> delete_table_item \<Rightarrow> string \<Rightarrow> i64 \<Rightarrow> i64 \<Rightarrow>
   failure + (current_ans_primary_name \<times> ans_primary_name) option" where
  "parse_primary_name_record_from_delete_table_item_v1 L dti primary_names_table_handle version index =
     (let table_handle = standardize_address (dti_handle dti) in
      if table_handle \<noteq> standardize_address primary_names_table_handle then Inr None
      else case dti_data dti of
        None \<Rightarrow> Inr None
      | Some data \<Rightarrow>
          if dtd_key_type data \<noteq> ''address'' then Inr None
          else
            and_then (decoded_address L (dtd_key data)) (\<lambda>registered_address.
            Inr (Some
              (\<lparr>capn_registered_address = registered_address, capn_domain = None, capn_subdomain = None,
                capn_token_name = None, capn_is_deleted = True, capn_last_transaction_version = version\<rparr>,
               \<lparr>apn_transaction_version = version, apn_write_set_change_index = index,
                apn_registered_address = registered_address, apn_domain = None, apn_subdomain = None,
                apn_token_name = None, apn_is_deleted = True\<rparr>))))"

section \<open>Lookups of version 2 (\<open>ans_lookup_v2.rs\<close>)\<close>

record current_ans_lookup_v2 =
  cal2_domain :: string
  cal2_subdomain :: string
  cal2_token_standard :: string
  cal2_registered_address :: "string option"
  cal2_last_transaction_version :: i64
  cal2_expiration_timestamp :: naive_date_time
  cal2_token_name :: string
  cal2_is_deleted :: bool
  cal2_subdomain_expiration_policy :: "i64 option"

record ans_lookup_v2 =
  al2_transaction_version :: i64
  al2_write_set_change_index :: i64
  al2_domain :: string
  al2_subdomain :: string
  al2_token_standard :: string
  al2_registered_address :: "string option"
  al2_expiration_timestamp :: naive_date_time
  al2_token_name :: string
  al2_is_deleted :: bool
  al2_subdomain_expiration_policy :: "i64 option"

record current_ans_primary_name_v2 =
  capn2_registered_address :: string
  capn2_token_standard :: string
  capn2_domain :: "string option"
  capn2_subdomain :: "string option"
  capn2_token_name :: "string option"
  capn2_is_deleted :: bool
  capn2_last_transaction_version :: i64

record ans_primary_name_v2 =
  apn2_transaction_version :: i64
  apn2_write_set_change_index :: i64
  apn2_registered_address :: string
  apn2_token_standard :: string
  apn2_domain :: "string option"
  apn2_subdomain :: "string option"
  apn2_token_name :: "string option"
  apn2_is_deleted :: bool

definition cal2_pk :: "current_ans_lookup_v2 \<Rightarrow> string \<times> string \<times> string" where
  "cal2_pk c = (cal2_domain c, cal2_subdomain c, cal2_token_standard c)"

definition capn2_pk :: "current_ans_primary_name_v2 \<Rightarrow> string \<times> string" where
  "capn2_pk c = (capn2_registered_address c, capn2_token_standard c)"

definition lookup_get_v2_from_v1 :: "current_ans_lookup \<times> ans_lookup \<Rightarrow> current_ans_lookup_v2 \<times> ans_lookup_v2" where
  "lookup_get_v2_from_v1 v1 =
     (case v1 of (c, a) \<Rightarrow>
       (\<lparr>cal2_domain = cal_domain c, cal2_subdomain = cal_subdomain c, cal2_token_standard = token_standard_str V1,
         cal2_registered_address = cal_registered_address c,
         cal2_last_transaction_version = cal_last_transaction_version c,
         cal2_expiration_timestamp = cal_expiration_timestamp c, cal2_token_name = cal_token_name c,
         cal2_is_deleted = cal_is_deleted c, cal2_subdomain_expiration_policy = None\<rparr>,
        \<lparr>al2_transaction_version = al_transaction_version a, al2_write_set_change_index = al_write_set_change_index a,
         al2_domain = al_domain a, al2_subdomain = al_subdomain a, al2_token_standard = token_standard_str V1,
         al2_registered_address = al_registered_address a, al2_expiration_timestamp = al_expiration_timestamp a,
         al2_token_name = al_token_name a, al2_is_deleted = al_is_deleted a,
         al2_subdomain_expiration_policy = None\<rparr>))"

definition parse_name_record_from_write_resource_v2 ::
  "libs \<Rightarrow> write_resource \<Rightarrow> string \<Rightarrow> i64 \<Rightarrow> i64 \<Rightarrow> (string \<times> subdomain_ext_v2) list \<Rightarrow>
   failure + (current_ans_lookup_v2 \<times> ans_lookup_v2) option" where
  "parse_name_record_from_write_resource_v2 L wr ans_v2_contract_address version index address_to_subdomain_ext =
     and_then (unwrap_result (name_record_v2_from_write_resource L wr ans_v2_contract_address)) (\<lambda>record.
     case record of
       None \<Rightarrow> Inr None
     | Some inner \<Rightarrow>
         and_then
           (case map_of address_to_subdomain_ext (standardize_address (wr_address wr)) of
              Some s \<Rightarrow> and_then (sdx_get_subdomain_trunc s) (\<lambda>n. Inr (n, Some (sdx_subdomain_expiration_policy s)))
            | None \<Rightarrow> Inr ([], None)) (\<lambda>(subdomain_name, policy).
         and_then (nr2_get_domain_trunc inner) (\<lambda>domain.
         and_then (get_token_name domain subdomain_name) (\<lambda>token_name.
         and_then (nr2_get_expiration_time L inner) (\<lambda>expiration.
         Inr (Some
           (\<lparr>cal2_domain = domain, cal2_subdomain = subdomain_name, cal2_token_standard = token_standard_str V2,
             cal2_registered_address = nr2_get_target_address inner, cal2_last_transaction_version = version,
             cal2_expiration_timestamp = expiration, cal2_token_name = token_name, cal2_is_deleted = False,
             cal2_subdomain_expiration_policy = policy\<rparr>,
            \<lparr>al2_transaction_version = version, al2_write_set_change_index = index, al2_domain = domain,
             al2_subdomain = subdomain_name, al2_token_standard = token_standard_str V2,
             al2_registered_address = nr2_get_target_address inner, al2_expiration_timestamp = expiration,
             al2_token_name = token_name, al2_is_deleted = False,
             al2_subdomain_expiration_policy = policy\<rparr>)))))))"

definition primary_name_get_v2_from_v1 ::
  "current_ans_primary_name \<times> ans_primary_name \<Rightarrow> current_ans_primary_name_v2 \<times> ans_primary_name_v2" where
  "primary_name_get_v2_from_v1 v1 =
     (case v1 of (c, a) \<Rightarrow>
       (\<lparr>capn2_registered_address = capn_registered_address c, capn2_token_standard = token_standard_str V1,
         capn2_domain = capn_domain c, capn2_subdomain = capn_subdomain c, capn2_token_name = capn_token_name c,
         capn2_is_deleted = capn_is_deleted c, capn2_last_transaction_version = capn_last_transaction_version c\<rparr>,
        \<lparr>apn2_transaction_version = apn_transaction_version a,
         apn2_write_set_change_index = apn_write_set_change_index a,
         apn2_registered_address = apn_registered_address a, apn2_token_standard = token_standard_str V1,
         apn2_domain = apn_domain a, apn2_subdomain = apn_subdomain a, apn2_token_name = apn_token_name a,
         apn2_is_deleted = apn_is_deleted a\<rparr>))"

definition parse_v2_primary_name_record_from_event ::
  "libs \<Rightarrow> event_pb \<Rightarrow> i64 \<Rightarrow> i64 \<Rightarrow> string \<Rightarrow>
   failure + (current_ans_primary_name_v2 \<times> ans_primary_name_v2) option" where
  "parse_v2_primary_name_record_from_event L event version event_index ans_v2_contract_address =
     and_then (unwrap_result (set_reverse_lookup_from_event L event ans_v2_contract_address)) (\<lambda>lookup.
     case lookup of
       None \<Rightarrow> Inr None
     | Some e \<Rightarrow>
         and_then (get_curr_domain_trunc e) (\<lambda>domain.
         if domain = [] then
           Inr (Some
             (\<lparr>capn2_registered_address = get_account_addr e, capn2_token_standard = token_standard_str V2,
               capn2_domain = None, capn2_subdomain = None, capn2_token_name = None, capn2_is_deleted = True,
               capn2_last_transaction_version = version\<rparr>,
              \<lparr>apn2_transaction_version = version, apn2_write_set_change_index = - (event_index + 1),
               apn2_registered_address = get_account_addr e, apn2_token_standard = token_standard_str V2,
               apn2_domain = None, apn2_subdomain = None, apn2_token_name = None, apn2_is_deleted = True\<rparr>))
         else
           and_then (get_curr_subdomain_trunc e) (\<lambda>subdomain.
           and_then (get_curr_token_name e) (\<lambda>token_name.
           Inr (Some
             (\<lparr>capn2_registered_address = get_account_addr e, capn2_token_standard = token_standard_str V2,
               capn2_domain = Some domain, capn2_subdomain = Some subdomain, capn2_token_name = Some token_name,
               capn2_is_deleted = False, capn2_last_transaction_version = version\<rparr>,
              \<lparr>apn2_transaction_version = version, apn2_write_set_change_index = - (event_index + 1),
               apn2_registered_address = get_account_addr e, apn2_token_standard = token_standard_str V2,
               apn2_domain = Some domain, apn2_subdomain = Some subdomain, apn2_token_name = Some token_name,
               apn2_is_deleted = False\<rparr>))))))"

end
