(* ===== verification/Ans_Processor.thy ===== *)
theory Ans_Processor
  imports Ans_Models Convergence
begin

text \<open>
  \<open>processors/ans_processor.rs\<close>. Only user transactions have rows. A transaction is read in three loops:
  the events, the subdomains among its write resources, and the changes. Rows that are pushed to a vector
  or inserted into a map are lists here, in the order of the insertions; \<open>collect_by\<close> makes the map of a
  list. The current rows of version 2 are sorted by a part of their key only, so rows that agree on it
  come in the order of the map.
\<close>

section \<open>Rows and queries\<close>

definition current_ans_lookup_row :: "current_ans_lookup \<Rightarrow> sql_row" where
  "current_ans_lookup_row c =
     [(''domain'', SqlText (cal_domain c)), (''subdomain'', SqlText (cal_subdomain c)),
      (''registered_address'', sql_opt SqlText (cal_registered_address c)),
      (''last_transaction_version'', SqlInt (cal_last_transaction_version c)),
      (''expiration_timestamp'', SqlTimestamp (cal_expiration_timestamp c)),
      (''token_name'', SqlText (cal_token_name c)), (''is_deleted'', SqlBool (cal_is_deleted c))]"

definition ans_lookup_row :: "ans_lookup \<Rightarrow> sql_row" where
  "ans_lookup_row a =
     [(''transaction_version'', SqlInt (al_transaction_version a)),
      (''write_set_change_index'', SqlInt (al_write_set_change_index a)),
      (''domain'', SqlText (al_domain a)), (''subdomain'', SqlText (al_subdomain a)),
      (''registered_address'', sql_opt SqlText (al_registered_address a)),
      (''expiration_timestamp'', SqlTimestamp (al_expiration_timestamp a)),
      (''token_name'', SqlText (al_token_name a)), (''is_deleted'', SqlBool (al_is_deleted a))]"

definition current_ans_primary_name_row :: "current_ans_primary_name \<Rightarrow> sql_row" where
  "current_ans_primary_name_row c =
     [(''registered_address'', SqlText (capn_registered_address c)), (''domain'', sql_opt SqlText (capn_domain c)),
      (''subdomain'', sql_opt SqlText (capn_subdomain c)), (''token_name'', sql_opt SqlText (capn_token_name c)),
      (''is_deleted'', SqlBool (capn_is_deleted c)),
      (''last_transaction_version'', SqlInt (capn_last_transaction_version c))]"

definition ans_primary_name_row :: "ans_primary_name \<Rightarrow> sql_row" where
  "ans_primary_name_row a =
     [(''transaction_version'', SqlInt (apn_transaction_version a)),
      (''write_set_change_index'', SqlInt (apn_write_set_change_index a)),
      (''registered_address'', SqlText (apn_registered_address a)), (''domain'', sql_opt SqlText (apn_domain a)),
      (''subdomain'', sql_opt SqlText (apn_subdomain a)), (''token_name'', sql_opt SqlText (apn_token_name a)),
      (''is_deleted'', SqlBool (apn_is_deleted a))]"

definition current_ans_lookup_v2_row :: "current_ans_lookup_v2 \<Rightarrow> sql_row" where
  "current_ans_lookup_v2_row c =
     [(''domain'', SqlText (cal2_domain c)), (''subdomain'', SqlText (cal2_subdomain c)),
      (''token_standard'', SqlText (cal2_token_standard c)),
      (''registered_address'', sql_opt SqlText (cal2_registered_address c)),
      (''last_transaction_version'', SqlInt (cal2_last_transaction_version c)),
      (''expiration_timestamp'', SqlTimestamp (cal2_expiration_timestamp c)),
      (''token_name'', SqlText (cal2_token_name c)), (''is_deleted'', SqlBool (cal2_is_deleted c)),
      (''subdomain_expiration_policy'', sql_opt SqlInt (cal2_subdomain_expiration_policy c))]"

definition ans_lookup_v2_row :: "ans_lookup_v2 \<Rightarrow> sql_row" where
  "ans_lookup_v2_row a =
     [(''transaction_version'', SqlInt (al2_transaction_version a)),
      (''write_set_change_index'', SqlInt (al2_write_set_change_index a)),
      (''domain'', SqlText (al2_domain a)), (''subdomain'', SqlText (al2_subdomain a)),
      (''token_standard'', SqlText (al2_token_standard a)),
      (''registered_address'', sql_opt SqlText (al2_registered_address a)),
      (''expiration_timestamp'', SqlTimestamp (al2_expiration_timestamp a)),
      (''token_name'', SqlText (al2_token_name a)), (''is_deleted'', SqlBool (al2_is_deleted a)),
      (''subdomain_expiration_policy'', sql_opt SqlInt (al2_subdomain_expiration_policy a))]"

definition current_ans_primary_name_v2_row :: "current_ans_primary_name_v2 \<Rightarrow> sql_row" where
  "current_ans_primary_name_v2_row c =
     [(''registered_address'', SqlText (capn2_registered_address c)),
      (''token_standard'', SqlText (capn2_token_standard c)), (''domain'', sql_opt SqlText (capn2_domain c)),
      (''subdomain'', sql_opt SqlText (capn2_subdomain c)), (''token_name'', sql_opt SqlText (capn2_token_name c)),
      (''is_deleted'', SqlBool (capn2_is_deleted c)),
      (''last_transaction_version'', SqlInt (capn2_last_transaction_version c))]"

definition ans_primary_name_v2_row :: "ans_primary_name_v2 \<Rightarrow> sql_row" where
  "ans_primary_name_v2_row a =
     [(''transaction_version'', SqlInt (apn2_transaction_version a)),
      (''write_set_change_index'', SqlInt (apn2_write_set_change_index a)),
      (''registered_address'', SqlText (apn2_registered_address a)),
      (''token_standard'', SqlText (apn2_token_standard a)), (''domain'', sql_opt SqlText (apn2_domain a)),
      (''subdomain'', sql_opt SqlText (apn2_subdomain a)), (''token_name'', sql_opt SqlText (apn2_token_name a)),
      (''is_deleted'', SqlBool (apn2_is_deleted a))]"

definition insert_current_ans_lookups_query :: "current_ans_lookup list \<Rightarrow> query" where
  "insert_current_ans_lookups_query items =
     (\<lparr>iq_table = ''current_ans_lookup'', iq_rows = map current_ans_lookup_row items,
       iq_target = [''domain'', ''subdomain''],
       iq_action = DoUpdate [''registered_address'', ''expiration_timestamp'', ''last_transaction_version'',
         ''token_name'', ''is_deleted'', ''inserted_at'']\<rparr>,
      Some (WhereLe ''last_transaction_version''))"

definition insert_ans_lookups_query :: "ans_lookup list \<Rightarrow> query" where
  "insert_ans_lookups_query items =
     (\<lparr>iq_table = ''ans_lookup'', iq_rows = map ans_lookup_row items,
       iq_target = [''transaction_version'', ''write_set_change_index''], iq_action = DoNothing\<rparr>, None)"

definition insert_current_ans_primary_names_query :: "current_ans_primary_name list \<Rightarrow> query" where
  "insert_current_ans_primary_names_query items =
     (\<lparr>iq_table = ''current_ans_primary_name'', iq_rows = map current_ans_primary_name_row items,
       iq_target = [''registered_address''],
       iq_action = DoUpdate [''domain'', ''subdomain'', ''token_name'', ''is_deleted'', ''last_transaction_version'',
         ''inserted_at'']\<rparr>,
      Some (WhereLe ''last_transaction_version''))"

definition insert_ans_primary_names_query :: "ans_primary_name list \<Rightarrow> query" where
  "insert_ans_primary_names_query items =
     (\<lparr>iq_table = ''ans_primary_name'', iq_rows = map ans_primary_name_row items,
       iq_target = [''transaction_version'', ''write_set_change_index''], iq_action = DoNothing\<rparr>, None)"

definition insert_current_ans_lookups_v2_query :: "current_ans_lookup_v2 list \<Rightarrow> query" where
  "insert_current_ans_lookups_v2_query items =
     (\<lparr>iq_table = ''current_ans_lookup_v2'', iq_rows = map current_ans_lookup_v2_row items,
       iq_target = [''domain'', ''subdomain'', ''token_standard''],
       iq_action = DoUpdate [''registered_address'', ''expiration_timestamp'', ''last_transaction_version'',
         ''token_name'', ''is_deleted'', ''inserted_at'', ''subdomain_expiration_policy'']\<rparr>,
      Some (WhereLe ''last_transaction_version''))"

definition insert_ans_lookups_v2_query :: "ans_lookup_v2 list \<Rightarrow> query" where
  "insert_ans_lookups_v2_query items =
     (\<lparr>iq_table = ''ans_lookup_v2'', iq_rows = map ans_lookup_v2_row items,
       iq_target = [''transaction_version'', ''write_set_change_index''],
       iq_action = DoUpdate [''inserted_at'', ''subdomain_expiration_policy'']\<rparr>, None)"

definition insert_current_ans_primary_names_v2_query :: "current_ans_primary_name_v2 list \<Rightarrow> query" where
  "insert_current_ans_primary_names_v2_query items =
     (\<lparr>iq_table = ''current_ans_primary_name_v2'', iq_rows = map current_ans_primary_name_v2_row items,
       iq_target = [''registered_address'', ''token_standard''],
       iq_action = DoUpdate [''domain'', ''subdomain'', ''token_name'', ''is_deleted'', ''last_transaction_version'',
         ''inserted_at'']\<rparr>,
      Some (WhereLe ''last_transaction_version''))"

definition insert_ans_primary_names_v2_query :: "ans_primary_name_v2 list \<Rightarrow> query" where
  "insert_ans_primary_names_v2_query items =
     (\<lparr>iq_table = ''ans_primary_name_v2'', iq_rows = map ans_primary_name_v2_row items,
       iq_target = [''transaction_version'', ''write_set_change_index''], iq_action = DoNothing\<rparr>, None)"

section \<open>A transaction\<close>

record ans_rows =
  anr_lookups :: "(current_ans_lookup \<times> ans_lookup) list"
  anr_primary_names :: "(current_ans_primary_name \<times> ans_primary_name) list"
  anr_lookups_v2 :: "(current_ans_lookup_v2 \<times> ans_lookup_v2) list"
  anr_primary_names_v2 :: "(current_ans_primary_name_v2 \<times> ans_primary_name_v2) list"

definition no_ans_rows :: ans_rows where
  "no_ans_rows = \<lparr>anr_lookups = [], anr_primary_names = [], anr_lookups_v2 = [], anr_primary_names_v2 = []\<rparr>"

text \<open>The first loop. The events that renew a name are read and then not used.\<close>

definition ans_event ::
  "libs \<Rightarrow> ans_processor_config \<Rightarrow> i64 \<Rightarrow> nat \<times> event_pb \<Rightarrow>
   failure + (current_ans_primary_name_v2 \<times> ans_primary_name_v2) list" where
  "ans_event L cfg version ie =
     (case ie of (event_index, event) \<Rightarrow>
      and_then (unwrap_result (renew_name_from_event L event (apc_ans_v2_contract_address cfg))) (\<lambda>_.
      and_then (unwrap_result (parse_v2_primary_name_record_from_event L event version (int event_index)
                  (apc_ans_v2_contract_address cfg))) (\<lambda>r.
      Inr (opt_list r))))"

text \<open>The second loop: the subdomain of an account.\<close>

definition add_subdomain_ext ::
  "libs \<Rightarrow> ans_processor_config \<Rightarrow> write_set_change_pb \<Rightarrow> (string \<times> subdomain_ext_v2) list \<Rightarrow>
   failure + (string \<times> subdomain_ext_v2) list" where
  "add_subdomain_ext L cfg wsc exts =
     and_then (expect ''called Option::unwrap on a None value'' (wsc_change wsc)) (\<lambda>change.
     case change of
       WriteResource wr \<Rightarrow>
         and_then (unwrap_result (subdomain_ext_from_write_resource L wr (apc_ans_v2_contract_address cfg))) (\<lambda>r.
         Inr (case r of
                Some subdomain_ext \<Rightarrow> AList.update (standardize_address (wr_address wr)) subdomain_ext exts
              | None \<Rightarrow> exts))
     | _ \<Rightarrow> Inr exts)"

text \<open>The third loop. The rows of version 1 are included in the data of version 2.\<close>

definition ans_v1_rows ::
  "(current_ans_lookup \<times> ans_lookup) option \<Rightarrow> (current_ans_primary_name \<times> ans_primary_name) option \<Rightarrow> ans_rows" where
  "ans_v1_rows l p =
     \<lparr>anr_lookups = opt_list l, anr_primary_names = opt_list p,
      anr_lookups_v2 = map lookup_get_v2_from_v1 (opt_list l),
      anr_primary_names_v2 = map primary_name_get_v2_from_v1 (opt_list p)\<rparr>"

definition ans_change ::
  "libs \<Rightarrow> ans_processor_config \<Rightarrow> i64 \<Rightarrow> (string \<times> subdomain_ext_v2) list \<Rightarrow> nat \<times> write_set_change_pb \<Rightarrow>
   failure + ans_rows" where
  "ans_change L cfg version exts iw =
     (case iw of (index, wsc) \<Rightarrow>
      and_then (expect ''called Option::unwrap on a None value'' (wsc_change wsc)) (\<lambda>change.
      case change of
        WriteTableItem item \<Rightarrow>
          and_then (unwrap_result (parse_name_record_from_write_table_item_v1 L item
                      (apc_ans_v1_name_records_table_handle cfg) version (int index))) (\<lambda>l.
          and_then (unwrap_result (parse_primary_name_record_from_write_table_item_v1 L item
                      (apc_ans_v1_primary_names_table_handle cfg) version (int index))) (\<lambda>p.
          Inr (ans_v1_rows l p)))
      | DeleteTableItem item \<Rightarrow>
          and_then (unwrap_result (parse_name_record_from_delete_table_item_v1 L item
                      (apc_ans_v1_name_records_table_handle cfg) version (int index))) (\<lambda>l.
          and_then (unwrap_result (parse_primary_name_record_from_delete_table_item_v1 L item
                      (apc_ans_v1_primary_names_table_handle cfg) version (int index))) (\<lambda>p.
          Inr (ans_v1_rows l p)))
      | WriteResource wr \<Rightarrow>
          and_then (unwrap_result (parse_name_record_from_write_resource_v2 L wr
                      (apc_ans_v2_contract_address cfg) version (int index) exts)) (\<lambda>r.
          Inr (no_ans_rows\<lparr>anr_lookups_v2 := opt_list r\<rparr>))
      | _ \<Rightarrow> Inr no_ans_rows))"

definition ans_from_transaction ::
  "libs \<Rightarrow> ans_processor_config \<Rightarrow> transaction \<Rightarrow> failure + ans_rows" where
  "ans_from_transaction L cfg txn =
     (let version = as_i64 (txn_version txn) in
      case txn_txn_data txn of
        None \<Rightarrow> Inr no_ans_rows
      | Some data \<Rightarrow>
          and_then (expect ''Transaction info doesn't exist!'' (txn_info txn)) (\<lambda>info.
          case data of
            User user_txn \<Rightarrow>
              and_then (map_result (ans_event L cfg version) (enumerate 0 (ut_events user_txn))) (\<lambda>events.
              and_then (fold_result (add_subdomain_ext L cfg) (ti_changes info) []) (\<lambda>exts.
              and_then (map_result (ans_change L cfg version exts) (enumerate 0 (ti_changes info))) (\<lambda>changes.
              Inr \<lparr>anr_lookups = concat (map anr_lookups changes),
                   anr_primary_names = concat (map anr_primary_names changes),
                   anr_lookups_v2 = concat (map anr_lookups_v2 changes),
                   anr_primary_names_v2 = concat events @ concat (map anr_primary_names_v2 changes)\<rparr>)))
          | _ \<Rightarrow> Inr no_ans_rows))"

section \<open>A batch\<close>

record ans_inserts =
  ani_current_lookups :: "current_ans_lookup list"
  ani_lookups :: "ans_lookup list"
  ani_current_primary_names :: "current_ans_primary_name list"
  ani_primary_names :: "ans_primary_name list"
  ani_current_lookups_v2 :: "current_ans_lookup_v2 list"
  ani_lookups_v2 :: "ans_lookup_v2 list"
  ani_current_primary_names_v2 :: "current_ans_primary_name_v2 list"
  ani_primary_names_v2 :: "ans_primary_name_v2 list"

text \<open>The end of \<open>parse_ans\<close>: the maps become sorted vectors.\<close>

definition ans_collect :: "ans_rows list \<Rightarrow> ans_inserts" where
  "ans_collect rows =
     (let lookups = concat (map anr_lookups rows); primary_names = concat (map anr_primary_names rows);
          lookups_v2 = concat (map anr_lookups_v2 rows); primary_names_v2 = concat (map anr_primary_names_v2 rows) in
      \<lparr>ani_current_lookups = sort_key cal_pk (map snd (collect_by cal_pk (map fst lookups) [])),
       ani_lookups = map snd lookups,
       ani_current_primary_names =
         sort_key capn_registered_address (map snd (collect_by capn_pk (map fst primary_names) [])),
       ani_primary_names = map snd primary_names,
       ani_current_lookups_v2 =
         sort_key (\<lambda>c. (cal2_domain c, cal2_subdomain c)) (map snd (collect_by cal2_pk (map fst lookups_v2) [])),
       ani_lookups_v2 = map snd lookups_v2,
       ani_current_primary_names_v2 =
         sort_key capn2_registered_address (map snd (collect_by capn2_pk (map fst primary_names_v2) [])),
       ani_primary_names_v2 = map snd primary_names_v2\<rparr>)"

definition parse_ans :: "libs \<Rightarrow> ans_processor_config \<Rightarrow> transaction list \<Rightarrow> failure + ans_inserts" where
  "parse_ans L cfg transactions =
     and_then (map_result (ans_from_transaction L cfg) transactions) (\<lambda>rows. Inr (ans_collect rows))"

record ans_serdes =
  sd_current_ans_lookup :: "current_ans_lookup serde"
  sd_ans_lookup :: "ans_lookup serde"
  sd_current_ans_primary_name :: "current_ans_primary_name serde"
  sd_ans_primary_name :: "ans_primary_name serde"
  sd_current_ans_lookup_v2 :: "current_ans_lookup_v2 serde"
  sd_ans_lookup_v2 :: "ans_lookup_v2 serde"
  sd_current_ans_primary_name_v2 :: "current_ans_primary_name_v2 serde"
  sd_ans_primary_name_v2 :: "ans_primary_name_v2 serde"

definition ans_insert_to_db :: "ans_serdes \<Rightarrow> (string \<times> nat) list \<Rightarrow> pg_env \<Rightarrow> ans_inserts \<Rightarrow> db_op" where
  "ans_insert_to_db sds per_table_chunk_sizes env rows =
     (let size = (\<lambda>fields name. get_config_table_chunk_size fields name per_table_chunk_sizes) in
      join_inserts
        [execute_in_chunks env insert_current_ans_lookups_query (sd_current_ans_lookup sds)
           (ani_current_lookups rows) (size 7 ''current_ans_lookup''),
         execute_in_chunks env insert_ans_lookups_query (sd_ans_lookup sds) (ani_lookups rows) (size 8 ''ans_lookup''),
         execute_in_chunks env insert_current_ans_primary_names_query (sd_current_ans_primary_name sds)
           (ani_current_primary_names rows) (size 6 ''current_ans_primary_name''),
         execute_in_chunks env insert_ans_primary_names_query (sd_ans_primary_name sds)
           (ani_primary_names rows) (size 7 ''ans_primary_name''),
         execute_in_chunks env insert_current_ans_lookups_v2_query (sd_current_ans_lookup_v2 sds)
           (ani_current_lookups_v2 rows) (size 9 ''current_ans_lookup_v2''),
         execute_in_chunks env insert_ans_lookups_v2_query (sd_ans_lookup_v2 sds)
           (ani_lookups_v2 rows) (size 10 ''ans_lookup_v2''),
         execute_in_chunks env insert_current_ans_primary_names_v2_query (sd_current_ans_primary_name_v2 sds)
           (ani_current_primary_names_v2 rows) (size 7 ''current_ans_primary_name_v2''),
         execute_in_chunks env insert_ans_primary_names_v2_query (sd_ans_primary_name_v2 sds)
           (ani_primary_names_v2 rows) (size 8 ''ans_primary_name_v2'')])"

definition ans_process_transactions ::
  "libs \<Rightarrow> ans_processor_config \<Rightarrow> ans_serdes \<Rightarrow> rat \<times> rat \<Rightarrow> (string \<times> nat) list \<Rightarrow> process_fn" where
  "ans_process_transactions L cfg sds durations per_table_chunk_sizes =
     process_batch (parse_ans L cfg) (ans_insert_to_db sds per_table_chunk_sizes) durations"

lemmas ans_query_defs = insert_current_ans_lookups_query_def insert_ans_lookups_query_def
  insert_current_ans_primary_names_query_def insert_ans_primary_names_query_def
  insert_current_ans_lookups_v2_query_def insert_ans_lookups_v2_query_def
  insert_current_ans_primary_names_v2_query_def insert_ans_primary_names_v2_query_def

interpretation ans_processor: batch_processor "parse_ans L cfg" "ans_insert_to_db sds sizes" durations
  for L cfg sds sizes durations
proof
  fix env :: pg_env and rows
  assume "postgres (pg_exec env)"
  then show "untouched ''processor_status'' (ans_insert_to_db sds sizes env rows)"
    unfolding ans_insert_to_db_def Let_def
    by (intro join_inserts_untouched) (auto intro!: execute_in_chunks_untouched simp: ans_query_defs)
qed

section \<open>The rows of a transaction\<close>

lemmas ans_part_defs = nrk_get_domain_trunc_def nrk_get_subdomain_trunc_def nrk_get_token_name_def trunc_or_default_def
  nr2_get_domain_trunc_def sdx_get_subdomain_trunc_def get_curr_domain_trunc_def get_curr_subdomain_trunc_def
  get_curr_token_name_def domain_length_def

lemma truncate_str_length: "truncate_str v n = Inr s \<Longrightarrow> length s \<le> n"
  by (auto simp: truncate_str_def string_truncate_def split: if_splits)

text \<open>A name, its subdomain and the name of its token fit into the columns of the schema.\<close>

definition name_fits :: "string \<Rightarrow> string \<Rightarrow> string \<Rightarrow> bool" where
  "name_fits domain subdomain token_name \<longleftrightarrow>
     length domain \<le> 64 \<and> length subdomain \<le> 64 \<and> length token_name \<le> 140"

definition opt_name_fits :: "string option \<Rightarrow> string option \<Rightarrow> string option \<Rightarrow> bool" where
  "opt_name_fits domain subdomain token_name \<longleftrightarrow>
     (case (domain, subdomain, token_name) of
        (Some d, Some s, Some t) \<Rightarrow> name_fits d s t | (None, None, None) \<Rightarrow> True | _ \<Rightarrow> False)"

lemma get_token_name_length:
  assumes "get_token_name d s = Inr t"
  shows "length t \<le> 140"
proof -
  obtain d' s' where "truncate_str d 64 = Inr d'" "truncate_str s 64 = Inr s'"
    and t: "t = (if s' \<noteq> [] then s' @ ''.'' @ d' @ ''.apt'' else d' @ ''.apt'')"
    using assms by (auto simp: get_token_name_def domain_length_def Let_def)
  then have "length d' \<le> 64" "length s' \<le> 64" by (auto dest: truncate_str_length)
  then show ?thesis by (simp add: t)
qed

definition lookup_ok :: "i64 \<Rightarrow> i64 \<Rightarrow> current_ans_lookup \<times> ans_lookup \<Rightarrow> bool" where
  "lookup_ok version index r \<longleftrightarrow>
     (case r of (c, a) \<Rightarrow>
      cal_last_transaction_version c = version \<and> al_transaction_version a = version \<and>
      al_write_set_change_index a = index \<and> al_domain a = cal_domain c \<and> al_subdomain a = cal_subdomain c \<and>
      al_token_name a = cal_token_name c \<and> name_fits (cal_domain c) (cal_subdomain c) (cal_token_name c))"

definition lookup_v2_ok :: "i64 \<Rightarrow> i64 \<Rightarrow> current_ans_lookup_v2 \<times> ans_lookup_v2 \<Rightarrow> bool" where
  "lookup_v2_ok version index r \<longleftrightarrow>
     (case r of (c, a) \<Rightarrow>
      cal2_last_transaction_version c = version \<and> al2_transaction_version a = version \<and>
      al2_write_set_change_index a = index \<and> al2_domain a = cal2_domain c \<and> al2_subdomain a = cal2_subdomain c \<and>
      al2_token_name a = cal2_token_name c \<and> name_fits (cal2_domain c) (cal2_subdomain c) (cal2_token_name c))"

definition primary_name_ok :: "i64 \<Rightarrow> i64 \<Rightarrow> current_ans_primary_name \<times> ans_primary_name \<Rightarrow> bool" where
  "primary_name_ok version index r \<longleftrightarrow>
     (case r of (c, a) \<Rightarrow>
      capn_last_transaction_version c = version \<and> apn_transaction_version a = version \<and>
      apn_write_set_change_index a = index \<and> apn_domain a = capn_domain c \<and> apn_subdomain a = capn_subdomain c \<and>
      apn_token_name a = capn_token_name c \<and> opt_name_fits (capn_domain c) (capn_subdomain c) (capn_token_name c))"

definition primary_name_v2_ok :: "i64 \<Rightarrow> i64 \<Rightarrow> current_ans_primary_name_v2 \<times> ans_primary_name_v2 \<Rightarrow> bool" where
  "primary_name_v2_ok version index r \<longleftrightarrow>
     (case r of (c, a) \<Rightarrow>
      capn2_last_transaction_version c = version \<and> apn2_transaction_version a = version \<and>
      apn2_write_set_change_index a = index \<and> apn2_domain a = capn2_domain c \<and> apn2_subdomain a = capn2_subdomain c \<and>
      apn2_token_name a = capn2_token_name c \<and> opt_name_fits (capn2_domain c) (capn2_subdomain c) (capn2_token_name c))"

lemmas ans_ok_defs = lookup_ok_def lookup_v2_ok_def primary_name_ok_def primary_name_v2_ok_def

lemma key_name_fits:
  "nrk_get_domain_trunc k = Inr d \<Longrightarrow> nrk_get_subdomain_trunc k = Inr s \<Longrightarrow> nrk_get_token_name k = Inr t \<Longrightarrow> name_fits d s t"
  by (auto simp: name_fits_def ans_part_defs dest: truncate_str_length get_token_name_length)

lemma some_row_cases:
  "(case x of None \<Rightarrow> Inr None | Some a \<Rightarrow> f a) = Inr (Some r) \<longleftrightarrow> (\<exists>a. x = Some a \<and> f a = Inr (Some r))"
  "(case y of NameRecordKeyV1 k \<Rightarrow> g k | NameRecordV1 n \<Rightarrow> Inr None) = Inr (Some r) \<longleftrightarrow>
     (\<exists>k. y = NameRecordKeyV1 k \<and> g k = Inr (Some r))"
  "(case y of NameRecordKeyV1 k \<Rightarrow> Inr None | NameRecordV1 n \<Rightarrow> h n) = Inr (Some r) \<longleftrightarrow>
     (\<exists>n. y = NameRecordV1 n \<and> h n = Inr (Some r))"
  by (auto split: option.splits ans_table_item.splits)

lemma write_lookup_ok:
  "parse_name_record_from_write_table_item_v1 L item h version index = Inr (Some r) \<Longrightarrow> lookup_ok version index r"
  by (auto simp: some_row_cases parse_name_record_from_write_table_item_v1_def lookup_ok_def key_name_fits Let_def
      split: if_splits)

lemma delete_lookup_ok:
  "parse_name_record_from_delete_table_item_v1 L item h version index = Inr (Some r) \<Longrightarrow> lookup_ok version index r"
  by (auto simp: some_row_cases parse_name_record_from_delete_table_item_v1_def lookup_ok_def key_name_fits Let_def
      split: if_splits)

lemma write_primary_name_ok:
  "parse_primary_name_record_from_write_table_item_v1 L item h version index = Inr (Some r) \<Longrightarrow>
   primary_name_ok version index r"
  by (auto simp: some_row_cases parse_primary_name_record_from_write_table_item_v1_def primary_name_ok_def opt_name_fits_def
      key_name_fits Let_def split: if_splits)

lemma delete_primary_name_ok:
  "parse_primary_name_record_from_delete_table_item_v1 L item h version index = Inr (Some r) \<Longrightarrow>
   primary_name_ok version index r"
  by (auto simp: some_row_cases parse_primary_name_record_from_delete_table_item_v1_def primary_name_ok_def opt_name_fits_def Let_def
      split: if_splits)

lemma resource_lookup_ok:
  "parse_name_record_from_write_resource_v2 L wr addr version index exts = Inr (Some r) \<Longrightarrow> lookup_v2_ok version index r"
  by (auto simp: some_row_cases parse_name_record_from_write_resource_v2_def lookup_v2_ok_def name_fits_def ans_part_defs
      dest: truncate_str_length get_token_name_length split: option.splits)

lemma event_primary_name_ok:
  "parse_v2_primary_name_record_from_event L event version index addr = Inr (Some r) \<Longrightarrow>
   primary_name_v2_ok version (- (index + 1)) r \<and> capn2_token_standard (fst r) = ''v2'' \<and> apn2_token_standard (snd r) = ''v2''"
  by (auto simp: some_row_cases parse_v2_primary_name_record_from_event_def primary_name_v2_ok_def opt_name_fits_def name_fits_def
      ans_part_defs dest: truncate_str_length get_token_name_length split: if_splits)

lemma copied_ok:
  "lookup_ok version index r \<Longrightarrow> lookup_v2_ok version index (lookup_get_v2_from_v1 r)"
  "primary_name_ok version index p \<Longrightarrow> primary_name_v2_ok version index (primary_name_get_v2_from_v1 p)"
  by (auto simp: ans_ok_defs lookup_get_v2_from_v1_def primary_name_get_v2_from_v1_def split: prod.splits)

lemma ans_event_rows:
  assumes "ans_event L cfg version (i, e) = Inr rs"
  shows "length rs \<le> 1" and "r \<in> set rs \<Longrightarrow> primary_name_v2_ok version (- (int i + 1)) r"
    and "r \<in> set rs \<Longrightarrow> capn2_token_standard (fst r) = ''v2'' \<and> apn2_token_standard (snd r) = ''v2''"
  using assms event_primary_name_ok by (fastforce simp: ans_event_def opt_list_def split: option.splits)+

definition ans_change_ok :: "i64 \<Rightarrow> i64 \<Rightarrow> ans_rows \<Rightarrow> bool" where
  "ans_change_ok version index r \<longleftrightarrow>
     length (anr_lookups r) \<le> 1 \<and> length (anr_primary_names r) \<le> 1 \<and> length (anr_lookups_v2 r) \<le> 1 \<and>
     length (anr_primary_names_v2 r) \<le> 1 \<and>
     list_all (lookup_ok version index) (anr_lookups r) \<and>
     list_all (primary_name_ok version index) (anr_primary_names r) \<and>
     list_all (lookup_v2_ok version index) (anr_lookups_v2 r) \<and>
     list_all (primary_name_v2_ok version index) (anr_primary_names_v2 r)"

lemma ans_v1_rows_ok:
  "(\<And>r. l = Some r \<Longrightarrow> lookup_ok version index r) \<Longrightarrow> (\<And>r. p = Some r \<Longrightarrow> primary_name_ok version index r) \<Longrightarrow>
   ans_change_ok version index (ans_v1_rows l p)"
  by (cases l; cases p) (simp_all add: ans_v1_rows_def ans_change_ok_def copied_ok)

lemma ans_change_rows:
  assumes "ans_change L cfg version exts (i, c) = Inr r"
  shows "ans_change_ok version (int i) r"
proof -
  obtain ch where ch: "wsc_change c = Some ch" using assms by (auto simp: ans_change_def)
  show ?thesis
  proof (cases ch)
    case (WriteTableItem item)
    with assms ch show ?thesis
      by (auto simp: ans_change_def intro!: ans_v1_rows_ok write_lookup_ok write_primary_name_ok)
  next
    case (DeleteTableItem item)
    with assms ch show ?thesis
      by (auto simp: ans_change_def intro!: ans_v1_rows_ok delete_lookup_ok delete_primary_name_ok)
  next
    case (WriteResource wr)
    with assms ch show ?thesis
      by (auto simp: ans_change_def ans_change_ok_def no_ans_rows_def opt_list_def list_all_iff
          dest: resource_lookup_ok split: option.split)
  qed (use assms ch in \<open>auto simp: ans_change_def ans_change_ok_def no_ans_rows_def\<close>)
qed

text \<open>The copies of version 1 among the rows of version 2.\<close>

definition v1_lookups :: "(current_ans_lookup_v2 \<times> ans_lookup_v2) list \<Rightarrow> (current_ans_lookup_v2 \<times> ans_lookup_v2) list" where
  "v1_lookups rs = filter (\<lambda>r. cal2_token_standard (fst r) = ''v1'') rs"

definition v1_primary_names ::
  "(current_ans_primary_name_v2 \<times> ans_primary_name_v2) list \<Rightarrow> (current_ans_primary_name_v2 \<times> ans_primary_name_v2) list" where
  "v1_primary_names rs = filter (\<lambda>r. capn2_token_standard (fst r) = ''v1'') rs"

definition ans_mirrored :: "ans_rows \<Rightarrow> bool" where
  "ans_mirrored r \<longleftrightarrow>
     v1_lookups (anr_lookups_v2 r) = map lookup_get_v2_from_v1 (anr_lookups r) \<and>
     v1_primary_names (anr_primary_names_v2 r) = map primary_name_get_v2_from_v1 (anr_primary_names r) \<and>
     (\<forall>x \<in> set (anr_lookups_v2 r). al2_token_standard (snd x) = cal2_token_standard (fst x)) \<and>
     (\<forall>x \<in> set (anr_primary_names_v2 r). apn2_token_standard (snd x) = capn2_token_standard (fst x))"

lemma copied_standard [simp]:
  "cal2_token_standard (fst (lookup_get_v2_from_v1 r)) = ''v1''" "al2_token_standard (snd (lookup_get_v2_from_v1 r)) = ''v1''"
  "capn2_token_standard (fst (primary_name_get_v2_from_v1 p)) = ''v1''"
  "apn2_token_standard (snd (primary_name_get_v2_from_v1 p)) = ''v1''"
  by (simp_all add: lookup_get_v2_from_v1_def primary_name_get_v2_from_v1_def split: prod.split)

lemma resource_lookup_standard:
  "parse_name_record_from_write_resource_v2 L wr addr version index exts = Inr (Some r) \<Longrightarrow>
   cal2_token_standard (fst r) = ''v2'' \<and> al2_token_standard (snd r) = ''v2''"
  by (auto simp: parse_name_record_from_write_resource_v2_def some_row_cases split: option.splits)

lemma ans_change_mirrored:
  assumes "ans_change L cfg version exts (i, c) = Inr r"
  shows "ans_mirrored r"
proof -
  obtain ch where ch: "wsc_change c = Some ch" using assms by (auto simp: ans_change_def)
  have v1: "ans_mirrored (ans_v1_rows l p)" for l p
    by (cases l; cases p) (simp_all add: ans_mirrored_def ans_v1_rows_def v1_lookups_def v1_primary_names_def)
  have none: "ans_mirrored (no_ans_rows\<lparr>anr_lookups_v2 := opt_list x\<rparr>)"
    if "parse_name_record_from_write_resource_v2 L wr addr version (int i) exts = Inr x" for wr addr x
    using that by (cases x)
      (auto simp: ans_mirrored_def no_ans_rows_def v1_lookups_def v1_primary_names_def dest!: resource_lookup_standard)
  have "ans_mirrored no_ans_rows" by (simp add: ans_mirrored_def no_ans_rows_def v1_lookups_def v1_primary_names_def)
  with assms ch v1 none show ?thesis by (cases ch) (auto simp: ans_change_def)
qed

lemma ans_mirrored_concat:
  assumes "list_all ans_mirrored rs"
  shows "v1_lookups (concat (map anr_lookups_v2 rs)) = map lookup_get_v2_from_v1 (concat (map anr_lookups rs))"
    and "v1_primary_names (concat (map anr_primary_names_v2 rs)) = map primary_name_get_v2_from_v1 (concat (map anr_primary_names rs))"
    and "\<forall>x \<in> set (concat (map anr_lookups_v2 rs)). al2_token_standard (snd x) = cal2_token_standard (fst x)"
    and "\<forall>x \<in> set (concat (map anr_primary_names_v2 rs)). apn2_token_standard (snd x) = capn2_token_standard (fst x)"
  using assms by (induction rs) (auto simp: ans_mirrored_def v1_lookups_def v1_primary_names_def)

lemma no_ans_rows_simps [simp]:
  "anr_lookups no_ans_rows = []" "anr_primary_names no_ans_rows = []" "anr_lookups_v2 no_ans_rows = []"
  "anr_primary_names_v2 no_ans_rows = []"
  by (simp_all add: no_ans_rows_def)

text \<open>A transaction has no rows, or those of its events and its changes.\<close>

lemma ans_txn_cases:
  assumes "ans_from_transaction L cfg t = Inr r"
  obtains "r = no_ans_rows"
  | user_txn info events exts changes where "txn_txn_data t = Some (User user_txn)" and "txn_info t = Some info"
      and "map_result (ans_event L cfg (ver t)) (enumerate 0 (ut_events user_txn)) = Inr events"
      and "fold_result (add_subdomain_ext L cfg) (ti_changes info) [] = Inr exts"
      and "map_result (ans_change L cfg (ver t) exts) (enumerate 0 (ti_changes info)) = Inr changes"
      and "r = \<lparr>anr_lookups = concat (map anr_lookups changes), anr_primary_names = concat (map anr_primary_names changes),
        anr_lookups_v2 = concat (map anr_lookups_v2 changes),
        anr_primary_names_v2 = concat events @ concat (map anr_primary_names_v2 changes)\<rparr>"
proof (cases "\<exists>user_txn. txn_txn_data t = Some (User user_txn)")
  case True
  with assms that(2) show ?thesis by (auto simp: ans_from_transaction_def ver_def Let_def)
next
  case False
  with assms have "r = no_ans_rows"
    by (cases "txn_txn_data t"; cases "the (txn_txn_data t)") (auto simp: ans_from_transaction_def Let_def)
  with that(1) show ?thesis .
qed

lemma ans_txn_mirrored:
  assumes "ans_from_transaction L cfg t = Inr r"
  shows "ans_mirrored r"
  using assms
proof (cases rule: ans_txn_cases)
  case 1
  then show ?thesis by (simp add: ans_mirrored_def v1_lookups_def v1_primary_names_def)
next
  case (2 user_txn info events exts changes)
  have "list_all ans_mirrored changes"
    using map_result_in [OF 2(5)] ans_change_mirrored by (fastforce simp: list_all_iff)
  note changes = ans_mirrored_concat [OF this]
  have ev: "capn2_token_standard (fst x) = ''v2'' \<and> apn2_token_standard (snd x) = ''v2''" if x: "x \<in> set (concat events)" for x
  proof -
    obtain rs where "rs \<in> set events" "x \<in> set rs" using x by auto
    moreover from this obtain i e where "ans_event L cfg (ver t) (i, e) = Inr rs" using map_result_in [OF 2(3)] by force
    ultimately show ?thesis using ans_event_rows(3) by blast
  qed
  with changes show ?thesis
    by (simp add: ans_mirrored_def 2(6) v1_lookups_def v1_primary_names_def filter_empty_conv ball_Un ev del: set_concat)
qed

section \<open>The rows of a batch\<close>

definition ans_txn_rows :: "libs \<Rightarrow> ans_processor_config \<Rightarrow> transaction \<Rightarrow> ans_rows" where
  "ans_txn_rows L cfg t = (case ans_from_transaction L cfg t of Inr r \<Rightarrow> r | Inl _ \<Rightarrow> no_ans_rows)"

lemma ans_txn_rows_list:
  "map_result (ans_from_transaction L cfg) ts = Inr rs \<Longrightarrow> rs = map (ans_txn_rows L cfg) ts"
  by (induction ts arbitrary: rs) (auto simp: ans_txn_rows_def)

lemma parse_ans_rows:
  assumes "parse_ans L cfg ts = Inr rows"
  shows "map_result (ans_from_transaction L cfg) ts = Inr (map (ans_txn_rows L cfg) ts)"
    and "rows = ans_collect (map (ans_txn_rows L cfg) ts)"
proof -
  obtain rs where rs: "map_result (ans_from_transaction L cfg) ts = Inr rs" and rows: "rows = ans_collect rs"
    using assms unfolding parse_ans_def by fastforce
  have "rs = map (ans_txn_rows L cfg) ts" by (rule ans_txn_rows_list [OF rs])
  with rs rows show "map_result (ans_from_transaction L cfg) ts = Inr (map (ans_txn_rows L cfg) ts)"
    and "rows = ans_collect (map (ans_txn_rows L cfg) ts)" by simp_all
qed

lemma ans_collect_simps:
  "ani_lookups (ans_collect rs) = map snd (concat (map anr_lookups rs))"
  "ani_primary_names (ans_collect rs) = map snd (concat (map anr_primary_names rs))"
  "ani_lookups_v2 (ans_collect rs) = map snd (concat (map anr_lookups_v2 rs))"
  "ani_primary_names_v2 (ans_collect rs) = map snd (concat (map anr_primary_names_v2 rs))"
  "set (ani_current_lookups (ans_collect rs)) =
     {c. last_by cal_pk (cal_pk c) (map fst (concat (map anr_lookups rs))) = Some c}"
  "set (ani_current_primary_names (ans_collect rs)) =
     {c. last_by capn_pk (capn_pk c) (map fst (concat (map anr_primary_names rs))) = Some c}"
  "set (ani_current_lookups_v2 (ans_collect rs)) =
     {c. last_by cal2_pk (cal2_pk c) (map fst (concat (map anr_lookups_v2 rs))) = Some c}"
  "set (ani_current_primary_names_v2 (ans_collect rs)) =
     {c. last_by capn2_pk (capn2_pk c) (map fst (concat (map anr_primary_names_v2 rs))) = Some c}"
  by (simp_all add: ans_collect_def Let_def collect_by_image)

text \<open>Rows that are copied as they are collected give a copy of what was collected.\<close>

lemma mirrored_pairs:
  assumes "filter (\<lambda>r. P (fst r)) ys = map g xs" and "\<forall>y \<in> set ys. Q (snd y) \<longleftrightarrow> P (fst y)"
    and copy: "\<And>r. g r = (gc (fst r), ga (snd r))" and std: "\<And>c. P (gc c)"
    and P_key: "\<And>c c'. key' c = key' c' \<Longrightarrow> P c = P c'"
    and keys: "\<And>c c'. key' (gc c) = key' (gc c') \<longleftrightarrow> key c = key c'"
  shows "filter Q (map snd ys) = map ga (map snd xs)"
    and "{c \<in> {c. last_by key' (key' c) (map fst ys) = Some c}. P c} = gc ` {c. last_by key (key c) (map fst xs) = Some c}"
proof -
  have "filter Q (map snd ys) = map snd (filter (\<lambda>r. P (fst r)) ys)"
    using assms(2) by (simp add: filter_map comp_def cong: filter_cong)
  also have "\<dots> = map ga (map snd xs)" by (simp add: assms(1) copy comp_def)
  finally show "filter Q (map snd ys) = map ga (map snd xs)" .
  have "filter P (map fst ys) = map fst (filter (\<lambda>r. P (fst r)) ys)" by (simp add: filter_map comp_def)
  also have "\<dots> = map gc (map fst xs)" by (simp add: assms(1) copy comp_def)
  finally have only: "filter P (map fst ys) = map gc (map fst xs)" .
  have last: "last_by key' (key' (gc d)) (map fst ys) = map_option gc (last_by key (key d) (map fst xs))" for d
  proof -
    have "last_by key' (key' (gc d)) (map fst ys) = last_by key' (key' (gc d)) (filter P (map fst ys))"
      by (rule last_by_filter [symmetric]) (metis P_key std)
    also have "\<dots> = map_option gc (last_by key (key d) (map fst xs))" unfolding only by (rule last_by_map) (rule keys)
    finally show ?thesis .
  qed
  show "{c \<in> {c. last_by key' (key' c) (map fst ys) = Some c}. P c} = gc ` {c. last_by key (key c) (map fst xs) = Some c}"
  proof (intro equalityI subsetI)
    fix c
    assume c: "c \<in> {c \<in> {c. last_by key' (key' c) (map fst ys) = Some c}. P c}"
    then have "c \<in> set (filter P (map fst ys))" using last_by_Some by fastforce
    then obtain d where d: "c = gc d" unfolding only by auto
    from c obtain e where e: "last_by key (key d) (map fst xs) = Some e" "c = gc e" by (auto simp: d last)
    moreover have "key e = key d" using last_by_Some [OF e(1)] by simp
    ultimately show "c \<in> gc ` {c. last_by key (key c) (map fst xs) = Some c}" by auto
  qed (auto simp: last std)
qed

text \<open>
  C12: the tables of version 2 include the names of version 1. In every batch the rows of version 2 that
  carry the standard \<open>v1\<close> are exactly the copies of the rows of version 1: row by row and in the same order
  in the tables that keep the history, and as a set in the tables that keep the current names, although
  those are collected in maps of their own. The copy of a row does not depend on the other row of its pair.
\<close>

theorem ans_v1_mirrored:
  assumes "parse_ans L cfg ts = Inr rows"
  shows "filter (\<lambda>a. al2_token_standard a = ''v1'') (ani_lookups_v2 rows) =
      map (\<lambda>a. snd (lookup_get_v2_from_v1 (c0, a))) (ani_lookups rows) \<and>
    filter (\<lambda>a. apn2_token_standard a = ''v1'') (ani_primary_names_v2 rows) =
      map (\<lambda>a. snd (primary_name_get_v2_from_v1 (p0, a))) (ani_primary_names rows) \<and>
    {c \<in> set (ani_current_lookups_v2 rows). cal2_token_standard c = ''v1''} =
      (\<lambda>c. fst (lookup_get_v2_from_v1 (c, a0))) ` set (ani_current_lookups rows) \<and>
    {c \<in> set (ani_current_primary_names_v2 rows). capn2_token_standard c = ''v1''} =
      (\<lambda>c. fst (primary_name_get_v2_from_v1 (c, q0))) ` set (ani_current_primary_names rows)"
proof -
  define rs where "rs = map (ans_txn_rows L cfg) ts"
  note rows = parse_ans_rows [OF assms, folded rs_def]
  have "list_all ans_mirrored rs"
    using map_result_all [OF rows(1), of ans_mirrored] ans_txn_mirrored by blast
  note mirror = ans_mirrored_concat [OF this, unfolded v1_lookups_def v1_primary_names_def]
  let ?cl = "\<lambda>c. fst (lookup_get_v2_from_v1 (c, a0))" and ?al = "\<lambda>a. snd (lookup_get_v2_from_v1 (c0, a))"
  let ?cp = "\<lambda>c. fst (primary_name_get_v2_from_v1 (c, q0))" and ?ap = "\<lambda>a. snd (primary_name_get_v2_from_v1 (p0, a))"
  have copy: "lookup_get_v2_from_v1 r = (?cl (fst r), ?al (snd r))"
    "primary_name_get_v2_from_v1 p = (?cp (fst p), ?ap (snd p))" for r p
    by (simp_all add: lookup_get_v2_from_v1_def primary_name_get_v2_from_v1_def split: prod.split)
  have keys: "cal2_pk (?cl c) = cal2_pk (?cl c') \<longleftrightarrow> cal_pk c = cal_pk c'"
    "capn2_pk (?cp p) = capn2_pk (?cp p') \<longleftrightarrow> capn_pk p = capn_pk p'" for c c' p p'
    by (simp_all add: cal2_pk_def cal_pk_def capn2_pk_def capn_pk_def lookup_get_v2_from_v1_def primary_name_get_v2_from_v1_def)
  note lookups = mirrored_pairs [where P = "\<lambda>c. cal2_token_standard c = ''v1''" and Q = "\<lambda>a. al2_token_standard a = ''v1''"
      and gc = ?cl and ga = ?al and key' = cal2_pk and key = cal_pk,
      OF mirror(1) _ copy(1) copied_standard(1) _ keys(1)]
  note primary = mirrored_pairs [where P = "\<lambda>c. capn2_token_standard c = ''v1''" and Q = "\<lambda>a. apn2_token_standard a = ''v1''"
      and gc = ?cp and ga = ?ap and key' = capn2_pk and key = capn_pk,
      OF mirror(2) _ copy(2) copied_standard(3) _ keys(2)]
  show ?thesis
    unfolding rows(2) ans_collect_simps using mirror(3,4)
    by (intro conjI lookups primary) (auto simp: cal2_pk_def capn2_pk_def)
qed

section \<open>Keys and sizes of the rows\<close>

text \<open>What every row of a transaction carries, and that the rows of a table have their own indices.\<close>

definition ans_txn_ok :: "i64 \<Rightarrow> ans_rows \<Rightarrow> bool" where
  "ans_txn_ok v r \<longleftrightarrow>
     (\<forall>x \<in> set (anr_lookups r). \<exists>i. lookup_ok v i x) \<and> (\<forall>x \<in> set (anr_primary_names r). \<exists>i. primary_name_ok v i x) \<and>
     (\<forall>x \<in> set (anr_lookups_v2 r). \<exists>i. lookup_v2_ok v i x) \<and>
     (\<forall>x \<in> set (anr_primary_names_v2 r). \<exists>i. primary_name_v2_ok v i x)"

definition ans_txn_numbered :: "ans_rows \<Rightarrow> bool" where
  "ans_txn_numbered r \<longleftrightarrow>
     distinct (map (\<lambda>x. al_write_set_change_index (snd x)) (anr_lookups r)) \<and>
     distinct (map (\<lambda>x. apn_write_set_change_index (snd x)) (anr_primary_names r)) \<and>
     distinct (map (\<lambda>x. al2_write_set_change_index (snd x)) (anr_lookups_v2 r)) \<and>
     distinct (map (\<lambda>x. apn2_write_set_change_index (snd x)) (anr_primary_names_v2 r))"

lemma ans_txn_rows_ok:
  assumes "ans_from_transaction L cfg t = Inr r"
  shows "ans_txn_ok (ver t) r"
  using assms
proof (cases rule: ans_txn_cases)
  case (2 user_txn info events exts changes)
  have change: "\<exists>i. ans_change_ok (ver t) (int i) y" if "y \<in> set changes" for y
    using map_result_in [OF 2(5) that] ans_change_rows by fast
  have event: "\<exists>i. primary_name_v2_ok (ver t) i x" if "rs \<in> set events" "x \<in> set rs" for rs x
    using map_result_in [OF 2(3) that(1)] ans_event_rows(2) that(2) by fast
  show ?thesis
    unfolding ans_txn_ok_def using change event
    by (auto simp: 2(6) ans_change_ok_def list_all_iff; metis)
qed (simp add: ans_txn_ok_def)

lemma ans_txn_rows_numbered:
  assumes "ans_from_transaction L cfg t = Inr r"
  shows "ans_txn_numbered r"
  using assms
proof (cases rule: ans_txn_cases)
  case (2 user_txn info events exts changes)
  note ch = map_result_indexed [OF 2(5), where enc = int]
  have ok: "ans_change_ok (ver t) (int i) y" if "ans_change L cfg (ver t) exts (i, x) = Inr y" for i x y
    using ans_change_rows [OF that] .
  have "distinct (map (\<lambda>x. al_write_set_change_index (snd x)) (concat (map anr_lookups changes)))"
    "distinct (map (\<lambda>x. apn_write_set_change_index (snd x)) (concat (map anr_primary_names changes)))"
    "distinct (map (\<lambda>x. al2_write_set_change_index (snd x)) (concat (map anr_lookups_v2 changes)))"
    by (rule ch(1); use ok in \<open>fastforce simp: ans_change_ok_def list_all_iff ans_ok_defs inj_on_def\<close>)+
  moreover have "distinct (map (\<lambda>x. apn2_write_set_change_index (snd x)) (concat (map anr_primary_names_v2 changes)))"
    and later: "\<forall>x \<in> set (concat (map anr_primary_names_v2 changes)). \<exists>i. apn2_write_set_change_index (snd x) = int i"
    by (rule ch; use ok in \<open>fastforce simp: ans_change_ok_def list_all_iff ans_ok_defs inj_on_def\<close>)+
  moreover have "distinct (map (\<lambda>x. apn2_write_set_change_index (snd x)) (concat (map id events)))"
    and early: "\<forall>x \<in> set (concat (map id events)). \<exists>i. apn2_write_set_change_index (snd x) = - (int i + 1)"
    by (rule map_result_indexed [OF 2(3), where enc = "\<lambda>i. - (int i + 1)"];
        use ans_event_rows in \<open>fastforce simp: ans_ok_defs inj_on_def\<close>)+
  moreover have "apn2_write_set_change_index (snd x) \<noteq> apn2_write_set_change_index (snd y)"
    if "x \<in> set (concat events)" "y \<in> set (concat (map anr_primary_names_v2 changes))" for x y
    using bspec [OF early, of x] bspec [OF later that(2)] that(1) by auto
  ultimately show ?thesis by (simp add: ans_txn_numbered_def 2(6)) blast
qed (simp add: ans_txn_numbered_def)

lemma parse_ans_all:
  assumes "parse_ans L cfg ts = Inr rows" and "\<And>t r. ans_from_transaction L cfg t = Inr r \<Longrightarrow> P (ver t) r" and "t \<in> set ts"
  shows "P (ver t) (ans_txn_rows L cfg t)"
proof -
  have "list_all2 (\<lambda>t r. ans_from_transaction L cfg t = Inr r) ts (map (ans_txn_rows L cfg) ts)"
    using parse_ans_rows(1) [OF assms(1)] by (simp add: map_result_Inr)
  then have "ans_from_transaction L cfg t = Inr (ans_txn_rows L cfg t)"
    using assms(3) by (auto simp: list_all2_map2 list_all2_same)
  then show ?thesis by (rule assms(2))
qed

text \<open>
  C14: the names fit into the tables. Whatever strings the chain holds, in every row of the eight tables the
  domain and the subdomain have at most 64 bytes and the name of the token at most 140, the sizes of their
  columns; a row of a primary name has all three or none of them.
\<close>

theorem ans_rows_fit_columns:
  assumes "parse_ans L cfg ts = Inr rows"
  shows "(\<forall>c \<in> set (ani_current_lookups rows). name_fits (cal_domain c) (cal_subdomain c) (cal_token_name c)) \<and>
    (\<forall>a \<in> set (ani_lookups rows). name_fits (al_domain a) (al_subdomain a) (al_token_name a)) \<and>
    (\<forall>c \<in> set (ani_current_primary_names rows). opt_name_fits (capn_domain c) (capn_subdomain c) (capn_token_name c)) \<and>
    (\<forall>a \<in> set (ani_primary_names rows). opt_name_fits (apn_domain a) (apn_subdomain a) (apn_token_name a)) \<and>
    (\<forall>c \<in> set (ani_current_lookups_v2 rows). name_fits (cal2_domain c) (cal2_subdomain c) (cal2_token_name c)) \<and>
    (\<forall>a \<in> set (ani_lookups_v2 rows). name_fits (al2_domain a) (al2_subdomain a) (al2_token_name a)) \<and>
    (\<forall>c \<in> set (ani_current_primary_names_v2 rows).
      opt_name_fits (capn2_domain c) (capn2_subdomain c) (capn2_token_name c)) \<and>
    (\<forall>a \<in> set (ani_primary_names_v2 rows). opt_name_fits (apn2_domain a) (apn2_subdomain a) (apn2_token_name a))"
proof -
  define rs where "rs = map (ans_txn_rows L cfg) ts"
  have ok: "\<forall>r \<in> set rs. \<exists>v. ans_txn_ok v r"
    using parse_ans_all [OF assms, where P = ans_txn_ok] ans_txn_rows_ok by (auto simp: rs_def)
  let ?l = "concat (map anr_lookups rs)" and ?p = "concat (map anr_primary_names rs)"
  let ?l2 = "concat (map anr_lookups_v2 rs)" and ?p2 = "concat (map anr_primary_names_v2 rs)"
  have rows: "\<forall>x \<in> set ?l. \<exists>v i. lookup_ok v i x" "\<forall>x \<in> set ?p. \<exists>v i. primary_name_ok v i x"
    "\<forall>x \<in> set ?l2. \<exists>v i. lookup_v2_ok v i x" "\<forall>x \<in> set ?p2. \<exists>v i. primary_name_v2_ok v i x"
    using ok by (force simp: ans_txn_ok_def)+
  have current: "\<exists>x \<in> set xs. c = fst x" if "last_by key k (map fst xs) = Some c" for key :: "'x \<Rightarrow> 'k" and k xs c
    using last_by_Some [OF that] by auto
  show ?thesis
    unfolding parse_ans_rows(2) [OF assms, folded rs_def] ans_collect_simps
    by (intro conjI ballI; (drule CollectD, drule current)?; use rows in \<open>fastforce simp: ans_ok_defs simp del: set_concat\<close>)
qed

definition ans_key :: "('a \<Rightarrow> i64) \<Rightarrow> ('a \<Rightarrow> i64) \<Rightarrow> 'a \<Rightarrow> i64 \<times> i64" where
  "ans_key version index a = (version a, index a)"

text \<open>
  C13: every row has its own key. In a batch of transactions with increasing versions no two rows of a
  history table have the same version and index, although the primary names of version 2 come from events
  and from changes, which are numbered independently (events count down from -1); and no two rows of a
  current table have the same primary key, so no statement proposes a key twice.
\<close>

theorem ans_rows_have_own_keys:
  assumes "parse_ans L cfg ts = Inr rows" and "version_ordered ts"
  shows "distinct (map (ans_key al_transaction_version al_write_set_change_index) (ani_lookups rows)) \<and>
    distinct (map (ans_key apn_transaction_version apn_write_set_change_index) (ani_primary_names rows)) \<and>
    distinct (map (ans_key al2_transaction_version al2_write_set_change_index) (ani_lookups_v2 rows)) \<and>
    distinct (map (ans_key apn2_transaction_version apn2_write_set_change_index) (ani_primary_names_v2 rows)) \<and>
    distinct (map cal_pk (ani_current_lookups rows)) \<and> distinct (map capn_pk (ani_current_primary_names rows)) \<and>
    distinct (map cal2_pk (ani_current_lookups_v2 rows)) \<and> distinct (map capn2_pk (ani_current_primary_names_v2 rows))"
proof -
  let ?f = "ans_txn_rows L cfg"
  have ok: "ans_txn_ok (ver t) (?f t)" "ans_txn_numbered (?f t)" if "t \<in> set ts" for t
    using parse_ans_all [OF assms(1) _ that, where P = ans_txn_ok] ans_txn_rows_ok
      parse_ans_all [OF assms(1) _ that, where P = "\<lambda>_. ans_txn_numbered"] ans_txn_rows_numbered by blast+
  have keys: "distinct (map (ans_key version index) (map snd (concat (map h (map ?f ts)))))"
    if num: "\<And>t. t \<in> set ts \<Longrightarrow> distinct (map (\<lambda>x. index (snd x)) (h (?f t)))"
      and ver: "\<And>t x. t \<in> set ts \<Longrightarrow> x \<in> set (h (?f t)) \<Longrightarrow> version (snd x) = ver t"
    for h :: "ans_rows \<Rightarrow> ('c \<times> 'a) list" and version index
  proof -
    let ?g = "\<lambda>t. if t \<in> set ts then h (?f t) else []"
    have "distinct (map (\<lambda>x. ans_key version index (snd x)) (concat (map ?g ts)))"
    proof (rule versioned_keys_distinct [OF assms(2), where version_of = fst])
      fix t
      assume t: "t \<in> set ts"
      have "distinct (map (\<lambda>x. ans_key version index (snd x)) (h (?f t)))"
        using num [OF t] by (auto simp: ans_key_def distinct_map inj_on_def)
      with t show "distinct (map (\<lambda>x. ans_key version index (snd x)) (?g t))" by simp
    qed (use ver in \<open>auto simp: ans_key_def split: if_splits\<close>)
    moreover have "map ?g ts = map h (map ?f ts)" by simp
    ultimately show ?thesis by (simp add: comp_def)
  qed
  have current: "distinct (map cal_pk (ani_current_lookups (ans_collect rs)))"
    "distinct (map capn_pk (ani_current_primary_names (ans_collect rs)))"
    "distinct (map cal2_pk (ani_current_lookups_v2 (ans_collect rs)))"
    "distinct (map capn2_pk (ani_current_primary_names_v2 (ans_collect rs)))" for rs
    by (simp_all add: ans_collect_def Let_def collect_by_sort_distinct)
  show ?thesis
    unfolding parse_ans_rows(2) [OF assms(1)]
  proof (intro conjI current; unfold ans_collect_simps; rule keys)
  qed (use ok in \<open>fastforce simp: ans_txn_ok_def ans_txn_numbered_def ans_ok_defs\<close>)+
qed

section \<open>The current names\<close>

definition ans_columns :: "string set" where
  "ans_columns = {''domain'', ''subdomain'', ''token_standard'', ''registered_address'', ''last_transaction_version'',
     ''expiration_timestamp'', ''token_name'', ''is_deleted'', ''subdomain_expiration_policy''}"

definition ans_writes :: "libs \<Rightarrow> ans_processor_config \<Rightarrow> transaction \<Rightarrow> current_ans_lookup_v2 list" where
  "ans_writes L cfg t = map fst (anr_lookups_v2 (ans_txn_rows L cfg t))"

lemma ans_batch_current:
  assumes "parse_ans L cfg ts = Inr rows"
  shows "set (ani_current_lookups_v2 rows) = {c. latest_row (ans_writes L cfg) cal2_pk ts (cal2_pk c) = Some c}"
proof -
  have "map fst (concat (map anr_lookups_v2 (map (ans_txn_rows L cfg) ts))) = concat (map (ans_writes L cfg) ts)"
    by (simp add: map_concat comp_def ans_writes_def [abs_def])
  then show ?thesis by (simp only: parse_ans_rows(2) [OF assms] ans_collect_simps latest_row_def)
qed

lemma ans_writes_version: "c \<in> set (ans_writes L cfg t) \<Longrightarrow> cal2_last_transaction_version c = ver t"
  using ans_txn_rows_ok [of L cfg t]
  by (fastforce simp: ans_writes_def ans_txn_rows_def ans_txn_ok_def ans_ok_defs split: sum.splits)

interpretation ans_current: guarded_query
  "[''domain'', ''subdomain'', ''token_standard'']"
  "[''registered_address'', ''expiration_timestamp'', ''last_transaction_version'', ''token_name'', ''is_deleted'',
    ''inserted_at'', ''subdomain_expiration_policy'']"
  "WhereLe ''last_transaction_version''" ans_columns insert_current_ans_lookups_v2_query current_ans_lookup_v2_row
  "''current_ans_lookup_v2''"
proof
  show "full_row (WhereLe ''last_transaction_version'') ans_columns (current_ans_lookup_v2_row c)" for c
    by (auto simp: full_row_def ans_columns_def current_ans_lookup_v2_row_def has_version_def int_cell_def)
qed (auto simp: ans_columns_def insert_current_ans_lookups_v2_query_def)

lemma ans_current_arow:
  "ans_current.arow c = map_of (current_ans_lookup_v2_row c)"
  "ans_current.pkey (ans_current.arow c) =
     [SqlText (cal2_domain c), SqlText (cal2_subdomain c), SqlText (cal2_token_standard c)]"
  unfolding ans_current.arow_def
  by (subst restrict_row; simp add: current_ans_lookup_v2_row_def ans_columns_def)
    (simp add: current_ans_lookup_v2_row_def ans_columns_def row_key_def cell_def)

interpretation latest_names: latest_table
  "[''domain'', ''subdomain'', ''token_standard'']"
  "[''registered_address'', ''expiration_timestamp'', ''last_transaction_version'', ''token_name'', ''is_deleted'',
    ''inserted_at'', ''subdomain_expiration_policy'']"
  "''last_transaction_version''" ans_columns insert_current_ans_lookups_v2_query current_ans_lookup_v2_row
  "''current_ans_lookup_v2''" "ans_writes L cfg" cal2_pk "run_batch (ans_process_transactions L cfg sds durations)"
  "sd_current_ans_lookup_v2 sds"
  for L cfg sds durations
proof
  show "int_of (map_of (current_ans_lookup_v2_row c)) ''last_transaction_version'' = ver t"
    if "c \<in> set (ans_writes L cfg t)" for c t
    using ans_writes_version [OF that] by (simp add: current_ans_lookup_v2_row_def int_of_def)
next
  fix env sizes txns d d' X g
  assume run: "run_batch (ans_process_transactions L cfg sds durations) (env, sizes, txns) d = (Inr (), d')"
    and env: "server_ok g env insert_current_ans_lookups_v2_query X" "clean_stable (sd_current_ans_lookup_v2 sds) X"
    and sub: "{c. latest_row (ans_writes L cfg) cal2_pk txns (cal2_pk c) = Some c} \<subseteq> X"
    and ok: "table_ok [''domain'', ''subdomain'', ''token_standard''] (WhereLe ''last_transaction_version'') ans_columns
      (d ''current_ans_lookup_v2'')"
  obtain rows where rows: "parse_ans L cfg txns = Inr rows" and ins: "ans_insert_to_db sds sizes env rows d = (Inr (), d')"
    using run unfolding ans_process_transactions_def by (auto elim: run_batch_ok)
  have pg: "postgres (pg_exec env)" using env(1) by (simp add: server_ok_def)
  note cur = ans_batch_current [OF rows]
  show "ans_current.ingested g {c. latest_row (ans_writes L cfg) cal2_pk txns (cal2_pk c) = Some c}
    (d ''current_ans_lookup_v2'') (d' ''current_ans_lookup_v2'')"
    unfolding cur [symmetric]
    by (rule ans_current.join_ingests [OF ins [unfolded ans_insert_to_db_def Let_def], where i = 4, OF _ _ _ env])
      (use sub ok cur pg in \<open>simp_all add: execute_in_chunks_untouched ans_query_defs\<close>)
qed

text \<open>
  C11: what the table of current names holds. Take a history of transactions with increasing versions, cut into
  batches in any way, processed in any order and any number of times, starting from an empty table; the rows of the
  history are left as they are by the removal of null bytes. Then a domain, subdomain and standard has a row exactly
  when the history gives it a record, a deletion included, and the row is one of those; if no statement loses its
  version guard, that is if the debug text of no query over these rows contains \<open>where\<close> (a name such as \<open>where.apt\<close> does
  it), it is the last one.
\<close>

theorem current_ans_lookups_converge:
  assumes "insert_batches (run_batch (ans_process_transactions L cfg sds durations)) runs d = Inr d'"
    and "d ''current_ans_lookup_v2'' = Map.empty" and "version_ordered H" and "set H = run_txns runs"
    and "servers_ok runs" and "clean_stable (sd_current_ans_lookup_v2 sds) (written (ans_writes L cfg) H)"
  shows "stored_from (\<lambda>c. map_of (current_ans_lookup_v2_row c)) {c \<in> written (ans_writes L cfg) H.
        [SqlText (cal2_domain c), SqlText (cal2_subdomain c), SqlText (cal2_token_standard c)] = K}
      (view ans_columns (d' ''current_ans_lookup_v2'') K) \<and>
    (guards_kept runs insert_current_ans_lookups_v2_query (written (ans_writes L cfg) H) \<longrightarrow>
      (view ans_columns (d' ''current_ans_lookup_v2'') K = Some r \<longleftrightarrow>
        (\<exists>c. latest_row (ans_writes L cfg) cal2_pk H (cal2_pk c) = Some c \<and>
          [SqlText (cal2_domain c), SqlText (cal2_subdomain c), SqlText (cal2_token_standard c)] = K \<and>
          map_of (current_ans_lookup_v2_row c) = r)))"
proof -
  have keys: "\<forall>a \<in> written (ans_writes L cfg) H. \<forall>b \<in> written (ans_writes L cfg) H.
    ans_current.pkey (ans_current.arow a) = ans_current.pkey (ans_current.arow b) \<longleftrightarrow> cal2_pk a = cal2_pk b"
    by (simp add: ans_current_arow(2) cal2_pk_def)
  show ?thesis
    using latest_names.latest_content [OF assms keys] unfolding ans_current_arow(2) unfolding ans_current_arow(1) [abs_def] by blast
qed

section \<open>Runs\<close>

text \<open>A transaction that registers the name \<open>gold.apt\<close> in the table of version 1.\<close>

definition ans_libs :: libs where
  "ans_libs = sample_libs\<lparr>lib_json_from_str := (\<lambda>s.
     if s = ''key'' then Some (JObject [(''domain_name'', JString ''gold''), (''subdomain_name'', JObject [(''vec'', JArray [])])])
     else Some (JObject [(''expiration_time_sec'', JString ''1''), (''property_version'', JString ''1''),
       (''target_address'', JObject [(''vec'', JArray [JString ''0xa''])])]))\<rparr>"

definition ans_cfg :: ans_processor_config where
  "ans_cfg = \<lparr>apc_ans_v1_primary_names_table_handle = ''0x2'', apc_ans_v1_name_records_table_handle = ''0x1'',
     apc_ans_v2_contract_address = ''0x3''\<rparr>"

definition name_change :: write_set_change_pb where
  "name_change = \<lparr>wsc_type = 6, wsc_change = Some (WriteTableItem \<lparr>wti_state_key_hash = [], wti_handle = ''0x1'', wti_key = [],
     wti_data = Some \<lparr>wtd_key = ''key'', wtd_key_type = ''0x1::domains::NameRecordKeyV1'', wtd_value = ''value'',
       wtd_value_type = ''0x1::domains::NameRecordV1''\<rparr>\<rparr>)\<rparr>"

definition ans_txn :: "u64 \<Rightarrow> transaction" where
  "ans_txn v = (sample_user_txn v)\<lparr>txn_info := map_option (\<lambda>i. i\<lparr>ti_changes := [name_change]\<rparr>) (txn_info (sample_user_txn v))\<rparr>"

definition sample_lookup :: "i64 \<Rightarrow> current_ans_lookup \<times> ans_lookup" where
  "sample_lookup v =
     (\<lparr>cal_domain = ''gold'', cal_subdomain = [], cal_registered_address = Some (standardize_address ''0xa''),
       cal_last_transaction_version = v, cal_expiration_timestamp = (1, 0), cal_token_name = ''gold.apt'', cal_is_deleted = False\<rparr>,
      \<lparr>al_transaction_version = v, al_write_set_change_index = 0, al_domain = ''gold'', al_subdomain = [],
       al_registered_address = Some (standardize_address ''0xa''), al_expiration_timestamp = (1, 0),
       al_token_name = ''gold.apt'', al_is_deleted = False\<rparr>)"

abbreviation sample_name :: "i64 \<Rightarrow> current_ans_lookup_v2" where
  "sample_name v \<equiv> fst (lookup_get_v2_from_v1 (sample_lookup v))"

lemma sample_name_parts:
  "get_name_from_unnested_move_type ''0x1::domains::NameRecordKeyV1'' = ''NameRecordKeyV1''"
  "get_name_from_unnested_move_type ''0x1::domains::NameRecordV1'' = ''NameRecordV1''"
  "truncate_str ''gold'' 64 = Inr ''gold''" "truncate_str [] 64 = Inr []"
  "standardize_address ''0x1'' \<noteq> standardize_address ''0x2''"
  by code_simp+

lemma sample_expiration: "as_i64 (min 1 (as_u64 max_timestamp_secs)) = 1"
  by code_simp

lemma ans_txn_run: "ans_from_transaction ans_libs ans_cfg (ans_txn v) = Inr (ans_v1_rows (Some (sample_lookup (as_i64 v))) None)"
  by (simp add: ans_from_transaction_def ans_txn_def sample_user_txn_def add_subdomain_ext_def name_change_def ans_change_def
      ans_cfg_def parse_name_record_from_write_table_item_v1_def parse_primary_name_record_from_write_table_item_v1_def
      sample_name_parts from_table_item_def from_json_str_def ans_libs_def sample_libs_def parse_or_err_def
      read_name_record_key_v1_def read_name_record_v1_def field_def read_optional_string_def read_single_def
      read_bigdecimal_def deserialize_from_string_def ans_part_defs get_string_def get_token_name_def
      nr1_get_expiration_time_def expiration_of_def bigdecimal_to_u64_def parse_timestamp_secs_def sample_expiration
      nr1_get_target_address_def sample_lookup_def ans_v1_rows_def Let_def)

lemma ans_txn_batch_rows:
  "parse_ans ans_libs ans_cfg [ans_txn v] = Inr (ans_collect [ans_v1_rows (Some (sample_lookup (as_i64 v))) None])"
  by (simp add: parse_ans_def ans_txn_run)

lemma ans_writes_sample: "ans_writes ans_libs ans_cfg (ans_txn v) = [sample_name (as_i64 v)]"
  by (simp add: ans_writes_def ans_txn_rows_def ans_txn_run ans_v1_rows_def)

lemma ans_txn_batch:
  "\<exists>d'. run_batch (ans_process_transactions ans_libs ans_cfg sds durations) (sample_pg, [], [ans_txn v]) d = (Inr (), d')"
proof -
  let ?rows = "ans_collect [ans_v1_rows (Some (sample_lookup (as_i64 v))) None]"
  have "\<exists>d'. ans_insert_to_db sds [] sample_pg ?rows d = (Inr (), d')"
    unfolding ans_insert_to_db_def Let_def
    by (rule join_inserts_succeeds, unfold list.set ball_simps, intro conjI allI TrueI)
      (rule reference_single reference_do_nothing;
        simp add: default_chunk_size ans_query_defs ans_collect_def ans_v1_rows_def collect_by_def del: One_nat_def)+
  with ans_txn_batch_rows show ?thesis unfolding ans_process_transactions_def by (intro run_batch_succeeds) auto
qed

theorem ans_v1_mirrored_witness:
  "\<exists>rows. parse_ans ans_libs ans_cfg [ans_txn 7] = Inr rows \<and>
    filter (\<lambda>a. al2_token_standard a = ''v1'') (ani_lookups_v2 rows) = [snd (lookup_get_v2_from_v1 (sample_lookup 7))]"
  using ans_v1_mirrored [OF ans_txn_batch_rows [of 7], where ?c0.0 = "fst (sample_lookup 7)"] ans_txn_batch_rows [of 7]
  by (simp add: ans_collect_simps ans_v1_rows_def as_i64_small)

theorem ans_rows_fit_columns_witness:
  "\<exists>rows. parse_ans ans_libs ans_cfg [ans_txn 7] = Inr rows \<and> name_fits ''gold'' [] ''gold.apt''"
  using ans_rows_fit_columns [OF ans_txn_batch_rows [of 7]] ans_txn_batch_rows [of 7]
  by (simp add: ans_collect_simps ans_v1_rows_def sample_lookup_def)

theorem ans_rows_have_own_keys_witness:
  "\<exists>rows. parse_ans ans_libs ans_cfg [ans_txn 7] = Inr rows \<and> distinct (map cal2_pk (ani_current_lookups_v2 rows))"
  using ans_rows_have_own_keys [OF ans_txn_batch_rows [of 7]] ans_txn_batch_rows [of 7]
  by (simp add: version_ordered_def)

definition sample_ans_serdes :: ans_serdes where
  "sample_ans_serdes =
     \<lparr>sd_current_ans_lookup = \<lparr>to_value = (\<lambda>_. JNull), from_value = (\<lambda>_. None)\<rparr>,
       sd_ans_lookup = \<lparr>to_value = (\<lambda>_. JNull), from_value = (\<lambda>_. None)\<rparr>,
       sd_current_ans_primary_name = \<lparr>to_value = (\<lambda>_. JNull), from_value = (\<lambda>_. None)\<rparr>,
       sd_ans_primary_name = \<lparr>to_value = (\<lambda>_. JNull), from_value = (\<lambda>_. None)\<rparr>,
       sd_current_ans_lookup_v2 = \<lparr>to_value = (\<lambda>c. JInt (cal2_last_transaction_version c)),
         from_value = (\<lambda>j. case j of JInt v \<Rightarrow> Some (sample_name v) | _ \<Rightarrow> None)\<rparr>,
       sd_ans_lookup_v2 = \<lparr>to_value = (\<lambda>_. JNull), from_value = (\<lambda>_. None)\<rparr>,
       sd_current_ans_primary_name_v2 = \<lparr>to_value = (\<lambda>_. JNull), from_value = (\<lambda>_. None)\<rparr>,
       sd_ans_primary_name_v2 = \<lparr>to_value = (\<lambda>_. JNull), from_value = (\<lambda>_. None)\<rparr>\<rparr>"

text \<open>The later transaction is processed first, the earlier one next, and the later one again.\<close>

theorem current_ans_lookups_converge_witness:
  "\<exists>d'. insert_batches (run_batch (ans_process_transactions ans_libs ans_cfg sample_ans_serdes (0, 0)))
      [(sample_pg, [], [ans_txn 8]), (sample_pg, [], [ans_txn 7]), (sample_pg, [], [ans_txn 8])] (\<lambda>_. Map.empty) = Inr d' \<and>
    view ans_columns (d' ''current_ans_lookup_v2'') [SqlText ''gold'', SqlText [], SqlText ''v1''] =
      Some (map_of (current_ans_lookup_v2_row (sample_name 8)))"
proof -
  let ?batch = "run_batch (ans_process_transactions ans_libs ans_cfg sample_ans_serdes (0, 0))"
  let ?runs = "[(sample_pg, [], [ans_txn 8]), (sample_pg, [], [ans_txn 7]), (sample_pg, [], [ans_txn 8])]"
  let ?H = "[ans_txn 7, ans_txn 8]"
  have vers: "ver (ans_txn 7) = 7" "ver (ans_txn 8) = 8" by (simp_all add: ver_def ans_txn_def sample_user_txn_def as_i64_small)
  obtain d' where run: "insert_batches ?batch ?runs (\<lambda>_. Map.empty) = Inr d'"
    using insert_batches_total [of ?runs ?batch "\<lambda>_. Map.empty"] ans_txn_batch by (auto simp del: insert_batches.simps)
  have clean: "clean_stable (sd_current_ans_lookup_v2 sample_ans_serdes) (written (ans_writes ans_libs ans_cfg) ?H)"
    by (auto simp: clean_stable_def written_def ans_writes_sample remove_null_bytes_def sample_ans_serdes_def
        lookup_get_v2_from_v1_def sample_lookup_def)
  have "latest_row (ans_writes ans_libs ans_cfg) cal2_pk ?H (cal2_pk (sample_name 8)) = Some (sample_name 8)"
    by (simp add: latest_row_def ans_writes_sample last_by_def as_i64_small)
  moreover have "view ans_columns (d' ''current_ans_lookup_v2'') K = Some r \<longleftrightarrow>
      (\<exists>c. latest_row (ans_writes ans_libs ans_cfg) cal2_pk ?H (cal2_pk c) = Some c \<and>
        [SqlText (cal2_domain c), SqlText (cal2_subdomain c), SqlText (cal2_token_standard c)] = K \<and>
        map_of (current_ans_lookup_v2_row c) = r)" for K r
    by (rule current_ans_lookups_converge [OF run _ _ _ _ clean, THEN conjunct2, THEN mp])
      (auto simp: version_ordered_def vers servers_ok_def guards_kept_def sample_pg_ok run_txns_def)
  moreover have "cal2_domain (sample_name 8) = ''gold''" "cal2_subdomain (sample_name 8) = []"
    "cal2_token_standard (sample_name 8) = ''v1''"
    by (simp_all add: lookup_get_v2_from_v1_def sample_lookup_def)
  ultimately show ?thesis using run by (metis (no_types, lifting))
qed

end
