(* ===== verification/Stake_Models.thy ===== *)
theory Stake_Models
  imports Object_Utils Processor
begin

text \<open>
  \<open>models/stake_models\<close>: staking pools, delegated stake, votes and voters. The shares of delegators are
  items of tables whose handles are found in the resource of the pool (the active shares) or in another
  table item (the inactive shares); an item is a share only if its handle is known. Two lookups ask the
  database with a bounded number of attempts; \<open>seen n\<close> is what the lookup sees at attempt \<open>n\<close>. The division
  of decimal numbers rounds and panics on zero; it is the field \<open>lib_bigdecimal_div\<close> of the libraries.
\<close>

section \<open>Resources and events (\<open>stake_utils.rs\<close>)\<close>

definition stake_addr :: string where
  "stake_addr = ''0x0000000000000000000000000000000000000000000000000000000000000001''"

record stake_pool_resource =
  spr_delegated_voter :: string
  spr_operator_address :: string

text \<open>\<open>shares\<close> is the handle in \<open>SharesInnerResource\<close>.\<close>

record pool_resource =
  plr_shares :: string
  plr_total_coins :: rat
  plr_total_shares :: rat
  plr_scaling_factor :: rat

record delegation_pool_resource =
  dpr_active_shares :: pool_resource
  dpr_inactive_shares :: string
  dpr_operator_commission_percentage :: rat

record governance_vote_event =
  gve_proposal_id :: u64
  gve_voter :: string
  gve_stake_pool :: string
  gve_num_votes :: rat
  gve_should_pass :: bool

text \<open>The events of a delegator carry an amount, the delegator and the pool; the rewards of a pool no delegator.\<close>

record delegator_event =
  dev_amount :: u64
  dev_delegator_address :: string
  dev_pool_address :: string

datatype stake_resource = StakePool stake_pool_resource | DelegationPool delegation_pool_resource

datatype stake_event =
    GovernanceVoteEvent governance_vote_event
  | DistributeRewardsEvent string u64
  | AddStakeEvent delegator_event
  | UnlockStakeEvent delegator_event
  | WithdrawStakeEvent delegator_event
  | ReactivateStakeEvent delegator_event

record vote_delegation_vector =
  vdv_key :: string
  vdv_voter :: string
  vdv_pending_voter :: string

definition read_stake_pool :: "stake_pool_resource reader" where
  "read_stake_pool j =
     (let names = [''delegated_voter'', ''operator_address''] in
      Option.bind (field names ''delegated_voter'' read_string j) (\<lambda>voter.
      Option.bind (field names ''operator_address'' read_string j) (\<lambda>operator.
      Some \<lparr>spr_delegated_voter = voter, spr_operator_address = operator\<rparr>)))"

definition read_pool_resource :: "libs \<Rightarrow> pool_resource reader" where
  "read_pool_resource L j =
     (let names = [''shares'', ''total_coins'', ''total_shares'', ''scaling_factor''] in
      Option.bind (field names ''shares'' (read_single ''inner'' read_table) j) (\<lambda>shares.
      Option.bind (field names ''total_coins'' (read_bigdecimal L) j) (\<lambda>total_coins.
      Option.bind (field names ''total_shares'' (read_bigdecimal L) j) (\<lambda>total_shares.
      Option.bind (field names ''scaling_factor'' (read_bigdecimal L) j) (\<lambda>scaling_factor.
      Some \<lparr>plr_shares = shares, plr_total_coins = total_coins, plr_total_shares = total_shares,
            plr_scaling_factor = scaling_factor\<rparr>)))))"

definition read_delegation_pool :: "libs \<Rightarrow> delegation_pool_resource reader" where
  "read_delegation_pool L j =
     (let names = [''active_shares'', ''inactive_shares'', ''operator_commission_percentage''] in
      Option.bind (field names ''active_shares'' (read_pool_resource L) j) (\<lambda>active.
      Option.bind (field names ''inactive_shares'' read_table j) (\<lambda>inactive.
      Option.bind (field names ''operator_commission_percentage'' (read_bigdecimal L) j) (\<lambda>commission.
      Some \<lparr>dpr_active_shares = active, dpr_inactive_shares = inactive,
            dpr_operator_commission_percentage = commission\<rparr>))))"

definition read_governance_vote_event :: "libs \<Rightarrow> governance_vote_event reader" where
  "read_governance_vote_event L j =
     (let names = [''proposal_id'', ''voter'', ''stake_pool'', ''num_votes'', ''should_pass''] in
      Option.bind (field names ''proposal_id'' (deserialize_from_string parse_u64) j) (\<lambda>proposal_id.
      Option.bind (field names ''voter'' read_string j) (\<lambda>voter.
      Option.bind (field names ''stake_pool'' read_string j) (\<lambda>stake_pool.
      Option.bind (field names ''num_votes'' (read_bigdecimal L) j) (\<lambda>num_votes.
      Option.bind (field names ''should_pass'' read_bool j) (\<lambda>should_pass.
      Some \<lparr>gve_proposal_id = proposal_id, gve_voter = voter, gve_stake_pool = stake_pool,
            gve_num_votes = num_votes, gve_should_pass = should_pass\<rparr>))))))"

definition read_distribute_rewards_event :: "(string \<times> u64) reader" where
  "read_distribute_rewards_event j =
     (let names = [''pool_address'', ''rewards_amount''] in
      Option.bind (field names ''pool_address'' read_string j) (\<lambda>pool_address.
      Option.bind (field names ''rewards_amount'' (deserialize_from_string parse_u64) j) (\<lambda>amount.
      Some (pool_address, amount))))"

text \<open>\<open>AddStakeEvent\<close>, \<open>UnlockStakeEvent\<close>, \<open>WithdrawStakeEvent\<close> and \<open>ReactivateStakeEvent\<close> name their amount differently.\<close>

definition read_delegator_event :: "string \<Rightarrow> delegator_event reader" where
  "read_delegator_event amount_name j =
     (let names = [amount_name, ''delegator_address'', ''pool_address''] in
      Option.bind (field names amount_name (deserialize_from_string parse_u64) j) (\<lambda>amount.
      Option.bind (field names ''delegator_address'' read_string j) (\<lambda>delegator.
      Option.bind (field names ''pool_address'' read_string j) (\<lambda>pool.
      Some \<lparr>dev_amount = amount, dev_delegator_address = delegator, dev_pool_address = pool\<rparr>))))"

definition read_vote_delegation_vector :: "vote_delegation_vector reader" where
  "read_vote_delegation_vector j =
     (let names = [''key'', ''value''] in
      Option.bind (field names ''key'' read_string j) (\<lambda>key.
      Option.bind (field names ''value'' (\<lambda>v.
        Option.bind (field [''voter'', ''pending_voter''] ''voter'' read_string v) (\<lambda>voter.
        Option.bind (field [''voter'', ''pending_voter''] ''pending_voter'' read_string v) (\<lambda>pending.
        Some (voter, pending)))) j) (\<lambda>(voter, pending).
      Some \<lparr>vdv_key = key, vdv_voter = voter, vdv_pending_voter = pending\<rparr>)))"

text \<open>The handle in \<open>GovernanceRecordsResource\<close>: \<open>vote_delegation.buckets.inner\<close>.\<close>

definition read_governance_records :: "string reader" where
  "read_governance_records =
     read_single ''vote_delegation'' (read_single ''buckets'' (read_single ''inner'' read_table))"

definition get_delegated_voter :: "stake_pool_resource \<Rightarrow> string" where
  "get_delegated_voter r = standardize_address (spr_delegated_voter r)"

definition get_operator_address :: "stake_pool_resource \<Rightarrow> string" where
  "get_operator_address r = standardize_address (spr_operator_address r)"

definition get_delegator_address :: "vote_delegation_vector \<Rightarrow> string" where
  "get_delegator_address v = standardize_address (vdv_key v)"

definition get_voter :: "vote_delegation_vector \<Rightarrow> string" where
  "get_voter v = standardize_address (vdv_voter v)"

definition get_pending_voter :: "vote_delegation_vector \<Rightarrow> string" where
  "get_pending_voter v = standardize_address (vdv_pending_voter v)"

definition stake_from_table_item_type :: "libs \<Rightarrow> string \<Rightarrow> string \<Rightarrow> failure + pool_resource option" where
  "stake_from_table_item_type L data_type data =
     (if data_type = ''0x1::pool_u64_unbound::Pool'' then from_json_str L (read_pool_resource L) id data
      else Inr None)"

definition stake_is_resource_supported :: "string \<Rightarrow> bool" where
  "stake_is_resource_supported data_type \<longleftrightarrow>
     data_type \<in> set [stake_addr @ ''::stake::StakePool'', stake_addr @ ''::delegation_pool::DelegationPool'']"

definition stake_from_resource :: "libs \<Rightarrow> string \<Rightarrow> json \<Rightarrow> failure + stake_resource" where
  "stake_from_resource L data_type data =
     (if data_type = stake_addr @ ''::stake::StakePool''
      then and_then (parse_or_err (read_stake_pool data)) (\<lambda>r. Inr (StakePool r))
      else if data_type = stake_addr @ ''::delegation_pool::DelegationPool''
      then and_then (parse_or_err (read_delegation_pool L data)) (\<lambda>r. Inr (DelegationPool r))
      else Inl (Err ''Resource unsupported! Call is_resource_supported first.''))"

definition stake_from_write_resource :: "libs \<Rightarrow> write_resource \<Rightarrow> i64 \<Rightarrow> failure + stake_resource option" where
  "stake_from_write_resource L wr version =
     and_then (get_outer_type_from_resource L wr) (\<lambda>type_str.
     if \<not> stake_is_resource_supported type_str then Inr None
     else and_then (from_write_resource L wr 0 version 0) (\<lambda>resource.
          and_then (expect ''called Option::unwrap on a None value'' (mres_data resource)) (\<lambda>data.
          and_then (stake_from_resource L type_str data) (\<lambda>r. Inr (Some r)))))"

definition stake_from_event :: "libs \<Rightarrow> string \<Rightarrow> string \<Rightarrow> failure + stake_event option" where
  "stake_from_event L data_type data =
     (if data_type = ''0x1::aptos_governance::VoteEvent''
      then from_json_str L (read_governance_vote_event L) GovernanceVoteEvent data
      else if data_type = ''0x1::stake::DistributeRewardsEvent''
      then from_json_str L read_distribute_rewards_event (\<lambda>(pool, amount). DistributeRewardsEvent pool amount) data
      else if data_type = ''0x1::delegation_pool::AddStakeEvent''
      then from_json_str L (read_delegator_event ''amount_added'') AddStakeEvent data
      else if data_type = ''0x1::delegation_pool::UnlockStakeEvent''
      then from_json_str L (read_delegator_event ''amount_unlocked'') UnlockStakeEvent data
      else if data_type = ''0x1::delegation_pool::WithdrawStakeEvent''
      then from_json_str L (read_delegator_event ''amount_withdrawn'') WithdrawStakeEvent data
      else if data_type = ''0x1::delegation_pool::ReactivateStakeEvent''
      then from_json_str L (read_delegator_event ''amount_reactivated'') ReactivateStakeEvent data
      else Inr None)"

definition vote_delegation_from_table_item_type :: "libs \<Rightarrow> string \<Rightarrow> string \<Rightarrow> failure + vote_delegation_vector list option" where
  "vote_delegation_from_table_item_type L data_type data =
     (if data_type = ''vector<0x1::smart_table::Entry<address, 0x1::delegation_pool::VoteDelegation>>''
      then from_json_str L (read_vec read_vote_delegation_vector) id data
      else Inr None)"

definition governance_records_from_resource :: "string \<Rightarrow> json \<Rightarrow> failure + string option" where
  "governance_records_from_resource data_type data =
     (if data_type = stake_addr @ ''::delegation_pool::GovernanceRecords''
      then and_then (parse_or_err (read_governance_records data)) (\<lambda>handle. Inr (Some handle))
      else Inr None)"

definition governance_records_from_write_resource :: "libs \<Rightarrow> write_resource \<Rightarrow> i64 \<Rightarrow> failure + string option" where
  "governance_records_from_write_resource L wr version =
     and_then (get_outer_type_from_resource L wr) (\<lambda>type_str.
     and_then (from_write_resource L wr 0 version 0) (\<lambda>resource.
     and_then (expect ''called Option::unwrap on a None value'' (mres_data resource)) (\<lambda>data.
     governance_records_from_resource type_str data)))"

section \<open>Voters of staking pools and votes\<close>

record current_staking_pool_voter =
  cspv_staking_pool_address :: string
  cspv_voter_address :: string
  cspv_last_transaction_version :: i64
  cspv_operator_address :: string

definition staking_pool_voter_change ::
  "libs \<Rightarrow> i64 \<Rightarrow> write_set_change_pb \<Rightarrow> failure + current_staking_pool_voter list" where
  "staking_pool_voter_change L version wsc =
     and_then (expect ''called Option::unwrap on a None value'' (wsc_change wsc)) (\<lambda>change.
     case change of
       WriteResource wr \<Rightarrow>
         and_then (stake_from_write_resource L wr version) (\<lambda>r.
         Inr (case r of
                Some (StakePool inner) \<Rightarrow>
                  [\<lparr>cspv_staking_pool_address = standardize_address (wr_address wr),
                    cspv_voter_address = get_delegated_voter inner, cspv_last_transaction_version = version,
                    cspv_operator_address = get_operator_address inner\<rparr>]
              | _ \<Rightarrow> []))
     | _ \<Rightarrow> Inr [])"

definition staking_pool_voters_from_transaction :: "libs \<Rightarrow> transaction \<Rightarrow> failure + current_staking_pool_voter list" where
  "staking_pool_voters_from_transaction L txn =
     and_then (expect ''called Option::unwrap on a None value'' (txn_info txn)) (\<lambda>info.
     and_then (map_result (staking_pool_voter_change L (as_i64 (txn_version txn))) (ti_changes info)) (\<lambda>rows.
     Inr (concat rows)))"

record proposal_vote =
  pv_transaction_version :: i64
  pv_proposal_id :: i64
  pv_voter_address :: string
  pv_staking_pool_address :: string
  pv_num_votes :: rat
  pv_should_pass :: bool
  pv_transaction_timestamp :: naive_date_time

definition proposal_vote_event :: "libs \<Rightarrow> transaction \<Rightarrow> event_pb \<Rightarrow> failure + proposal_vote list" where
  "proposal_vote_event L txn event =
     and_then (stake_from_event L (ev_type_str event) (ev_data event)) (\<lambda>parsed.
     case parsed of
       Some (GovernanceVoteEvent ev) \<Rightarrow>
         and_then (expect ''called Option::unwrap on a None value'' (txn_timestamp txn)) (\<lambda>ts.
         and_then (parse_timestamp L ts) (\<lambda>timestamp.
         Inr [\<lparr>pv_transaction_version = as_i64 (txn_version txn), pv_proposal_id = as_i64 (gve_proposal_id ev),
               pv_voter_address = standardize_address (gve_voter ev),
               pv_staking_pool_address = standardize_address (gve_stake_pool ev),
               pv_num_votes = gve_num_votes ev, pv_should_pass = gve_should_pass ev,
               pv_transaction_timestamp = timestamp\<rparr>]))
     | _ \<Rightarrow> Inr [])"

definition proposal_votes_from_transaction :: "libs \<Rightarrow> transaction \<Rightarrow> failure + proposal_vote list" where
  "proposal_votes_from_transaction L txn =
     (case txn_txn_data txn of
        Some (User user_txn) \<Rightarrow>
          and_then (map_result (proposal_vote_event L txn) (ut_events user_txn)) (\<lambda>rows. Inr (concat rows))
      | _ \<Rightarrow> Inr [])"

section \<open>Activities\<close>

record delegated_staking_activity =
  dsa_transaction_version :: i64
  dsa_event_index :: i64
  dsa_delegator_address :: string
  dsa_pool_address :: string
  dsa_event_type :: string
  dsa_amount :: rat

definition stake_activity :: "i64 \<Rightarrow> i64 \<Rightarrow> string \<Rightarrow> stake_event \<Rightarrow> delegated_staking_activity option" where
  "stake_activity version event_index type_str staking_event =
     (let of_delegator = (\<lambda>inner. Some \<lparr>dsa_transaction_version = version, dsa_event_index = event_index,
          dsa_delegator_address = standardize_address (dev_delegator_address inner),
          dsa_pool_address = standardize_address (dev_pool_address inner), dsa_event_type = type_str,
          dsa_amount = u64_to_bigdecimal (dev_amount inner)\<rparr>) in
      case staking_event of
        AddStakeEvent inner \<Rightarrow> of_delegator inner
      | UnlockStakeEvent inner \<Rightarrow> of_delegator inner
      | WithdrawStakeEvent inner \<Rightarrow> of_delegator inner
      | ReactivateStakeEvent inner \<Rightarrow> of_delegator inner
      | DistributeRewardsEvent pool amount \<Rightarrow>
          Some \<lparr>dsa_transaction_version = version, dsa_event_index = event_index, dsa_delegator_address = [],
                dsa_pool_address = standardize_address pool, dsa_event_type = type_str,
                dsa_amount = u64_to_bigdecimal amount\<rparr>
      | GovernanceVoteEvent _ \<Rightarrow> None)"

definition stake_activity_event ::
  "libs \<Rightarrow> i64 \<Rightarrow> nat \<times> event_pb \<Rightarrow> failure + delegated_staking_activity list" where
  "stake_activity_event L version ie =
     (case ie of (index, event) \<Rightarrow>
      and_then (stake_from_event L (ev_type_str event) (ev_data event)) (\<lambda>parsed.
      Inr (case parsed of
             None \<Rightarrow> []
           | Some staking_event \<Rightarrow> opt_list (stake_activity version (int index) (ev_type_str event) staking_event))))"

definition stake_activities_from_transaction :: "libs \<Rightarrow> transaction \<Rightarrow> failure + delegated_staking_activity list" where
  "stake_activities_from_transaction L txn =
     (case txn_txn_data txn of
        Some (User user_txn) \<Rightarrow>
          and_then (map_result (stake_activity_event L (as_i64 (txn_version txn))) (enumerate 0 (ut_events user_txn)))
            (\<lambda>rows. Inr (concat rows))
      | Some (BlockMetadata block) \<Rightarrow>
          and_then (map_result (stake_activity_event L (as_i64 (txn_version txn))) (enumerate 0 (bm_events block)))
            (\<lambda>rows. Inr (concat rows))
      | _ \<Rightarrow> Inr [])"

section \<open>Delegation pools (\<open>delegator_pools.rs\<close>)\<close>

record delegator_pool =
  dpl_staking_pool_address :: string
  dpl_first_transaction_version :: i64

record delegator_pool_balance_metadata =
  dpm_transaction_version :: i64
  dpm_staking_pool_address :: string
  dpm_total_coins :: rat
  dpm_total_shares :: rat
  dpm_scaling_factor :: rat
  dpm_operator_commission_percentage :: rat
  dpm_active_share_table_handle :: string
  dpm_inactive_share_table_handle :: string

record pool_balance_metadata =
  pbm_transaction_version :: i64
  pbm_total_coins :: rat
  pbm_total_shares :: rat
  pbm_scaling_factor :: rat
  pbm_shares_table_handle :: string
  pbm_parent_table_handle :: string

record delegator_pool_balance =
  dpb_transaction_version :: i64
  dpb_staking_pool_address :: string
  dpb_total_coins :: rat
  dpb_total_shares :: rat
  dpb_operator_commission_percentage :: rat
  dpb_inactive_table_handle :: string
  dpb_active_table_handle :: string

record current_delegator_pool_balance =
  cdpb_staking_pool_address :: string
  cdpb_total_coins :: rat
  cdpb_total_shares :: rat
  cdpb_last_transaction_version :: i64
  cdpb_operator_commission_percentage :: rat
  cdpb_inactive_table_handle :: string
  cdpb_active_table_handle :: string

definition bigdecimal_div :: "libs \<Rightarrow> rat \<Rightarrow> rat \<Rightarrow> failure + rat" where
  "bigdecimal_div L a b = expect ''Division by zero'' (lib_bigdecimal_div L a b)"

definition get_delegated_pool_metadata_from_write_resource ::
  "libs \<Rightarrow> write_resource \<Rightarrow> i64 \<Rightarrow> failure + delegator_pool_balance_metadata option" where
  "get_delegated_pool_metadata_from_write_resource L wr version =
     and_then (stake_from_write_resource L wr version) (\<lambda>r.
     case r of
       Some (DelegationPool inner) \<Rightarrow>
         let active = dpr_active_shares inner in
         and_then (bigdecimal_div L (plr_total_shares active) (plr_scaling_factor active)) (\<lambda>total_shares.
         Inr (Some \<lparr>dpm_transaction_version = version, dpm_staking_pool_address = standardize_address (wr_address wr),
           dpm_total_coins = plr_total_coins active, dpm_total_shares = total_shares,
           dpm_scaling_factor = plr_scaling_factor active,
           dpm_operator_commission_percentage = dpr_operator_commission_percentage inner,
           dpm_active_share_table_handle = get_handle (plr_shares active),
           dpm_inactive_share_table_handle = get_handle (dpr_inactive_shares inner)\<rparr>))
     | _ \<Rightarrow> Inr None)"

definition get_inactive_pool_metadata_from_write_table_item ::
  "libs \<Rightarrow> write_table_item \<Rightarrow> i64 \<Rightarrow> failure + pool_balance_metadata option" where
  "get_inactive_pool_metadata_from_write_table_item L wti version =
     and_then (expect ''called Option::unwrap on a None value'' (wti_data wti)) (\<lambda>data.
     and_then (stake_from_table_item_type L (wtd_value_type data) (wtd_value data)) (\<lambda>r.
     case r of
       Some inner \<Rightarrow>
         and_then (bigdecimal_div L (plr_total_shares inner) (plr_scaling_factor inner)) (\<lambda>total_shares.
         Inr (Some \<lparr>pbm_transaction_version = version, pbm_total_coins = plr_total_coins inner,
           pbm_total_shares = total_shares, pbm_scaling_factor = plr_scaling_factor inner,
           pbm_shares_table_handle = get_handle (plr_shares inner),
           pbm_parent_table_handle = standardize_address (wti_handle wti)\<rparr>))
     | None \<Rightarrow> Inr None))"

definition delegator_pool_from_write_resource ::
  "libs \<Rightarrow> write_resource \<Rightarrow> i64 \<Rightarrow>
   failure + (delegator_pool \<times> delegator_pool_balance \<times> current_delegator_pool_balance) option" where
  "delegator_pool_from_write_resource L wr version =
     and_then (get_delegated_pool_metadata_from_write_resource L wr version) (\<lambda>r.
     Inr (map_option (\<lambda>balance.
       (\<lparr>dpl_staking_pool_address = dpm_staking_pool_address balance,
         dpl_first_transaction_version = dpm_transaction_version balance\<rparr>,
        \<lparr>dpb_transaction_version = dpm_transaction_version balance,
         dpb_staking_pool_address = dpm_staking_pool_address balance, dpb_total_coins = dpm_total_coins balance,
         dpb_total_shares = dpm_total_shares balance,
         dpb_operator_commission_percentage = dpm_operator_commission_percentage balance,
         dpb_inactive_table_handle = dpm_inactive_share_table_handle balance,
         dpb_active_table_handle = dpm_active_share_table_handle balance\<rparr>,
        \<lparr>cdpb_staking_pool_address = dpm_staking_pool_address balance, cdpb_total_coins = dpm_total_coins balance,
         cdpb_total_shares = dpm_total_shares balance,
         cdpb_last_transaction_version = dpm_transaction_version balance,
         cdpb_operator_commission_percentage = dpm_operator_commission_percentage balance,
         cdpb_inactive_table_handle = dpm_inactive_share_table_handle balance,
         cdpb_active_table_handle = dpm_active_share_table_handle balance\<rparr>)) r))"

definition delegator_pool_change ::
  "libs \<Rightarrow> i64 \<Rightarrow> write_set_change_pb \<Rightarrow>
   failure + (delegator_pool \<times> delegator_pool_balance \<times> current_delegator_pool_balance) list" where
  "delegator_pool_change L version wsc =
     and_then (expect ''called Option::unwrap on a None value'' (wsc_change wsc)) (\<lambda>change.
     case change of
       WriteResource wr \<Rightarrow> and_then (delegator_pool_from_write_resource L wr version) (\<lambda>r. Inr (opt_list r))
     | _ \<Rightarrow> Inr [])"

definition delegator_pools_from_transaction ::
  "libs \<Rightarrow> transaction \<Rightarrow>
   failure + (delegator_pool \<times> delegator_pool_balance \<times> current_delegator_pool_balance) list" where
  "delegator_pools_from_transaction L txn =
     (case txn_txn_data txn of
        Some (User _) \<Rightarrow>
          and_then (expect ''Transaction info doesn't exist!'' (txn_info txn)) (\<lambda>info.
          and_then (map_result (delegator_pool_change L (as_i64 (txn_version txn))) (ti_changes info)) (\<lambda>rows.
          Inr (concat rows)))
      | _ \<Rightarrow> Inr [])"

section \<open>Delegator balances (\<open>delegator_balances.rs\<close>)\<close>

type_synonym share_to_staking_pool_mapping = "(string \<times> delegator_pool_balance_metadata) list"
type_synonym share_to_pool_mapping = "(string \<times> pool_balance_metadata) list"

record current_delegator_balance =
  cdb_delegator_address :: string
  cdb_pool_address :: string
  cdb_pool_type :: string
  cdb_table_handle :: string
  cdb_last_transaction_version :: i64
  cdb_shares :: rat
  cdb_parent_table_handle :: string

record delegator_balance =
  dlb_transaction_version :: i64
  dlb_write_set_change_index :: i64
  dlb_delegator_address :: string
  dlb_pool_address :: string
  dlb_pool_type :: string
  dlb_table_handle :: string
  dlb_shares :: rat
  dlb_parent_table_handle :: string

text \<open>The decoded value of the item as a number, divided by the scaling factor.\<close>

definition item_shares :: "libs \<Rightarrow> write_table_item \<Rightarrow> i64 \<Rightarrow> rat \<Rightarrow> failure + rat" where
  "item_shares L wti version scaling_factor =
     and_then (from_write_table_item L wti 0 version 0) (\<lambda>(table_item_model, _).
     and_then (expect ''called Option::unwrap on a None value'' (titem_decoded_value table_item_model)) (\<lambda>value.
     and_then (expect ''called Option::unwrap on a None value'' (json_as_str value)) (\<lambda>s.
     and_then (parse_or_err (lib_parse_bigdecimal L s)) (\<lambda>shares.
     bigdecimal_div L shares scaling_factor))))"

definition get_active_share_from_write_table_item ::
  "libs \<Rightarrow> write_table_item \<Rightarrow> i64 \<Rightarrow> i64 \<Rightarrow> share_to_staking_pool_mapping \<Rightarrow>
   failure + (delegator_balance \<times> current_delegator_balance) option" where
  "get_active_share_from_write_table_item L wti version index active_pool_to_staking_pool =
     (let table_handle = standardize_address (wti_handle wti) in
      case map_of active_pool_to_staking_pool table_handle of
        None \<Rightarrow> Inr None
      | Some pool_balance \<Rightarrow>
          let pool_address = dpm_staking_pool_address pool_balance;
              delegator_address = standardize_address (wti_key wti) in
          and_then (item_shares L wti version (dpm_scaling_factor pool_balance)) (\<lambda>shares.
          Inr (Some
            (\<lparr>dlb_transaction_version = version, dlb_write_set_change_index = index,
              dlb_delegator_address = delegator_address, dlb_pool_address = pool_address,
              dlb_pool_type = ''active_shares'', dlb_table_handle = table_handle, dlb_shares = shares,
              dlb_parent_table_handle = table_handle\<rparr>,
             \<lparr>cdb_delegator_address = delegator_address, cdb_pool_address = pool_address,
              cdb_pool_type = ''active_shares'', cdb_table_handle = table_handle,
              cdb_last_transaction_version = version, cdb_shares = shares,
              cdb_parent_table_handle = table_handle\<rparr>))))"

definition get_by_inactive_share_handle :: "pg_first \<Rightarrow> string \<Rightarrow> db \<Rightarrow> failure + string" where
  "get_by_inactive_share_handle first table_handle d =
     and_then (db_result (first ''current_delegator_balances'' [(''parent_table_handle'', SqlText table_handle)] d)) (\<lambda>row.
     case Option.bind row (\<lambda>r. text_cell r ''pool_address'') of
       Some pool_address \<Rightarrow> Inr pool_address | None \<Rightarrow> Inl (Err ''NotFound''))"

definition get_staking_pool_from_inactive_share_handle ::
  "pg_first \<Rightarrow> (nat \<Rightarrow> db) \<Rightarrow> string \<Rightarrow> u32 \<Rightarrow> failure + string" where
  "get_staking_pool_from_inactive_share_handle first seen table_handle query_retries =
     (case first_success (\<lambda>i. get_by_inactive_share_handle first table_handle (seen i)) 0 (unat query_retries) of
        Some pool_address \<Rightarrow> Inr pool_address
      | None \<Rightarrow> Inl (Err ''Failed to get staking pool address from inactive share handle''))"

text \<open>The staking pool of an inactive pool: known from the transaction, or looked up.\<close>

definition inactive_pool_address ::
  "pg_first \<Rightarrow> (nat \<Rightarrow> db) \<Rightarrow> u32 \<Rightarrow> share_to_staking_pool_mapping \<Rightarrow> string \<Rightarrow> failure + string" where
  "inactive_pool_address first seen query_retries inactive_pool_to_staking_pool inactive_pool_handle =
     (case map_of inactive_pool_to_staking_pool inactive_pool_handle of
        Some metadata \<Rightarrow> Inr (dpm_staking_pool_address metadata)
      | None \<Rightarrow> get_staking_pool_from_inactive_share_handle first seen inactive_pool_handle query_retries)"

definition get_inactive_share_from_write_table_item ::
  "libs \<Rightarrow> pg_first \<Rightarrow> (nat \<Rightarrow> db) \<Rightarrow> u32 \<Rightarrow> write_table_item \<Rightarrow> i64 \<Rightarrow> i64 \<Rightarrow>
   share_to_staking_pool_mapping \<Rightarrow> share_to_pool_mapping \<Rightarrow>
   failure + (delegator_balance \<times> current_delegator_balance) option" where
  "get_inactive_share_from_write_table_item L first seen query_retries wti version index
     inactive_pool_to_staking_pool inactive_share_to_pool =
     (let table_handle = standardize_address (wti_handle wti) in
      case map_of inactive_share_to_pool table_handle of
        None \<Rightarrow> Inr None
      | Some pool_balance \<Rightarrow>
          let inactive_pool_handle = pbm_parent_table_handle pool_balance in
          (case inactive_pool_address first seen query_retries inactive_pool_to_staking_pool inactive_pool_handle of
             Inl _ \<Rightarrow> Inr None
           | Inr pool_address \<Rightarrow>
               let delegator_address = standardize_address (wti_key wti) in
               and_then (item_shares L wti version (pbm_scaling_factor pool_balance)) (\<lambda>shares.
               Inr (Some
                 (\<lparr>dlb_transaction_version = version, dlb_write_set_change_index = index,
                   dlb_delegator_address = delegator_address, dlb_pool_address = pool_address,
                   dlb_pool_type = ''inactive_shares'', dlb_table_handle = table_handle, dlb_shares = shares,
                   dlb_parent_table_handle = inactive_pool_handle\<rparr>,
                  \<lparr>cdb_delegator_address = delegator_address, cdb_pool_address = pool_address,
                   cdb_pool_type = ''inactive_shares'', cdb_table_handle = table_handle,
                   cdb_last_transaction_version = version, cdb_shares = shares,
                   cdb_parent_table_handle = inactive_pool_handle\<rparr>)))))"

definition get_active_share_from_delete_table_item ::
  "delete_table_item \<Rightarrow> i64 \<Rightarrow> i64 \<Rightarrow> share_to_staking_pool_mapping \<Rightarrow>
   (delegator_balance \<times> current_delegator_balance) option" where
  "get_active_share_from_delete_table_item dti version index active_pool_to_staking_pool =
     (let table_handle = standardize_address (dti_handle dti); delegator_address = standardize_address (dti_key dti) in
      map_option (\<lambda>pool_balance.
        (\<lparr>dlb_transaction_version = version, dlb_write_set_change_index = index,
          dlb_delegator_address = delegator_address, dlb_pool_address = dpm_staking_pool_address pool_balance,
          dlb_pool_type = ''active_shares'', dlb_table_handle = table_handle, dlb_shares = 0,
          dlb_parent_table_handle = table_handle\<rparr>,
         \<lparr>cdb_delegator_address = delegator_address, cdb_pool_address = dpm_staking_pool_address pool_balance,
          cdb_pool_type = ''active_shares'', cdb_table_handle = table_handle,
          cdb_last_transaction_version = version, cdb_shares = 0,
          cdb_parent_table_handle = table_handle\<rparr>)) (map_of active_pool_to_staking_pool table_handle))"

text \<open>The parent of the current row is the share table itself here, not the pool as in the other rows.\<close>

definition get_inactive_share_from_delete_table_item ::
  "pg_first \<Rightarrow> (nat \<Rightarrow> db) \<Rightarrow> u32 \<Rightarrow> delete_table_item \<Rightarrow> i64 \<Rightarrow> i64 \<Rightarrow>
   share_to_staking_pool_mapping \<Rightarrow> share_to_pool_mapping \<Rightarrow>
   failure + (delegator_balance \<times> current_delegator_balance) option" where
  "get_inactive_share_from_delete_table_item first seen query_retries dti version index
     inactive_pool_to_staking_pool inactive_share_to_pool =
     (let table_handle = standardize_address (dti_handle dti) in
      case map_of inactive_share_to_pool table_handle of
        None \<Rightarrow> Inr None
      | Some pool_balance \<Rightarrow>
          let inactive_pool_handle = pbm_parent_table_handle pool_balance in
          and_then (inactive_pool_address first seen query_retries inactive_pool_to_staking_pool inactive_pool_handle)
            (\<lambda>pool_address.
          let delegator_address = standardize_address (dti_key dti) in
          Inr (Some
            (\<lparr>dlb_transaction_version = version, dlb_write_set_change_index = index,
              dlb_delegator_address = delegator_address, dlb_pool_address = pool_address,
              dlb_pool_type = ''inactive_shares'', dlb_table_handle = table_handle, dlb_shares = 0,
              dlb_parent_table_handle = inactive_pool_handle\<rparr>,
             \<lparr>cdb_delegator_address = delegator_address, cdb_pool_address = pool_address,
              cdb_pool_type = ''inactive_shares'', cdb_table_handle = table_handle,
              cdb_last_transaction_version = version, cdb_shares = 0,
              cdb_parent_table_handle = table_handle\<rparr>))))"

text \<open>The three mappings with one entry.\<close>

definition get_active_pool_to_staking_pool_mapping ::
  "libs \<Rightarrow> write_resource \<Rightarrow> i64 \<Rightarrow> failure + share_to_staking_pool_mapping option" where
  "get_active_pool_to_staking_pool_mapping L wr version =
     and_then (get_delegated_pool_metadata_from_write_resource L wr version)
       (\<lambda>r. Inr (map_option (\<lambda>balance. [(dpm_active_share_table_handle balance, balance)]) r))"

definition get_inactive_pool_to_staking_pool_mapping ::
  "libs \<Rightarrow> write_resource \<Rightarrow> i64 \<Rightarrow> failure + share_to_staking_pool_mapping option" where
  "get_inactive_pool_to_staking_pool_mapping L wr version =
     and_then (get_delegated_pool_metadata_from_write_resource L wr version)
       (\<lambda>r. Inr (map_option (\<lambda>balance. [(dpm_inactive_share_table_handle balance, balance)]) r))"

definition get_inactive_share_to_pool_mapping ::
  "libs \<Rightarrow> write_table_item \<Rightarrow> i64 \<Rightarrow> failure + share_to_pool_mapping option" where
  "get_inactive_share_to_pool_mapping L wti version =
     and_then (get_inactive_pool_metadata_from_write_table_item L wti version)
       (\<lambda>r. Inr (map_option (\<lambda>balance. [(pbm_shares_table_handle balance, balance)]) r))"

definition extend_opt :: "('k \<times> 'v) list option \<Rightarrow> ('k \<times> 'v) list \<Rightarrow> ('k \<times> 'v) list" where
  "extend_opt n m = (case n of Some kvs \<Rightarrow> hm_extend m kvs | None \<Rightarrow> m)"

definition add_inactive_mappings ::
  "libs \<Rightarrow> i64 \<Rightarrow> write_set_change_pb \<Rightarrow> share_to_staking_pool_mapping \<times> share_to_pool_mapping \<Rightarrow>
   failure + share_to_staking_pool_mapping \<times> share_to_pool_mapping" where
  "add_inactive_mappings L version wsc maps =
     (case maps of (pools, shares) \<Rightarrow>
      and_then (expect ''called Option::unwrap on a None value'' (wsc_change wsc)) (\<lambda>change.
      case change of
        WriteResource wr \<Rightarrow>
          and_then (unwrap_result (get_inactive_pool_to_staking_pool_mapping L wr version)) (\<lambda>m.
          Inr (extend_opt m pools, shares))
      | WriteTableItem wti \<Rightarrow>
          and_then (unwrap_result (get_inactive_share_to_pool_mapping L wti version)) (\<lambda>m.
          Inr (pools, extend_opt m shares))
      | _ \<Rightarrow> Inr (pools, shares)))"

text \<open>\<open>seen i n\<close> is the database as the lookup for the change \<open>i\<close> sees it at attempt \<open>n\<close>.\<close>

definition delegator_balance_change ::
  "libs \<Rightarrow> pg_first \<Rightarrow> (nat \<Rightarrow> nat \<Rightarrow> db) \<Rightarrow> u32 \<Rightarrow> i64 \<Rightarrow> share_to_staking_pool_mapping \<Rightarrow>
   share_to_staking_pool_mapping \<times> share_to_pool_mapping \<Rightarrow> nat \<times> write_set_change_pb \<Rightarrow>
   failure + (delegator_balance \<times> current_delegator_balance) list" where
  "delegator_balance_change L first seen query_retries version active maps iw =
     (case maps of (pools, shares) \<Rightarrow>
      case iw of (index, wsc) \<Rightarrow>
      and_then (expect ''called Option::unwrap on a None value'' (wsc_change wsc)) (\<lambda>change.
      case change of
        DeleteTableItem item \<Rightarrow>
          (case get_active_share_from_delete_table_item item version (int index) active of
             Some r \<Rightarrow> Inr [r]
           | None \<Rightarrow>
               and_then (unwrap_result (get_inactive_share_from_delete_table_item first (seen index) query_retries item
                           version (int index) pools shares)) (\<lambda>r. Inr (opt_list r)))
      | WriteTableItem item \<Rightarrow>
          and_then (unwrap_result (get_active_share_from_write_table_item L item version (int index) active)) (\<lambda>a.
          case a of
            Some r \<Rightarrow> Inr [r]
          | None \<Rightarrow>
              and_then (unwrap_result (get_inactive_share_from_write_table_item L first (seen index) query_retries item
                          version (int index) pools shares)) (\<lambda>r. Inr (opt_list r)))
      | _ \<Rightarrow> Inr []))"

definition delegator_balances_from_transaction ::
  "libs \<Rightarrow> pg_first \<Rightarrow> (nat \<Rightarrow> nat \<Rightarrow> db) \<Rightarrow> u32 \<Rightarrow> transaction \<Rightarrow> share_to_staking_pool_mapping \<Rightarrow>
   failure + (delegator_balance \<times> current_delegator_balance) list" where
  "delegator_balances_from_transaction L first seen query_retries txn active =
     (let version = as_i64 (txn_version txn) in
      and_then (expect ''called Option::unwrap on a None value'' (txn_info txn)) (\<lambda>info.
      and_then (fold_result (add_inactive_mappings L version) (ti_changes info) ([], [])) (\<lambda>maps.
      and_then (map_result (delegator_balance_change L first seen query_retries version active maps)
                  (enumerate 0 (ti_changes info))) (\<lambda>rows.
      Inr (concat rows)))))"

definition cdb_key :: "current_delegator_balance \<Rightarrow> string \<times> string \<times> string" where
  "cdb_key c = (cdb_delegator_address c, cdb_pool_address c, cdb_pool_type c)"

section \<open>Delegated voters (\<open>current_delegated_voter.rs\<close>)\<close>

record current_delegated_voter =
  cdv_delegation_pool_address :: string
  cdv_delegator_address :: string
  cdv_table_handle :: "string option"
  cdv_voter :: "string option"
  cdv_pending_voter :: "string option"
  cdv_last_transaction_version :: i64
  cdv_last_transaction_timestamp :: naive_date_time

type_synonym current_delegated_voter_map = "((string \<times> string) \<times> current_delegated_voter) list"

definition cdv_pk :: "current_delegated_voter \<Rightarrow> string \<times> string" where
  "cdv_pk v = (cdv_delegation_pool_address v, cdv_delegator_address v)"

definition get_by_table_handle :: "pg_first \<Rightarrow> string \<Rightarrow> db \<Rightarrow> failure + string" where
  "get_by_table_handle first table_handle d =
     and_then (db_result (first ''current_delegated_voter'' [(''table_handle'', SqlText table_handle)] d)) (\<lambda>row.
     case Option.bind row (\<lambda>r. text_cell r ''delegation_pool_address'') of
       Some pool_address \<Rightarrow> Inr pool_address | None \<Rightarrow> Inl (Err ''NotFound''))"

definition cdv_get_by_pk :: "pg_first \<Rightarrow> string \<Rightarrow> string \<Rightarrow> db \<Rightarrow> failure + stored_row" where
  "cdv_get_by_pk first delegator_address delegation_pool_address d =
     and_then (db_result (first ''current_delegated_voter''
       [(''delegator_address'', SqlText delegator_address),
        (''delegation_pool_address'', SqlText delegation_pool_address)] d)) (\<lambda>row.
     case row of Some r \<Rightarrow> Inr r | None \<Rightarrow> Inl (Err ''NotFound''))"

definition get_delegation_pool_address_by_table_handle ::
  "pg_first \<Rightarrow> (nat \<Rightarrow> db) \<Rightarrow> string \<Rightarrow> u32 \<Rightarrow> failure + string" where
  "get_delegation_pool_address_by_table_handle first seen table_handle query_retries =
     (case first_success (\<lambda>i. get_by_table_handle first table_handle (seen i)) 0 (unat query_retries) of
        Some pool_address \<Rightarrow> Inr pool_address
      | None \<Rightarrow> Inl (Err ''Failed to get delegation pool address from vote delegation write table handle''))"

definition get_existence_by_pk ::
  "pg_first \<Rightarrow> (nat \<Rightarrow> db) \<Rightarrow> string \<Rightarrow> string \<Rightarrow> u32 \<Rightarrow> bool" where
  "get_existence_by_pk first seen delegator_address delegation_pool_address query_retries \<longleftrightarrow>
     first_success (\<lambda>i. cdv_get_by_pk first delegator_address delegation_pool_address (seen i)) 0
       (unat query_retries) \<noteq> None"

definition voters_from_write_table_item ::
  "libs \<Rightarrow> pg_first \<Rightarrow> (nat \<Rightarrow> db) \<Rightarrow> u32 \<Rightarrow> write_table_item \<Rightarrow> i64 \<Rightarrow> naive_date_time \<Rightarrow> (string \<times> string) list \<Rightarrow>
   failure + current_delegated_voter_map" where
  "voters_from_write_table_item L first seen query_retries wti version timestamp handle_to_pool_address =
     and_then (expect ''called Option::unwrap on a None value'' (wti_data wti)) (\<lambda>data.
     let table_handle = standardize_address (wti_handle wti) in
     and_then (vote_delegation_from_table_item_type L (wtd_value_type data) (wtd_value data)) (\<lambda>r.
     case r of
       None \<Rightarrow> Inr []
     | Some vote_delegation_vector \<Rightarrow>
         let pool_address =
           (case map_of handle_to_pool_address table_handle of
              Some pool_address \<Rightarrow> pool_address
            | None \<Rightarrow>
                (case get_delegation_pool_address_by_table_handle first seen table_handle query_retries of
                   Inr pool_address \<Rightarrow> pool_address | Inl _ \<Rightarrow> []))
         in Inr (if pool_address \<noteq> [] then
           fold (\<lambda>inner. AList.update (pool_address, get_delegator_address inner)
             \<lparr>cdv_delegation_pool_address = pool_address, cdv_delegator_address = get_delegator_address inner,
              cdv_table_handle = Some table_handle, cdv_voter = Some (get_voter inner),
              cdv_pending_voter = Some (get_pending_voter inner), cdv_last_transaction_version = version,
              cdv_last_transaction_timestamp = timestamp\<rparr>) vote_delegation_vector []
           else [])))"

definition get_delegators_pre_contract_deployment ::
  "libs \<Rightarrow> pg_first \<Rightarrow> (nat \<Rightarrow> db) \<Rightarrow> u32 \<Rightarrow> write_table_item \<Rightarrow> i64 \<Rightarrow> naive_date_time \<Rightarrow>
   share_to_staking_pool_mapping \<Rightarrow> current_delegated_voter_map \<Rightarrow> failure + current_delegated_voter option" where
  "get_delegators_pre_contract_deployment L first seen query_retries wti version timestamp active previous =
     and_then (get_active_share_from_write_table_item L wti version 0 active) (\<lambda>r.
     case r of
       None \<Rightarrow> Inr None
     | Some (_, active_balance) \<Rightarrow>
         let pool_address = cdb_pool_address active_balance;
             delegator_address = cdb_delegator_address active_balance;
             already_exists =
               (case map_of previous (pool_address, delegator_address) of
                  Some _ \<Rightarrow> True
                | None \<Rightarrow> get_existence_by_pk first seen delegator_address pool_address query_retries)
         in Inr (if \<not> already_exists
            then Some \<lparr>cdv_delegation_pool_address = pool_address, cdv_delegator_address = delegator_address,
              cdv_table_handle = None, cdv_voter = Some delegator_address,
              cdv_pending_voter = Some delegator_address, cdv_last_transaction_version = version,
              cdv_last_transaction_timestamp = timestamp\<rparr>
            else None))"

end
