(* ===== verification/Stake_Processor.thy ===== *)
theory Stake_Processor
  imports Stake_Models Convergence
begin

text \<open>
  \<open>processors/stake_processor.rs\<close>. A transaction is read in nine steps; the handles of the share tables and
  of the vote tables and the delegated voters are kept for the whole batch. Rows that are pushed to a
  vector or inserted into a map are lists here, in the order of the insertions; \<open>collect_by\<close> makes the map
  of a list. The delegated voters are kept as the map itself, because the code asks it. \<open>seen v l i n\<close> is
  the database as the lookup for the change \<open>i\<close> of version \<open>v\<close> sees it in loop \<open>l\<close> at attempt \<open>n\<close>.
\<close>

section \<open>Rows and queries\<close>

definition current_staking_pool_voter_row :: "current_staking_pool_voter \<Rightarrow> sql_row" where
  "current_staking_pool_voter_row c =
     [(''staking_pool_address'', SqlText (cspv_staking_pool_address c)), (''voter_address'', SqlText (cspv_voter_address c)),
      (''last_transaction_version'', SqlInt (cspv_last_transaction_version c)),
      (''operator_address'', SqlText (cspv_operator_address c))]"

definition proposal_vote_row :: "proposal_vote \<Rightarrow> sql_row" where
  "proposal_vote_row v =
     [(''transaction_version'', SqlInt (pv_transaction_version v)), (''proposal_id'', SqlInt (pv_proposal_id v)),
      (''voter_address'', SqlText (pv_voter_address v)), (''staking_pool_address'', SqlText (pv_staking_pool_address v)),
      (''num_votes'', SqlNumeric (pv_num_votes v)), (''should_pass'', SqlBool (pv_should_pass v)),
      (''transaction_timestamp'', SqlTimestamp (pv_transaction_timestamp v))]"

definition delegated_staking_activity_row :: "delegated_staking_activity \<Rightarrow> sql_row" where
  "delegated_staking_activity_row a =
     [(''transaction_version'', SqlInt (dsa_transaction_version a)), (''event_index'', SqlInt (dsa_event_index a)),
      (''delegator_address'', SqlText (dsa_delegator_address a)), (''pool_address'', SqlText (dsa_pool_address a)),
      (''event_type'', SqlText (dsa_event_type a)), (''amount'', SqlNumeric (dsa_amount a))]"

definition delegator_balance_row :: "delegator_balance \<Rightarrow> sql_row" where
  "delegator_balance_row b =
     [(''transaction_version'', SqlInt (dlb_transaction_version b)),
      (''write_set_change_index'', SqlInt (dlb_write_set_change_index b)),
      (''delegator_address'', SqlText (dlb_delegator_address b)), (''pool_address'', SqlText (dlb_pool_address b)),
      (''pool_type'', SqlText (dlb_pool_type b)), (''table_handle'', SqlText (dlb_table_handle b)),
      (''shares'', SqlNumeric (dlb_shares b)), (''parent_table_handle'', SqlText (dlb_parent_table_handle b))]"

definition current_delegator_balance_row :: "current_delegator_balance \<Rightarrow> sql_row" where
  "current_delegator_balance_row b =
     [(''delegator_address'', SqlText (cdb_delegator_address b)), (''pool_address'', SqlText (cdb_pool_address b)),
      (''pool_type'', SqlText (cdb_pool_type b)), (''table_handle'', SqlText (cdb_table_handle b)),
      (''last_transaction_version'', SqlInt (cdb_last_transaction_version b)), (''shares'', SqlNumeric (cdb_shares b)),
      (''parent_table_handle'', SqlText (cdb_parent_table_handle b))]"

definition delegator_pool_row :: "delegator_pool \<Rightarrow> sql_row" where
  "delegator_pool_row p =
     [(''staking_pool_address'', SqlText (dpl_staking_pool_address p)),
      (''first_transaction_version'', SqlInt (dpl_first_transaction_version p))]"

definition delegator_pool_balance_row :: "delegator_pool_balance \<Rightarrow> sql_row" where
  "delegator_pool_balance_row b =
     [(''transaction_version'', SqlInt (dpb_transaction_version b)),
      (''staking_pool_address'', SqlText (dpb_staking_pool_address b)), (''total_coins'', SqlNumeric (dpb_total_coins b)),
      (''total_shares'', SqlNumeric (dpb_total_shares b)),
      (''operator_commission_percentage'', SqlNumeric (dpb_operator_commission_percentage b)),
      (''inactive_table_handle'', SqlText (dpb_inactive_table_handle b)),
      (''active_table_handle'', SqlText (dpb_active_table_handle b))]"

definition current_delegator_pool_balance_row :: "current_delegator_pool_balance \<Rightarrow> sql_row" where
  "current_delegator_pool_balance_row b =
     [(''staking_pool_address'', SqlText (cdpb_staking_pool_address b)), (''total_coins'', SqlNumeric (cdpb_total_coins b)),
      (''total_shares'', SqlNumeric (cdpb_total_shares b)),
      (''last_transaction_version'', SqlInt (cdpb_last_transaction_version b)),
      (''operator_commission_percentage'', SqlNumeric (cdpb_operator_commission_percentage b)),
      (''inactive_table_handle'', SqlText (cdpb_inactive_table_handle b)),
      (''active_table_handle'', SqlText (cdpb_active_table_handle b))]"

definition current_delegated_voter_row :: "current_delegated_voter \<Rightarrow> sql_row" where
  "current_delegated_voter_row v =
     [(''delegation_pool_address'', SqlText (cdv_delegation_pool_address v)),
      (''delegator_address'', SqlText (cdv_delegator_address v)),
      (''table_handle'', sql_opt SqlText (cdv_table_handle v)), (''voter'', sql_opt SqlText (cdv_voter v)),
      (''pending_voter'', sql_opt SqlText (cdv_pending_voter v)),
      (''last_transaction_version'', SqlInt (cdv_last_transaction_version v)),
      (''last_transaction_timestamp'', SqlTimestamp (cdv_last_transaction_timestamp v))]"

definition insert_current_stake_pool_voter_query :: "current_staking_pool_voter list \<Rightarrow> query" where
  "insert_current_stake_pool_voter_query items =
     (\<lparr>iq_table = ''current_staking_pool_voter'', iq_rows = map current_staking_pool_voter_row items,
       iq_target = [''staking_pool_address''],
       iq_action = DoUpdate [''staking_pool_address'', ''voter_address'', ''last_transaction_version'', ''inserted_at'',
         ''operator_address'']\<rparr>,
      Some (WhereLe ''last_transaction_version''))"

definition insert_proposal_votes_query :: "proposal_vote list \<Rightarrow> query" where
  "insert_proposal_votes_query items =
     (\<lparr>iq_table = ''proposal_votes'', iq_rows = map proposal_vote_row items,
       iq_target = [''transaction_version'', ''proposal_id'', ''voter_address''], iq_action = DoNothing\<rparr>, None)"

definition insert_delegator_activities_query :: "delegated_staking_activity list \<Rightarrow> query" where
  "insert_delegator_activities_query items =
     (\<lparr>iq_table = ''delegated_staking_activities'', iq_rows = map delegated_staking_activity_row items,
       iq_target = [''transaction_version'', ''event_index''], iq_action = DoNothing\<rparr>, None)"

definition insert_delegator_balances_query :: "delegator_balance list \<Rightarrow> query" where
  "insert_delegator_balances_query items =
     (\<lparr>iq_table = ''delegator_balances'', iq_rows = map delegator_balance_row items,
       iq_target = [''transaction_version'', ''write_set_change_index''], iq_action = DoNothing\<rparr>, None)"

definition insert_current_delegator_balances_query :: "current_delegator_balance list \<Rightarrow> query" where
  "insert_current_delegator_balances_query items =
     (\<lparr>iq_table = ''current_delegator_balances'', iq_rows = map current_delegator_balance_row items,
       iq_target = [''delegator_address'', ''pool_address'', ''pool_type'', ''table_handle''],
       iq_action = DoUpdate [''last_transaction_version'', ''inserted_at'', ''shares'', ''parent_table_handle'']\<rparr>,
      Some (WhereLe ''last_transaction_version''))"

definition insert_delegator_pools_query :: "delegator_pool list \<Rightarrow> query" where
  "insert_delegator_pools_query items =
     (\<lparr>iq_table = ''delegated_staking_pools'', iq_rows = map delegator_pool_row items,
       iq_target = [''staking_pool_address''], iq_action = DoUpdate [''first_transaction_version'', ''inserted_at'']\<rparr>,
      Some (WhereGe ''first_transaction_version''))"

definition insert_delegator_pool_balances_query :: "delegator_pool_balance list \<Rightarrow> query" where
  "insert_delegator_pool_balances_query items =
     (\<lparr>iq_table = ''delegated_staking_pool_balances'', iq_rows = map delegator_pool_balance_row items,
       iq_target = [''transaction_version'', ''staking_pool_address''], iq_action = DoNothing\<rparr>, None)"

definition insert_current_delegator_pool_balances_query :: "current_delegator_pool_balance list \<Rightarrow> query" where
  "insert_current_delegator_pool_balances_query items =
     (\<lparr>iq_table = ''current_delegated_staking_pool_balances'', iq_rows = map current_delegator_pool_balance_row items,
       iq_target = [''staking_pool_address''],
       iq_action = DoUpdate [''total_coins'', ''total_shares'', ''last_transaction_version'', ''inserted_at'',
         ''operator_commission_percentage'', ''inactive_table_handle'', ''active_table_handle'']\<rparr>,
      Some (WhereLe ''last_transaction_version''))"

definition insert_current_delegated_voter_query :: "current_delegated_voter list \<Rightarrow> query" where
  "insert_current_delegated_voter_query items =
     (\<lparr>iq_table = ''current_delegated_voter'', iq_rows = map current_delegated_voter_row items,
       iq_target = [''delegation_pool_address'', ''delegator_address''],
       iq_action = DoUpdate [''voter'', ''pending_voter'', ''last_transaction_timestamp'', ''last_transaction_version'',
         ''table_handle'', ''inserted_at'']\<rparr>,
      Some (WhereLe ''last_transaction_version''))"

section \<open>A transaction\<close>

record stake_state =
  sst_pool_voters :: "current_staking_pool_voter list"
  sst_votes :: "proposal_vote list"
  sst_activities :: "delegated_staking_activity list"
  sst_pools :: "(delegator_pool \<times> delegator_pool_balance \<times> current_delegator_pool_balance) list"
  sst_balances :: "(delegator_balance \<times> current_delegator_balance) list"
  sst_active :: share_to_staking_pool_mapping
  sst_handles :: "(string \<times> string) list"
  sst_voters :: current_delegated_voter_map

definition no_stake_rows :: stake_state where
  "no_stake_rows = \<lparr>sst_pool_voters = [], sst_votes = [], sst_activities = [], sst_pools = [], sst_balances = [],
     sst_active = [], sst_handles = [], sst_voters = []\<rparr>"

text \<open>The handles of vote tables and of active shares.\<close>

definition add_handles ::
  "libs \<Rightarrow> i64 \<Rightarrow> write_set_change_pb \<Rightarrow> share_to_staking_pool_mapping \<times> (string \<times> string) list \<Rightarrow>
   failure + share_to_staking_pool_mapping \<times> (string \<times> string) list" where
  "add_handles L version wsc maps =
     (case maps of (active, handles) \<Rightarrow>
      and_then (expect ''called Option::unwrap on a None value'' (wsc_change wsc)) (\<lambda>change.
      case change of
        WriteResource wr \<Rightarrow>
          and_then (governance_records_from_write_resource L wr version) (\<lambda>records.
          let handles' =
            (case records of
               Some handle \<Rightarrow> AList.update (get_handle handle) (standardize_address (wr_address wr)) handles
             | None \<Rightarrow> handles) in
          and_then (unwrap_result (get_active_pool_to_staking_pool_mapping L wr version)) (\<lambda>m.
          Inr (extend_opt m active, handles')))
      | _ \<Rightarrow> Inr (active, handles)))"

definition add_voters ::
  "libs \<Rightarrow> pg_first \<Rightarrow> (nat \<Rightarrow> nat \<Rightarrow> db) \<Rightarrow> u32 \<Rightarrow> i64 \<Rightarrow> naive_date_time \<Rightarrow> (string \<times> string) list \<Rightarrow>
   nat \<times> write_set_change_pb \<Rightarrow> current_delegated_voter_map \<Rightarrow> failure + current_delegated_voter_map" where
  "add_voters L first seen query_retries version timestamp handles iw voters =
     (case iw of (index, wsc) \<Rightarrow>
      and_then (expect ''called Option::unwrap on a None value'' (wsc_change wsc)) (\<lambda>change.
      case change of
        WriteTableItem wti \<Rightarrow>
          and_then (unwrap_result (voters_from_write_table_item L first (seen index) query_retries wti version timestamp
                      handles)) (\<lambda>voter_map.
          Inr (hm_extend voters voter_map))
      | _ \<Rightarrow> Inr voters))"

definition add_default_voters ::
  "libs \<Rightarrow> pg_first \<Rightarrow> (nat \<Rightarrow> nat \<Rightarrow> db) \<Rightarrow> u32 \<Rightarrow> i64 \<Rightarrow> naive_date_time \<Rightarrow> share_to_staking_pool_mapping \<Rightarrow>
   nat \<times> write_set_change_pb \<Rightarrow> current_delegated_voter_map \<Rightarrow> failure + current_delegated_voter_map" where
  "add_default_voters L first seen query_retries version timestamp active iw voters =
     (case iw of (index, wsc) \<Rightarrow>
      and_then (expect ''called Option::unwrap on a None value'' (wsc_change wsc)) (\<lambda>change.
      case change of
        WriteTableItem wti \<Rightarrow>
          and_then (unwrap_result (get_delegators_pre_contract_deployment L first (seen index) query_retries wti version
                      timestamp active voters)) (\<lambda>voter.
          Inr (case voter of Some v \<Rightarrow> AList.update (cdv_pk v) v voters | None \<Rightarrow> voters))
      | _ \<Rightarrow> Inr voters))"

definition stake_add_txn ::
  "libs \<Rightarrow> pg_first \<Rightarrow> (i64 \<Rightarrow> nat \<Rightarrow> nat \<Rightarrow> nat \<Rightarrow> db) \<Rightarrow> u32 \<Rightarrow> transaction \<Rightarrow> stake_state \<Rightarrow> failure + stake_state" where
  "stake_add_txn L first seen query_retries txn st =
     (let version = as_i64 (txn_version txn) in
      and_then (unwrap_result (staking_pool_voters_from_transaction L txn)) (\<lambda>pool_voters.
      and_then (unwrap_result (proposal_votes_from_transaction L txn)) (\<lambda>votes.
      and_then (unwrap_result (stake_activities_from_transaction L txn)) (\<lambda>activities.
      and_then (unwrap_result (delegator_pools_from_transaction L txn)) (\<lambda>pools.
      and_then (expect ''called Option::unwrap on a None value'' (txn_timestamp txn)) (\<lambda>ts.
      and_then (parse_timestamp L ts) (\<lambda>timestamp.
      and_then (expect ''Transaction info doesn't exist!'' (txn_info txn)) (\<lambda>info.
      and_then (fold_result (add_handles L version) (ti_changes info) (sst_active st, sst_handles st)) (\<lambda>(active, handles).
      and_then (unwrap_result (delegator_balances_from_transaction L first (seen version 0) query_retries txn active)) (\<lambda>balances.
      and_then (fold_result (add_voters L first (seen version 1) query_retries version timestamp handles)
                  (enumerate 0 (ti_changes info)) (sst_voters st)) (\<lambda>voters.
      and_then (fold_result (add_default_voters L first (seen version 2) query_retries version timestamp active)
                  (enumerate 0 (ti_changes info)) voters) (\<lambda>voters'.
      Inr \<lparr>sst_pool_voters = sst_pool_voters st @ pool_voters, sst_votes = sst_votes st @ votes,
           sst_activities = sst_activities st @ activities, sst_pools = sst_pools st @ pools,
           sst_balances = sst_balances st @ balances, sst_active = active, sst_handles = handles,
           sst_voters = voters'\<rparr>))))))))))))"

section \<open>A batch\<close>

record stake_inserts =
  sti_pool_voters :: "current_staking_pool_voter list"
  sti_votes :: "proposal_vote list"
  sti_activities :: "delegated_staking_activity list"
  sti_balances :: "delegator_balance list"
  sti_current_balances :: "current_delegator_balance list"
  sti_pools :: "delegator_pool list"
  sti_pool_balances :: "delegator_pool_balance list"
  sti_current_pool_balances :: "current_delegator_pool_balance list"
  sti_voters :: "current_delegated_voter list"

definition stake_collect :: "stake_state \<Rightarrow> stake_inserts" where
  "stake_collect st =
     \<lparr>sti_pool_voters = sort_key cspv_staking_pool_address
        (map snd (collect_by cspv_staking_pool_address (sst_pool_voters st) [])),
      sti_votes = sst_votes st, sti_activities = sst_activities st,
      sti_balances = map fst (sst_balances st),
      sti_current_balances = sort_key cdb_key (map snd (collect_by cdb_key (map snd (sst_balances st)) [])),
      sti_pools = sort_key dpl_staking_pool_address
        (map snd (collect_by dpl_staking_pool_address (map fst (sst_pools st)) [])),
      sti_pool_balances = map (\<lambda>(_, b, _). b) (sst_pools st),
      sti_current_pool_balances = sort_key cdpb_staking_pool_address
        (map snd (collect_by cdpb_staking_pool_address (map (\<lambda>(_, _, c). c) (sst_pools st)) [])),
      sti_voters = sort_key (\<lambda>v. (cdv_delegator_address v, cdv_delegation_pool_address v)) (map snd (sst_voters st))\<rparr>"

definition stake_rows_of ::
  "libs \<Rightarrow> pg_first \<Rightarrow> (i64 \<Rightarrow> nat \<Rightarrow> nat \<Rightarrow> nat \<Rightarrow> db) \<Rightarrow> u32 \<Rightarrow> transaction list \<Rightarrow> failure + stake_inserts" where
  "stake_rows_of L first seen query_retries transactions =
     and_then (fold_result (stake_add_txn L first seen query_retries) transactions no_stake_rows) (\<lambda>st.
     Inr (stake_collect st))"

record stake_serdes =
  sd_current_staking_pool_voter :: "current_staking_pool_voter serde"
  sd_proposal_vote :: "proposal_vote serde"
  sd_delegated_staking_activity :: "delegated_staking_activity serde"
  sd_delegator_balance :: "delegator_balance serde"
  sd_current_delegator_balance :: "current_delegator_balance serde"
  sd_delegator_pool :: "delegator_pool serde"
  sd_delegator_pool_balance :: "delegator_pool_balance serde"
  sd_current_delegator_pool_balance :: "current_delegator_pool_balance serde"
  sd_current_delegated_voter :: "current_delegated_voter serde"

definition stake_insert_to_db :: "stake_serdes \<Rightarrow> (string \<times> nat) list \<Rightarrow> pg_env \<Rightarrow> stake_inserts \<Rightarrow> db_op" where
  "stake_insert_to_db sds per_table_chunk_sizes env rows =
     (let size = (\<lambda>fields name. get_config_table_chunk_size fields name per_table_chunk_sizes) in
      join_inserts
        [execute_in_chunks env insert_current_stake_pool_voter_query (sd_current_staking_pool_voter sds)
           (sti_pool_voters rows) (size 4 ''current_staking_pool_voter''),
         execute_in_chunks env insert_proposal_votes_query (sd_proposal_vote sds) (sti_votes rows) (size 7 ''proposal_votes''),
         execute_in_chunks env insert_delegator_activities_query (sd_delegated_staking_activity sds)
           (sti_activities rows) (size 6 ''delegated_staking_activities''),
         execute_in_chunks env insert_delegator_balances_query (sd_delegator_balance sds)
           (sti_balances rows) (size 8 ''delegator_balances''),
         execute_in_chunks env insert_current_delegator_balances_query (sd_current_delegator_balance sds)
           (sti_current_balances rows) (size 7 ''current_delegator_balances''),
         execute_in_chunks env insert_delegator_pools_query (sd_delegator_pool sds)
           (sti_pools rows) (size 2 ''delegated_staking_pools''),
         execute_in_chunks env insert_delegator_pool_balances_query (sd_delegator_pool_balance sds)
           (sti_pool_balances rows) (size 7 ''delegated_staking_pool_balances''),
         execute_in_chunks env insert_current_delegator_pool_balances_query (sd_current_delegator_pool_balance sds)
           (sti_current_pool_balances rows) (size 7 ''current_delegated_staking_pool_balances''),
         execute_in_chunks env insert_current_delegated_voter_query (sd_current_delegated_voter sds)
           (sti_voters rows) (size 7 ''current_delegated_voter'')])"

definition stake_process_transactions ::
  "libs \<Rightarrow> pg_first \<Rightarrow> (i64 \<Rightarrow> nat \<Rightarrow> nat \<Rightarrow> nat \<Rightarrow> db) \<Rightarrow> u32 \<Rightarrow> stake_serdes \<Rightarrow> rat \<times> rat \<Rightarrow>
   (string \<times> nat) list \<Rightarrow> process_fn" where
  "stake_process_transactions L first seen query_retries sds durations per_table_chunk_sizes =
     process_batch (stake_rows_of L first seen query_retries) (stake_insert_to_db sds per_table_chunk_sizes) durations"

lemmas stake_query_defs = insert_current_stake_pool_voter_query_def insert_proposal_votes_query_def
  insert_delegator_activities_query_def insert_delegator_balances_query_def
  insert_current_delegator_balances_query_def insert_delegator_pools_query_def
  insert_delegator_pool_balances_query_def insert_current_delegator_pool_balances_query_def
  insert_current_delegated_voter_query_def

interpretation stake_processor: batch_processor "stake_rows_of L first seen retries" "stake_insert_to_db sds sizes" durations
  for L first seen retries sds sizes durations
proof
  fix env :: pg_env and rows
  assume "postgres (pg_exec env)"
  then show "untouched ''processor_status'' (stake_insert_to_db sds sizes env rows)"
    unfolding stake_insert_to_db_def Let_def
    by (intro join_inserts_untouched) (auto intro!: execute_in_chunks_untouched simp: stake_query_defs)
qed

section \<open>The rows of a batch\<close>

definition voter_writes :: "libs \<Rightarrow> transaction \<Rightarrow> current_staking_pool_voter list" where
  "voter_writes L t = (case staking_pool_voters_from_transaction L t of Inr rows \<Rightarrow> rows | Inl _ \<Rightarrow> [])"

definition pool_writes :: "libs \<Rightarrow> transaction \<Rightarrow> delegator_pool list" where
  "pool_writes L t = (case delegator_pools_from_transaction L t of Inr rows \<Rightarrow> map fst rows | Inl _ \<Rightarrow> [])"

lemma stake_add_txn_rows:
  assumes "stake_add_txn L first seen retries t st = Inr st'"
  shows "sst_pool_voters st' = sst_pool_voters st @ voter_writes L t"
    and "map fst (sst_pools st') = map fst (sst_pools st) @ pool_writes L t"
    and "\<exists>active balances. delegator_balances_from_transaction L first (seen (ver t) 0) retries t active = Inr balances \<and>
      sst_balances st' = sst_balances st @ balances"
  using assms by (auto simp: stake_add_txn_def voter_writes_def pool_writes_def ver_def Let_def)

lemma stake_batch:
  assumes "stake_rows_of L first seen retries ts = Inr rows"
  obtains st where "rows = stake_collect st" and "sst_pool_voters st = concat (map (voter_writes L) ts)"
    and "map fst (sst_pools st) = concat (map (pool_writes L) ts)"
    and "fold_result (stake_add_txn L first seen retries) ts no_stake_rows = Inr st"
proof -
  obtain st where st: "fold_result (stake_add_txn L first seen retries) ts no_stake_rows = Inr st" "rows = stake_collect st"
    using assms unfolding stake_rows_of_def by fastforce
  have "sst_pool_voters st = sst_pool_voters no_stake_rows @ concat (map (voter_writes L) ts)"
    by (rule fold_result_appends [OF st(1)]) (rule stake_add_txn_rows(1))
  moreover have "map fst (sst_pools st) = map fst (sst_pools no_stake_rows) @ concat (map (pool_writes L) ts)"
    by (rule fold_result_appends [OF st(1), where h = "\<lambda>st. map fst (sst_pools st)"]) (rule stake_add_txn_rows(2))
  ultimately show ?thesis using that st by (simp add: no_stake_rows_def)
qed

lemma voter_writes_version: "c \<in> set (voter_writes L t) \<Longrightarrow> cspv_last_transaction_version c = ver t"
proof -
  have change: "cspv_last_transaction_version c = v" if a: "staking_pool_voter_change L v w = Inr rs" "c \<in> set rs" for v w rs c
  proof -
    note d = staking_pool_voter_change_def
    obtain ch where ch: "wsc_change w = Some ch" using a(1) by (auto simp: d)
    obtain wr where wr: "ch = WriteResource wr" using a ch by (cases ch) (auto simp: d)
    obtain r where r: "stake_from_write_resource L wr v = Inr r" using a(1) ch wr by (auto simp: d)
    obtain i where i: "r = Some (StakePool i)" using a ch wr r by (cases r; cases "the r") (auto simp: d)
    show ?thesis using a ch wr r i by (auto simp: d)
  qed
  assume "c \<in> set (voter_writes L t)"
  then obtain rows where "staking_pool_voters_from_transaction L t = Inr rows" "c \<in> set rows"
    by (cases "staking_pool_voters_from_transaction L t") (auto simp: voter_writes_def)
  then obtain changes where "and_then (map_result (staking_pool_voter_change L (ver t)) changes) (\<lambda>rs. Inr (concat rs)) = Inr rows"
    and "c \<in> set rows"
    by (cases "txn_info t") (auto simp: staking_pool_voters_from_transaction_def ver_def simp del: and_then_eq_Inr)
  then show ?thesis by (rule map_result_concat_in) (rule change)
qed

lemma pool_metadata_version:
  assumes "get_delegated_pool_metadata_from_write_resource L wr v = Inr (Some m)"
  shows "dpm_transaction_version m = v"
proof -
  note d = get_delegated_pool_metadata_from_write_resource_def Let_def
  obtain r where r: "stake_from_write_resource L wr v = Inr r" using assms by (auto simp: d)
  obtain i where i: "r = Some (DelegationPool i)" using assms r by (cases r; cases "the r") (auto simp: d)
  show ?thesis using assms r i by (auto simp: d)
qed

lemma pool_writes_version: "p \<in> set (pool_writes L t) \<Longrightarrow> dpl_first_transaction_version p = ver t"
proof -
  have change: "dpl_first_transaction_version (fst r) = v" if a: "delegator_pool_change L v w = Inr rs" "r \<in> set rs" for v w rs r
  proof -
    note d = delegator_pool_change_def
    obtain ch where ch: "wsc_change w = Some ch" using a(1) by (auto simp: d)
    obtain wr where wr: "ch = WriteResource wr" using a ch by (cases ch) (auto simp: d)
    obtain q where q: "delegator_pool_from_write_resource L wr v = Inr q" "rs = opt_list q"
      using a(1) ch wr by (auto simp: d)
    then have "q = Some r" using a(2) by (cases q) auto
    with q(1) obtain m where "get_delegated_pool_metadata_from_write_resource L wr v = Inr (Some m)"
        "dpl_first_transaction_version (fst r) = dpm_transaction_version m"
      by (auto simp: delegator_pool_from_write_resource_def)
    with pool_metadata_version show ?thesis by metis
  qed
  assume "p \<in> set (pool_writes L t)"
  then obtain rows r where "delegator_pools_from_transaction L t = Inr rows" "r \<in> set rows" and p: "p = fst r"
    by (cases "delegator_pools_from_transaction L t") (auto simp: pool_writes_def)
  then obtain changes where "and_then (map_result (delegator_pool_change L (ver t)) changes) (\<lambda>rs. Inr (concat rs)) = Inr rows"
    and "r \<in> set rows"
    by (cases "txn_info t")
      (auto simp: delegator_pools_from_transaction_def ver_def simp del: and_then_eq_Inr split: option.splits txn_data.splits)
  then show ?thesis unfolding p by (rule map_result_concat_in) (rule change)
qed

lemma stake_batch_current:
  assumes "stake_rows_of L first seen retries ts = Inr rows"
  shows "set (sti_pool_voters rows) = {c. latest_row (voter_writes L) cspv_staking_pool_address ts (cspv_staking_pool_address c) = Some c}"
    and "set (sti_pools rows) = {p. latest_row (pool_writes L) dpl_staking_pool_address ts (dpl_staking_pool_address p) = Some p}"
    and "distinct (map dpl_staking_pool_address (sti_pools rows))"
  using assms
  by (auto elim!: stake_batch simp: stake_collect_def latest_row_def collect_by_image collect_by_sort_distinct)

text \<open>
  C16: the first version of a delegation pool is the last one. The column \<open>first_transaction_version\<close> of the row that a
  batch inserts for a pool is the greatest version of the batch that writes the pool, not the least: the map in which
  the pools of a batch are collected keeps the last of them, and the guard \<open>>=\<close> of the query only compares batches.
\<close>

theorem delegator_pool_first_version:
  assumes "stake_rows_of L first seen retries ts = Inr rows" and "version_ordered ts"
    and "p \<in> set (sti_pools rows)"
  shows "dpl_first_transaction_version p =
    Max {ver t | t. t \<in> set ts \<and> (\<exists>q \<in> set (pool_writes L t). dpl_staking_pool_address q = dpl_staking_pool_address p)}"
proof -
  let ?k = "dpl_staking_pool_address p" and ?effect = "\<lambda>t k. last_by dpl_staking_pool_address k (pool_writes L t)"
  have "latest_row (pool_writes L) dpl_staking_pool_address ts ?k = Some p"
    using assms(3) stake_batch_current(2) [OF assms(1)] by simp
  then have "winner ver ?effect (set ts) ?k p"
    unfolding latest_row_effect latest_effect_winner [OF assms(2)] .
  then obtain t where t: "t \<in> set ts" "?effect t ?k = Some p" "\<forall>t' \<in> set ts. ?effect t' ?k \<noteq> None \<longrightarrow> ver t' \<le> ver t"
    by (auto simp: winner_def)
  have p: "p \<in> set (pool_writes L t)" using last_by_Some [OF t(2)] by simp
  have "ver t' \<le> ver t" if "t' \<in> set ts" "q \<in> set (pool_writes L t')" "dpl_staking_pool_address q = ?k" for t' q
    using t(3) that last_by_None by metis
  then show ?thesis
    unfolding pool_writes_version [OF p] using t(1) p by (intro Max_eqI [symmetric]) auto
qed

section \<open>The voters of the staking pools\<close>

definition voter_columns :: "string set" where
  "voter_columns = {''staking_pool_address'', ''voter_address'', ''last_transaction_version'', ''operator_address''}"

interpretation voter_current: guarded_query
  "[''staking_pool_address'']"
  "[''staking_pool_address'', ''voter_address'', ''last_transaction_version'', ''inserted_at'', ''operator_address'']"
  "WhereLe ''last_transaction_version''" voter_columns insert_current_stake_pool_voter_query current_staking_pool_voter_row
  "''current_staking_pool_voter''"
proof
  show "full_row (WhereLe ''last_transaction_version'') voter_columns (current_staking_pool_voter_row c)" for c
    by (auto simp: full_row_def voter_columns_def current_staking_pool_voter_row_def has_version_def int_cell_def)
qed (auto simp: voter_columns_def insert_current_stake_pool_voter_query_def)

lemma voter_current_arow:
  "voter_current.arow c = map_of (current_staking_pool_voter_row c)"
  "voter_current.pkey (voter_current.arow c) = [SqlText (cspv_staking_pool_address c)]"
  unfolding voter_current.arow_def
  by (subst restrict_row; simp add: current_staking_pool_voter_row_def voter_columns_def)
    (simp add: current_staking_pool_voter_row_def voter_columns_def row_key_def cell_def)

interpretation latest_voters: latest_table
  "[''staking_pool_address'']"
  "[''staking_pool_address'', ''voter_address'', ''last_transaction_version'', ''inserted_at'', ''operator_address'']"
  "''last_transaction_version''" voter_columns insert_current_stake_pool_voter_query current_staking_pool_voter_row
  "''current_staking_pool_voter''" "voter_writes L" cspv_staking_pool_address
  "run_batch (stake_process_transactions L first seen retries sds durations)" "sd_current_staking_pool_voter sds"
  for L first seen retries sds durations
proof
  show "int_of (map_of (current_staking_pool_voter_row c)) ''last_transaction_version'' = ver t"
    if "c \<in> set (voter_writes L t)" for c t
    using voter_writes_version [OF that] by (simp add: current_staking_pool_voter_row_def int_of_def)
next
  fix env sizes txns d d' X g
  assume run: "run_batch (stake_process_transactions L first seen retries sds durations) (env, sizes, txns) d = (Inr (), d')"
    and env: "server_ok g env insert_current_stake_pool_voter_query X" "clean_stable (sd_current_staking_pool_voter sds) X"
    and sub: "{c. latest_row (voter_writes L) cspv_staking_pool_address txns (cspv_staking_pool_address c) = Some c} \<subseteq> X"
    and ok: "table_ok [''staking_pool_address''] (WhereLe ''last_transaction_version'') voter_columns
      (d ''current_staking_pool_voter'')"
  obtain rows where rows: "stake_rows_of L first seen retries txns = Inr rows"
    and ins: "stake_insert_to_db sds sizes env rows d = (Inr (), d')"
    using run unfolding stake_process_transactions_def by (auto elim: run_batch_ok)
  have pg: "postgres (pg_exec env)" using env(1) by (simp add: server_ok_def)
  note cur = stake_batch_current(1) [OF rows]
  show "voter_current.ingested g {c. latest_row (voter_writes L) cspv_staking_pool_address txns (cspv_staking_pool_address c) = Some c}
    (d ''current_staking_pool_voter'') (d' ''current_staking_pool_voter'')"
    unfolding cur [symmetric]
    by (rule voter_current.join_ingests [OF ins [unfolded stake_insert_to_db_def Let_def], where i = 0, OF _ _ _ env])
      (use sub ok cur pg in \<open>simp_all add: execute_in_chunks_untouched stake_query_defs\<close>)
qed

text \<open>
  C15: what the table of current voters holds. However a history with increasing versions is cut into batches,
  reordered or repeated, starting from an empty table, and whatever the lookups of the other rows see in the database,
  for rows that the removal of null bytes leaves as they are: a staking pool has a row exactly when the history gives
  it a voter, and the row is one of those; if no statement loses its version guard, that is if the debug text of no
  query over these rows contains \<open>where\<close>, it is the last voter and operator that the history gives the pool.
\<close>

theorem current_staking_pool_voters_converge:
  assumes "insert_batches (run_batch (stake_process_transactions L first seen retries sds durations)) runs d = Inr d'"
    and "d ''current_staking_pool_voter'' = Map.empty" and "version_ordered H" and "set H = run_txns runs"
    and "servers_ok runs" and "clean_stable (sd_current_staking_pool_voter sds) (written (voter_writes L) H)"
  shows "stored_from (\<lambda>c. map_of (current_staking_pool_voter_row c))
      {c \<in> written (voter_writes L) H. [SqlText (cspv_staking_pool_address c)] = K}
      (view voter_columns (d' ''current_staking_pool_voter'') K) \<and>
    (guards_kept runs insert_current_stake_pool_voter_query (written (voter_writes L) H) \<longrightarrow>
      (view voter_columns (d' ''current_staking_pool_voter'') K = Some r \<longleftrightarrow>
        (\<exists>c. latest_row (voter_writes L) cspv_staking_pool_address H (cspv_staking_pool_address c) = Some c \<and>
          [SqlText (cspv_staking_pool_address c)] = K \<and> map_of (current_staking_pool_voter_row c) = r)))"
proof -
  have keys: "\<forall>a \<in> written (voter_writes L) H. \<forall>b \<in> written (voter_writes L) H.
    voter_current.pkey (voter_current.arow a) = voter_current.pkey (voter_current.arow b) \<longleftrightarrow>
    cspv_staking_pool_address a = cspv_staking_pool_address b"
    by (simp add: voter_current_arow(2))
  show ?thesis
    using latest_voters.latest_content [OF assms keys] unfolding voter_current_arow(2) unfolding voter_current_arow(1) [abs_def] by blast
qed

section \<open>Runs\<close>

text \<open>A transaction that writes a staking pool of \<open>0xa\<close> and its delegation pool.\<close>

definition sample_pool_json :: json where
  "sample_pool_json =
     (let tbl = (\<lambda>h. JObject [(''handle'', JString h)]) in
      JObject [(''active_shares'', JObject [(''shares'', JObject [(''inner'', tbl ''0x5'')]), (''total_coins'', JString ''1''),
                 (''total_shares'', JString ''1''), (''scaling_factor'', JString ''1'')]),
               (''inactive_shares'', tbl ''0x6''), (''operator_commission_percentage'', JString ''1'')])"

definition stake_libs :: libs where
  "stake_libs = sample_libs\<lparr>lib_json_from_str := (\<lambda>s. if s = ''stake''
     then Some (JObject [(''delegated_voter'', JString ''0xb''), (''operator_address'', JString ''0xc'')])
     else Some sample_pool_json)\<rparr>"

definition stake_pool_change :: "string \<Rightarrow> string \<Rightarrow> string \<Rightarrow> write_set_change_pb" where
  "stake_pool_change md name data = \<lparr>wsc_type = 5, wsc_change = Some (WriteResource \<lparr>wr_address = ''0xa'', wr_state_key_hash = [],
     wr_type = Some (MoveStructTagPB ''0x1'' md name []), wr_type_str = [], wr_data = data\<rparr>)\<rparr>"

definition stake_txn :: "u64 \<Rightarrow> transaction" where
  "stake_txn v = (sample_user_txn v)\<lparr>txn_info := map_option (\<lambda>i. i\<lparr>ti_changes :=
     [stake_pool_change ''stake'' ''StakePool'' ''stake'', stake_pool_change ''delegation_pool'' ''DelegationPool'' ''pool'']\<rparr>)
       (txn_info (sample_user_txn v))\<rparr>"

definition sample_voter :: "i64 \<Rightarrow> current_staking_pool_voter" where
  "sample_voter v = \<lparr>cspv_staking_pool_address = standardize_address ''0xa'', cspv_voter_address = standardize_address ''0xb'',
     cspv_last_transaction_version = v, cspv_operator_address = standardize_address ''0xc''\<rparr>"

definition sample_pool_metadata :: "i64 \<Rightarrow> delegator_pool_balance_metadata" where
  "sample_pool_metadata v = \<lparr>dpm_transaction_version = v, dpm_staking_pool_address = standardize_address ''0xa'',
     dpm_total_coins = 1, dpm_total_shares = 1, dpm_scaling_factor = 1, dpm_operator_commission_percentage = 1,
     dpm_active_share_table_handle = standardize_address ''0x5'', dpm_inactive_share_table_handle = standardize_address ''0x6''\<rparr>"

lemma stake_addr_standard: "standardize_address ''0x1'' = stake_addr"
  by code_simp

lemma standardize_stake_addr: "standardize_address stake_addr = stake_addr"
  by (metis stake_addr_standard standardize_idem)

lemma stake_libs_sel:
  "lib_json_from_str stake_libs s = (if s = ''stake''
     then Some (JObject [(''delegated_voter'', JString ''0xb''), (''operator_address'', JString ''0xc'')])
     else Some sample_pool_json)"
  "lib_parse_bigdecimal stake_libs s = Some 1" "lib_bigdecimal_div stake_libs 1 1 = Some 1"
  "lib_from_timestamp_opt stake_libs secs nanos = Some (secs, nanos)"
  by (simp_all add: stake_libs_def sample_libs_def)

lemma sample_stake_resources:
  assumes "wr_type wr = Some (MoveStructTagPB ''0x1'' md name [])"
  shows "get_outer_type_from_resource stake_libs wr = Inr (stake_addr @ ''::'' @ md @ ''::'' @ name)"
    and "md = ''stake'' \<Longrightarrow> name = ''StakePool'' \<Longrightarrow> wr_data wr = ''stake'' \<Longrightarrow> stake_from_write_resource stake_libs wr v =
      Inr (Some (StakePool \<lparr>spr_delegated_voter = ''0xb'', spr_operator_address = ''0xc''\<rparr>))"
    and "md = ''delegation_pool'' \<Longrightarrow> name = ''DelegationPool'' \<Longrightarrow> wr_data wr = ''pool'' \<Longrightarrow>
      stake_from_write_resource stake_libs wr v = Inr (Some (DelegationPool \<lparr>dpr_active_shares = \<lparr>plr_shares = ''0x5'',
        plr_total_coins = 1, plr_total_shares = 1, plr_scaling_factor = 1\<rparr>, dpr_inactive_shares = ''0x6'',
        dpr_operator_commission_percentage = 1\<rparr>))"
    and "name \<noteq> ''GovernanceRecords'' \<Longrightarrow> md \<in> {''stake'', ''delegation_pool''} \<Longrightarrow>
      governance_records_from_write_resource stake_libs wr v = Inr None"
proof -
  show outer: "get_outer_type_from_resource stake_libs wr = Inr (stake_addr @ ''::'' @ md @ ''::'' @ name)"
    using assms by (simp add: get_outer_type_from_resource_def convert_move_struct_tag_def mst_get_address_def
        stake_addr_standard standardize_stake_addr Let_def)
  note defs = stake_from_write_resource_def governance_records_from_write_resource_def outer stake_is_resource_supported_def
    from_write_resource_def assms stake_libs_sel stake_from_resource_def parse_or_err_def Let_def
    governance_records_from_resource_def read_stake_pool_def field_def read_delegation_pool_def read_pool_resource_def sample_pool_json_def
    read_single_def read_table_def read_bigdecimal_def deserialize_from_string_def
  show "md = ''stake'' \<Longrightarrow> name = ''StakePool'' \<Longrightarrow> wr_data wr = ''stake'' \<Longrightarrow> stake_from_write_resource stake_libs wr v =
      Inr (Some (StakePool \<lparr>spr_delegated_voter = ''0xb'', spr_operator_address = ''0xc''\<rparr>))"
    by (simp add: defs)
  show "md = ''delegation_pool'' \<Longrightarrow> name = ''DelegationPool'' \<Longrightarrow> wr_data wr = ''pool'' \<Longrightarrow>
      stake_from_write_resource stake_libs wr v = Inr (Some (DelegationPool \<lparr>dpr_active_shares = \<lparr>plr_shares = ''0x5'',
        plr_total_coins = 1, plr_total_shares = 1, plr_scaling_factor = 1\<rparr>, dpr_inactive_shares = ''0x6'',
        dpr_operator_commission_percentage = 1\<rparr>))"
    by (simp add: defs)
  show "name \<noteq> ''GovernanceRecords'' \<Longrightarrow> md \<in> {''stake'', ''delegation_pool''} \<Longrightarrow>
      governance_records_from_write_resource stake_libs wr v = Inr None"
    by (auto simp: defs)
qed

definition sample_pool_row :: "i64 \<Rightarrow> delegator_pool \<times> delegator_pool_balance \<times> current_delegator_pool_balance" where
  "sample_pool_row v =
     (\<lparr>dpl_staking_pool_address = standardize_address ''0xa'', dpl_first_transaction_version = v\<rparr>,
      \<lparr>dpb_transaction_version = v, dpb_staking_pool_address = standardize_address ''0xa'', dpb_total_coins = 1,
       dpb_total_shares = 1, dpb_operator_commission_percentage = 1,
       dpb_inactive_table_handle = standardize_address ''0x6'', dpb_active_table_handle = standardize_address ''0x5''\<rparr>,
      \<lparr>cdpb_staking_pool_address = standardize_address ''0xa'', cdpb_total_coins = 1, cdpb_total_shares = 1,
       cdpb_last_transaction_version = v, cdpb_operator_commission_percentage = 1,
       cdpb_inactive_table_handle = standardize_address ''0x6'', cdpb_active_table_handle = standardize_address ''0x5''\<rparr>)"

abbreviation sample_stake_pool :: write_set_change_pb where
  "sample_stake_pool \<equiv> stake_pool_change ''stake'' ''StakePool'' ''stake''"

abbreviation sample_delegation_pool :: write_set_change_pb where
  "sample_delegation_pool \<equiv> stake_pool_change ''delegation_pool'' ''DelegationPool'' ''pool''"

lemma stake_txn_sel:
  "txn_info (stake_txn v) = Some \<lparr>ti_hash = [], ti_state_change_hash = [], ti_event_root_hash = [],
        ti_state_checkpoint_hash = None, ti_gas_used = 1, ti_success = True, ti_vm_status = [],
        ti_accumulator_root_hash = [], ti_changes = [sample_stake_pool, sample_delegation_pool]\<rparr>"
  "txn_version (stake_txn v) = v" "txn_timestamp (stake_txn v) = Some \<lparr>ts_seconds = 0, ts_nanos = 0\<rparr>"
  "\<exists>u. txn_txn_data (stake_txn v) = Some (User u) \<and> ut_events u = []"
  by (simp_all add: stake_txn_def sample_user_txn_def)

lemma sample_metadata:
  assumes "wr_type wr = Some (MoveStructTagPB ''0x1'' md name [])"
  shows "md = ''stake'' \<Longrightarrow> name = ''StakePool'' \<Longrightarrow> wr_data wr = ''stake'' \<Longrightarrow>
      get_delegated_pool_metadata_from_write_resource stake_libs wr v = Inr None"
    and "md = ''delegation_pool'' \<Longrightarrow> name = ''DelegationPool'' \<Longrightarrow> wr_data wr = ''pool'' \<Longrightarrow> wr_address wr = ''0xa'' \<Longrightarrow>
      get_delegated_pool_metadata_from_write_resource stake_libs wr v = Inr (Some (sample_pool_metadata v))"
  by (simp_all add: get_delegated_pool_metadata_from_write_resource_def sample_stake_resources [OF assms]
      bigdecimal_div_def stake_libs_sel sample_pool_metadata_def get_handle_def)

lemma stake_txn_parts:
  "staking_pool_voters_from_transaction stake_libs (stake_txn v) = Inr [sample_voter (as_i64 v)]"
  "delegator_pools_from_transaction stake_libs (stake_txn v) = Inr [sample_pool_row (as_i64 v)]"
  "proposal_votes_from_transaction stake_libs (stake_txn v) = Inr []"
  "stake_activities_from_transaction stake_libs (stake_txn v) = Inr []"
  "delegator_balances_from_transaction stake_libs first seen retries (stake_txn v) active = Inr []"
  using stake_txn_sel(4) [of v]
  by (auto simp: staking_pool_voters_from_transaction_def stake_txn_sel(1-3) staking_pool_voter_change_def stake_pool_change_def
      sample_stake_resources sample_voter_def get_delegated_voter_def get_operator_address_def
      delegator_pools_from_transaction_def delegator_pool_change_def delegator_pool_from_write_resource_def sample_metadata
      sample_pool_metadata_def sample_pool_row_def proposal_votes_from_transaction_def stake_activities_from_transaction_def
      delegator_balances_from_transaction_def add_inactive_mappings_def get_inactive_pool_to_staking_pool_mapping_def
      delegator_balance_change_def enumerate_Suc_eq Let_def)

lemma stake_txn_run:
  "stake_add_txn stake_libs first seen retries (stake_txn v) st = Inr (st\<lparr>
     sst_pool_voters := sst_pool_voters st @ [sample_voter (as_i64 v)], sst_pools := sst_pools st @ [sample_pool_row (as_i64 v)],
     sst_active := AList.update (standardize_address ''0x5'') (sample_pool_metadata (as_i64 v)) (sst_active st)\<rparr>)"
  by (simp add: stake_add_txn_def stake_txn_parts stake_txn_sel(1-3) parse_timestamp_def stake_libs_sel
      add_handles_def stake_pool_change_def sample_stake_resources sample_metadata get_active_pool_to_staking_pool_mapping_def
      sample_pool_metadata_def extend_opt_def hm_extend_def add_voters_def add_default_voters_def Let_def)

lemma stake_writes_sample:
  "voter_writes stake_libs (stake_txn v) = [sample_voter (as_i64 v)]"
  "pool_writes stake_libs (stake_txn v) = [fst (sample_pool_row (as_i64 v))]"
  by (simp_all add: voter_writes_def pool_writes_def stake_txn_parts)

lemma stake_txn_ver: "ver (stake_txn 7) = 7" "ver (stake_txn 8) = 8"
  by (simp_all add: ver_def stake_txn_sel(2) as_i64_small)

text \<open>One batch with the versions 7 and 8, which both write the pool: the row of the pool says 8.\<close>

theorem delegator_pool_first_version_witness:
  "\<exists>rows. stake_rows_of stake_libs (\<lambda>_ _ _. Inr None) (\<lambda>_ _ _ _ _. Map.empty) 5 [stake_txn 7, stake_txn 8] = Inr rows \<and>
    fst (sample_pool_row 7) \<in> set (pool_writes stake_libs (stake_txn 7)) \<and> sti_pools rows = [fst (sample_pool_row 8)]"
proof -
  obtain rows where rows: "stake_rows_of stake_libs (\<lambda>_ _ _. Inr None) (\<lambda>_ _ _ _ _. Map.empty) 5 [stake_txn 7, stake_txn 8] = Inr rows"
    by (simp add: stake_rows_of_def stake_txn_run)
  have "latest_row (pool_writes stake_libs) dpl_staking_pool_address [stake_txn 7, stake_txn 8] k =
      (if k = standardize_address ''0xa'' then Some (fst (sample_pool_row 8)) else None)" for k
    by (simp add: latest_row_def stake_writes_sample last_by_def as_i64_small sample_pool_row_def)
  then have "set (sti_pools rows) = {fst (sample_pool_row 8)}"
    unfolding stake_batch_current(2) [OF rows] by (auto simp: sample_pool_row_def split: if_splits)
  then obtain p where p: "sti_pools rows = [p]"
    using stake_batch_current(3) [OF rows] by (cases "sti_pools rows") (auto simp: subset_singleton_iff)
  have "{ver t | t. t \<in> set [stake_txn 7, stake_txn 8] \<and>
      (\<exists>q \<in> set (pool_writes stake_libs t). dpl_staking_pool_address q = dpl_staking_pool_address p)} = {7, 8}"
    using \<open>set (sti_pools rows) = {fst (sample_pool_row 8)}\<close> p stake_txn_ver
    by (auto simp: stake_writes_sample sample_pool_row_def)
  then have "dpl_first_transaction_version p = 8"
    using delegator_pool_first_version [OF rows] p by (simp add: version_ordered_def stake_txn_ver)
  then show ?thesis
    using rows p \<open>set (sti_pools rows) = {fst (sample_pool_row 8)}\<close> by (simp add: stake_writes_sample as_i64_small)
qed

definition sample_stake_serdes :: stake_serdes where
  "sample_stake_serdes =
     \<lparr>sd_current_staking_pool_voter = \<lparr>to_value = (\<lambda>c. JInt (cspv_last_transaction_version c)),
         from_value = (\<lambda>j. case j of JInt v \<Rightarrow> Some (sample_voter v) | _ \<Rightarrow> None)\<rparr>,
       sd_proposal_vote = \<lparr>to_value = (\<lambda>_. JNull), from_value = (\<lambda>_. None)\<rparr>,
       sd_delegated_staking_activity = \<lparr>to_value = (\<lambda>_. JNull), from_value = (\<lambda>_. None)\<rparr>,
       sd_delegator_balance = \<lparr>to_value = (\<lambda>_. JNull), from_value = (\<lambda>_. None)\<rparr>,
       sd_current_delegator_balance = \<lparr>to_value = (\<lambda>_. JNull), from_value = (\<lambda>_. None)\<rparr>,
       sd_delegator_pool = \<lparr>to_value = (\<lambda>_. JNull), from_value = (\<lambda>_. None)\<rparr>,
       sd_delegator_pool_balance = \<lparr>to_value = (\<lambda>_. JNull), from_value = (\<lambda>_. None)\<rparr>,
       sd_current_delegator_pool_balance = \<lparr>to_value = (\<lambda>_. JNull), from_value = (\<lambda>_. None)\<rparr>,
       sd_current_delegated_voter = \<lparr>to_value = (\<lambda>_. JNull), from_value = (\<lambda>_. None)\<rparr>\<rparr>"

lemma stake_txn_batch:
  "\<exists>d'. run_batch (stake_process_transactions stake_libs first seen retries sds durations) (sample_pg, [], [stake_txn v]) d =
     (Inr (), d')"
proof -
  let ?rows = "stake_collect (no_stake_rows\<lparr>sst_pool_voters := [sample_voter (as_i64 v)], sst_pools := [sample_pool_row (as_i64 v)],
    sst_active := [(standardize_address ''0x5'', sample_pool_metadata (as_i64 v))]\<rparr>)"
  have rows: "stake_rows_of stake_libs first seen retries [stake_txn v] = Inr ?rows"
    by (simp add: stake_rows_of_def stake_txn_run no_stake_rows_def)
  have "\<exists>d'. stake_insert_to_db sds [] sample_pg ?rows d = (Inr (), d')"
    unfolding stake_insert_to_db_def Let_def
    by (rule join_inserts_succeeds, unfold list.set ball_simps, intro conjI allI TrueI)
      (rule reference_single reference_do_nothing;
        simp add: default_chunk_size stake_query_defs stake_collect_def no_stake_rows_def collect_by_def sample_pool_row_def
          del: One_nat_def)+
  with rows show ?thesis unfolding stake_process_transactions_def by (intro run_batch_succeeds) auto
qed

theorem current_staking_pool_voters_converge_witness:
  "\<exists>d'. insert_batches (run_batch (stake_process_transactions stake_libs (\<lambda>_ _ _. Inr None) (\<lambda>_ _ _ _ _. Map.empty) 5
        sample_stake_serdes (0, 0)))
      [(sample_pg, [], [stake_txn 8]), (sample_pg, [], [stake_txn 7]), (sample_pg, [], [stake_txn 8])] (\<lambda>_. Map.empty) = Inr d' \<and>
    view voter_columns (d' ''current_staking_pool_voter'') [SqlText (standardize_address ''0xa'')] =
      Some (map_of (current_staking_pool_voter_row (sample_voter 8)))"
proof -
  let ?batch = "run_batch (stake_process_transactions stake_libs (\<lambda>_ _ _. Inr None) (\<lambda>_ _ _ _ _. Map.empty) 5
    sample_stake_serdes (0, 0))"
  let ?runs = "[(sample_pg, [], [stake_txn 8]), (sample_pg, [], [stake_txn 7]), (sample_pg, [], [stake_txn 8])]"
  let ?H = "[stake_txn 7, stake_txn 8]"
  obtain d' where run: "insert_batches ?batch ?runs (\<lambda>_. Map.empty) = Inr d'"
    using insert_batches_total [of ?runs ?batch "\<lambda>_. Map.empty"] stake_txn_batch by (auto simp del: insert_batches.simps)
  have clean: "clean_stable (sd_current_staking_pool_voter sample_stake_serdes) (written (voter_writes stake_libs) ?H)"
    by (auto simp: clean_stable_def written_def stake_writes_sample remove_null_bytes_def sample_stake_serdes_def sample_voter_def)
  have "latest_row (voter_writes stake_libs) cspv_staking_pool_address ?H (cspv_staking_pool_address (sample_voter 8)) =
      Some (sample_voter 8)"
    by (simp add: latest_row_def stake_writes_sample last_by_def as_i64_small sample_voter_def)
  moreover have "view voter_columns (d' ''current_staking_pool_voter'') K = Some r \<longleftrightarrow>
      (\<exists>c. latest_row (voter_writes stake_libs) cspv_staking_pool_address ?H (cspv_staking_pool_address c) = Some c \<and>
        [SqlText (cspv_staking_pool_address c)] = K \<and> map_of (current_staking_pool_voter_row c) = r)" for K r
    by (rule current_staking_pool_voters_converge [OF run _ _ _ _ clean, THEN conjunct2, THEN mp])
      (auto simp: version_ordered_def stake_txn_ver servers_ok_def guards_kept_def sample_pg_ok run_txns_def)
  moreover have "cspv_staking_pool_address (sample_voter 8) = standardize_address ''0xa''" by (simp add: sample_voter_def)
  ultimately show ?thesis using run by (metis (no_types, lifting))
qed

end
