(* ===== verification/Token_Models.thy ===== *)
theory Token_Models
  imports Object_Utils Processor
begin

text \<open>
  \<open>models/token_models\<close>: the tokens of the contract \<open>0x3\<close>. Tokens, token data, collections and offers are
  items of tables; who owns a table is known from the resources \<open>Collections\<close>, \<open>TokenStore\<close> and
  \<open>PendingClaims\<close>, whose table handles are collected for a whole batch. A collection whose table is not
  among them is looked up in the database with a bounded number of attempts; \<open>seen n\<close> is what the lookup
  sees at attempt \<open>n\<close>.
\<close>

section \<open>Move types (\<open>token_utils.rs\<close>)\<close>

definition token_addr :: string where
  "token_addr = ''0x0000000000000000000000000000000000000000000000000000000000000003''"

record token_data_id_type =
  tdi_creator :: string
  tdi_collection :: string
  tdi_name :: string

record collection_data_id_type =
  cdi_creator :: string
  cdi_name :: string

record token_id_type =
  tid_token_data_id :: token_data_id_type
  tid_property_version :: rat

record token_data_mutability_config_type =
  tdm_description :: bool
  tdm_maximum :: bool
  tdm_properties :: bool
  tdm_royalty :: bool
  tdm_uri :: bool

record royalty_type =
  roy_payee_address :: string
  roy_royalty_points_denominator :: rat
  roy_royalty_points_numerator :: rat

record token_data_type =
  tdt_default_properties :: json
  tdt_description :: string
  tdt_largest_property_version :: rat
  tdt_maximum :: rat
  tdt_mutability_config :: token_data_mutability_config_type
  tdt_name :: string
  tdt_royalty :: royalty_type
  tdt_supply :: rat
  tdt_uri :: string

record token_type =
  tkt_amount :: rat
  tkt_id :: token_id_type
  tkt_token_properties :: json

record collection_data_mutability_config_type =
  cdm_description :: bool
  cdm_maximum :: bool
  cdm_uri :: bool

record collection_data_type =
  cdt_description :: string
  cdt_maximum :: rat
  cdt_mutability_config :: collection_data_mutability_config_type
  cdt_name :: string
  cdt_supply :: rat
  cdt_uri :: string

record token_offer_id_type =
  toi_to_addr :: string
  toi_token_id :: token_id_type

text \<open>
  \<open>WithdrawTokenEventType\<close>, \<open>DepositTokenEventType\<close> and \<open>BurnTokenEventType\<close> have the same fields, and so have
  \<open>OfferTokenEventType\<close>, \<open>CancelTokenOfferEventType\<close> and \<open>ClaimTokenEventType\<close>.
\<close>

record token_amount_event =
  tae_amount :: rat
  tae_id :: token_id_type

record token_offer_event =
  toe_amount :: rat
  toe_to_address :: string
  toe_token_id :: token_id_type

record mint_token_event_type =
  mte_amount :: rat
  mte_id :: token_data_id_type

record mutate_token_property_map_event_type =
  mpe_old_id :: token_id_type
  mpe_new_id :: token_id_type

datatype token_write_set =
    WsTokenDataId token_data_id_type
  | WsTokenId token_id_type
  | WsTokenData token_data_type
  | WsToken token_type
  | WsCollectionData collection_data_type
  | WsTokenOfferId token_offer_id_type

datatype token_event =
    MintTokenEvent mint_token_event_type
  | BurnTokenEvent token_amount_event
  | MutateTokenPropertyMapEvent mutate_token_property_map_event_type
  | WithdrawTokenEvent token_amount_event
  | DepositTokenEvent token_amount_event
  | OfferTokenEvent token_offer_event
  | CancelTokenOfferEvent token_offer_event
  | ClaimTokenEvent token_offer_event

text \<open>The handles of the tables \<open>collection_data\<close> and \<open>token_data\<close>, \<open>tokens\<close>, and \<open>pending_claims\<close>.\<close>

datatype token_resource =
    CollectionResource string string
  | TokenStoreResource string
  | PendingClaimsResource string

subsection \<open>Readers\<close>

definition read_token_data_id :: "token_data_id_type reader" where
  "read_token_data_id j =
     (let names = [''creator'', ''collection'', ''name''] in
      Option.bind (field names ''creator'' read_string j) (\<lambda>creator.
      Option.bind (field names ''collection'' read_string j) (\<lambda>collection.
      Option.bind (field names ''name'' read_string j) (\<lambda>name.
      Some \<lparr>tdi_creator = creator, tdi_collection = collection, tdi_name = name\<rparr>))))"

definition read_token_id :: "libs \<Rightarrow> token_id_type reader" where
  "read_token_id L j =
     (let names = [''token_data_id'', ''property_version''] in
      Option.bind (field names ''token_data_id'' read_token_data_id j) (\<lambda>token_data_id.
      Option.bind (field names ''property_version'' (read_bigdecimal L) j) (\<lambda>property_version.
      Some \<lparr>tid_token_data_id = token_data_id, tid_property_version = property_version\<rparr>)))"

definition read_token_data_mutability_config :: "token_data_mutability_config_type reader" where
  "read_token_data_mutability_config j =
     (let names = [''description'', ''maximum'', ''properties'', ''royalty'', ''uri''] in
      Option.bind (field names ''description'' read_bool j) (\<lambda>description.
      Option.bind (field names ''maximum'' read_bool j) (\<lambda>maximum.
      Option.bind (field names ''properties'' read_bool j) (\<lambda>properties.
      Option.bind (field names ''royalty'' read_bool j) (\<lambda>royalty.
      Option.bind (field names ''uri'' read_bool j) (\<lambda>uri.
      Some \<lparr>tdm_description = description, tdm_maximum = maximum, tdm_properties = properties,
            tdm_royalty = royalty, tdm_uri = uri\<rparr>))))))"

definition read_royalty :: "libs \<Rightarrow> royalty_type reader" where
  "read_royalty L j =
     (let names = [''payee_address'', ''royalty_points_denominator'', ''royalty_points_numerator''] in
      Option.bind (field names ''payee_address'' read_string j) (\<lambda>payee_address.
      Option.bind (field names ''royalty_points_denominator'' (read_bigdecimal L) j) (\<lambda>denominator.
      Option.bind (field names ''royalty_points_numerator'' (read_bigdecimal L) j) (\<lambda>numerator.
      Some \<lparr>roy_payee_address = payee_address, roy_royalty_points_denominator = denominator,
            roy_royalty_points_numerator = numerator\<rparr>))))"

definition read_token_data :: "libs \<Rightarrow> token_data_type reader" where
  "read_token_data L j =
     (let names = [''default_properties'', ''description'', ''largest_property_version'', ''maximum'',
        ''mutability_config'', ''name'', ''royalty'', ''supply'', ''uri''] in
      Option.bind (field names ''default_properties'' (\<lambda>v. Some (deserialize_property_map_from_bcs_hexstring L v)) j)
        (\<lambda>default_properties.
      Option.bind (field names ''description'' read_string j) (\<lambda>description.
      Option.bind (field names ''largest_property_version'' (read_bigdecimal L) j) (\<lambda>largest.
      Option.bind (field names ''maximum'' (read_bigdecimal L) j) (\<lambda>maximum.
      Option.bind (field names ''mutability_config'' read_token_data_mutability_config j) (\<lambda>config.
      Option.bind (field names ''name'' read_string j) (\<lambda>name.
      Option.bind (field names ''royalty'' (read_royalty L) j) (\<lambda>royalty.
      Option.bind (field names ''supply'' (read_bigdecimal L) j) (\<lambda>supply.
      Option.bind (field names ''uri'' read_string j) (\<lambda>uri.
      Some \<lparr>tdt_default_properties = default_properties, tdt_description = description,
            tdt_largest_property_version = largest, tdt_maximum = maximum, tdt_mutability_config = config,
            tdt_name = name, tdt_royalty = royalty, tdt_supply = supply, tdt_uri = uri\<rparr>))))))))))"

definition read_token :: "libs \<Rightarrow> token_type reader" where
  "read_token L j =
     (let names = [''amount'', ''id'', ''token_properties''] in
      Option.bind (field names ''amount'' (read_bigdecimal L) j) (\<lambda>amount.
      Option.bind (field names ''id'' (read_token_id L) j) (\<lambda>id.
      Option.bind (field names ''token_properties'' (\<lambda>v. Some (deserialize_property_map_from_bcs_hexstring L v)) j)
        (\<lambda>token_properties.
      Some \<lparr>tkt_amount = amount, tkt_id = id, tkt_token_properties = token_properties\<rparr>))))"

definition read_collection_data_mutability_config :: "collection_data_mutability_config_type reader" where
  "read_collection_data_mutability_config j =
     (let names = [''description'', ''maximum'', ''uri''] in
      Option.bind (field names ''description'' read_bool j) (\<lambda>description.
      Option.bind (field names ''maximum'' read_bool j) (\<lambda>maximum.
      Option.bind (field names ''uri'' read_bool j) (\<lambda>uri.
      Some \<lparr>cdm_description = description, cdm_maximum = maximum, cdm_uri = uri\<rparr>))))"

definition read_collection_data :: "libs \<Rightarrow> collection_data_type reader" where
  "read_collection_data L j =
     (let names = [''description'', ''maximum'', ''mutability_config'', ''name'', ''supply'', ''uri''] in
      Option.bind (field names ''description'' read_string j) (\<lambda>description.
      Option.bind (field names ''maximum'' (read_bigdecimal L) j) (\<lambda>maximum.
      Option.bind (field names ''mutability_config'' read_collection_data_mutability_config j) (\<lambda>config.
      Option.bind (field names ''name'' read_string j) (\<lambda>name.
      Option.bind (field names ''supply'' (read_bigdecimal L) j) (\<lambda>supply.
      Option.bind (field names ''uri'' read_string j) (\<lambda>uri.
      Some \<lparr>cdt_description = description, cdt_maximum = maximum, cdt_mutability_config = config,
            cdt_name = name, cdt_supply = supply, cdt_uri = uri\<rparr>)))))))"

definition read_token_offer_id :: "libs \<Rightarrow> token_offer_id_type reader" where
  "read_token_offer_id L j =
     (let names = [''to_addr'', ''token_id''] in
      Option.bind (field names ''to_addr'' read_string j) (\<lambda>to_addr.
      Option.bind (field names ''token_id'' (read_token_id L) j) (\<lambda>token_id.
      Some \<lparr>toi_to_addr = to_addr, toi_token_id = token_id\<rparr>)))"

definition read_token_amount_event :: "libs \<Rightarrow> token_amount_event reader" where
  "read_token_amount_event L j =
     (let names = [''amount'', ''id''] in
      Option.bind (field names ''amount'' (read_bigdecimal L) j) (\<lambda>amount.
      Option.bind (field names ''id'' (read_token_id L) j) (\<lambda>id.
      Some \<lparr>tae_amount = amount, tae_id = id\<rparr>)))"

definition read_mint_token_event :: "libs \<Rightarrow> mint_token_event_type reader" where
  "read_mint_token_event L j =
     (let names = [''amount'', ''id''] in
      Option.bind (field names ''amount'' (read_bigdecimal L) j) (\<lambda>amount.
      Option.bind (field names ''id'' read_token_data_id j) (\<lambda>id.
      Some \<lparr>mte_amount = amount, mte_id = id\<rparr>)))"

definition read_mutate_token_property_map_event :: "libs \<Rightarrow> mutate_token_property_map_event_type reader" where
  "read_mutate_token_property_map_event L j =
     (let names = [''old_id'', ''new_id''] in
      Option.bind (field names ''old_id'' (read_token_id L) j) (\<lambda>old_id.
      Option.bind (field names ''new_id'' (read_token_id L) j) (\<lambda>new_id.
      Some \<lparr>mpe_old_id = old_id, mpe_new_id = new_id\<rparr>)))"

definition read_token_offer_event :: "libs \<Rightarrow> token_offer_event reader" where
  "read_token_offer_event L j =
     (let names = [''amount'', ''to_address'', ''token_id''] in
      Option.bind (field names ''amount'' (read_bigdecimal L) j) (\<lambda>amount.
      Option.bind (field names ''to_address'' read_string j) (\<lambda>to_address.
      Option.bind (field names ''token_id'' (read_token_id L) j) (\<lambda>token_id.
      Some \<lparr>toe_amount = amount, toe_to_address = to_address, toe_token_id = token_id\<rparr>))))"

definition read_collection_resource :: "(string \<times> string) reader" where
  "read_collection_resource j =
     (let names = [''collection_data'', ''token_data''] in
      Option.bind (field names ''collection_data'' read_table j) (\<lambda>collection_data.
      Option.bind (field names ''token_data'' read_table j) (\<lambda>token_data.
      Some (collection_data, token_data))))"

subsection \<open>Identifiers\<close>

definition collection_data_id_to_string :: "collection_data_id_type \<Rightarrow> string" where
  "collection_data_id_to_string c = standardize_address (cdi_creator c) @ ''::'' @ cdi_name c"

definition collection_data_id_to_hash :: "libs \<Rightarrow> collection_data_id_type \<Rightarrow> string" where
  "collection_data_id_to_hash L c = hash_str L (collection_data_id_to_string c)"

definition collection_data_id_to_id :: "libs \<Rightarrow> collection_data_id_type \<Rightarrow> string" where
  "collection_data_id_to_id L c = ''0x'' @ collection_data_id_to_hash L c"

definition token_data_id_to_string :: "token_data_id_type \<Rightarrow> string" where
  "token_data_id_to_string t = standardize_address (tdi_creator t) @ ''::'' @ tdi_collection t @ ''::'' @ tdi_name t"

definition token_data_id_to_hash :: "libs \<Rightarrow> token_data_id_type \<Rightarrow> string" where
  "token_data_id_to_hash L t = hash_str L (token_data_id_to_string t)"

definition token_data_id_to_id :: "libs \<Rightarrow> token_data_id_type \<Rightarrow> string" where
  "token_data_id_to_id L t = ''0x'' @ token_data_id_to_hash L t"

definition get_collection_trunc :: "token_data_id_type \<Rightarrow> failure + string" where
  "get_collection_trunc t = truncate_str (tdi_collection t) name_length"

definition token_data_id_name_trunc :: "token_data_id_type \<Rightarrow> failure + string" where
  "token_data_id_name_trunc t = truncate_str (tdi_name t) name_length"

definition get_collection_data_id_hash :: "libs \<Rightarrow> token_data_id_type \<Rightarrow> string" where
  "get_collection_data_id_hash L t =
     collection_data_id_to_hash L \<lparr>cdi_creator = tdi_creator t, cdi_name = tdi_collection t\<rparr>"

definition get_collection_id :: "libs \<Rightarrow> token_data_id_type \<Rightarrow> string" where
  "get_collection_id L t = collection_data_id_to_id L \<lparr>cdi_creator = tdi_creator t, cdi_name = tdi_collection t\<rparr>"

definition token_creator_address :: "token_data_id_type \<Rightarrow> string" where
  "token_creator_address t = standardize_address (tdi_creator t)"

definition token_data_uri_trunc :: "token_data_type \<Rightarrow> failure + string" where
  "token_data_uri_trunc t = truncate_str (tdt_uri t) uri_length"

definition get_payee_address :: "royalty_type \<Rightarrow> string" where
  "get_payee_address r = standardize_address (roy_payee_address r)"

definition collection_data_uri_trunc :: "collection_data_type \<Rightarrow> failure + string" where
  "collection_data_uri_trunc c = truncate_str (cdt_uri c) uri_length"

definition collection_data_name_trunc :: "collection_data_type \<Rightarrow> failure + string" where
  "collection_data_name_trunc c = truncate_str (cdt_name c) name_length"

definition offer_id_to_address :: "token_offer_id_type \<Rightarrow> string" where
  "offer_id_to_address offer = standardize_address (toi_to_addr offer)"

definition offer_event_to_address :: "token_offer_event \<Rightarrow> string" where
  "offer_event_to_address e = standardize_address (toe_to_address e)"

subsection \<open>Table items, events and resources\<close>

definition token_from_table_item_type :: "libs \<Rightarrow> string \<Rightarrow> string \<Rightarrow> failure + token_write_set option" where
  "token_from_table_item_type L data_type data =
     (if data_type = ''0x3::token::TokenDataId'' then from_json_str L read_token_data_id WsTokenDataId data
      else if data_type = ''0x3::token::TokenId'' then from_json_str L (read_token_id L) WsTokenId data
      else if data_type = ''0x3::token::TokenData'' then from_json_str L (read_token_data L) WsTokenData data
      else if data_type = ''0x3::token::Token'' then from_json_str L (read_token L) WsToken data
      else if data_type = ''0x3::token::CollectionData'' then from_json_str L (read_collection_data L) WsCollectionData data
      else if data_type = ''0x3::token_transfers::TokenOfferId''
      then from_json_str L (read_token_offer_id L) WsTokenOfferId data
      else Inr None)"

text \<open>The \<open>if let\<close> patterns of the models.\<close>

definition item_token :: "libs \<Rightarrow> string \<Rightarrow> string \<Rightarrow> failure + token_type option" where
  "item_token L data_type data =
     and_then (token_from_table_item_type L data_type data)
       (\<lambda>w. Inr (case w of Some (WsToken inner) \<Rightarrow> Some inner | _ \<Rightarrow> None))"

definition item_token_id :: "libs \<Rightarrow> string \<Rightarrow> string \<Rightarrow> failure + token_id_type option" where
  "item_token_id L data_type data =
     and_then (token_from_table_item_type L data_type data)
       (\<lambda>w. Inr (case w of Some (WsTokenId inner) \<Rightarrow> Some inner | _ \<Rightarrow> None))"

definition item_token_data :: "libs \<Rightarrow> string \<Rightarrow> string \<Rightarrow> failure + token_data_type option" where
  "item_token_data L data_type data =
     and_then (token_from_table_item_type L data_type data)
       (\<lambda>w. Inr (case w of Some (WsTokenData inner) \<Rightarrow> Some inner | _ \<Rightarrow> None))"

definition item_token_data_id :: "libs \<Rightarrow> string \<Rightarrow> string \<Rightarrow> failure + token_data_id_type option" where
  "item_token_data_id L data_type data =
     and_then (token_from_table_item_type L data_type data)
       (\<lambda>w. Inr (case w of Some (WsTokenDataId inner) \<Rightarrow> Some inner | _ \<Rightarrow> None))"

definition item_collection_data :: "libs \<Rightarrow> string \<Rightarrow> string \<Rightarrow> failure + collection_data_type option" where
  "item_collection_data L data_type data =
     and_then (token_from_table_item_type L data_type data)
       (\<lambda>w. Inr (case w of Some (WsCollectionData inner) \<Rightarrow> Some inner | _ \<Rightarrow> None))"

definition item_token_offer_id :: "libs \<Rightarrow> string \<Rightarrow> string \<Rightarrow> failure + token_offer_id_type option" where
  "item_token_offer_id L data_type data =
     and_then (token_from_table_item_type L data_type data)
       (\<lambda>w. Inr (case w of Some (WsTokenOfferId inner) \<Rightarrow> Some inner | _ \<Rightarrow> None))"

definition token_from_event :: "libs \<Rightarrow> string \<Rightarrow> string \<Rightarrow> failure + token_event option" where
  "token_from_event L data_type data =
     (if data_type = ''0x3::token::MintTokenEvent'' then from_json_str L (read_mint_token_event L) MintTokenEvent data
      else if data_type = ''0x3::token::BurnTokenEvent''
      then from_json_str L (read_token_amount_event L) BurnTokenEvent data
      else if data_type = ''0x3::token::MutateTokenPropertyMapEvent''
      then from_json_str L (read_mutate_token_property_map_event L) MutateTokenPropertyMapEvent data
      else if data_type = ''0x3::token::WithdrawEvent''
      then from_json_str L (read_token_amount_event L) WithdrawTokenEvent data
      else if data_type = ''0x3::token::DepositEvent''
      then from_json_str L (read_token_amount_event L) DepositTokenEvent data
      else if data_type = ''0x3::token_transfers::TokenOfferEvent''
      then from_json_str L (read_token_offer_event L) OfferTokenEvent data
      else if data_type = ''0x3::token_transfers::TokenCancelOfferEvent''
      then from_json_str L (read_token_offer_event L) CancelTokenOfferEvent data
      else if data_type = ''0x3::token_transfers::TokenClaimEvent''
      then from_json_str L (read_token_offer_event L) ClaimTokenEvent data
      else Inr None)"

definition token_is_resource_supported :: "string \<Rightarrow> bool" where
  "token_is_resource_supported data_type \<longleftrightarrow>
     data_type \<in> set [token_addr @ ''::token::Collections'', token_addr @ ''::token::TokenStore'',
       token_addr @ ''::token_transfers::PendingClaims'']"

definition token_from_resource :: "string \<Rightarrow> json \<Rightarrow> failure + token_resource" where
  "token_from_resource data_type data =
     (if data_type = token_addr @ ''::token::Collections''
      then and_then (parse_or_err (read_collection_resource data))
        (\<lambda>(collection_data, token_data). Inr (CollectionResource collection_data token_data))
      else if data_type = token_addr @ ''::token::TokenStore''
      then and_then (parse_or_err (read_single ''tokens'' read_table data)) (\<lambda>handle. Inr (TokenStoreResource handle))
      else if data_type = token_addr @ ''::token_transfers::PendingClaims''
      then and_then (parse_or_err (read_single ''pending_claims'' read_table data))
        (\<lambda>handle. Inr (PendingClaimsResource handle))
      else Inl (Err ''Resource unsupported! Call is_resource_supported first.''))"

section \<open>Owners of tables (\<open>tokens.rs\<close>)\<close>

record table_metadata_for_token =
  tmt_owner_address :: string
  tmt_table_type :: string

type_synonym table_handle_to_owner = "(string \<times> table_metadata_for_token) list"

definition table_owner_address :: "table_metadata_for_token \<Rightarrow> string" where
  "table_owner_address m = standardize_address (tmt_owner_address m)"

definition get_table_handle_to_owner :: "libs \<Rightarrow> write_resource \<Rightarrow> i64 \<Rightarrow> failure + table_handle_to_owner option" where
  "get_table_handle_to_owner L wr version =
     and_then (get_outer_type_from_resource L wr) (\<lambda>type_str.
     if \<not> token_is_resource_supported type_str then Inr None
     else and_then (from_write_resource L wr 0 version 0) (\<lambda>resource.
          and_then (expect ''called Option::unwrap on a None value'' (mres_data resource)) (\<lambda>data.
          and_then (token_from_resource type_str data) (\<lambda>r.
          let table_handle =
            (case r of
               CollectionResource collection_data _ \<Rightarrow> get_handle collection_data
             | TokenStoreResource tokens \<Rightarrow> get_handle tokens
             | PendingClaimsResource pending_claims \<Rightarrow> get_handle pending_claims)
          in Inr (Some [(standardize_address table_handle,
               \<lparr>tmt_owner_address = mres_address resource, tmt_table_type = wr_type_str wr\<rparr>)])))))"

definition add_table_owner ::
  "libs \<Rightarrow> i64 \<Rightarrow> write_set_change_pb \<Rightarrow> table_handle_to_owner \<Rightarrow> failure + table_handle_to_owner" where
  "add_table_owner L version wsc owners =
     and_then (expect ''called Option::unwrap on a None value'' (wsc_change wsc)) (\<lambda>change.
     case change of
       WriteResource wr \<Rightarrow>
         and_then (unwrap_result (get_table_handle_to_owner L wr version)) (\<lambda>m.
         Inr (case m of Some kvs \<Rightarrow> hm_extend owners kvs | None \<Rightarrow> owners))
     | _ \<Rightarrow> Inr owners)"

definition add_table_owners :: "libs \<Rightarrow> transaction \<Rightarrow> table_handle_to_owner \<Rightarrow> failure + table_handle_to_owner" where
  "add_table_owners L txn owners =
     (case txn_txn_data txn of
        Some (User _) \<Rightarrow>
          and_then (expect ''Transaction info doesn't exist!'' (txn_info txn)) (\<lambda>info.
          fold_result (add_table_owner L (as_i64 (txn_version txn))) (ti_changes info) owners)
      | _ \<Rightarrow> Inr owners)"

definition get_table_handle_to_owner_from_transactions ::
  "libs \<Rightarrow> transaction list \<Rightarrow> failure + table_handle_to_owner" where
  "get_table_handle_to_owner_from_transactions L txns = fold_result (add_table_owners L) txns []"

section \<open>Tokens and their owners (\<open>tokens.rs\<close>, \<open>token_ownerships.rs\<close>)\<close>

record token_row_data =
  tok_token_data_id_hash :: string
  tok_property_version :: rat
  tok_transaction_version :: i64
  tok_creator_address :: string
  tok_collection_name :: string
  tok_name :: string
  tok_token_properties :: json
  tok_collection_data_id_hash :: string
  tok_transaction_timestamp :: naive_date_time

record token_ownership =
  tow_token_data_id_hash :: string
  tow_property_version :: rat
  tow_transaction_version :: i64
  tow_table_handle :: string
  tow_creator_address :: string
  tow_collection_name :: string
  tow_name :: string
  tow_owner_address :: "string option"
  tow_amount :: rat
  tow_table_type :: "string option"
  tow_collection_data_id_hash :: string
  tow_transaction_timestamp :: naive_date_time

record current_token_ownership =
  cto_token_data_id_hash :: string
  cto_property_version :: rat
  cto_owner_address :: string
  cto_creator_address :: string
  cto_collection_name :: string
  cto_name :: string
  cto_amount :: rat
  cto_token_properties :: json
  cto_last_transaction_version :: i64
  cto_collection_data_id_hash :: string
  cto_table_type :: string
  cto_last_transaction_timestamp :: naive_date_time

definition token_store_type :: string where
  "token_store_type = ''0x3::token::TokenStore''"

definition token_ownership_from_token ::
  "libs \<Rightarrow> token_row_data \<Rightarrow> string \<Rightarrow> string \<Rightarrow> rat \<Rightarrow> string \<Rightarrow> table_handle_to_owner \<Rightarrow>
   failure + (token_ownership \<times> current_token_ownership option) option" where
  "token_ownership_from_token L token key_type key amount handle owners =
     and_then (item_token_id L key_type key) (\<lambda>maybe_token_id.
     if maybe_token_id = None then Inr None
     else
       let table_handle = standardize_address handle; maybe_table_metadata = map_of owners table_handle in
       if (case maybe_table_metadata of Some tm \<Rightarrow> tmt_table_type tm \<noteq> token_store_type | None \<Rightarrow> False) then Inr None
       else
         Inr (Some
           (\<lparr>tow_token_data_id_hash = tok_token_data_id_hash token, tow_property_version = tok_property_version token,
             tow_transaction_version = tok_transaction_version token, tow_table_handle = table_handle,
             tow_creator_address = standardize_address (tok_creator_address token),
             tow_collection_name = tok_collection_name token, tow_name = tok_name token,
             tow_owner_address = map_option (\<lambda>tm. standardize_address (table_owner_address tm)) maybe_table_metadata,
             tow_amount = amount, tow_table_type = map_option tmt_table_type maybe_table_metadata,
             tow_collection_data_id_hash = tok_collection_data_id_hash token,
             tow_transaction_timestamp = tok_transaction_timestamp token\<rparr>,
            map_option (\<lambda>tm.
              \<lparr>cto_token_data_id_hash = tok_token_data_id_hash token, cto_property_version = tok_property_version token,
               cto_owner_address = table_owner_address tm,
               cto_creator_address = standardize_address (tok_creator_address token),
               cto_collection_name = tok_collection_name token, cto_name = tok_name token, cto_amount = amount,
               cto_token_properties = tok_token_properties token,
               cto_last_transaction_version = tok_transaction_version token,
               cto_collection_data_id_hash = tok_collection_data_id_hash token, cto_table_type = tmt_table_type tm,
               cto_last_transaction_timestamp = tok_transaction_timestamp token\<rparr>) maybe_table_metadata)))"

text \<open>The row of a token with the given identifier; a deleted item has no properties.\<close>

definition token_row_of ::
  "libs \<Rightarrow> token_id_type \<Rightarrow> json \<Rightarrow> i64 \<Rightarrow> naive_date_time \<Rightarrow> failure + token_row_data" where
  "token_row_of L token_id properties version timestamp =
     (let token_data_id = tid_token_data_id token_id in
      and_then (get_collection_trunc token_data_id) (\<lambda>collection_name.
      and_then (token_data_id_name_trunc token_data_id) (\<lambda>name.
      Inr \<lparr>tok_token_data_id_hash = token_data_id_to_hash L token_data_id,
           tok_property_version = tid_property_version token_id, tok_transaction_version = version,
           tok_creator_address = token_creator_address token_data_id, tok_collection_name = collection_name,
           tok_name = name, tok_token_properties = properties,
           tok_collection_data_id_hash = get_collection_data_id_hash L token_data_id,
           tok_transaction_timestamp = timestamp\<rparr>)))"

type_synonym token_w_ownership = "token_row_data \<times> token_ownership option \<times> current_token_ownership option"

definition split_ownership ::
  "(token_ownership \<times> current_token_ownership option) option \<Rightarrow> token_ownership option \<times> current_token_ownership option" where
  "split_ownership r = (case r of Some (ownership, current) \<Rightarrow> (Some ownership, current) | None \<Rightarrow> (None, None))"

definition token_from_write_table_item ::
  "libs \<Rightarrow> write_table_item \<Rightarrow> i64 \<Rightarrow> naive_date_time \<Rightarrow> table_handle_to_owner \<Rightarrow> failure + token_w_ownership option" where
  "token_from_write_table_item L wti version timestamp owners =
     and_then (expect ''called Option::unwrap on a None value'' (wti_data wti)) (\<lambda>data.
     and_then (item_token L (wtd_value_type data) (wtd_value data)) (\<lambda>maybe_token.
     case maybe_token of
       None \<Rightarrow> Inr None
     | Some token \<Rightarrow>
         and_then (token_row_of L (tkt_id token) (tkt_token_properties token) version timestamp) (\<lambda>token_pg.
         and_then (token_ownership_from_token L token_pg (wtd_key_type data) (wtd_key data)
                     (ensure_not_negative (tkt_amount token)) (wti_handle wti) owners) (\<lambda>r.
         Inr (Some (token_pg, split_ownership r))))))"

definition token_from_delete_table_item ::
  "libs \<Rightarrow> delete_table_item \<Rightarrow> i64 \<Rightarrow> naive_date_time \<Rightarrow> table_handle_to_owner \<Rightarrow> failure + token_w_ownership option" where
  "token_from_delete_table_item L dti version timestamp owners =
     and_then (expect ''called Option::unwrap on a None value'' (dti_data dti)) (\<lambda>data.
     and_then (item_token_id L (dtd_key_type data) (dtd_key data)) (\<lambda>maybe_token_id.
     case maybe_token_id of
       None \<Rightarrow> Inr None
     | Some token_id \<Rightarrow>
         and_then (token_row_of L token_id JNull version timestamp) (\<lambda>token.
         and_then (token_ownership_from_token L token (dtd_key_type data) (dtd_key data) 0 (dti_handle dti) owners) (\<lambda>r.
         Inr (Some (token, split_ownership r))))))"

section \<open>Token data and collections (\<open>token_datas.rs\<close>, \<open>collection_datas.rs\<close>)\<close>

record token_data =
  td_token_data_id_hash :: string
  td_transaction_version :: i64
  td_creator_address :: string
  td_collection_name :: string
  td_name :: string
  td_maximum :: rat
  td_supply :: rat
  td_largest_property_version :: rat
  td_metadata_uri :: string
  td_payee_address :: string
  td_royalty_points_numerator :: rat
  td_royalty_points_denominator :: rat
  td_maximum_mutable :: bool
  td_uri_mutable :: bool
  td_description_mutable :: bool
  td_properties_mutable :: bool
  td_royalty_mutable :: bool
  td_default_properties :: json
  td_collection_data_id_hash :: string
  td_transaction_timestamp :: naive_date_time
  td_description :: string

record current_token_data =
  ctd_token_data_id_hash :: string
  ctd_creator_address :: string
  ctd_collection_name :: string
  ctd_name :: string
  ctd_maximum :: rat
  ctd_supply :: rat
  ctd_largest_property_version :: rat
  ctd_metadata_uri :: string
  ctd_payee_address :: string
  ctd_royalty_points_numerator :: rat
  ctd_royalty_points_denominator :: rat
  ctd_maximum_mutable :: bool
  ctd_uri_mutable :: bool
  ctd_description_mutable :: bool
  ctd_properties_mutable :: bool
  ctd_royalty_mutable :: bool
  ctd_default_properties :: json
  ctd_last_transaction_version :: i64
  ctd_collection_data_id_hash :: string
  ctd_last_transaction_timestamp :: naive_date_time
  ctd_description :: string

definition token_data_from_write_table_item ::
  "libs \<Rightarrow> write_table_item \<Rightarrow> i64 \<Rightarrow> naive_date_time \<Rightarrow> failure + (token_data \<times> current_token_data) option" where
  "token_data_from_write_table_item L wti version timestamp =
     and_then (expect ''called Option::unwrap on a None value'' (wti_data wti)) (\<lambda>data.
     and_then (item_token_data L (wtd_value_type data) (wtd_value data)) (\<lambda>maybe_token_data.
     case maybe_token_data of
       None \<Rightarrow> Inr None
     | Some tdata \<Rightarrow>
         and_then (item_token_data_id L (wtd_key_type data) (wtd_key data)) (\<lambda>maybe_token_data_id.
         case maybe_token_data_id of
           None \<Rightarrow> Inr None
         | Some token_data_id \<Rightarrow>
             let collection_data_id_hash = get_collection_data_id_hash L token_data_id;
                 token_data_id_hash = token_data_id_to_hash L token_data_id;
                 royalty = tdt_royalty tdata; config = tdt_mutability_config tdata in
             and_then (get_collection_trunc token_data_id) (\<lambda>collection_name.
             and_then (token_data_id_name_trunc token_data_id) (\<lambda>name.
             and_then (token_data_uri_trunc tdata) (\<lambda>metadata_uri.
             Inr (Some
               (\<lparr>td_token_data_id_hash = token_data_id_hash, td_transaction_version = version,
                 td_creator_address = token_creator_address token_data_id, td_collection_name = collection_name,
                 td_name = name, td_maximum = tdt_maximum tdata, td_supply = tdt_supply tdata,
                 td_largest_property_version = tdt_largest_property_version tdata, td_metadata_uri = metadata_uri,
                 td_payee_address = get_payee_address royalty,
                 td_royalty_points_numerator = roy_royalty_points_numerator royalty,
                 td_royalty_points_denominator = roy_royalty_points_denominator royalty,
                 td_maximum_mutable = tdm_maximum config, td_uri_mutable = tdm_uri config,
                 td_description_mutable = tdm_description config, td_properties_mutable = tdm_properties config,
                 td_royalty_mutable = tdm_royalty config, td_default_properties = tdt_default_properties tdata,
                 td_collection_data_id_hash = collection_data_id_hash, td_transaction_timestamp = timestamp,
                 td_description = tdt_description tdata\<rparr>,
                \<lparr>ctd_token_data_id_hash = token_data_id_hash, ctd_creator_address = token_creator_address token_data_id,
                 ctd_collection_name = collection_name, ctd_name = name, ctd_maximum = tdt_maximum tdata,
                 ctd_supply = tdt_supply tdata, ctd_largest_property_version = tdt_largest_property_version tdata,
                 ctd_metadata_uri = metadata_uri, ctd_payee_address = get_payee_address royalty,
                 ctd_royalty_points_numerator = roy_royalty_points_numerator royalty,
                 ctd_royalty_points_denominator = roy_royalty_points_denominator royalty,
                 ctd_maximum_mutable = tdm_maximum config, ctd_uri_mutable = tdm_uri config,
                 ctd_description_mutable = tdm_description config, ctd_properties_mutable = tdm_properties config,
                 ctd_royalty_mutable = tdm_royalty config, ctd_default_properties = tdt_default_properties tdata,
                 ctd_last_transaction_version = version, ctd_collection_data_id_hash = collection_data_id_hash,
                 ctd_last_transaction_timestamp = timestamp, ctd_description = tdt_description tdata\<rparr>))))))))"

record collection_data =
  cod_collection_data_id_hash :: string
  cod_transaction_version :: i64
  cod_creator_address :: string
  cod_collection_name :: string
  cod_description :: string
  cod_metadata_uri :: string
  cod_supply :: rat
  cod_maximum :: rat
  cod_maximum_mutable :: bool
  cod_uri_mutable :: bool
  cod_description_mutable :: bool
  cod_table_handle :: string
  cod_transaction_timestamp :: naive_date_time

record current_collection_data =
  ccd_collection_data_id_hash :: string
  ccd_creator_address :: string
  ccd_collection_name :: string
  ccd_description :: string
  ccd_metadata_uri :: string
  ccd_supply :: rat
  ccd_maximum :: rat
  ccd_maximum_mutable :: bool
  ccd_uri_mutable :: bool
  ccd_description_mutable :: bool
  ccd_last_transaction_version :: i64
  ccd_table_handle :: string
  ccd_last_transaction_timestamp :: naive_date_time

definition collection_by_table_handle :: "pg_first \<Rightarrow> string \<Rightarrow> db \<Rightarrow> failure + string" where
  "collection_by_table_handle first table_handle d =
     and_then (db_result (first ''current_collection_datas'' [(''table_handle'', SqlText table_handle)] d)) (\<lambda>row.
     case Option.bind row (\<lambda>r. text_cell r ''creator_address'') of
       Some creator \<Rightarrow> Inr creator | None \<Rightarrow> Inl (Err ''NotFound''))"

definition collection_creator_lookup :: "pg_first \<Rightarrow> (nat \<Rightarrow> db) \<Rightarrow> string \<Rightarrow> u32 \<Rightarrow> failure + string" where
  "collection_creator_lookup first seen table_handle query_retries =
     (case first_success (\<lambda>i. collection_by_table_handle first table_handle (seen i)) 0 (unat query_retries) of
        Some creator \<Rightarrow> Inr creator
      | None \<Rightarrow> Inl (Err ''Failed to get collection creator''))"

definition collection_data_from_write_table_item ::
  "libs \<Rightarrow> pg_first \<Rightarrow> (nat \<Rightarrow> db) \<Rightarrow> u32 \<Rightarrow> write_table_item \<Rightarrow> i64 \<Rightarrow> naive_date_time \<Rightarrow> table_handle_to_owner \<Rightarrow>
   failure + (collection_data \<times> current_collection_data) option" where
  "collection_data_from_write_table_item L first seen query_retries wti version timestamp owners =
     and_then (expect ''called Option::unwrap on a None value'' (wti_data wti)) (\<lambda>data.
     and_then (item_collection_data L (wtd_value_type data) (wtd_value data)) (\<lambda>maybe_collection_data.
     case maybe_collection_data of
       None \<Rightarrow> Inr None
     | Some cdata \<Rightarrow>
         let table_handle = wti_handle wti;
             creator =
               (case map_of owners (standardize_address table_handle) of
                  Some table_metadata \<Rightarrow> Inr (table_owner_address table_metadata)
                | None \<Rightarrow> collection_creator_lookup first seen table_handle query_retries) in
         (case creator of
            Inl _ \<Rightarrow> Inr None
          | Inr ca \<Rightarrow>
              let creator_address = standardize_address ca;
                  collection_data_id_hash =
                    collection_data_id_to_hash L \<lparr>cdi_creator = creator_address, cdi_name = cdt_name cdata\<rparr>;
                  config = cdt_mutability_config cdata in
              and_then (collection_data_name_trunc cdata) (\<lambda>collection_name.
              and_then (collection_data_uri_trunc cdata) (\<lambda>metadata_uri.
              Inr (Some
                (\<lparr>cod_collection_data_id_hash = collection_data_id_hash, cod_transaction_version = version,
                  cod_creator_address = creator_address, cod_collection_name = collection_name,
                  cod_description = cdt_description cdata, cod_metadata_uri = metadata_uri,
                  cod_supply = cdt_supply cdata, cod_maximum = cdt_maximum cdata,
                  cod_maximum_mutable = cdm_maximum config, cod_uri_mutable = cdm_uri config,
                  cod_description_mutable = cdm_description config, cod_table_handle = table_handle,
                  cod_transaction_timestamp = timestamp\<rparr>,
                 \<lparr>ccd_collection_data_id_hash = collection_data_id_hash, ccd_creator_address = creator_address,
                  ccd_collection_name = collection_name, ccd_description = cdt_description cdata,
                  ccd_metadata_uri = metadata_uri, ccd_supply = cdt_supply cdata, ccd_maximum = cdt_maximum cdata,
                  ccd_maximum_mutable = cdm_maximum config, ccd_uri_mutable = cdm_uri config,
                  ccd_description_mutable = cdm_description config, ccd_last_transaction_version = version,
                  ccd_table_handle = table_handle, ccd_last_transaction_timestamp = timestamp\<rparr>)))))))"

section \<open>Pending claims (\<open>token_claims.rs\<close>)\<close>

record current_token_pending_claim =
  ctc_token_data_id_hash :: string
  ctc_property_version :: rat
  ctc_from_address :: string
  ctc_to_address :: string
  ctc_collection_data_id_hash :: string
  ctc_creator_address :: string
  ctc_collection_name :: string
  ctc_name :: string
  ctc_amount :: rat
  ctc_table_handle :: string
  ctc_last_transaction_version :: i64
  ctc_last_transaction_timestamp :: naive_date_time
  ctc_token_data_id :: string
  ctc_collection_id :: string

text \<open>The row of an offer with the given amount, made by the owner of the table.\<close>

definition claim_row ::
  "libs \<Rightarrow> token_offer_id_type \<Rightarrow> rat \<Rightarrow> table_metadata_for_token \<Rightarrow> string \<Rightarrow> i64 \<Rightarrow> naive_date_time \<Rightarrow>
   failure + current_token_pending_claim" where
  "claim_row L offer amount table_metadata table_handle version timestamp =
     (let token_id = toi_token_id offer; token_data_id = tid_token_data_id token_id in
      and_then (get_collection_trunc token_data_id) (\<lambda>collection_name.
      and_then (token_data_id_name_trunc token_data_id) (\<lambda>name.
      Inr \<lparr>ctc_token_data_id_hash = token_data_id_to_hash L token_data_id,
           ctc_property_version = tid_property_version token_id,
           ctc_from_address = table_owner_address table_metadata, ctc_to_address = offer_id_to_address offer,
           ctc_collection_data_id_hash = get_collection_data_id_hash L token_data_id,
           ctc_creator_address = token_creator_address token_data_id, ctc_collection_name = collection_name,
           ctc_name = name, ctc_amount = amount, ctc_table_handle = table_handle,
           ctc_last_transaction_version = version, ctc_last_transaction_timestamp = timestamp,
           ctc_token_data_id = token_data_id_to_id L token_data_id,
           ctc_collection_id = get_collection_id L token_data_id\<rparr>)))"

definition claim_from_write_table_item ::
  "libs \<Rightarrow> write_table_item \<Rightarrow> i64 \<Rightarrow> naive_date_time \<Rightarrow> table_handle_to_owner \<Rightarrow>
   failure + current_token_pending_claim option" where
  "claim_from_write_table_item L wti version timestamp owners =
     and_then (expect ''called Option::unwrap on a None value'' (wti_data wti)) (\<lambda>data.
     and_then (item_token_offer_id L (wtd_key_type data) (wtd_key data)) (\<lambda>maybe_offer.
     case maybe_offer of
       None \<Rightarrow> Inr None
     | Some offer \<Rightarrow>
         and_then (item_token L (wtd_value_type data) (wtd_value data)) (\<lambda>maybe_token.
         case maybe_token of
           None \<Rightarrow> Inr None
         | Some token \<Rightarrow>
             let table_handle = standardize_address (wti_handle wti) in
             (case map_of owners table_handle of
                None \<Rightarrow> Inr None
              | Some table_metadata \<Rightarrow>
                  and_then (claim_row L offer (tkt_amount token) table_metadata table_handle version timestamp)
                    (\<lambda>claim. Inr (Some claim))))))"

definition claim_from_delete_table_item ::
  "libs \<Rightarrow> delete_table_item \<Rightarrow> i64 \<Rightarrow> naive_date_time \<Rightarrow> table_handle_to_owner \<Rightarrow>
   failure + current_token_pending_claim option" where
  "claim_from_delete_table_item L dti version timestamp owners =
     and_then (expect ''called Option::unwrap on a None value'' (dti_data dti)) (\<lambda>data.
     and_then (item_token_offer_id L (dtd_key_type data) (dtd_key data)) (\<lambda>maybe_offer.
     case maybe_offer of
       None \<Rightarrow> Inr None
     | Some offer \<Rightarrow>
         let table_handle = standardize_address (dti_handle dti) in
         and_then (expect ''Missing table handle metadata for claim.'' (map_of owners table_handle)) (\<lambda>table_metadata.
         and_then (claim_row L offer 0 table_metadata table_handle version timestamp) (\<lambda>claim. Inr (Some claim)))))"

section \<open>The changes of a transaction\<close>

record token_change_rows =
  tcr_token :: "token_w_ownership option"
  tcr_token_data :: "(token_data \<times> current_token_data) option"
  tcr_collection_data :: "(collection_data \<times> current_collection_data) option"
  tcr_claim :: "current_token_pending_claim option"

definition no_token_change_rows :: token_change_rows where
  "no_token_change_rows = \<lparr>tcr_token = None, tcr_token_data = None, tcr_collection_data = None, tcr_claim = None\<rparr>"

definition token_change ::
  "libs \<Rightarrow> pg_first \<Rightarrow> (nat \<Rightarrow> nat \<Rightarrow> db) \<Rightarrow> u32 \<Rightarrow> i64 \<Rightarrow> naive_date_time \<Rightarrow> table_handle_to_owner \<Rightarrow>
   nat \<times> write_set_change_pb \<Rightarrow> failure + token_change_rows" where
  "token_change L first seen query_retries version timestamp owners iw =
     (case iw of (index, wsc) \<Rightarrow>
      and_then (expect ''called Option::unwrap on a None value'' (wsc_change wsc)) (\<lambda>change.
      case change of
        WriteTableItem wti \<Rightarrow>
          and_then (unwrap_result (token_from_write_table_item L wti version timestamp owners)) (\<lambda>token.
          and_then (unwrap_result (token_data_from_write_table_item L wti version timestamp)) (\<lambda>tdata.
          and_then (unwrap_result (collection_data_from_write_table_item L first (seen index) query_retries wti version
                      timestamp owners)) (\<lambda>cdata.
          and_then (unwrap_result (claim_from_write_table_item L wti version timestamp owners)) (\<lambda>claim.
          Inr \<lparr>tcr_token = token, tcr_token_data = tdata, tcr_collection_data = cdata, tcr_claim = claim\<rparr>))))
      | DeleteTableItem dti \<Rightarrow>
          and_then (unwrap_result (token_from_delete_table_item L dti version timestamp owners)) (\<lambda>token.
          and_then (unwrap_result (claim_from_delete_table_item L dti version timestamp owners)) (\<lambda>claim.
          Inr \<lparr>tcr_token = token, tcr_token_data = None, tcr_collection_data = None, tcr_claim = claim\<rparr>))
      | _ \<Rightarrow> Inr no_token_change_rows))"

text \<open>
  The rows of a transaction. The maps of current rows are lists here, in the order of the insertions; the
  tokens of a transaction are a map of their own, so that the last of several writes of a token is kept.
\<close>

record token_rows =
  trw_tokens :: "token_row_data list"
  trw_token_ownerships :: "token_ownership list"
  trw_token_datas :: "token_data list"
  trw_collection_datas :: "collection_data list"
  trw_current_token_ownerships :: "current_token_ownership list"
  trw_current_token_datas :: "current_token_data list"
  trw_current_collection_datas :: "current_collection_data list"
  trw_current_token_claims :: "current_token_pending_claim list"

definition no_token_rows :: token_rows where
  "no_token_rows = \<lparr>trw_tokens = [], trw_token_ownerships = [], trw_token_datas = [], trw_collection_datas = [],
     trw_current_token_ownerships = [], trw_current_token_datas = [], trw_current_collection_datas = [],
     trw_current_token_claims = []\<rparr>"

definition token_pk :: "token_row_data \<Rightarrow> string \<times> rat" where
  "token_pk t = (tok_token_data_id_hash t, tok_property_version t)"

definition token_gather :: "token_change_rows list \<Rightarrow> token_rows" where
  "token_gather rs =
     (let tokens = concat (map (\<lambda>r. opt_list (tcr_token r)) rs);
          tdatas = concat (map (\<lambda>r. opt_list (tcr_token_data r)) rs);
          cdatas = concat (map (\<lambda>r. opt_list (tcr_collection_data r)) rs) in
      \<lparr>trw_tokens = map snd (collect_by token_pk (map fst tokens) []),
       trw_token_ownerships = concat (map (\<lambda>(_, ownership, _). opt_list ownership) tokens),
       trw_token_datas = map fst tdatas, trw_collection_datas = map fst cdatas,
       trw_current_token_ownerships = concat (map (\<lambda>(_, _, current). opt_list current) tokens),
       trw_current_token_datas = map snd tdatas, trw_current_collection_datas = map snd cdatas,
       trw_current_token_claims = concat (map (\<lambda>r. opt_list (tcr_claim r)) rs)\<rparr>)"

definition tokens_from_transaction ::
  "libs \<Rightarrow> pg_first \<Rightarrow> (nat \<Rightarrow> nat \<Rightarrow> db) \<Rightarrow> u32 \<Rightarrow> transaction \<Rightarrow> table_handle_to_owner \<Rightarrow> failure + token_rows" where
  "tokens_from_transaction L first seen query_retries txn owners =
     (case txn_txn_data txn of
        Some (User _) \<Rightarrow>
          and_then (expect ''called Option::unwrap on a None value'' (txn_timestamp txn)) (\<lambda>ts.
          and_then (parse_timestamp L ts) (\<lambda>timestamp.
          and_then (expect ''Transaction info doesn't exist!'' (txn_info txn)) (\<lambda>info.
          and_then (map_result (token_change L first seen query_retries (as_i64 (txn_version txn)) timestamp owners)
                      (enumerate 0 (ti_changes info))) (\<lambda>rs.
          Inr (token_gather rs)))))
      | _ \<Rightarrow> Inr no_token_rows)"

section \<open>Activities (\<open>token_activities.rs\<close>)\<close>

record token_activity =
  tka_transaction_version :: i64
  tka_event_account_address :: string
  tka_event_creation_number :: i64
  tka_event_sequence_number :: i64
  tka_token_data_id_hash :: string
  tka_property_version :: rat
  tka_creator_address :: string
  tka_collection_name :: string
  tka_name :: string
  tka_transfer_type :: string
  tka_from_address :: "string option"
  tka_to_address :: "string option"
  tka_token_amount :: rat
  tka_coin_type :: "string option"
  tka_coin_amount :: "rat option"
  tka_collection_data_id_hash :: string
  tka_transaction_timestamp :: naive_date_time
  tka_event_index :: "i64 option"

record token_activity_helper =
  tah_token_data_id :: token_data_id_type
  tah_property_version :: rat
  tah_from_address :: "string option"
  tah_to_address :: "string option"
  tah_token_amount :: rat

definition token_activity_helper_of :: "string \<Rightarrow> token_event \<Rightarrow> token_activity_helper" where
  "token_activity_helper_of event_account_address token_event =
     (let of_token = (\<lambda>id from to amount. \<lparr>tah_token_data_id = tid_token_data_id id,
            tah_property_version = tid_property_version id, tah_from_address = from, tah_to_address = to,
            tah_token_amount = amount\<rparr>);
          of_offer = (\<lambda>inner. of_token (toe_token_id inner) (Some event_account_address)
            (Some (offer_event_to_address inner)) (toe_amount inner)) in
      case token_event of
        MintTokenEvent inner \<Rightarrow>
          \<lparr>tah_token_data_id = mte_id inner, tah_property_version = 0, tah_from_address = Some event_account_address,
           tah_to_address = None, tah_token_amount = mte_amount inner\<rparr>
      | BurnTokenEvent inner \<Rightarrow> of_token (tae_id inner) (Some event_account_address) None (tae_amount inner)
      | MutateTokenPropertyMapEvent inner \<Rightarrow> of_token (mpe_new_id inner) (Some event_account_address) None 0
      | WithdrawTokenEvent inner \<Rightarrow> of_token (tae_id inner) (Some event_account_address) None (tae_amount inner)
      | DepositTokenEvent inner \<Rightarrow>
          of_token (tae_id inner) None (Some (standardize_address event_account_address)) (tae_amount inner)
      | OfferTokenEvent inner \<Rightarrow> of_offer inner
      | CancelTokenOfferEvent inner \<Rightarrow> of_offer inner
      | ClaimTokenEvent inner \<Rightarrow> of_offer inner)"

definition token_activity_from_parsed_event ::
  "libs \<Rightarrow> string \<Rightarrow> event_pb \<Rightarrow> token_event \<Rightarrow> i64 \<Rightarrow> naive_date_time \<Rightarrow> i64 \<Rightarrow> failure + token_activity" where
  "token_activity_from_parsed_event L event_type event token_event version timestamp event_index =
     and_then (expect ''called Option::unwrap on a None value'' (ev_key event)) (\<lambda>key.
     let event_account_address = standardize_address (ek_account_address key);
         helper = token_activity_helper_of event_account_address token_event;
         token_data_id = tah_token_data_id helper in
     and_then (get_collection_trunc token_data_id) (\<lambda>collection_name.
     and_then (token_data_id_name_trunc token_data_id) (\<lambda>name.
     Inr \<lparr>tka_transaction_version = version, tka_event_account_address = event_account_address,
          tka_event_creation_number = as_i64 (ek_creation_number key),
          tka_event_sequence_number = as_i64 (ev_sequence_number event),
          tka_token_data_id_hash = token_data_id_to_hash L token_data_id,
          tka_property_version = tah_property_version helper,
          tka_creator_address = token_creator_address token_data_id, tka_collection_name = collection_name,
          tka_name = name, tka_transfer_type = event_type, tka_from_address = tah_from_address helper,
          tka_to_address = tah_to_address helper, tka_token_amount = tah_token_amount helper,
          tka_coin_type = None, tka_coin_amount = None,
          tka_collection_data_id_hash = get_collection_data_id_hash L token_data_id,
          tka_transaction_timestamp = timestamp, tka_event_index = Some event_index\<rparr>)))"

definition token_activity_event ::
  "libs \<Rightarrow> transaction \<Rightarrow> nat \<times> event_pb \<Rightarrow> failure + token_activity list" where
  "token_activity_event L txn ie =
     (case ie of (index, event) \<Rightarrow>
      and_then (unwrap_result (token_from_event L (ev_type_str event) (ev_data event))) (\<lambda>parsed.
      case parsed of
        None \<Rightarrow> Inr []
      | Some token_event \<Rightarrow>
          and_then (expect ''called Option::unwrap on a None value'' (txn_timestamp txn)) (\<lambda>ts.
          and_then (parse_timestamp L ts) (\<lambda>timestamp.
          and_then (token_activity_from_parsed_event L (ev_type_str event) event token_event (as_i64 (txn_version txn))
                      timestamp (int index)) (\<lambda>activity.
          Inr [activity])))))"

definition token_activities_from_transaction :: "libs \<Rightarrow> transaction \<Rightarrow> failure + token_activity list" where
  "token_activities_from_transaction L txn =
     (case txn_txn_data txn of
        Some (User user_txn) \<Rightarrow>
          and_then (map_result (token_activity_event L txn) (enumerate 0 (ut_events user_txn)))
            (\<lambda>rows. Inr (concat rows))
      | _ \<Rightarrow> Inr [])"

section \<open>Points (\<open>nft_points.rs\<close>)\<close>

record nft_points =
  nfp_transaction_version :: i64
  nfp_owner_address :: string
  nfp_token_name :: string
  nfp_point_type :: string
  nfp_amount :: rat
  nfp_transaction_timestamp :: naive_date_time

text \<open>The arguments of the payload, unescaped.\<close>

definition nft_points_arguments :: "libs \<Rightarrow> transaction_payload \<Rightarrow> failure + string list" where
  "nft_points_arguments L payload =
     and_then (get_clean_payload L payload) (\<lambda>maybe_cleaned.
     and_then (expect ''called Option::unwrap on a None value'' maybe_cleaned) (\<lambda>payload_cleaned.
     and_then (expect ''explicit panic'' (Option.bind (json_get ''arguments'' payload_cleaned) json_as_array)) (\<lambda>args.
     map_result (\<lambda>x. and_then (expect ''explicit panic'' (json_as_str x)) (\<lambda>s. expect ''explicit panic'' (lib_unescape L s)))
       args)))"

definition nft_points_from_transaction :: "libs \<Rightarrow> string option \<Rightarrow> transaction \<Rightarrow> failure + nft_points option" where
  "nft_points_from_transaction L nft_points_contract txn =
     (case txn_txn_data txn of
        None \<Rightarrow> Inr None
      | Some txn_data \<Rightarrow>
          and_then (expect ''Transaction timestamp doesn't exist!'' (txn_timestamp txn)) (\<lambda>ts.
          and_then (expect ''Transaction info doesn't exist!'' (txn_info txn)) (\<lambda>info.
          case nft_points_contract of
            None \<Rightarrow> Inr None
          | Some contract \<Rightarrow>
              (case txn_data of
                 User user_txn \<Rightarrow>
                   and_then (expect ''Sends is not present in user txn'' (ut_request user_txn)) (\<lambda>request.
                   and_then (expect ''Getting payload failed.'' (utr_payload request)) (\<lambda>payload.
                   and_then (get_entry_function_from_user_request request) (\<lambda>entry_function.
                   let entry_function_id_str = (case entry_function of Some s \<Rightarrow> s | None \<Rightarrow> []) in
                   if \<not> ti_success info then Inr None
                   else if entry_function_id_str = contract then
                     and_then (nft_points_arguments L payload) (\<lambda>args.
                     and_then (nth_or_panic args 0) (\<lambda>owner.
                     and_then (nth_or_panic args 2) (\<lambda>amount_arg.
                     and_then (expect ''explicit panic'' (lib_parse_bigdecimal L amount_arg)) (\<lambda>amount.
                     and_then (parse_timestamp L ts) (\<lambda>timestamp.
                     and_then (nth_or_panic args 1) (\<lambda>token_name.
                     and_then (nth_or_panic args 3) (\<lambda>point_type.
                     Inr (Some \<lparr>nfp_transaction_version = as_i64 (txn_version txn),
                       nfp_owner_address = standardize_address owner, nfp_token_name = token_name,
                       nfp_point_type = point_type, nfp_amount = amount, nfp_transaction_timestamp = timestamp\<rparr>))))))))
                   else Inr None)))
               | _ \<Rightarrow> Inr None))))"

end
