(* ===== verification/Token_V2_Models.thy ===== *)
theory Token_V2_Models
  imports Token_Models
begin

text \<open>
  \<open>models/token_v2_models\<close>: the rows of collections, tokens, owners and activities in which the tokens of
  the contract \<open>0x3\<close> (version 1) and the digital assets of \<open>0x4\<close> (version 2) are stored together. A digital
  asset is an object; its rows are made of a write resource and of what is known of the object,
  \<open>object_aggregated_data\<close>. The owner of a burned token, which is part of the key of the row to change, is
  taken from the burn event, from the rows of the batch or from the database.
\<close>

section \<open>Reads of the database\<close>

text \<open>
  A condition of a \<open>WHERE\<close> clause, and the three kinds of reads: the first row with given values, all the
  rows that meet some conditions, and the first of these.
\<close>

datatype sql_condition = SqlEq string sql_value | SqlGt string sql_value

record pg_reads =
  rd_first :: pg_first
  rd_select :: "string \<Rightarrow> sql_condition list \<Rightarrow> db \<Rightarrow> db_error + stored_row list"
  rd_select_first :: "string \<Rightarrow> sql_condition list \<Rightarrow> db \<Rightarrow> db_error + stored_row option"

section \<open>Collections (\<open>v2_collections.rs\<close>)\<close>

record collection_v2 =
  c2_transaction_version :: i64
  c2_write_set_change_index :: i64
  c2_collection_id :: string
  c2_creator_address :: string
  c2_collection_name :: string
  c2_description :: string
  c2_uri :: string
  c2_current_supply :: rat
  c2_max_supply :: "rat option"
  c2_total_minted_v2 :: "rat option"
  c2_mutable_description :: "bool option"
  c2_mutable_uri :: "bool option"
  c2_table_handle_v1 :: "string option"
  c2_token_standard :: string
  c2_transaction_timestamp :: naive_date_time

record current_collection_v2 =
  cc2_collection_id :: string
  cc2_creator_address :: string
  cc2_collection_name :: string
  cc2_description :: string
  cc2_uri :: string
  cc2_current_supply :: rat
  cc2_max_supply :: "rat option"
  cc2_total_minted_v2 :: "rat option"
  cc2_mutable_description :: "bool option"
  cc2_mutable_uri :: "bool option"
  cc2_table_handle_v1 :: "string option"
  cc2_token_standard :: string
  cc2_last_transaction_version :: i64
  cc2_last_transaction_timestamp :: naive_date_time

text \<open>Both rows are built from the same values.\<close>

definition current_collection_of :: "collection_v2 \<Rightarrow> current_collection_v2" where
  "current_collection_of c =
     \<lparr>cc2_collection_id = c2_collection_id c, cc2_creator_address = c2_creator_address c,
      cc2_collection_name = c2_collection_name c, cc2_description = c2_description c, cc2_uri = c2_uri c,
      cc2_current_supply = c2_current_supply c, cc2_max_supply = c2_max_supply c,
      cc2_total_minted_v2 = c2_total_minted_v2 c, cc2_mutable_description = c2_mutable_description c,
      cc2_mutable_uri = c2_mutable_uri c, cc2_table_handle_v1 = c2_table_handle_v1 c,
      cc2_token_standard = c2_token_standard c, cc2_last_transaction_version = c2_transaction_version c,
      cc2_last_transaction_timestamp = c2_transaction_timestamp c\<rparr>"

text \<open>
  The current supply, the maximum and the number of minted tokens: a concurrent supply is preferred to a
  fixed one, and a fixed one to an unlimited one.
\<close>

definition collection_supply :: "object_aggregated_data \<Rightarrow> rat \<times> rat option \<times> rat option" where
  "collection_supply data =
     (case oad_concurrent_supply data of
        Some s \<Rightarrow>
          (agg_value (csupp_current_supply s),
           if agg_max_value (csupp_current_supply s) = of_int (2 ^ 64 - 1) then None
           else Some (agg_max_value (csupp_current_supply s)),
           Some (agg_value (csupp_total_minted s)))
      | None \<Rightarrow>
          (case oad_fixed_supply data of
             Some s \<Rightarrow> (fsup_current_supply s, Some (fsup_max_supply s), Some (fsup_total_minted s))
           | None \<Rightarrow>
               (case oad_unlimited_supply data of
                  Some s \<Rightarrow> (usup_current_supply s, None, Some (usup_total_minted s))
                | None \<Rightarrow> (0, None, None))))"

definition collection_v2_from_write_resource ::
  "libs \<Rightarrow> write_resource \<Rightarrow> i64 \<Rightarrow> i64 \<Rightarrow> naive_date_time \<Rightarrow> object_aggregated_data_mapping \<Rightarrow>
   failure + (collection_v2 \<times> current_collection_v2) option" where
  "collection_v2_from_write_resource L wr version index timestamp objects =
     and_then (v2_token_resource_of L wr version) (\<lambda>r.
     case r of
       Some (ResCollection inner) \<Rightarrow>
         let collection_id = standardize_address (wr_address wr) in
         (case map_of objects collection_id of
            None \<Rightarrow> Inr None
          | Some data \<Rightarrow>
              (case collection_supply data of (current_supply, max_supply, total_minted) \<Rightarrow>
               and_then (collection_name_trunc inner) (\<lambda>collection_name.
               and_then (collection_uri_trunc inner) (\<lambda>uri.
               let row = \<lparr>c2_transaction_version = version, c2_write_set_change_index = index,
                     c2_collection_id = collection_id, c2_creator_address = get_collection_creator inner,
                     c2_collection_name = collection_name, c2_description = col_description inner, c2_uri = uri,
                     c2_current_supply = current_supply, c2_max_supply = max_supply, c2_total_minted_v2 = total_minted,
                     c2_mutable_description = map_option aco_mutable_description (oad_aptos_collection data),
                     c2_mutable_uri = map_option aco_mutable_uri (oad_aptos_collection data),
                     c2_table_handle_v1 = None, c2_token_standard = token_standard_str V2,
                     c2_transaction_timestamp = timestamp\<rparr>
               in Inr (Some (row, current_collection_of row))))))
     | _ \<Rightarrow> Inr None)"

text \<open>The last of the rows with the table handle.\<close>

definition collection_v2_by_table_handle :: "pg_reads \<Rightarrow> string \<Rightarrow> db \<Rightarrow> failure + string" where
  "collection_v2_by_table_handle R table_handle d =
     and_then (db_result (rd_select R ''current_collections_v2'' [SqlEq ''table_handle_v1'' (SqlText table_handle)] d)) (\<lambda>rows.
     if rows = [] then Inl (Err ''collection result empty'')
     else (case text_cell (last rows) ''creator_address'' of
             Some creator \<Rightarrow> Inr creator | None \<Rightarrow> Inl (Err ''collection result null'')))"

definition get_collection_creator_for_v1 :: "pg_reads \<Rightarrow> (nat \<Rightarrow> db) \<Rightarrow> string \<Rightarrow> u32 \<Rightarrow> failure + string" where
  "get_collection_creator_for_v1 R seen table_handle query_retries =
     (case first_success (\<lambda>i. collection_v2_by_table_handle R table_handle (seen i)) 0 (unat query_retries) of
        Some creator \<Rightarrow> Inr creator
      | None \<Rightarrow> Inl (Err ''Failed to get collection creator''))"

text \<open>
  The creator of a collection of version 1: the owner of its table; else the table of collections is asked,
  and then that of version 1. The attempts of the second lookup follow those of the first.
\<close>

definition collection_v1_creator ::
  "pg_reads \<Rightarrow> (nat \<Rightarrow> db) \<Rightarrow> u32 \<Rightarrow> string \<Rightarrow> table_handle_to_owner \<Rightarrow> string option" where
  "collection_v1_creator R seen query_retries table_handle owners =
     (case map_of owners (standardize_address table_handle) of
        Some table_metadata \<Rightarrow> Some (table_owner_address table_metadata)
      | None \<Rightarrow>
          (case get_collection_creator_for_v1 R seen table_handle query_retries of
             Inr creator \<Rightarrow> Some creator
           | Inl _ \<Rightarrow>
               (case collection_creator_lookup (rd_first R) (\<lambda>i. seen (unat query_retries + i)) table_handle
                       query_retries of
                  Inr creator \<Rightarrow> Some creator | Inl _ \<Rightarrow> None)))"

definition collection_v1_from_write_table_item ::
  "libs \<Rightarrow> pg_reads \<Rightarrow> (nat \<Rightarrow> db) \<Rightarrow> u32 \<Rightarrow> write_table_item \<Rightarrow> i64 \<Rightarrow> i64 \<Rightarrow> naive_date_time \<Rightarrow> table_handle_to_owner \<Rightarrow>
   failure + (collection_v2 \<times> current_collection_v2) option" where
  "collection_v1_from_write_table_item L R seen query_retries wti version index timestamp owners =
     and_then (expect ''called Option::unwrap on a None value'' (wti_data wti)) (\<lambda>data.
     and_then (item_collection_data L (wtd_value_type data) (wtd_value data)) (\<lambda>maybe_collection_data.
     case maybe_collection_data of
       None \<Rightarrow> Inr None
     | Some cdata \<Rightarrow>
         let table_handle = wti_handle wti in
         (case collection_v1_creator R seen query_retries table_handle owners of
            None \<Rightarrow> Inr None
          | Some ca \<Rightarrow>
              let creator_address = standardize_address ca; config = cdt_mutability_config cdata in
              and_then (collection_data_name_trunc cdata) (\<lambda>collection_name.
              and_then (collection_data_uri_trunc cdata) (\<lambda>uri.
              let row = \<lparr>c2_transaction_version = version, c2_write_set_change_index = index,
                    c2_collection_id =
                      collection_data_id_to_id L \<lparr>cdi_creator = creator_address, cdi_name = cdt_name cdata\<rparr>,
                    c2_creator_address = creator_address, c2_collection_name = collection_name,
                    c2_description = cdt_description cdata, c2_uri = uri, c2_current_supply = cdt_supply cdata,
                    c2_max_supply = Some (cdt_maximum cdata), c2_total_minted_v2 = None,
                    c2_mutable_description = Some (cdm_description config), c2_mutable_uri = Some (cdm_uri config),
                    c2_table_handle_v1 = Some table_handle, c2_token_standard = token_standard_str V1,
                    c2_transaction_timestamp = timestamp\<rparr>
              in Inr (Some (row, current_collection_of row)))))))"

section \<open>Tokens (\<open>v2_token_datas.rs\<close>)\<close>

record token_data_v2 =
  d2_transaction_version :: i64
  d2_write_set_change_index :: i64
  d2_token_data_id :: string
  d2_collection_id :: string
  d2_token_name :: string
  d2_maximum :: "rat option"
  d2_supply :: "rat option"
  d2_largest_property_version_v1 :: "rat option"
  d2_token_uri :: string
  d2_token_properties :: json
  d2_description :: string
  d2_token_standard :: string
  d2_is_fungible_v2 :: "bool option"
  d2_transaction_timestamp :: naive_date_time
  d2_decimals :: "i64 option"

record current_token_data_v2 =
  cd2_token_data_id :: string
  cd2_collection_id :: string
  cd2_token_name :: string
  cd2_maximum :: "rat option"
  cd2_supply :: "rat option"
  cd2_largest_property_version_v1 :: "rat option"
  cd2_token_uri :: string
  cd2_token_properties :: json
  cd2_description :: string
  cd2_token_standard :: string
  cd2_is_fungible_v2 :: "bool option"
  cd2_last_transaction_version :: i64
  cd2_last_transaction_timestamp :: naive_date_time
  cd2_decimals :: "i64 option"
  cd2_is_deleted_v2 :: "bool option"

definition current_token_data_of :: "token_data_v2 \<Rightarrow> bool option \<Rightarrow> current_token_data_v2" where
  "current_token_data_of t is_deleted =
     \<lparr>cd2_token_data_id = d2_token_data_id t, cd2_collection_id = d2_collection_id t,
      cd2_token_name = d2_token_name t, cd2_maximum = d2_maximum t, cd2_supply = d2_supply t,
      cd2_largest_property_version_v1 = d2_largest_property_version_v1 t, cd2_token_uri = d2_token_uri t,
      cd2_token_properties = d2_token_properties t, cd2_description = d2_description t,
      cd2_token_standard = d2_token_standard t, cd2_is_fungible_v2 = d2_is_fungible_v2 t,
      cd2_last_transaction_version = d2_transaction_version t,
      cd2_last_transaction_timestamp = d2_transaction_timestamp t, cd2_decimals = d2_decimals t,
      cd2_is_deleted_v2 = is_deleted\<rparr>"

text \<open>A name of the separate resource \<open>TokenIdentifiers\<close> takes precedence over that of the token.\<close>

definition token_data_v2_from_write_resource ::
  "libs \<Rightarrow> write_resource \<Rightarrow> i64 \<Rightarrow> i64 \<Rightarrow> naive_date_time \<Rightarrow> object_aggregated_data_mapping \<Rightarrow>
   failure + (token_data_v2 \<times> current_token_data_v2) option" where
  "token_data_v2_from_write_resource L wr version index timestamp objects =
     and_then (token_v2_from_write_resource L wr version) (\<lambda>maybe_token.
     case maybe_token of
       None \<Rightarrow> Inr None
     | Some inner \<Rightarrow>
         let token_data_id = standardize_address (wr_address wr) in
         and_then (token_name_trunc inner) (\<lambda>own_name.
         case map_of objects token_data_id of
           None \<Rightarrow> Inr None
         | Some data \<Rightarrow>
             and_then (case oad_token_identifier data of
                 Some name \<Rightarrow> identifiers_name_trunc name | None \<Rightarrow> Inr own_name) (\<lambda>token_name.
             and_then (token_uri_trunc inner) (\<lambda>token_uri.
             let row = \<lparr>d2_transaction_version = version, d2_write_set_change_index = index,
                   d2_token_data_id = token_data_id, d2_collection_id = get_collection_address inner,
                   d2_token_name = token_name, d2_maximum = None, d2_supply = None,
                   d2_largest_property_version_v1 = None, d2_token_uri = token_uri,
                   d2_token_properties = (case oad_property_map data of Some m \<Rightarrow> m | None \<Rightarrow> JNull),
                   d2_description = tok_description inner, d2_token_standard = token_standard_str V2,
                   d2_is_fungible_v2 = Some (oad_fungible_asset_metadata data \<noteq> None),
                   d2_transaction_timestamp = timestamp, d2_decimals = None\<rparr>
             in Inr (Some (row, current_token_data_of row (Some False)))))))"

type_synonym token_v2_burned = "(string \<times> burn) list"

definition burned_token_data :: "string \<Rightarrow> burn \<Rightarrow> i64 \<Rightarrow> naive_date_time \<Rightarrow> current_token_data_v2" where
  "burned_token_data token_data_id burn_event version timestamp =
     \<lparr>cd2_token_data_id = token_data_id, cd2_collection_id = burn_collection_address burn_event, cd2_token_name = [],
      cd2_maximum = None, cd2_supply = None, cd2_largest_property_version_v1 = None, cd2_token_uri = [],
      cd2_token_properties = JNull, cd2_description = [], cd2_token_standard = token_standard_str V2,
      cd2_is_fungible_v2 = Some False, cd2_last_transaction_version = version,
      cd2_last_transaction_timestamp = timestamp, cd2_decimals = None, cd2_is_deleted_v2 = Some True\<rparr>"

definition burned_data_at :: "string \<Rightarrow> i64 \<Rightarrow> naive_date_time \<Rightarrow> token_v2_burned \<Rightarrow> current_token_data_v2 option" where
  "burned_data_at address version timestamp tokens_burned =
     (let token_data_id = standardize_address address in
      map_option (\<lambda>burn_event. burned_token_data token_data_id burn_event version timestamp)
        (map_of tokens_burned (standardize_address token_data_id)))"

definition burned_token_data_from_write_resource ::
  "write_resource \<Rightarrow> i64 \<Rightarrow> naive_date_time \<Rightarrow> token_v2_burned \<Rightarrow> failure + current_token_data_v2 option" where
  "burned_token_data_from_write_resource wr version timestamp tokens_burned =
     Inr (burned_data_at (wr_address wr) version timestamp tokens_burned)"

definition burned_token_data_from_delete_resource ::
  "delete_resource \<Rightarrow> i64 \<Rightarrow> naive_date_time \<Rightarrow> token_v2_burned \<Rightarrow> failure + current_token_data_v2 option" where
  "burned_token_data_from_delete_resource dr version timestamp tokens_burned =
     Inr (burned_data_at (dr_address dr) version timestamp tokens_burned)"

definition token_data_v1_from_write_table_item ::
  "libs \<Rightarrow> write_table_item \<Rightarrow> i64 \<Rightarrow> i64 \<Rightarrow> naive_date_time \<Rightarrow>
   failure + (token_data_v2 \<times> current_token_data_v2) option" where
  "token_data_v1_from_write_table_item L wti version index timestamp =
     and_then (expect ''called Option::unwrap on a None value'' (wti_data wti)) (\<lambda>data.
     and_then (item_token_data L (wtd_value_type data) (wtd_value data)) (\<lambda>maybe_token_data.
     case maybe_token_data of
       None \<Rightarrow> Inr None
     | Some tdata \<Rightarrow>
         and_then (item_token_data_id L (wtd_key_type data) (wtd_key data)) (\<lambda>maybe_token_data_id.
         case maybe_token_data_id of
           None \<Rightarrow> Inr None
         | Some token_data_id \<Rightarrow>
             and_then (token_data_id_name_trunc token_data_id) (\<lambda>token_name.
             and_then (token_data_uri_trunc tdata) (\<lambda>token_uri.
             let row = \<lparr>d2_transaction_version = version, d2_write_set_change_index = index,
                   d2_token_data_id = token_data_id_to_id L token_data_id,
                   d2_collection_id = get_collection_id L token_data_id, d2_token_name = token_name,
                   d2_maximum = Some (tdt_maximum tdata), d2_supply = Some (tdt_supply tdata),
                   d2_largest_property_version_v1 = Some (tdt_largest_property_version tdata),
                   d2_token_uri = token_uri, d2_token_properties = tdt_default_properties tdata,
                   d2_description = tdt_description tdata, d2_token_standard = token_standard_str V1,
                   d2_is_fungible_v2 = None, d2_transaction_timestamp = timestamp, d2_decimals = None\<rparr>
             in Inr (Some (row, current_token_data_of row None)))))))"

section \<open>Owners (\<open>v2_token_ownerships.rs\<close>)\<close>

record token_ownership_v2 =
  o2_transaction_version :: i64
  o2_write_set_change_index :: i64
  o2_token_data_id :: string
  o2_property_version_v1 :: rat
  o2_owner_address :: "string option"
  o2_storage_id :: string
  o2_amount :: rat
  o2_table_type_v1 :: "string option"
  o2_token_properties_mutated_v1 :: "json option"
  o2_is_soulbound_v2 :: "bool option"
  o2_token_standard :: string
  o2_is_fungible_v2 :: "bool option"
  o2_transaction_timestamp :: naive_date_time
  o2_non_transferrable_by_owner :: "bool option"

record current_token_ownership_v2 =
  co2_token_data_id :: string
  co2_property_version_v1 :: rat
  co2_owner_address :: string
  co2_storage_id :: string
  co2_amount :: rat
  co2_table_type_v1 :: "string option"
  co2_token_properties_mutated_v1 :: "json option"
  co2_is_soulbound_v2 :: "bool option"
  co2_token_standard :: string
  co2_is_fungible_v2 :: "bool option"
  co2_last_transaction_version :: i64
  co2_last_transaction_timestamp :: naive_date_time
  co2_non_transferrable_by_owner :: "bool option"

record nft_ownership_v2 =
  n2_token_data_id :: string
  n2_owner_address :: string
  n2_is_soulbound :: "bool option"

type_synonym current_token_ownership_v2_pk = "string \<times> rat \<times> string \<times> string"

definition co2_pk :: "current_token_ownership_v2 \<Rightarrow> current_token_ownership_v2_pk" where
  "co2_pk c = (co2_token_data_id c, co2_property_version_v1 c, co2_owner_address c, co2_storage_id c)"

text \<open>The rows of the owner of a digital asset, which is stored in its own object.\<close>

definition nft_rows ::
  "string \<Rightarrow> i64 \<Rightarrow> i64 \<Rightarrow> naive_date_time \<Rightarrow> string \<Rightarrow> rat \<Rightarrow> bool option \<Rightarrow> bool option \<Rightarrow>
   token_ownership_v2 \<times> current_token_ownership_v2" where
  "nft_rows token_data_id version index timestamp owner_address amount is_soulbound is_fungible =
     (\<lparr>o2_transaction_version = version, o2_write_set_change_index = index, o2_token_data_id = token_data_id,
       o2_property_version_v1 = 0, o2_owner_address = Some owner_address, o2_storage_id = token_data_id,
       o2_amount = amount, o2_table_type_v1 = None, o2_token_properties_mutated_v1 = None,
       o2_is_soulbound_v2 = is_soulbound, o2_token_standard = token_standard_str V2,
       o2_is_fungible_v2 = is_fungible, o2_transaction_timestamp = timestamp,
       o2_non_transferrable_by_owner = is_soulbound\<rparr>,
      \<lparr>co2_token_data_id = token_data_id, co2_property_version_v1 = 0, co2_owner_address = owner_address,
       co2_storage_id = token_data_id, co2_amount = amount, co2_table_type_v1 = None,
       co2_token_properties_mutated_v1 = None, co2_is_soulbound_v2 = is_soulbound,
       co2_token_standard = token_standard_str V2, co2_is_fungible_v2 = is_fungible,
       co2_last_transaction_version = version, co2_last_transaction_timestamp = timestamp,
       co2_non_transferrable_by_owner = is_soulbound\<rparr>)"

text \<open>
  The owner of a written token, then the sender of each of its transfers with the amount 0. The second
  component is the map of current rows, filled in this order.
\<close>

definition nft_transfers :: "object_aggregated_data \<Rightarrow> (i64 \<times> transfer_event) list" where
  "nft_transfers data = filter (\<lambda>(_, e). get_to_address e \<noteq> get_from_address e) (oad_transfer_events data)"

definition nft_ownerships_of :: "token_data_v2 \<Rightarrow> object_aggregated_data \<Rightarrow>
   (token_ownership_v2 \<times> current_token_ownership_v2) list" where
  "nft_ownerships_of token_data data =
     (let core = owm_object_core (oad_object data); is_soulbound = Some (\<not> oc_allow_ungated_transfer core);
          row = (\<lambda>index owner amount. nft_rows (d2_token_data_id token_data) (d2_transaction_version token_data) index
            (d2_transaction_timestamp token_data) owner amount is_soulbound None) in
      row (d2_write_set_change_index token_data) (get_owner_address core) 1 #
      map (\<lambda>(event_index, e). row (- 1 * event_index) (get_from_address e) 0) (nft_transfers data))"

definition get_nft_v2_from_token_data ::
  "token_data_v2 \<Rightarrow> object_aggregated_data_mapping \<Rightarrow>
   failure + token_ownership_v2 list \<times> (current_token_ownership_v2_pk \<times> current_token_ownership_v2) list" where
  "get_nft_v2_from_token_data token_data objects =
     (case map_of objects (d2_token_data_id token_data) of
        None \<Rightarrow> Inl (Err ''If token data exists objectcore must exist'')
      | Some data \<Rightarrow>
          let rows = nft_ownerships_of token_data data in
          Inr (map fst rows, collect_by co2_pk (map snd rows) []))"

definition latest_owned_nft :: "pg_reads \<Rightarrow> string \<Rightarrow> db \<Rightarrow> failure + nft_ownership_v2" where
  "latest_owned_nft R token_data_id d =
     and_then (db_result (rd_select_first R ''current_token_ownerships_v2''
         [SqlEq ''token_data_id'' (SqlText token_data_id), SqlGt ''amount'' (SqlNumeric 0)] d)) (\<lambda>row.
     case Option.bind row (\<lambda>r. Option.bind (text_cell r ''token_data_id'') (\<lambda>i.
            map_option (\<lambda>owner. \<lparr>n2_token_data_id = i, n2_owner_address = owner,
              n2_is_soulbound = bool_cell r ''is_soulbound_v2''\<rparr>) (text_cell r ''owner_address''))) of
       Some nft \<Rightarrow> Inr nft | None \<Rightarrow> Inl (Err ''NotFound''))"

definition get_latest_owned_nft_by_token_data_id ::
  "pg_reads \<Rightarrow> (nat \<Rightarrow> db) \<Rightarrow> string \<Rightarrow> u32 \<Rightarrow> failure + nft_ownership_v2" where
  "get_latest_owned_nft_by_token_data_id R seen token_data_id query_retries =
     (case first_success (\<lambda>i. latest_owned_nft R token_data_id (seen i)) 0 (unat query_retries) of
        Some nft \<Rightarrow> Inr nft
      | None \<Rightarrow> Inl (Err ''Failed to get nft by token data id''))"

definition burned_previous_owner ::
  "pg_reads \<Rightarrow> (nat \<Rightarrow> db) \<Rightarrow> u32 \<Rightarrow> (string \<times> nft_ownership_v2) list \<Rightarrow> string \<Rightarrow> burn \<Rightarrow> string" where
  "burned_previous_owner R seen query_retries prior token_address burn_event =
     (case get_previous_owner_address burn_event of
        Some previous_owner \<Rightarrow> previous_owner
      | None \<Rightarrow>
          (case map_of prior token_address of
             Some inner \<Rightarrow> n2_owner_address inner
           | None \<Rightarrow>
               (case get_latest_owned_nft_by_token_data_id R seen token_address query_retries of
                  Inr nft \<Rightarrow> n2_owner_address nft
                | Inl _ \<Rightarrow> default_owner_address)))"

definition get_burned_nft_v2_helper ::
  "pg_reads \<Rightarrow> (nat \<Rightarrow> db) \<Rightarrow> u32 \<Rightarrow> string \<Rightarrow> i64 \<Rightarrow> i64 \<Rightarrow> naive_date_time \<Rightarrow> (string \<times> nft_ownership_v2) list \<Rightarrow>
   token_v2_burned \<Rightarrow> failure + (token_ownership_v2 \<times> current_token_ownership_v2) option" where
  "get_burned_nft_v2_helper R seen query_retries address version index timestamp prior tokens_burned =
     (let token_address = standardize_address address in
      Inr (map_option (\<lambda>burn_event. nft_rows token_address version index timestamp
             (burned_previous_owner R seen query_retries prior token_address burn_event) 0 None None)
           (map_of tokens_burned token_address)))"

definition burned_nft_from_write_resource ::
  "libs \<Rightarrow> pg_reads \<Rightarrow> (nat \<Rightarrow> db) \<Rightarrow> u32 \<Rightarrow> write_resource \<Rightarrow> i64 \<Rightarrow> i64 \<Rightarrow> naive_date_time \<Rightarrow>
   (string \<times> nft_ownership_v2) list \<Rightarrow> token_v2_burned \<Rightarrow>
   failure + (token_ownership_v2 \<times> current_token_ownership_v2) option" where
  "burned_nft_from_write_resource L R seen query_retries wr version index timestamp prior tokens_burned =
     (let token_data_id = standardize_address (wr_address wr) in
      if map_of tokens_burned (standardize_address token_data_id) = None then Inr None
      else and_then (object_from_write_resource L wr version) (\<lambda>maybe_object.
        case maybe_object of
          Some obj \<Rightarrow>
            let core = owm_object_core obj in
            Inr (Some (nft_rows token_data_id version index timestamp (get_owner_address core) 0
              (Some (\<not> oc_allow_ungated_transfer core)) (Some False)))
        | None \<Rightarrow>
            get_burned_nft_v2_helper R seen query_retries token_data_id version index timestamp prior tokens_burned))"

definition burned_nft_from_delete_resource ::
  "pg_reads \<Rightarrow> (nat \<Rightarrow> db) \<Rightarrow> u32 \<Rightarrow> delete_resource \<Rightarrow> i64 \<Rightarrow> i64 \<Rightarrow> naive_date_time \<Rightarrow>
   (string \<times> nft_ownership_v2) list \<Rightarrow> token_v2_burned \<Rightarrow>
   failure + (token_ownership_v2 \<times> current_token_ownership_v2) option" where
  "burned_nft_from_delete_resource R seen query_retries dr version index timestamp prior tokens_burned =
     get_burned_nft_v2_helper R seen query_retries (standardize_address (dr_address dr)) version index timestamp prior
       tokens_burned"

text \<open>
  A token of version 1 in a table; the amount is 0 and the properties are unknown when the item is deleted.
  Only the tables of token stores have owners that are recorded.
\<close>

definition v1_ownership_rows ::
  "libs \<Rightarrow> token_id_type \<Rightarrow> rat \<Rightarrow> json option \<Rightarrow> string \<Rightarrow> i64 \<Rightarrow> i64 \<Rightarrow> naive_date_time \<Rightarrow> table_handle_to_owner \<Rightarrow>
   (token_ownership_v2 \<times> current_token_ownership_v2 option) option" where
  "v1_ownership_rows L token_id amount properties handle version index timestamp owners =
     (let table_handle = standardize_address handle; maybe_table_metadata = map_of owners table_handle;
          token_data_id = token_data_id_to_id L (tid_token_data_id token_id) in
      if (case maybe_table_metadata of Some tm \<Rightarrow> tmt_table_type tm \<noteq> token_store_type | None \<Rightarrow> False) then None
      else Some
        (\<lparr>o2_transaction_version = version, o2_write_set_change_index = index, o2_token_data_id = token_data_id,
          o2_property_version_v1 = tid_property_version token_id,
          o2_owner_address = map_option table_owner_address maybe_table_metadata, o2_storage_id = table_handle,
          o2_amount = amount, o2_table_type_v1 = map_option tmt_table_type maybe_table_metadata,
          o2_token_properties_mutated_v1 = properties, o2_is_soulbound_v2 = None,
          o2_token_standard = token_standard_str V1, o2_is_fungible_v2 = None, o2_transaction_timestamp = timestamp,
          o2_non_transferrable_by_owner = None\<rparr>,
         map_option (\<lambda>tm.
           \<lparr>co2_token_data_id = token_data_id, co2_property_version_v1 = tid_property_version token_id,
            co2_owner_address = table_owner_address tm, co2_storage_id = table_handle, co2_amount = amount,
            co2_table_type_v1 = Some (tmt_table_type tm), co2_token_properties_mutated_v1 = properties,
            co2_is_soulbound_v2 = None, co2_token_standard = token_standard_str V1, co2_is_fungible_v2 = None,
            co2_last_transaction_version = version, co2_last_transaction_timestamp = timestamp,
            co2_non_transferrable_by_owner = None\<rparr>) maybe_table_metadata))"

definition ownership_v1_from_write_table_item ::
  "libs \<Rightarrow> write_table_item \<Rightarrow> i64 \<Rightarrow> i64 \<Rightarrow> naive_date_time \<Rightarrow> table_handle_to_owner \<Rightarrow>
   failure + (token_ownership_v2 \<times> current_token_ownership_v2 option) option" where
  "ownership_v1_from_write_table_item L wti version index timestamp owners =
     and_then (expect ''called Option::unwrap on a None value'' (wti_data wti)) (\<lambda>data.
     and_then (item_token L (wtd_value_type data) (wtd_value data)) (\<lambda>maybe_token.
     Inr (Option.bind maybe_token (\<lambda>token.
       v1_ownership_rows L (tkt_id token) (ensure_not_negative (tkt_amount token)) (Some (tkt_token_properties token))
         (wti_handle wti) version index timestamp owners))))"

definition ownership_v1_from_delete_table_item ::
  "libs \<Rightarrow> delete_table_item \<Rightarrow> i64 \<Rightarrow> i64 \<Rightarrow> naive_date_time \<Rightarrow> table_handle_to_owner \<Rightarrow>
   failure + (token_ownership_v2 \<times> current_token_ownership_v2 option) option" where
  "ownership_v1_from_delete_table_item L dti version index timestamp owners =
     and_then (expect ''called Option::unwrap on a None value'' (dti_data dti)) (\<lambda>data.
     and_then (item_token_id L (dtd_key_type data) (dtd_key data)) (\<lambda>maybe_token_id.
     Inr (Option.bind maybe_token_id (\<lambda>token_id.
       v1_ownership_rows L token_id 0 None (dti_handle dti) version index timestamp owners))))"

section \<open>Activities (\<open>v2_token_activities.rs\<close>)\<close>

record token_activity_v2 =
  a2_transaction_version :: i64
  a2_event_index :: i64
  a2_event_account_address :: string
  a2_token_data_id :: string
  a2_property_version_v1 :: rat
  a2_type :: string
  a2_from_address :: "string option"
  a2_to_address :: "string option"
  a2_token_amount :: rat
  a2_before_value :: "string option"
  a2_after_value :: "string option"
  a2_entry_function_id_str :: "string option"
  a2_token_standard :: string
  a2_is_fungible_v2 :: "bool option"
  a2_transaction_timestamp :: naive_date_time

record token_activity_helper_v2 =
  ah2_from_address :: "string option"
  ah2_to_address :: "string option"
  ah2_token_amount :: rat
  ah2_before_value :: "string option"
  ah2_after_value :: "string option"
  ah2_event_type :: string

definition nft_event_token :: "string \<Rightarrow> v2_token_event \<Rightarrow> string" where
  "nft_event_token event_account_address token_event =
     (case token_event of
        EvMintEvent inner \<Rightarrow> mint_event_token_address inner
      | EvMint inner \<Rightarrow> mint_token_address inner
      | EvBurnEvent inner \<Rightarrow> mint_event_token_address inner
      | EvBurn inner \<Rightarrow> burn_token_address inner
      | EvTransferEvent inner \<Rightarrow> get_object_address inner
      | _ \<Rightarrow> event_account_address)"

definition nft_activity_helper :: "object_core \<Rightarrow> string \<Rightarrow> v2_token_event \<Rightarrow> token_activity_helper_v2" where
  "nft_activity_helper core event_type token_event =
     (let of_owner = (\<lambda>amount type. \<lparr>ah2_from_address = Some (get_owner_address core), ah2_to_address = None,
            ah2_token_amount = amount, ah2_before_value = None, ah2_after_value = None, ah2_event_type = type\<rparr>) in
      case token_event of
        EvMintEvent _ \<Rightarrow> of_owner 1 event_type
      | EvMint _ \<Rightarrow> of_owner 1 ''0x4::collection::MintEvent''
      | EvTokenMutationEvent inner \<Rightarrow>
          (of_owner 0 event_type)\<lparr>ah2_before_value := Some (tme_old_value inner), ah2_after_value := Some (tme_new_value inner)\<rparr>
      | EvBurnEvent _ \<Rightarrow> of_owner 1 event_type
      | EvBurn _ \<Rightarrow> of_owner 1 ''0x4::collection::BurnEvent''
      | EvTransferEvent inner \<Rightarrow>
          \<lparr>ah2_from_address = Some (get_from_address inner), ah2_to_address = Some (get_to_address inner),
           ah2_token_amount = 1, ah2_before_value = None, ah2_after_value = None, ah2_event_type = event_type\<rparr>)"

definition burnt_activity_helper :: "string \<Rightarrow> v2_token_event \<Rightarrow> token_activity_helper_v2" where
  "burnt_activity_helper event_type token_event =
     \<lparr>ah2_from_address = (case token_event of EvBurn inner \<Rightarrow> get_previous_owner_address inner | _ \<Rightarrow> None),
      ah2_to_address = None, ah2_token_amount = 1, ah2_before_value = None, ah2_after_value = None,
      ah2_event_type = event_type\<rparr>"

definition get_nft_v2_from_parsed_event ::
  "libs \<Rightarrow> event_pb \<Rightarrow> i64 \<Rightarrow> naive_date_time \<Rightarrow> i64 \<Rightarrow> string option \<Rightarrow> object_aggregated_data_mapping \<Rightarrow>
   failure + token_activity_v2 option" where
  "get_nft_v2_from_parsed_event L event version timestamp event_index entry_function_id_str objects =
     and_then (v2_token_from_event L (ev_type_str event) (ev_data event)) (\<lambda>maybe_event.
     case maybe_event of
       None \<Rightarrow> Inr None
     | Some token_event \<Rightarrow>
         and_then (expect ''called Option::unwrap on a None value'' (ev_key event)) (\<lambda>key.
         let event_account_address = standardize_address (ek_account_address key);
             token_data_id = nft_event_token event_account_address token_event;
             helper = (case map_of objects token_data_id of
                 Some metadata \<Rightarrow>
                   nft_activity_helper (owm_object_core (oad_object metadata)) (ev_type_str event) token_event
               | None \<Rightarrow> burnt_activity_helper (ev_type_str event) token_event) in
         Inr (Some \<lparr>a2_transaction_version = version, a2_event_index = event_index,
           a2_event_account_address = event_account_address, a2_token_data_id = token_data_id,
           a2_property_version_v1 = 0, a2_type = ah2_event_type helper, a2_from_address = ah2_from_address helper,
           a2_to_address = ah2_to_address helper, a2_token_amount = ah2_token_amount helper,
           a2_before_value = ah2_before_value helper, a2_after_value = ah2_after_value helper,
           a2_entry_function_id_str = entry_function_id_str, a2_token_standard = token_standard_str V2,
           a2_is_fungible_v2 = None, a2_transaction_timestamp = timestamp\<rparr>)))"

definition get_v1_from_parsed_event ::
  "libs \<Rightarrow> event_pb \<Rightarrow> i64 \<Rightarrow> naive_date_time \<Rightarrow> i64 \<Rightarrow> string option \<Rightarrow> failure + token_activity_v2 option" where
  "get_v1_from_parsed_event L event version timestamp event_index entry_function_id_str =
     and_then (token_from_event L (ev_type_str event) (ev_data event)) (\<lambda>maybe_event.
     case maybe_event of
       None \<Rightarrow> Inr None
     | Some token_event \<Rightarrow>
         and_then (expect ''called Option::unwrap on a None value'' (ev_key event)) (\<lambda>key.
         let event_account_address = standardize_address (ek_account_address key);
             helper = token_activity_helper_of event_account_address token_event in
         Inr (Some \<lparr>a2_transaction_version = version, a2_event_index = event_index,
           a2_event_account_address = event_account_address,
           a2_token_data_id = token_data_id_to_id L (tah_token_data_id helper),
           a2_property_version_v1 = tah_property_version helper, a2_type = ev_type_str event,
           a2_from_address = tah_from_address helper, a2_to_address = tah_to_address helper,
           a2_token_amount = tah_token_amount helper, a2_before_value = None, a2_after_value = None,
           a2_entry_function_id_str = entry_function_id_str, a2_token_standard = token_standard_str V1,
           a2_is_fungible_v2 = None, a2_transaction_timestamp = timestamp\<rparr>)))"

section \<open>Metadata (\<open>v2_token_metadata.rs\<close>)\<close>

record current_token_v2_metadata =
  m2_object_address :: string
  m2_resource_type :: string
  m2_data :: json
  m2_state_key_hash :: string
  m2_last_transaction_version :: i64

text \<open>The resources of a token that are not of the framework and are in the resource group of its object.\<close>

definition token_v2_metadata_from_write_resource ::
  "libs \<Rightarrow> write_resource \<Rightarrow> i64 \<Rightarrow> object_aggregated_data_mapping \<Rightarrow> failure + current_token_v2_metadata option" where
  "token_v2_metadata_from_write_resource L wr version objects =
     (let object_address = standardize_address (wr_address wr) in
      case map_of objects object_address of
        None \<Rightarrow> Inr None
      | Some data \<Rightarrow>
          if oad_token data = None then Inr None
          else
            and_then (expect ''called Option::unwrap on a None value'' (wr_type wr)) (\<lambda>tag.
            if mst_get_address (convert_move_struct_tag L tag) \<in> {coin_addr, token_addr, token_v2_addr} then Inr None
            else
              and_then (from_write_resource L wr 0 version 0) (\<lambda>resource.
              if get_state_key_hash (oad_object data) \<noteq> mres_state_key_hash resource then Inr None
              else
                and_then (truncate_str (mres_type resource) name_length) (\<lambda>resource_type.
                case mres_data resource of
                  None \<Rightarrow> Inl (Err ''data must be present in write resource'')
                | Some d \<Rightarrow>
                    Inr (Some \<lparr>m2_object_address = object_address, m2_resource_type = resource_type, m2_data = d,
                      m2_state_key_hash = mres_state_key_hash resource, m2_last_transaction_version = version\<rparr>)))))"

section \<open>The owner of a written token\<close>

text \<open>Who sent the token to somebody else in the transaction.\<close>

definition nft_senders :: "object_aggregated_data \<Rightarrow> string set" where
  "nft_senders data = (\<lambda>(_, e). get_from_address e) ` set (nft_transfers data)"

lemma nft_current_rows:
  assumes "nft_ownerships_of t data = first # rest"
  shows "co2_pk (snd first) = (d2_token_data_id t, 0, get_owner_address (owm_object_core (oad_object data)), d2_token_data_id t)"
    and "co2_amount (snd first) = 1" and "x \<in> set (map snd rest) \<Longrightarrow> co2_amount x = 0"
    and "co2_pk ` set (map snd rest) = (\<lambda>a. (d2_token_data_id t, 0, a, d2_token_data_id t)) ` nft_senders data"
proof -
  note rows = assms [symmetric, unfolded nft_ownerships_of_def Let_def list.inject]
  show "co2_pk (snd first) = (d2_token_data_id t, 0, get_owner_address (owm_object_core (oad_object data)), d2_token_data_id t)"
    "co2_amount (snd first) = 1" using rows by (simp_all add: nft_rows_def co2_pk_def)
  show "co2_amount x = 0" if "x \<in> set (map snd rest)"
    using that by (auto simp: rows nft_rows_def)
  show "co2_pk ` set (map snd rest) = (\<lambda>a. (d2_token_data_id t, 0, a, d2_token_data_id t)) ` nft_senders data"
    by (simp add: rows nft_rows_def co2_pk_def nft_senders_def image_image case_prod_unfold)
qed

text \<open>
  C22: the current rows made of a written token. Who sent the token in the transaction has the amount 0,
  the owner has the amount 1 unless it is one of them, and nobody else has a row. So a token that its owner
  sends away and gets back within one transaction is left without an owner: no row has the amount 1.
\<close>

theorem written_token_owners:
  assumes "get_nft_v2_from_token_data t objects = Inr (ownerships, current)"
    and "map_of objects (d2_token_data_id t) = Some data"
  shows "(\<forall>a. map_option co2_amount (map_of current (d2_token_data_id t, 0, a, d2_token_data_id t)) =
      (if a \<in> nft_senders data then Some 0
       else if a = get_owner_address (owm_object_core (oad_object data)) then Some 1 else None)) \<and>
    ((\<exists>(k, c) \<in> set current. co2_amount c = 1) \<longleftrightarrow>
      get_owner_address (owm_object_core (oad_object data)) \<notin> nft_senders data)"
proof -
  let ?key = "\<lambda>a. (d2_token_data_id t, 0 :: rat, a, d2_token_data_id t)"
  obtain first rest where rows: "nft_ownerships_of t data = first # rest" by (simp add: nft_ownerships_of_def Let_def)
  note r = nft_current_rows [OF rows]
  have current: "current = collect_by co2_pk (snd first # map snd rest) []"
    using assms rows by (auto simp: get_nft_v2_from_token_data_def Let_def)
  have get: "map_of current k = (case last_by co2_pk k (map snd rest) of
      Some c \<Rightarrow> Some c | None \<Rightarrow> if k = co2_pk (snd first) then Some (snd first) else None)" for k
    using last_by_append [of co2_pk k "[snd first]" "map snd rest"]
    by (simp add: current collect_by_get) (auto simp: last_by_def split: option.split)
  have rest: "map_option co2_amount (last_by co2_pk k (map snd rest)) = (if k \<in> ?key ` nft_senders data then Some 0 else None)" for k
    unfolding r(4) [symmetric] by (rule last_by_const) (rule r(3))
  have amounts: "map_option co2_amount (map_of current k) = (if k \<in> ?key ` nft_senders data then Some 0
      else if k = co2_pk (snd first) then Some 1 else None)" for k
    using rest [of k]
    by (cases "last_by co2_pk k (map snd rest)"; cases "k \<in> ?key ` nft_senders data"; cases "k = co2_pk (snd first)")
      (simp_all add: get r(2) cong: if_cong del: image_iff)
  have "(\<exists>(k, c) \<in> set current. co2_amount c = 1) \<longleftrightarrow> (\<exists>k. map_option co2_amount (map_of current k) = Some 1)"
    using collect_by_distinct [of co2_pk "snd first # map snd rest"] unfolding current distinct_keys_def
    by (fastforce dest: map_of_SomeD)
  then show ?thesis by (auto simp: amounts r(1))
qed

text \<open>A token of \<open>0xa\<close> that was sent to \<open>0xb\<close> and back.\<close>

definition returned_object :: object_aggregated_data where
  "returned_object = (object_data \<lparr>owm_object_core =
       \<lparr>oc_allow_ungated_transfer = True, oc_guid_creation_num = 0, oc_owner = ''0xa''\<rparr>, owm_state_key_hash = []\<rparr>)
     \<lparr>oad_transfer_events := [(1, \<lparr>te_from = ''0xa'', te_to = ''0xb'', te_object = ''0xc''\<rparr>),
        (2, \<lparr>te_from = ''0xb'', te_to = ''0xa'', te_object = ''0xc''\<rparr>)]\<rparr>"

definition returned_token :: token_data_v2 where
  "returned_token =
     \<lparr>d2_transaction_version = 7, d2_write_set_change_index = 0, d2_token_data_id = standardize_address ''0xc'',
      d2_collection_id = standardize_address ''0xd'', d2_token_name = ''n'', d2_maximum = None, d2_supply = None,
      d2_largest_property_version_v1 = None, d2_token_uri = ''u'', d2_token_properties = JNull, d2_description = [],
      d2_token_standard = token_standard_str V2, d2_is_fungible_v2 = Some False, d2_transaction_timestamp = (0, 0),
      d2_decimals = None\<rparr>"

theorem written_token_owners_witness:
  "\<exists>ownerships current. get_nft_v2_from_token_data returned_token [(standardize_address ''0xc'', returned_object)] =
      Inr (ownerships, current) \<and>
    map_option co2_amount (map_of current (standardize_address ''0xc'', 0, standardize_address ''0xa'',
      standardize_address ''0xc'')) = Some 0 \<and> \<not> (\<exists>(k, c) \<in> set current. co2_amount c = 1)"
proof -
  have differ: "standardize_address ''0xa'' \<noteq> standardize_address ''0xb''" by code_simp
  have object: "map_of [(standardize_address ''0xc'', returned_object)] (d2_token_data_id returned_token) = Some returned_object"
    and token: "d2_token_data_id returned_token = standardize_address ''0xc''" by (simp_all add: returned_token_def)
  then obtain ownerships current where
    run: "get_nft_v2_from_token_data returned_token [(standardize_address ''0xc'', returned_object)] = Inr (ownerships, current)"
    by (simp add: get_nft_v2_from_token_data_def Let_def)
  have sender: "standardize_address ''0xa'' \<in> nft_senders returned_object"
    "get_owner_address (owm_object_core (oad_object returned_object)) = standardize_address ''0xa''"
    using differ by (simp_all add: nft_senders_def nft_transfers_def returned_object_def object_data_def get_from_address_def
        get_to_address_def get_owner_address_def)
  note owners = written_token_owners [OF run object, unfolded token sender(2)]
  have "map_option co2_amount (map_of current (standardize_address ''0xc'', 0, standardize_address ''0xa'',
      standardize_address ''0xc'')) = Some 0" using owners sender(1) by presburger
  moreover have "\<not> (\<exists>(k, c) \<in> set current. co2_amount c = 1)" using owners sender(1) by blast
  ultimately show ?thesis using run by blast
qed

end
