(* ===== verification/Token_Processor.thy ===== *)
theory Token_Processor
  imports Token_Models Convergence
begin

text \<open>
  \<open>processors/token_processor.rs\<close>. The owners of the tables are gathered from the whole batch before its
  transactions are read. \<open>seen v i n\<close> is the database as the lookup for the change \<open>i\<close> of version \<open>v\<close> sees
  it at attempt \<open>n\<close>.
\<close>

section \<open>Rows and queries\<close>

definition token_row :: "token_row_data \<Rightarrow> sql_row" where
  "token_row t =
     [(''token_data_id_hash'', SqlText (tok_token_data_id_hash t)),
      (''property_version'', SqlNumeric (tok_property_version t)),
      (''transaction_version'', SqlInt (tok_transaction_version t)),
      (''creator_address'', SqlText (tok_creator_address t)),
      (''collection_name'', SqlText (tok_collection_name t)), (''name'', SqlText (tok_name t)),
      (''token_properties'', SqlJson (tok_token_properties t)),
      (''collection_data_id_hash'', SqlText (tok_collection_data_id_hash t)),
      (''transaction_timestamp'', SqlTimestamp (tok_transaction_timestamp t))]"

definition token_ownership_row :: "token_ownership \<Rightarrow> sql_row" where
  "token_ownership_row t =
     [(''token_data_id_hash'', SqlText (tow_token_data_id_hash t)),
      (''property_version'', SqlNumeric (tow_property_version t)),
      (''transaction_version'', SqlInt (tow_transaction_version t)),
      (''table_handle'', SqlText (tow_table_handle t)), (''creator_address'', SqlText (tow_creator_address t)),
      (''collection_name'', SqlText (tow_collection_name t)), (''name'', SqlText (tow_name t)),
      (''owner_address'', sql_opt SqlText (tow_owner_address t)), (''amount'', SqlNumeric (tow_amount t)),
      (''table_type'', sql_opt SqlText (tow_table_type t)),
      (''collection_data_id_hash'', SqlText (tow_collection_data_id_hash t)),
      (''transaction_timestamp'', SqlTimestamp (tow_transaction_timestamp t))]"

definition token_data_row :: "token_data \<Rightarrow> sql_row" where
  "token_data_row t =
     [(''token_data_id_hash'', SqlText (td_token_data_id_hash t)),
      (''transaction_version'', SqlInt (td_transaction_version t)),
      (''creator_address'', SqlText (td_creator_address t)),
      (''collection_name'', SqlText (td_collection_name t)), (''name'', SqlText (td_name t)),
      (''maximum'', SqlNumeric (td_maximum t)), (''supply'', SqlNumeric (td_supply t)),
      (''largest_property_version'', SqlNumeric (td_largest_property_version t)),
      (''metadata_uri'', SqlText (td_metadata_uri t)), (''payee_address'', SqlText (td_payee_address t)),
      (''royalty_points_numerator'', SqlNumeric (td_royalty_points_numerator t)),
      (''royalty_points_denominator'', SqlNumeric (td_royalty_points_denominator t)),
      (''maximum_mutable'', SqlBool (td_maximum_mutable t)), (''uri_mutable'', SqlBool (td_uri_mutable t)),
      (''description_mutable'', SqlBool (td_description_mutable t)),
      (''properties_mutable'', SqlBool (td_properties_mutable t)),
      (''royalty_mutable'', SqlBool (td_royalty_mutable t)),
      (''default_properties'', SqlJson (td_default_properties t)),
      (''collection_data_id_hash'', SqlText (td_collection_data_id_hash t)),
      (''transaction_timestamp'', SqlTimestamp (td_transaction_timestamp t)),
      (''description'', SqlText (td_description t))]"

definition collection_data_row :: "collection_data \<Rightarrow> sql_row" where
  "collection_data_row c =
     [(''collection_data_id_hash'', SqlText (cod_collection_data_id_hash c)),
      (''transaction_version'', SqlInt (cod_transaction_version c)),
      (''creator_address'', SqlText (cod_creator_address c)),
      (''collection_name'', SqlText (cod_collection_name c)), (''description'', SqlText (cod_description c)),
      (''metadata_uri'', SqlText (cod_metadata_uri c)), (''supply'', SqlNumeric (cod_supply c)),
      (''maximum'', SqlNumeric (cod_maximum c)), (''maximum_mutable'', SqlBool (cod_maximum_mutable c)),
      (''uri_mutable'', SqlBool (cod_uri_mutable c)),
      (''description_mutable'', SqlBool (cod_description_mutable c)),
      (''table_handle'', SqlText (cod_table_handle c)),
      (''transaction_timestamp'', SqlTimestamp (cod_transaction_timestamp c))]"

definition current_token_ownership_row :: "current_token_ownership \<Rightarrow> sql_row" where
  "current_token_ownership_row t =
     [(''token_data_id_hash'', SqlText (cto_token_data_id_hash t)),
      (''property_version'', SqlNumeric (cto_property_version t)),
      (''owner_address'', SqlText (cto_owner_address t)),
      (''creator_address'', SqlText (cto_creator_address t)),
      (''collection_name'', SqlText (cto_collection_name t)), (''name'', SqlText (cto_name t)),
      (''amount'', SqlNumeric (cto_amount t)), (''token_properties'', SqlJson (cto_token_properties t)),
      (''last_transaction_version'', SqlInt (cto_last_transaction_version t)),
      (''collection_data_id_hash'', SqlText (cto_collection_data_id_hash t)),
      (''table_type'', SqlText (cto_table_type t)),
      (''last_transaction_timestamp'', SqlTimestamp (cto_last_transaction_timestamp t))]"

definition current_token_data_row :: "current_token_data \<Rightarrow> sql_row" where
  "current_token_data_row t =
     [(''token_data_id_hash'', SqlText (ctd_token_data_id_hash t)),
      (''creator_address'', SqlText (ctd_creator_address t)),
      (''collection_name'', SqlText (ctd_collection_name t)), (''name'', SqlText (ctd_name t)),
      (''maximum'', SqlNumeric (ctd_maximum t)), (''supply'', SqlNumeric (ctd_supply t)),
      (''largest_property_version'', SqlNumeric (ctd_largest_property_version t)),
      (''metadata_uri'', SqlText (ctd_metadata_uri t)), (''payee_address'', SqlText (ctd_payee_address t)),
      (''royalty_points_numerator'', SqlNumeric (ctd_royalty_points_numerator t)),
      (''royalty_points_denominator'', SqlNumeric (ctd_royalty_points_denominator t)),
      (''maximum_mutable'', SqlBool (ctd_maximum_mutable t)), (''uri_mutable'', SqlBool (ctd_uri_mutable t)),
      (''description_mutable'', SqlBool (ctd_description_mutable t)),
      (''properties_mutable'', SqlBool (ctd_properties_mutable t)),
      (''royalty_mutable'', SqlBool (ctd_royalty_mutable t)),
      (''default_properties'', SqlJson (ctd_default_properties t)),
      (''last_transaction_version'', SqlInt (ctd_last_transaction_version t)),
      (''collection_data_id_hash'', SqlText (ctd_collection_data_id_hash t)),
      (''last_transaction_timestamp'', SqlTimestamp (ctd_last_transaction_timestamp t)),
      (''description'', SqlText (ctd_description t))]"

definition current_collection_data_row :: "current_collection_data \<Rightarrow> sql_row" where
  "current_collection_data_row c =
     [(''collection_data_id_hash'', SqlText (ccd_collection_data_id_hash c)),
      (''creator_address'', SqlText (ccd_creator_address c)),
      (''collection_name'', SqlText (ccd_collection_name c)), (''description'', SqlText (ccd_description c)),
      (''metadata_uri'', SqlText (ccd_metadata_uri c)), (''supply'', SqlNumeric (ccd_supply c)),
      (''maximum'', SqlNumeric (ccd_maximum c)), (''maximum_mutable'', SqlBool (ccd_maximum_mutable c)),
      (''uri_mutable'', SqlBool (ccd_uri_mutable c)),
      (''description_mutable'', SqlBool (ccd_description_mutable c)),
      (''last_transaction_version'', SqlInt (ccd_last_transaction_version c)),
      (''table_handle'', SqlText (ccd_table_handle c)),
      (''last_transaction_timestamp'', SqlTimestamp (ccd_last_transaction_timestamp c))]"

definition token_activity_row :: "token_activity \<Rightarrow> sql_row" where
  "token_activity_row t =
     [(''transaction_version'', SqlInt (tka_transaction_version t)),
      (''event_account_address'', SqlText (tka_event_account_address t)),
      (''event_creation_number'', SqlInt (tka_event_creation_number t)),
      (''event_sequence_number'', SqlInt (tka_event_sequence_number t)),
      (''token_data_id_hash'', SqlText (tka_token_data_id_hash t)),
      (''property_version'', SqlNumeric (tka_property_version t)),
      (''creator_address'', SqlText (tka_creator_address t)),
      (''collection_name'', SqlText (tka_collection_name t)), (''name'', SqlText (tka_name t)),
      (''transfer_type'', SqlText (tka_transfer_type t)),
      (''from_address'', sql_opt SqlText (tka_from_address t)),
      (''to_address'', sql_opt SqlText (tka_to_address t)), (''token_amount'', SqlNumeric (tka_token_amount t)),
      (''coin_type'', sql_opt SqlText (tka_coin_type t)),
      (''coin_amount'', sql_opt SqlNumeric (tka_coin_amount t)),
      (''collection_data_id_hash'', SqlText (tka_collection_data_id_hash t)),
      (''transaction_timestamp'', SqlTimestamp (tka_transaction_timestamp t)),
      (''event_index'', sql_opt SqlInt (tka_event_index t))]"

definition current_token_pending_claim_row :: "current_token_pending_claim \<Rightarrow> sql_row" where
  "current_token_pending_claim_row c =
     [(''token_data_id_hash'', SqlText (ctc_token_data_id_hash c)),
      (''property_version'', SqlNumeric (ctc_property_version c)),
      (''from_address'', SqlText (ctc_from_address c)), (''to_address'', SqlText (ctc_to_address c)),
      (''collection_data_id_hash'', SqlText (ctc_collection_data_id_hash c)),
      (''creator_address'', SqlText (ctc_creator_address c)),
      (''collection_name'', SqlText (ctc_collection_name c)), (''name'', SqlText (ctc_name c)),
      (''amount'', SqlNumeric (ctc_amount c)), (''table_handle'', SqlText (ctc_table_handle c)),
      (''last_transaction_version'', SqlInt (ctc_last_transaction_version c)),
      (''last_transaction_timestamp'', SqlTimestamp (ctc_last_transaction_timestamp c)),
      (''token_data_id'', SqlText (ctc_token_data_id c)), (''collection_id'', SqlText (ctc_collection_id c))]"

definition nft_points_row :: "nft_points \<Rightarrow> sql_row" where
  "nft_points_row p =
     [(''transaction_version'', SqlInt (nfp_transaction_version p)),
      (''owner_address'', SqlText (nfp_owner_address p)), (''token_name'', SqlText (nfp_token_name p)),
      (''point_type'', SqlText (nfp_point_type p)), (''amount'', SqlNumeric (nfp_amount p)),
      (''transaction_timestamp'', SqlTimestamp (nfp_transaction_timestamp p))]"

definition insert_tokens_query :: "token_row_data list \<Rightarrow> query" where
  "insert_tokens_query items =
     (\<lparr>iq_table = ''tokens'', iq_rows = map token_row items,
       iq_target = [''token_data_id_hash'', ''property_version'', ''transaction_version''],
       iq_action = DoNothing\<rparr>,
      None)"

definition insert_token_ownerships_query :: "token_ownership list \<Rightarrow> query" where
  "insert_token_ownerships_query items =
     (\<lparr>iq_table = ''token_ownerships'', iq_rows = map token_ownership_row items,
       iq_target = [''token_data_id_hash'', ''property_version'', ''transaction_version'', ''table_handle''],
       iq_action = DoNothing\<rparr>,
      None)"

definition insert_token_datas_query :: "token_data list \<Rightarrow> query" where
  "insert_token_datas_query items =
     (\<lparr>iq_table = ''token_datas'', iq_rows = map token_data_row items,
       iq_target = [''token_data_id_hash'', ''transaction_version''],
       iq_action = DoNothing\<rparr>,
      None)"

definition insert_collection_datas_query :: "collection_data list \<Rightarrow> query" where
  "insert_collection_datas_query items =
     (\<lparr>iq_table = ''collection_datas'', iq_rows = map collection_data_row items,
       iq_target = [''collection_data_id_hash'', ''transaction_version''],
       iq_action = DoNothing\<rparr>,
      None)"

definition insert_current_token_ownerships_query :: "current_token_ownership list \<Rightarrow> query" where
  "insert_current_token_ownerships_query items =
     (\<lparr>iq_table = ''current_token_ownerships'', iq_rows = map current_token_ownership_row items,
       iq_target = [''token_data_id_hash'', ''property_version'', ''owner_address''],
       iq_action = DoUpdate [''creator_address'', ''collection_name'', ''name'', ''amount'', ''token_properties'',
         ''last_transaction_version'', ''collection_data_id_hash'', ''table_type'', ''inserted_at'']\<rparr>,
      Some (WhereLe ''last_transaction_version''))"

definition insert_current_token_datas_query :: "current_token_data list \<Rightarrow> query" where
  "insert_current_token_datas_query items =
     (\<lparr>iq_table = ''current_token_datas'', iq_rows = map current_token_data_row items,
       iq_target = [''token_data_id_hash''],
       iq_action = DoUpdate [''creator_address'', ''collection_name'', ''name'', ''maximum'', ''supply'',
         ''largest_property_version'', ''metadata_uri'', ''payee_address'', ''royalty_points_numerator'',
         ''royalty_points_denominator'', ''maximum_mutable'', ''uri_mutable'', ''description_mutable'',
         ''properties_mutable'', ''royalty_mutable'', ''default_properties'',
         ''last_transaction_version'', ''collection_data_id_hash'', ''description'', ''inserted_at'']\<rparr>,
      Some (WhereLe ''last_transaction_version''))"

definition insert_current_collection_datas_query :: "current_collection_data list \<Rightarrow> query" where
  "insert_current_collection_datas_query items =
     (\<lparr>iq_table = ''current_collection_datas'', iq_rows = map current_collection_data_row items,
       iq_target = [''collection_data_id_hash''],
       iq_action = DoUpdate [''creator_address'', ''collection_name'', ''description'', ''metadata_uri'', ''supply'',
         ''maximum'', ''maximum_mutable'', ''uri_mutable'', ''description_mutable'',
         ''last_transaction_version'', ''table_handle'', ''inserted_at'']\<rparr>,
      Some (WhereLe ''last_transaction_version''))"

definition insert_token_activities_query :: "token_activity list \<Rightarrow> query" where
  "insert_token_activities_query items =
     (\<lparr>iq_table = ''token_activities'', iq_rows = map token_activity_row items,
       iq_target = [''transaction_version'', ''event_account_address'', ''event_creation_number'', ''event_sequence_number''],
       iq_action = DoNothing\<rparr>,
      None)"

definition insert_current_token_claims_query :: "current_token_pending_claim list \<Rightarrow> query" where
  "insert_current_token_claims_query items =
     (\<lparr>iq_table = ''current_token_pending_claims'', iq_rows = map current_token_pending_claim_row items,
       iq_target = [''token_data_id_hash'', ''property_version'', ''from_address'', ''to_address''],
       iq_action = DoUpdate [''collection_data_id_hash'', ''creator_address'', ''collection_name'', ''name'', ''amount'',
         ''table_handle'', ''last_transaction_version'', ''inserted_at'', ''token_data_id'',
         ''collection_id'']\<rparr>,
      Some (WhereLe ''last_transaction_version''))"

definition insert_nft_points_query :: "nft_points list \<Rightarrow> query" where
  "insert_nft_points_query items =
     (\<lparr>iq_table = ''nft_points'', iq_rows = map nft_points_row items,
       iq_target = [''transaction_version''],
       iq_action = DoNothing\<rparr>,
      None)"

section \<open>A batch\<close>

record token_processor_state =
  tps_rows :: token_rows
  tps_activities :: "token_activity list"
  tps_nft_points :: "nft_points list"

definition append_token_rows :: "token_rows \<Rightarrow> token_rows \<Rightarrow> token_rows" where
  "append_token_rows a b =
     \<lparr>trw_tokens = trw_tokens a @ trw_tokens b, trw_token_ownerships = trw_token_ownerships a @ trw_token_ownerships b,
      trw_token_datas = trw_token_datas a @ trw_token_datas b,
      trw_collection_datas = trw_collection_datas a @ trw_collection_datas b,
      trw_current_token_ownerships = trw_current_token_ownerships a @ trw_current_token_ownerships b,
      trw_current_token_datas = trw_current_token_datas a @ trw_current_token_datas b,
      trw_current_collection_datas = trw_current_collection_datas a @ trw_current_collection_datas b,
      trw_current_token_claims = trw_current_token_claims a @ trw_current_token_claims b\<rparr>"

definition no_token_state :: token_processor_state where
  "no_token_state = \<lparr>tps_rows = no_token_rows, tps_activities = [], tps_nft_points = []\<rparr>"

definition token_add_txn ::
  "libs \<Rightarrow> pg_first \<Rightarrow> (i64 \<Rightarrow> nat \<Rightarrow> nat \<Rightarrow> db) \<Rightarrow> token_processor_config \<Rightarrow> table_handle_to_owner \<Rightarrow> transaction \<Rightarrow>
   token_processor_state \<Rightarrow> failure + token_processor_state" where
  "token_add_txn L first seen cfg owners txn st =
     and_then (tokens_from_transaction L first (seen (as_i64 (txn_version txn))) (qrc_query_retries cfg) txn owners) (\<lambda>rows.
     and_then (token_activities_from_transaction L txn) (\<lambda>activities.
     and_then (nft_points_from_transaction L (tpc_nft_points_contract cfg) txn) (\<lambda>points.
     Inr \<lparr>tps_rows = append_token_rows (tps_rows st) rows, tps_activities = tps_activities st @ activities,
          tps_nft_points = tps_nft_points st @ opt_list points\<rparr>)))"

definition cto_pk :: "current_token_ownership \<Rightarrow> string \<times> rat \<times> string" where
  "cto_pk c = (cto_token_data_id_hash c, cto_property_version c, cto_owner_address c)"

definition ctc_pk :: "current_token_pending_claim \<Rightarrow> string \<times> rat \<times> string \<times> string" where
  "ctc_pk c = (ctc_token_data_id_hash c, ctc_property_version c, ctc_from_address c, ctc_to_address c)"

text \<open>
  The comparison of two claims takes the receiver of the first for both sides, so that only the first three
  parts of the key order them.
\<close>

definition claim_order :: "current_token_pending_claim \<Rightarrow> string \<times> rat \<times> string" where
  "claim_order c = (ctc_token_data_id_hash c, ctc_property_version c, ctc_from_address c)"

record token_inserts =
  tki_rows :: token_rows
  tki_activities :: "token_activity list"
  tki_nft_points :: "nft_points list"

definition token_collect :: "token_processor_state \<Rightarrow> token_inserts" where
  "token_collect st =
     (let rows = tps_rows st in
      \<lparr>tki_rows = rows\<lparr>
         trw_current_token_ownerships := sort_key cto_pk (map snd (collect_by cto_pk (trw_current_token_ownerships rows) [])),
         trw_current_token_datas := sort_key ctd_token_data_id_hash
           (map snd (collect_by ctd_token_data_id_hash (trw_current_token_datas rows) [])),
         trw_current_collection_datas := sort_key ccd_collection_data_id_hash
           (map snd (collect_by ccd_collection_data_id_hash (trw_current_collection_datas rows) [])),
         trw_current_token_claims := sort_key claim_order
           (map snd (collect_by ctc_pk (trw_current_token_claims rows) []))\<rparr>,
       tki_activities = tps_activities st, tki_nft_points = tps_nft_points st\<rparr>)"

definition token_rows_of ::
  "libs \<Rightarrow> pg_first \<Rightarrow> (i64 \<Rightarrow> nat \<Rightarrow> nat \<Rightarrow> db) \<Rightarrow> token_processor_config \<Rightarrow> transaction list \<Rightarrow> failure + token_inserts" where
  "token_rows_of L first seen cfg transactions =
     and_then (get_table_handle_to_owner_from_transactions L transactions) (\<lambda>owners.
     and_then (fold_result (token_add_txn L first seen cfg owners) transactions no_token_state) (\<lambda>st.
     Inr (token_collect st)))"

record token_serdes =
  sd_token :: "token_row_data serde"
  sd_token_ownership :: "token_ownership serde"
  sd_token_data :: "token_data serde"
  sd_collection_data :: "collection_data serde"
  sd_current_token_ownership :: "current_token_ownership serde"
  sd_current_token_data :: "current_token_data serde"
  sd_current_collection_data :: "current_collection_data serde"
  sd_token_activity :: "token_activity serde"
  sd_current_token_pending_claim :: "current_token_pending_claim serde"
  sd_nft_points :: "nft_points serde"

definition token_insert_to_db :: "token_serdes \<Rightarrow> (string \<times> nat) list \<Rightarrow> pg_env \<Rightarrow> token_inserts \<Rightarrow> db_op" where
  "token_insert_to_db sds per_table_chunk_sizes env ins =
     (let size = (\<lambda>fields name. get_config_table_chunk_size fields name per_table_chunk_sizes); rows = tki_rows ins in
      join_inserts
        [execute_in_chunks env insert_tokens_query (sd_token sds) (trw_tokens rows) (size 9 ''tokens''),
         execute_in_chunks env insert_token_ownerships_query (sd_token_ownership sds) (trw_token_ownerships rows)
           (size 12 ''token_ownerships''),
         execute_in_chunks env insert_token_datas_query (sd_token_data sds) (trw_token_datas rows) (size 21 ''token_datas''),
         execute_in_chunks env insert_collection_datas_query (sd_collection_data sds) (trw_collection_datas rows)
           (size 13 ''collection_datas''),
         execute_in_chunks env insert_current_token_ownerships_query (sd_current_token_ownership sds)
           (trw_current_token_ownerships rows) (size 12 ''current_token_ownerships''),
         execute_in_chunks env insert_current_token_datas_query (sd_current_token_data sds)
           (trw_current_token_datas rows) (size 21 ''current_token_datas''),
         execute_in_chunks env insert_current_collection_datas_query (sd_current_collection_data sds)
           (trw_current_collection_datas rows) (size 13 ''current_collection_datas''),
         execute_in_chunks env insert_token_activities_query (sd_token_activity sds) (tki_activities ins)
           (size 18 ''token_activities''),
         execute_in_chunks env insert_current_token_claims_query (sd_current_token_pending_claim sds)
           (trw_current_token_claims rows) (size 14 ''current_token_pending_claims''),
         execute_in_chunks env insert_nft_points_query (sd_nft_points sds) (tki_nft_points ins) (size 6 ''nft_points'')])"

definition token_process_transactions ::
  "libs \<Rightarrow> pg_first \<Rightarrow> (i64 \<Rightarrow> nat \<Rightarrow> nat \<Rightarrow> db) \<Rightarrow> token_processor_config \<Rightarrow> token_serdes \<Rightarrow> rat \<times> rat \<Rightarrow>
   (string \<times> nat) list \<Rightarrow> process_fn" where
  "token_process_transactions L first seen cfg sds durations per_table_chunk_sizes =
     process_batch (token_rows_of L first seen cfg) (token_insert_to_db sds per_table_chunk_sizes) durations"

lemmas token_query_defs = insert_tokens_query_def insert_token_ownerships_query_def insert_token_datas_query_def
  insert_collection_datas_query_def insert_current_token_ownerships_query_def insert_current_token_datas_query_def
  insert_current_collection_datas_query_def insert_token_activities_query_def insert_current_token_claims_query_def
  insert_nft_points_query_def

interpretation token_processor: batch_processor "token_rows_of L first seen cfg" "token_insert_to_db sds sizes" durations
  for L first seen cfg sds sizes durations
proof
  fix env :: pg_env and rows
  assume "postgres (pg_exec env)"
  then show "untouched ''processor_status'' (token_insert_to_db sds sizes env rows)"
    unfolding token_insert_to_db_def Let_def
    by (intro join_inserts_untouched) (auto intro!: execute_in_chunks_untouched simp: token_query_defs)
qed

section \<open>The rows of a batch\<close>

text \<open>What a transaction writes of token data depends on its changes alone.\<close>

definition token_data_write :: "libs \<Rightarrow> i64 \<Rightarrow> naive_date_time \<Rightarrow> write_set_change_pb \<Rightarrow> current_token_data list" where
  "token_data_write L version timestamp wsc =
     (case wsc_change wsc of
        Some (WriteTableItem wti) \<Rightarrow>
          (case token_data_from_write_table_item L wti version timestamp of Inr (Some (_, c)) \<Rightarrow> [c] | _ \<Rightarrow> [])
      | _ \<Rightarrow> [])"

definition token_data_writes :: "libs \<Rightarrow> transaction \<Rightarrow> current_token_data list" where
  "token_data_writes L t =
     (case (txn_txn_data t, txn_timestamp t, txn_info t) of
        (Some (User _), Some ts, Some info) \<Rightarrow>
          (case parse_timestamp L ts of
             Inr timestamp \<Rightarrow> concat (map (token_data_write L (ver t) timestamp) (ti_changes info))
           | Inl _ \<Rightarrow> [])
      | _ \<Rightarrow> [])"

lemma token_change_data:
  assumes "token_change L first seen retries v ts owners iw = Inr r"
  shows "map snd (opt_list (tcr_token_data r)) = token_data_write L v ts (snd iw)"
proof -
  note d = token_change_def token_data_write_def no_token_change_rows_def
  obtain i w ch where iw: "iw = (i, w)" and ch: "wsc_change w = Some ch"
    using assms by (cases iw) (auto simp: d)
  show ?thesis
    using assms iw ch by (cases ch) (auto simp: d split: option.splits)
qed

lemma token_txn_data:
  assumes "tokens_from_transaction L first seen retries t owners = Inr rows"
  shows "trw_current_token_datas rows = token_data_writes L t"
proof (cases "\<exists>u. txn_txn_data t = Some (User u)")
  case True
  then obtain u ts timestamp info rs where u: "txn_txn_data t = Some (User u)" and ts: "txn_timestamp t = Some ts"
    "parse_timestamp L ts = Inr timestamp" and info: "txn_info t = Some info"
    and rs: "map_result (token_change L first seen retries (ver t) timestamp owners) (enumerate 0 (ti_changes info)) = Inr rs"
    and rows: "rows = token_gather rs"
    using assms by (auto simp: tokens_from_transaction_def ver_def)
  have "concat (map (\<lambda>r. map snd (opt_list (tcr_token_data r))) rs) =
      concat (map (\<lambda>iw. token_data_write L (ver t) timestamp (snd iw)) (enumerate 0 (ti_changes info)))"
    by (rule map_result_concat [OF rs]) (rule token_change_data)
  also have "\<dots> = concat (map (token_data_write L (ver t) timestamp) (map snd (enumerate 0 (ti_changes info))))"
    by (simp only: map_map comp_def)
  finally show ?thesis
    by (simp add: rows token_gather_def Let_def token_data_writes_def u ts info map_concat comp_def)
next
  case False
  then show ?thesis
    using assms by (auto simp: tokens_from_transaction_def token_data_writes_def no_token_rows_def
        split: option.splits txn_data.splits)
qed

lemma token_batch:
  assumes "token_rows_of L first seen cfg ts = Inr rows"
  shows "set (trw_current_token_datas (tki_rows rows)) =
    {c. latest_row (token_data_writes L) ctd_token_data_id_hash ts (ctd_token_data_id_hash c) = Some c}"
proof -
  obtain owners st where st: "fold_result (token_add_txn L first seen cfg owners) ts no_token_state = Inr st"
    and rows: "rows = token_collect st"
    using assms by (auto simp: token_rows_of_def)
  have "trw_current_token_datas (tps_rows st) =
      trw_current_token_datas (tps_rows no_token_state) @ concat (map (token_data_writes L) ts)"
    by (rule fold_result_appends [OF st, where h = "\<lambda>st. trw_current_token_datas (tps_rows st)"])
      (auto simp: token_add_txn_def append_token_rows_def token_txn_data)
  then show ?thesis
    by (simp add: rows token_collect_def Let_def collect_by_image latest_row_def no_token_state_def no_token_rows_def)
qed

lemma token_data_writes_version: "c \<in> set (token_data_writes L t) \<Longrightarrow> ctd_last_transaction_version c = ver t"
proof -
  have item: "ctd_last_transaction_version c = v"
    if "token_data_from_write_table_item L wti v ts = Inr (Some (h, c))" for wti v ts h c
    using that by (auto simp: token_data_from_write_table_item_def Let_def split: option.splits)
  assume "c \<in> set (token_data_writes L t)"
  then show ?thesis
    by (auto simp: token_data_writes_def token_data_write_def split: option.splits txn_data.splits sum.splits change.splits)
      (metis item)
qed

section \<open>The current token data\<close>

text \<open>Every column that the upsert sets; \<open>last_transaction_timestamp\<close> is not among them.\<close>

abbreviation token_data_set_columns :: "string list" where
  "token_data_set_columns \<equiv> [''creator_address'', ''collection_name'', ''name'', ''maximum'', ''supply'', ''largest_property_version'',
     ''metadata_uri'', ''payee_address'', ''royalty_points_numerator'', ''royalty_points_denominator'', ''maximum_mutable'',
     ''uri_mutable'', ''description_mutable'', ''properties_mutable'', ''royalty_mutable'', ''default_properties'',
     ''last_transaction_version'', ''collection_data_id_hash'', ''description'', ''inserted_at'']"

definition token_data_columns :: "string set" where
  "token_data_columns = {''token_data_id_hash'', ''creator_address'', ''collection_name'', ''name'', ''maximum'', ''supply'',
     ''largest_property_version'', ''metadata_uri'', ''payee_address'', ''royalty_points_numerator'',
     ''royalty_points_denominator'', ''maximum_mutable'', ''uri_mutable'', ''description_mutable'', ''properties_mutable'',
     ''royalty_mutable'', ''default_properties'', ''last_transaction_version'', ''collection_data_id_hash'', ''description''}"

interpretation token_data_current: guarded_query
  "[''token_data_id_hash'']" token_data_set_columns "WhereLe ''last_transaction_version''" token_data_columns
  insert_current_token_datas_query current_token_data_row "''current_token_datas''"
proof
  show "full_row (WhereLe ''last_transaction_version'') token_data_columns (current_token_data_row c)" for c
    by (auto simp: full_row_def token_data_columns_def current_token_data_row_def has_version_def int_cell_def)
qed (auto simp: token_data_columns_def insert_current_token_datas_query_def)

lemma token_data_arow:
  "token_data_current.arow c = map_of (current_token_data_row c) |` token_data_columns"
  "token_data_current.pkey (token_data_current.arow c) = [SqlText (ctd_token_data_id_hash c)]"
  unfolding token_data_current.arow_def
  by (simp_all add: current_token_data_row_def token_data_columns_def row_key_def cell_def)

interpretation latest_token_data: latest_table
  "[''token_data_id_hash'']" token_data_set_columns "''last_transaction_version''" token_data_columns
  insert_current_token_datas_query current_token_data_row "''current_token_datas''"
  "token_data_writes L" ctd_token_data_id_hash "run_batch (token_process_transactions L first seen cfg sds durations)"
  "sd_current_token_data sds"
  for L first seen cfg sds durations
proof
  show "int_of (map_of (current_token_data_row c)) ''last_transaction_version'' = ver t"
    if "c \<in> set (token_data_writes L t)" for c t
    using token_data_writes_version [OF that] by (simp add: current_token_data_row_def int_of_def)
next
  fix env sizes txns d d' X g
  assume run: "run_batch (token_process_transactions L first seen cfg sds durations) (env, sizes, txns) d = (Inr (), d')"
    and env: "server_ok g env insert_current_token_datas_query X" "clean_stable (sd_current_token_data sds) X"
    and sub: "{c. latest_row (token_data_writes L) ctd_token_data_id_hash txns (ctd_token_data_id_hash c) = Some c} \<subseteq> X"
    and ok: "table_ok [''token_data_id_hash''] (WhereLe ''last_transaction_version'') token_data_columns (d ''current_token_datas'')"
  obtain rows where rows: "token_rows_of L first seen cfg txns = Inr rows"
    and ins: "token_insert_to_db sds sizes env rows d = (Inr (), d')"
    using run unfolding token_process_transactions_def by (auto elim: run_batch_ok)
  have pg: "postgres (pg_exec env)" using env(1) by (simp add: server_ok_def)
  note cur = token_batch [OF rows]
  show "token_data_current.ingested g
      {c. latest_row (token_data_writes L) ctd_token_data_id_hash txns (ctd_token_data_id_hash c) = Some c}
      (d ''current_token_datas'') (d' ''current_token_datas'')"
    unfolding cur [symmetric]
    by (rule token_data_current.join_ingests [OF ins [unfolded token_insert_to_db_def Let_def], where i = 5, OF _ _ _ env])
      (use sub ok cur pg in \<open>simp_all add: execute_in_chunks_untouched token_query_defs\<close>)
qed

text \<open>
  C17: what the table of current token data of version 1 holds. However a history with increasing versions is cut into
  batches, reordered or repeated, starting from an empty table, whatever owners of tables the batches happen to contain
  and whatever the lookups of collections see, for rows that the removal of null bytes leaves as they are: a token has
  a row exactly when the history writes its data, and the row is one of those, in every column except
  \<open>last_transaction_timestamp\<close>; if no statement loses its version guard, that is if the debug text of no query over
  these rows, with their names, descriptions and URIs, contains \<open>where\<close>, it is the last one.
\<close>

theorem current_token_datas_converge:
  assumes "insert_batches (run_batch (token_process_transactions L first seen cfg sds durations)) runs d = Inr d'"
    and "d ''current_token_datas'' = Map.empty" and "version_ordered H" and "set H = run_txns runs"
    and "servers_ok runs" and "clean_stable (sd_current_token_data sds) (written (token_data_writes L) H)"
  shows "stored_from (\<lambda>c. map_of (current_token_data_row c) |` token_data_columns)
      {c \<in> written (token_data_writes L) H. [SqlText (ctd_token_data_id_hash c)] = K}
      (view token_data_columns (d' ''current_token_datas'') K) \<and>
    (guards_kept runs insert_current_token_datas_query (written (token_data_writes L) H) \<longrightarrow>
      (view token_data_columns (d' ''current_token_datas'') K = Some r \<longleftrightarrow>
        (\<exists>c. latest_row (token_data_writes L) ctd_token_data_id_hash H (ctd_token_data_id_hash c) = Some c \<and>
          [SqlText (ctd_token_data_id_hash c)] = K \<and> map_of (current_token_data_row c) |` token_data_columns = r)))"
proof -
  have keys: "\<forall>a \<in> written (token_data_writes L) H. \<forall>b \<in> written (token_data_writes L) H.
    token_data_current.pkey (token_data_current.arow a) = token_data_current.pkey (token_data_current.arow b) \<longleftrightarrow>
    ctd_token_data_id_hash a = ctd_token_data_id_hash b"
    by (simp add: token_data_arow(2))
  show ?thesis
    using latest_token_data.latest_content [OF assms keys] unfolding token_data_arow(2) unfolding token_data_arow(1) [abs_def] by blast
qed

section \<open>The guard\<close>

text \<open>
  C18: when the version guard of the token data works. After the insert of one row, which the removal of null bytes leaves as it
  is, its token has the row stored before exactly when that one is newer and the debug text of the query, which shows the values
  of the row, does not contain \<open>where\<close>. A token with the word in its name, description or URI therefore loses newer data to
  an older row that is inserted late.
\<close>

theorem token_data_guard:
  assumes "postgres (pg_exec env)" and "fair_sched env" and "clean_stable sd {c}"
    and "table_ok [''token_data_id_hash''] (WhereLe ''last_transaction_version'') token_data_columns (d ''current_token_datas'')"
    and "execute_in_chunks env insert_current_token_datas_query sd [c] n d = (Inr (), d')"
  shows "view token_data_columns (d' ''current_token_datas'') [SqlText (ctd_token_data_id_hash c)] =
    (case view token_data_columns (d ''current_token_datas'') [SqlText (ctd_token_data_id_hash c)] of
       None \<Rightarrow> Some (map_of (current_token_data_row c) |` token_data_columns)
     | Some old \<Rightarrow>
         if ctd_last_transaction_version c < int_of old ''last_transaction_version'' \<and>
            \<not> contains (to_lowercase (pg_debug_query env (fst (insert_current_token_datas_query [c])))) ''where''
         then Some old else Some (map_of (current_token_data_row c) |` token_data_columns))"
proof -
  have v: "where_ver (WhereLe ''last_transaction_version'') (map_of (current_token_data_row c) |` token_data_columns) =
      ctd_last_transaction_version c"
    by (simp add: int_of_def current_token_data_row_def token_data_columns_def)
  note key = token_data_arow(2) [of c, unfolded token_data_arow(1)]
  show ?thesis
    unfolding token_data_current.insert_one [OF assms] token_data_arow(1)
    by (auto simp: put_if_def put_def key v keeps_guard_def not_less split: option.splits simp del: where_ver.simps)
      (simp_all add: not_le)
qed

section \<open>Timestamps\<close>

text \<open>
  C19: the tables of current tokens, token data, collections and claims never update \<open>last_transaction_timestamp\<close>. Whatever
  a batch writes, and whether it succeeds or fails, every row that was stored before it keeps its timestamp, although its
  \<open>last_transaction_version\<close> moves on: the upserts set every column but this one.
\<close>

theorem current_token_timestamps_kept:
  assumes "postgres (pg_exec env)"
    and "tbl \<in> {''current_token_ownerships'', ''current_token_datas'', ''current_collection_datas'',
      ''current_token_pending_claims''}"
    and "run_batch (token_process_transactions L first seen cfg sds durations) (env, sizes, txns) d = (res, d')"
    and "d tbl K = Some r"
  shows "\<exists>r'. d' tbl K = Some r' \<and> r' ''last_transaction_timestamp'' = r ''last_transaction_timestamp''"
proof -
  have ins: "keeps (cell_kept tbl ''last_transaction_timestamp'') (token_insert_to_db sds sizes env rows)" for rows
    unfolding token_insert_to_db_def Let_def
    by (rule cell_kept.join_inserts_keeps)
      (use assms(2) in \<open>auto intro!: execute_in_chunks_cell_kept [OF assms(1)] simp: token_query_defs leaves_column_def\<close>)
  then have "cell_kept tbl ''last_transaction_timestamp'' d d'"
    using assms(3) cell_kept.kept_refl
    by (auto simp: run_batch_def token_process_transactions_def process_batch_def keeps_def
        split: list.splits sum.splits prod.splits)
  then show ?thesis using assms(4) by (auto simp: cell_kept_def)
qed

section \<open>Runs\<close>

text \<open>A transaction that writes the data of one token at a given second.\<close>

definition sample_token_id_json :: json where
  "sample_token_id_json = JObject [(''creator'', JString ''0xa''), (''collection'', JString ''c''), (''name'', JString ''n'')]"

definition sample_token_data_json :: json where
  "sample_token_data_json =
     JObject [(''default_properties'', JNull), (''description'', JString ''d''), (''largest_property_version'', JString ''1''),
       (''maximum'', JString ''1''),
       (''mutability_config'', JObject [(''description'', JBool True), (''maximum'', JBool True), (''properties'', JBool True),
         (''royalty'', JBool True), (''uri'', JBool True)]),
       (''name'', JString ''n''),
       (''royalty'', JObject [(''payee_address'', JString ''0xa''), (''royalty_points_denominator'', JString ''1''),
         (''royalty_points_numerator'', JString ''1'')]),
       (''supply'', JString ''1''), (''uri'', JString ''u'')]"

definition token_libs :: libs where
  "token_libs = sample_libs\<lparr>lib_json_from_str := (\<lambda>s. if s = ''key'' then Some sample_token_id_json else Some sample_token_data_json)\<rparr>"

definition sample_token_item :: write_table_item where
  "sample_token_item = \<lparr>wti_state_key_hash = [], wti_handle = ''0x1'', wti_key = [],
     wti_data = Some \<lparr>wtd_key = ''key'', wtd_key_type = ''0x3::token::TokenDataId'', wtd_value = ''value'',
       wtd_value_type = ''0x3::token::TokenData''\<rparr>\<rparr>"

definition token_txn :: "u64 \<Rightarrow> int \<Rightarrow> transaction" where
  "token_txn v secs = (sample_user_txn v)\<lparr>txn_timestamp := Some \<lparr>ts_seconds = secs, ts_nanos = 0\<rparr>,
     txn_info := map_option (\<lambda>i. i\<lparr>ti_changes := [\<lparr>wsc_type = 6, wsc_change = Some (WriteTableItem sample_token_item)\<rparr>]\<rparr>)
       (txn_info (sample_user_txn v))\<rparr>"

definition sample_token_data :: "i64 \<Rightarrow> naive_date_time \<Rightarrow> token_data \<times> current_token_data" where
  "sample_token_data v ts =
     (let hash = standardize_address ''0xa'' @ ''::c::n''; coll = standardize_address ''0xa'' @ ''::c'' in
      (\<lparr>td_token_data_id_hash = hash, td_transaction_version = v, td_creator_address = standardize_address ''0xa'',
        td_collection_name = ''c'', td_name = ''n'', td_maximum = 1, td_supply = 1, td_largest_property_version = 1,
        td_metadata_uri = ''u'', td_payee_address = standardize_address ''0xa'', td_royalty_points_numerator = 1,
        td_royalty_points_denominator = 1, td_maximum_mutable = True, td_uri_mutable = True, td_description_mutable = True,
        td_properties_mutable = True, td_royalty_mutable = True, td_default_properties = JNull,
        td_collection_data_id_hash = coll, td_transaction_timestamp = ts, td_description = ''d''\<rparr>,
       \<lparr>ctd_token_data_id_hash = hash, ctd_creator_address = standardize_address ''0xa'', ctd_collection_name = ''c'',
        ctd_name = ''n'', ctd_maximum = 1, ctd_supply = 1, ctd_largest_property_version = 1, ctd_metadata_uri = ''u'',
        ctd_payee_address = standardize_address ''0xa'', ctd_royalty_points_numerator = 1,
        ctd_royalty_points_denominator = 1, ctd_maximum_mutable = True, ctd_uri_mutable = True,
        ctd_description_mutable = True, ctd_properties_mutable = True, ctd_royalty_mutable = True,
        ctd_default_properties = JNull, ctd_last_transaction_version = v, ctd_collection_data_id_hash = coll,
        ctd_last_transaction_timestamp = ts, ctd_description = ''d''\<rparr>))"

lemma token_libs_sel:
  "lib_json_from_str token_libs s = (if s = ''key'' then Some sample_token_id_json else Some sample_token_data_json)"
  "lib_parse_bigdecimal token_libs s = Some 1" "lib_sha256_hex token_libs s = s"
  "lib_from_timestamp_opt token_libs secs nanos = Some (secs, nanos)"
  by (simp_all add: token_libs_def sample_libs_def)

lemma sample_token_parts:
  "truncate_str ''c'' name_length = Inr ''c''" "truncate_str ''n'' name_length = Inr ''n''"
  "truncate_str ''u'' uri_length = Inr ''u''"
  by code_simp+

lemma sample_token_read:
  "read_token_data_id sample_token_id_json = Some \<lparr>tdi_creator = ''0xa'', tdi_collection = ''c'', tdi_name = ''n''\<rparr>"
  "read_token_data token_libs sample_token_data_json = Some
     \<lparr>tdt_default_properties = JNull, tdt_description = ''d'', tdt_largest_property_version = 1, tdt_maximum = 1,
      tdt_mutability_config = \<lparr>tdm_description = True, tdm_maximum = True, tdm_properties = True, tdm_royalty = True,
        tdm_uri = True\<rparr>, tdt_name = ''n'',
      tdt_royalty = \<lparr>roy_payee_address = ''0xa'', roy_royalty_points_denominator = 1, roy_royalty_points_numerator = 1\<rparr>,
      tdt_supply = 1, tdt_uri = ''u''\<rparr>"
  by (simp_all add: read_token_data_id_def read_token_data_def sample_token_id_json_def sample_token_data_json_def field_def
      read_bigdecimal_def deserialize_from_string_def token_libs_sel read_token_data_mutability_config_def read_royalty_def
      deserialize_property_map_from_bcs_hexstring_def convert_bcs_propertymap_def from_bcs_encode_str_def Let_def)

lemma sample_token_items:
  "token_from_write_table_item token_libs sample_token_item v ts owners = Inr None"
  "token_data_from_write_table_item token_libs sample_token_item v ts = Inr (Some (sample_token_data v ts))"
  "collection_data_from_write_table_item token_libs first seen retries sample_token_item v ts owners = Inr None"
  "claim_from_write_table_item token_libs sample_token_item v ts owners = Inr None"
  by (simp_all add: token_from_write_table_item_def token_data_from_write_table_item_def sample_token_data_def
      collection_data_from_write_table_item_def claim_from_write_table_item_def sample_token_item_def item_token_def
      item_token_data_def item_token_data_id_def item_collection_data_def item_token_offer_id_def token_from_table_item_type_def
      from_json_str_def parse_or_err_def token_libs_sel sample_token_read get_collection_trunc_def token_data_id_name_trunc_def
      token_data_uri_trunc_def sample_token_parts get_collection_data_id_hash_def collection_data_id_to_hash_def hash_str_def
      collection_data_id_to_string_def token_data_id_to_hash_def token_data_id_to_string_def token_creator_address_def
      get_payee_address_def Let_def)

lemma token_txn_sel:
  "\<exists>i. txn_info (token_txn v secs) = Some i \<and>
     ti_changes i = [\<lparr>wsc_type = 6, wsc_change = Some (WriteTableItem sample_token_item)\<rparr>]"
  "txn_version (token_txn v secs) = v" "txn_timestamp (token_txn v secs) = Some \<lparr>ts_seconds = secs, ts_nanos = 0\<rparr>"
  "\<exists>u. txn_txn_data (token_txn v secs) = Some (User u) \<and> ut_events u = []"
  by (simp_all add: token_txn_def sample_user_txn_def)

lemma sample_timestamp:
  "0 \<le> secs \<Longrightarrow> secs < 100 \<Longrightarrow> parse_timestamp token_libs \<lparr>ts_seconds = secs, ts_nanos = 0\<rparr> = Inr (secs, 0)"
  by (simp add: parse_timestamp_def token_libs_sel max_timestamp_secs_def as_u32_def)

abbreviation sample_token_cfg :: token_processor_config where
  "sample_token_cfg \<equiv> \<lparr>qrc_query_retries = 5, qrc_query_retry_delay_ms = 1, tpc_nft_points_contract = None\<rparr>"

lemma token_txn_run:
  assumes "0 \<le> secs" and "secs < 100"
  shows "token_rows_of token_libs first seen sample_token_cfg [token_txn v secs] =
    Inr \<lparr>tki_rows = no_token_rows\<lparr>trw_token_datas := [fst (sample_token_data (as_i64 v) (secs, 0))],
        trw_current_token_datas := [snd (sample_token_data (as_i64 v) (secs, 0))]\<rparr>,
      tki_activities = [], tki_nft_points = []\<rparr>"
  using token_txn_sel(1,4) [of v secs]
  by (auto simp: token_rows_of_def get_table_handle_to_owner_from_transactions_def add_table_owners_def add_table_owner_def
      token_add_txn_def tokens_from_transaction_def token_txn_sel(2,3) sample_timestamp [OF assms] token_change_def
      sample_token_items token_gather_def no_token_change_rows_def token_activities_from_transaction_def
      nft_points_from_transaction_def append_token_rows_def no_token_state_def no_token_rows_def token_collect_def
      collect_by_def Let_def)

lemma token_writes_sample:
  "token_data_writes token_libs (token_txn v 0) = [snd (sample_token_data (as_i64 v) (0, 0))]"
  using token_txn_sel(1,4) [of v 0]
  by (auto simp: token_data_writes_def token_txn_sel(2,3) sample_timestamp token_data_write_def sample_token_items ver_def
      split: prod.split)

lemma token_txn_batch:
  assumes "0 \<le> secs" and "secs < 100"
  shows "\<exists>d'. run_batch (token_process_transactions token_libs first seen sample_token_cfg sds durations)
    (sample_pg, [], [token_txn v secs]) d = (Inr (), d')"
proof -
  have "\<exists>d'. token_insert_to_db sds [] sample_pg \<lparr>tki_rows = no_token_rows\<lparr>trw_token_datas := [a], trw_current_token_datas := [b]\<rparr>,
      tki_activities = [], tki_nft_points = []\<rparr> d = (Inr (), d')" for a b
    unfolding token_insert_to_db_def Let_def
    by (rule join_inserts_succeeds, unfold list.set ball_simps, intro conjI allI TrueI)
      (rule reference_single reference_do_nothing;
        simp add: default_chunk_size token_query_defs no_token_rows_def del: One_nat_def)+
  with token_txn_run [OF assms] show ?thesis unfolding token_process_transactions_def by (intro run_batch_succeeds) auto
qed

definition sample_token_serdes :: token_serdes where
  "sample_token_serdes =
     \<lparr>sd_token = \<lparr>to_value = (\<lambda>_. JNull), from_value = (\<lambda>_. None)\<rparr>,
       sd_token_ownership = \<lparr>to_value = (\<lambda>_. JNull), from_value = (\<lambda>_. None)\<rparr>,
       sd_token_data = \<lparr>to_value = (\<lambda>_. JNull), from_value = (\<lambda>_. None)\<rparr>,
       sd_collection_data = \<lparr>to_value = (\<lambda>_. JNull), from_value = (\<lambda>_. None)\<rparr>,
       sd_current_token_ownership = \<lparr>to_value = (\<lambda>_. JNull), from_value = (\<lambda>_. None)\<rparr>,
       sd_current_token_data = \<lparr>to_value = (\<lambda>c. JInt (ctd_last_transaction_version c)),
         from_value = (\<lambda>j. case j of JInt v \<Rightarrow> Some (snd (sample_token_data v (0, 0))) | _ \<Rightarrow> None)\<rparr>,
       sd_current_collection_data = \<lparr>to_value = (\<lambda>_. JNull), from_value = (\<lambda>_. None)\<rparr>,
       sd_token_activity = \<lparr>to_value = (\<lambda>_. JNull), from_value = (\<lambda>_. None)\<rparr>,
       sd_current_token_pending_claim = \<lparr>to_value = (\<lambda>_. JNull), from_value = (\<lambda>_. None)\<rparr>,
       sd_nft_points = \<lparr>to_value = (\<lambda>_. JNull), from_value = (\<lambda>_. None)\<rparr>\<rparr>"

text \<open>A row stored at second 0; the transaction that writes the token again at second 9 leaves that second.\<close>

theorem current_token_timestamps_kept_witness:
  "\<exists>d' r'. run_batch (token_process_transactions token_libs (\<lambda>_ _ _. Inr None) (\<lambda>_ _ _ _. Map.empty) sample_token_cfg
        sample_token_serdes (0, 0)) (sample_pg, [], [token_txn 8 9])
      ((\<lambda>_. Map.empty)(''current_token_datas'' :=
        [[SqlText (standardize_address ''0xa'' @ ''::c::n'')] \<mapsto>
          map_of (current_token_data_row (snd (sample_token_data 7 (0, 0))))])) = (Inr (), d') \<and>
    d' ''current_token_datas'' [SqlText (standardize_address ''0xa'' @ ''::c::n'')] = Some r' \<and>
    r' ''last_transaction_timestamp'' = Some (SqlTimestamp (0, 0))"
proof -
  let ?K = "[SqlText (standardize_address ''0xa'' @ ''::c::n'')]"
  let ?r = "map_of (current_token_data_row (snd (sample_token_data 7 (0, 0))))"
  let ?d = "(\<lambda>_. Map.empty)(''current_token_datas'' := [?K \<mapsto> ?r])"
  obtain d' where run: "run_batch (token_process_transactions token_libs (\<lambda>_ _ _. Inr None) (\<lambda>_ _ _ _. Map.empty)
      sample_token_cfg sample_token_serdes (0, 0)) (sample_pg, [], [token_txn 8 9]) ?d = (Inr (), d')"
    using token_txn_batch [of 9] by fastforce
  have "\<exists>r'. d' ''current_token_datas'' ?K = Some r' \<and>
      r' ''last_transaction_timestamp'' = ?r ''last_transaction_timestamp''"
    by (rule current_token_timestamps_kept [OF sample_pg_ok(1) _ run]) simp_all
  moreover have "?r ''last_transaction_timestamp'' = Some (SqlTimestamp (0, 0))"
    by (simp add: current_token_data_row_def sample_token_data_def Let_def)
  ultimately show ?thesis using run by metis
qed

theorem current_token_datas_converge_witness:
  "\<exists>d'. insert_batches (run_batch (token_process_transactions token_libs (\<lambda>_ _ _. Inr None) (\<lambda>_ _ _ _. Map.empty)
        sample_token_cfg sample_token_serdes (0, 0)))
      [(sample_pg, [], [token_txn 8 0]), (sample_pg, [], [token_txn 7 0]), (sample_pg, [], [token_txn 8 0])]
      (\<lambda>_. Map.empty) = Inr d' \<and>
    view token_data_columns (d' ''current_token_datas'') [SqlText (standardize_address ''0xa'' @ ''::c::n'')] =
      Some (map_of (current_token_data_row (snd (sample_token_data 8 (0, 0)))) |` token_data_columns)"
proof -
  let ?batch = "run_batch (token_process_transactions token_libs (\<lambda>_ _ _. Inr None) (\<lambda>_ _ _ _. Map.empty)
    sample_token_cfg sample_token_serdes (0, 0))"
  let ?runs = "[(sample_pg, [], [token_txn 8 0]), (sample_pg, [], [token_txn 7 0]), (sample_pg, [], [token_txn 8 0])]"
  let ?H = "[token_txn 7 0, token_txn 8 0]" and ?row = "\<lambda>v. snd (sample_token_data v (0, 0))"
  have vers: "ver (token_txn 7 0) = 7" "ver (token_txn 8 0) = 8" by (simp_all add: ver_def token_txn_sel(2) as_i64_small)
  have row: "ctd_token_data_id_hash (?row v) = standardize_address ''0xa'' @ ''::c::n''" "ctd_last_transaction_version (?row v) = v" for v
    by (simp_all add: sample_token_data_def Let_def)
  obtain d' where run: "insert_batches ?batch ?runs (\<lambda>_. Map.empty) = Inr d'"
    using insert_batches_total [of ?runs ?batch "\<lambda>_. Map.empty"] token_txn_batch [of 0] by (auto simp del: insert_batches.simps)
  have clean: "clean_stable (sd_current_token_data sample_token_serdes) (written (token_data_writes token_libs) ?H)"
    by (auto simp: clean_stable_def written_def token_writes_sample remove_null_bytes_def sample_token_serdes_def row)
  have "latest_row (token_data_writes token_libs) ctd_token_data_id_hash ?H (ctd_token_data_id_hash (?row 8)) = Some (?row 8)"
    by (simp add: latest_row_def token_writes_sample last_by_def as_i64_small row)
  moreover have "view token_data_columns (d' ''current_token_datas'') K = Some r \<longleftrightarrow>
      (\<exists>c. latest_row (token_data_writes token_libs) ctd_token_data_id_hash ?H (ctd_token_data_id_hash c) = Some c \<and>
        [SqlText (ctd_token_data_id_hash c)] = K \<and> map_of (current_token_data_row c) |` token_data_columns = r)" for K r
    by (rule current_token_datas_converge [OF run _ _ _ _ clean, THEN conjunct2, THEN mp])
      (auto simp: version_ordered_def vers servers_ok_def guards_kept_def sample_pg_ok run_txns_def)
  ultimately show ?thesis using run row(1) [of 8] by (metis (no_types, lifting))
qed

text \<open>A server whose debug text shows the texts among the bound values, and a stored row of version 9.\<close>

definition printing_pg :: pg_env where
  "printing_pg = sample_pg\<lparr>pg_debug_query := (\<lambda>q. iq_table q @
     concat (map (\<lambda>row. concat (map (\<lambda>(col, v). case v of SqlText s \<Rightarrow> s | _ \<Rightarrow> []) row)) (iq_rows q)))\<rparr>"

definition named_token :: "string \<Rightarrow> i64 \<Rightarrow> current_token_data" where
  "named_token name v = (snd (sample_token_data v (0, 0)))\<lparr>ctd_name := name\<rparr>"

definition named_token_db :: db where
  "named_token_db = (\<lambda>_. Map.empty)(''current_token_datas'' :=
     [[SqlText (standardize_address ''0xa'' @ ''::c::n'')] \<mapsto> map_of (current_token_data_row (named_token ''n'' 9))])"

lemma named_token_sel:
  "ctd_token_data_id_hash (named_token name v) = standardize_address ''0xa'' @ ''::c::n''"
  "ctd_last_transaction_version (named_token name v) = v"
  by (simp_all add: named_token_def sample_token_data_def Let_def)

lemma named_token_db_ok:
  "table_ok [''token_data_id_hash''] (WhereLe ''last_transaction_version'') token_data_columns (named_token_db ''current_token_datas'')"
proof -
  have "full_row (WhereLe ''last_transaction_version'') token_data_columns (current_token_data_row (named_token ''n'' 9))"
    by (rule token_data_current.rows_ok)
  moreover have "row_key [''token_data_id_hash''] (map_of (current_token_data_row (named_token ''n'' 9))) =
      [SqlText (standardize_address ''0xa'' @ ''::c::n'')]"
    by (simp add: row_key_def cell_def current_token_data_row_def named_token_sel(1))
  ultimately show ?thesis by (simp add: named_token_db_def table_ok_def full_row_def)
qed

definition named_token_serde :: "string \<Rightarrow> current_token_data serde" where
  "named_token_serde name = \<lparr>to_value = (\<lambda>c. JInt (ctd_last_transaction_version c)),
     from_value = (\<lambda>j. case j of JInt v \<Rightarrow> Some (named_token name v) | _ \<Rightarrow> None)\<rparr>"

text \<open>The row of version 7 is refused under an ordinary name and replaces the row of version 9 under the name \<open>Nowhere\<close>.\<close>

theorem token_data_guard_witness:
  "\<exists>d1 d2. execute_in_chunks printing_pg insert_current_token_datas_query (named_token_serde ''n'') [named_token ''n'' 7] 1
      named_token_db = (Inr (), d1) \<and>
    execute_in_chunks printing_pg insert_current_token_datas_query (named_token_serde ''Nowhere'') [named_token ''Nowhere'' 7] 1
      named_token_db = (Inr (), d2) \<and>
    view token_data_columns (d1 ''current_token_datas'') [SqlText (standardize_address ''0xa'' @ ''::c::n'')] =
      Some (map_of (current_token_data_row (named_token ''n'' 9)) |` token_data_columns) \<and>
    view token_data_columns (d2 ''current_token_datas'') [SqlText (standardize_address ''0xa'' @ ''::c::n'')] =
      Some (map_of (current_token_data_row (named_token ''Nowhere'' 7)) |` token_data_columns)"
proof -
  let ?K = "[SqlText (standardize_address ''0xa'' @ ''::c::n'')]"
  have pg: "postgres (pg_exec printing_pg)" "fair_sched printing_pg"
    using sample_pg_ok(1,2) by (simp_all add: printing_pg_def fair_sched_def)
  have clean: "clean_stable (named_token_serde name) {named_token name 7}" for name
    by (simp add: clean_stable_def remove_null_bytes_def named_token_serde_def named_token_sel)
  have run: "\<exists>d'. execute_in_chunks printing_pg insert_current_token_datas_query sd [c] 1 named_token_db = (Inr (), d')" for sd c
    by (simp add: execute_in_chunks_def chunks.simps printing_pg_def sample_pg_def chunk_task_def execute_or_retry_cleaned_def
        execute_with_better_error_def pg_reference_def proposed_keys_def insert_current_token_datas_query_def
        join_results_def results_in_order_def is_panic_def Let_def)
  obtain d1 d2 where d1: "execute_in_chunks printing_pg insert_current_token_datas_query (named_token_serde ''n'')
      [named_token ''n'' 7] 1 named_token_db = (Inr (), d1)"
    and d2: "execute_in_chunks printing_pg insert_current_token_datas_query (named_token_serde ''Nowhere'')
      [named_token ''Nowhere'' 7] 1 named_token_db = (Inr (), d2)"
    using run by blast
  have old: "view token_data_columns (named_token_db ''current_token_datas'') ?K =
      Some (map_of (current_token_data_row (named_token ''n'' 9)) |` token_data_columns)"
    by (simp add: view_def named_token_db_def)
  have version: "int_of (map_of (current_token_data_row (named_token ''n'' 9)) |` token_data_columns) ''last_transaction_version'' = 9"
    by (simp add: int_of_def current_token_data_row_def token_data_columns_def named_token_sel(2))
  have "\<not> contains (to_lowercase (pg_debug_query printing_pg (fst (insert_current_token_datas_query [named_token ''n'' 7])))) ''where''"
    "contains (to_lowercase (pg_debug_query printing_pg (fst (insert_current_token_datas_query [named_token ''Nowhere'' 7])))) ''where''"
    by code_simp+
  with token_data_guard [OF pg clean named_token_db_ok d1] token_data_guard [OF pg clean named_token_db_ok d2] d1 d2
  show ?thesis by (simp add: old version named_token_sel)
qed

end
