(* ===== verification/Token_V2_Processor.thy ===== *)
theory Token_V2_Processor
  imports Token_V2_Models Token_Processor
begin

text \<open>
  \<open>processors/token_v2_processor.rs\<close>. Each user transaction is read in four passes: the object cores, the other
  resources of the objects, the events, and the changes. The data of the objects and the last known owners
  of tokens are kept for the whole batch. Rows that are pushed to a vector or inserted into a map are
  lists here, in the order of the insertions; \<open>collect_by\<close> makes the map of a list. \<open>seen v i n\<close> is the database
  as the lookups for the change \<open>i\<close> of version \<open>v\<close> see it at attempt \<open>n\<close>.
\<close>

section \<open>Rows and queries\<close>

definition collection_v2_row :: "collection_v2 \<Rightarrow> sql_row" where
  "collection_v2_row c =
     [(''transaction_version'', SqlInt (c2_transaction_version c)),
      (''write_set_change_index'', SqlInt (c2_write_set_change_index c)),
      (''collection_id'', SqlText (c2_collection_id c)), (''creator_address'', SqlText (c2_creator_address c)),
      (''collection_name'', SqlText (c2_collection_name c)), (''description'', SqlText (c2_description c)),
      (''uri'', SqlText (c2_uri c)), (''current_supply'', SqlNumeric (c2_current_supply c)),
      (''max_supply'', sql_opt SqlNumeric (c2_max_supply c)),
      (''total_minted_v2'', sql_opt SqlNumeric (c2_total_minted_v2 c)),
      (''mutable_description'', sql_opt SqlBool (c2_mutable_description c)),
      (''mutable_uri'', sql_opt SqlBool (c2_mutable_uri c)),
      (''table_handle_v1'', sql_opt SqlText (c2_table_handle_v1 c)),
      (''token_standard'', SqlText (c2_token_standard c)),
      (''transaction_timestamp'', SqlTimestamp (c2_transaction_timestamp c))]"

definition current_collection_v2_row :: "current_collection_v2 \<Rightarrow> sql_row" where
  "current_collection_v2_row c =
     [(''collection_id'', SqlText (cc2_collection_id c)), (''creator_address'', SqlText (cc2_creator_address c)),
      (''collection_name'', SqlText (cc2_collection_name c)), (''description'', SqlText (cc2_description c)),
      (''uri'', SqlText (cc2_uri c)), (''current_supply'', SqlNumeric (cc2_current_supply c)),
      (''max_supply'', sql_opt SqlNumeric (cc2_max_supply c)),
      (''total_minted_v2'', sql_opt SqlNumeric (cc2_total_minted_v2 c)),
      (''mutable_description'', sql_opt SqlBool (cc2_mutable_description c)),
      (''mutable_uri'', sql_opt SqlBool (cc2_mutable_uri c)),
      (''table_handle_v1'', sql_opt SqlText (cc2_table_handle_v1 c)),
      (''token_standard'', SqlText (cc2_token_standard c)),
      (''last_transaction_version'', SqlInt (cc2_last_transaction_version c)),
      (''last_transaction_timestamp'', SqlTimestamp (cc2_last_transaction_timestamp c))]"

definition token_data_v2_row :: "token_data_v2 \<Rightarrow> sql_row" where
  "token_data_v2_row t =
     [(''transaction_version'', SqlInt (d2_transaction_version t)),
      (''write_set_change_index'', SqlInt (d2_write_set_change_index t)),
      (''token_data_id'', SqlText (d2_token_data_id t)), (''collection_id'', SqlText (d2_collection_id t)),
      (''token_name'', SqlText (d2_token_name t)), (''maximum'', sql_opt SqlNumeric (d2_maximum t)),
      (''supply'', sql_opt SqlNumeric (d2_supply t)),
      (''largest_property_version_v1'', sql_opt SqlNumeric (d2_largest_property_version_v1 t)),
      (''token_uri'', SqlText (d2_token_uri t)), (''token_properties'', SqlJson (d2_token_properties t)),
      (''description'', SqlText (d2_description t)), (''token_standard'', SqlText (d2_token_standard t)),
      (''is_fungible_v2'', sql_opt SqlBool (d2_is_fungible_v2 t)),
      (''transaction_timestamp'', SqlTimestamp (d2_transaction_timestamp t)),
      (''decimals'', sql_opt SqlInt (d2_decimals t))]"

definition current_token_data_v2_row :: "current_token_data_v2 \<Rightarrow> sql_row" where
  "current_token_data_v2_row t =
     [(''token_data_id'', SqlText (cd2_token_data_id t)), (''collection_id'', SqlText (cd2_collection_id t)),
      (''token_name'', SqlText (cd2_token_name t)), (''maximum'', sql_opt SqlNumeric (cd2_maximum t)),
      (''supply'', sql_opt SqlNumeric (cd2_supply t)),
      (''largest_property_version_v1'', sql_opt SqlNumeric (cd2_largest_property_version_v1 t)),
      (''token_uri'', SqlText (cd2_token_uri t)), (''token_properties'', SqlJson (cd2_token_properties t)),
      (''description'', SqlText (cd2_description t)), (''token_standard'', SqlText (cd2_token_standard t)),
      (''is_fungible_v2'', sql_opt SqlBool (cd2_is_fungible_v2 t)),
      (''last_transaction_version'', SqlInt (cd2_last_transaction_version t)),
      (''last_transaction_timestamp'', SqlTimestamp (cd2_last_transaction_timestamp t)),
      (''decimals'', sql_opt SqlInt (cd2_decimals t)),
      (''is_deleted_v2'', sql_opt SqlBool (cd2_is_deleted_v2 t))]"

definition token_ownership_v2_row :: "token_ownership_v2 \<Rightarrow> sql_row" where
  "token_ownership_v2_row t =
     [(''transaction_version'', SqlInt (o2_transaction_version t)),
      (''write_set_change_index'', SqlInt (o2_write_set_change_index t)),
      (''token_data_id'', SqlText (o2_token_data_id t)),
      (''property_version_v1'', SqlNumeric (o2_property_version_v1 t)),
      (''owner_address'', sql_opt SqlText (o2_owner_address t)), (''storage_id'', SqlText (o2_storage_id t)),
      (''amount'', SqlNumeric (o2_amount t)), (''table_type_v1'', sql_opt SqlText (o2_table_type_v1 t)),
      (''token_properties_mutated_v1'', sql_opt SqlJson (o2_token_properties_mutated_v1 t)),
      (''is_soulbound_v2'', sql_opt SqlBool (o2_is_soulbound_v2 t)),
      (''token_standard'', SqlText (o2_token_standard t)),
      (''is_fungible_v2'', sql_opt SqlBool (o2_is_fungible_v2 t)),
      (''transaction_timestamp'', SqlTimestamp (o2_transaction_timestamp t)),
      (''non_transferrable_by_owner'', sql_opt SqlBool (o2_non_transferrable_by_owner t))]"

definition current_token_ownership_v2_row :: "current_token_ownership_v2 \<Rightarrow> sql_row" where
  "current_token_ownership_v2_row t =
     [(''token_data_id'', SqlText (co2_token_data_id t)),
      (''property_version_v1'', SqlNumeric (co2_property_version_v1 t)),
      (''owner_address'', SqlText (co2_owner_address t)), (''storage_id'', SqlText (co2_storage_id t)),
      (''amount'', SqlNumeric (co2_amount t)), (''table_type_v1'', sql_opt SqlText (co2_table_type_v1 t)),
      (''token_properties_mutated_v1'', sql_opt SqlJson (co2_token_properties_mutated_v1 t)),
      (''is_soulbound_v2'', sql_opt SqlBool (co2_is_soulbound_v2 t)),
      (''token_standard'', SqlText (co2_token_standard t)),
      (''is_fungible_v2'', sql_opt SqlBool (co2_is_fungible_v2 t)),
      (''last_transaction_version'', SqlInt (co2_last_transaction_version t)),
      (''last_transaction_timestamp'', SqlTimestamp (co2_last_transaction_timestamp t)),
      (''non_transferrable_by_owner'', sql_opt SqlBool (co2_non_transferrable_by_owner t))]"

definition token_activity_v2_row :: "token_activity_v2 \<Rightarrow> sql_row" where
  "token_activity_v2_row a =
     [(''transaction_version'', SqlInt (a2_transaction_version a)), (''event_index'', SqlInt (a2_event_index a)),
      (''event_account_address'', SqlText (a2_event_account_address a)),
      (''token_data_id'', SqlText (a2_token_data_id a)),
      (''property_version_v1'', SqlNumeric (a2_property_version_v1 a)), (''type'', SqlText (a2_type a)),
      (''from_address'', sql_opt SqlText (a2_from_address a)), (''to_address'', sql_opt SqlText (a2_to_address a)),
      (''token_amount'', SqlNumeric (a2_token_amount a)), (''before_value'', sql_opt SqlText (a2_before_value a)),
      (''after_value'', sql_opt SqlText (a2_after_value a)),
      (''entry_function_id_str'', sql_opt SqlText (a2_entry_function_id_str a)),
      (''token_standard'', SqlText (a2_token_standard a)),
      (''is_fungible_v2'', sql_opt SqlBool (a2_is_fungible_v2 a)),
      (''transaction_timestamp'', SqlTimestamp (a2_transaction_timestamp a))]"

definition current_token_v2_metadata_row :: "current_token_v2_metadata \<Rightarrow> sql_row" where
  "current_token_v2_metadata_row m =
     [(''object_address'', SqlText (m2_object_address m)), (''resource_type'', SqlText (m2_resource_type m)),
      (''data'', SqlJson (m2_data m)), (''state_key_hash'', SqlText (m2_state_key_hash m)),
      (''last_transaction_version'', SqlInt (m2_last_transaction_version m))]"

definition insert_collections_v2_query :: "collection_v2 list \<Rightarrow> query" where
  "insert_collections_v2_query items =
     (\<lparr>iq_table = ''collections_v2'', iq_rows = map collection_v2_row items,
       iq_target = [''transaction_version'', ''write_set_change_index''], iq_action = DoNothing\<rparr>, None)"

definition insert_token_datas_v2_query :: "token_data_v2 list \<Rightarrow> query" where
  "insert_token_datas_v2_query items =
     (\<lparr>iq_table = ''token_datas_v2'', iq_rows = map token_data_v2_row items,
       iq_target = [''transaction_version'', ''write_set_change_index''],
       iq_action = DoUpdate [''maximum'', ''supply'', ''is_fungible_v2'', ''inserted_at'', ''decimals'']\<rparr>, None)"

definition insert_token_ownerships_v2_query :: "token_ownership_v2 list \<Rightarrow> query" where
  "insert_token_ownerships_v2_query items =
     (\<lparr>iq_table = ''token_ownerships_v2'', iq_rows = map token_ownership_v2_row items,
       iq_target = [''transaction_version'', ''write_set_change_index''],
       iq_action = DoUpdate [''is_fungible_v2'', ''inserted_at'']\<rparr>, None)"

definition insert_current_collections_v2_query :: "current_collection_v2 list \<Rightarrow> query" where
  "insert_current_collections_v2_query items =
     (\<lparr>iq_table = ''current_collections_v2'', iq_rows = map current_collection_v2_row items,
       iq_target = [''collection_id''],
       iq_action = DoUpdate [''creator_address'', ''collection_name'', ''description'', ''uri'', ''current_supply'',
         ''max_supply'', ''total_minted_v2'', ''mutable_description'', ''mutable_uri'', ''table_handle_v1'',
         ''token_standard'', ''last_transaction_version'', ''last_transaction_timestamp'', ''inserted_at'']\<rparr>,
      Some (WhereLe ''last_transaction_version''))"

definition insert_current_token_datas_v2_query :: "current_token_data_v2 list \<Rightarrow> query" where
  "insert_current_token_datas_v2_query items =
     (\<lparr>iq_table = ''current_token_datas_v2'', iq_rows = map current_token_data_v2_row items,
       iq_target = [''token_data_id''],
       iq_action = DoUpdate [''collection_id'', ''token_name'', ''maximum'', ''supply'',
         ''largest_property_version_v1'', ''token_uri'', ''description'', ''token_properties'', ''token_standard'',
         ''is_fungible_v2'', ''last_transaction_version'', ''last_transaction_timestamp'', ''inserted_at'',
         ''decimals'']\<rparr>,
      Some (WhereLe ''last_transaction_version''))"

definition insert_current_deleted_token_datas_v2_query :: "current_token_data_v2 list \<Rightarrow> query" where
  "insert_current_deleted_token_datas_v2_query items =
     (\<lparr>iq_table = ''current_token_datas_v2'', iq_rows = map current_token_data_v2_row items,
       iq_target = [''token_data_id''],
       iq_action = DoUpdate [''last_transaction_version'', ''last_transaction_timestamp'', ''inserted_at'',
         ''is_deleted_v2'']\<rparr>,
      Some (WhereLe ''last_transaction_version''))"

definition insert_current_token_ownerships_v2_query :: "current_token_ownership_v2 list \<Rightarrow> query" where
  "insert_current_token_ownerships_v2_query items =
     (\<lparr>iq_table = ''current_token_ownerships_v2'', iq_rows = map current_token_ownership_v2_row items,
       iq_target = [''token_data_id'', ''property_version_v1'', ''owner_address'', ''storage_id''],
       iq_action = DoUpdate [''amount'', ''table_type_v1'', ''token_properties_mutated_v1'', ''is_soulbound_v2'',
         ''token_standard'', ''is_fungible_v2'', ''last_transaction_version'', ''last_transaction_timestamp'',
         ''inserted_at'', ''non_transferrable_by_owner'']\<rparr>,
      Some (WhereLe ''last_transaction_version''))"

definition insert_current_deleted_token_ownerships_v2_query :: "current_token_ownership_v2 list \<Rightarrow> query" where
  "insert_current_deleted_token_ownerships_v2_query items =
     (\<lparr>iq_table = ''current_token_ownerships_v2'', iq_rows = map current_token_ownership_v2_row items,
       iq_target = [''token_data_id'', ''property_version_v1'', ''owner_address'', ''storage_id''],
       iq_action = DoUpdate [''amount'', ''last_transaction_version'', ''last_transaction_timestamp'',
         ''is_fungible_v2'', ''inserted_at'']\<rparr>,
      Some (WhereLe ''last_transaction_version''))"

definition insert_token_activities_v2_query :: "token_activity_v2 list \<Rightarrow> query" where
  "insert_token_activities_v2_query items =
     (\<lparr>iq_table = ''token_activities_v2'', iq_rows = map token_activity_v2_row items,
       iq_target = [''transaction_version'', ''event_index''],
       iq_action = DoUpdate [''is_fungible_v2'', ''inserted_at'']\<rparr>, None)"

definition insert_current_token_v2_metadatas_query :: "current_token_v2_metadata list \<Rightarrow> query" where
  "insert_current_token_v2_metadatas_query items =
     (\<lparr>iq_table = ''current_token_v2_metadata'', iq_rows = map current_token_v2_metadata_row items,
       iq_target = [''object_address'', ''resource_type''],
       iq_action = DoUpdate [''data'', ''state_key_hash'', ''last_transaction_version'', ''inserted_at'']\<rparr>,
      Some (WhereLe ''last_transaction_version''))"

section \<open>The objects and the events of a transaction\<close>

definition newer :: "'a option \<Rightarrow> 'a option \<Rightarrow> 'a option" where
  "newer x old = (case x of Some y \<Rightarrow> Some y | None \<Rightarrow> old)"

definition token_v2_fill_object ::
  "libs \<Rightarrow> i64 \<Rightarrow> write_set_change_pb \<Rightarrow> object_aggregated_data_mapping \<Rightarrow> failure + object_aggregated_data_mapping" where
  "token_v2_fill_object L version wsc objects =
     and_then (expect ''called Option::unwrap on a None value'' (wsc_change wsc)) (\<lambda>change.
     case change of
       WriteResource wr \<Rightarrow>
         let address = standardize_address (wr_address wr) in
         (case map_of objects address of
            None \<Rightarrow> Inr objects
          | Some data \<Rightarrow>
              and_then (unwrap_result (fixed_supply_from_write_resource L wr version)) (\<lambda>fixed_supply.
              and_then (unwrap_result (unlimited_supply_from_write_resource L wr version)) (\<lambda>unlimited_supply.
              and_then (unwrap_result (aptos_collection_from_write_resource L wr version)) (\<lambda>aptos_collection.
              and_then (unwrap_result (property_map_from_write_resource L wr version)) (\<lambda>property_map.
              and_then (unwrap_result (concurrent_supply_from_write_resource L wr version)) (\<lambda>concurrent_supply.
              and_then (unwrap_result (token_v2_from_write_resource L wr version)) (\<lambda>token.
              and_then (unwrap_result (fa_metadata_from_write_resource L wr version)) (\<lambda>fungible_asset_metadata.
              and_then (unwrap_result (token_identifiers_from_write_resource L wr version)) (\<lambda>token_identifier.
              Inr (AList.update address
                (data\<lparr>oad_fixed_supply := newer fixed_supply (oad_fixed_supply data),
                      oad_unlimited_supply := newer unlimited_supply (oad_unlimited_supply data),
                      oad_aptos_collection := newer aptos_collection (oad_aptos_collection data),
                      oad_property_map := newer property_map (oad_property_map data),
                      oad_concurrent_supply := newer concurrent_supply (oad_concurrent_supply data),
                      oad_token := newer token (oad_token data),
                      oad_fungible_asset_metadata := newer fungible_asset_metadata (oad_fungible_asset_metadata data),
                      oad_token_identifier := newer token_identifier (oad_token_identifier data)\<rparr>) objects))))))))))
     | _ \<Rightarrow> Inr objects)"

text \<open>What the events of a transaction leave for its changes. The minted tokens are collected and not used.\<close>

record token_v2_events =
  e2_burned :: token_v2_burned
  e2_minted :: "string list"
  e2_objects :: object_aggregated_data_mapping
  e2_activities :: "token_activity_v2 list"

definition add_burned :: "burn \<Rightarrow> token_v2_burned \<Rightarrow> token_v2_burned" where
  "add_burned b burned = AList.update (burn_token_address b) b burned"

definition old_burn :: "event_pb \<Rightarrow> mint_event \<Rightarrow> failure + burn" where
  "old_burn event old_burn_event =
     and_then (expect ''called Option::unwrap on a None value'' (ev_key event)) (\<lambda>key.
     Inr \<lparr>burn_collection = standardize_address (ek_account_address key),
          burn_token = mint_event_token_address old_burn_event, burn_previous_owner = []\<rparr>)"

text \<open>The position of a transfer: never 0, since its negative must not be the index of a change.\<close>

definition transfer_index :: "nat \<Rightarrow> nat \<Rightarrow> nat" where
  "transfer_index events_len index = (if index = 0 then events_len else index)"

definition add_transfer ::
  "nat \<Rightarrow> nat \<Rightarrow> transfer_event \<Rightarrow> object_aggregated_data_mapping \<Rightarrow> object_aggregated_data_mapping" where
  "add_transfer events_len index e objects =
     (case map_of objects (get_object_address e) of
        None \<Rightarrow> objects
      | Some data \<Rightarrow>
          AList.update (get_object_address e)
            (data\<lparr>oad_transfer_events := oad_transfer_events data @ [(int (transfer_index events_len index), e)]\<rparr>) objects)"

definition token_v2_event ::
  "libs \<Rightarrow> i64 \<Rightarrow> naive_date_time \<Rightarrow> string option \<Rightarrow> nat \<Rightarrow> nat \<times> event_pb \<Rightarrow> token_v2_events \<Rightarrow>
   failure + token_v2_events" where
  "token_v2_event L version timestamp entry_function_id_str events_len ie st =
     (case ie of (index, event) \<Rightarrow>
      and_then (burn_from_event L event) (\<lambda>maybe_burn.
      let burned1 = (case maybe_burn of Some b \<Rightarrow> add_burned b (e2_burned st) | None \<Rightarrow> e2_burned st) in
      and_then (burn_event_from_event L event) (\<lambda>maybe_old_burn.
      and_then (case maybe_old_burn of
          Some old \<Rightarrow> and_then (old_burn event old) (\<lambda>b. Inr (add_burned b burned1)) | None \<Rightarrow> Inr burned1) (\<lambda>burned2.
      and_then (mint_event_from_event L event) (\<lambda>maybe_mint.
      let minted = (case maybe_mint of
          Some m \<Rightarrow> List.insert (mint_event_token_address m) (e2_minted st) | None \<Rightarrow> e2_minted st) in
      and_then (transfer_event_from_event L event) (\<lambda>maybe_transfer.
      let objects = (case maybe_transfer of
          Some e \<Rightarrow> add_transfer events_len index e (e2_objects st) | None \<Rightarrow> e2_objects st) in
      and_then (unwrap_result (get_v1_from_parsed_event L event version timestamp (int index) entry_function_id_str)) (\<lambda>v1.
      and_then (unwrap_result (get_nft_v2_from_parsed_event L event version timestamp (int index) entry_function_id_str
          objects)) (\<lambda>v2.
      Inr \<lparr>e2_burned = burned2, e2_minted = minted, e2_objects = objects,
           e2_activities = e2_activities st @ opt_list v1 @ opt_list v2\<rparr>))))))))"

section \<open>The changes of a transaction\<close>

record token_v2_rows =
  r2_collections :: "collection_v2 list"
  r2_token_datas :: "token_data_v2 list"
  r2_token_ownerships :: "token_ownership_v2 list"
  r2_current_collections :: "current_collection_v2 list"
  r2_current_token_datas :: "current_token_data_v2 list"
  r2_current_deleted_token_datas :: "current_token_data_v2 list"
  r2_current_token_ownerships :: "current_token_ownership_v2 list"
  r2_current_deleted_token_ownerships :: "current_token_ownership_v2 list"
  r2_token_activities :: "token_activity_v2 list"
  r2_current_token_v2_metadata :: "current_token_v2_metadata list"

record token_v2_state =
  s2_rows :: token_v2_rows
  s2_prior_nft_ownership :: "(string \<times> nft_ownership_v2) list"
  s2_objects :: object_aggregated_data_mapping

definition no_token_v2_rows :: token_v2_rows where
  "no_token_v2_rows =
     \<lparr>r2_collections = [], r2_token_datas = [], r2_token_ownerships = [], r2_current_collections = [],
      r2_current_token_datas = [], r2_current_deleted_token_datas = [], r2_current_token_ownerships = [],
      r2_current_deleted_token_ownerships = [], r2_token_activities = [], r2_current_token_v2_metadata = []\<rparr>"

definition no_token_v2_state :: token_v2_state where
  "no_token_v2_state = \<lparr>s2_rows = no_token_v2_rows, s2_prior_nft_ownership = [], s2_objects = []\<rparr>"

definition push_collection :: "(collection_v2 \<times> current_collection_v2) option \<Rightarrow> token_v2_rows \<Rightarrow> token_v2_rows" where
  "push_collection m rows =
     (case m of
        None \<Rightarrow> rows
      | Some (c, current) \<Rightarrow>
          rows\<lparr>r2_collections := r2_collections rows @ [c],
               r2_current_collections := r2_current_collections rows @ [current]\<rparr>)"

definition push_token_data :: "(token_data_v2 \<times> current_token_data_v2) option \<Rightarrow> token_v2_rows \<Rightarrow> token_v2_rows" where
  "push_token_data m rows =
     (case m of
        None \<Rightarrow> rows
      | Some (t, current) \<Rightarrow>
          rows\<lparr>r2_token_datas := r2_token_datas rows @ [t],
               r2_current_token_datas := r2_current_token_datas rows @ [current]\<rparr>)"

definition push_deleted_token_data :: "current_token_data_v2 option \<Rightarrow> token_v2_rows \<Rightarrow> token_v2_rows" where
  "push_deleted_token_data m rows =
     rows\<lparr>r2_current_deleted_token_datas := r2_current_deleted_token_datas rows @ opt_list m\<rparr>"

definition current_nft_ownership :: "current_token_ownership_v2 \<Rightarrow> nft_ownership_v2" where
  "current_nft_ownership c =
     \<lparr>n2_token_data_id = co2_token_data_id c, n2_owner_address = co2_owner_address c,
      n2_is_soulbound = co2_is_soulbound_v2 c\<rparr>"

definition remember_owner :: "current_token_ownership_v2 \<Rightarrow> token_v2_state \<Rightarrow> token_v2_state" where
  "remember_owner c st =
     st\<lparr>s2_prior_nft_ownership :=
          AList.update (co2_token_data_id c) (current_nft_ownership c) (s2_prior_nft_ownership st)\<rparr>"

definition push_ownership :: "token_ownership_v2 \<Rightarrow> token_v2_state \<Rightarrow> token_v2_state" where
  "push_ownership t st =
     st\<lparr>s2_rows := (s2_rows st)\<lparr>r2_token_ownerships := r2_token_ownerships (s2_rows st) @ [t]\<rparr>\<rparr>"

definition insert_current_ownership :: "current_token_ownership_v2 \<Rightarrow> token_v2_state \<Rightarrow> token_v2_state" where
  "insert_current_ownership c st =
     st\<lparr>s2_rows := (s2_rows st)\<lparr>r2_current_token_ownerships := r2_current_token_ownerships (s2_rows st) @ [c]\<rparr>\<rparr>"

definition insert_deleted_ownership :: "current_token_ownership_v2 \<Rightarrow> token_v2_state \<Rightarrow> token_v2_state" where
  "insert_deleted_ownership c st =
     st\<lparr>s2_rows := (s2_rows st)\<lparr>r2_current_deleted_token_ownerships :=
          r2_current_deleted_token_ownerships (s2_rows st) @ [c]\<rparr>\<rparr>"

definition push_v1_ownership ::
  "(current_token_ownership_v2 \<Rightarrow> token_v2_state \<Rightarrow> token_v2_state) \<Rightarrow>
   (token_ownership_v2 \<times> current_token_ownership_v2 option) option \<Rightarrow> token_v2_state \<Rightarrow> token_v2_state" where
  "push_v1_ownership insert_current m st =
     (case m of
        None \<Rightarrow> st
      | Some (t, None) \<Rightarrow> push_ownership t st
      | Some (t, Some cto) \<Rightarrow> insert_current cto (remember_owner cto (push_ownership t st)))"

definition push_burned ::
  "(token_ownership_v2 \<times> current_token_ownership_v2) option \<Rightarrow> token_v2_state \<Rightarrow> token_v2_state" where
  "push_burned m st =
     (case m of
        None \<Rightarrow> st
      | Some (t, current) \<Rightarrow> insert_deleted_ownership current (remember_owner current (push_ownership t st)))"

text \<open>The owner of a written token is the first of its ownerships.\<close>

definition push_nft ::
  "token_data_v2 \<times> current_token_data_v2 \<Rightarrow> token_ownership_v2 list \<Rightarrow>
   (current_token_ownership_v2_pk \<times> current_token_ownership_v2) list \<Rightarrow> token_v2_state \<Rightarrow> failure + token_v2_state" where
  "push_nft tdata ownerships current_ownerships st =
     and_then (case ownerships of
         [] \<Rightarrow> Inr (s2_prior_nft_ownership st)
       | first # _ \<Rightarrow>
           and_then (expect ''called Option::unwrap on a None value'' (o2_owner_address first)) (\<lambda>owner.
           Inr (AList.update (o2_token_data_id first)
             \<lparr>n2_token_data_id = o2_token_data_id first, n2_owner_address = owner,
              n2_is_soulbound = o2_is_soulbound_v2 first\<rparr> (s2_prior_nft_ownership st)))) (\<lambda>prior.
     let rows = s2_rows st in
     Inr (st\<lparr>s2_prior_nft_ownership := prior,
             s2_rows := push_token_data (Some tdata)
               (rows\<lparr>r2_token_ownerships := r2_token_ownerships rows @ ownerships,
                     r2_current_token_ownerships := r2_current_token_ownerships rows @ map snd current_ownerships\<rparr>)\<rparr>))"

definition token_v2_write_table_item ::
  "libs \<Rightarrow> pg_reads \<Rightarrow> (nat \<Rightarrow> db) \<Rightarrow> u32 \<Rightarrow> i64 \<Rightarrow> naive_date_time \<Rightarrow> table_handle_to_owner \<Rightarrow> i64 \<Rightarrow> write_table_item \<Rightarrow>
   token_v2_state \<Rightarrow> failure + token_v2_state" where
  "token_v2_write_table_item L R seen query_retries version timestamp owners index wti st =
     and_then (unwrap_result (collection_v1_from_write_table_item L R seen query_retries wti version index timestamp owners))
       (\<lambda>collection.
     and_then (unwrap_result (token_data_v1_from_write_table_item L wti version index timestamp)) (\<lambda>tdata.
     and_then (unwrap_result (ownership_v1_from_write_table_item L wti version index timestamp owners)) (\<lambda>ownership.
     Inr (push_v1_ownership insert_current_ownership ownership
       (st\<lparr>s2_rows := push_token_data tdata (push_collection collection (s2_rows st))\<rparr>)))))"

definition token_v2_delete_table_item ::
  "libs \<Rightarrow> i64 \<Rightarrow> naive_date_time \<Rightarrow> table_handle_to_owner \<Rightarrow> i64 \<Rightarrow> delete_table_item \<Rightarrow> token_v2_state \<Rightarrow>
   failure + token_v2_state" where
  "token_v2_delete_table_item L version timestamp owners index dti st =
     and_then (unwrap_result (ownership_v1_from_delete_table_item L dti version index timestamp owners)) (\<lambda>ownership.
     Inr (push_v1_ownership insert_deleted_ownership ownership st))"

definition token_v2_write_resource ::
  "libs \<Rightarrow> pg_reads \<Rightarrow> (nat \<Rightarrow> db) \<Rightarrow> u32 \<Rightarrow> i64 \<Rightarrow> naive_date_time \<Rightarrow> token_v2_burned \<Rightarrow> i64 \<Rightarrow> write_resource \<Rightarrow>
   token_v2_state \<Rightarrow> failure + token_v2_state" where
  "token_v2_write_resource L R seen query_retries version timestamp tokens_burned index wr st =
     and_then (unwrap_result (collection_v2_from_write_resource L wr version index timestamp (s2_objects st))) (\<lambda>collection.
     and_then (unwrap_result (token_data_v2_from_write_resource L wr version index timestamp (s2_objects st))) (\<lambda>maybe_token_data.
     let st1 = st\<lparr>s2_rows := push_collection collection (s2_rows st)\<rparr> in
     and_then (case maybe_token_data of
         None \<Rightarrow> Inr st1
       | Some (tdata, current) \<Rightarrow>
           and_then (unwrap_result (get_nft_v2_from_token_data tdata (s2_objects st))) (\<lambda>(ownerships, current_ownerships).
           push_nft (tdata, current) ownerships current_ownerships st1)) (\<lambda>st2.
     and_then (unwrap_result (burned_token_data_from_write_resource wr version timestamp tokens_burned)) (\<lambda>deleted.
     let st3 = st2\<lparr>s2_rows := push_deleted_token_data deleted (s2_rows st2)\<rparr> in
     and_then (unwrap_result (burned_nft_from_write_resource L R seen query_retries wr version index timestamp
         (s2_prior_nft_ownership st3) tokens_burned)) (\<lambda>burned.
     let st4 = push_burned burned st3 in
     and_then (unwrap_result (token_v2_metadata_from_write_resource L wr version (s2_objects st))) (\<lambda>metadata.
     Inr (st4\<lparr>s2_rows := (s2_rows st4)\<lparr>r2_current_token_v2_metadata :=
       r2_current_token_v2_metadata (s2_rows st4) @ opt_list metadata\<rparr>\<rparr>)))))))"

definition token_v2_delete_resource ::
  "pg_reads \<Rightarrow> (nat \<Rightarrow> db) \<Rightarrow> u32 \<Rightarrow> i64 \<Rightarrow> naive_date_time \<Rightarrow> token_v2_burned \<Rightarrow> i64 \<Rightarrow> delete_resource \<Rightarrow>
   token_v2_state \<Rightarrow> failure + token_v2_state" where
  "token_v2_delete_resource R seen query_retries version timestamp tokens_burned index dr st =
     and_then (unwrap_result (burned_token_data_from_delete_resource dr version timestamp tokens_burned)) (\<lambda>deleted.
     let st1 = st\<lparr>s2_rows := push_deleted_token_data deleted (s2_rows st)\<rparr> in
     and_then (unwrap_result (burned_nft_from_delete_resource R seen query_retries dr version index timestamp
         (s2_prior_nft_ownership st1) tokens_burned)) (\<lambda>burned.
     Inr (push_burned burned st1)))"

definition token_v2_change ::
  "libs \<Rightarrow> pg_reads \<Rightarrow> (nat \<Rightarrow> nat \<Rightarrow> db) \<Rightarrow> u32 \<Rightarrow> i64 \<Rightarrow> naive_date_time \<Rightarrow> table_handle_to_owner \<Rightarrow> token_v2_burned \<Rightarrow>
   nat \<times> write_set_change_pb \<Rightarrow> token_v2_state \<Rightarrow> failure + token_v2_state" where
  "token_v2_change L R seen query_retries version timestamp owners tokens_burned iw st =
     (case iw of (index, wsc) \<Rightarrow>
      and_then (expect ''called Option::unwrap on a None value'' (wsc_change wsc)) (\<lambda>change.
      case change of
        WriteTableItem wti \<Rightarrow>
          token_v2_write_table_item L R (seen index) query_retries version timestamp owners (int index) wti st
      | DeleteTableItem dti \<Rightarrow> token_v2_delete_table_item L version timestamp owners (int index) dti st
      | WriteResource wr \<Rightarrow>
          token_v2_write_resource L R (seen index) query_retries version timestamp tokens_burned (int index) wr st
      | DeleteResource dr \<Rightarrow>
          token_v2_delete_resource R (seen index) query_retries version timestamp tokens_burned (int index) dr st
      | _ \<Rightarrow> Inr st))"

section \<open>A batch\<close>

definition token_v2_user_txn ::
  "libs \<Rightarrow> pg_reads \<Rightarrow> (nat \<Rightarrow> nat \<Rightarrow> db) \<Rightarrow> u32 \<Rightarrow> table_handle_to_owner \<Rightarrow> i64 \<Rightarrow> naive_date_time \<Rightarrow> transaction_info \<Rightarrow>
   user_transaction \<Rightarrow> token_v2_state \<Rightarrow> failure + token_v2_state" where
  "token_v2_user_txn L R seen query_retries owners version timestamp info user_txn st =
     and_then (expect ''Sends is not present in user txn'' (ut_request user_txn)) (\<lambda>request.
     and_then (get_entry_function_from_user_request request) (\<lambda>entry_function_id_str.
     and_then (fold_result (add_object_core L version) (ti_changes info) (s2_objects st)) (\<lambda>objects1.
     and_then (fold_result (token_v2_fill_object L version) (ti_changes info) objects1) (\<lambda>objects2.
     and_then (fold_result (token_v2_event L version timestamp entry_function_id_str (length (ut_events user_txn)))
         (enumerate 0 (ut_events user_txn))
         \<lparr>e2_burned = [], e2_minted = [], e2_objects = objects2,
          e2_activities = r2_token_activities (s2_rows st)\<rparr>) (\<lambda>events.
     fold_result (token_v2_change L R seen query_retries version timestamp owners (e2_burned events))
       (enumerate 0 (ti_changes info))
       (st\<lparr>s2_objects := e2_objects events,
           s2_rows := (s2_rows st)\<lparr>r2_token_activities := e2_activities events\<rparr>\<rparr>))))))"

definition token_v2_add_txn ::
  "libs \<Rightarrow> pg_reads \<Rightarrow> (i64 \<Rightarrow> nat \<Rightarrow> nat \<Rightarrow> db) \<Rightarrow> u32 \<Rightarrow> table_handle_to_owner \<Rightarrow> transaction \<Rightarrow> token_v2_state \<Rightarrow>
   failure + token_v2_state" where
  "token_v2_add_txn L R seen query_retries owners txn st =
     (case txn_txn_data txn of
        None \<Rightarrow> Inr st
      | Some data \<Rightarrow>
          let version = as_i64 (txn_version txn) in
          and_then (expect ''called Option::unwrap on a None value'' (txn_timestamp txn)) (\<lambda>ts.
          and_then (parse_timestamp L ts) (\<lambda>timestamp.
          and_then (expect ''Transaction info doesn't exist!'' (txn_info txn)) (\<lambda>info.
          case data of
            User user_txn \<Rightarrow> token_v2_user_txn L R (seen version) query_retries owners version timestamp info user_txn st
          | _ \<Rightarrow> Inr st))))"

definition m2_pk :: "current_token_v2_metadata \<Rightarrow> string \<times> string" where
  "m2_pk m = (m2_object_address m, m2_resource_type m)"

definition token_v2_collect :: "token_v2_rows \<Rightarrow> token_v2_rows" where
  "token_v2_collect rows =
     rows\<lparr>
       r2_current_collections := sort_key cc2_collection_id
         (map snd (collect_by cc2_collection_id (r2_current_collections rows) [])),
       r2_current_token_datas := sort_key cd2_token_data_id
         (map snd (collect_by cd2_token_data_id (r2_current_token_datas rows) [])),
       r2_current_deleted_token_datas := sort_key cd2_token_data_id
         (map snd (collect_by cd2_token_data_id (r2_current_deleted_token_datas rows) [])),
       r2_current_token_ownerships := sort_key co2_pk (map snd (collect_by co2_pk (r2_current_token_ownerships rows) [])),
       r2_current_deleted_token_ownerships := sort_key co2_pk
         (map snd (collect_by co2_pk (r2_current_deleted_token_ownerships rows) [])),
       r2_current_token_v2_metadata := sort_key m2_pk
         (map snd (collect_by m2_pk (r2_current_token_v2_metadata rows) []))\<rparr>"

definition parse_v2_token ::
  "libs \<Rightarrow> pg_reads \<Rightarrow> (i64 \<Rightarrow> nat \<Rightarrow> nat \<Rightarrow> db) \<Rightarrow> u32 \<Rightarrow> table_handle_to_owner \<Rightarrow> transaction list \<Rightarrow>
   failure + token_v2_rows" where
  "parse_v2_token L R seen query_retries owners transactions =
     and_then (fold_result (token_v2_add_txn L R seen query_retries owners) transactions no_token_v2_state) (\<lambda>st.
     Inr (token_v2_collect (s2_rows st)))"

definition token_v2_rows_of ::
  "libs \<Rightarrow> pg_reads \<Rightarrow> (i64 \<Rightarrow> nat \<Rightarrow> nat \<Rightarrow> db) \<Rightarrow> query_retry_config \<Rightarrow> transaction list \<Rightarrow> failure + token_v2_rows" where
  "token_v2_rows_of L R seen cfg transactions =
     and_then (get_table_handle_to_owner_from_transactions L transactions) (\<lambda>owners.
     parse_v2_token L R seen (qrc_query_retries cfg) owners transactions)"

record token_v2_serdes =
  sd_collection_v2 :: "collection_v2 serde"
  sd_token_data_v2 :: "token_data_v2 serde"
  sd_token_ownership_v2 :: "token_ownership_v2 serde"
  sd_current_collection_v2 :: "current_collection_v2 serde"
  sd_current_token_data_v2 :: "current_token_data_v2 serde"
  sd_current_token_ownership_v2 :: "current_token_ownership_v2 serde"
  sd_token_activity_v2 :: "token_activity_v2 serde"
  sd_current_token_v2_metadata :: "current_token_v2_metadata serde"

definition token_v2_insert_to_db :: "token_v2_serdes \<Rightarrow> (string \<times> nat) list \<Rightarrow> pg_env \<Rightarrow> token_v2_rows \<Rightarrow> db_op" where
  "token_v2_insert_to_db sds per_table_chunk_sizes env rows =
     (let size = (\<lambda>fields name. get_config_table_chunk_size fields name per_table_chunk_sizes) in
      join_inserts
        [execute_in_chunks env insert_collections_v2_query (sd_collection_v2 sds) (r2_collections rows)
           (size 15 ''collections_v2''),
         execute_in_chunks env insert_token_datas_v2_query (sd_token_data_v2 sds) (r2_token_datas rows)
           (size 15 ''token_datas_v2''),
         execute_in_chunks env insert_token_ownerships_v2_query (sd_token_ownership_v2 sds) (r2_token_ownerships rows)
           (size 14 ''token_ownerships_v2''),
         execute_in_chunks env insert_current_collections_v2_query (sd_current_collection_v2 sds)
           (r2_current_collections rows) (size 14 ''current_collections_v2''),
         execute_in_chunks env insert_current_token_datas_v2_query (sd_current_token_data_v2 sds)
           (r2_current_token_datas rows) (size 15 ''current_token_datas_v2''),
         execute_in_chunks env insert_current_deleted_token_datas_v2_query (sd_current_token_data_v2 sds)
           (r2_current_deleted_token_datas rows) (size 15 ''current_token_datas_v2''),
         execute_in_chunks env insert_current_token_ownerships_v2_query (sd_current_token_ownership_v2 sds)
           (r2_current_token_ownerships rows) (size 13 ''current_token_ownerships_v2''),
         execute_in_chunks env insert_current_deleted_token_ownerships_v2_query (sd_current_token_ownership_v2 sds)
           (r2_current_deleted_token_ownerships rows) (size 13 ''current_token_ownerships_v2''),
         execute_in_chunks env insert_token_activities_v2_query (sd_token_activity_v2 sds) (r2_token_activities rows)
           (size 15 ''token_activities_v2''),
         execute_in_chunks env insert_current_token_v2_metadatas_query (sd_current_token_v2_metadata sds)
           (r2_current_token_v2_metadata rows) (size 5 ''current_token_v2_metadata'')])"

definition token_v2_process_transactions ::
  "libs \<Rightarrow> pg_reads \<Rightarrow> (i64 \<Rightarrow> nat \<Rightarrow> nat \<Rightarrow> db) \<Rightarrow> query_retry_config \<Rightarrow> token_v2_serdes \<Rightarrow> rat \<times> rat \<Rightarrow>
   (string \<times> nat) list \<Rightarrow> process_fn" where
  "token_v2_process_transactions L R seen cfg sds durations per_table_chunk_sizes =
     process_batch (token_v2_rows_of L R seen cfg) (token_v2_insert_to_db sds per_table_chunk_sizes) durations"

lemmas token_v2_query_defs = insert_collections_v2_query_def insert_token_datas_v2_query_def
  insert_token_ownerships_v2_query_def insert_current_collections_v2_query_def insert_current_token_datas_v2_query_def
  insert_current_deleted_token_datas_v2_query_def insert_current_token_ownerships_v2_query_def
  insert_current_deleted_token_ownerships_v2_query_def insert_token_activities_v2_query_def
  insert_current_token_v2_metadatas_query_def

interpretation token_v2_processor: batch_processor "token_v2_rows_of L R seen cfg" "token_v2_insert_to_db sds sizes" durations
  for L R seen cfg sds sizes durations
proof
  fix env :: pg_env and rows
  assume "postgres (pg_exec env)"
  then show "untouched ''processor_status'' (token_v2_insert_to_db sds sizes env rows)"
    unfolding token_v2_insert_to_db_def Let_def
    by (intro join_inserts_untouched) (auto intro!: execute_in_chunks_untouched simp: token_v2_query_defs)
qed

section \<open>The keys of the rows\<close>

definition a2_pk :: "token_activity_v2 \<Rightarrow> i64 \<times> i64" where
  "a2_pk a = (a2_transaction_version a, a2_event_index a)"

definition d2_pk :: "token_data_v2 \<Rightarrow> i64 \<times> i64" where
  "d2_pk t = (d2_transaction_version t, d2_write_set_change_index t)"

definition c2_pk :: "collection_v2 \<Rightarrow> i64 \<times> i64" where
  "c2_pk c = (c2_transaction_version c, c2_write_set_change_index c)"

text \<open>No event is one of both versions.\<close>

lemma token_from_event_contract: "token_from_event L ty data = Inr (Some e) \<Longrightarrow> take 3 ty = ''0x3''"
  by (auto simp: token_from_event_def split: if_splits)

lemma v2_token_from_event_contract: "v2_token_from_event L ty data = Inr (Some e) \<Longrightarrow> take 3 ty \<noteq> ''0x3''"
  by (auto simp: v2_token_from_event_def Let_def split: if_splits)

lemma v1_activity_key:
  "get_v1_from_parsed_event L e v ts i fn = Inr (Some a) \<Longrightarrow> a2_pk a = (v, i) \<and> take 3 (ev_type_str e) = ''0x3''"
  by (auto simp: get_v1_from_parsed_event_def a2_pk_def Let_def dest: token_from_event_contract split: option.splits)

lemma nft_activity_key:
  "get_nft_v2_from_parsed_event L e v ts i fn objects = Inr (Some a) \<Longrightarrow>
   a2_pk a = (v, i) \<and> take 3 (ev_type_str e) \<noteq> ''0x3''"
  by (auto simp: get_nft_v2_from_parsed_event_def a2_pk_def Let_def dest: v2_token_from_event_contract split: option.splits)

lemma event_activities:
  assumes "token_v2_event L v ts fn len (i, e) st = Inr st'"
  shows "appends_one e2_activities a2_pk (v, int i) st st'"
proof -
  obtain objects v1 v2 where v1: "get_v1_from_parsed_event L e v ts (int i) fn = Inr v1"
    and v2: "get_nft_v2_from_parsed_event L e v ts (int i) fn objects = Inr v2"
    and st': "e2_activities st' = e2_activities st @ opt_list v1 @ opt_list v2"
    using assms by (auto simp: token_v2_event_def Let_def)
  show ?thesis
    using v1 v2 st' by (cases v1; cases v2) (auto simp: appends_one_def dest!: v1_activity_key nft_activity_key)
qed

lemma collection_v2_key:
  assumes "collection_v2_from_write_resource L wr v i ts objects = Inr (Some (c, cur))"
  shows "c2_pk c = (v, i)"
proof -
  note d = collection_v2_from_write_resource_def Let_def c2_pk_def
  obtain m where m: "v2_token_resource_of L wr v = Inr m" using assms by (auto simp: d)
  then obtain res where res: "m = Some res" using assms by (cases m) (auto simp: d)
  obtain inner where r: "v2_token_resource_of L wr v = Inr (Some (ResCollection inner))"
    using assms m res by (cases res) (auto simp: collection_v2_from_write_resource_def)
  then obtain data where "map_of objects (standardize_address (wr_address wr)) = Some data"
    using assms by (cases "map_of objects (standardize_address (wr_address wr))") (auto simp: d)
  with r assms show ?thesis by (cases "collection_supply data") (auto simp: d)
qed

lemma collection_v1_key:
  assumes "collection_v1_from_write_table_item L R seen n wti v i ts owners = Inr (Some (c, cur))"
  shows "c2_pk c = (v, i)"
proof -
  note d = collection_v1_from_write_table_item_def Let_def c2_pk_def
  obtain data m where data: "wti_data wti = Some data" "item_collection_data L (wtd_value_type data) (wtd_value data) = Inr m"
    using assms by (auto simp: d)
  then obtain cdata where m: "m = Some cdata" using assms by (cases m) (auto simp: d)
  with data assms obtain ca where "collection_v1_creator R seen n (wti_handle wti) owners = Some ca"
    by (cases "collection_v1_creator R seen n (wti_handle wti) owners") (auto simp: d)
  with data m assms show ?thesis by (auto simp: d)
qed

lemma token_data_v2_key:
  assumes "token_data_v2_from_write_resource L wr v i ts objects = Inr (Some (t, cur))"
  shows "d2_pk t = (v, i)"
proof -
  note d = token_data_v2_from_write_resource_def Let_def d2_pk_def
  obtain m where m: "token_v2_from_write_resource L wr v = Inr m" using assms by (auto simp: d)
  then obtain inner where inner: "m = Some inner" using assms by (cases m) (auto simp: d)
  with m assms obtain data where "map_of objects (standardize_address (wr_address wr)) = Some data"
    by (cases "map_of objects (standardize_address (wr_address wr))") (auto simp: d)
  with m inner assms show ?thesis by (auto simp: d)
qed

lemma token_data_v1_key:
  assumes "token_data_v1_from_write_table_item L wti v i ts = Inr (Some (t, cur))"
  shows "d2_pk t = (v, i)"
proof -
  note d = token_data_v1_from_write_table_item_def Let_def d2_pk_def
  obtain data m where data: "wti_data wti = Some data" "item_token_data L (wtd_value_type data) (wtd_value data) = Inr m"
    using assms by (auto simp: d)
  then obtain tdata where m: "m = Some tdata" using assms by (cases m) (auto simp: d)
  with data assms obtain m' where m': "item_token_data_id L (wtd_key_type data) (wtd_key data) = Inr m'" by (auto simp: d)
  with data m assms show ?thesis by (cases m') (auto simp: d)
qed

lemma push_sel:
  "r2_collections (push_collection m rows) = r2_collections rows @ map fst (opt_list m)"
  "r2_token_datas (push_collection m rows) = r2_token_datas rows"
  "r2_token_activities (push_collection m rows) = r2_token_activities rows"
  "r2_collections (push_token_data m' rows) = r2_collections rows"
  "r2_token_datas (push_token_data m' rows) = r2_token_datas rows @ map fst (opt_list m')"
  "r2_token_activities (push_token_data m' rows) = r2_token_activities rows"
  by (auto simp: push_collection_def push_token_data_def split: option.split)

lemma state_push_sel:
  "r2_collections (s2_rows (push_ownership t st)) = r2_collections (s2_rows st)"
  "r2_token_datas (s2_rows (push_ownership t st)) = r2_token_datas (s2_rows st)"
  "r2_token_activities (s2_rows (push_ownership t st)) = r2_token_activities (s2_rows st)"
  "s2_rows (remember_owner c st) = s2_rows st"
  "r2_collections (s2_rows (insert_current_ownership c st)) = r2_collections (s2_rows st)"
  "r2_token_datas (s2_rows (insert_current_ownership c st)) = r2_token_datas (s2_rows st)"
  "r2_token_activities (s2_rows (insert_current_ownership c st)) = r2_token_activities (s2_rows st)"
  "r2_collections (s2_rows (insert_deleted_ownership c st)) = r2_collections (s2_rows st)"
  "r2_token_datas (s2_rows (insert_deleted_ownership c st)) = r2_token_datas (s2_rows st)"
  "r2_token_activities (s2_rows (insert_deleted_ownership c st)) = r2_token_activities (s2_rows st)"
  by (simp_all add: push_ownership_def remember_owner_def insert_current_ownership_def insert_deleted_ownership_def)

lemma state_pushes_sel:
  "r2_collections (s2_rows (push_burned b st)) = r2_collections (s2_rows st)"
  "r2_token_datas (s2_rows (push_burned b st)) = r2_token_datas (s2_rows st)"
  "r2_token_activities (s2_rows (push_burned b st)) = r2_token_activities (s2_rows st)"
  "ins = insert_current_ownership \<or> ins = insert_deleted_ownership \<Longrightarrow>
   r2_collections (s2_rows (push_v1_ownership ins m st)) = r2_collections (s2_rows st)"
  "ins = insert_current_ownership \<or> ins = insert_deleted_ownership \<Longrightarrow>
   r2_token_datas (s2_rows (push_v1_ownership ins m st)) = r2_token_datas (s2_rows st)"
  "ins = insert_current_ownership \<or> ins = insert_deleted_ownership \<Longrightarrow>
   r2_token_activities (s2_rows (push_v1_ownership ins m st)) = r2_token_activities (s2_rows st)"
  by (auto simp: push_burned_def push_v1_ownership_def state_push_sel split: option.split)

text \<open>What a change adds to the rows that are keyed by its position.\<close>

definition change_adds :: "i64 \<Rightarrow> nat \<Rightarrow> token_v2_state \<Rightarrow> token_v2_state \<Rightarrow> bool" where
  "change_adds v i st st' \<longleftrightarrow>
     appends_one (\<lambda>s. r2_collections (s2_rows s)) c2_pk (v, int i) st st' \<and>
     appends_one (\<lambda>s. r2_token_datas (s2_rows s)) d2_pk (v, int i) st st' \<and>
     r2_token_activities (s2_rows st') = r2_token_activities (s2_rows st)"

lemma change_adds_same:
  "r2_collections (s2_rows st') = r2_collections (s2_rows st) \<Longrightarrow> r2_token_datas (s2_rows st') = r2_token_datas (s2_rows st) \<Longrightarrow>
   r2_token_activities (s2_rows st') = r2_token_activities (s2_rows st) \<Longrightarrow> change_adds v i st st'"
  by (simp add: change_adds_def appends_one_same)

lemma write_table_item_adds:
  assumes "token_v2_write_table_item L R seen n v ts owners (int i) wti st = Inr st'"
  shows "change_adds v i st st'"
proof -
  obtain c t o' where c: "collection_v1_from_write_table_item L R seen n wti v (int i) ts owners = Inr c"
    and t: "token_data_v1_from_write_table_item L wti v (int i) ts = Inr t"
    and st': "st' = push_v1_ownership insert_current_ownership o'
      (st\<lparr>s2_rows := push_token_data t (push_collection c (s2_rows st))\<rparr>)"
    using assms by (auto simp: token_v2_write_table_item_def)
  show ?thesis
    using c t by (cases c; cases t) (auto simp: change_adds_def appends_one_def st' state_pushes_sel push_sel
        dest!: collection_v1_key token_data_v1_key)
qed

lemma write_resource_adds:
  assumes "token_v2_write_resource L R seen n v ts burned (int i) wr st = Inr st'"
  shows "change_adds v i st st'"
proof -
  obtain c t st2 where c: "collection_v2_from_write_resource L wr v (int i) ts (s2_objects st) = Inr c"
    and t: "token_data_v2_from_write_resource L wr v (int i) ts (s2_objects st) = Inr t"
    and st2: "(case t of None \<Rightarrow> Inr (st\<lparr>s2_rows := push_collection c (s2_rows st)\<rparr>)
       | Some (tdata, current) \<Rightarrow>
           and_then (unwrap_result (get_nft_v2_from_token_data tdata (s2_objects st))) (\<lambda>(ownerships, current_ownerships).
           push_nft (tdata, current) ownerships current_ownerships (st\<lparr>s2_rows := push_collection c (s2_rows st)\<rparr>))) = Inr st2"
    and st': "r2_collections (s2_rows st') = r2_collections (s2_rows st2)" "r2_token_datas (s2_rows st') = r2_token_datas (s2_rows st2)"
      "r2_token_activities (s2_rows st') = r2_token_activities (s2_rows st2)"
    using assms by (auto simp: token_v2_write_resource_def Let_def state_pushes_sel push_deleted_token_data_def)
  have "r2_collections (s2_rows st2) = r2_collections (s2_rows st) @ map fst (opt_list c) \<and>
    r2_token_datas (s2_rows st2) = r2_token_datas (s2_rows st) @ map fst (opt_list t) \<and>
    r2_token_activities (s2_rows st2) = r2_token_activities (s2_rows st)"
    using st2 by (cases t) (auto simp: push_sel push_nft_def Let_def)
  then show ?thesis
    using c t by (cases c; cases t) (auto simp: change_adds_def appends_one_def st'
        dest!: collection_v2_key token_data_v2_key)
qed

lemma change_adds:
  assumes "token_v2_change L R seen n v ts owners burned (i, w) st = Inr st'"
  shows "change_adds v i st st'"
proof -
  note d = token_v2_change_def
  obtain ch where ch: "wsc_change w = Some ch" using assms by (auto simp: d)
  show ?thesis
  proof (cases ch)
    case (WriteTableItem wti)
    then show ?thesis using assms ch write_table_item_adds by (simp add: d)
  next
    case (WriteResource wr)
    then show ?thesis using assms ch write_resource_adds by (simp add: d)
  qed (use assms ch in \<open>auto intro!: change_adds_same simp: d token_v2_delete_table_item_def token_v2_delete_resource_def Let_def
      state_pushes_sel push_deleted_token_data_def\<close>)
qed

text \<open>What a transaction appends to a list of rows: rows of its version, each with a key of its own.\<close>

definition appends_version :: "('s \<Rightarrow> 'r list) \<Rightarrow> ('r \<Rightarrow> i64 \<times> i64) \<Rightarrow> i64 \<Rightarrow> 's \<Rightarrow> 's \<Rightarrow> bool" where
  "appends_version h key v s s' \<longleftrightarrow>
     (\<exists>rows. h s' = h s @ rows \<and> distinct (map key rows) \<and> (\<forall>r \<in> set rows. fst (key r) = v))"

lemma appends_version_same: "h s' = h s \<Longrightarrow> appends_version h key v s s'"
  by (simp add: appends_version_def)

lemma fold_appends_version:
  assumes "fold_result f (enumerate n xs) s = Inr s'"
    and "\<And>i x s s'. f (i, x) s = Inr s' \<Longrightarrow> appends_one h key (v, int i) s s'"
  shows "appends_version h key v s s'"
proof -
  have "inj (\<lambda>i. (v, int i))" by (simp add: inj_def)
  from fold_appends_one [OF assms(1), of h key "\<lambda>i. (v, int i)", OF assms(2) this]
  show ?thesis by (fastforce simp: appends_version_def)
qed

lemma user_txn_adds:
  assumes "token_v2_user_txn L R seen n owners v ts info u st = Inr st'"
  shows "appends_version (\<lambda>s. r2_collections (s2_rows s)) c2_pk v st st'"
    and "appends_version (\<lambda>s. r2_token_datas (s2_rows s)) d2_pk v st st'"
    and "appends_version (\<lambda>s. r2_token_activities (s2_rows s)) a2_pk v st st'"
proof -
  obtain fn objects events where
      ev: "fold_result (token_v2_event L v ts fn (length (ut_events u))) (enumerate 0 (ut_events u))
        \<lparr>e2_burned = [], e2_minted = [], e2_objects = objects, e2_activities = r2_token_activities (s2_rows st)\<rparr> = Inr events"
    and ch: "fold_result (token_v2_change L R seen n v ts owners (e2_burned events)) (enumerate 0 (ti_changes info))
        (st\<lparr>s2_objects := e2_objects events, s2_rows := (s2_rows st)\<lparr>r2_token_activities := e2_activities events\<rparr>\<rparr>) = Inr st'"
    using assms by (auto simp: token_v2_user_txn_def)
  note changes = fold_appends_version [OF ch]
  have "appends_version (\<lambda>s. r2_collections (s2_rows s)) c2_pk v
      (st\<lparr>s2_objects := e2_objects events, s2_rows := (s2_rows st)\<lparr>r2_token_activities := e2_activities events\<rparr>\<rparr>) st'"
    by (rule changes) (use change_adds in \<open>auto simp: change_adds_def\<close>)
  then show "appends_version (\<lambda>s. r2_collections (s2_rows s)) c2_pk v st st'" by (simp add: appends_version_def)
  have "appends_version (\<lambda>s. r2_token_datas (s2_rows s)) d2_pk v
      (st\<lparr>s2_objects := e2_objects events, s2_rows := (s2_rows st)\<lparr>r2_token_activities := e2_activities events\<rparr>\<rparr>) st'"
    by (rule changes) (use change_adds in \<open>auto simp: change_adds_def\<close>)
  then show "appends_version (\<lambda>s. r2_token_datas (s2_rows s)) d2_pk v st st'" by (simp add: appends_version_def)
  have "r2_token_activities (s2_rows st') = e2_activities events"
    by (rule fold_result_invariant [OF ch, where P = "\<lambda>s. r2_token_activities (s2_rows s) = e2_activities events"])
      (simp, metis change_adds change_adds_def surj_pair)
  moreover from ev have "appends_version e2_activities a2_pk v
      \<lparr>e2_burned = [], e2_minted = [], e2_objects = objects, e2_activities = r2_token_activities (s2_rows st)\<rparr> events"
    by (rule fold_appends_version) (rule event_activities)
  ultimately show "appends_version (\<lambda>s. r2_token_activities (s2_rows s)) a2_pk v st st'"
    by (simp add: appends_version_def)
qed

lemma add_txn_adds:
  assumes "token_v2_add_txn L R seen n owners t st = Inr st'"
  shows "appends_version (\<lambda>s. r2_collections (s2_rows s)) c2_pk (ver t) st st'"
    and "appends_version (\<lambda>s. r2_token_datas (s2_rows s)) d2_pk (ver t) st st'"
    and "appends_version (\<lambda>s. r2_token_activities (s2_rows s)) a2_pk (ver t) st st'"
proof -
  have "st' = st \<or> (\<exists>ts info u. token_v2_user_txn L R (seen (ver t)) n owners (ver t) ts info u st = Inr st')"
  proof (cases "txn_txn_data t")
    case (Some data)
    then show ?thesis using assms by (cases data) (auto simp: token_v2_add_txn_def ver_def Let_def)
  qed (use assms in \<open>simp add: token_v2_add_txn_def\<close>)
  then show "appends_version (\<lambda>s. r2_collections (s2_rows s)) c2_pk (ver t) st st'"
    "appends_version (\<lambda>s. r2_token_datas (s2_rows s)) d2_pk (ver t) st st'"
    "appends_version (\<lambda>s. r2_token_activities (s2_rows s)) a2_pk (ver t) st st'"
    using user_txn_adds appends_version_same by metis+
qed

text \<open>
  C20: in a batch of transactions with increasing versions every collection, every token and every activity has
  a key of its own, though tokens of both versions share the tables and the object data is carried from one
  transaction to the next. The statements for tokens and activities update on conflict, and the server
  rejects such a statement when two of its rows have one key. The current rows have one row per key.
\<close>

theorem token_v2_rows_have_own_keys:
  assumes "parse_v2_token L R seen n owners ts = Inr rows" and "version_ordered ts"
  shows "distinct (map c2_pk (r2_collections rows)) \<and> distinct (map d2_pk (r2_token_datas rows)) \<and>
    distinct (map a2_pk (r2_token_activities rows)) \<and> distinct (map cc2_collection_id (r2_current_collections rows)) \<and>
    distinct (map cd2_token_data_id (r2_current_token_datas rows)) \<and>
    distinct (map co2_pk (r2_current_token_ownerships rows)) \<and> distinct (map m2_pk (r2_current_token_v2_metadata rows))"
proof -
  obtain st where run: "fold_result (token_v2_add_txn L R seen n owners) ts no_token_v2_state = Inr st"
    and rows: "rows = token_v2_collect (s2_rows st)"
    using assms(1) by (auto simp: parse_v2_token_def)
  note distinct = fold_versioned_distinct [OF run assms(2), where version_of = fst]
  have "distinct (map c2_pk (r2_collections (s2_rows st)))"
    by (rule distinct) (use add_txn_adds(1) in \<open>auto simp: appends_version_def no_token_v2_state_def no_token_v2_rows_def\<close>)
  moreover have "distinct (map d2_pk (r2_token_datas (s2_rows st)))"
    by (rule distinct) (use add_txn_adds(2) in \<open>auto simp: appends_version_def no_token_v2_state_def no_token_v2_rows_def\<close>)
  moreover have "distinct (map a2_pk (r2_token_activities (s2_rows st)))"
    by (rule distinct) (use add_txn_adds(3) in \<open>auto simp: appends_version_def no_token_v2_state_def no_token_v2_rows_def\<close>)
  ultimately show ?thesis by (simp add: rows token_v2_collect_def collect_by_sorted(1))
qed

section \<open>Burned tokens\<close>

definition marked_deleted :: "token_v2_state \<Rightarrow> bool" where
  "marked_deleted st \<longleftrightarrow> (\<forall>c \<in> set (r2_current_deleted_token_datas (s2_rows st)). cd2_is_deleted_v2 c = Some True)"

lemma burned_data_marked: "burned_data_at a v ts burned = Some c \<Longrightarrow> cd2_is_deleted_v2 c = Some True"
  by (auto simp: burned_data_at_def burned_token_data_def Let_def)

lemma deleted_sel:
  "r2_current_deleted_token_datas (push_collection m rows) = r2_current_deleted_token_datas rows"
  "r2_current_deleted_token_datas (push_token_data m' rows) = r2_current_deleted_token_datas rows"
  "marked_deleted (push_ownership t st) \<longleftrightarrow> marked_deleted st" "marked_deleted (remember_owner c st) \<longleftrightarrow> marked_deleted st"
  "marked_deleted (insert_current_ownership c st) \<longleftrightarrow> marked_deleted st"
  "marked_deleted (insert_deleted_ownership c st) \<longleftrightarrow> marked_deleted st"
  "marked_deleted (st\<lparr>s2_rows := (s2_rows st)\<lparr>r2_current_token_v2_metadata := ms\<rparr>\<rparr>) \<longleftrightarrow> marked_deleted st"
  by (auto simp: push_collection_def push_token_data_def marked_deleted_def push_ownership_def remember_owner_def
      insert_current_ownership_def insert_deleted_ownership_def split: option.split)

lemma deleted_pushes:
  "marked_deleted (push_burned b st) \<longleftrightarrow> marked_deleted st"
  "ins = insert_current_ownership \<or> ins = insert_deleted_ownership \<Longrightarrow>
   marked_deleted (push_v1_ownership ins m st) \<longleftrightarrow> marked_deleted st"
  "marked_deleted (st\<lparr>s2_rows := push_deleted_token_data (burned_data_at a v ts burned) (s2_rows st)\<rparr>) \<longleftrightarrow> marked_deleted st"
proof -
  show "marked_deleted (push_burned b st) \<longleftrightarrow> marked_deleted st"
    by (auto simp: push_burned_def deleted_sel split: option.split)
  show "ins = insert_current_ownership \<or> ins = insert_deleted_ownership \<Longrightarrow>
     marked_deleted (push_v1_ownership ins m st) \<longleftrightarrow> marked_deleted st"
    by (auto simp: push_v1_ownership_def deleted_sel split: option.split)
  show "marked_deleted (st\<lparr>s2_rows := push_deleted_token_data (burned_data_at a v ts burned) (s2_rows st)\<rparr>) \<longleftrightarrow> marked_deleted st"
    using burned_data_marked [of a v ts burned]
    by (cases "burned_data_at a v ts burned") (auto simp: marked_deleted_def push_deleted_token_data_def)
qed

lemma change_marked:
  assumes "marked_deleted st" and "token_v2_change L R seen n v ts owners burned iw st = Inr st'"
  shows "marked_deleted st'"
proof -
  obtain i w ch where iw: "iw = (i, w)" and ch: "wsc_change w = Some ch"
    using assms(2) by (cases iw) (auto simp: token_v2_change_def)
  note d = iw ch token_v2_change_def Let_def deleted_pushes
  show ?thesis
  proof (cases ch)
    case (WriteTableItem wti)
    with assms show ?thesis
      by (auto simp: d token_v2_write_table_item_def) (simp add: marked_deleted_def deleted_sel)
  next
    case (WriteResource wr)
    with assms(2) obtain c t st2 metadata where
        st2: "(case t of None \<Rightarrow> Inr (st\<lparr>s2_rows := push_collection c (s2_rows st)\<rparr>)
         | Some (tdata, current) \<Rightarrow>
             and_then (unwrap_result (get_nft_v2_from_token_data tdata (s2_objects st))) (\<lambda>(ownerships, current_ownerships).
             push_nft (tdata, current) ownerships current_ownerships (st\<lparr>s2_rows := push_collection c (s2_rows st)\<rparr>))) = Inr st2"
      and st': "marked_deleted st' \<longleftrightarrow> marked_deleted st2"
      by (auto simp: d deleted_sel token_v2_write_resource_def burned_token_data_from_write_resource_def)
    have "r2_current_deleted_token_datas (s2_rows st2) = r2_current_deleted_token_datas (s2_rows st)"
      using st2 by (cases t) (auto simp: deleted_sel push_nft_def Let_def)
    with assms(1) st' show ?thesis by (simp add: marked_deleted_def)
  qed (use assms in \<open>auto simp: d token_v2_delete_table_item_def token_v2_delete_resource_def
      burned_token_data_from_delete_resource_def\<close>)
qed

lemma add_txn_marked:
  assumes "marked_deleted st" and "token_v2_add_txn L R seen n owners t st = Inr st'"
  shows "marked_deleted st'"
proof (cases "\<exists>u. txn_txn_data t = Some (User u)")
  case True
  then obtain u ts info where run: "token_v2_user_txn L R (seen (ver t)) n owners (ver t) ts info u st = Inr st'"
    using assms(2) by (auto simp: token_v2_add_txn_def ver_def Let_def)
  obtain burned objects as where
    "fold_result (token_v2_change L R (seen (ver t)) n (ver t) ts owners burned) (enumerate 0 (ti_changes info))
      (st\<lparr>s2_objects := objects, s2_rows := (s2_rows st)\<lparr>r2_token_activities := as\<rparr>\<rparr>) = Inr st'"
    using run by (auto simp: token_v2_user_txn_def)
  then show ?thesis
    by (rule fold_result_invariant [where P = marked_deleted])
      (use assms(1) change_marked in \<open>auto simp: marked_deleted_def\<close>)
next
  case False
  have "st' = st"
  proof (cases "txn_txn_data t")
    case (Some data)
    with assms(2) False show ?thesis by (cases data) (auto simp: token_v2_add_txn_def Let_def)
  qed (use assms(2) in \<open>simp add: token_v2_add_txn_def\<close>)
  with assms(1) show ?thesis by simp
qed

lemma deleted_rows_marked:
  assumes "token_v2_rows_of L R seen cfg ts = Inr rows"
  shows "set (r2_current_deleted_token_datas rows) \<subseteq> {c. cd2_is_deleted_v2 c = Some True}"
proof -
  obtain owners st where run: "fold_result (token_v2_add_txn L R seen (qrc_query_retries cfg) owners) ts no_token_v2_state = Inr st"
    and rows: "rows = token_v2_collect (s2_rows st)"
    using assms by (auto simp: token_v2_rows_of_def parse_v2_token_def)
  have "marked_deleted st"
    by (rule fold_result_invariant [OF run])
      (use add_txn_marked in \<open>auto simp: marked_deleted_def no_token_v2_state_def no_token_v2_rows_def\<close>)
  then show ?thesis
    by (auto simp: rows token_v2_collect_def marked_deleted_def collect_by_image dest: last_by_Some)
qed

text \<open>
  C21: a burned token stays burned. Live and burned tokens are written to one table by two concurrent statements. Whatever a
  batch contains, whatever the order of the statements and whether the batch succeeds or fails, a stored row that is marked
  as deleted is still stored and marked afterwards: the statement for live tokens leaves the mark alone, and the other one
  only sets it.
\<close>

theorem burned_tokens_stay_burned:
  assumes "postgres (pg_exec env)" and "clean_closed (sd_current_token_data_v2 sds) {c. cd2_is_deleted_v2 c = Some True}"
    and "run_batch (token_v2_process_transactions L R seen cfg sds durations) (env, sizes, txns) d = (res, d')"
    and "d ''current_token_datas_v2'' K = Some r" and "r ''is_deleted_v2'' = Some (SqlBool True)"
  shows "\<exists>r'. d' ''current_token_datas_v2'' K = Some r' \<and> r' ''is_deleted_v2'' = Some (SqlBool True)"
proof -
  let ?stays = "cell_stays ''current_token_datas_v2'' ''is_deleted_v2'' (SqlBool True)"
  have ins: "keeps ?stays (token_v2_insert_to_db sds sizes env rows)" if "token_v2_rows_of L R seen cfg txns = Inr rows" for rows
  proof -
    have deleted: "keeps ?stays (execute_in_chunks env insert_current_deleted_token_datas_v2_query (sd_current_token_data_v2 sds)
        (r2_current_deleted_token_datas rows) n)" for n
      by (rule execute_in_chunks_cell_stays [OF assms(1,2) deleted_rows_marked [OF that]])
        (auto simp: insert_current_deleted_token_datas_v2_query_def current_token_data_v2_row_def)
    have other: "keeps ?stays (execute_in_chunks env build sd items n)"
      if "\<And>xs. iq_table (fst (build xs)) = ''current_token_datas_v2'' \<Longrightarrow> leaves_column ''is_deleted_v2'' (fst (build xs))"
      for build :: "'x list \<Rightarrow> query" and sd items n
      by (rule execute_in_chunks_cell_stays [OF assms(1), where X = UNIV]) (use that in \<open>auto simp: clean_closed_def\<close>)
    show ?thesis
      unfolding token_v2_insert_to_db_def Let_def
      by (rule cell_stays.join_inserts_keeps) (auto intro!: deleted other simp: token_v2_query_defs leaves_column_def)
  qed
  have "?stays d d'"
    using assms(3) ins cell_stays.kept_refl
    by (auto simp: run_batch_def token_v2_process_transactions_def process_batch_def keeps_def
        split: list.splits sum.splits prod.splits)
  then show ?thesis using assms(4,5) by (auto simp: cell_stays_def)
qed

section \<open>Runs\<close>

text \<open>No lookup finds a row.\<close>

definition no_reads :: pg_reads where
  "no_reads = \<lparr>rd_first = (\<lambda>_ _ _. Inr None), rd_select = (\<lambda>_ _ _. Inr []), rd_select_first = (\<lambda>_ _ _. Inr None)\<rparr>"

lemma sample_token_v2_items:
  "collection_v1_from_write_table_item token_libs R seen n sample_token_item v i ts owners = Inr None"
  "\<exists>t cur. token_data_v1_from_write_table_item token_libs sample_token_item v i ts = Inr (Some (t, cur))"
  "ownership_v1_from_write_table_item token_libs sample_token_item v i ts owners = Inr None"
  by (simp_all add: collection_v1_from_write_table_item_def token_data_v1_from_write_table_item_def
      ownership_v1_from_write_table_item_def sample_token_item_def item_collection_data_def item_token_data_def
      item_token_data_id_def item_token_def token_from_table_item_type_def from_json_str_def parse_or_err_def token_libs_sel
      sample_token_read token_data_id_name_trunc_def token_data_uri_trunc_def sample_token_parts Let_def)

lemma token_v2_txn_run:
  "\<exists>t st'. token_v2_add_txn token_libs R seen n owners (token_txn v 0) st = Inr st' \<and>
     r2_token_datas (s2_rows st') = r2_token_datas (s2_rows st) @ [t]"
proof -
  obtain info u where txn: "txn_info (token_txn v 0) = Some info"
      "ti_changes info = [\<lparr>wsc_type = 6, wsc_change = Some (WriteTableItem sample_token_item)\<rparr>]"
      "txn_txn_data (token_txn v 0) = Some (User u)" "ut_events u = []"
    using token_txn_sel(1,4) [of v 0] by blast
  obtain request where request: "ut_request u = Some request" "get_entry_function_from_user_request request = Inr None"
    using txn(3) by (auto simp: token_txn_def sample_user_txn_def get_entry_function_from_user_request_def)
  obtain t cur where t: "token_data_v1_from_write_table_item token_libs sample_token_item (as_i64 v) 0 (0, 0) = Inr (Some (t, cur))"
    using sample_token_v2_items(2) by blast
  show ?thesis
    by (simp add: token_v2_add_txn_def txn token_txn_sel(2,3) sample_timestamp token_v2_user_txn_def request
        add_object_core_def token_v2_fill_object_def token_v2_change_def token_v2_write_table_item_def
        sample_token_v2_items(1,3) t push_v1_ownership_def push_sel Let_def)
qed

theorem token_v2_rows_have_own_keys_witness:
  "\<exists>rows. parse_v2_token token_libs no_reads (\<lambda>_ _ _ _ _. None) 1 [] [token_txn 7 0, token_txn 8 0] = Inr rows \<and>
    length (r2_token_datas rows) = 2 \<and> distinct (map d2_pk (r2_token_datas rows))"
proof -
  let ?add = "token_v2_add_txn token_libs no_reads (\<lambda>_ _ _ _ _. None) 1 []"
  obtain t1 st1 where t1: "?add (token_txn 7 0) no_token_v2_state = Inr st1"
      "r2_token_datas (s2_rows st1) = r2_token_datas (s2_rows no_token_v2_state) @ [t1]"
    using token_v2_txn_run by blast
  obtain t2 st2 where t2: "?add (token_txn 8 0) st1 = Inr st2"
      "r2_token_datas (s2_rows st2) = r2_token_datas (s2_rows st1) @ [t2]"
    using token_v2_txn_run by blast
  have run: "parse_v2_token token_libs no_reads (\<lambda>_ _ _ _ _. None) 1 [] [token_txn 7 0, token_txn 8 0] =
      Inr (token_v2_collect (s2_rows st2))" by (simp add: parse_v2_token_def t1(1) t2(1))
  have "version_ordered [token_txn 7 0, token_txn 8 0]"
    by (simp add: version_ordered_def ver_def token_txn_sel(2) as_i64_small)
  with token_v2_rows_have_own_keys [OF run] run show ?thesis
    by (auto simp: token_v2_collect_def t1(2) t2(2) no_token_v2_state_def no_token_v2_rows_def)
qed

definition sample_token_v2_serdes :: token_v2_serdes where
  "sample_token_v2_serdes =
     \<lparr>sd_collection_v2 = \<lparr>to_value = (\<lambda>_. JNull), from_value = (\<lambda>_. None)\<rparr>,
      sd_token_data_v2 = \<lparr>to_value = (\<lambda>_. JNull), from_value = (\<lambda>_. None)\<rparr>,
      sd_token_ownership_v2 = \<lparr>to_value = (\<lambda>_. JNull), from_value = (\<lambda>_. None)\<rparr>,
      sd_current_collection_v2 = \<lparr>to_value = (\<lambda>_. JNull), from_value = (\<lambda>_. None)\<rparr>,
      sd_current_token_data_v2 = \<lparr>to_value = (\<lambda>c. JString (cd2_token_data_id c)),
        from_value = (\<lambda>j. case j of
          JString i \<Rightarrow> Some (burned_token_data i \<lparr>burn_collection = ''0xd'', burn_token = i, burn_previous_owner = []\<rparr> 7 (0, 0))
        | _ \<Rightarrow> None)\<rparr>,
      sd_current_token_ownership_v2 = \<lparr>to_value = (\<lambda>_. JNull), from_value = (\<lambda>_. None)\<rparr>,
      sd_token_activity_v2 = \<lparr>to_value = (\<lambda>_. JNull), from_value = (\<lambda>_. None)\<rparr>,
      sd_current_token_v2_metadata = \<lparr>to_value = (\<lambda>_. JNull), from_value = (\<lambda>_. None)\<rparr>\<rparr>"

text \<open>A later batch writes the token whose stored row is marked as deleted.\<close>

theorem burned_tokens_stay_burned_witness:
  "\<exists>res d' r'. run_batch (token_v2_process_transactions token_libs no_reads (\<lambda>_ _ _ _ _. None)
        \<lparr>qrc_query_retries = 1, qrc_query_retry_delay_ms = 0\<rparr> sample_token_v2_serdes (0, 0)) (sample_pg, [], [token_txn 8 0])
      ((\<lambda>_. Map.empty)(''current_token_datas_v2'' :=
        [[SqlText (''0x'' @ standardize_address ''0xa'' @ ''::c::n'')] \<mapsto> [''is_deleted_v2'' \<mapsto> SqlBool True]])) = (res, d') \<and>
    d' ''current_token_datas_v2'' [SqlText (''0x'' @ standardize_address ''0xa'' @ ''::c::n'')] = Some r' \<and>
    r' ''is_deleted_v2'' = Some (SqlBool True)"
proof -
  let ?K = "[SqlText (''0x'' @ standardize_address ''0xa'' @ ''::c::n'')]"
  let ?d = "(\<lambda>_. Map.empty)(''current_token_datas_v2'' := [?K \<mapsto> [''is_deleted_v2'' \<mapsto> SqlBool True]])"
  let ?batch = "run_batch (token_v2_process_transactions token_libs no_reads (\<lambda>_ _ _ _ _. None)
        \<lparr>qrc_query_retries = 1, qrc_query_retry_delay_ms = 0\<rparr> sample_token_v2_serdes (0, 0)) (sample_pg, [], [token_txn 8 0])"
  obtain res d' where run: "?batch ?d = (res, d')" by (rule prod.exhaust)
  have pg: "postgres (pg_exec sample_pg)" by (simp add: sample_pg_ok)
  have closed: "clean_closed (sd_current_token_data_v2 sample_token_v2_serdes) {c. cd2_is_deleted_v2 c = Some True}"
    by (auto simp: clean_closed_def sample_token_v2_serdes_def remove_null_bytes_def burned_token_data_def split: json.splits)
  have "\<exists>r'. d' ''current_token_datas_v2'' ?K = Some r' \<and> r' ''is_deleted_v2'' = Some (SqlBool True)"
    by (rule burned_tokens_stay_burned [OF pg closed run, where r = "[''is_deleted_v2'' \<mapsto> SqlBool True]"]) simp_all
  with run show ?thesis by blast
qed

end
