(* ===== verification/Nft_Metadata.thy ===== *)
theory Nft_Metadata
  imports Token_V2_Models Convergence
begin

text \<open>
  \<open>processors/nft_metadata_processor.rs\<close>: the tokens and collections that a batch writes are not stored but
  published, one message for each, to a topic from which their metadata is fetched. The client of the topic,
  the clock, the text of a timestamp and the order in which a hash map yields its values are arguments.
\<close>

section \<open>Messages\<close>

record pubsub_message =
  pm_data :: string
  pm_ordering_key :: string

type_synonym topic = "pubsub_message list"

text \<open>Connecting to the service, and publishing some messages and waiting for all of them.\<close>

record pubsub_client =
  pc_connect :: "failure + unit"
  pc_publish_bulk :: "pubsub_message list \<Rightarrow> topic \<Rightarrow> (failure + unit) \<times> topic"

record nft_env =
  ne_client :: pubsub_client
  ne_now_millis :: nat
  ne_show_time :: "naive_date_time \<Rightarrow> string"
  ne_token_order :: "current_token_data_v2 list \<Rightarrow> current_token_data_v2 list"
  ne_collection_order :: "current_collection_v2 list \<Rightarrow> current_collection_v2 list"

definition nft_chunk_size :: nat where "nft_chunk_size = 1000"

definition int_to_str :: "int \<Rightarrow> string" where
  "int_to_str i = (if i < 0 then ''-'' @ nat_to_str (nat (- i)) else nat_to_str (nat i))"

definition string_serde :: "string serde" where
  "string_serde = \<lparr>to_value = JString, from_value = json_as_str\<rparr>"

text \<open>The common shape of both kinds of messages.\<close>

definition pubsub_text :: "nft_env \<Rightarrow> string \<Rightarrow> string \<Rightarrow> i64 \<Rightarrow> naive_date_time \<Rightarrow> u64 \<Rightarrow> string" where
  "pubsub_text E key uri version timestamp db_chain_id =
     key @ '','' @ uri @ '','' @ int_to_str version @ '','' @ ne_show_time E timestamp @ '','' @
     nat_to_str (unat db_chain_id) @ '',false''"

definition clean_token_pubsub_message :: "nft_env \<Rightarrow> u64 \<Rightarrow> current_token_data_v2 \<Rightarrow> failure + string" where
  "clean_token_pubsub_message E db_chain_id ctd =
     remove_null_bytes string_serde (pubsub_text E (cd2_token_data_id ctd) (cd2_token_uri ctd)
       (cd2_last_transaction_version ctd) (cd2_last_transaction_timestamp ctd) db_chain_id)"

definition clean_collection_pubsub_message :: "nft_env \<Rightarrow> u64 \<Rightarrow> current_collection_v2 \<Rightarrow> failure + string" where
  "clean_collection_pubsub_message E db_chain_id cc =
     remove_null_bytes string_serde (pubsub_text E (cc2_collection_id cc) (cc2_uri cc)
       (cc2_last_transaction_version cc) (cc2_last_transaction_timestamp cc) db_chain_id)"

definition get_current_timestamp :: "nft_env \<Rightarrow> string" where
  "get_current_timestamp E = nat_to_str (ne_now_millis E)"

section \<open>The tokens and collections of a batch\<close>

record nft_rows_state =
  nr_token_datas :: "current_token_data_v2 list"
  nr_collections :: "current_collection_v2 list"

definition nft_add ::
  "(token_data_v2 \<times> current_token_data_v2) option \<Rightarrow> (collection_v2 \<times> current_collection_v2) option \<Rightarrow> nft_rows_state \<Rightarrow>
   nft_rows_state" where
  "nft_add tdata collection st =
     \<lparr>nr_token_datas = nr_token_datas st @ map snd (opt_list tdata),
      nr_collections = nr_collections st @ map snd (opt_list collection)\<rparr>"

definition nft_change ::
  "libs \<Rightarrow> pg_reads \<Rightarrow> (nat \<Rightarrow> nat \<Rightarrow> db) \<Rightarrow> u32 \<Rightarrow> i64 \<Rightarrow> naive_date_time \<Rightarrow> table_handle_to_owner \<Rightarrow>
   object_aggregated_data_mapping \<Rightarrow> nat \<times> write_set_change_pb \<Rightarrow> nft_rows_state \<Rightarrow> failure + nft_rows_state" where
  "nft_change L R seen query_retries version timestamp owners objects iw st =
     (case iw of (index, wsc) \<Rightarrow>
      and_then (expect ''called Option::unwrap on a None value'' (wsc_change wsc)) (\<lambda>change.
      case change of
        WriteTableItem wti \<Rightarrow>
          and_then (unwrap_result (token_data_v1_from_write_table_item L wti version (int index) timestamp)) (\<lambda>tdata.
          and_then (unwrap_result (collection_v1_from_write_table_item L R (seen index) query_retries wti version (int index)
              timestamp owners)) (\<lambda>collection.
          Inr (nft_add tdata collection st)))
      | WriteResource wr \<Rightarrow>
          and_then (unwrap_result (token_data_v2_from_write_resource L wr version (int index) timestamp objects)) (\<lambda>tdata.
          and_then (unwrap_result (collection_v2_from_write_resource L wr version (int index) timestamp objects)) (\<lambda>collection.
          Inr (nft_add tdata collection st)))
      | _ \<Rightarrow> Inr st))"

definition nft_add_txn ::
  "libs \<Rightarrow> pg_reads \<Rightarrow> (i64 \<Rightarrow> nat \<Rightarrow> nat \<Rightarrow> db) \<Rightarrow> u32 \<Rightarrow> table_handle_to_owner \<Rightarrow> transaction \<Rightarrow> nft_rows_state \<Rightarrow>
   failure + nft_rows_state" where
  "nft_add_txn L R seen query_retries owners txn st =
     (let version = as_i64 (txn_version txn) in
      and_then (expect ''called Option::unwrap on a None value'' (txn_timestamp txn)) (\<lambda>ts.
      and_then (parse_timestamp L ts) (\<lambda>timestamp.
      and_then (expect ''Transaction info doesn't exist!'' (txn_info txn)) (\<lambda>info.
      and_then (fold_result (add_object_core L version) (ti_changes info) []) (\<lambda>objects.
      fold_result (nft_change L R (seen version) query_retries version timestamp owners objects)
        (enumerate 0 (ti_changes info)) st)))))"

definition nft_parse_v2_token ::
  "libs \<Rightarrow> pg_reads \<Rightarrow> (i64 \<Rightarrow> nat \<Rightarrow> nat \<Rightarrow> db) \<Rightarrow> u32 \<Rightarrow> nft_env \<Rightarrow> table_handle_to_owner \<Rightarrow> transaction list \<Rightarrow>
   failure + current_token_data_v2 list \<times> current_collection_v2 list" where
  "nft_parse_v2_token L R seen query_retries E owners transactions =
     and_then (fold_result (nft_add_txn L R seen query_retries owners) transactions \<lparr>nr_token_datas = [], nr_collections = []\<rparr>)
       (\<lambda>st. Inr (ne_token_order E (map snd (collect_by cd2_token_data_id (nr_token_datas st) [])),
                  ne_collection_order E (map snd (collect_by cc2_collection_id (nr_collections st) []))))"

section \<open>Publishing\<close>

fun publish_chunks :: "pubsub_client \<Rightarrow> pubsub_message list list \<Rightarrow> topic \<Rightarrow> (failure + unit) \<times> topic" where
  "publish_chunks client [] t = (Inr (), t)"
| "publish_chunks client (chunk # rest) t =
     (case pc_publish_bulk client chunk t of
        (Inl f, t') \<Rightarrow> (Inl f, t')
      | (Inr _, t') \<Rightarrow> publish_chunks client rest t')"

definition nft_messages ::
  "nft_env \<Rightarrow> u64 \<Rightarrow> current_token_data_v2 list \<Rightarrow> current_collection_v2 list \<Rightarrow> failure + pubsub_message list" where
  "nft_messages E db_chain_id token_datas collections =
     (let message = (\<lambda>text. \<lparr>pm_data = text, pm_ordering_key = get_current_timestamp E\<rparr>) in
      and_then (map_result (clean_token_pubsub_message E db_chain_id) token_datas) (\<lambda>ts.
      and_then (map_result (clean_collection_pubsub_message E db_chain_id) collections) (\<lambda>cs.
      Inr (map message ts @ map message cs))))"

definition nft_process_transactions ::
  "libs \<Rightarrow> pg_reads \<Rightarrow> (i64 \<Rightarrow> nat \<Rightarrow> nat \<Rightarrow> db) \<Rightarrow> nft_metadata_processor_config \<Rightarrow> nft_env \<Rightarrow> rat \<times> rat \<Rightarrow>
   transaction list \<Rightarrow> u64 \<Rightarrow> u64 \<Rightarrow> u64 option \<Rightarrow> topic \<Rightarrow> (failure + processing_result) \<times> topic" where
  "nft_process_transactions L R seen cfg E durations transactions start_version end_version db_chain_id topic =
     (if transactions = [] then (Inl (Panic ''called Option::unwrap on a None value''), topic)
      else
        (case and_then (expect ''[NFT Metadata Crawler] db_chain_id must not be null'' db_chain_id) (\<lambda>chain_id.
              and_then (get_table_handle_to_owner_from_transactions L transactions) (\<lambda>owners.
              and_then (pc_connect (ne_client E)) (\<lambda>_.
              and_then (nft_parse_v2_token L R seen (qrc_query_retries cfg) E owners transactions) (\<lambda>(token_datas, collections).
              nft_messages E chain_id token_datas collections)))) of
           Inl f \<Rightarrow> (Inl f, topic)
         | Inr pubsub_messages \<Rightarrow>
             (case publish_chunks (ne_client E) (chunks nft_chunk_size pubsub_messages) topic of
                (Inl f, topic') \<Rightarrow> (Inl f, topic')
              | (Inr _, topic') \<Rightarrow>
                  (Inr \<lparr>pr_start_version = start_version, pr_end_version = end_version,
                        pr_last_transaction_timestamp = txn_timestamp (last transactions),
                        pr_processing_duration_in_secs = fst durations, pr_db_insertion_duration_in_secs = snd durations\<rparr>,
                   topic'))))"

section \<open>What is published\<close>

lemma clean_text: "remove_null_bytes string_serde s = Inr (string_null_byte_replacement s)"
proof -
  have "string_null_byte_replacement [] = []" by code_simp
  then show ?thesis by (simp add: remove_null_bytes_def string_serde_def)
qed

text \<open>
  What the service promises: a successful bulk has appended its messages to the topic. The values of a map
  come in some order.
\<close>

definition publisher_ok :: "nft_env \<Rightarrow> bool" where
  "publisher_ok E \<longleftrightarrow> (\<forall>ms t u t'. pc_publish_bulk (ne_client E) ms t = (Inr u, t') \<longrightarrow> t' = t @ ms) \<and>
     (\<forall>ds. mset (ne_token_order E ds) = mset ds) \<and> (\<forall>cs. mset (ne_collection_order E cs) = mset cs)"

lemma publish_chunks_appends:
  "publisher_ok E \<Longrightarrow> publish_chunks (ne_client E) ms t = (Inr u, t') \<Longrightarrow> t' = t @ concat ms"
proof (induction ms arbitrary: t)
  case (Cons m ms)
  obtain r t1 where 1: "pc_publish_bulk (ne_client E) m t = (r, t1)" by (rule prod.exhaust)
  with Cons.prems obtain u' where r: "r = Inr u'" by (cases r) auto
  with 1 Cons.prems have "t1 = t @ m" by (simp add: publisher_ok_def)
  moreover have "t' = t1 @ concat ms" by (rule Cons.IH [OF Cons.prems(1)]) (use Cons.prems(2) 1 r in simp)
  ultimately show ?case by simp
qed simp

text \<open>
  A batch that succeeds has published one message for each token and each collection that it writes, the last of
  its writes, and nothing else.
\<close>

lemma published:
  assumes "publisher_ok E" and "nft_process_transactions L R seen cfg E durations ts v w db_chain topic = (Inr r, topic')"
  obtains owners c st ms where "get_table_handle_to_owner_from_transactions L ts = Inr owners" and "db_chain = Some c"
    and "fold_result (nft_add_txn L R seen (qrc_query_retries cfg) owners) ts \<lparr>nr_token_datas = [], nr_collections = []\<rparr> = Inr st"
    and "topic' = topic @ ms"
    and "mset (map pm_data ms) =
      image_mset (\<lambda>d. string_null_byte_replacement (pubsub_text E (cd2_token_data_id d) (cd2_token_uri d)
        (cd2_last_transaction_version d) (cd2_last_transaction_timestamp d) c))
        (mset (map snd (collect_by cd2_token_data_id (nr_token_datas st) []))) +
      image_mset (\<lambda>d. string_null_byte_replacement (pubsub_text E (cc2_collection_id d) (cc2_uri d)
        (cc2_last_transaction_version d) (cc2_last_transaction_timestamp d) c))
        (mset (map snd (collect_by cc2_collection_id (nr_collections st) [])))"
proof -
  obtain c owners tds cs ms where c: "db_chain = Some c" and owners: "get_table_handle_to_owner_from_transactions L ts = Inr owners"
    and rows: "nft_parse_v2_token L R seen (qrc_query_retries cfg) E owners ts = Inr (tds, cs)"
    and ms: "nft_messages E c tds cs = Inr ms" and pub: "publish_chunks (ne_client E) (chunks nft_chunk_size ms) topic = (Inr (), topic')"
    using assms(2) by (auto simp: nft_process_transactions_def split: if_splits sum.splits prod.splits)
  obtain st where st: "fold_result (nft_add_txn L R seen (qrc_query_retries cfg) owners) ts
      \<lparr>nr_token_datas = [], nr_collections = []\<rparr> = Inr st"
    and tds: "tds = ne_token_order E (map snd (collect_by cd2_token_data_id (nr_token_datas st) []))"
    and cs: "cs = ne_collection_order E (map snd (collect_by cc2_collection_id (nr_collections st) []))"
    using rows by (auto simp: nft_parse_v2_token_def)
  have order: "mset tds = mset (map snd (collect_by cd2_token_data_id (nr_token_datas st) []))"
    "mset cs = mset (map snd (collect_by cc2_collection_id (nr_collections st) []))"
    using assms(1) by (simp_all add: publisher_ok_def tds cs)
  have total: "map_result (\<lambda>x. Inr (g x)) xs = Inr (map g xs)" for g :: "'x \<Rightarrow> 'y" and xs
    by (induction xs) auto
  have data: "map pm_data ms = map (\<lambda>d. string_null_byte_replacement (pubsub_text E (cd2_token_data_id d) (cd2_token_uri d)
        (cd2_last_transaction_version d) (cd2_last_transaction_timestamp d) c)) tds @
      map (\<lambda>d. string_null_byte_replacement (pubsub_text E (cc2_collection_id d) (cc2_uri d)
        (cc2_last_transaction_version d) (cc2_last_transaction_timestamp d) c)) cs"
    using ms by (auto simp: nft_messages_def clean_token_pubsub_message_def [abs_def] Let_def
        clean_collection_pubsub_message_def [abs_def] clean_text total comp_def)
  have "topic' = topic @ ms"
    using publish_chunks_appends [OF assms(1) pub] by (simp add: concat_chunks nft_chunk_size_def)
  then show ?thesis by (rule that [OF owners c st]) (simp only: data mset_append mset_map [of _ tds] mset_map [of _ cs] order)
qed

end
