(* ===== verification/Build_Processor.thy ===== *)
theory Build_Processor
  imports Pipeline Default_Processor User_Transactions Coin_Processor Events Objects Account_Transactions
    Fungible_Asset_Processor Transaction_Metadata Ans_Processor Stake_Processor Token_V2_Processor Nft_Metadata
begin

text \<open>
  \<open>worker.rs\<close>, \<open>build_processor\<close>: the processor of a configuration. All that the processors take from outside is one
  record; a processor looks at the part that concerns it. The NFT metadata processor publishes to a topic and
  leaves the database alone.
\<close>

record processor_params =
  pp_libs :: libs
  pp_reads :: pg_reads
  pp_seen :: "i64 \<Rightarrow> nat \<Rightarrow> nat \<Rightarrow> db"
  pp_stake_seen :: "i64 \<Rightarrow> nat \<Rightarrow> nat \<Rightarrow> nat \<Rightarrow> db"
  pp_durations :: "rat \<times> rat"
  pp_account_transaction :: "account_transaction serde"
  pp_ans :: ans_serdes
  pp_coin :: coin_serdes
  pp_default :: default_serdes
  pp_event :: "event_model serde"
  pp_fungible_asset :: fa_serdes
  pp_object :: "object_row_data serde"
  pp_current_object :: "current_object serde"
  pp_stake :: stake_serdes
  pp_token :: token_serdes
  pp_token_v2 :: token_v2_serdes
  pp_sizes :: size_serdes
  pp_user_transaction :: "user_transaction_model serde"
  pp_signature :: "signature serde"
  pp_nft :: nft_env
  pp_topic :: topic

definition build_processor :: "processor_params \<Rightarrow> processor_config \<Rightarrow> (string \<times> nat) list \<Rightarrow> process_fn" where
  "build_processor P config per_table_chunk_sizes =
     (let L = pp_libs P; first = rd_first (pp_reads P); seen = pp_seen P; durations = pp_durations P in
      case config of
        AccountTransactionsProcessor \<Rightarrow>
          account_transactions_process_transactions L (pp_account_transaction P) durations per_table_chunk_sizes
      | AnsProcessor c \<Rightarrow> ans_process_transactions L c (pp_ans P) durations per_table_chunk_sizes
      | CoinProcessor \<Rightarrow> coin_process_transactions L (pp_coin P) durations per_table_chunk_sizes
      | DefaultProcessor \<Rightarrow> default_process_transactions L (pp_default P) durations per_table_chunk_sizes
      | EventsProcessor \<Rightarrow> events_process_transactions L (pp_event P) durations per_table_chunk_sizes
      | FungibleAssetProcessor \<Rightarrow> fa_process_transactions L (pp_fungible_asset P) durations per_table_chunk_sizes
      | MonitoringProcessor \<Rightarrow> monitoring_process_transactions
      | NftMetadataProcessor c \<Rightarrow>
          (\<lambda>env transactions start_version end_version db_chain_id d.
             (fst (nft_process_transactions L (pp_reads P) seen c (pp_nft P) durations transactions start_version end_version
                db_chain_id (pp_topic P)), d))
      | ObjectsProcessor c \<Rightarrow>
          objects_process_transactions L first seen (qrc_query_retries c) (pp_object P) (pp_current_object P) durations
            per_table_chunk_sizes
      | StakeProcessor c \<Rightarrow>
          stake_process_transactions L first (pp_stake_seen P) (qrc_query_retries c) (pp_stake P) durations per_table_chunk_sizes
      | TokenProcessor c \<Rightarrow> token_process_transactions L first seen c (pp_token P) durations per_table_chunk_sizes
      | TokenV2Processor c \<Rightarrow>
          token_v2_process_transactions L (pp_reads P) seen c (pp_token_v2 P) durations per_table_chunk_sizes
      | TransactionMetadataProcessor \<Rightarrow> sizes_process_transactions (pp_sizes P) durations per_table_chunk_sizes
      | UserTransactionProcessor \<Rightarrow>
          user_process_transactions L (pp_user_transaction P) (pp_signature P) durations per_table_chunk_sizes)"

section \<open>Every processor keeps the contract of the worker\<close>

lemmas process_defs = account_transactions_process_transactions_def ans_process_transactions_def coin_process_transactions_def
  default_process_transactions_def events_process_transactions_def fa_process_transactions_def
  objects_process_transactions_def stake_process_transactions_def token_process_transactions_def
  token_v2_process_transactions_def sizes_process_transactions_def user_process_transactions_def

lemmas process_traits = account_transactions_processor.processor_trait_axioms ans_processor.processor_trait_axioms
  coin_processor.processor_trait_axioms default_processor.processor_trait_axioms events_processor.processor_trait_axioms
  fa_processor.processor_trait_axioms monitoring.processor_trait_axioms objects_processor.processor_trait_axioms
  stake_processor.processor_trait_axioms token_processor.processor_trait_axioms token_v2_processor.processor_trait_axioms
  sizes_processor.processor_trait_axioms user_processor.processor_trait_axioms

interpretation nft_metadata: processor_trait
  "\<lambda>env transactions start_version end_version db_chain_id d.
     (fst (nft_process_transactions L R seen cfg E durations transactions start_version end_version db_chain_id topic), d)"
  for L R seen cfg E durations topic
  by unfold_locales (auto simp: nft_process_transactions_def split: if_splits sum.splits prod.splits)

interpretation built: processor_trait "build_processor P config sizes" for P config sizes
proof -
  show "processor_trait (build_processor P config sizes)"
    by (cases config) (simp_all add: build_processor_def process_defs process_traits nft_metadata.processor_trait_axioms Let_def)
qed

end
