(* ===== verification/Spec2Isabelle.thy ===== *)
theory Spec2Isabelle
  imports Build_Processor Property_Map Transaction_Filter Serde
begin

text \<open>
  The Aptos indexer reads the transactions of the Aptos chain from a gRPC stream, cuts them into batches,
  hands the batches to concurrent tasks, turns every batch into rows of a PostgreSQL database with one
  of its processors, and keeps in the table \<open>processor_status\<close> the version up to which everything has
  been processed, where it resumes after a restart. This development models the Rust crates under
  \<open>src/rust\<close>; paths below are relative to \<open>src/rust/processor/src\<close>.

  \<^bold>\<open>Shared theories.\<close> \<open>Prelude\<close>: results as sums (\<open>failure\<close> is a panic or an error, \<open>and_then\<close> is \<open>?\<close>),
  machine integers, hash maps as association lists, chunks, and \<open>collects\<close>, the rows collected in a map
  in which a later row replaces an earlier one. \<open>Proto\<close>: the protobuf messages that the crate
  \<open>aptos-protos\<close> generates. \<open>Rust_Str\<close> and \<open>Serde\<close>: what the code uses of Rust's strings and of the
  derived deserializers. \<open>Postgres\<close>: the queries as data, the documented effect of \<open>INSERT ... ON CONFLICT\<close>
  as the locale \<open>postgres\<close>, and the locale \<open>upsert_shape\<close>, where a guarded upsert refines the map that
  keeps the winning version of every key. Third-party functions (JSON parsing, hashing, BCS, decimal
  numbers, time) are the fields of the record \<open>libs\<close> of \<open>Util\<close>; the server, the order in which its tasks
  run and its debug text are the record \<open>pg_env\<close> of \<open>Database\<close>.

  \<^bold>\<open>The pipeline.\<close> \<open>Grpc_Stream\<close> (\<open>grpc_stream.rs\<close>): connecting, requesting and the fetch loop with its gap
  check, filter (\<open>Transaction_Filter\<close>), splitting and reconnects. \<open>Gap_Detector\<close> (\<open>gap_detector.rs\<close>): the
  detector and the status tracker. \<open>Processor\<close> (\<open>processors/mod.rs\<close>, \<open>models/processor_status.rs\<close>,
  \<open>models/ledger_info.rs\<close>): the trait as a locale and the status table. \<open>Worker\<close> (\<open>worker.rs\<close>): start-up,
  the chain id check, the loop of a task. \<open>Pipeline\<close>: the fetcher, the tasks and the status tracker as one
  step relation in which every interleaving is a sequence of steps. Shown: the detector acknowledges only
  versions that were processed and, with enough reports, all of them; the fetcher sends,
  for the responses \<open>received\<close> from the stream, in order and each exactly once, what passes the filter, accepts
  only responses that continue the last one, ends only at the configured version and gives up after a bounded
  number of retries; in every
  reachable state the stored version is covered by batches that were written, and a restart resumes after
  it. The fuel of the fetch loop is the number of stream items it reads; \<open>fetcher_delivers\<close> and
  \<open>fetcher_gives_up\<close> state how much of it is enough.

  \<^bold>\<open>The database.\<close> \<open>Database\<close> (\<open>utils/database.rs\<close>): chunked concurrent inserts with the retry on cleaned rows
  and the \<open>WHERE\<close> guard that is dropped when the text of the query contains the word. Three contracts carry
  the processors: \<open>guarded_query\<close> (an upsert with a guard: when the guard is kept in every statement, any order of statements
  gives the same table; when it is dropped in some, the stored rows are still rows that were inserted),
  \<open>keyed_insert\<close> (the keys of a table after an insert) and \<open>kept_relation\<close>, what statements, chunks, retries and
  joins keep of the database, interpreted for tables, columns and values that are left alone.
  \<open>Convergence\<close> lifts them to sequences of batches: \<open>batch_processor\<close> is the common shape of
  \<open>process_transactions\<close>, \<open>current_table\<close> and \<open>latest_table\<close> give the content of a table \<open>current_...\<close> from the
  history of transactions alone: \<open>stored_from\<close> always holds (a row for exactly the keys of the history, each
  one of the rows of its key), and where \<open>guards_kept\<close> says that no statement lost its guard the row is the last one; \<open>append_table\<close> gives the keys of a table that keeps every row.

  \<^bold>\<open>Utilities.\<close> \<open>Util\<close> (\<open>utils/util.rs\<close>), \<open>Property_Map\<close> (\<open>models/property_map.rs\<close>), \<open>Moving_Average\<close>
  (\<open>src/rust/moving-average\<close>).

  \<^bold>\<open>The processors\<close>, each with the rows of its models, its queries and its \<open>process_transactions\<close>, and each that
  stores rows an interpretation of \<open>batch_processor\<close>: \<open>Default_Models\<close> and \<open>Default_Processor\<close> (blocks, transactions, write
  set changes, modules, resources, tables); \<open>Signatures\<close> and \<open>User_Transactions\<close>; \<open>Coin_Models\<close> and
  \<open>Coin_Processor\<close>; \<open>Events\<close>; \<open>Objects\<close>, with the resources of digital and fungible assets in
  \<open>Object_Utils\<close>; \<open>Account_Transactions\<close>; \<open>Fungible_Assets\<close> and \<open>Fungible_Asset_Processor\<close>;
  \<open>Transaction_Metadata\<close> (sizes); \<open>Ans_Models\<close> and \<open>Ans_Processor\<close> (names);
  \<open>Stake_Models\<close> and \<open>Stake_Processor\<close> (staking pools, delegated stake, votes);
  \<open>Token_Models\<close> and \<open>Token_Processor\<close> (the tokens of version 1); \<open>Token_V2_Models\<close> and \<open>Token_V2_Processor\<close>
  (tokens of both versions in common tables, with owners, burns and metadata); \<open>Nft_Metadata\<close>, which publishes
  messages instead of storing rows. \<open>Build_Processor\<close> (\<open>build_processor\<close> of \<open>worker.rs\<close>) makes the processor
  of a configuration and shows that each of them keeps the contract of the worker, so that what \<open>Pipeline\<close> proves
  holds of all of them (\<open>indexer_no_loss\<close> below). Shown, for the tables named in
  the theorems: every row is accounted for by the transaction it comes from, no statement proposes a key
  twice, and the tables of current rows converge whatever the batches, their order and their repetitions,
  as long as no text of a statement contains the word \<open>where\<close>; and where the code falls short of this, what it
  does instead (\<open>token_data_guard\<close> is the case of a statement that lost its guard).

  \<^bold>\<open>Not modelled.\<close> The command line, the health endpoint and the metrics (\<open>server-framework\<close>,
  \<open>indexer-metrics\<close>), which are input and output around third-party libraries; the defaults of the configuration
  file; log lines, counters, the floating-point time metrics of \<open>utils/util.rs\<close>, the connection pool with its TLS
  set-up, and the migrations, which are library calls.
\<close>

section \<open>The whole indexer\<close>

text \<open>
  C1: for every configured processor, the responses the fetcher accepted, none of which was split, and any
  interleaving of the tasks: when the stored version of the processor has been advanced to \<open>stored\<close>, every
  transaction of the stream up to \<open>stored\<close> that passes the filter belongs to a batch whose processing has
  finished. A restart, which resumes after \<open>stored\<close>, therefore skips nothing.
\<close>

theorem indexer_no_loss:
  assumes "pe_process e = build_processor P config per_table_chunk_sizes" and "pe_name e = processor_name config"
    and "postgres (pg_exec (pe_pg e))"
    and "resp_chain (fc_starting_version cfg) rs" and "list_all ordered_resp rs" and "list_all (unsplit cfg) rs"
    and "(pipeline_step e)\<^sup>*\<^sup>*
      (pipeline_init (concat (map (sent_for genv cfg) rs)) (fc_starting_version cfg) t0 d) q"
    and "last_version (tk_store (pl_tracker q)) (processor_name config) = Some stored"
    and "last_version d (processor_name config) \<noteq> Some stored"
    and "r \<in> set rs" and "t \<in> set (tr_transactions r)" and "txn_version t \<le> as_u64 stored"
    and "include_txn (fc_transaction_filter cfg) t"
  shows "list_ex (\<lambda>b. t \<in> set (tpr_transactions b)) (pl_done q)"
proof (rule pipeline_no_loss [OF assms(4-7)])
  show "processor_trait (pe_process e)" by (simp add: assms(1) built.processor_trait_axioms)
qed (use assms in simp_all)

theorem indexer_no_loss_witness:
  "\<exists>q. (pipeline_step run_env)\<^sup>*\<^sup>* (pipeline_init (sent_for (sample_env []) (run_cfg 10) stamped_response) 7 0
      (\<lambda>_. Map.empty)) q \<and>
    last_version (tk_store (pl_tracker q)) (processor_name MonitoringProcessor) = Some 8 \<and>
    list_ex (\<lambda>b. stamped_txn 7 \<in> set (tpr_transactions b)) (pl_done q)"
proof -
  obtain q where reach: "(pipeline_step run_env)\<^sup>*\<^sup>* (pipeline_init (concat (map (sent_for (sample_env []) (run_cfg 10))
      [stamped_response])) (fc_starting_version (run_cfg 10)) 0 (\<lambda>_. Map.empty)) q"
    and v: "last_version (tk_store (pl_tracker q)) (processor_name MonitoringProcessor) = Some 8"
    using stamped_run by auto
  have "list_ex (\<lambda>b. stamped_txn 7 \<in> set (tpr_transactions b)) (pl_done q)"
    by (rule indexer_no_loss [OF _ _ _ _ stamped_ok(2) _ reach v _ _ _ _ stamped_ok(3), of _ _ stamped_response])
      (use stamped_ok(1) sample_pg_ok(1) in
        \<open>simp_all add: run_env_def build_processor_def run_cfg_def sample_cfg_def unsplit_def stamped_response_def
          last_version_def stamped_txn_def sample_txn_def as_u64_def\<close>)
  with reach v show ?thesis by (auto simp: start_run_cfg)
qed

end
